(* ===== verification/Prelude.thy ===== *)
theory Prelude
  imports Main "HOL-Library.Word"
begin

text \<open>
  Shared vocabulary of the development: the names of the model's basic types, the
  error-and-state monad the stateful code is written in, its validity triples, 64-bit
  wrap-around, and tables of rows looked up and updated by a key.
\<close>

section \<open>Collections and basic types\<close>

named_theorems keeps_intros \<open>rules that a computation keeps an invariant\<close>
named_theorems table_simps \<open>lookup and update of rows by key\<close>
named_theorems io_simps \<open>unfolding of the state-and-error monad\<close>
named_theorems run_dests \<open>what the parts of a run that returned a value did\<close>

text \<open>
  A UUID is its 16 bytes, read big-endian. The zero value of a Go \<open>uuid.UUID\<close> is 0.
  A \<open>time.Time\<close> is the number of nanoseconds after Go's zero time, so that
  \<open>t.IsZero()\<close> is \<open>t = 0\<close>; a \<open>time.Duration\<close> is a 64-bit number of nanoseconds.
\<close>

type_synonym uuid = "128 word"
type_synonym time = int
type_synonym duration = int

definition second :: duration where "second = 1000000000"

section \<open>64-bit two's complement integers\<close>

definition wrap64 :: "int \<Rightarrow> int" where
  "wrap64 x = (x + 2 ^ 63) mod 2 ^ 64 - 2 ^ 63"

definition int64 :: "int \<Rightarrow> bool" where
  "int64 x \<longleftrightarrow> - (2 ^ 63) \<le> x \<and> x < 2 ^ 63"

lemma int64_wrap64 [simp]: "int64 (wrap64 x)"
  by (simp add: int64_def wrap64_def)

lemma wrap64_id: "int64 x \<Longrightarrow> wrap64 x = x"
  by (simp add: int64_def wrap64_def mod_pos_pos_trivial)

lemma wrap64_idem [simp]: "wrap64 (wrap64 x) = wrap64 x"
  by (rule wrap64_id) simp

section \<open>Computations that read and write a world and may fail\<close>

text \<open>
  A Go function that takes a context, has effects and returns \<open>(T, error)\<close> is a function
  from the world to either an error or a value, and the world after it. The world after an
  error is kept: Go does not undo what was done before the error.
\<close>

type_synonym ('w, 'e, 'a) io = "'w \<Rightarrow> ('e + 'a) \<times> 'w"

definition ret :: "'a \<Rightarrow> ('w, 'e, 'a) io" where
  "ret x = (\<lambda>w. (Inr x, w))"

definition throw :: "'e \<Rightarrow> ('w, 'e, 'a) io" where
  "throw e = (\<lambda>w. (Inl e, w))"

definition bind :: "('w, 'e, 'a) io \<Rightarrow> ('a \<Rightarrow> ('w, 'e, 'b) io) \<Rightarrow> ('w, 'e, 'b) io" where
  "bind m f = (\<lambda>w. case m w of (Inl e, w') \<Rightarrow> (Inl e, w') | (Inr x, w') \<Rightarrow> f x w')"

text \<open>\<open>attempt m\<close> is a call whose error the code inspects instead of returning it.\<close>

definition attempt :: "('w, 'e, 'a) io \<Rightarrow> ('w, 'e, 'e + 'a) io" where
  "attempt m = (\<lambda>w. case m w of (r, w') \<Rightarrow> (Inr r, w'))"

text \<open>\<open>on_err g m\<close> is \<open>if err != nil { return g(err) }\<close> after the call \<open>m\<close>.\<close>

definition on_err :: "('e \<Rightarrow> 'e) \<Rightarrow> ('w, 'e, 'a) io \<Rightarrow> ('w, 'e, 'a) io" where
  "on_err g m = (\<lambda>w. case m w of (Inl e, w') \<Rightarrow> (Inl (g e), w') | (Inr x, w') \<Rightarrow> (Inr x, w'))"

definition from_sum :: "'e + 'a \<Rightarrow> ('w, 'e, 'a) io" where
  "from_sum r = (\<lambda>w. (r, w))"

definition get_w :: "('w \<Rightarrow> 'a) \<Rightarrow> ('w, 'e, 'a) io" where
  "get_w f = (\<lambda>w. (Inr (f w), w))"

definition upd_w :: "('w \<Rightarrow> 'w) \<Rightarrow> ('w, 'e, unit) io" where
  "upd_w f = (\<lambda>w. (Inr (), f w))"

lemma bind_unfold [io_simps]:
  "bind m f w = (case m w of (Inl e, w') \<Rightarrow> (Inl e, w') | (Inr x, w') \<Rightarrow> f x w')"
  by (simp add: bind_def)

lemma io_basic [io_simps]:
  "ret x w = (Inr x, w)" "throw e w = (Inl e, w)" "from_sum r w = (r, w)"
  "get_w h w = (Inr (h w), w)" "upd_w u w = (Inr (), u w)"
  by (simp_all add: ret_def throw_def from_sum_def get_w_def upd_w_def)

lemma attempt_unfold [io_simps]: "attempt m w = (case m w of (r, w') \<Rightarrow> (Inr r, w'))"
  by (simp add: attempt_def)

lemma on_err_unfold [io_simps]:
  "on_err g m w = (case m w of (Inl e, w') \<Rightarrow> (Inl (g e), w') | (Inr x, w') \<Rightarrow> (Inr x, w'))"
  by (simp add: on_err_def)

lemma bind_ret_left [simp]: "bind (ret x) f = f x"
  by (simp add: fun_eq_iff io_simps)

lemma bind_throw [simp]: "bind (throw e) f = throw e"
  by (simp add: fun_eq_iff io_simps)

lemma bind_InrD [run_dests]:
  "bind m f w = (Inr b, w'') \<Longrightarrow> \<exists>a w'. m w = (Inr a, w') \<and> f a w' = (Inr b, w'')"
  by (auto simp: io_simps split: prod.splits sum.splits)

lemma on_err_InrD [run_dests]: "on_err g m w = (Inr b, w') \<Longrightarrow> m w = (Inr b, w')"
  by (auto simp: io_simps split: prod.splits sum.splits)

section \<open>Validity triples\<close>

text \<open>
  \<open>spec P m Q E\<close>: from a world satisfying \<open>P\<close>, a value is returned in a world satisfying
  \<open>Q\<close> or an error in a world satisfying \<open>E\<close>. \<open>keeps I m\<close>: \<open>m\<close> keeps \<open>I\<close> whatever it returns.
\<close>

definition spec ::
  "('w \<Rightarrow> bool) \<Rightarrow> ('w, 'e, 'a) io \<Rightarrow> ('a \<Rightarrow> 'w \<Rightarrow> bool) \<Rightarrow> ('e \<Rightarrow> 'w \<Rightarrow> bool) \<Rightarrow> bool" where
  "spec P m Q E \<longleftrightarrow>
     (\<forall>w. P w \<longrightarrow> (case m w of (Inl e, w') \<Rightarrow> E e w' | (Inr x, w') \<Rightarrow> Q x w'))"

definition keeps :: "('w \<Rightarrow> bool) \<Rightarrow> ('w, 'e, 'a) io \<Rightarrow> bool" where
  "keeps I m \<longleftrightarrow> (\<forall>w. I w \<longrightarrow> I (snd (m w)))"

lemma specI:
  "(\<And>w x w'. P w \<Longrightarrow> m w = (Inr x, w') \<Longrightarrow> Q x w') \<Longrightarrow>
   (\<And>w e w'. P w \<Longrightarrow> m w = (Inl e, w') \<Longrightarrow> E e w') \<Longrightarrow> spec P m Q E"
  by (auto simp: spec_def split: prod.splits sum.splits)

lemma specD_Inr: "spec P m Q E \<Longrightarrow> P w \<Longrightarrow> m w = (Inr x, w') \<Longrightarrow> Q x w'"
  by (auto simp: spec_def)

lemma specD_Inl: "spec P m Q E \<Longrightarrow> P w \<Longrightarrow> m w = (Inl e, w') \<Longrightarrow> E e w'"
  by (auto simp: spec_def)

lemma spec_bind:
  "spec P m R E \<Longrightarrow> (\<And>x. spec (R x) (f x) Q E) \<Longrightarrow> spec P (bind m f) Q E"
  by (fastforce simp: spec_def io_simps split: prod.splits sum.splits)

lemma spec_ret: "(\<And>w. P w \<Longrightarrow> Q x w) \<Longrightarrow> spec P (ret x) Q E"
  by (simp add: spec_def io_simps)

lemma spec_throw: "(\<And>w. P w \<Longrightarrow> E e w) \<Longrightarrow> spec P (throw e) Q E"
  by (simp add: spec_def io_simps)

lemma spec_on_err: "spec P m Q (\<lambda>e. E (g e)) \<Longrightarrow> spec P (on_err g m) Q E"
  by (fastforce simp: spec_def io_simps split: prod.splits sum.splits)

lemma spec_weaken:
  "spec P' m Q' E' \<Longrightarrow> (\<And>w. P w \<Longrightarrow> P' w) \<Longrightarrow> (\<And>x w. Q' x w \<Longrightarrow> Q x w) \<Longrightarrow>
   (\<And>e w. E' e w \<Longrightarrow> E e w) \<Longrightarrow> spec P m Q E"
  by (fastforce simp: spec_def split: prod.splits sum.splits)

lemma bind_assoc: "bind (bind m f) g = bind m (\<lambda>x. bind (f x) g)"
  by (simp add: bind_def fun_eq_iff split: prod.split sum.split)

lemma keepsD: "keeps I m \<Longrightarrow> I w \<Longrightarrow> m w = (r, w') \<Longrightarrow> I w'"
  by (metis keeps_def snd_conv)

lemma keepsI: "(\<And>w r w'. I w \<Longrightarrow> m w = (r, w') \<Longrightarrow> I w') \<Longrightarrow> keeps I m"
  by (metis keeps_def surjective_pairing)

lemma keeps_ret [keeps_intros]: "keeps I (ret x)"
  by (simp add: keeps_def io_simps)

lemma keeps_throw [keeps_intros]: "keeps I (throw e)"
  by (simp add: keeps_def io_simps)

lemma keeps_from_sum [keeps_intros]: "keeps I (from_sum r)"
  by (simp add: keeps_def io_simps)

lemma keeps_get_w [keeps_intros]: "keeps I (get_w f)"
  by (simp add: keeps_def io_simps)

lemma keeps_upd_w: "(\<And>w. I w \<Longrightarrow> I (u w)) \<Longrightarrow> keeps I (upd_w u)"
  by (simp add: keeps_def io_simps)

lemma keeps_bind [keeps_intros]:
  "keeps I m \<Longrightarrow> (\<And>x. keeps I (f x)) \<Longrightarrow> keeps I (bind m f)"
  by (fastforce simp: keeps_def io_simps split: prod.splits sum.splits)

lemma keeps_attempt [keeps_intros]: "keeps I m \<Longrightarrow> keeps I (attempt m)"
  by (fastforce simp: keeps_def io_simps split: prod.splits)

lemma keeps_on_err [keeps_intros]: "keeps I m \<Longrightarrow> keeps I (on_err g m)"
  by (fastforce simp: keeps_def io_simps split: prod.splits sum.splits)

lemma keeps_if [keeps_intros]:
  "(b \<Longrightarrow> keeps I m) \<Longrightarrow> (\<not> b \<Longrightarrow> keeps I n) \<Longrightarrow> keeps I (if b then m else n)"
  by simp

lemma keeps_case_option [keeps_intros]:
  "(x = None \<Longrightarrow> keeps I m) \<Longrightarrow> (\<And>y. x = Some y \<Longrightarrow> keeps I (f y)) \<Longrightarrow>
   keeps I (case x of None \<Rightarrow> m | Some y \<Rightarrow> f y)"
  by (cases x) auto

lemma keeps_case_sum [keeps_intros]:
  "(\<And>e. x = Inl e \<Longrightarrow> keeps I (g e)) \<Longrightarrow> (\<And>y. x = Inr y \<Longrightarrow> keeps I (f y)) \<Longrightarrow>
   keeps I (case x of Inl e \<Rightarrow> g e | Inr y \<Rightarrow> f y)"
  by (cases x) auto

text \<open>A step that keeps the precondition, before the rest of a program.\<close>

lemma spec_keeps_bind:
  assumes "keeps I m" "\<And>x. spec I (f x) Q E" "\<And>e w. I w \<Longrightarrow> E e w"
  shows "spec I (bind m f) Q E"
proof (rule spec_bind)
  show "spec I m (\<lambda>_. I) E"
    using assms(1,3) by (fastforce simp: spec_def keeps_def split: prod.splits sum.splits)
qed (rule assms(2))

lemma spec_if:
  "(b \<Longrightarrow> spec P m Q E) \<Longrightarrow> (\<not> b \<Longrightarrow> spec P n Q E) \<Longrightarrow> spec P (if b then m else n) Q E"
  by simp

lemma spec_case_option:
  "(x = None \<Longrightarrow> spec P m Q E) \<Longrightarrow> (\<And>y. x = Some y \<Longrightarrow> spec P (f y) Q E) \<Longrightarrow>
     spec P (case x of None \<Rightarrow> m | Some y \<Rightarrow> f y) Q E"
  by (cases x) auto

lemma spec_case_sum:
  "(\<And>e. x = Inl e \<Longrightarrow> spec P (g e) Q E) \<Longrightarrow> (\<And>y. x = Inr y \<Longrightarrow> spec P (f y) Q E) \<Longrightarrow>
     spec P (case x of Inl e \<Rightarrow> g e | Inr y \<Rightarrow> f y) Q E"
  by (cases x) auto

lemma spec_pre: "(\<And>w. P w \<Longrightarrow> spec (\<lambda>v. v = w) m Q E) \<Longrightarrow> spec P m Q E"
  by (auto simp: spec_def)

section \<open>Decimal text\<close>

text \<open>The verbs \<open>%d\<close> of \<open>fmt\<close> on integers and \<open>%06d\<close> on those that are not negative.\<close>

definition digit :: "int \<Rightarrow> char" where
  "digit n = char_of (48 + n)"

function digits :: "int \<Rightarrow> string" where
  "digits n = (if n < 10 then [digit n] else digits (n div 10) @ [digit (n mod 10)])"
  by pat_completeness auto
termination by (relation "measure nat") auto

declare digits.simps [simp del]

definition int_text :: "int \<Rightarrow> string" where
  "int_text n = (if n < 0 then ''-'' @ digits (- n) else digits n)"

definition pad6_text :: "int \<Rightarrow> string" where
  "pad6_text n = replicate (6 - length (digits n)) (CHR ''0'') @ digits n"

definition digits_value :: "string \<Rightarrow> int" where
  "digits_value s = foldl (\<lambda>v c. 10 * v + (of_char c - 48)) 0 s"

lemma of_char_digit: "0 \<le> n \<Longrightarrow> n < 10 \<Longrightarrow> (of_char (digit n) :: int) = 48 + n"
  by (simp add: digit_def of_char_of)

lemma digits_value_snoc: "digits_value (s @ [c]) = 10 * digits_value s + (of_char c - 48)"
  by (simp add: digits_value_def)

lemma digits_value_digits: "0 \<le> n \<Longrightarrow> digits_value (digits n) = n"
proof (induction n rule: digits.induct)
  case (1 n)
  show ?case
  proof (cases "n < 10")
    case True
    with 1(2) show ?thesis by (simp add: digits.simps [of n] digits_value_def of_char_digit)
  next
    case False
    with 1(1) have "digits_value (digits (n div 10)) = n div 10" by simp
    with False show ?thesis
      by (simp add: digits.simps [of n] digits_value_snoc of_char_digit)
  qed
qed

lemma digits_value_zeros: "digits_value (replicate k (CHR ''0'') @ s) = digits_value s"
proof (induction k)
  case (Suc k)
  have "digits_value (CHR ''0'' # x) = digits_value x" for x by (simp add: digits_value_def)
  with Suc show ?case by simp
qed simp

lemma pad6_text_inj: "0 \<le> m \<Longrightarrow> 0 \<le> n \<Longrightarrow> pad6_text m = pad6_text n \<Longrightarrow> m = n"
  by (metis pad6_text_def digits_value_zeros digits_value_digits)

section \<open>Loops over a list\<close>

text \<open>A Go \<open>for ... range\<close> whose body may return an error.\<close>

fun for_each :: "'b list \<Rightarrow> ('b \<Rightarrow> ('w, 'e, unit) io) \<Rightarrow> ('w, 'e, unit) io" where
  "for_each [] f = ret ()"
| "for_each (x # xs) f = bind (f x) (\<lambda>_. for_each xs f)"

lemma keeps_for_each [keeps_intros]:
  "(\<And>x. x \<in> set xs \<Longrightarrow> keeps I (f x)) \<Longrightarrow> keeps I (for_each xs f)"
  by (induction xs) (auto intro!: keeps_intros)

section \<open>Tables: lists of rows with a key\<close>

definition find_row :: "('r \<Rightarrow> 'k) \<Rightarrow> 'k \<Rightarrow> 'r list \<Rightarrow> 'r option" where
  "find_row key k rows = List.find (\<lambda>r. key r = k) rows"

definition put_row :: "('r \<Rightarrow> 'k) \<Rightarrow> 'r \<Rightarrow> 'r list \<Rightarrow> 'r list" where
  "put_row key r rows = map (\<lambda>x. if key x = key r then r else x) rows"

lemma find_row_Nil [table_simps, simp]: "find_row key k [] = None"
  by (simp add: find_row_def)

lemma find_row_Cons [table_simps, simp]:
  "find_row key k (x # xs) = (if key x = k then Some x else find_row key k xs)"
  by (simp add: find_row_def)

lemma put_row_Nil [table_simps, simp]: "put_row key r [] = []"
  by (simp add: put_row_def)

lemma put_row_Cons [table_simps, simp]:
  "put_row key r (x # xs) = (if key x = key r then r else x) # put_row key r xs"
  by (simp add: put_row_def)

lemma find_row_SomeD: "find_row key k rows = Some r \<Longrightarrow> r \<in> set rows \<and> key r = k"
  by (induction rows) (auto split: if_splits)

lemma find_row_None_iff: "find_row key k rows = None \<longleftrightarrow> k \<notin> key ` set rows"
  by (induction rows) auto

lemma find_row_put_same [table_simps]:
  "find_row key (key r) rows \<noteq> None \<Longrightarrow> find_row key (key r) (put_row key r rows) = Some r"
  by (induction rows) auto

lemma find_row_put_other [table_simps]:
  "k \<noteq> key r \<Longrightarrow> find_row key k (put_row key r rows) = find_row key k rows"
  by (induction rows) auto

lemma find_row_append [table_simps]:
  "find_row key k (xs @ ys) =
     (case find_row key k xs of None \<Rightarrow> find_row key k ys | Some r \<Rightarrow> Some r)"
  by (induction xs) auto

lemma map_key_put_row [table_simps, simp]: "map key (put_row key r rows) = map key rows"
  by (induction rows) auto

lemma set_put_row: "set (put_row key r rows) \<subseteq> insert r (set rows)"
  by (auto simp: put_row_def)

lemma length_put_row [simp]: "length (put_row key r rows) = length rows"
  by (simp add: put_row_def)

lemma find_row_distinct:
  "distinct (map key rows) \<Longrightarrow> r \<in> set rows \<Longrightarrow> find_row key (key r) rows = Some r"
  by (induction rows) force+

lemma put_row_mem:
  "x \<in> set (put_row key r rows) \<Longrightarrow> x = r \<or> (x \<in> set rows \<and> key x \<noteq> key r)"
  by (auto simp: put_row_def split: if_splits)

text \<open>The smallest row of a list under a key into a linear order, the first one on ties.\<close>

fun min_row :: "('r \<Rightarrow> 'k::linorder) \<Rightarrow> 'r list \<Rightarrow> 'r option" where
  "min_row f [] = None"
| "min_row f (x # xs) =
     (case min_row f xs of None \<Rightarrow> Some x | Some y \<Rightarrow> if f x \<le> f y then Some x else Some y)"

lemma min_row_None [simp]: "min_row f xs = None \<longleftrightarrow> xs = []"
  by (cases xs) (auto split: option.splits)

lemma min_row_SomeD: "min_row f xs = Some r \<Longrightarrow> r \<in> set xs \<and> (\<forall>x \<in> set xs. f r \<le> f x)"
proof (induction xs arbitrary: r)
  case Nil
  then show ?case by simp
next
  case (Cons x xs)
  then show ?case by (cases "min_row f xs") (fastforce split: if_splits)+
qed

end
