(* ===== verification/Shared.thy ===== *)
theory Shared
  imports Prelude Complex_Main
begin

text \<open>
  \<open>internal/domain/shared\<close>: the identifiers, the value objects \<open>ResourceRequest\<close>,
  \<open>Capacity\<close> and \<open>QuotaSnapshot\<close>, and the errors with their stable codes. Percentages are
  in the theory \<open>Quota\<close>.
\<close>

section \<open>Identifiers\<close>

type_synonym user_id = uuid
type_synonym course_id = uuid
type_synonym project_id = uuid
type_synonym lab_id = uuid
type_synonym template_id = uuid
type_synonym check_template_id = uuid
type_synonym check_run_id = uuid
type_synonym audit_event_id = uuid
type_synonym secret_id = uuid

section \<open>JSON values\<close>

text \<open>A byte slice that holds JSON is represented by the JSON value it denotes.\<close>

datatype json =
    JNull | JBool bool | JInt int | JStr string | JRat rat
  | JArr "json list" | JObj "(string \<times> json) list"

definition json_field :: "string \<Rightarrow> json \<Rightarrow> json option" where
  "json_field k j = (case j of JObj kvs \<Rightarrow> map_of kvs k | _ \<Rightarrow> None)"

section \<open>Errors\<close>

datatype sentinel =
    ErrNotFound | ErrUnauthorized | ErrForbidden | ErrPoolEmpty | ErrQuotaExceeded
  | ErrLabAlreadyActive | ErrCloudUnavailable | ErrLMSUnavailable | ErrInvalidInput
  | ErrSecretMismatch | ErrIdempotencyClash

text \<open>
  A Go \<open>error\<close>: a sentinel, an \<open>ErrInvalidTransition\<close>, an \<open>errors.New\<close> value, an error of
  the database driver with its SQLSTATE, the driver's \<open>ErrNoRows\<close>, or an error wrapped by
  \<open>fmt.Errorf("prefix: %w", err)\<close>.
\<close>

datatype err =
    Sentinel sentinel
  | InvalidTransition (it_entity: string) (it_from: string) (it_to: string)
  | Plain string
  | PgError (pg_code: string) (pg_message: string)
  | NoRows
  | Wrapped string err

definition sentinel_text :: "sentinel \<Rightarrow> string" where
  "sentinel_text s = (case s of
     ErrNotFound \<Rightarrow> ''not found''
   | ErrUnauthorized \<Rightarrow> ''unauthorized''
   | ErrForbidden \<Rightarrow> ''forbidden''
   | ErrPoolEmpty \<Rightarrow> ''pool: no free projects available''
   | ErrQuotaExceeded \<Rightarrow> ''quota: cluster utilization exceeds threshold''
   | ErrLabAlreadyActive \<Rightarrow> ''lab: student already has an active lab in this course''
   | ErrCloudUnavailable \<Rightarrow> ''cloud provider unavailable''
   | ErrLMSUnavailable \<Rightarrow> ''LMS unavailable''
   | ErrInvalidInput \<Rightarrow> ''invalid input''
   | ErrSecretMismatch \<Rightarrow> ''secret AAD mismatch''
   | ErrIdempotencyClash \<Rightarrow> ''idempotency clash: conflicting request with same key'')"

text \<open>The arrow in the message is U+2192, three bytes in UTF-8.\<close>

definition transition_text :: "string \<Rightarrow> string \<Rightarrow> string \<Rightarrow> string" where
  "transition_text entity from to =
     entity @ '': invalid transition '' @ from @ '' '' @ [CHR 0xE2, CHR 0x86, CHR 0x92] @ '' '' @ to"

fun error_text :: "err \<Rightarrow> string" where
  "error_text (Sentinel s) = sentinel_text s"
| "error_text (InvalidTransition e f t) = transition_text e f t"
| "error_text (Plain m) = m"
| "error_text (PgError c m) = m"
| "error_text NoRows = ''no rows in result set''"
| "error_text (Wrapped p e) = p @ '': '' @ error_text e"

text \<open>\<open>errors.Is(err, target)\<close> for a sentinel target, and \<open>errors.As\<close> for the struct type.\<close>

fun err_is :: "err \<Rightarrow> sentinel \<Rightarrow> bool" where
  "err_is (Sentinel s) t = (s = t)"
| "err_is (Wrapped p e) t = err_is e t"
| "err_is _ t = False"

fun err_as_transition :: "err \<Rightarrow> (string \<times> string \<times> string) option" where
  "err_as_transition (InvalidTransition e f t) = Some (e, f, t)"
| "err_as_transition (Wrapped p e) = err_as_transition e"
| "err_as_transition _ = None"

fun err_is_no_rows :: "err \<Rightarrow> bool" where
  "err_is_no_rows NoRows = True"
| "err_is_no_rows (Wrapped p e) = err_is_no_rows e"
| "err_is_no_rows _ = False"

definition error_code :: "err option \<Rightarrow> string" where
  "error_code x = (case x of None \<Rightarrow> '''' | Some e \<Rightarrow>
     if err_is e ErrNotFound then ''ERR_NOT_FOUND''
     else if err_is e ErrUnauthorized then ''ERR_UNAUTHORIZED''
     else if err_is e ErrForbidden then ''ERR_FORBIDDEN''
     else if err_is e ErrPoolEmpty then ''ERR_POOL_EMPTY''
     else if err_is e ErrQuotaExceeded then ''ERR_QUOTA_EXCEEDED''
     else if err_is e ErrLabAlreadyActive then ''ERR_LAB_ALREADY_ACTIVE''
     else if err_is e ErrCloudUnavailable then ''ERR_CLOUD_UNAVAILABLE''
     else if err_is e ErrLMSUnavailable then ''ERR_LMS_UNAVAILABLE''
     else if err_is e ErrInvalidInput then ''ERR_INVALID_INPUT''
     else if err_is e ErrIdempotencyClash then ''ERR_IDEMPOTENCY''
     else if err_as_transition e \<noteq> None then ''ERR_INVALID_TRANSITION''
     else ''ERR_INTERNAL'')"

fun root_cause :: "err \<Rightarrow> err" where
  "root_cause (Wrapped p e) = root_cause e"
| "root_cause e = e"

lemma err_is_root: "err_is e s \<longleftrightarrow> root_cause e = Sentinel s"
  by (induction e) auto

lemma err_is_unique: "err_is e s \<Longrightarrow> err_is e t \<Longrightarrow> s = t"
  by (simp add: err_is_root)

lemma err_as_transition_root:
  "err_as_transition e = Some (a, b, c) \<longleftrightarrow> root_cause e = InvalidTransition a b c"
  by (induction e) auto

lemma error_code_wrapped: "error_code (Some (Wrapped p e)) = error_code (Some e)"
  by (simp add: error_code_def)

section \<open>Value objects\<close>

text \<open>The fields of a \<open>ResourceRequest\<close> are Go \<open>int\<close>s, 64 bits wide.\<close>

record resource_request =
  rr_vcpus :: int
  rr_ram_mb :: int
  rr_disk_gb :: int

definition rr_add :: "resource_request \<Rightarrow> resource_request \<Rightarrow> resource_request" where
  "rr_add r o' = \<lparr>rr_vcpus = wrap64 (rr_vcpus r + rr_vcpus o'),
     rr_ram_mb = wrap64 (rr_ram_mb r + rr_ram_mb o'),
     rr_disk_gb = wrap64 (rr_disk_gb r + rr_disk_gb o')\<rparr>"

record capacity =
  cap_used :: int
  cap_total :: int
  cap_unit :: string

record quota_snapshot =
  qs_vcpus :: capacity
  qs_ram :: capacity
  qs_disk :: capacity
  qs_fetched_at :: time

definition predict_after :: "quota_snapshot \<Rightarrow> resource_request \<Rightarrow> quota_snapshot" where
  "predict_after q req =
     q\<lparr>qs_vcpus := (qs_vcpus q)\<lparr>cap_used := wrap64 (cap_used (qs_vcpus q) + rr_vcpus req)\<rparr>,
       qs_ram := (qs_ram q)\<lparr>cap_used := wrap64 (cap_used (qs_ram q) + rr_ram_mb req)\<rparr>,
       qs_disk := (qs_disk q)\<lparr>cap_used := wrap64 (cap_used (qs_disk q) + rr_disk_gb req)\<rparr>\<rparr>"

end
