(* ===== verification/Quota.thy ===== *)
theory Quota
  imports Shared
begin

text \<open>
  \<open>internal/domain/quota\<close> and the percentages of \<open>shared.Capacity\<close>: the capacity guard. A
  finite \<open>float64\<close> is the rational it denotes, and each Go floating-point operation is the
  exact operation followed by rounding to 53 significant bits, ties to even. Exponents stay
  far from the ends of the binary64 range here, because all inputs are 64-bit integers.
\<close>

section \<open>Rounding to binary64\<close>

definition pow2 :: "int \<Rightarrow> rat" where
  "pow2 e = (if 0 \<le> e then 2 ^ nat e else 1 / 2 ^ nat (- e))"

definition round_half_even :: "rat \<Rightarrow> int" where
  "round_half_even y =
     (let f = \<lfloor>y\<rfloor>; r = y - of_int f in
      if r < 1 / 2 then f else if 1 / 2 < r then f + 1 else if even f then f else f + 1)"

function ilog2 :: "rat \<Rightarrow> int" where
  "ilog2 x = (if 2 \<le> x then 1 + ilog2 (x / 2)
     else if 0 < x \<and> x < 1 then ilog2 (2 * x) - 1 else 0)"
  by pat_completeness auto

lemma floor_half_less: "1 \<le> (y::rat) \<Longrightarrow> nat \<lfloor>y / 2\<rfloor> < nat \<lfloor>y\<rfloor>"
proof -
  assume y: "1 \<le> y"
  have "of_int \<lfloor>y / 2\<rfloor> \<le> y / 2" by (rule of_int_floor_le)
  moreover have "y < of_int (\<lfloor>y\<rfloor> + 1)" by simp linarith
  ultimately have "of_int (2 * \<lfloor>y / 2\<rfloor>) < (of_int (\<lfloor>y\<rfloor> + 1) :: rat)" by simp
  then have "2 * \<lfloor>y / 2\<rfloor> < \<lfloor>y\<rfloor> + 1" by (simp only: of_int_less_iff)
  moreover have "1 \<le> \<lfloor>y\<rfloor>" using y by (simp add: le_floor_iff)
  ultimately have "\<lfloor>y / 2\<rfloor> < \<lfloor>y\<rfloor>" by linarith
  then show ?thesis using \<open>1 \<le> \<lfloor>y\<rfloor>\<close> by simp
qed

termination ilog2
proof (relation "measure (\<lambda>x. if 1 \<le> x then nat \<lfloor>x\<rfloor> else nat \<lfloor>1 / x\<rfloor> + 1)")
  show "wf (measure (\<lambda>x::rat. if 1 \<le> x then nat \<lfloor>x\<rfloor> else nat \<lfloor>1 / x\<rfloor> + 1))" by simp
next
  fix x :: rat
  assume "2 \<le> x"
  then show "(x / 2, x) \<in> measure (\<lambda>x. if 1 \<le> x then nat \<lfloor>x\<rfloor> else nat \<lfloor>1 / x\<rfloor> + 1)"
    using floor_half_less [of x] by simp
next
  fix x :: rat
  assume "\<not> 2 \<le> x" and x: "0 < x \<and> x < 1"
  then have one: "1 \<le> 1 / x" by simp
  then have "1 \<le> \<lfloor>1 / x\<rfloor>" by (simp only: le_floor_iff of_int_1)
  then have pos: "1 \<le> nat \<lfloor>1 / x\<rfloor>" by linarith
  show "(2 * x, x) \<in> measure (\<lambda>x. if 1 \<le> x then nat \<lfloor>x\<rfloor> else nat \<lfloor>1 / x\<rfloor> + 1)"
  proof (cases "1 \<le> 2 * x")
    case True
    then have "\<lfloor>2 * x\<rfloor> = 1" using x by (simp add: floor_eq_iff)
    then show ?thesis using True x pos by simp
  next
    case False
    have h: "1 / (2 * x) = (1 / x) / 2" by simp
    have "nat \<lfloor>1 / (2 * x)\<rfloor> < nat \<lfloor>1 / x\<rfloor>" unfolding h by (rule floor_half_less [OF one])
    then show ?thesis using False x by simp
  qed
qed

declare ilog2.simps [simp del]

definition round_pos :: "rat \<Rightarrow> rat" where
  "round_pos x = (let e = ilog2 x - 52 in of_int (round_half_even (x / pow2 e)) * pow2 e)"

definition round64 :: "rat \<Rightarrow> rat" where
  "round64 x = (if x = 0 then 0 else if 0 < x then round_pos x else - round_pos (- x))"

section \<open>Facts about rounding\<close>

lemma pow2_pos [simp]: "0 < pow2 e"
  by (simp add: pow2_def)

lemma pow2_nonzero [simp]: "pow2 e \<noteq> 0"
  using pow2_pos [of e] by linarith

lemma pow2_Suc: "pow2 (e + 1) = 2 * pow2 e"
proof (cases "0 \<le> e")
  case True
  then show ?thesis by (simp add: pow2_def nat_add_distrib)
next
  case False
  then have "\<exists>n. e = - int (Suc n)" by (intro exI [of _ "nat (- e - 1)"]) simp
  then obtain n where e: "e = - int (Suc n)" ..
  have n1: "nat (- e) = Suc n" "nat (- (e + 1)) = n" unfolding e by simp_all
  show ?thesis using False n1 by (cases n) (simp_all add: pow2_def e)
qed

lemma pow2_add_nat: "pow2 (e + int n) = 2 ^ n * pow2 e"
proof (induction n)
  case 0
  show ?case by simp
next
  case (Suc n)
  have "pow2 (e + int (Suc n)) = pow2 ((e + int n) + 1)" by (simp add: algebra_simps)
  also have "\<dots> = 2 ^ Suc n * pow2 e" using Suc by (simp only: pow2_Suc) simp
  finally show ?case .
qed

lemma pow2_mono: "a \<le> b \<Longrightarrow> pow2 a \<le> pow2 b"
proof -
  assume "a \<le> b"
  then obtain n where "b = a + int n" using zle_iff_zadd by blast
  then show ?thesis by (simp add: pow2_add_nat)
qed

lemma ilog2_bounds: "0 < x \<Longrightarrow> pow2 (ilog2 x) \<le> x \<and> x < pow2 (ilog2 x + 1)"
proof (induction x rule: ilog2.induct)
  case (1 x)
  consider "2 \<le> x" | "x < 1" | "1 \<le> x" "x < 2" by linarith
  then show ?case
  proof cases
    case 1
    then have e: "ilog2 x = ilog2 (x / 2) + 1" by (simp add: ilog2.simps [of x])
    from 1 "1.IH"(1) have "pow2 (ilog2 (x / 2)) \<le> x / 2 \<and> x / 2 < pow2 (ilog2 (x / 2) + 1)"
      by simp
    then show ?thesis unfolding e by (simp only: pow2_Suc) (auto simp: field_simps)
  next
    case 2
    then have e: "ilog2 (2 * x) = ilog2 x + 1" using "1.prems" by (simp add: ilog2.simps [of x])
    from 2 "1.prems" "1.IH"(2) have "pow2 (ilog2 (2 * x)) \<le> 2 * x \<and> 2 * x < pow2 (ilog2 (2 * x) + 1)"
      by simp
    then show ?thesis unfolding e by (simp only: pow2_Suc) (simp add: field_simps)
  next
    case 3
    then show ?thesis by (simp add: ilog2.simps [of x] pow2_def)
  qed
qed

lemma ilog2_mono: "0 < x \<Longrightarrow> x \<le> y \<Longrightarrow> ilog2 x \<le> ilog2 y"
proof (rule ccontr)
  assume x: "0 < x" "x \<le> y" and "\<not> ilog2 x \<le> ilog2 y"
  then have "pow2 (ilog2 y + 1) \<le> pow2 (ilog2 x)" by (intro pow2_mono) simp
  moreover have "pow2 (ilog2 x) \<le> x" "y < pow2 (ilog2 y + 1)"
    using x ilog2_bounds [of x] ilog2_bounds [of y] by auto
  ultimately show False using x by linarith
qed

lemma rhe_of_int [simp]: "round_half_even (of_int n) = n"
  by (simp add: round_half_even_def)

lemma rhe_bounds: "of_int (round_half_even y) - y \<le> 1 / 2" "y - of_int (round_half_even y) \<le> 1 / 2"
proof -
  have "of_int \<lfloor>y\<rfloor> \<le> y" "y < of_int \<lfloor>y\<rfloor> + 1" by linarith+
  then show "of_int (round_half_even y) - y \<le> 1 / 2" "y - of_int (round_half_even y) \<le> 1 / 2"
    unfolding round_half_even_def Let_def by (simp_all split: if_splits) linarith+
qed

lemma rhe_mono:
  assumes "x \<le> y" shows "round_half_even x \<le> round_half_even y"
proof (cases "\<lfloor>x\<rfloor> = \<lfloor>y\<rfloor>")
  case True
  with assms show ?thesis by (auto simp: round_half_even_def Let_def)
next
  case False
  with assms have "\<lfloor>x\<rfloor> + 1 \<le> \<lfloor>y\<rfloor>" using floor_mono [OF assms] by linarith
  then show ?thesis by (auto simp: round_half_even_def Let_def)
qed

lemma round_pos_range:
  assumes "0 < x"
  shows "pow2 (ilog2 x) \<le> round_pos x" "round_pos x \<le> pow2 (ilog2 x + 1)"
proof -
  let ?e = "ilog2 x - 52"
  have b: "pow2 (ilog2 x) = 2 ^ 52 * pow2 ?e" "pow2 (ilog2 x + 1) = 2 ^ 53 * pow2 ?e"
    using pow2_add_nat [of ?e 52] pow2_add_nat [of ?e 53] by (simp_all add: algebra_simps)
  have "of_int (2 ^ 52) \<le> x / pow2 ?e" "x / pow2 ?e \<le> of_int (2 ^ 53)"
    using ilog2_bounds [OF assms] unfolding b by (simp_all add: field_simps)
  then have r: "2 ^ 52 \<le> round_half_even (x / pow2 ?e)" "round_half_even (x / pow2 ?e) \<le> 2 ^ 53"
    using rhe_mono rhe_of_int by metis+
  have "(of_int (2 ^ 52) :: rat) \<le> of_int (round_half_even (x / pow2 ?e))"
    "of_int (round_half_even (x / pow2 ?e)) \<le> (of_int (2 ^ 53) :: rat)"
    using r by (simp_all only: of_int_le_iff)
  then show "pow2 (ilog2 x) \<le> round_pos x" "round_pos x \<le> pow2 (ilog2 x + 1)"
    unfolding b round_pos_def Let_def by (simp_all add: mult_right_mono)
qed

lemma round_pos_mono:
  assumes "0 < x" "x \<le> y" shows "round_pos x \<le> round_pos y"
proof (cases "ilog2 x = ilog2 y")
  case True
  have "x / pow2 (ilog2 y - 52) \<le> y / pow2 (ilog2 y - 52)"
    using assms by (simp add: divide_right_mono less_imp_le)
  then show ?thesis
    unfolding round_pos_def Let_def True by (simp add: rhe_mono mult_right_mono less_imp_le)
next
  case False
  with assms have "ilog2 x + 1 \<le> ilog2 y" using ilog2_mono [OF assms] by linarith
  then have "pow2 (ilog2 x + 1) \<le> pow2 (ilog2 y)" by (rule pow2_mono)
  then show ?thesis
    using round_pos_range(2) [of x] round_pos_range(1) [of y] assms by linarith
qed

lemma round_pos_pos: "0 < x \<Longrightarrow> 0 < round_pos x"
  using round_pos_range(1) [of x] pow2_pos [of "ilog2 x"] by linarith

lemma round64_mono: "x \<le> y \<Longrightarrow> round64 x \<le> round64 y"
proof -
  assume xy: "x \<le> y"
  consider "0 < x" | "x \<le> 0" "0 \<le> y" | "y < 0" by linarith
  then show ?thesis
  proof cases
    case 1
    with xy show ?thesis by (simp add: round64_def round_pos_mono)
  next
    case 2
    then show ?thesis
      using round_pos_pos [of y] round_pos_pos [of "- x"] by (auto simp: round64_def)
  next
    case 3
    with xy show ?thesis by (simp add: round64_def round_pos_mono)
  qed
qed

lemma round64_0 [simp]: "round64 0 = 0"
  by (simp add: round64_def)

text \<open>A number with at most 53 significant bits is its own rounding.\<close>

lemma round64_exact:
  assumes m: "0 < m" "m < 2 ^ 53" shows "round64 (of_int m * pow2 k) = of_int m * pow2 k"
proof -
  let ?x = "of_int m * pow2 k :: rat"
  have x: "0 < ?x" using m by simp
  define e where "e = ilog2 ?x - 52"
  have "e \<le> k"
  proof (rule ccontr)
    assume "\<not> e \<le> k"
    then have "pow2 (k + int 53) \<le> pow2 (ilog2 ?x)" unfolding e_def by (intro pow2_mono) simp
    then have "2 ^ 53 * pow2 k \<le> ?x" using ilog2_bounds [OF x] unfolding pow2_add_nat by linarith
    then have "(of_int (2 ^ 53) :: rat) \<le> of_int m" by simp
    then show False using m by (simp only: of_int_le_iff)
  qed
  then obtain n where n: "k = e + int n" using zle_iff_zadd by blast
  then have p: "pow2 k = 2 ^ n * pow2 e" by (simp add: pow2_add_nat)
  then have q: "?x = of_int (m * 2 ^ n) * pow2 e" by simp
  have "?x / pow2 e = of_int (m * 2 ^ n)" unfolding q by simp
  then have "round_pos ?x = of_int (m * 2 ^ n) * pow2 e"
    by (simp only: round_pos_def Let_def e_def [symmetric] rhe_of_int)
  then show ?thesis using x q by (simp only: round64_def) simp
qed

lemma round64_int: "\<bar>m\<bar> < 2 ^ 53 \<Longrightarrow> round64 (of_int m) = of_int m"
proof -
  assume m: "\<bar>m\<bar> < 2 ^ 53"
  consider "m = 0" | "0 < m" | "m < 0" by linarith
  then show ?thesis
  proof cases
    case 1
    then show ?thesis by simp
  next
    case 2
    then show ?thesis using round64_exact [of m 0] m by (simp add: pow2_def)
  next
    case 3
    then show ?thesis using round64_exact [of "- m" 0] m by (simp add: pow2_def round64_def)
  qed
qed

section \<open>Utilisation and the guard\<close>

definition utilization_pct :: "capacity \<Rightarrow> rat" where
  "utilization_pct c =
     (if cap_total c = 0 then 0
      else round64 (round64 (round64 (of_int (cap_used c)) * 100)
             / round64 (of_int (cap_total c))))"

definition max_utilization_pct :: "quota_snapshot \<Rightarrow> rat" where
  "max_utilization_pct q =
     (let m = utilization_pct (qs_vcpus q);
          m = (if m < utilization_pct (qs_ram q) then utilization_pct (qs_ram q) else m);
          m = (if m < utilization_pct (qs_disk q) then utilization_pct (qs_disk q) else m)
      in m)"

definition default_threshold_pct :: rat where "default_threshold_pct = 90"

record decision =
  dc_allowed :: bool
  dc_reason :: string
  dc_snapshot :: quota_snapshot
  dc_predicted :: rat
  dc_threshold :: rat

definition evaluate :: "quota_snapshot \<Rightarrow> resource_request \<Rightarrow> rat \<Rightarrow> decision" where
  "evaluate snap req threshold =
     (let threshold = (if threshold \<le> 0 then default_threshold_pct else threshold);
          predicted = predict_after snap req;
          pct = max_utilization_pct predicted;
          d = \<lparr>dc_allowed = False, dc_reason = '''', dc_snapshot = snap,
               dc_predicted = pct, dc_threshold = threshold\<rparr>
      in if threshold < pct
         then d\<lparr>dc_allowed := False, dc_reason := ''predicted utilization exceeds threshold''\<rparr>
         else d\<lparr>dc_allowed := True\<rparr>)"

lemma max_utilization_is_max:
  "max_utilization_pct q =
     max (utilization_pct (qs_vcpus q)) (max (utilization_pct (qs_ram q)) (utilization_pct (qs_disk q)))"
  by (auto simp: max_utilization_pct_def Let_def)

text \<open>The threshold a decision is taken with.\<close>

definition effective_threshold :: "rat \<Rightarrow> rat" where
  "effective_threshold t = (if t \<le> 0 then default_threshold_pct else t)"

lemma evaluate_allowed_iff:
  "dc_allowed (evaluate snap req t) \<longleftrightarrow>
     (\<forall>c \<in> {qs_vcpus, qs_ram, qs_disk}.
        utilization_pct (c (predict_after snap req)) \<le> effective_threshold t)"
  by (auto simp: evaluate_def effective_threshold_def Let_def max_utilization_is_max)

lemma utilization_mono:
  assumes "cap_total c' = cap_total c" "cap_used c \<le> cap_used c'" "0 \<le> cap_total c"
  shows "utilization_pct c \<le> utilization_pct c'"
proof (cases "cap_total c = 0")
  case True
  with assms show ?thesis by (simp add: utilization_pct_def)
next
  case False
  then have "0 < round64 (of_int (cap_total c))"
    using assms(3) by (simp add: round64_def round_pos_pos)
  moreover have "round64 (round64 (of_int (cap_used c)) * 100)
      \<le> round64 (round64 (of_int (cap_used c')) * 100)"
    using assms(2) by (intro round64_mono) (simp add: round64_mono)
  ultimately show ?thesis
    using assms(1) by (auto simp: utilization_pct_def intro!: round64_mono divide_right_mono)
qed

text \<open>
  The exact meaning of the default guard on one resource: for every cluster of up to \<open>2^40\<close>
  units the rounded comparison with 90 percent is the integer comparison.
\<close>

lemma utilization_90_exact:
  assumes u: "0 \<le> cap_used c" "cap_used c \<le> 2 ^ 40" and t: "0 < cap_total c" "cap_total c \<le> 2 ^ 40"
  shows "utilization_pct c \<le> 90 \<longleftrightarrow> 100 * cap_used c \<le> 90 * cap_total c"
proof -
  let ?u = "cap_used c" and ?t = "cap_total c"
  let ?q = "(of_int (100 * ?u) :: rat) / of_int ?t"
  have "round64 (of_int ?u) = of_int ?u" using u by (intro round64_int) simp
  moreover have "round64 (of_int (100 * ?u)) = of_int (100 * ?u)"
    using u by (intro round64_int) simp
  moreover have "round64 (of_int ?t) = of_int ?t" using t by (intro round64_int) simp
  ultimately have util: "utilization_pct c = round64 ?q"
    using t by (simp add: utilization_pct_def mult.commute)
  have tpos: "(0::rat) < of_int ?t" using t by simp
  show ?thesis
  proof
    assume le: "100 * ?u \<le> 90 * ?t"
    then have "(of_int (100 * ?u) :: rat) \<le> of_int (90 * ?t)" by (simp only: of_int_le_iff)
    then have "?q \<le> of_int 90" using tpos by (simp add: divide_le_eq)
    then have "round64 ?q \<le> round64 (of_int 90)" by (rule round64_mono)
    then show "utilization_pct c \<le> 90" using util round64_int [of 90] by simp
  next
    assume le: "utilization_pct c \<le> 90"
    show "100 * ?u \<le> 90 * ?t"
    proof (rule ccontr)
      assume "\<not> 100 * ?u \<le> 90 * ?t"
      then have "(of_int (90 * ?t + 1) :: rat) \<le> of_int (100 * ?u)" by (simp only: of_int_le_iff)
      moreover have "90 + 1 / of_int ?t = of_int (90 * ?t + 1) / (of_int ?t :: rat)"
        using tpos by (simp add: field_simps)
      ultimately have "90 + 1 / of_int ?t \<le> ?q"
        using tpos by (simp only: divide_right_mono less_imp_le)
      moreover have "(of_int ?t :: rat) \<le> of_int (2 ^ 40)" using t by (simp only: of_int_le_iff)
      then have "1 / 2 ^ 40 \<le> 1 / (of_int ?t :: rat)" using tpos by (simp add: frac_le)
      moreover have "of_int (90 * 2 ^ 40 + 1) * pow2 (- 40) = (90 + 1 / 2 ^ 40 :: rat)"
        by (simp add: pow2_def field_simps)
      ultimately have "of_int (90 * 2 ^ 40 + 1) * pow2 (- 40) \<le> ?q" by linarith
      then have "round64 (of_int (90 * 2 ^ 40 + 1) * pow2 (- 40)) \<le> round64 ?q"
        by (rule round64_mono)
      then have "of_int (90 * 2 ^ 40 + 1) * pow2 (- 40) \<le> utilization_pct c"
        using util round64_exact [of "90 * 2 ^ 40 + 1" "- 40"] by simp
      moreover have "(90::rat) < of_int (90 * 2 ^ 40 + 1) * pow2 (- 40)"
        by (simp add: pow2_def)
      ultimately show False using le by linarith
    qed
  qed
qed

section \<open>Properties\<close>

text \<open>
  C30: the guard with the default threshold is exact integer arithmetic: for a cluster of up to
  \<open>2^40\<close> units of each resource, a request is allowed exactly when for no resource the use
  after the request is more than ninety hundredths of the total, in spite of the rounding.
\<close>
theorem guard_exact:
  assumes "t \<le> 0"
    and "\<forall>c \<in> {qs_vcpus, qs_ram, qs_disk}. 0 < cap_total (c snap) \<and> cap_total (c snap) \<le> 2 ^ 40
           \<and> 0 \<le> cap_used (c snap) \<and> cap_used (c snap) \<le> 2 ^ 39"
    and "\<forall>f \<in> {rr_vcpus, rr_ram_mb, rr_disk_gb}. 0 \<le> f req \<and> f req \<le> 2 ^ 39"
  shows "dc_allowed (evaluate snap req t) \<longleftrightarrow>
     100 * (cap_used (qs_vcpus snap) + rr_vcpus req) \<le> 90 * cap_total (qs_vcpus snap) \<and>
     100 * (cap_used (qs_ram snap) + rr_ram_mb req) \<le> 90 * cap_total (qs_ram snap) \<and>
     100 * (cap_used (qs_disk snap) + rr_disk_gb req) \<le> 90 * cap_total (qs_disk snap)"
  using assms
  by (simp add: evaluate_allowed_iff effective_threshold_def default_threshold_pct_def
      predict_after_def wrap64_id int64_def utilization_90_exact)

definition sample_quota :: quota_snapshot where
  "sample_quota = \<lparr>qs_vcpus = \<lparr>cap_used = 80, cap_total = 100, cap_unit = ''vcpu''\<rparr>,
     qs_ram = \<lparr>cap_used = 1000, cap_total = 65536, cap_unit = ''MB''\<rparr>,
     qs_disk = \<lparr>cap_used = 10, cap_total = 2000, cap_unit = ''GB''\<rparr>, qs_fetched_at = 7\<rparr>"

lemma guard_exact_witness:
  "dc_allowed (evaluate sample_quota \<lparr>rr_vcpus = 10, rr_ram_mb = 8192, rr_disk_gb = 40\<rparr> 0) \<and>
   \<not> dc_allowed (evaluate sample_quota \<lparr>rr_vcpus = 11, rr_ram_mb = 8192, rr_disk_gb = 40\<rparr> 0)"
  using guard_exact [of 0 sample_quota "\<lparr>rr_vcpus = 10, rr_ram_mb = 8192, rr_disk_gb = 40\<rparr>"]
    guard_exact [of 0 sample_quota "\<lparr>rr_vcpus = 11, rr_ram_mb = 8192, rr_disk_gb = 40\<rparr>"]
  by (simp add: sample_quota_def)

text \<open>
  the guard is monotone at every threshold: a request that asks for no more of any resource
  than an allowed one is allowed too, as long as no sum leaves the 64-bit range.
\<close>
theorem guard_monotone:
  assumes "dc_allowed (evaluate snap big t)"
    and "\<forall>c \<in> {qs_vcpus, qs_ram, qs_disk}. 0 \<le> cap_total (c snap) \<and>
           0 \<le> cap_used (c snap) \<and> cap_used (c snap) < 2 ^ 62"
    and "0 \<le> rr_vcpus small" "rr_vcpus small \<le> rr_vcpus big" "rr_vcpus big < 2 ^ 62"
    and "0 \<le> rr_ram_mb small" "rr_ram_mb small \<le> rr_ram_mb big" "rr_ram_mb big < 2 ^ 62"
    and "0 \<le> rr_disk_gb small" "rr_disk_gb small \<le> rr_disk_gb big" "rr_disk_gb big < 2 ^ 62"
  shows "dc_allowed (evaluate snap small t)"
proof -
  have "utilization_pct (c (predict_after snap small)) \<le> utilization_pct (c (predict_after snap big))"
    if "c \<in> {qs_vcpus, qs_ram, qs_disk}" for c
    using that assms(2-)
    by (auto intro!: utilization_mono simp: predict_after_def wrap64_id int64_def)
  then show ?thesis using assms(1) by (auto simp: evaluate_allowed_iff intro: order_trans)
qed

lemma guard_monotone_witness:
  "dc_allowed (evaluate sample_quota \<lparr>rr_vcpus = 2, rr_ram_mb = 8192, rr_disk_gb = 0\<rparr> 0)"
proof (rule guard_monotone [of _ "\<lparr>rr_vcpus = 10, rr_ram_mb = 8192, rr_disk_gb = 40\<rparr>"])
  show "dc_allowed (evaluate sample_quota \<lparr>rr_vcpus = 10, rr_ram_mb = 8192, rr_disk_gb = 40\<rparr> 0)"
    by (simp add: sample_quota_def evaluate_allowed_iff effective_threshold_def
        default_threshold_pct_def predict_after_def wrap64_def utilization_90_exact)
qed (simp_all add: sample_quota_def)

end
