(* ===== verification/LabDomain.thy ===== *)
theory LabDomain
  imports Shared
begin

text \<open>
  \<open>internal/domain/lab\<close>: the LabInstance aggregate, its transition table, its events and its
  operations, with the aggregate invariant of \<open>docs/DOMAIN_MODEL.md\<close> and the reachable states.
\<close>

section \<open>State\<close>

datatype lstate =
    PendingQuota | PendingProject | Deploying | Ready | Checking | Frozen | Failed
  | Cleaning | Done | Rejected

definition lstate_text :: "lstate \<Rightarrow> string" where
  "lstate_text s = (case s of
     PendingQuota \<Rightarrow> ''pending_quota'' | PendingProject \<Rightarrow> ''pending_project''
   | Deploying \<Rightarrow> ''deploying'' | Ready \<Rightarrow> ''ready'' | Checking \<Rightarrow> ''checking''
   | Frozen \<Rightarrow> ''frozen'' | Failed \<Rightarrow> ''failed'' | Cleaning \<Rightarrow> ''cleaning''
   | Done \<Rightarrow> ''done'' | Rejected \<Rightarrow> ''rejected'')"

definition is_terminal :: "lstate \<Rightarrow> bool" where
  "is_terminal s \<longleftrightarrow> s = Done \<or> s = Rejected"

fun allowed_transitions :: "lstate \<Rightarrow> lstate list" where
  "allowed_transitions PendingQuota = [Rejected, PendingProject]"
| "allowed_transitions PendingProject = [Rejected, Deploying]"
| "allowed_transitions Deploying = [Ready, Failed]"
| "allowed_transitions Ready = [Checking, Frozen, Cleaning]"
| "allowed_transitions Checking = [Ready]"
| "allowed_transitions Frozen = [Ready, Cleaning]"
| "allowed_transitions Failed = [Cleaning]"
| "allowed_transitions Cleaning = [Done, Cleaning]"
| "allowed_transitions Done = []"
| "allowed_transitions Rejected = []"

definition can_transition :: "lstate \<Rightarrow> lstate \<Rightarrow> bool" where
  "can_transition from to \<longleftrightarrow> to \<in> set (allowed_transitions from)"

text \<open>The states can be listed, so that what holds of all of them is a matter of evaluation.\<close>

instantiation lstate :: enum
begin

definition enum_lstate :: "lstate list" where
  "enum_lstate = [PendingQuota, PendingProject, Deploying, Ready, Checking, Frozen, Failed, Cleaning, Done, Rejected]"

definition enum_all_lstate :: "(lstate \<Rightarrow> bool) \<Rightarrow> bool" where
  "enum_all_lstate f \<longleftrightarrow> list_all f enum_class.enum"

definition enum_ex_lstate :: "(lstate \<Rightarrow> bool) \<Rightarrow> bool" where
  "enum_ex_lstate f \<longleftrightarrow> list_ex f enum_class.enum"

instance
proof
  show univ: "(UNIV :: lstate set) = set enum_class.enum" unfolding enum_lstate_def by (auto intro: lstate.exhaust)
  show "distinct (enum_class.enum :: lstate list)" by (simp add: enum_lstate_def)
  show "enum_class.enum_all f \<longleftrightarrow> Ball UNIV f" for f :: "lstate \<Rightarrow> bool"
    unfolding univ enum_all_lstate_def by (simp add: list_all_iff)
  show "enum_class.enum_ex f \<longleftrightarrow> Bex UNIV f" for f :: "lstate \<Rightarrow> bool"
    unfolding univ enum_ex_lstate_def by (simp add: list_ex_iff)
qed

end

lemma terminal_exact: "\<forall>s. is_terminal s \<longleftrightarrow> (\<forall>t. \<not> can_transition s t)"
  by code_simp

datatype lab_event =
    EventCreated lab_id user_id course_id template_id
  | EventStateChanged lab_id lstate lstate string
  | EventProjectAssigned lab_id project_id
  | EventCleanupExtended lab_id time

definition lab_event_kind :: "lab_event \<Rightarrow> string" where
  "lab_event_kind ev = (case ev of
     EventCreated _ _ _ _ \<Rightarrow> ''lab.created''
   | EventStateChanged _ _ _ _ \<Rightarrow> ''lab.state_changed''
   | EventProjectAssigned _ _ \<Rightarrow> ''lab.project_assigned''
   | EventCleanupExtended _ _ \<Rightarrow> ''lab.cleanup_extended'')"

record ki_resources =
  ki_servers :: "string list"
  ki_network :: string
  ki_floating_ips :: "string list"
  ki_keypair :: string

definition no_resources :: ki_resources where
  "no_resources = \<lparr>ki_servers = [], ki_network = '''', ki_floating_ips = [], ki_keypair = ''''\<rparr>"

record lab =
  lb_id :: lab_id
  lb_student :: user_id
  lb_course :: course_id
  lb_template :: template_id
  lb_project :: "project_id option"
  lb_state :: lstate
  lb_reason :: string
  lb_resources :: ki_resources
  lb_cleanup_at :: "time option"
  lb_unfreeze_at :: "time option"
  lb_frozen_by :: "user_id option"
  lb_frozen_reason :: string
  lb_student_key :: "secret_id option"
  lb_checker_key :: "secret_id option"
  lb_created_at :: time
  lb_updated_at :: time
  lb_events :: "lab_event list"

section \<open>Operations\<close>

definition lb_record :: "lab_event \<Rightarrow> lab \<Rightarrow> lab" where
  "lb_record ev l = l\<lparr>lb_events := lb_events l @ [ev]\<rparr>"

definition lb_pull_events :: "lab \<Rightarrow> lab_event list \<times> lab" where
  "lb_pull_events l = (lb_events l, l\<lparr>lb_events := []\<rparr>)"

definition bad_lab :: "lab \<Rightarrow> string \<Rightarrow> err" where
  "bad_lab l to = InvalidTransition ''lab'' (lstate_text (lb_state l)) to"

definition new_lab :: "lab_id \<Rightarrow> user_id \<Rightarrow> course_id \<Rightarrow> template_id \<Rightarrow> time \<Rightarrow> lab" where
  "new_lab i student course template now =
     lb_record (EventCreated i student course template)
       \<lparr>lb_id = i, lb_student = student, lb_course = course, lb_template = template,
        lb_project = None, lb_state = PendingQuota, lb_reason = '''',
        lb_resources = no_resources, lb_cleanup_at = None, lb_unfreeze_at = None,
        lb_frozen_by = None, lb_frozen_reason = '''', lb_student_key = None,
        lb_checker_key = None, lb_created_at = now, lb_updated_at = now, lb_events = []\<rparr>"

definition transition :: "lstate \<Rightarrow> string \<Rightarrow> time \<Rightarrow> lab \<Rightarrow> err + lab" where
  "transition to reason now l =
     (if \<not> can_transition (lb_state l) to then Inl (bad_lab l (lstate_text to))
      else Inr (lb_record (EventStateChanged (lb_id l) (lb_state l) to reason)
        (l\<lparr>lb_state := to, lb_reason := reason, lb_updated_at := now\<rparr>)))"

definition freeze :: "user_id \<Rightarrow> string \<Rightarrow> time \<Rightarrow> time \<Rightarrow> lab \<Rightarrow> err + lab" where
  "freeze by reason until now l =
     (case transition Frozen (''freeze: '' @ reason) now l of
        Inl e \<Rightarrow> Inl e
      | Inr l1 \<Rightarrow> Inr (l1\<lparr>lb_frozen_by := Some by, lb_frozen_reason := reason,
          lb_unfreeze_at := Some until, lb_cleanup_at := None\<rparr>))"

definition unfreeze :: "time \<Rightarrow> time \<Rightarrow> lab \<Rightarrow> err + lab" where
  "unfreeze cleanup_at now l =
     (case transition Ready ''unfreeze'' now l of
        Inl e \<Rightarrow> Inl e
      | Inr l1 \<Rightarrow> Inr (l1\<lparr>lb_frozen_by := None, lb_frozen_reason := '''',
          lb_unfreeze_at := None, lb_cleanup_at := Some cleanup_at\<rparr>))"

definition extend_cleanup :: "time \<Rightarrow> time \<Rightarrow> lab \<Rightarrow> err + lab" where
  "extend_cleanup new_at now l =
     (if lb_state l \<noteq> Ready then Inl (bad_lab l ''extend_cleanup'')
      else if (case lb_cleanup_at l of None \<Rightarrow> False | Some t \<Rightarrow> new_at < t)
      then Inl (Sentinel ErrInvalidInput)
      else Inr (lb_record (EventCleanupExtended (lb_id l) new_at)
        (l\<lparr>lb_cleanup_at := Some new_at, lb_updated_at := now\<rparr>)))"

definition mark_ready :: "time \<Rightarrow> time \<Rightarrow> lab \<Rightarrow> err + lab" where
  "mark_ready cleanup_at now l =
     (case transition Ready ''deploy_succeeded'' now l of
        Inl e \<Rightarrow> Inl e
      | Inr l1 \<Rightarrow> Inr (l1\<lparr>lb_cleanup_at := Some cleanup_at\<rparr>))"

definition assign_project :: "project_id \<Rightarrow> time \<Rightarrow> lab \<Rightarrow> err + lab" where
  "assign_project pid now l =
     (if lb_state l \<noteq> PendingProject then Inl (bad_lab l ''assign_project'')
      else transition Deploying ''project_assigned'' now
        (lb_record (EventProjectAssigned (lb_id l) pid)
          (l\<lparr>lb_project := Some pid, lb_updated_at := now\<rparr>)))"

lemmas lab_op_defs = new_lab_def transition_def freeze_def unfreeze_def extend_cleanup_def
  mark_ready_def assign_project_def lb_record_def lb_pull_events_def

section \<open>Facts about single operations\<close>

lemma can_transition_cases:
  "can_transition a b \<longleftrightarrow>
     (a, b) \<in> {(PendingQuota, Rejected), (PendingQuota, PendingProject),
       (PendingProject, Rejected), (PendingProject, Deploying), (Deploying, Ready),
       (Deploying, Failed), (Ready, Checking), (Ready, Frozen), (Ready, Cleaning),
       (Checking, Ready), (Frozen, Ready), (Frozen, Cleaning), (Failed, Cleaning),
       (Cleaning, Done), (Cleaning, Cleaning)}"
  by (cases a) (auto simp: can_transition_def)

lemma can_transition_simps [simp]:
  "can_transition PendingQuota s \<longleftrightarrow> s = Rejected \<or> s = PendingProject"
  "can_transition PendingProject s \<longleftrightarrow> s = Rejected \<or> s = Deploying"
  "can_transition Deploying s \<longleftrightarrow> s = Ready \<or> s = Failed"
  "can_transition Ready s \<longleftrightarrow> s = Checking \<or> s = Frozen \<or> s = Cleaning"
  "can_transition Checking s \<longleftrightarrow> s = Ready"
  "can_transition Frozen s \<longleftrightarrow> s = Ready \<or> s = Cleaning"
  "can_transition Failed s \<longleftrightarrow> s = Cleaning"
  "can_transition Cleaning s \<longleftrightarrow> s = Done \<or> s = Cleaning"
  "\<not> can_transition Done s" "\<not> can_transition Rejected s"
  by (auto simp: can_transition_def)

lemma transition_Inr:
  "transition to r now l = Inr l' \<longleftrightarrow>
     can_transition (lb_state l) to \<and>
     l' = lb_record (EventStateChanged (lb_id l) (lb_state l) to r)
            (l\<lparr>lb_state := to, lb_reason := r, lb_updated_at := now\<rparr>)"
  by (auto simp: transition_def)

section \<open>The aggregate as a state machine\<close>

text \<open>
  A step of a lab: the operations the use cases call. \<open>Transition\<close> is called directly only
  for the targets the application names: to \<open>pending_project\<close>, \<open>rejected\<close>, \<open>failed\<close>,
  \<open>cleaning\<close> and \<open>done\<close>; \<open>ready\<close>, \<open>frozen\<close> and \<open>deploying\<close> are entered by the named operations.
\<close>

definition direct_targets :: "lstate list" where
  "direct_targets = [PendingProject, Rejected, Failed, Cleaning, Done]"

inductive lab_step :: "lab \<Rightarrow> lab \<Rightarrow> bool" where
  step_transition: "to \<in> set direct_targets \<Longrightarrow> transition to r now l = Inr l' \<Longrightarrow> lab_step l l'"
| step_freeze: "freeze by r until now l = Inr l' \<Longrightarrow> lab_step l l'"
| step_unfreeze: "unfreeze c now l = Inr l' \<Longrightarrow> lab_step l l'"
| step_extend: "extend_cleanup c now l = Inr l' \<Longrightarrow> lab_step l l'"
| step_ready: "mark_ready c now l = Inr l' \<Longrightarrow> lab_step l l'"
| step_assign: "assign_project p now l = Inr l' \<Longrightarrow> lab_step l l'"
| step_pull_events: "lb_pull_events l = (evs, l') \<Longrightarrow> lab_step l l'"

inductive lab_reachable :: "lab \<Rightarrow> bool" where
  reach_new: "lab_reachable (new_lab i s c t now)"
| reach_step: "lab_reachable l \<Longrightarrow> lab_step l l' \<Longrightarrow> lab_reachable l'"

text \<open>The aggregate invariant: timers and project of the states that need them.\<close>

definition lab_wf :: "lab \<Rightarrow> bool" where
  "lab_wf l \<longleftrightarrow>
     (lb_state l = Ready \<longrightarrow> lb_cleanup_at l \<noteq> None) \<and>
     (lb_state l = Frozen \<longrightarrow> lb_unfreeze_at l \<noteq> None \<and> lb_frozen_by l \<noteq> None
        \<and> lb_cleanup_at l = None) \<and>
     (lb_state l \<in> {Deploying, Ready, Frozen, Failed, Cleaning, Done} \<longrightarrow> lb_project l \<noteq> None) \<and>
     (lb_state l \<in> {PendingQuota, PendingProject, Rejected} \<longrightarrow> lb_project l = None) \<and>
     lb_state l \<noteq> Checking"

lemma lab_wf_new: "lab_wf (new_lab i s c t now)"
  by (simp add: lab_wf_def new_lab_def lb_record_def)

lemma lab_wf_transition:
  "transition to r now l = Inr l' \<Longrightarrow> to \<in> set direct_targets \<Longrightarrow> lab_wf l \<Longrightarrow> lab_wf l'"
  by (cases "lb_state l") (auto simp: transition_Inr lb_record_def lab_wf_def direct_targets_def)

lemma lab_wf_freeze: "freeze by r until now l = Inr l' \<Longrightarrow> lab_wf l \<Longrightarrow> lab_wf l'"
  by (cases "lb_state l")
    (auto simp: freeze_def transition_def lb_record_def lab_wf_def split: if_splits)

lemma lab_wf_unfreeze: "unfreeze c now l = Inr l' \<Longrightarrow> lab_wf l \<Longrightarrow> lab_wf l'"
  by (cases "lb_state l")
    (auto simp: unfreeze_def transition_def lb_record_def lab_wf_def split: if_splits)

lemma lab_wf_extend: "extend_cleanup c now l = Inr l' \<Longrightarrow> lab_wf l \<Longrightarrow> lab_wf l'"
  by (auto simp: extend_cleanup_def lb_record_def lab_wf_def split: if_splits)

lemma lab_wf_ready: "mark_ready c now l = Inr l' \<Longrightarrow> lab_wf l \<Longrightarrow> lab_wf l'"
  by (cases "lb_state l")
    (auto simp: mark_ready_def transition_def lb_record_def lab_wf_def split: if_splits)

lemma lab_wf_assign: "assign_project p now l = Inr l' \<Longrightarrow> lab_wf l \<Longrightarrow> lab_wf l'"
  by (auto simp: assign_project_def transition_def lb_record_def lab_wf_def split: if_splits)

lemma lab_wf_events [simp]: "lab_wf (l\<lparr>lb_events := e\<rparr>) = lab_wf l"
  by (simp add: lab_wf_def)

lemma lab_wf_pull: "lb_pull_events l = (evs, l') \<Longrightarrow> lab_wf l \<Longrightarrow> lab_wf l'"
  by (auto simp: lb_pull_events_def)

lemmas lab_wf_ops = lab_wf_transition lab_wf_freeze lab_wf_unfreeze lab_wf_extend lab_wf_ready
  lab_wf_assign lab_wf_pull

lemma lab_wf_step: "lab_step l l' \<Longrightarrow> lab_wf l \<Longrightarrow> lab_wf l'"
  by (erule lab_step.cases) (simp, erule lab_wf_ops, assumption+)+

lemma lab_wf_reachable: "lab_reachable l \<Longrightarrow> lab_wf l"
  by (induction rule: lab_reachable.induct) (auto intro: lab_wf_new lab_wf_step)

lemma lab_step_state:
  "lab_step l l' \<Longrightarrow> lb_state l' = lb_state l \<or> can_transition (lb_state l) (lb_state l')"
  by (induction rule: lab_step.induct) (auto simp: lab_op_defs split: if_splits sum.splits)

lemma lab_step_ident:
  "lab_step l l' \<Longrightarrow> lb_id l' = lb_id l \<and> lb_student l' = lb_student l \<and>
     lb_course l' = lb_course l \<and> lb_template l' = lb_template l \<and>
     lb_created_at l' = lb_created_at l"
  by (induction rule: lab_step.induct) (auto simp: lab_op_defs split: if_splits sum.splits)

text \<open>The project of a lab is assigned once and never changed after.\<close>

lemma lab_step_project:
  "lab_step l l' \<Longrightarrow> lab_wf l \<Longrightarrow> lb_project l = Some p \<Longrightarrow> lb_project l' = Some p"
  by (cases "lb_state l"; induction rule: lab_step.induct)
    (auto simp: lab_op_defs lab_wf_def split: if_splits sum.splits)

text \<open>Runs of a lab, to state what must have happened on the way to a state.\<close>

fun lab_run :: "lab \<Rightarrow> lab list \<Rightarrow> bool" where
  "lab_run l [] = True"
| "lab_run l (l' # ls) = (lab_step l l' \<and> lab_run l' ls)"

lemma lab_step_into_Done:
  "lab_step l l' \<Longrightarrow> lb_state l' = Done \<Longrightarrow> lb_state l = Done \<or> lb_state l = Cleaning"
  using lab_step_state [of l l'] by (auto simp: can_transition_cases)

lemma lab_step_from_terminal:
  "lab_step l l' \<Longrightarrow> is_terminal (lb_state l) \<Longrightarrow> lb_state l' = lb_state l"
  using lab_step_state [of l l'] by (auto simp: is_terminal_def)

lemma lab_run_Done_via_Cleaning:
  "lab_run l ls \<Longrightarrow> l' \<in> set ls \<Longrightarrow> lb_state l' = Done \<Longrightarrow> lb_state l \<noteq> Done \<Longrightarrow>
     lb_state l = Cleaning \<or> (\<exists>m \<in> set ls. lb_state m = Cleaning)"
proof (induction ls arbitrary: l)
  case Nil
  then show ?case by simp
next
  case (Cons m ls)
  show ?case
  proof (cases "lb_state m = Done")
    case True
    with Cons.prems lab_step_into_Done [of l m] show ?thesis by auto
  next
    case False
    with Cons.prems have "l' \<in> set ls" by auto
    with False Cons.prems Cons.IH [of m] show ?thesis by auto
  qed
qed

lemma lab_run_terminal:
  "lab_run l ls \<Longrightarrow> is_terminal (lb_state l) \<Longrightarrow> l' \<in> set ls \<Longrightarrow> lb_state l' = lb_state l"
proof (induction ls arbitrary: l)
  case Nil
  then show ?case by simp
next
  case (Cons m ls)
  then have "lb_state m = lb_state l" by (auto dest: lab_step_from_terminal)
  with Cons show ?case by auto
qed

lemma lab_run_project:
  "lab_run l ls \<Longrightarrow> lab_wf l \<Longrightarrow> lb_project l \<noteq> None \<Longrightarrow> l' \<in> set ls \<Longrightarrow>
     lb_project l' = lb_project l"
proof (induction ls arbitrary: l)
  case Nil
  then show ?case by simp
next
  case (Cons m ls)
  then have "lb_project m = lb_project l" "lab_wf m"
    by (auto dest: lab_step_project lab_wf_step)
  with Cons show ?case by auto
qed

text \<open>
  The history in the events: \<open>chain s evs t\<close> says that the state changes recorded in \<open>evs\<close>
  lead from \<open>s\<close> to \<open>t\<close>, each one legal.
\<close>

fun chain :: "lstate \<Rightarrow> lab_event list \<Rightarrow> lstate \<Rightarrow> bool" where
  "chain s [] t = (s = t)"
| "chain s (EventStateChanged i a b r # evs) t = (s = a \<and> can_transition a b \<and> chain b evs t)"
| "chain s (_ # evs) t = chain s evs t"

lemma chain_append: "chain s (xs @ ys) t \<longleftrightarrow> (\<exists>u. chain s xs u \<and> chain u ys t)"
  by (induction s xs t rule: chain.induct) auto

text \<open>
  A lab with all the events it has handed out so far: \<open>lab_log l evs\<close> when \<open>l\<close> was made by
  \<open>new_lab\<close> and operations, and \<open>evs\<close> is what the calls of \<open>PullEvents\<close> returned, in order.
\<close>

inductive lab_log :: "lab \<Rightarrow> lab_event list \<Rightarrow> bool" where
  log_new: "lab_log (new_lab i s c t now) []"
| log_step: "lab_log l out \<Longrightarrow> lab_step l l' \<Longrightarrow> length (lb_events l) \<le> length (lb_events l') \<Longrightarrow>
    lab_log l' out"
| log_pull: "lab_log l out \<Longrightarrow> lb_pull_events l = (evs, l') \<Longrightarrow> lab_log l' (out @ evs)"

text \<open>The events an operation appends record exactly its state change.\<close>

lemma lab_step_log:
  "lab_step l l' \<Longrightarrow> length (lb_events l) \<le> length (lb_events l') \<Longrightarrow>
     \<exists>evs. lb_events l' = lb_events l @ evs \<and> chain (lb_state l) evs (lb_state l')"
  by (induction rule: lab_step.induct) (auto simp: lab_op_defs split: if_splits sum.splits)

section \<open>Properties\<close>



text \<open>
  on any run of operations a lab reaches \<open>done\<close> only through \<open>cleaning\<close>, never moves once
  it is terminal, and keeps its project once one is assigned.
\<close>
theorem lab_run_discipline:
  assumes "lab_run l ls" "lab_wf l" "l' \<in> set ls"
  shows "(lb_state l' = Done \<and> lb_state l \<noteq> Done \<longrightarrow>
            lb_state l = Cleaning \<or> (\<exists>m \<in> set ls. lb_state m = Cleaning)) \<and>
         (is_terminal (lb_state l) \<longrightarrow> lb_state l' = lb_state l) \<and>
         (lb_project l \<noteq> None \<longrightarrow> lb_project l' = lb_project l)"
  using assms lab_run_Done_via_Cleaning lab_run_terminal lab_run_project by blast

lemma lab_run_discipline_witness:
  "\<exists>l1 l2. lab_run (new_lab 7 1 2 3 100) [l1, l2] \<and> lb_state l2 = Rejected \<and>
     (lb_project (new_lab 7 1 2 3 100) \<noteq> None \<longrightarrow> lb_project l2 = None)"
proof -
  let ?l = "new_lab 7 1 2 3 100"
  obtain l1 where 1: "transition PendingProject ''quota_ok'' 101 ?l = Inr l1"
    by (simp add: new_lab_def transition_def lb_record_def)
  then have s1: "lb_state l1 = PendingProject" by (auto simp: transition_Inr lb_record_def)
  obtain l2 where 2: "transition Rejected ''pool_empty'' 102 l1 = Inr l2"
    using s1 by (simp add: transition_def)
  have run: "lab_run ?l [l1, l2]"
    using step_transition [OF _ 1] step_transition [OF _ 2] by (simp add: direct_targets_def)
  moreover have "lb_state l2 = Rejected" using 2 by (auto simp: transition_Inr lb_record_def)
  moreover have "lb_project ?l \<noteq> None \<longrightarrow> lb_project l2 = None"
    using lab_run_discipline [OF run lab_wf_new, of l2] by (simp add: new_lab_def lb_record_def)
  ultimately show ?thesis by blast
qed

text \<open>
  C28: the event log is faithful: the events a lab has handed out, followed by those it still
  holds, are a chain of legal state changes from \<open>pending_quota\<close> to its present state.
\<close>
theorem lab_log_faithful: "lab_log l out \<Longrightarrow> chain PendingQuota (out @ lb_events l) (lb_state l)"
proof (induction rule: lab_log.induct)
  case (log_new i s c t now)
  then show ?case by (simp add: new_lab_def lb_record_def)
next
  case (log_step l out l')
  from lab_step_log [OF log_step.hyps(2,3)] obtain evs
    where "lb_events l' = lb_events l @ evs" "chain (lb_state l) evs (lb_state l')" by blast
  then have "chain PendingQuota ((out @ lb_events l) @ evs) (lb_state l')"
    using log_step.IH by (subst chain_append) blast
  then show ?case using \<open>lb_events l' = lb_events l @ evs\<close> by simp
next
  case (log_pull l out evs l')
  then show ?case by (auto simp: lb_pull_events_def)
qed

lemma lab_log_faithful_witness:
  "chain PendingQuota ([EventCreated 7 1 2 3] @ lb_events (snd (lb_pull_events (new_lab 7 1 2 3 100))))
     (lb_state (snd (lb_pull_events (new_lab 7 1 2 3 100))))"
proof -
  have "lb_pull_events (new_lab 7 1 2 3 100) =
      ([EventCreated 7 1 2 3], snd (lb_pull_events (new_lab 7 1 2 3 100)))"
    by (simp add: lb_pull_events_def new_lab_def lb_record_def)
  from lab_log_faithful [OF log_pull [OF log_new this]] show ?thesis by simp
qed

end
