(* ===== verification/PoolDomain.thy ===== *)
theory PoolDomain
  imports Shared
begin

text \<open>
  \<open>internal/domain/pool\<close>: the Project aggregate, its state machine and its events. A project
  is a pre-created tenant that is rented to one lab at a time.
\<close>

section \<open>State\<close>

datatype pstate = PFree | PAllocated | PCleaning | PQuarantine | PDecommissioned

definition pstate_text :: "pstate \<Rightarrow> string" where
  "pstate_text s = (case s of PFree \<Rightarrow> ''free'' | PAllocated \<Rightarrow> ''allocated''
     | PCleaning \<Rightarrow> ''cleaning'' | PQuarantine \<Rightarrow> ''quarantine''
     | PDecommissioned \<Rightarrow> ''decommissioned'')"

definition max_cleanup_failures :: int where "max_cleanup_failures = 3"

datatype pool_event =
    EventAllocated project_id lab_id
  | EventReleasing project_id lab_id
  | EventFreed project_id
  | EventQuarantined project_id string int

definition pool_event_kind :: "pool_event \<Rightarrow> string" where
  "pool_event_kind ev = (case ev of
     EventAllocated _ _ \<Rightarrow> ''project.allocated''
   | EventReleasing _ _ \<Rightarrow> ''project.releasing''
   | EventFreed _ \<Rightarrow> ''project.freed''
   | EventQuarantined _ _ _ \<Rightarrow> ''project.quarantined'')"

record project =
  pj_id :: project_id
  pj_ki_project :: string
  pj_ki_domain :: string
  pj_name :: string
  pj_state :: pstate
  pj_lab :: "lab_id option"
  pj_failures :: int
  pj_changed_at :: time
  pj_created_at :: time
  pj_events :: "pool_event list"

definition bad_pool :: "project \<Rightarrow> string \<Rightarrow> err" where
  "bad_pool p to = InvalidTransition ''project'' (pstate_text (pj_state p)) to"

definition pj_record :: "pool_event \<Rightarrow> project \<Rightarrow> project" where
  "pj_record ev p = p\<lparr>pj_events := pj_events p @ [ev]\<rparr>"

definition pj_pull_events :: "project \<Rightarrow> pool_event list \<times> project" where
  "pj_pull_events p = (pj_events p, p\<lparr>pj_events := []\<rparr>)"

section \<open>Operations\<close>

definition allocate_to :: "lab_id \<Rightarrow> time \<Rightarrow> project \<Rightarrow> err + project" where
  "allocate_to lab now p =
     (if pj_state p \<noteq> PFree then Inl (bad_pool p (pstate_text PAllocated))
      else Inr (pj_record (EventAllocated (pj_id p) lab)
        (p\<lparr>pj_state := PAllocated, pj_lab := Some lab, pj_changed_at := now\<rparr>)))"

text \<open>
  \<open>Release\<close> dereferences \<open>AllocatedToLabID\<close>; on a nil pointer the Go code panics. The panic
  is the outer \<open>None\<close>.
\<close>

definition release :: "time \<Rightarrow> project \<Rightarrow> (err + project) option" where
  "release now p =
     (if pj_state p \<noteq> PAllocated then Some (Inl (bad_pool p (pstate_text PCleaning)))
      else (case pj_lab p of
          None \<Rightarrow> None
        | Some lab \<Rightarrow> Some (Inr (pj_record (EventReleasing (pj_id p) lab)
            (p\<lparr>pj_state := PCleaning, pj_changed_at := now\<rparr>)))))"

definition mark_clean :: "time \<Rightarrow> project \<Rightarrow> err + project" where
  "mark_clean now p =
     (if pj_state p \<noteq> PCleaning then Inl (bad_pool p (pstate_text PFree))
      else Inr (pj_record (EventFreed (pj_id p))
        (p\<lparr>pj_state := PFree, pj_lab := None, pj_failures := 0, pj_changed_at := now\<rparr>)))"

definition record_cleanup_failure :: "string \<Rightarrow> time \<Rightarrow> project \<Rightarrow> err + project" where
  "record_cleanup_failure reason now p =
     (if pj_state p \<noteq> PCleaning then Inl (bad_pool p ''cleanup_failure'')
      else let p1 = p\<lparr>pj_failures := wrap64 (pj_failures p + 1), pj_changed_at := now\<rparr> in
        Inr (if max_cleanup_failures \<le> pj_failures p1
             then pj_record (EventQuarantined (pj_id p) reason (pj_failures p1))
                    (p1\<lparr>pj_state := PQuarantine\<rparr>)
             else p1))"

definition quarantine_now :: "string \<Rightarrow> time \<Rightarrow> project \<Rightarrow> err + project" where
  "quarantine_now reason now p =
     (if pj_state p = PDecommissioned \<or> pj_state p = PQuarantine
      then Inl (bad_pool p (pstate_text PQuarantine))
      else Inr (pj_record (EventQuarantined (pj_id p) reason (pj_failures p))
        (p\<lparr>pj_state := PQuarantine, pj_changed_at := now\<rparr>)))"

definition manual_resolve :: "time \<Rightarrow> project \<Rightarrow> err + project" where
  "manual_resolve now p =
     (if pj_state p \<noteq> PQuarantine then Inl (bad_pool p (pstate_text PCleaning))
      else Inr (p\<lparr>pj_state := PCleaning, pj_failures := 0, pj_changed_at := now\<rparr>))"

section \<open>The state machine\<close>

text \<open>One step of a project: any of its operations that succeeds.\<close>

inductive pool_step :: "project \<Rightarrow> project \<Rightarrow> bool" where
  step_allocate: "allocate_to lab now p = Inr q \<Longrightarrow> pool_step p q"
| step_release: "release now p = Some (Inr q) \<Longrightarrow> pool_step p q"
| step_clean: "mark_clean now p = Inr q \<Longrightarrow> pool_step p q"
| step_failure: "record_cleanup_failure r now p = Inr q \<Longrightarrow> pool_step p q"
| step_quarantine: "quarantine_now r now p = Inr q \<Longrightarrow> pool_step p q"
| step_resolve: "manual_resolve now p = Inr q \<Longrightarrow> pool_step p q"
| step_pull: "pj_pull_events p = (evs, q) \<Longrightarrow> pool_step p q"

lemmas pool_op_defs = allocate_to_def release_def mark_clean_def record_cleanup_failure_def
  quarantine_now_def manual_resolve_def pj_pull_events_def pj_record_def Let_def

text \<open>
  Well-formed projects: an allocated project names its lab, a free one names none and has no
  recorded failure, and the failure count of a project being cleaned is under the threshold.
\<close>

definition project_wf :: "project \<Rightarrow> bool" where
  "project_wf p \<longleftrightarrow>
     (pj_state p = PAllocated \<longrightarrow> pj_lab p \<noteq> None) \<and>
     (pj_state p = PFree \<longrightarrow> pj_lab p = None \<and> pj_failures p = 0) \<and>
     (pj_state p \<in> {PAllocated, PCleaning} \<longrightarrow> pj_failures p < max_cleanup_failures) \<and>
     0 \<le> pj_failures p \<and> pj_failures p \<le> max_cleanup_failures"

lemma project_wf_step: "pool_step p q \<Longrightarrow> project_wf p \<Longrightarrow> project_wf q"
  by (induction rule: pool_step.induct)
    (auto simp: pool_op_defs project_wf_def max_cleanup_failures_def wrap64_def
      split: if_splits option.splits)

lemma wf_release_no_panic: "project_wf p \<Longrightarrow> release now p \<noteq> None"
  by (auto simp: release_def project_wf_def split: option.splits)

text \<open>The documented transitions of a project (the drawn graph of the state machine).\<close>

definition pool_edges :: "(pstate \<times> pstate) set" where
  "pool_edges = {(PFree, PAllocated), (PAllocated, PCleaning), (PCleaning, PFree),
     (PCleaning, PQuarantine), (PAllocated, PQuarantine), (PQuarantine, PCleaning),
     (PQuarantine, PDecommissioned)}"

lemma pool_step_state:
  "pool_step p q \<Longrightarrow>
     pj_state q = pj_state p \<or> (pj_state p, pj_state q) \<in> pool_edges \<union> {(PFree, PQuarantine)}"
  by (induction rule: pool_step.induct)
    (auto simp: pool_op_defs pool_edges_def split: if_splits option.splits, (metis pstate.exhaust)+)

lemma pool_step_ident:
  "pool_step p q \<Longrightarrow> pj_id q = pj_id p \<and> pj_ki_project q = pj_ki_project p \<and>
     pj_ki_domain q = pj_ki_domain p \<and> pj_name q = pj_name p \<and>
     pj_created_at q = pj_created_at p"
  by (induction rule: pool_step.induct)
    (auto simp: pool_op_defs split: if_splits option.splits)

text \<open>A project is freed by \<open>mark_clean\<close> only, and only out of \<open>cleaning\<close>.\<close>

lemma pool_step_freed:
  "pool_step p q \<Longrightarrow> pj_state q = PFree \<Longrightarrow> pj_state p = PFree \<or> pj_state p = PCleaning"
  by (induction rule: pool_step.induct)
    (auto simp: pool_op_defs split: if_splits option.splits)

text \<open>\<open>n\<close> failed cleanups in a row.\<close>

fun fail_times :: "nat \<Rightarrow> string \<Rightarrow> time \<Rightarrow> project \<Rightarrow> err + project" where
  "fail_times 0 r now p = Inr p"
| "fail_times (Suc n) r now p =
     (case record_cleanup_failure r now p of Inl e \<Rightarrow> Inl e | Inr q \<Rightarrow> fail_times n r now q)"

text \<open>Runs of a project, for what lies between two rentals.\<close>

fun pool_run :: "project \<Rightarrow> project list \<Rightarrow> bool" where
  "pool_run p [] = True"
| "pool_run p (q # qs) = (pool_step p q \<and> pool_run q qs)"

lemma pool_run_through_cleaning:
  "pool_run p qs \<Longrightarrow> q \<in> set qs \<Longrightarrow> pj_state q = PFree \<Longrightarrow> pj_state p \<noteq> PFree \<Longrightarrow>
     \<exists>m \<in> set (p # qs). pj_state m = PCleaning"
proof (induction qs arbitrary: p)
  case Nil
  then show ?case by simp
next
  case (Cons m qs)
  show ?case
  proof (cases "pj_state m = PFree")
    case True
    with Cons.prems pool_step_freed [of p m] show ?thesis by auto
  next
    case False
    with Cons.prems have "q \<in> set qs" by auto
    with False Cons.prems Cons.IH [of m] show ?thesis by auto
  qed
qed

lemma pool_run_wf: "pool_run p qs \<Longrightarrow> project_wf p \<Longrightarrow> q \<in> set qs \<Longrightarrow> project_wf q"
  by (induction qs arbitrary: p) (auto dest: project_wf_step)

lemma fail_times_state:
  "pj_state p = PCleaning \<Longrightarrow> 0 \<le> pj_failures p \<Longrightarrow> pj_failures p + int n < max_cleanup_failures \<Longrightarrow>
     \<exists>q. fail_times n r now p = Inr q \<and> pj_state q = PCleaning \<and> pj_failures q = pj_failures p + int n"
proof (induction n arbitrary: p)
  case 0
  then show ?case by simp
next
  case (Suc n)
  obtain p1 where p1: "record_cleanup_failure r now p = Inr p1" "pj_state p1 = PCleaning"
    "pj_failures p1 = pj_failures p + 1"
    using Suc.prems by (auto simp: record_cleanup_failure_def Let_def max_cleanup_failures_def wrap64_def)
  with Suc.IH [of p1] Suc.prems show ?case by auto
qed

lemma fail_times_quarantine:
  "pj_state p = PCleaning \<Longrightarrow> 0 \<le> pj_failures p \<Longrightarrow> pj_failures p < max_cleanup_failures \<Longrightarrow>
     int n = max_cleanup_failures - pj_failures p \<Longrightarrow>
     \<exists>q. fail_times n r now p = Inr q \<and> pj_state q = PQuarantine \<and>
       EventQuarantined (pj_id p) r max_cleanup_failures \<in> set (pj_events q)"
proof (induction n arbitrary: p)
  case 0
  then show ?case by simp
next
  case (Suc n)
  show ?case
  proof (cases n)
    case 0
    then show ?thesis using Suc.prems
      by (auto simp: record_cleanup_failure_def Let_def max_cleanup_failures_def wrap64_def pj_record_def)
  next
    case (Suc m)
    then obtain p1 where p1: "record_cleanup_failure r now p = Inr p1" "pj_state p1 = PCleaning"
      "pj_failures p1 = pj_failures p + 1" "pj_id p1 = pj_id p"
      using Suc.prems by (auto simp: record_cleanup_failure_def Let_def max_cleanup_failures_def wrap64_def)
    then show ?thesis using Suc.IH [of p1] Suc.prems \<open>n = Suc m\<close> by auto
  qed
qed

section \<open>Properties\<close>

text \<open>
  C27: on any run of operations a well-formed project stays well-formed (an allocated project
  names its lab, a free one has no lab and no failures, fewer than three failures while it is
  in use), \<open>Release\<close> then never dereferences a nil lab, and between being in use and being
  free again it was cleaned.
\<close>
theorem pool_run_discipline:
  assumes "pool_run p qs" "project_wf p" "q \<in> set qs"
  shows "project_wf q \<and> release now q \<noteq> None \<and>
    (pj_state p \<noteq> PFree \<and> pj_state q = PFree \<longrightarrow> (\<exists>m \<in> set (p # qs). pj_state m = PCleaning))"
  using assms pool_run_wf pool_run_through_cleaning wf_release_no_panic by blast

definition sample_project :: "pstate \<Rightarrow> lab_id option \<Rightarrow> int \<Rightarrow> project" where
  "sample_project s l f = \<lparr>pj_id = 5, pj_ki_project = ''ki-5'', pj_ki_domain = ''d'',
     pj_name = ''pool-5'', pj_state = s, pj_lab = l, pj_failures = f, pj_changed_at = 10,
     pj_created_at = 1, pj_events = []\<rparr>"

lemma pool_run_discipline_witness:
  "\<exists>q. allocate_to 9 20 (sample_project PFree None 0) = Inr q \<and> project_wf q \<and> pj_lab q = Some 9"
proof -
  let ?p = "sample_project PFree None 0"
  obtain q where q: "allocate_to 9 20 ?p = Inr q" by (simp add: allocate_to_def sample_project_def)
  then have "pool_run ?p [q]" by (auto intro: pool_step.intros)
  moreover have "project_wf ?p"
    by (simp add: project_wf_def sample_project_def max_cleanup_failures_def)
  ultimately have "project_wf q" using pool_run_discipline [of ?p "[q]" q 30] by simp
  moreover have "pj_lab q = Some 9"
    using q by (auto simp: allocate_to_def pj_record_def sample_project_def)
  ultimately show ?thesis using q by blast
qed

text \<open>
  the failure threshold is exact: a project under cleaning that has \<open>f\<close> failures stays
  under cleaning for the failures that keep the count under three, and the failure that makes
  it three quarantines it with an event that carries the reason and the count.
\<close>
theorem quarantine_threshold:
  assumes "pj_state p = PCleaning" "0 \<le> pj_failures p" "pj_failures p < max_cleanup_failures"
  shows "(int n < max_cleanup_failures - pj_failures p \<longrightarrow>
      (\<exists>q. fail_times n r now p = Inr q \<and> pj_state q = PCleaning \<and>
           pj_failures q = pj_failures p + int n)) \<and>
    (int n = max_cleanup_failures - pj_failures p \<longrightarrow>
      (\<exists>q. fail_times n r now p = Inr q \<and> pj_state q = PQuarantine \<and>
           EventQuarantined (pj_id p) r max_cleanup_failures \<in> set (pj_events q)))"
proof -
  have "\<exists>q. fail_times n r now p = Inr q \<and> pj_state q = PQuarantine \<and>
      EventQuarantined (pj_id p) r max_cleanup_failures \<in> set (pj_events q)"
    if "int n = max_cleanup_failures - pj_failures p"
    by (rule fail_times_quarantine [OF assms(1,2,3) that])
  moreover have "\<exists>q. fail_times n r now p = Inr q \<and> pj_state q = PCleaning \<and>
      pj_failures q = pj_failures p + int n" if "int n < max_cleanup_failures - pj_failures p"
    using fail_times_state [of p n] assms that by simp
  ultimately show ?thesis by blast
qed

lemma quarantine_threshold_witness:
  "\<exists>q. fail_times 2 ''x'' 50 (sample_project PCleaning (Some 9) 1) = Inr q \<and>
     pj_state q = PQuarantine"
  using quarantine_threshold [of "sample_project PCleaning (Some 9) 1" 2 "''x''" 50]
  by (auto simp: sample_project_def max_cleanup_failures_def)

end
