(* ===== verification/Identity.thy ===== *)
theory Identity
  imports Shared
begin

text \<open>
  \<open>internal/domain/identity\<close>: roles, users, courses, enrollments and the RBAC policy. Go's
  string-typed roles and actions are datatypes with a constructor for any other string.
\<close>

section \<open>Entities\<close>

datatype role = RoleStudent | RoleTeacher | RoleAdmin | RoleOther string

datatype course_role = CourseRoleLearner | CourseRoleTeacher | CourseRoleOther string

record user =
  us_id :: user_id
  us_display_name :: string
  us_email :: string
  us_role :: role
  us_created_at :: time

record course =
  co_id :: course_id
  co_external_id :: string
  co_name :: string
  co_ki_domain :: string
  co_created_at :: time

record enrollment =
  en_user :: user_id
  en_course :: course_id
  en_role :: course_role
  en_created_at :: time

section \<open>Policy\<close>

datatype action =
    ActionLabCreate | ActionLabRead | ActionLabFreeze | ActionLabUnfreeze | ActionLabExtend
  | ActionLabDelete | ActionLabSSHKey | ActionCheckRun | ActionAdminPool | ActionAdminSetting
  | ActionAdminQuota | ActionAdminAudit | ActionOther string

datatype policy_resource =
    LabResource lab_id (res_owner: user_id) (res_course: course_id)
  | CourseResource course_id
  | GlobalAdminResource

record subject =
  sb_user :: user_id
  sb_role :: role
  sb_course_roles :: "course_id \<rightharpoonup> course_role"

definition forbid :: "err option" where "forbid = Some (Sentinel ErrForbidden)"

text \<open>The result of a policy check is Go's returned \<open>error\<close>: \<open>None\<close> is nil.\<close>

definition can_act_on_lab :: "subject \<Rightarrow> action \<Rightarrow> policy_resource \<Rightarrow> err option" where
  "can_act_on_lab s a r = (case r of
     LabResource i owner course \<Rightarrow>
       if sb_role s = RoleAdmin then None
       else if sb_course_roles s course = Some CourseRoleTeacher
       then (if a = ActionLabSSHKey then forbid else None)
       else if owner \<noteq> sb_user s then forbid
       else if a = ActionLabUnfreeze \<or> a = ActionLabExtend then forbid
       else None
   | _ \<Rightarrow> forbid)"

definition policy_can :: "subject \<Rightarrow> action \<Rightarrow> policy_resource \<Rightarrow> err option" where
  "policy_can s a r =
     (if a \<in> {ActionLabCreate, ActionLabRead, ActionLabFreeze, ActionLabExtend,
              ActionLabUnfreeze, ActionLabDelete, ActionLabSSHKey, ActionCheckRun}
      then can_act_on_lab s a r
      else if a \<in> {ActionAdminPool, ActionAdminAudit, ActionAdminQuota}
      then (if sb_role s = RoleAdmin then None else forbid)
      else if a = ActionAdminSetting
      then (if sb_role s = RoleAdmin \<or> sb_role s = RoleTeacher then None else forbid)
      else forbid)"

text \<open>The actions of the policy that concern labs.\<close>

definition lab_actions :: "action list" where
  "lab_actions = [ActionLabCreate, ActionLabRead, ActionLabFreeze, ActionLabUnfreeze,
     ActionLabExtend, ActionLabDelete, ActionLabSSHKey, ActionCheckRun]"

lemma policy_can_lab:
  "a \<in> set lab_actions \<Longrightarrow> policy_can s a r = can_act_on_lab s a r"
  by (auto simp: policy_can_def lab_actions_def)

lemma policy_can_values: "policy_can s a r = None \<or> policy_can s a r = Some (Sentinel ErrForbidden)"
  by (auto simp: policy_can_def can_act_on_lab_def forbid_def split: policy_resource.splits)

section \<open>Properties\<close>

text \<open>
  C36: the authorisation table of lab actions. On a lab, an administrator may do everything; a
  teacher of the lab's course everything but read its SSH key; the owner who is no teacher of
  the course everything but unfreeze and extend; anyone else nothing.
\<close>
theorem policy_lab_table:
  assumes "a \<in> set lab_actions"
  shows "policy_can s a (LabResource i owner course) = None \<longleftrightarrow>
    sb_role s = RoleAdmin \<or>
    (sb_course_roles s course = Some CourseRoleTeacher \<and> a \<noteq> ActionLabSSHKey) \<or>
    (sb_course_roles s course \<noteq> Some CourseRoleTeacher \<and> owner = sb_user s \<and>
       a \<noteq> ActionLabUnfreeze \<and> a \<noteq> ActionLabExtend)"
  using assms by (auto simp: policy_can_lab can_act_on_lab_def forbid_def)

lemma policy_lab_table_witness:
  "policy_can \<lparr>sb_user = 1, sb_role = RoleStudent, sb_course_roles = Map.empty\<rparr> ActionLabSSHKey
     (LabResource 9 1 4) = None \<and>
   policy_can \<lparr>sb_user = 1, sb_role = RoleTeacher, sb_course_roles = [4 \<mapsto> CourseRoleTeacher]\<rparr>
     ActionLabSSHKey (LabResource 9 1 4) \<noteq> None"
  by (simp add: policy_lab_table lab_actions_def)

end
