(* ===== verification/CheckDomain.thy ===== *)
theory CheckDomain
  imports Shared
begin

text \<open>
  \<open>internal/domain/verify\<close>: the CheckRun aggregate, one execution of a check.
\<close>

datatype run_state = Queued | Running | Passed | RunFailed | Timeout | Errored | OtherState string

definition run_state_text :: "run_state \<Rightarrow> string" where
  "run_state_text s = (case s of Queued \<Rightarrow> ''queued'' | Running \<Rightarrow> ''running''
     | Passed \<Rightarrow> ''passed'' | RunFailed \<Rightarrow> ''failed'' | Timeout \<Rightarrow> ''timeout''
     | Errored \<Rightarrow> ''errored'' | OtherState x \<Rightarrow> x)"

definition run_terminal :: "run_state \<Rightarrow> bool" where
  "run_terminal s \<longleftrightarrow> s = Passed \<or> s = RunFailed \<or> s = Timeout \<or> s = Errored"

datatype step_status = StepOK | StepChanged | StepFailed | StepUnreachable | StepSkipped

record step_result =
  sr_task :: string
  sr_status :: step_status
  sr_expected :: "json option"
  sr_actual :: "json option"
  sr_message :: string

record check_run =
  cr_id :: check_run_id
  cr_lab :: lab_id
  cr_template :: check_template_id
  cr_triggered_by :: "user_id option"
  cr_state :: run_state
  cr_started_at :: "time option"
  cr_finished_at :: "time option"
  cr_summary :: string
  cr_stdout :: string
  cr_steps :: "step_result list"

definition run_start :: "time \<Rightarrow> check_run \<Rightarrow> err + check_run" where
  "run_start now r =
     (if cr_state r \<noteq> Queued
      then Inl (InvalidTransition ''check_run'' (run_state_text (cr_state r)) (run_state_text Running))
      else Inr (r\<lparr>cr_state := Running, cr_started_at := Some now\<rparr>))"

definition run_finish ::
  "run_state \<Rightarrow> string \<Rightarrow> step_result list \<Rightarrow> string \<Rightarrow> time \<Rightarrow> check_run \<Rightarrow> err + check_run" where
  "run_finish final summary steps stdout now r =
     (if cr_state r \<noteq> Running
      then Inl (InvalidTransition ''check_run'' (run_state_text (cr_state r)) (run_state_text final))
      else if \<not> run_terminal final then Inl (Sentinel ErrInvalidInput)
      else Inr (r\<lparr>cr_state := final, cr_summary := summary, cr_steps := steps,
                  cr_stdout := stdout, cr_finished_at := Some now\<rparr>))"

inductive run_step :: "check_run \<Rightarrow> check_run \<Rightarrow> bool" where
  rs_start: "run_start now r = Inr r' \<Longrightarrow> run_step r r'"
| rs_finish: "run_finish f s st so now r = Inr r' \<Longrightarrow> run_step r r'"

text \<open>Timestamps follow the state: started once running, finished exactly when terminal.\<close>

definition run_wf :: "check_run \<Rightarrow> bool" where
  "run_wf r \<longleftrightarrow>
     (cr_state r = Queued \<longrightarrow> cr_started_at r = None) \<and>
     (cr_state r = Running \<or> run_terminal (cr_state r) \<longrightarrow> cr_started_at r \<noteq> None) \<and>
     (run_terminal (cr_state r) \<longleftrightarrow> cr_finished_at r \<noteq> None)"

lemma run_wf_step: "run_step r r' \<Longrightarrow> run_wf r \<Longrightarrow> run_wf r'"
  by (induction rule: run_step.induct)
    (auto simp: run_start_def run_finish_def run_wf_def run_terminal_def split: if_splits)

text \<open>The steps, exactly: a queued run starts, a running one gets a verdict with all it comes with.\<close>

lemma run_start_iff:
  "run_start now r = Inr r' \<longleftrightarrow> cr_state r = Queued \<and> r' = r\<lparr>cr_state := Running, cr_started_at := Some now\<rparr>"
  by (auto simp: run_start_def)

lemma run_finish_iff:
  "run_finish f s st so now r = Inr r' \<longleftrightarrow> cr_state r = Running \<and> run_terminal f \<and>
     r' = r\<lparr>cr_state := f, cr_summary := s, cr_steps := st, cr_stdout := so, cr_finished_at := Some now\<rparr>"
  by (auto simp: run_finish_def)

inductive_simps run_step_iff: "run_step r r'"

lemma run_step_exact:
  "run_step r r' \<longleftrightarrow>
     (cr_state r = Queued \<and> (\<exists>now. r' = r\<lparr>cr_state := Running, cr_started_at := Some now\<rparr>)) \<or>
     (cr_state r = Running \<and> (\<exists>f s st so now. run_terminal f \<and>
        r' = r\<lparr>cr_state := f, cr_summary := s, cr_steps := st, cr_stdout := so, cr_finished_at := Some now\<rparr>))"
  unfolding run_step_iff run_start_iff run_finish_iff by blast

lemma run_step_order:
  "run_step r r' \<Longrightarrow>
     (cr_state r = Queued \<and> cr_state r' = Running) \<or>
     (cr_state r = Running \<and> run_terminal (cr_state r'))"
  unfolding run_step_exact by auto

lemma run_terminal_final: "run_terminal (cr_state r) \<Longrightarrow> \<not> run_step r r'"
  using run_step_order [of r r'] by (auto simp: run_terminal_def)

section \<open>Properties\<close>

text \<open>
  a check run keeps its invariant (started once running, finished exactly when terminal),
  moves only from queued to running and from running to a terminal state, and never moves
  again after that.
\<close>
theorem check_run_machine:
  assumes "run_step r r'" "run_wf r"
  shows "run_wf r' \<and> \<not> run_terminal (cr_state r) \<and>
    ((cr_state r = Queued \<and> cr_state r' = Running) \<or>
     (cr_state r = Running \<and> run_terminal (cr_state r')))"
  using assms run_wf_step run_step_order run_terminal_final by blast

lemma check_run_machine_witness:
  "\<exists>r'. run_step \<lparr>cr_id = 1, cr_lab = 2, cr_template = 3, cr_triggered_by = None, cr_state = Queued,
      cr_started_at = None, cr_finished_at = None, cr_summary = '''', cr_stdout = '''', cr_steps = []\<rparr> r'
     \<and> run_wf r'"
proof -
  let ?r = "\<lparr>cr_id = 1, cr_lab = 2, cr_template = 3, cr_triggered_by = None, cr_state = Queued,
      cr_started_at = None, cr_finished_at = None, cr_summary = '''', cr_stdout = '''', cr_steps = []\<rparr>"
  obtain r' where "run_start 5 ?r = Inr r'" by (simp add: run_start_def)
  then have "run_step ?r r'" by (rule rs_start)
  moreover have "run_wf ?r" by (simp add: run_wf_def run_terminal_def)
  ultimately show ?thesis using check_run_machine by blast
qed

end
