(* ===== verification/Ports.thy ===== *)
theory Ports
  imports LabDomain PoolDomain Identity CheckDomain
begin

text \<open>
  \<open>internal/ports\<close>: the data types that cross the interfaces between the application and its
  adapters, and the functions of third-party packages the code relies on, as a record of
  parameters.
\<close>

type_synonym bytes = "8 word list"

text \<open>
  Third-party functions: the string form of a UUID and its parser (google/uuid), the RFC 3339
  JSON form of a time, and AES-GCM sealing and opening of the platform's crypto library.
\<close>

record lib =
  uuid_string :: "uuid \<Rightarrow> string"
  uuid_parse :: "string \<Rightarrow> uuid option"
  time_json :: "time \<Rightarrow> json"
  gcm_seal :: "bytes \<Rightarrow> bytes \<Rightarrow> bytes \<Rightarrow> string \<Rightarrow> bytes"
  gcm_open :: "bytes \<Rightarrow> bytes \<Rightarrow> bytes \<Rightarrow> string \<Rightarrow> bytes option"

definition uuid_ok :: "lib \<Rightarrow> bool" where
  "uuid_ok L \<longleftrightarrow> (\<forall>u. uuid_parse L (uuid_string L u) = Some u)"

section \<open>Tasks\<close>

datatype task_type = TaskDeployLab | TaskCleanupLab | TaskRunCheck | TaskRefreshQuota
  | TaskUnfreezeLab | TaskOther string

record task =
  tk_type :: task_type
  tk_payload :: json
  tk_key :: string
  tk_queue :: string
  tk_max_retries :: int

section \<open>Deploy steps, audit events, settings, check templates\<close>

record deploy_step =
  ds_lab :: lab_id
  ds_name :: string
  ds_status :: string
  ds_attempt :: int
  ds_last_error :: string
  ds_result :: "json option"
  ds_started_at :: "time option"
  ds_finished_at :: "time option"

record audit_event =
  ae_id :: audit_event_id
  ae_kind :: string
  ae_actor :: "user_id option"
  ae_subject_type :: string
  ae_subject_id :: "string option"
  ae_payload :: "json option"
  ae_request_id :: string
  ae_occurred_at :: time

record audit_filter =
  af_kind :: "string option"
  af_actor :: "user_id option"
  af_since :: "time option"
  af_limit :: int

record setting =
  st_key :: string
  st_value :: json
  st_scope :: string
  st_scope_id :: "string option"
  st_updated_by :: user_id
  st_updated_at :: time

record check_template =
  ct_id :: check_template_id
  ct_slug :: string
  ct_name :: string
  ct_playbook :: string
  ct_timeout :: int

section \<open>Cloud\<close>

record keypair =
  kp_name :: string
  kp_public :: string
  kp_private :: bytes
  kp_fingerprint :: string

record server_spec =
  ss_name :: string
  ss_image :: string
  ss_flavor :: string
  ss_network :: string
  ss_keypair :: string
  ss_user_data :: string
  ss_metadata :: "(string \<times> string) list"

record network_spec =
  ns_name :: string
  ns_cidr :: string

text \<open>
  The methods of \<open>ports.CloudProvider\<close> as a record of functions on the provider's state: an
  application function takes the provider it was constructed with as an argument.
\<close>

record 'c cloud_ops =
  c_quota :: "'c \<Rightarrow> (err + quota_snapshot) \<times> 'c"
  c_create_keypair :: "string \<Rightarrow> string \<Rightarrow> 'c \<Rightarrow> (err + keypair) \<times> 'c"
  c_delete_keypair :: "string \<Rightarrow> string \<Rightarrow> 'c \<Rightarrow> (err + unit) \<times> 'c"
  c_boot_server :: "string \<Rightarrow> server_spec \<Rightarrow> 'c \<Rightarrow> (err + string) \<times> 'c"
  c_wait_active :: "string \<Rightarrow> string \<Rightarrow> 'c \<Rightarrow> (err + unit) \<times> 'c"
  c_allocate_fip :: "string \<Rightarrow> string \<Rightarrow> 'c \<Rightarrow> (err + string) \<times> 'c"
  c_delete_server :: "string \<Rightarrow> string \<Rightarrow> 'c \<Rightarrow> (err + unit) \<times> 'c"
  c_create_network :: "string \<Rightarrow> network_spec \<Rightarrow> 'c \<Rightarrow> (err + string) \<times> 'c"
  c_delete_network :: "string \<Rightarrow> string \<Rightarrow> 'c \<Rightarrow> (err + unit) \<times> 'c"

section \<open>Checks\<close>

record ansible_stats =
  as_ok :: int
  as_changed :: int
  as_failed :: int
  as_unreachable :: int
  as_skipped :: int

record check_request =
  rq_playbook :: string
  rq_host :: string
  rq_ssh_user :: string
  rq_key :: bytes
  rq_vars :: "(string \<times> string) list"
  rq_timeout :: int

record check_result =
  rs_state :: run_state
  rs_steps :: "step_result list"
  rs_stdout :: string
  rs_stats :: ansible_stats

end
