(* ===== verification/World.thy ===== *)
theory World
  imports Ports
begin

text \<open>
  The world the stateful code runs in: the Postgres tables of \<open>migrations/\<close> with the row types
  of \<open>sqlcgen/models.gen.go\<close>, the state of the cloud provider, the accepted tasks, and the
  environment that decides what is not the program's choice: which statements fail, what the
  clocks read, which UUIDs and random bytes are drawn, what the task broker answers and which
  rows other transactions hold locked. \<open>with_tx\<close> is the unit of work.
\<close>

section \<open>Rows\<close>

record project_row =
  pr_id :: uuid
  pr_ki_project :: string
  pr_ki_domain :: string
  pr_name :: string
  pr_state :: pstate
  pr_lab :: "uuid option"
  pr_failures :: int
  pr_changed_at :: time
  pr_created_at :: time

record lab_row =
  lr_id :: uuid
  lr_student :: uuid
  lr_course :: uuid
  lr_template :: uuid
  lr_project :: "uuid option"
  lr_state :: lstate
  lr_reason :: string
  lr_resources :: json
  lr_cleanup_at :: "time option"
  lr_unfreeze_at :: "time option"
  lr_frozen_by :: "uuid option"
  lr_frozen_reason :: "string option"
  lr_student_key :: "uuid option"
  lr_checker_key :: "uuid option"
  lr_created_at :: time
  lr_updated_at :: time

record step_row =
  dr_lab :: uuid
  dr_name :: string
  dr_status :: string
  dr_attempt :: int
  dr_last_error :: "string option"
  dr_result :: "json option"
  dr_started_at :: "time option"
  dr_finished_at :: "time option"

record outbox_row =
  ob_id :: int
  ob_topic :: string
  ob_payload :: json
  ob_occurred_at :: time
  ob_published_at :: "time option"
  ob_attempts :: int

record audit_row =
  ar_id :: uuid
  ar_kind :: string
  ar_actor :: "uuid option"
  ar_subject_type :: string
  ar_subject_id :: "string option"
  ar_payload :: json
  ar_request_id :: "string option"
  ar_occurred_at :: time

record setting_row =
  sw_key :: string
  sw_scope :: string
  sw_scope_id :: string
  sw_value :: json
  sw_updated_by :: "uuid option"
  sw_updated_at :: time

record secret_row =
  se_id :: uuid
  se_kind :: string
  se_ref :: string
  se_dek_ct :: bytes
  se_dek_nonce :: bytes
  se_ct :: bytes
  se_nonce :: bytes
  se_aad :: string
  se_kek_version :: int
  se_created_at :: time

record run_row =
  ru_id :: uuid
  ru_lab :: uuid
  ru_template :: uuid
  ru_triggered_by :: "uuid option"
  ru_state :: run_state
  ru_summary :: string
  ru_stdout :: string
  ru_started_at :: "time option"
  ru_finished_at :: "time option"
  ru_created_at :: time

record run_step_row =
  rw_run :: uuid
  rw_seq :: int
  rw_task :: string
  rw_status :: step_status
  rw_expected :: "json option"
  rw_actual :: "json option"
  rw_message :: "string option"

record user_row =
  uw_id :: uuid
  uw_display_name :: string
  uw_email :: "string option"
  uw_role :: role
  uw_created_at :: time

record lti_row =
  li_user :: uuid
  li_iss :: string
  li_sub :: string
  li_created_at :: time

record db =
  t_users :: "user_row list"
  t_lti :: "lti_row list"
  t_enrollments :: "enrollment list"
  t_projects :: "project_row list"
  t_labs :: "lab_row list"
  t_steps :: "step_row list"
  t_outbox :: "outbox_row list"
  t_outbox_seq :: int
  t_audit :: "audit_row list"
  t_settings :: "setting_row list"
  t_secrets :: "secret_row list"
  t_runs :: "run_row list"
  t_run_steps :: "run_step_row list"
  t_templates :: "check_template list"
  t_courses :: "course list"
  t_quota :: "(quota_snapshot \<times> time) option"

definition empty_db :: db where
  "empty_db = \<lparr>t_users = [], t_lti = [], t_enrollments = [], t_projects = [], t_labs = [], t_steps = [], t_outbox = [], t_outbox_seq = 1,
     t_audit = [], t_settings = [], t_secrets = [], t_runs = [], t_run_steps = [],
     t_templates = [], t_courses = [], t_quota = None\<rparr>"

section \<open>The world\<close>

datatype broker_outcome = Accepted string | TaskIDConflict | DuplicateTask | BrokerError string

record env =
  e_db_fault :: "nat \<Rightarrow> err option"
  e_db_now :: "nat \<Rightarrow> time"
  e_clock :: "nat \<Rightarrow> time"
  e_uuid :: "nat \<Rightarrow> uuid"
  e_bytes :: "nat \<Rightarrow> nat \<Rightarrow> bytes"
  e_broker :: "nat \<Rightarrow> broker_outcome"
  e_locked :: "nat \<Rightarrow> uuid list"

record 'c world =
  w_db :: db
  w_snap :: "db option"
  w_aborted :: bool
  w_cloud :: 'c
  w_tasks :: "(task \<times> time option) list"
  w_stmt :: nat
  w_tick :: nat
  w_draw :: nat
  w_enq :: nat
  w_env :: env

type_synonym ('c, 'a) prog = "('c world, err, 'a) io"

text \<open>
  \<open>d.Clock.Now()\<close>, \<open>uuid.New()\<close> and reading exactly \<open>n\<close> bytes of \<open>crypto/rand\<close>, which does
  not fail.
\<close>

definition clock_now :: "('c, time) prog" where
  "clock_now w = (Inr (e_clock (w_env w) (w_tick w)), w\<lparr>w_tick := Suc (w_tick w)\<rparr>)"

definition new_uuid :: "('c, uuid) prog" where
  "new_uuid w = (Inr (e_uuid (w_env w) (w_draw w)), w\<lparr>w_draw := Suc (w_draw w)\<rparr>)"

definition random_bytes :: "nat \<Rightarrow> ('c, bytes) prog" where
  "random_bytes n w = (Inr (take n (e_bytes (w_env w) (w_draw w) n @ replicate n 0)),
     w\<lparr>w_draw := Suc (w_draw w)\<rparr>)"

text \<open>A call of the cloud provider.\<close>

definition on_cloud :: "('c \<Rightarrow> (err + 'a) \<times> 'c) \<Rightarrow> ('c, 'a) prog" where
  "on_cloud f w = (case f (w_cloud w) of (r, c) \<Rightarrow> (r, w\<lparr>w_cloud := c\<rparr>))"

section \<open>Statements\<close>

text \<open>
  A statement reads the tables and the SQL \<open>now()\<close> and returns an error of the database or a
  value with the new tables. Inside a transaction a failed statement aborts the transaction:
  every later statement fails with SQLSTATE 25P02 until it ends.
\<close>

type_synonym 'a stmt = "time \<Rightarrow> db \<Rightarrow> err + ('a \<times> db)"

definition aborted_error :: err where
  "aborted_error = PgError ''25P02''
     ''current transaction is aborted, commands ignored until end of transaction block''"

definition tx_stmt :: "'a stmt \<Rightarrow> ('c, 'a) prog" where
  "tx_stmt f w =
     (let n = w_stmt w; w1 = w\<lparr>w_stmt := Suc n\<rparr> in
      if w_aborted w then (Inl aborted_error, w1)
      else case e_db_fault (w_env w) n of
        Some e \<Rightarrow> (Inl e, w1\<lparr>w_aborted := True\<rparr>)
      | None \<Rightarrow> (case f (e_db_now (w_env w) n) (w_db w) of
          Inl e \<Rightarrow> (Inl e, w1\<lparr>w_aborted := True\<rparr>)
        | Inr (x, d) \<Rightarrow> (Inr x, w1\<lparr>w_db := d\<rparr>)))"

text \<open>A query on a connection of the pool sees committed rows only.\<close>

definition committed :: "'c world \<Rightarrow> db" where
  "committed w = (case w_snap w of None \<Rightarrow> w_db w | Some d \<Rightarrow> d)"

lemma committed_idle [simp]: "w_snap w = None \<Longrightarrow> committed w = w_db w"
  by (simp add: committed_def)

definition conn_query :: "(db \<Rightarrow> 'a) \<Rightarrow> ('c, 'a) prog" where
  "conn_query f w =
     (let n = w_stmt w; w1 = w\<lparr>w_stmt := Suc n\<rparr> in
      case e_db_fault (w_env w) n of
        Some e \<Rightarrow> (Inl e, w1)
      | None \<Rightarrow> (Inr (f (committed w)), w1))"

text \<open>A statement that writes on a connection of the pool, outside any transaction.\<close>

definition conn_stmt :: "'a stmt \<Rightarrow> ('c, 'a) prog" where
  "conn_stmt f w =
     (let n = w_stmt w; w1 = w\<lparr>w_stmt := Suc n\<rparr> in
      case e_db_fault (w_env w) n of
        Some e \<Rightarrow> (Inl e, w1)
      | None \<Rightarrow> (case f (e_db_now (w_env w) n) (w_db w) of
          Inl e \<Rightarrow> (Inl e, w1)
        | Inr (x, d) \<Rightarrow> (Inr x, w1\<lparr>w_db := d\<rparr>)))"

text \<open>
  \<open>UoW.WithTx\<close>: begin, run the function, commit; roll back when the function returns an error,
  when the transaction was aborted or when the commit fails.
\<close>

definition commit_rollback_error :: err where
  "commit_rollback_error = Plain ''commit unexpectedly resulted in rollback''"

definition with_tx :: "('c, 'a) prog \<Rightarrow> ('c, 'a) prog" where
  "with_tx f w =
     (case e_db_fault (w_env w) (w_stmt w) of
        Some e \<Rightarrow> (Inl e, w\<lparr>w_stmt := Suc (w_stmt w)\<rparr>)
      | None \<Rightarrow>
        (case f (w\<lparr>w_stmt := Suc (w_stmt w), w_snap := Some (w_db w), w_aborted := False\<rparr>) of
           (Inl e, w2) \<Rightarrow> (Inl e, w2\<lparr>w_db := w_db w, w_snap := None, w_aborted := False\<rparr>)
         | (Inr x, w2) \<Rightarrow>
             if w_aborted w2
             then (Inl commit_rollback_error,
                   w2\<lparr>w_db := w_db w, w_snap := None, w_aborted := False\<rparr>)
             else (case e_db_fault (w_env w2) (w_stmt w2) of
                 Some e \<Rightarrow> (Inl e, w2\<lparr>w_db := w_db w, w_snap := None, w_aborted := False,
                                   w_stmt := Suc (w_stmt w2)\<rparr>)
               | None \<Rightarrow> (Inr x, w2\<lparr>w_snap := None, w_stmt := Suc (w_stmt w2)\<rparr>))))"

section \<open>Keeping an invariant of the tables\<close>

text \<open>
  A statement keeps a property of the tables when it does so on every table it is run on; a
  program keeps it through transactions and faults.
\<close>

definition stmt_keeps :: "(db \<Rightarrow> bool) \<Rightarrow> 'a stmt \<Rightarrow> bool" where
  "stmt_keeps I f \<longleftrightarrow> (\<forall>t d x d'. I d \<longrightarrow> f t d = Inr (x, d') \<longrightarrow> I d')"

definition db_inv :: "(db \<Rightarrow> bool) \<Rightarrow> 'c world \<Rightarrow> bool" where
  "db_inv I w \<longleftrightarrow> I (w_db w)"

lemma stmt_keepsI: "(\<And>t d x d'. I d \<Longrightarrow> f t d = Inr (x, d') \<Longrightarrow> I d') \<Longrightarrow> stmt_keeps I f"
  by (auto simp: stmt_keeps_def)

lemma keeps_clock [keeps_intros]: "keeps (db_inv I) clock_now"
  by (simp add: keeps_def db_inv_def clock_now_def)

lemma keeps_new_uuid [keeps_intros]: "keeps (db_inv I) new_uuid"
  by (simp add: keeps_def db_inv_def new_uuid_def)

lemma keeps_random_bytes [keeps_intros]: "keeps (db_inv I) (random_bytes n)"
  by (simp add: keeps_def db_inv_def random_bytes_def)

lemma keeps_on_cloud [keeps_intros]: "keeps (db_inv I) (on_cloud f)"
  by (simp add: keeps_def db_inv_def on_cloud_def split: prod.splits)

lemma keeps_conn_query [keeps_intros]: "keeps (db_inv I) (conn_query f)"
  by (simp add: keeps_def db_inv_def conn_query_def Let_def split: option.splits)

lemma keeps_tx_stmt: "stmt_keeps I f \<Longrightarrow> keeps (db_inv I) (tx_stmt f)"
  by (auto simp: keeps_def db_inv_def tx_stmt_def stmt_keeps_def Let_def
      split: option.splits sum.splits)

lemma keeps_conn_stmt: "stmt_keeps I f \<Longrightarrow> keeps (db_inv I) (conn_stmt f)"
  by (auto simp: keeps_def db_inv_def conn_stmt_def stmt_keeps_def Let_def
      split: option.splits sum.splits)

lemma keeps_with_tx [keeps_intros]:
  assumes "keeps (db_inv I) f" shows "keeps (db_inv I) (with_tx f)"
proof (rule keepsI)
  fix w r w'
  assume I: "db_inv I w" and run: "with_tx f w = (r, w')"
  let ?w1 = "w\<lparr>w_stmt := Suc (w_stmt w), w_snap := Some (w_db w), w_aborted := False\<rparr>"
  obtain r2 w2 where f: "f ?w1 = (r2, w2)" by fastforce
  have "db_inv I ?w1" using I by (simp add: db_inv_def)
  with assms f have "db_inv I w2" by (blast intro: keepsD)
  then show "db_inv I w'"
    using run I f by (auto simp: with_tx_def db_inv_def split: option.splits sum.splits if_splits)
qed

text \<open>A transaction that returns an error leaves the tables as they were.\<close>

lemma with_tx_atomic: "with_tx f w = (Inl e, w') \<Longrightarrow> w_db w' = w_db w"
  by (auto simp: with_tx_def split: option.splits prod.splits sum.splits if_splits)

lemma with_tx_snap: "with_tx f w = (r, w') \<Longrightarrow> w_snap w = None \<Longrightarrow> w_snap w' = None"
  by (auto simp: with_tx_def split: option.splits prod.splits sum.splits if_splits)

lemmas world_defs = clock_now_def new_uuid_def random_bytes_def on_cloud_def tx_stmt_def
  conn_query_def conn_stmt_def with_tx_def

section \<open>Worlds in which nothing fails\<close>

definition no_db_faults :: "'c world \<Rightarrow> bool" where
  "no_db_faults w \<longleftrightarrow> (\<forall>n. e_db_fault (w_env w) n = None)"

definition idle :: "'c world \<Rightarrow> bool" where
  "idle w \<longleftrightarrow> w_snap w = None \<and> \<not> w_aborted w"

lemma no_db_faultsD [simp]: "no_db_faults w \<Longrightarrow> e_db_fault (w_env w) n = None"
  by (simp add: no_db_faults_def)

section \<open>What a run that returns a value did\<close>

lemma tx_stmt_InrD [run_dests]:
  "tx_stmt f w = (Inr x, w') \<Longrightarrow>
     \<exists>d'. f (e_db_now (w_env w) (w_stmt w)) (w_db w) = Inr (x, d') \<and> \<not> w_aborted w \<and>
       w' = w\<lparr>w_stmt := Suc (w_stmt w), w_db := d'\<rparr>"
  by (auto simp: tx_stmt_def Let_def split: if_splits option.splits sum.splits)

lemma conn_query_InrD [run_dests]:
  "conn_query f w = (Inr x, w') \<Longrightarrow>
     f (committed w) = x \<and> w' = w\<lparr>w_stmt := Suc (w_stmt w)\<rparr>"
  by (auto simp: conn_query_def Let_def split: option.splits)

lemma conn_stmt_InrD [run_dests]:
  "conn_stmt f w = (Inr x, w') \<Longrightarrow>
     \<exists>d'. f (e_db_now (w_env w) (w_stmt w)) (w_db w) = Inr (x, d') \<and>
       w' = w\<lparr>w_stmt := Suc (w_stmt w), w_db := d'\<rparr>"
  by (auto simp: conn_stmt_def Let_def split: option.splits sum.splits)

lemma conn_query_snd: "w_db (snd (conn_query f w)) = w_db w"
  by (auto simp: conn_query_def Let_def split: option.splits)

lemma new_uuid_InrD [run_dests]: "new_uuid w = (r, w') \<Longrightarrow>
    r = Inr (e_uuid (w_env w) (w_draw w)) \<and> w' = w\<lparr>w_draw := Suc (w_draw w)\<rparr>"
  by (simp add: new_uuid_def)

lemma random_bytes_InrD [run_dests]: "random_bytes n w = (Inr bs, w') \<Longrightarrow>
    length bs = n \<and> w' = w\<lparr>w_draw := Suc (w_draw w)\<rparr>"
  by (auto simp: random_bytes_def)

lemma clock_now_InrD [run_dests]: "clock_now w = (r, w') \<Longrightarrow>
    r = Inr (e_clock (w_env w) (w_tick w)) \<and> w' = w\<lparr>w_tick := Suc (w_tick w)\<rparr>"
  by (simp add: clock_now_def)

lemma with_tx_InrD:
  assumes "with_tx f w = (Inr x, w')"
  shows "\<exists>w2. f (w\<lparr>w_stmt := Suc (w_stmt w), w_snap := Some (w_db w), w_aborted := False\<rparr>)
      = (Inr x, w2) \<and> w' = w2\<lparr>w_snap := None, w_stmt := Suc (w_stmt w2)\<rparr> \<and> \<not> w_aborted w2"
  using assms by (auto simp: with_tx_def split: option.splits prod.splits sum.splits if_splits)

lemma attempt_InrD [run_dests]: "attempt m w = (Inr r, w') \<Longrightarrow> m w = (r, w')"
  by (auto simp: attempt_def split: prod.splits)

text \<open>A program that only reads: it moves the counters of the environment and nothing else.\<close>

definition same_state :: "'c world \<Rightarrow> 'c world \<Rightarrow> bool" where
  "same_state w w' \<longleftrightarrow>
     w'\<lparr>w_stmt := 0, w_tick := 0, w_draw := 0\<rparr> = w\<lparr>w_stmt := 0, w_tick := 0, w_draw := 0\<rparr>"

definition silent :: "('c, 'a) prog \<Rightarrow> bool" where
  "silent m \<longleftrightarrow> (\<forall>w. same_state w (snd (m w)))"

named_theorems silent_intros \<open>programs that only read\<close>

lemma same_stateD:
  assumes "same_state w w'"
  shows "w_db w' = w_db w" "w_env w' = w_env w" "w_cloud w' = w_cloud w" "w_tasks w' = w_tasks w"
    "w_snap w' = w_snap w" "w_aborted w' = w_aborted w" "w_enq w' = w_enq w"
    "committed w' = committed w"
proof -
  have s: "f (w'\<lparr>w_stmt := 0, w_tick := 0, w_draw := 0\<rparr>) = f (w\<lparr>w_stmt := 0, w_tick := 0, w_draw := 0\<rparr>)" for f
    using assms by (simp add: same_state_def)
  show "w_db w' = w_db w" "w_env w' = w_env w" "w_cloud w' = w_cloud w" "w_tasks w' = w_tasks w"
    "w_snap w' = w_snap w" "w_aborted w' = w_aborted w" "w_enq w' = w_enq w"
    using s [of w_db] s [of w_env] s [of w_cloud] s [of w_tasks] s [of w_snap] s [of w_aborted]
      s [of w_enq] by simp_all
  show "committed w' = committed w" using s [of w_db] s [of w_snap] by (simp add: committed_def split: option.split)
qed

lemma same_state_refl: "same_state w w"
  by (simp add: same_state_def)

lemma same_state_trans: "same_state u v \<Longrightarrow> same_state v w \<Longrightarrow> same_state u w"
  by (simp add: same_state_def)

lemma silentD: "silent m \<Longrightarrow> m w = (r, w') \<Longrightarrow> same_state w w'"
  by (metis silent_def snd_conv)

lemma silent_basic [silent_intros]:
  "silent (ret x)" "silent (throw e)" "silent (from_sum s)" "silent (get_w g)"
  "silent clock_now" "silent new_uuid" "silent (random_bytes n)" "silent (conn_query f)"
  by (simp_all add: silent_def io_simps same_state_def clock_now_def new_uuid_def random_bytes_def
      conn_query_def Let_def split: option.splits)

lemma silentI: "(\<And>w r w'. m w = (r, w') \<Longrightarrow> same_state w w') \<Longrightarrow> silent m"
  by (metis silent_def surjective_pairing)

lemma silent_bind [silent_intros]:
  assumes "silent m" "\<And>x. silent (f x)" shows "silent (bind m f)"
proof (rule silentI)
  fix w r w'
  assume run: "bind m f w = (r, w')"
  obtain r1 w1 where m: "m w = (r1, w1)" by fastforce
  with assms(1) have s: "same_state w w1" by (rule silentD)
  show "same_state w w'"
  proof (cases r1)
    case (Inl e)
    with run m s show ?thesis by (simp add: bind_def)
  next
    case (Inr x)
    with run m have "f x w1 = (r, w')" by (simp add: bind_def)
    with assms(2) have "same_state w1 w'" by (rule silentD)
    with s show ?thesis by (rule same_state_trans)
  qed
qed

lemma silent_attempt [silent_intros]: "silent m \<Longrightarrow> silent (attempt m)"
  by (rule silentI) (auto simp: attempt_def split: prod.splits dest: silentD)

lemma silent_on_err [silent_intros]: "silent m \<Longrightarrow> silent (on_err g m)"
  by (rule silentI) (auto simp: on_err_def split: prod.splits sum.splits dest: silentD)

lemma silent_if [silent_intros]: "silent m \<Longrightarrow> silent n \<Longrightarrow> silent (if b then m else n)"
  by simp

lemma silent_case_option [silent_intros]:
  "silent m \<Longrightarrow> (\<And>y. silent (f y)) \<Longrightarrow> silent (case x of None \<Rightarrow> m | Some y \<Rightarrow> f y)"
  by (cases x) auto

lemma silent_case_sum [silent_intros]:
  "(\<And>e. silent (g e)) \<Longrightarrow> (\<And>y. silent (f y)) \<Longrightarrow> silent (case x of Inl e \<Rightarrow> g e | Inr y \<Rightarrow> f y)"
  by (cases x) auto

section \<open>Runs in a world without database faults\<close>

lemma tx_stmt_ok:
  "no_db_faults w \<Longrightarrow> \<not> w_aborted w \<Longrightarrow> f (e_db_now (w_env w) (w_stmt w)) (w_db w) = Inr (x, d') \<Longrightarrow>
     tx_stmt f w = (Inr x, w\<lparr>w_stmt := Suc (w_stmt w), w_db := d'\<rparr>)"
  by (simp add: tx_stmt_def)

lemma conn_query_ok:
  "no_db_faults w \<Longrightarrow> w_snap w = None \<Longrightarrow>
     conn_query f w = (Inr (f (w_db w)), w\<lparr>w_stmt := Suc (w_stmt w)\<rparr>)"
  by (simp add: conn_query_def)

lemma no_db_faults_upd [simp]:
  "no_db_faults (w\<lparr>w_stmt := a\<rparr>) = no_db_faults w" "no_db_faults (w\<lparr>w_tick := a\<rparr>) = no_db_faults w"
  "no_db_faults (w\<lparr>w_draw := a\<rparr>) = no_db_faults w" "no_db_faults (w\<lparr>w_enq := a\<rparr>) = no_db_faults w"
  "no_db_faults (w\<lparr>w_db := d\<rparr>) = no_db_faults w" "no_db_faults (w\<lparr>w_snap := s\<rparr>) = no_db_faults w"
  "no_db_faults (w\<lparr>w_aborted := b\<rparr>) = no_db_faults w" "no_db_faults (w\<lparr>w_tasks := ts\<rparr>) = no_db_faults w"
  "no_db_faults (w\<lparr>w_cloud := c\<rparr>) = no_db_faults w"
  by (simp_all add: no_db_faults_def)

text \<open>A concrete environment and world, for evaluating programs.\<close>

definition quiet_env :: env where
  "quiet_env = \<lparr>e_db_fault = (\<lambda>_. None), e_db_now = (\<lambda>n. 1000 + int n),
     e_clock = (\<lambda>n. 1000 + int n), e_uuid = (\<lambda>n. of_nat (1000 + n)),
     e_bytes = (\<lambda>k n. replicate n (of_nat k)), e_broker = (\<lambda>_. Accepted ''t''),
     e_locked = (\<lambda>_. [])\<rparr>"

definition world_of :: "'c \<Rightarrow> db \<Rightarrow> 'c world" where
  "world_of c d = \<lparr>w_db = d, w_snap = None, w_aborted = False, w_cloud = c, w_tasks = [],
     w_stmt = 0, w_tick = 0, w_draw = 0, w_enq = 0, w_env = quiet_env\<rparr>"

lemma no_db_faults_world_of [simp]: "no_db_faults (world_of c d)"
  by (simp add: no_db_faults_def world_of_def quiet_env_def)

lemma world_of_simps [simp]:
  "w_db (world_of c d) = d" "w_snap (world_of c d) = None" "\<not> w_aborted (world_of c d)"
  "w_env (world_of c d) = quiet_env" "w_stmt (world_of c d) = 0" "w_cloud (world_of c d) = c"
  "w_tasks (world_of c d) = []" "w_tick (world_of c d) = 0" "w_draw (world_of c d) = 0"
  by (simp_all add: world_of_def)

end
