(* ===== verification/Repo.thy ===== *)
theory Repo
  imports World
begin

text \<open>
  The contract of a repository whose rows carry the time of their last change: saving an
  aggregate replaces the row with its key when the row is not newer than the aggregate, and
  does nothing else. \<open>run_saves\<close> is a history of saves by any number of use cases, in the order
  the database serialises them; saves that fail or find a newer row leave the tables alone.
\<close>

fun run_saves :: "('a \<Rightarrow> 'r option stmt) \<Rightarrow> ('a \<times> time) list \<Rightarrow> db \<Rightarrow> db" where
  "run_saves save [] d = d"
| "run_saves save ((a, now) # as) d =
     run_saves save as (case save a now d of Inl _ \<Rightarrow> d | Inr (_, d') \<Rightarrow> d')"

locale aggregate_repo =
  fixes look :: "uuid \<Rightarrow> db \<Rightarrow> 'r option"
    and save :: "'a \<Rightarrow> 'r option stmt"
    and key :: "'a \<Rightarrow> uuid"
    and stamp :: "'a \<Rightarrow> time"
    and row_stamp :: "'r \<Rightarrow> time"
    and merge :: "'a \<Rightarrow> 'r \<Rightarrow> 'r"
  assumes save_hit: "save a now d = Inr (Some r', d') \<Longrightarrow>
      \<exists>r. look (key a) d = Some r \<and> row_stamp r \<le> stamp a \<and> r' = merge a r \<and>
          look (key a) d' = Some r'"
    and save_miss: "save a now d = Inr (None, d') \<Longrightarrow> d' = d"
    and save_frame: "save a now d = Inr (x, d') \<Longrightarrow> k \<noteq> key a \<Longrightarrow> look k d' = look k d"
    and merge_stamp: "row_stamp (merge a r) = stamp a"
begin

lemma stale_save_ignored:
  assumes "look (key a) d = Some r" "stamp a < row_stamp r" "save a now d = Inr (x, d')"
  shows "x = None \<and> d' = d"
proof (cases x)
  case None
  with assms(3) save_miss show ?thesis by blast
next
  case (Some r')
  with assms save_hit show ?thesis by fastforce
qed

lemma save_stamp_mono:
  assumes "look k d = Some r" "save a now d = Inr (x, d')"
  shows "\<exists>r'. look k d' = Some r' \<and> row_stamp r \<le> row_stamp r'"
proof (cases "k = key a \<and> x \<noteq> None")
  case True
  then obtain r' where "x = Some r'" by blast
  with assms True save_hit [of a now d r' d'] merge_stamp show ?thesis by auto
next
  case False
  then have "look k d' = look k d"
    using assms(2) save_frame [of a now d x d' k] save_miss [of a now d d'] by (cases x) auto
  with assms(1) show ?thesis by simp
qed

lemma history_stamp_mono:
  "look k d = Some r \<Longrightarrow> \<exists>r'. look k (run_saves save as d) = Some r' \<and> row_stamp r \<le> row_stamp r'"
proof (induction as arbitrary: d r)
  case Nil
  then show ?case by simp
next
  case (Cons a as)
  obtain b now where a: "a = (b, now)" by (cases a)
  show ?case
  proof (cases "save b now d")
    case (Inl e)
    then show ?thesis using Cons a by simp
  next
    case (Inr z)
    obtain x d' where "z = (x, d')" by (cases z)
    with Inr save_stamp_mono [OF Cons.prems] obtain r1
      where "look k d' = Some r1" "row_stamp r \<le> row_stamp r1" by blast
    with Cons.IH [of d' r1] Inr a \<open>z = (x, d')\<close> show ?thesis by fastforce
  qed
qed

end

end
