(* ===== verification/PoolStore.thy ===== *)
theory PoolStore
  imports Repo "HOL-Library.Product_Lexorder"
begin

text \<open>
  \<open>internal/adapters/storage/pgxrepo/pool.go\<close>, \<open>pool_mapping.go\<close> and the SQL of
  \<open>sqlcgen/pool.sql.go\<close>: the repository of projects, with the inserts into the outbox and the
  audit log that the repositories share. A query for one row returns an option, because a query
  without rows does not abort the transaction; \<open>one_row\<close> turns it into the driver's error.
  Timestamps are kept as they are: the microsecond resolution of the column is not modelled.
\<close>

section \<open>Shared by the repositories\<close>

definition one_row :: "('c, 'a option) prog \<Rightarrow> ('c, 'a) prog" where
  "one_row m = bind m (\<lambda>r. case r of None \<Rightarrow> throw NoRows | Some x \<Rightarrow> ret x)"

definition or_no_rows :: "sentinel \<Rightarrow> string \<Rightarrow> err \<Rightarrow> err" where
  "or_no_rows s prefix e = (if err_is_no_rows e then Sentinel s else Wrapped prefix e)"

text \<open>A zero time is sent as NULL, and a NULL time is read as the zero time.\<close>

definition timestamptz :: "time \<Rightarrow> time option" where
  "timestamptz t = (if t = 0 then None else Some t)"

definition nullable_time_arg :: "time \<Rightarrow> time option" where
  "nullable_time_arg t = (if t = 0 then None else Some t)"

definition coalesce :: "'a option \<Rightarrow> 'a \<Rightarrow> 'a" where
  "coalesce x d = (case x of None \<Rightarrow> d | Some y \<Rightarrow> y)"

definition unique_violation :: "string \<Rightarrow> err" where
  "unique_violation c = PgError ''23505'' c"

definition check_violation :: "string \<Rightarrow> err" where
  "check_violation c = PgError ''23514'' c"

definition insert_outbox :: "string \<Rightarrow> json \<Rightarrow> time option \<Rightarrow> unit stmt" where
  "insert_outbox topic payload occurred now d =
     Inr ((), d\<lparr>t_outbox := t_outbox d @ [\<lparr>ob_id = t_outbox_seq d, ob_topic = topic,
         ob_payload = payload, ob_occurred_at = coalesce occurred now, ob_published_at = None,
         ob_attempts = 0\<rparr>],
       t_outbox_seq := t_outbox_seq d + 1\<rparr>)"

definition insert_audit_event ::
  "uuid \<Rightarrow> string \<Rightarrow> uuid option \<Rightarrow> string \<Rightarrow> string option \<Rightarrow> json \<Rightarrow> string \<Rightarrow> time option \<Rightarrow> unit stmt" where
  "insert_audit_event i kind actor stype sid payload request occurred now d =
     (if i \<in> ar_id ` set (t_audit d) then Inl (unique_violation ''audit_events_pkey'')
      else Inr ((), d\<lparr>t_audit := t_audit d @ [\<lparr>ar_id = i, ar_kind = kind, ar_actor = actor,
         ar_subject_type = stype, ar_subject_id = sid, ar_payload = payload,
         ar_request_id = (if request = [] then None else Some request),
         ar_occurred_at = coalesce occurred now\<rparr>]\<rparr>))"

section \<open>The table of projects\<close>

definition project_row_ok :: "project_row \<Rightarrow> bool" where
  "project_row_ok r \<longleftrightarrow>
     (pr_state r = PAllocated \<and> pr_lab r \<noteq> None) \<or>
     (pr_state r \<noteq> PAllocated \<and> pr_lab r = None) \<or> pr_state r = PCleaning"

definition allocate_one_free_project :: "string \<Rightarrow> uuid \<Rightarrow> uuid list \<Rightarrow> project_row option stmt" where
  "allocate_one_free_project dm lab locked now d =
     (case min_row (\<lambda>r. (pr_changed_at r, pr_id r))
         (filter (\<lambda>r. pr_ki_domain r = dm \<and> pr_state r = PFree \<and> pr_id r \<notin> set locked)
           (t_projects d)) of
        None \<Rightarrow> Inr (None, d)
      | Some r \<Rightarrow>
          (let r' = r\<lparr>pr_state := PAllocated, pr_lab := Some lab, pr_changed_at := now\<rparr>
           in Inr (Some r', d\<lparr>t_projects := put_row pr_id r' (t_projects d)\<rparr>)))"

definition get_project_row :: "uuid \<Rightarrow> db \<Rightarrow> project_row option" where
  "get_project_row i d = find_row pr_id i (t_projects d)"

definition list_project_rows :: "string option \<Rightarrow> pstate option \<Rightarrow> db \<Rightarrow> project_row list" where
  "list_project_rows dm st d =
     sort_key (\<lambda>r. (pr_created_at r, pr_id r))
       (filter (\<lambda>r. (case dm of None \<Rightarrow> True | Some x \<Rightarrow> pr_ki_domain r = x) \<and>
           (case st of None \<Rightarrow> True | Some x \<Rightarrow> pr_state r = x)) (t_projects d))"

definition update_project ::
  "uuid \<Rightarrow> pstate \<Rightarrow> uuid option \<Rightarrow> int \<Rightarrow> time option \<Rightarrow> project_row option stmt" where
  "update_project i st lab n changed now d =
     (case find_row pr_id i (t_projects d) of
        None \<Rightarrow> Inr (None, d)
      | Some r \<Rightarrow> (case changed of
          None \<Rightarrow> Inr (None, d)
        | Some t \<Rightarrow>
            if t < pr_changed_at r then Inr (None, d)
            else let r' = r\<lparr>pr_state := st, pr_lab := lab, pr_failures := n, pr_changed_at := t\<rparr> in
              if \<not> project_row_ok r' then Inl (check_violation ''projects_allocation_consistency'')
              else Inr (Some r', d\<lparr>t_projects := put_row pr_id r' (t_projects d)\<rparr>)))"

definition seed_insert_project ::
  "uuid \<Rightarrow> project \<Rightarrow> uuid option \<Rightarrow> int \<Rightarrow> time option \<Rightarrow> time option \<Rightarrow> int stmt" where
  "seed_insert_project i p lab n changed created now d =
     (let r = \<lparr>pr_id = i, pr_ki_project = pj_ki_project p, pr_ki_domain = pj_ki_domain p,
         pr_name = pj_name p, pr_state = pj_state p, pr_lab = lab, pr_failures = n,
         pr_changed_at = coalesce changed now, pr_created_at = coalesce created now\<rparr> in
      if \<not> project_row_ok r then Inl (check_violation ''projects_allocation_consistency'')
      else if pj_ki_project p \<in> pr_ki_project ` set (t_projects d) then Inr (0, d)
      else if i \<in> pr_id ` set (t_projects d) then Inl (unique_violation ''projects_pkey'')
      else Inr (1, d\<lparr>t_projects := t_projects d @ [r]\<rparr>))"

section \<open>The repository\<close>

definition project_from_row :: "project_row \<Rightarrow> project" where
  "project_from_row r = \<lparr>pj_id = pr_id r, pj_ki_project = pr_ki_project r,
     pj_ki_domain = pr_ki_domain r, pj_name = pr_name r, pj_state = pr_state r,
     pj_lab = pr_lab r, pj_failures = pr_failures r, pj_changed_at = pr_changed_at r,
     pj_created_at = pr_created_at r, pj_events = []\<rparr>"

lemma project_from_row_simps [simp]:
  "pj_id (project_from_row r) = pr_id r" "pj_lab (project_from_row r) = pr_lab r"
  "pj_state (project_from_row r) = pr_state r" "pj_failures (project_from_row r) = pr_failures r"
  "pj_events (project_from_row r) = []" "pj_changed_at (project_from_row r) = pr_changed_at r"
  by (simp_all add: project_from_row_def)

definition project_id_arg :: "project_id \<Rightarrow> ('c, uuid) prog" where
  "project_id_arg i = (if i = 0 then new_uuid else ret i)"

definition nullable_allocated :: "project \<Rightarrow> uuid option" where
  "nullable_allocated p =
     (if pj_state p = PAllocated \<or> pj_state p = PCleaning then pj_lab p else None)"

definition cleanup_failures_int32 :: "int \<Rightarrow> err + int" where
  "cleanup_failures_int32 n =
     (if n < 0 \<or> 2147483647 < n then Inl (Sentinel ErrInvalidInput) else Inr n)"

fun project_event_payload :: "lib \<Rightarrow> pool_event \<Rightarrow> json \<times> string" where
  "project_event_payload L (EventAllocated p l) =
     (JObj [(''lab_id'', JStr (uuid_string L l)), (''project_id'', JStr (uuid_string L p))],
      uuid_string L p)"
| "project_event_payload L (EventReleasing p l) =
     (JObj [(''lab_id'', JStr (uuid_string L l)), (''project_id'', JStr (uuid_string L p))],
      uuid_string L p)"
| "project_event_payload L (EventFreed p) =
     (JObj [(''project_id'', JStr (uuid_string L p))], uuid_string L p)"
| "project_event_payload L (EventQuarantined p reason n) =
     (JObj [(''failures'', JInt n), (''project_id'', JStr (uuid_string L p)),
        (''reason'', JStr reason)], uuid_string L p)"

text \<open>
  What both repositories do with an event: a row of the outbox, then one of the audit log under
  a fresh id, with the same payload and time. The texts are the prefixes of the errors.
\<close>

definition emit ::
  "string \<Rightarrow> string \<Rightarrow> string \<Rightarrow> string \<Rightarrow> json \<times> string \<Rightarrow> time \<Rightarrow> ('c, unit) prog" where
  "emit outbox_text audit_text kind stype ps occurred_at =
     bind (on_err (Wrapped outbox_text)
       (tx_stmt (insert_outbox kind (fst ps) (nullable_time_arg occurred_at)))) (\<lambda>_.
     bind new_uuid (\<lambda>i.
     on_err (Wrapped audit_text)
       (tx_stmt (insert_audit_event i kind None stype (Some (snd ps)) (fst ps) []
          (nullable_time_arg occurred_at)))))"

definition append_project_event :: "lib \<Rightarrow> pool_event \<Rightarrow> time \<Rightarrow> ('c, unit) prog" where
  "append_project_event L ev occurred_at =
     emit ''pgxrepo: insert outbox'' ''pgxrepo: insert audit event'' (pool_event_kind ev) ''project''
       (project_event_payload L ev) occurred_at"

definition allocate_one_free :: "string \<Rightarrow> lab_id \<Rightarrow> ('c, project) prog" where
  "allocate_one_free dm lab =
     bind (get_w (\<lambda>w. e_locked (w_env w) (w_stmt w))) (\<lambda>locked.
     bind (on_err (or_no_rows ErrPoolEmpty ''pgxrepo: allocate free project'')
       (one_row (tx_stmt (allocate_one_free_project dm lab locked)))) (\<lambda>row.
     ret (project_from_row row)))"

text \<open>\<open>Save\<close> drains the pending events of its argument, so it returns the aggregate after it.\<close>

definition pool_save :: "lib \<Rightarrow> project \<Rightarrow> ('c, project) prog" where
  "pool_save L p =
     bind (from_sum (cleanup_failures_int32 (pj_failures p))) (\<lambda>n.
     bind (project_id_arg (pj_id p)) (\<lambda>i.
     bind (on_err (or_no_rows ErrIdempotencyClash ''pgxrepo: save project'')
       (one_row (tx_stmt (update_project i (pj_state p) (nullable_allocated p) n
          (timestamptz (pj_changed_at p)))))) (\<lambda>_.
     bind (for_each (fst (pj_pull_events p)) (\<lambda>ev.
       append_project_event L ev (pj_changed_at p))) (\<lambda>_.
     ret (snd (pj_pull_events p))))))"

definition pool_get_by_id :: "project_id \<Rightarrow> ('c, project) prog" where
  "pool_get_by_id i =
     bind (project_id_arg i) (\<lambda>i.
     bind (on_err (or_no_rows ErrNotFound ''pgxrepo: get project'')
       (one_row (conn_query (get_project_row i)))) (\<lambda>row.
     ret (project_from_row row)))"

definition pool_list_by_domain :: "string \<Rightarrow> pstate option \<Rightarrow> ('c, project list) prog" where
  "pool_list_by_domain dm st =
     bind (on_err (Wrapped ''pgxrepo: list projects'')
       (conn_query (list_project_rows (if dm \<noteq> [] then Some dm else None) st))) (\<lambda>rows.
     ret (map project_from_row rows))"

definition pool_seed_insert :: "project list \<Rightarrow> ('c, unit) prog" where
  "pool_seed_insert ps = with_tx (for_each ps (\<lambda>p.
     bind (from_sum (cleanup_failures_int32 (pj_failures p))) (\<lambda>n.
     bind (project_id_arg (pj_id p)) (\<lambda>i.
     bind (on_err (Wrapped (''pgxrepo: seed project '' @ pj_ki_project p))
       (tx_stmt (seed_insert_project i p (nullable_allocated p) n
          (nullable_time_arg (pj_changed_at p)) (nullable_time_arg (pj_created_at p))))) (\<lambda>_.
     ret ())))))"

section \<open>The statements on projects\<close>

text \<open>The statement \<open>Save\<close> runs for an aggregate with an id, and the row it leaves.\<close>

definition project_update :: "project \<Rightarrow> project_row option stmt" where
  "project_update p = update_project (pj_id p) (pj_state p) (nullable_allocated p)
     (pj_failures p) (timestamptz (pj_changed_at p))"

definition project_merge :: "project \<Rightarrow> project_row \<Rightarrow> project_row" where
  "project_merge p r = r\<lparr>pr_state := pj_state p, pr_lab := nullable_allocated p,
     pr_failures := pj_failures p, pr_changed_at := pj_changed_at p\<rparr>"

lemma update_project_hit:
  assumes "update_project i st lab n changed now d = Inr (Some r', d')"
  shows "\<exists>r t. get_project_row i d = Some r \<and> changed = Some t \<and> pr_changed_at r \<le> t \<and>
    r' = r\<lparr>pr_state := st, pr_lab := lab, pr_failures := n, pr_changed_at := t\<rparr> \<and>
    project_row_ok r' \<and> d' = d\<lparr>t_projects := put_row pr_id r' (t_projects d)\<rparr>"
  using assms
  by (auto simp: update_project_def get_project_row_def Let_def split: option.splits if_splits)

lemma update_project_miss:
  "update_project i st lab n changed now d = Inr (None, d') \<Longrightarrow> d' = d"
  by (auto simp: update_project_def Let_def split: option.splits if_splits)

lemma get_project_put:
  "get_project_row k (d\<lparr>t_projects := put_row pr_id r (t_projects d)\<rparr>) =
     (if k = pr_id r then (case get_project_row k d of None \<Rightarrow> None | Some _ \<Rightarrow> Some r)
      else get_project_row k d)"
proof (cases "k = pr_id r")
  case True
  show ?thesis
  proof (cases "find_row pr_id k (t_projects d)")
    case None
    then have "find_row pr_id k (put_row pr_id r (t_projects d)) = None"
      by (simp only: find_row_None_iff set_map [symmetric] map_key_put_row not_False_eq_True)
    with None True show ?thesis by (simp add: get_project_row_def)
  next
    case (Some x)
    with True find_row_put_same [of pr_id r] show ?thesis by (simp add: get_project_row_def)
  qed
qed (simp add: get_project_row_def find_row_put_other)

lemma get_project_row_id: "get_project_row k d = Some r \<Longrightarrow> pr_id r = k"
  by (auto simp: get_project_row_def dest: find_row_SomeD)

interpretation pool_repo: aggregate_repo get_project_row project_update pj_id pj_changed_at
  pr_changed_at project_merge
proof (unfold_locales, goal_cases)
  case (1 a now d r' d')
  then obtain r t where *: "get_project_row (pj_id a) d = Some r"
    "timestamptz (pj_changed_at a) = Some t" "pr_changed_at r \<le> t"
    "r' = r\<lparr>pr_state := pj_state a, pr_lab := nullable_allocated a, pr_failures := pj_failures a,
       pr_changed_at := t\<rparr>"
    "d' = d\<lparr>t_projects := put_row pr_id r' (t_projects d)\<rparr>"
    unfolding project_update_def using update_project_hit by blast
  then have t: "t = pj_changed_at a" by (simp add: timestamptz_def split: if_splits)
  have "pr_id r' = pj_id a" using *(1,4) by (simp add: get_project_row_id)
  with * t show ?case by (auto simp: get_project_put project_merge_def)
next
  case (2 a now d d')
  then show ?case by (simp add: project_update_def update_project_miss)
next
  case (3 a now d x d' k)
  show ?case
  proof (cases x)
    case None
    with 3 show ?thesis unfolding project_update_def by (auto dest: update_project_miss)
  next
    case (Some r')
    with 3 have "pr_id r' = pj_id a \<and> d' = d\<lparr>t_projects := put_row pr_id r' (t_projects d)\<rparr>"
      unfolding project_update_def by (auto dest!: update_project_hit get_project_row_id)
    with 3(2) show ?thesis by (simp add: get_project_put)
  qed
next
  case (4 a r)
  then show ?case by (simp add: project_merge_def)
qed

section \<open>Events in the outbox and the audit log\<close>

definition published :: "db \<Rightarrow> (string \<times> json) list" where
  "published d = map (\<lambda>r. (ob_topic r, ob_payload r)) (t_outbox d)"

definition audited :: "db \<Rightarrow> (string \<times> string \<times> string option \<times> json) list" where
  "audited d = map (\<lambda>r. (ar_kind r, ar_subject_type r, ar_subject_id r, ar_payload r)) (t_audit d)"

text \<open>The two worlds differ in the logs and in the counters of the environment only.\<close>

definition erase_logs :: "'c world \<Rightarrow> 'c world" where
  "erase_logs w = w\<lparr>w_stmt := 0, w_draw := 0,
     w_db := (w_db w)\<lparr>t_outbox := [], t_outbox_seq := 0, t_audit := []\<rparr>\<rparr>"

definition logs_only :: "'c world \<Rightarrow> 'c world \<Rightarrow> bool" where
  "logs_only w w' \<longleftrightarrow> erase_logs w' = erase_logs w"

lemma logs_only_arg: "logs_only w w' \<Longrightarrow> f (erase_logs w') = f (erase_logs w)"
  by (simp add: logs_only_def)

lemma logs_onlyD:
  assumes "logs_only w w'"
  shows "t_projects (w_db w') = t_projects (w_db w)"
    "t_labs (w_db w') = t_labs (w_db w)"
    "t_steps (w_db w') = t_steps (w_db w)"
    "t_settings (w_db w') = t_settings (w_db w)"
    "t_secrets (w_db w') = t_secrets (w_db w)"
    "t_runs (w_db w') = t_runs (w_db w)"
    "t_run_steps (w_db w') = t_run_steps (w_db w)"
    "t_quota (w_db w') = t_quota (w_db w)"
    "t_templates (w_db w') = t_templates (w_db w)"
    "t_courses (w_db w') = t_courses (w_db w)"
    "w_cloud w' = w_cloud w"
    "w_tasks w' = w_tasks w"
    "w_env w' = w_env w"
    "w_snap w' = w_snap w"
    "w_aborted w' = w_aborted w"
    "w_tick w' = w_tick w"
    "w_enq w' = w_enq w"
  using logs_only_arg [OF assms, of "\<lambda>w. t_projects (w_db w)"]
    logs_only_arg [OF assms, of "\<lambda>w. t_labs (w_db w)"]
    logs_only_arg [OF assms, of "\<lambda>w. t_steps (w_db w)"]
    logs_only_arg [OF assms, of "\<lambda>w. t_settings (w_db w)"]
    logs_only_arg [OF assms, of "\<lambda>w. t_secrets (w_db w)"]
    logs_only_arg [OF assms, of "\<lambda>w. t_runs (w_db w)"]
    logs_only_arg [OF assms, of "\<lambda>w. t_run_steps (w_db w)"]
    logs_only_arg [OF assms, of "\<lambda>w. t_quota (w_db w)"]
    logs_only_arg [OF assms, of "\<lambda>w. t_templates (w_db w)"]
    logs_only_arg [OF assms, of "\<lambda>w. t_courses (w_db w)"]
    logs_only_arg [OF assms, of "\<lambda>w. w_cloud w"]
    logs_only_arg [OF assms, of "\<lambda>w. w_tasks w"]
    logs_only_arg [OF assms, of "\<lambda>w. w_env w"]
    logs_only_arg [OF assms, of "\<lambda>w. w_snap w"]
    logs_only_arg [OF assms, of "\<lambda>w. w_aborted w"]
    logs_only_arg [OF assms, of "\<lambda>w. w_tick w"]
    logs_only_arg [OF assms, of "\<lambda>w. w_enq w"]
  by (simp_all add: erase_logs_def)

lemma logs_only_refl: "logs_only w w"
  by (simp add: logs_only_def)

lemma logs_only_trans: "logs_only u v \<Longrightarrow> logs_only v w \<Longrightarrow> logs_only u w"
  by (simp add: logs_only_def)

lemma emit_InrD:
  assumes "emit ta tb kind stype ps t w = (Inr u, w')"
  shows "logs_only w w' \<and> published (w_db w') = published (w_db w) @ [(kind, fst ps)] \<and>
    audited (w_db w') = audited (w_db w) @ [(kind, stype, Some (snd ps), fst ps)]"
  using assms unfolding emit_def
  by (auto dest!: run_dests simp: insert_outbox_def insert_audit_event_def logs_only_def
      erase_logs_def published_def audited_def split: if_splits)

lemma for_each_emits:
  assumes "\<And>ev w w'. f ev w = (Inr (), w') \<Longrightarrow> logs_only w w' \<and>
      published (w_db w') = published (w_db w) @ [g ev] \<and> audited (w_db w') = audited (w_db w) @ [h ev]"
  shows "for_each evs f w = (Inr (), w') \<Longrightarrow> logs_only w w' \<and>
      published (w_db w') = published (w_db w) @ map g evs \<and>
      audited (w_db w') = audited (w_db w) @ map h evs"
proof (induction evs arbitrary: w)
  case Nil
  then show ?case by (simp add: io_simps logs_only_refl)
next
  case (Cons ev evs)
  then obtain w1 where "f ev w = (Inr (), w1)" "for_each evs f w1 = (Inr (), w')"
    by (auto dest: bind_InrD)
  with Cons.IH [of w1] assms [of ev w w1] show ?case by (auto intro: logs_only_trans)
qed

definition project_message :: "lib \<Rightarrow> pool_event \<Rightarrow> string \<times> json" where
  "project_message L ev = (pool_event_kind ev, fst (project_event_payload L ev))"

definition project_audit :: "lib \<Rightarrow> pool_event \<Rightarrow> string \<times> string \<times> string option \<times> json" where
  "project_audit L ev = (pool_event_kind ev, ''project'', Some (snd (project_event_payload L ev)),
     fst (project_event_payload L ev))"

lemma append_project_event_InrD:
  "append_project_event L ev t w = (Inr (), w') \<Longrightarrow> logs_only w w' \<and>
     published (w_db w') = published (w_db w) @ [project_message L ev] \<and>
     audited (w_db w') = audited (w_db w) @ [project_audit L ev]"
  unfolding append_project_event_def project_message_def project_audit_def by (rule emit_InrD)

section \<open>What the repository's operations do\<close>

lemma one_row_InrD [run_dests]: "one_row m w = (Inr x, w') \<Longrightarrow> m w = (Inr (Some x), w')"
  unfolding one_row_def by (auto dest!: bind_InrD simp: io_basic split: option.splits)

lemma pool_save_InrD:
  assumes "pool_save L p w = (Inr p', w')" "pj_id p \<noteq> 0"
  shows "p' = p\<lparr>pj_events := []\<rparr> \<and> (\<exists>r w1. get_project_row (pj_id p) (w_db w) = Some r \<and>
    pr_changed_at r \<le> pj_changed_at p \<and> project_row_ok (project_merge p r) \<and>
    w1 = w\<lparr>w_stmt := Suc (w_stmt w), w_db := (w_db w)\<lparr>t_projects :=
      put_row pr_id (project_merge p r) (t_projects (w_db w))\<rparr>\<rparr> \<and> logs_only w1 w' \<and>
    published (w_db w') = published (w_db w) @ map (project_message L) (pj_events p) \<and>
    audited (w_db w') = audited (w_db w) @ map (project_audit L) (pj_events p))"
proof -
  obtain n where n: "cleanup_failures_int32 (pj_failures p) = Inr n"
    using assms(1) unfolding pool_save_def by (auto dest!: bind_InrD simp: io_basic)
  then have n': "n = pj_failures p" by (simp add: cleanup_failures_int32_def split: if_splits)
  obtain x w1 where upd: "tx_stmt (project_update p) w = (Inr (Some x), w1)"
    and ev: "for_each (pj_events p) (\<lambda>ev. append_project_event L ev (pj_changed_at p)) w1 = (Inr (), w')"
    and p': "p' = p\<lparr>pj_events := []\<rparr>"
    using assms n n' unfolding pool_save_def
    by (auto dest!: bind_InrD on_err_InrD one_row_InrD
        simp: io_basic project_id_arg_def pj_pull_events_def project_update_def)
  obtain d' where d': "project_update p (e_db_now (w_env w) (w_stmt w)) (w_db w) = Inr (Some x, d')"
    and w1: "w1 = w\<lparr>w_stmt := Suc (w_stmt w), w_db := d'\<rparr>"
    using tx_stmt_InrD [OF upd] by blast
  from update_project_hit [OF d' [unfolded project_update_def]] obtain r
    where "get_project_row (pj_id p) (w_db w) = Some r" "pr_changed_at r \<le> pj_changed_at p"
      "x = project_merge p r" "project_row_ok x"
      "d' = (w_db w)\<lparr>t_projects := put_row pr_id x (t_projects (w_db w))\<rparr>"
    by (auto simp: project_merge_def timestamptz_def split: if_splits)
  moreover have "published (w_db w1) = published (w_db w)" "audited (w_db w1) = audited (w_db w)"
    using calculation w1 by (simp_all add: published_def audited_def)
  ultimately show ?thesis
    using p' w1 for_each_emits [OF append_project_event_InrD, where evs = "pj_events p"] ev by fastforce
qed

lemma pool_get_InrD:
  "pool_get_by_id i w = (Inr p, w') \<Longrightarrow> i \<noteq> 0 \<Longrightarrow>
     \<exists>r. get_project_row i (committed w) = Some r \<and>
       p = project_from_row r \<and> w' = w\<lparr>w_stmt := Suc (w_stmt w)\<rparr>"
  unfolding pool_get_by_id_def
  by (auto dest!: run_dests simp: io_basic project_id_arg_def split: option.splits)

text \<open>The free projects of a domain that no other transaction holds locked.\<close>

definition candidates :: "string \<Rightarrow> 'c world \<Rightarrow> project_row list" where
  "candidates dm w = filter (\<lambda>r. pr_ki_domain r = dm \<and> pr_state r = PFree \<and>
     pr_id r \<notin> set (e_locked (w_env w) (w_stmt w))) (t_projects (w_db w))"

definition rented :: "lab_id \<Rightarrow> time \<Rightarrow> project_row \<Rightarrow> project_row" where
  "rented lab now r = r\<lparr>pr_state := PAllocated, pr_lab := Some lab, pr_changed_at := now\<rparr>"

lemma allocate_InrD:
  assumes "allocate_one_free dm lab w = (Inr p, w')"
  shows "\<exists>r now. r \<in> set (candidates dm w) \<and>
    (\<forall>x \<in> set (candidates dm w). (pr_changed_at r, pr_id r) \<le> (pr_changed_at x, pr_id x)) \<and>
    p = project_from_row (rented lab now r) \<and>
    w' = w\<lparr>w_stmt := Suc (w_stmt w), w_db := (w_db w)\<lparr>t_projects :=
      put_row pr_id (rented lab now r) (t_projects (w_db w))\<rparr>\<rparr>"
proof -
  obtain row where row: "tx_stmt (allocate_one_free_project dm lab (e_locked (w_env w) (w_stmt w))) w
      = (Inr (Some row), w')" and p: "p = project_from_row row"
    using assms unfolding allocate_one_free_def
    by (auto dest!: bind_InrD on_err_InrD one_row_InrD simp: io_basic)
  let ?now = "e_db_now (w_env w) (w_stmt w)"
  from tx_stmt_InrD [OF row] obtain d' where d':
    "allocate_one_free_project dm lab (e_locked (w_env w) (w_stmt w)) ?now (w_db w) = Inr (Some row, d')"
    and w': "w' = w\<lparr>w_stmt := Suc (w_stmt w), w_db := d'\<rparr>" by blast
  then obtain r where r: "min_row (\<lambda>r. (pr_changed_at r, pr_id r)) (candidates dm w) = Some r"
    "row = rented lab ?now r" "d' = (w_db w)\<lparr>t_projects := put_row pr_id row (t_projects (w_db w))\<rparr>"
    unfolding allocate_one_free_project_def candidates_def
    by (auto simp: Let_def rented_def split: option.splits)
  with min_row_SomeD [OF r(1)] p w' show ?thesis by blast
qed

lemma allocate_result:
  assumes "no_db_faults w" "\<not> w_aborted w"
  shows "fst (allocate_one_free dm lab w) =
    (case min_row (\<lambda>r. (pr_changed_at r, pr_id r)) (candidates dm w) of
       None \<Rightarrow> Inl (Sentinel ErrPoolEmpty)
     | Some r \<Rightarrow> Inr (project_from_row (rented lab (e_db_now (w_env w) (w_stmt w)) r)))"
proof -
  let ?st = "allocate_one_free_project dm lab (e_locked (w_env w) (w_stmt w))"
  let ?now = "e_db_now (w_env w) (w_stmt w)"
  have "\<exists>d'. ?st ?now (w_db w) = Inr (map_option (rented lab ?now)
      (min_row (\<lambda>r. (pr_changed_at r, pr_id r)) (candidates dm w)), d')"
    by (auto simp: allocate_one_free_project_def candidates_def rented_def Let_def split: option.split)
  then obtain d' where d': "?st ?now (w_db w) = Inr (map_option (rented lab ?now)
      (min_row (\<lambda>r. (pr_changed_at r, pr_id r)) (candidates dm w)), d')" ..
  from tx_stmt_ok [where f = ?st, OF assms d'] show ?thesis
    by (cases "min_row (\<lambda>r. (pr_changed_at r, pr_id r)) (candidates dm w)")
      (simp_all add: allocate_one_free_def one_row_def io_simps or_no_rows_def)
qed

lemma rented_simps [simp]:
  "pr_id (rented lab now r) = pr_id r" "pr_state (rented lab now r) = PAllocated"
  "pr_lab (rented lab now r) = Some lab" "pr_ki_domain (rented lab now r) = pr_ki_domain r"
  by (simp_all add: rented_def)

lemma get_project_mem:
  "distinct (map pr_id (t_projects d)) \<Longrightarrow> r \<in> set (t_projects d) \<Longrightarrow> get_project_row (pr_id r) d = Some r"
  by (simp add: get_project_row_def find_row_distinct)

section \<open>Invariant of the table\<close>

definition projects_ok :: "db \<Rightarrow> bool" where
  "projects_ok d \<longleftrightarrow> distinct (map pr_id (t_projects d)) \<and>
     distinct (map pr_ki_project (t_projects d)) \<and> (\<forall>r \<in> set (t_projects d). project_row_ok r)"

lemma map_put_row_other:
  "(\<And>x. x \<in> set rows \<Longrightarrow> key x = key r \<Longrightarrow> f x = f r) \<Longrightarrow> map f (put_row key r rows) = map f rows"
  by (induction rows) auto

lemma projects_ok_put:
  assumes "projects_ok d" "get_project_row (pr_id r) d = Some x" "pr_ki_project r = pr_ki_project x"
    "project_row_ok r"
  shows "projects_ok (d\<lparr>t_projects := put_row pr_id r (t_projects d)\<rparr>)"
proof -
  have "map pr_ki_project (put_row pr_id r (t_projects d)) = map pr_ki_project (t_projects d)"
  proof (rule map_put_row_other)
    fix y
    assume "y \<in> set (t_projects d)" "pr_id y = pr_id r"
    then have "get_project_row (pr_id r) d = Some y"
      using assms(1) get_project_mem [of d y] by (simp add: projects_ok_def)
    with assms(2,3) show "pr_ki_project y = pr_ki_project r" by simp
  qed
  with assms(1,4) show ?thesis
    using set_put_row [of pr_id r "t_projects d"] by (auto simp: projects_ok_def)
qed

lemma projects_ok_update: "stmt_keeps projects_ok (update_project i st lab n changed)"
proof (rule stmt_keepsI)
  fix now d x d'
  assume ok: "projects_ok d" and upd: "update_project i st lab n changed now d = Inr (x, d')"
  show "projects_ok d'"
  proof (cases x)
    case None
    with upd ok show ?thesis by (auto dest: update_project_miss)
  next
    case (Some r')
    with update_project_hit upd obtain r t where "get_project_row i d = Some r"
      "r' = r\<lparr>pr_state := st, pr_lab := lab, pr_failures := n, pr_changed_at := t\<rparr>" "project_row_ok r'"
      "d' = d\<lparr>t_projects := put_row pr_id r' (t_projects d)\<rparr>" by blast
    moreover from this have "pr_id r' = i" by (simp add: get_project_row_id)
    ultimately show ?thesis using projects_ok_put [OF ok, of r' r] by simp
  qed
qed

lemma projects_ok_allocate: "stmt_keeps projects_ok (allocate_one_free_project dm lab locked)"
proof (rule stmt_keepsI)
  fix now d x d'
  assume ok: "projects_ok d" and run: "allocate_one_free_project dm lab locked now d = Inr (x, d')"
  show "projects_ok d'"
  proof (cases x)
    case None
    with run ok show ?thesis
      by (auto simp: allocate_one_free_project_def Let_def split: option.splits)
  next
    case (Some r')
    with run obtain r where r: "r \<in> set (t_projects d)" "r' = rented lab now r"
      "d' = d\<lparr>t_projects := put_row pr_id r' (t_projects d)\<rparr>"
      by (auto simp: allocate_one_free_project_def Let_def rented_def
          split: option.splits dest!: min_row_SomeD)
    have "get_project_row (pr_id r') d = Some r"
      using ok r get_project_mem [of d r] by (simp add: projects_ok_def)
    with r show ?thesis using projects_ok_put [OF ok, of r' r]
      by (simp add: rented_def project_row_ok_def)
  qed
qed

lemma projects_ok_seed: "stmt_keeps projects_ok (seed_insert_project i p lab n t1 t2)"
  by (rule stmt_keepsI)
    (auto simp: seed_insert_project_def projects_ok_def Let_def image_iff split: if_splits)

lemma projects_ok_logs:
  "stmt_keeps projects_ok (insert_outbox topic payload t)"
  "stmt_keeps projects_ok (insert_audit_event i kind actor st sid payload req t)"
  by (auto simp: stmt_keeps_def insert_outbox_def insert_audit_event_def projects_ok_def
      split: if_splits)

lemma keeps_one_row [keeps_intros]: "keeps I m \<Longrightarrow> keeps I (one_row m)"
  unfolding one_row_def by (auto intro!: keeps_intros)

lemma keeps_emit:
  assumes "\<And>topic payload t. stmt_keeps I (insert_outbox topic payload t)"
    and "\<And>i kind actor st sid payload req t. stmt_keeps I (insert_audit_event i kind actor st sid payload req t)"
  shows "keeps (db_inv I) (emit ta tb kind stype ps t)"
  unfolding emit_def by (intro keeps_intros keeps_tx_stmt assms)

lemma keeps_pool_save:
  assumes "\<And>topic payload t. stmt_keeps I (insert_outbox topic payload t)"
    and "\<And>i kind actor st sid payload req t. stmt_keeps I (insert_audit_event i kind actor st sid payload req t)"
    and "\<And>i st lab n t. stmt_keeps I (update_project i st lab n t)"
  shows "keeps (db_inv I) (pool_save L p)"
  unfolding pool_save_def project_id_arg_def append_project_event_def
  by (intro keeps_intros keeps_tx_stmt keeps_emit assms)

lemma keeps_allocate_one_free:
  "(\<And>locked. stmt_keeps I (allocate_one_free_project dm lab locked)) \<Longrightarrow>
     keeps (db_inv I) (allocate_one_free dm lab)"
  unfolding allocate_one_free_def by (intro keeps_intros keeps_tx_stmt) auto

lemma keeps_pool_get [keeps_intros]: "keeps (db_inv I) (pool_get_by_id i)"
  unfolding pool_get_by_id_def project_id_arg_def by (intro keeps_intros)

lemma keeps_pool_list [keeps_intros]: "keeps (db_inv I) (pool_list_by_domain dm st)"
  unfolding pool_list_by_domain_def by (intro keeps_intros)

lemmas projects_ok_stmts = projects_ok_update projects_ok_allocate projects_ok_seed projects_ok_logs

section \<open>Properties\<close>

definition sample_row :: "uuid \<Rightarrow> pstate \<Rightarrow> lab_id option \<Rightarrow> time \<Rightarrow> project_row" where
  "sample_row i s l t = \<lparr>pr_id = i, pr_ki_project = replicate (unat i) (CHR ''p''), pr_ki_domain = ''d'',
     pr_name = ''pool'', pr_state = s, pr_lab = l, pr_failures = 0, pr_changed_at = t, pr_created_at = 1\<rparr>"

definition sample_pool :: db where
  "sample_pool = empty_db\<lparr>t_projects := [sample_row 1 PFree None 20, sample_row 2 PFree None 10,
     sample_row 3 PAllocated (Some 77) 5]\<rparr>"

text \<open>
  C3: allocation is exclusive: when two rentals succeed one after the other, with no release in
  between, they are of different projects; after both each project is recorded as allocated to
  its own lab, and no other project has changed.
\<close>
theorem allocation_exclusive:
  assumes "distinct (map pr_id (t_projects (w_db w)))"
    and "allocate_one_free d1 l1 w = (Inr p1, w1)" and "allocate_one_free d2 l2 w1 = (Inr p2, w2)"
  shows "pj_id p1 \<noteq> pj_id p2 \<and> pj_lab p1 = Some l1 \<and> pj_lab p2 = Some l2 \<and>
    map_option project_from_row (get_project_row (pj_id p1) (w_db w2)) = Some p1 \<and>
    map_option project_from_row (get_project_row (pj_id p2) (w_db w2)) = Some p2 \<and>
    (\<forall>i. i \<noteq> pj_id p1 \<longrightarrow> i \<noteq> pj_id p2 \<longrightarrow>
       get_project_row i (w_db w2) = get_project_row i (w_db w))"
proof -
  obtain r1 t1 where 1: "r1 \<in> set (candidates d1 w)" "p1 = project_from_row (rented l1 t1 r1)"
    "w_db w1 = (w_db w)\<lparr>t_projects := put_row pr_id (rented l1 t1 r1) (t_projects (w_db w))\<rparr>"
    using allocate_InrD [OF assms(2)] by auto
  obtain r2 t2 where 2: "r2 \<in> set (candidates d2 w1)" "p2 = project_from_row (rented l2 t2 r2)"
    "w_db w2 = (w_db w1)\<lparr>t_projects := put_row pr_id (rented l2 t2 r2) (t_projects (w_db w1))\<rparr>"
    using allocate_InrD [OF assms(3)] by auto
  have g1: "get_project_row (pr_id r1) (w_db w) = Some r1"
    using assms(1) 1(1) by (auto simp: candidates_def intro: get_project_mem)
  have "distinct (map pr_id (t_projects (w_db w1)))" using assms(1) 1(3) by simp
  then have g2: "get_project_row (pr_id r2) (w_db w1) = Some r2"
    using 2(1) by (auto simp: candidates_def intro: get_project_mem)
  have free: "pr_state r2 = PFree" using 2(1) by (simp add: candidates_def)
  have ne: "pr_id r2 \<noteq> pr_id r1"
  proof
    assume "pr_id r2 = pr_id r1"
    with g1 g2 1(3) have "r2 = rented l1 t1 r1" by (simp add: get_project_put)
    with free show False by simp
  qed
  have G1: "get_project_row k (w_db w1) =
      (if k = pr_id r1 then Some (rented l1 t1 r1) else get_project_row k (w_db w))" for k
    using g1 unfolding 1(3) by (simp add: get_project_put)
  have G2: "get_project_row k (w_db w2) =
      (if k = pr_id r2 then Some (rented l2 t2 r2) else get_project_row k (w_db w1))" for k
    using g2 unfolding 2(3) by (simp add: get_project_put)
  show ?thesis unfolding G2 G1 using ne 1(2) 2(2) by simp
qed

lemma allocation_exclusive_witness:
  "\<exists>p1 w1 p2 w2. allocate_one_free ''d'' 8 (world_of () sample_pool) = (Inr p1, w1) \<and>
     allocate_one_free ''d'' 9 w1 = (Inr p2, w2) \<and> pj_id p1 \<noteq> pj_id p2 \<and> pj_lab p1 = Some 8"
proof -
  let ?w = "world_of () sample_pool"
  have d: "distinct (map pr_id (t_projects (w_db ?w)))"
    by (simp add: sample_pool_def sample_row_def)
  have "case allocate_one_free ''d'' 8 ?w of (Inl _, _) \<Rightarrow> False | (Inr p1, w1) \<Rightarrow>
      (case allocate_one_free ''d'' 9 w1 of (Inl _, _) \<Rightarrow> False | (Inr p2, w2) \<Rightarrow> True)"
    by code_simp
  then obtain p1 w1 p2 w2 where 1: "allocate_one_free ''d'' 8 ?w = (Inr p1, w1)"
    and 2: "allocate_one_free ''d'' 9 w1 = (Inr p2, w2)"
    by (auto split: prod.splits sum.splits)
  show ?thesis using allocation_exclusive [OF d 1 2] 1 2 by blast
qed

text \<open>
  without database faults an allocation rents the free, unlocked project of the domain that
  has been idle for longest (the smallest id on ties), and fails with \<open>ErrPoolEmpty\<close> exactly
  when the domain has none.
\<close>
theorem allocation_oldest_first:
  assumes "no_db_faults w" "\<not> w_aborted w"
  shows "(candidates dm w = [] \<and> fst (allocate_one_free dm lab w) = Inl (Sentinel ErrPoolEmpty)) \<or>
    (\<exists>r \<in> set (candidates dm w).
       (\<forall>x \<in> set (candidates dm w). pr_changed_at r < pr_changed_at x \<or>
          (pr_changed_at r = pr_changed_at x \<and> pr_id r \<le> pr_id x)) \<and>
       fst (allocate_one_free dm lab w) =
         Inr (project_from_row (rented lab (e_db_now (w_env w) (w_stmt w)) r)))"
proof (cases "min_row (\<lambda>r. (pr_changed_at r, pr_id r)) (candidates dm w)")
  case None
  with allocate_result [OF assms, of dm lab] show ?thesis by simp
next
  case (Some r)
  then have "r \<in> set (candidates dm w)" "\<forall>x \<in> set (candidates dm w).
      pr_changed_at r < pr_changed_at x \<or> (pr_changed_at r = pr_changed_at x \<and> pr_id r \<le> pr_id x)"
    using min_row_SomeD [OF Some] by (auto simp: less_eq_prod_def)
  with Some allocate_result [OF assms, of dm lab] show ?thesis by auto
qed

lemma allocation_oldest_first_witness:
  "\<exists>r \<in> set (candidates ''d'' (world_of () sample_pool)). pr_changed_at r \<le> 20"
proof -
  have "candidates ''d'' (world_of () sample_pool) \<noteq> []"
    by (simp add: candidates_def sample_pool_def sample_row_def quiet_env_def)
  moreover have "sample_row 1 PFree None 20 \<in> set (candidates ''d'' (world_of () sample_pool))"
    by (simp add: candidates_def sample_pool_def sample_row_def quiet_env_def)
  ultimately show ?thesis
    using allocation_oldest_first [of "world_of () sample_pool" "''d''" 8]
    by (force simp: sample_row_def)
qed

text \<open>
  what \<open>Save\<close> stores is what \<open>GetByID\<close> then reads: after a save that succeeds, reading the
  project gives the saved state, lab (for the states that keep one), failures and change time
  with the identity columns unchanged; every other project is untouched; and the outbox and the
  audit log grow by exactly the aggregate's pending events, in order.
\<close>
theorem pool_save_get:
  assumes "pool_save L p w = (Inr p', w')" "pj_id p \<noteq> 0"
  shows "pj_events p' = [] \<and> (\<exists>r. get_project_row (pj_id p) (w_db w) = Some r \<and>
      map_option project_from_row (get_project_row (pj_id p) (w_db w')) =
        Some (p\<lparr>pj_ki_project := pr_ki_project r, pj_ki_domain := pr_ki_domain r, pj_name := pr_name r,
          pj_created_at := pr_created_at r, pj_lab := nullable_allocated p, pj_events := []\<rparr>)) \<and>
    (\<forall>i. i \<noteq> pj_id p \<longrightarrow> get_project_row i (w_db w') = get_project_row i (w_db w)) \<and>
    published (w_db w') = published (w_db w) @ map (project_message L) (pj_events p) \<and>
    audited (w_db w') = audited (w_db w) @ map (project_audit L) (pj_events p)"
proof -
  from pool_save_InrD [OF assms] obtain r w1 where r: "get_project_row (pj_id p) (w_db w) = Some r"
    and w1': "w1 = w\<lparr>w_stmt := Suc (w_stmt w), w_db := (w_db w)\<lparr>t_projects :=
      put_row pr_id (project_merge p r) (t_projects (w_db w))\<rparr>\<rparr>"
    and logs: "logs_only w1 w'" and p': "p' = p\<lparr>pj_events := []\<rparr>"
    and pub: "published (w_db w') = published (w_db w) @ map (project_message L) (pj_events p)"
      "audited (w_db w') = audited (w_db w) @ map (project_audit L) (pj_events p)" by blast
  have w1: "w_db w1 = (w_db w)\<lparr>t_projects := put_row pr_id (project_merge p r) (t_projects (w_db w))\<rparr>"
    using w1' by simp
  have get: "get_project_row i (w_db w') = get_project_row i (w_db w1)" for i
    using logs_onlyD(1) [OF logs] by (simp add: get_project_row_def)
  have id: "pr_id (project_merge p r) = pj_id p" using get_project_row_id [OF r]
    by (simp add: project_merge_def)
  show ?thesis
    using r id get_project_row_id [OF r] p' pub unfolding get w1
    by (simp add: get_project_put project_from_row_def project_merge_def)
qed

lemma pool_save_get_witness:
  "\<exists>p' w'. pool_save \<lparr>uuid_string = \<lambda>_. ''u'', uuid_parse = \<lambda>_. None, time_json = JInt,
       gcm_seal = \<lambda>_ _ x _. x, gcm_open = \<lambda>_ _ x _. Some x\<rparr>
     (project_from_row (sample_row 1 PFree None 30)) (world_of () sample_pool) = (Inr p', w') \<and>
     pj_events p' = [] \<and> get_project_row 3 (w_db w') = get_project_row 3 sample_pool"
proof -
  let ?L = "\<lparr>uuid_string = \<lambda>_. ''u'', uuid_parse = \<lambda>_. None, time_json = JInt,
       gcm_seal = \<lambda>_ _ x _. x, gcm_open = \<lambda>_ _ x _. Some x\<rparr>"
  let ?p = "project_from_row (sample_row 1 PFree None 30)"
  obtain p' w' where "pool_save ?L ?p (world_of () sample_pool) = (Inr p', w')"
    by (simp add: pool_save_def io_simps cleanup_failures_int32_def project_id_arg_def one_row_def
        tx_stmt_def quiet_env_def update_project_def sample_pool_def sample_row_def project_from_row_def
        timestamptz_def project_row_ok_def nullable_allocated_def pj_pull_events_def Let_def)
  then show ?thesis using pool_save_get [of ?L ?p "world_of () sample_pool" p' w']
    by (simp add: project_from_row_def sample_row_def)
qed

text \<open>
  optimistic locking of projects: over any history of saves by any use cases, in any order,
  the change time recorded for a project never goes back, so a save prepared from an older read
  never overwrites a newer state.
\<close>
theorem project_stamps_monotone:
  assumes "get_project_row i d = Some r"
  shows "\<exists>r'. get_project_row i (run_saves project_update saves d) = Some r' \<and>
    pr_changed_at r \<le> pr_changed_at r'"
  using assms by (rule pool_repo.history_stamp_mono)

lemma project_stamps_monotone_witness:
  "\<exists>r'. get_project_row 1 (run_saves project_update
      [(project_from_row (sample_row 1 PCleaning None 15), 3)] sample_pool) = Some r' \<and>
    20 \<le> pr_changed_at r'"
proof -
  have g: "get_project_row 1 sample_pool = Some (sample_row 1 PFree None 20)"
    by (simp add: get_project_row_def sample_pool_def sample_row_def)
  have t: "pr_changed_at (sample_row 1 PFree None 20) = 20" by (simp add: sample_row_def)
  show ?thesis by (rule project_stamps_monotone [OF g, unfolded t])
qed

end
