(* ===== verification/LabStore.thy ===== *)
theory LabStore
  imports PoolStore
begin

text \<open>
  \<open>internal/adapters/storage/pgxrepo/lab.go\<close>, \<open>lab_mapping.go\<close> and the SQL of
  \<open>sqlcgen/lab.sql.go\<close>: the repository of labs over the table \<open>lab_instances\<close> with its CHECK
  constraints and its unique index (one active lab per student and course).
\<close>

section \<open>Resources as JSON\<close>

definition omit_empty_list :: "string \<Rightarrow> string list \<Rightarrow> (string \<times> json) list" where
  "omit_empty_list k xs = (if xs = [] then [] else [(k, JArr (map JStr xs))])"

definition omit_empty_string :: "string \<Rightarrow> string \<Rightarrow> (string \<times> json) list" where
  "omit_empty_string k x = (if x = [] then [] else [(k, JStr x)])"

definition ki_resources_to_json :: "ki_resources \<Rightarrow> json" where
  "ki_resources_to_json r = JObj (omit_empty_list ''server_ids'' (ki_servers r) @
     omit_empty_string ''network_id'' (ki_network r) @
     omit_empty_list ''floating_ips'' (ki_floating_ips r) @
     omit_empty_string ''keypair_name'' (ki_keypair r))"

text \<open>
  Decoding of \<open>encoding/json\<close>: an absent field or \<open>null\<close> leaves the zero value, a value of
  another type is an error.
\<close>

definition unmarshal_error :: err where
  "unmarshal_error = Plain ''json: cannot unmarshal value into Go value''"

definition decode_string :: "json option \<Rightarrow> err + string" where
  "decode_string j = (case j of None \<Rightarrow> Inr [] | Some JNull \<Rightarrow> Inr [] | Some (JStr s) \<Rightarrow> Inr s
     | Some _ \<Rightarrow> Inl unmarshal_error)"

fun decode_strings :: "json list \<Rightarrow> err + string list" where
  "decode_strings [] = Inr []"
| "decode_strings (j # js) = (case decode_string (Some j) of Inl e \<Rightarrow> Inl e
     | Inr s \<Rightarrow> (case decode_strings js of Inl e \<Rightarrow> Inl e | Inr ss \<Rightarrow> Inr (s # ss)))"

definition decode_list :: "json option \<Rightarrow> err + string list" where
  "decode_list j = (case j of None \<Rightarrow> Inr [] | Some JNull \<Rightarrow> Inr []
     | Some (JArr js) \<Rightarrow> decode_strings js | Some _ \<Rightarrow> Inl unmarshal_error)"

definition ki_resources_from_json :: "json \<Rightarrow> err + ki_resources" where
  "ki_resources_from_json j = (case j of
     JNull \<Rightarrow> Inr no_resources
   | JObj _ \<Rightarrow>
      (case decode_list (json_field ''server_ids'' j) of Inl e \<Rightarrow> Inl e | Inr ss \<Rightarrow>
      (case decode_string (json_field ''network_id'' j) of Inl e \<Rightarrow> Inl e | Inr n \<Rightarrow>
      (case decode_list (json_field ''floating_ips'' j) of Inl e \<Rightarrow> Inl e | Inr fs \<Rightarrow>
      (case decode_string (json_field ''keypair_name'' j) of Inl e \<Rightarrow> Inl e | Inr k \<Rightarrow>
         Inr \<lparr>ki_servers = ss, ki_network = n, ki_floating_ips = fs, ki_keypair = k\<rparr>))))
   | _ \<Rightarrow> Inl unmarshal_error)"

lemma decode_strings_map [simp]: "decode_strings (map JStr xs) = Inr xs"
  by (induction xs) (simp_all add: decode_string_def)

lemma ki_resources_roundtrip [simp]: "ki_resources_from_json (ki_resources_to_json r) = Inr r"
  by (cases r) (auto simp: ki_resources_from_json_def ki_resources_to_json_def omit_empty_list_def
      omit_empty_string_def json_field_def decode_list_def decode_string_def)

section \<open>The table of labs\<close>

definition lab_active :: "lstate \<Rightarrow> bool" where
  "lab_active s \<longleftrightarrow> s \<noteq> Done \<and> s \<noteq> Rejected \<and> s \<noteq> Failed"

definition lab_row_ok :: "lab_row \<Rightarrow> bool" where
  "lab_row_ok r \<longleftrightarrow>
     (lr_state r = Ready \<longrightarrow> lr_cleanup_at r \<noteq> None) \<and>
     (lr_state r = Frozen \<longrightarrow> lr_unfreeze_at r \<noteq> None \<and> lr_frozen_by r \<noteq> None)"

text \<open>Another active lab of the same student in the same course.\<close>

definition active_clash :: "lab_row \<Rightarrow> lab_row list \<Rightarrow> bool" where
  "active_clash r rows \<longleftrightarrow> lab_active (lr_state r) \<and>
     (\<exists>x \<in> set rows. lr_id x \<noteq> lr_id r \<and> lr_student x = lr_student r \<and>
        lr_course x = lr_course r \<and> lab_active (lr_state x))"

definition lab_row_violation :: "lab_row \<Rightarrow> err option" where
  "lab_row_violation r =
     (if lr_state r = Ready \<and> lr_cleanup_at r = None
      then Some (check_violation ''lab_ready_has_cleanup_at'')
      else if lr_state r = Frozen \<and> (lr_unfreeze_at r = None \<or> lr_frozen_by r = None)
      then Some (check_violation ''lab_frozen_has_unfreeze'')
      else None)"

definition one_active_index :: string where
  "one_active_index = ''lab_instances_one_active_per_student_course''"

definition create_lab_instance :: "(time \<Rightarrow> lab_row) \<Rightarrow> unit stmt" where
  "create_lab_instance row now d =
     (let r = row now in
      case lab_row_violation r of Some e \<Rightarrow> Inl e
      | None \<Rightarrow>
        if lr_id r \<in> lr_id ` set (t_labs d) then Inl (unique_violation ''lab_instances_pkey'')
        else if active_clash r (t_labs d) then Inl (unique_violation one_active_index)
        else Inr ((), d\<lparr>t_labs := t_labs d @ [r]\<rparr>))"

definition get_lab_row :: "uuid \<Rightarrow> db \<Rightarrow> lab_row option" where
  "get_lab_row i d = find_row lr_id i (t_labs d)"

definition find_active_lab_row :: "uuid \<Rightarrow> uuid \<Rightarrow> db \<Rightarrow> lab_row option" where
  "find_active_lab_row student course d =
     min_row (\<lambda>r. (- lr_created_at r, lr_id r))
       (filter (\<lambda>r. lr_student r = student \<and> lr_course r = course \<and> lab_active (lr_state r))
         (t_labs d))"

definition list_lab_rows ::
  "uuid option \<Rightarrow> uuid option \<Rightarrow> uuid list \<Rightarrow> lstate list \<Rightarrow> int \<Rightarrow> db \<Rightarrow> lab_row list" where
  "list_lab_rows student course courses states limit d =
     take (nat limit) (rev (sort_key (\<lambda>r. (lr_created_at r, lr_id r))
       (filter (\<lambda>r. (case student of None \<Rightarrow> True | Some s \<Rightarrow> lr_student r = s) \<and>
           (case course of None \<Rightarrow> True | Some c \<Rightarrow> lr_course r = c) \<and>
           (courses = [] \<or> lr_course r \<in> set courses) \<and>
           (states = [] \<or> lr_state r \<in> set states)) (t_labs d))))"

text \<open>A comparison with NULL selects no row.\<close>

definition due :: "time option \<Rightarrow> time option \<Rightarrow> bool" where
  "due t before = (case (t, before) of (Some a, Some b) \<Rightarrow> a \<le> b | _ \<Rightarrow> False)"

definition list_pending_cleanup_rows :: "time option \<Rightarrow> int \<Rightarrow> db \<Rightarrow> lab_row list" where
  "list_pending_cleanup_rows before limit d =
     take (nat limit) (sort_key (\<lambda>r. (the (lr_cleanup_at r), lr_id r))
       (filter (\<lambda>r. lr_state r = Ready \<and> due (lr_cleanup_at r) before) (t_labs d)))"

definition list_pending_unfreeze_rows :: "time option \<Rightarrow> int \<Rightarrow> db \<Rightarrow> lab_row list" where
  "list_pending_unfreeze_rows before limit d =
     take (nat limit) (sort_key (\<lambda>r. (the (lr_unfreeze_at r), lr_id r))
       (filter (\<lambda>r. lr_state r = Frozen \<and> due (lr_unfreeze_at r) before) (t_labs d)))"

definition update_lab_instance :: "uuid \<Rightarrow> time option \<Rightarrow> (lab_row \<Rightarrow> lab_row) \<Rightarrow> lab_row option stmt" where
  "update_lab_instance i updated set_columns now d =
     (case find_row lr_id i (t_labs d) of
        None \<Rightarrow> Inr (None, d)
      | Some r \<Rightarrow> (case updated of
          None \<Rightarrow> Inr (None, d)
        | Some t \<Rightarrow>
            if t < lr_updated_at r then Inr (None, d)
            else let r' = (set_columns r)\<lparr>lr_updated_at := t\<rparr> in
              case lab_row_violation r' of Some e \<Rightarrow> Inl e
              | None \<Rightarrow>
                if active_clash r' (t_labs d) then Inl (unique_violation one_active_index)
                else Inr (Some r', d\<lparr>t_labs := put_row lr_id r' (t_labs d)\<rparr>)))"

section \<open>Mapping\<close>

definition nullable_string :: "string \<Rightarrow> string option" where
  "nullable_string s = (if s = [] then None else Some s)"

definition timestamptz_ptr :: "time option \<Rightarrow> time option" where
  "timestamptz_ptr t = (case t of None \<Rightarrow> None | Some x \<Rightarrow> timestamptz x)"

definition lab_from_row :: "lab_row \<Rightarrow> err + lab" where
  "lab_from_row r = (case ki_resources_from_json (lr_resources r) of
     Inl e \<Rightarrow> Inl (Wrapped ''pgxrepo: unmarshal lab ki resources'' e)
   | Inr res \<Rightarrow> Inr \<lparr>lb_id = lr_id r, lb_student = lr_student r, lb_course = lr_course r,
       lb_template = lr_template r, lb_project = lr_project r, lb_state = lr_state r,
       lb_reason = lr_reason r, lb_resources = res, lb_cleanup_at = lr_cleanup_at r,
       lb_unfreeze_at = lr_unfreeze_at r, lb_frozen_by = lr_frozen_by r,
       lb_frozen_reason = coalesce (lr_frozen_reason r) [], lb_student_key = lr_student_key r,
       lb_checker_key = lr_checker_key r, lb_created_at = lr_created_at r,
       lb_updated_at = lr_updated_at r, lb_events = []\<rparr>)"

fun labs_from_rows :: "lab_row list \<Rightarrow> err + lab list" where
  "labs_from_rows [] = Inr []"
| "labs_from_rows (r # rs) = (case lab_from_row r of Inl e \<Rightarrow> Inl e
     | Inr l \<Rightarrow> (case labs_from_rows rs of Inl e \<Rightarrow> Inl e | Inr ls \<Rightarrow> Inr (l # ls)))"

definition create_lab_params :: "lab \<Rightarrow> time \<Rightarrow> lab_row" where
  "create_lab_params l now = \<lparr>lr_id = lb_id l, lr_student = lb_student l, lr_course = lb_course l,
     lr_template = lb_template l, lr_project = lb_project l, lr_state = lb_state l,
     lr_reason = lb_reason l, lr_resources = ki_resources_to_json (lb_resources l),
     lr_cleanup_at = timestamptz_ptr (lb_cleanup_at l),
     lr_unfreeze_at = timestamptz_ptr (lb_unfreeze_at l), lr_frozen_by = lb_frozen_by l,
     lr_frozen_reason = nullable_string (lb_frozen_reason l), lr_student_key = lb_student_key l,
     lr_checker_key = lb_checker_key l,
     lr_created_at = coalesce (nullable_time_arg (lb_created_at l)) now,
     lr_updated_at = coalesce (nullable_time_arg (lb_updated_at l)) now\<rparr>"

definition update_lab_params :: "lab \<Rightarrow> lab_row \<Rightarrow> lab_row" where
  "update_lab_params l r = r\<lparr>lr_project := lb_project l, lr_state := lb_state l,
     lr_reason := lb_reason l, lr_resources := ki_resources_to_json (lb_resources l),
     lr_cleanup_at := timestamptz_ptr (lb_cleanup_at l),
     lr_unfreeze_at := timestamptz_ptr (lb_unfreeze_at l), lr_frozen_by := lb_frozen_by l,
     lr_frozen_reason := nullable_string (lb_frozen_reason l), lr_student_key := lb_student_key l,
     lr_checker_key := lb_checker_key l\<rparr>"

fun lab_event_payload :: "lib \<Rightarrow> lab_event \<Rightarrow> json \<times> string" where
  "lab_event_payload L (EventCreated i s c t) =
     (JObj [(''course_id'', JStr (uuid_string L c)), (''lab_id'', JStr (uuid_string L i)),
        (''student_id'', JStr (uuid_string L s)), (''template_id'', JStr (uuid_string L t))],
      uuid_string L i)"
| "lab_event_payload L (EventStateChanged i from to reason) =
     (JObj [(''from'', JStr (lstate_text from)), (''lab_id'', JStr (uuid_string L i)),
        (''reason'', JStr reason), (''to'', JStr (lstate_text to))], uuid_string L i)"
| "lab_event_payload L (EventProjectAssigned i p) =
     (JObj [(''lab_id'', JStr (uuid_string L i)), (''project_id'', JStr (uuid_string L p))],
      uuid_string L i)"
| "lab_event_payload L (EventCleanupExtended i t) =
     (JObj [(''lab_id'', JStr (uuid_string L i)), (''new_cleanup_at'', time_json L t)],
      uuid_string L i)"

definition lab_event_occurred_at :: "lab \<Rightarrow> time" where
  "lab_event_occurred_at l = (if lb_updated_at l \<noteq> 0 then lb_updated_at l else lb_created_at l)"

fun is_unique_violation :: "err \<Rightarrow> bool" where
  "is_unique_violation (PgError c m) = (c = ''23505'')"
| "is_unique_violation (Wrapped p e) = is_unique_violation e"
| "is_unique_violation _ = False"

definition list_limit_int32 :: "int \<Rightarrow> err + int" where
  "list_limit_int32 n =
     (if n < 0 \<or> 2147483647 < n then Inl (Sentinel ErrInvalidInput) else Inr n)"

section \<open>The repository\<close>

definition append_lab_event :: "lib \<Rightarrow> lab_event \<Rightarrow> time \<Rightarrow> ('c, unit) prog" where
  "append_lab_event L ev occurred_at =
     emit ''pgxrepo: insert lab outbox'' ''pgxrepo: insert lab audit event'' (lab_event_kind ev)
       ''lab_instance'' (lab_event_payload L ev) occurred_at"

text \<open>\<open>flushLabEvents\<close> drains the pending events and returns the aggregate after it.\<close>

definition flush_lab_events :: "lib \<Rightarrow> lab \<Rightarrow> time \<Rightarrow> ('c, lab) prog" where
  "flush_lab_events L l occurred_at =
     bind (for_each (fst (lb_pull_events l)) (\<lambda>ev. append_lab_event L ev occurred_at)) (\<lambda>_.
     ret (snd (lb_pull_events l)))"

definition lab_create :: "lib \<Rightarrow> lab \<Rightarrow> ('c, lab) prog" where
  "lab_create L l =
     bind (on_err (\<lambda>e. if is_unique_violation e then Sentinel ErrLabAlreadyActive
         else Wrapped ''pgxrepo: create lab'' e)
       (tx_stmt (create_lab_instance (create_lab_params l)))) (\<lambda>_.
     flush_lab_events L l (lab_event_occurred_at l))"

definition lab_update :: "lab \<Rightarrow> lab_row option stmt" where
  "lab_update l = update_lab_instance (lb_id l) (timestamptz (lb_updated_at l)) (update_lab_params l)"

definition lab_save :: "lib \<Rightarrow> lab \<Rightarrow> ('c, lab) prog" where
  "lab_save L l =
     bind (on_err (or_no_rows ErrIdempotencyClash ''pgxrepo: save lab'')
       (one_row (tx_stmt (lab_update l)))) (\<lambda>_.
     flush_lab_events L l (lab_event_occurred_at l))"

definition lab_get_by_id :: "lab_id \<Rightarrow> ('c, lab) prog" where
  "lab_get_by_id i =
     bind (on_err (or_no_rows ErrNotFound ''pgxrepo: get lab'')
       (one_row (conn_query (get_lab_row i)))) (\<lambda>row.
     from_sum (lab_from_row row))"

record lab_filter =
  lf_student :: "user_id option"
  lf_course :: "course_id option"
  lf_courses :: "course_id list"
  lf_states :: "lstate list"
  lf_limit :: int

definition lab_list :: "lab_filter \<Rightarrow> ('c, lab list) prog" where
  "lab_list f =
     bind (from_sum (list_limit_int32 (lf_limit f))) (\<lambda>limit.
     bind (on_err (Wrapped ''pgxrepo: list labs'')
       (conn_query (list_lab_rows (lf_student f) (lf_course f) (lf_courses f) (lf_states f)
          (if limit = 0 then 200 else limit)))) (\<lambda>rows.
     from_sum (labs_from_rows rows)))"

text \<open>No row is not an error here: the result is a nil lab.\<close>

definition lab_find_active :: "user_id \<Rightarrow> course_id \<Rightarrow> ('c, lab option) prog" where
  "lab_find_active student course =
     bind (attempt (one_row (conn_query (find_active_lab_row student course)))) (\<lambda>r.
     case r of
       Inl e \<Rightarrow> if err_is_no_rows e then ret None
                else throw (Wrapped ''pgxrepo: find active lab'' e)
     | Inr row \<Rightarrow> bind (from_sum (lab_from_row row)) (\<lambda>l. ret (Some l)))"

definition lab_list_pending_cleanup :: "time \<Rightarrow> int \<Rightarrow> ('c, lab list) prog" where
  "lab_list_pending_cleanup before limit =
     bind (from_sum (list_limit_int32 limit)) (\<lambda>limit.
     if limit = 0 then ret []
     else bind (on_err (Wrapped ''pgxrepo: list pending cleanup labs'')
       (conn_query (list_pending_cleanup_rows (timestamptz before) limit))) (\<lambda>rows.
     from_sum (labs_from_rows rows)))"

definition lab_list_pending_unfreeze :: "time \<Rightarrow> int \<Rightarrow> ('c, lab list) prog" where
  "lab_list_pending_unfreeze before limit =
     bind (from_sum (list_limit_int32 limit)) (\<lambda>limit.
     if limit = 0 then ret []
     else bind (on_err (Wrapped ''pgxrepo: list pending unfreeze labs'')
       (conn_query (list_pending_unfreeze_rows (timestamptz before) limit))) (\<lambda>rows.
     from_sum (labs_from_rows rows)))"

section \<open>The statements on labs\<close>

definition lab_merge :: "lab \<Rightarrow> lab_row \<Rightarrow> lab_row" where
  "lab_merge l r = (update_lab_params l r)\<lparr>lr_updated_at := lb_updated_at l\<rparr>"

lemma lab_merge_simps [simp]:
  "lr_id (lab_merge l r) = lr_id r" "lr_student (lab_merge l r) = lr_student r"
  "lr_course (lab_merge l r) = lr_course r" "lr_state (lab_merge l r) = lb_state l"
  "lr_updated_at (lab_merge l r) = lb_updated_at l" "lr_project (lab_merge l r) = lb_project l"
  "lr_created_at (lab_merge l r) = lr_created_at r"
  by (simp_all add: lab_merge_def update_lab_params_def)

lemma lab_row_violation_None: "lab_row_violation r = None \<longleftrightarrow> lab_row_ok r"
  by (auto simp: lab_row_violation_def lab_row_ok_def)

lemma lab_update_hit:
  assumes "lab_update l now d = Inr (Some r', d')"
  shows "\<exists>r. get_lab_row (lb_id l) d = Some r \<and> lr_updated_at r \<le> lb_updated_at l \<and>
    r' = lab_merge l r \<and> lab_row_ok r' \<and> \<not> active_clash r' (t_labs d) \<and>
    d' = d\<lparr>t_labs := put_row lr_id r' (t_labs d)\<rparr>"
  using assms
  by (auto simp: lab_update_def update_lab_instance_def get_lab_row_def lab_merge_def Let_def
      timestamptz_def lab_row_violation_None split: option.splits if_splits)

lemma lab_update_miss: "lab_update l now d = Inr (None, d') \<Longrightarrow> d' = d"
  by (auto simp: lab_update_def update_lab_instance_def Let_def split: option.splits if_splits)

lemma get_lab_put:
  "get_lab_row k (d\<lparr>t_labs := put_row lr_id r (t_labs d)\<rparr>) =
     (if k = lr_id r then (case get_lab_row k d of None \<Rightarrow> None | Some _ \<Rightarrow> Some r)
      else get_lab_row k d)"
proof (cases "k = lr_id r")
  case True
  show ?thesis
  proof (cases "find_row lr_id k (t_labs d)")
    case None
    then have "find_row lr_id k (put_row lr_id r (t_labs d)) = None"
      by (simp only: find_row_None_iff set_map [symmetric] map_key_put_row not_False_eq_True)
    with None True show ?thesis by (simp add: get_lab_row_def)
  next
    case (Some x)
    with True find_row_put_same [of lr_id r] show ?thesis by (simp add: get_lab_row_def)
  qed
qed (simp add: get_lab_row_def find_row_put_other)

lemma get_lab_row_id: "get_lab_row k d = Some r \<Longrightarrow> lr_id r = k"
  by (auto simp: get_lab_row_def dest: find_row_SomeD)

interpretation lab_repo: aggregate_repo get_lab_row lab_update lb_id lb_updated_at
  lr_updated_at lab_merge
proof (unfold_locales, goal_cases)
  case (1 a now d r' d')
  then obtain r where "get_lab_row (lb_id a) d = Some r" "lr_updated_at r \<le> lb_updated_at a"
    "r' = lab_merge a r" "d' = d\<lparr>t_labs := put_row lr_id r' (t_labs d)\<rparr>"
    using lab_update_hit by blast
  then show ?case by (auto simp: get_lab_put get_lab_row_id)
next
  case (2 a now d d')
  then show ?case by (rule lab_update_miss)
next
  case (3 a now d x d' k)
  show ?case
  proof (cases x)
    case None
    with 3 show ?thesis by (auto dest: lab_update_miss)
  next
    case (Some r')
    with 3 have "lr_id r' = lb_id a \<and> d' = d\<lparr>t_labs := put_row lr_id r' (t_labs d)\<rparr>"
      by (auto dest!: lab_update_hit get_lab_row_id)
    with 3(2) show ?thesis by (simp add: get_lab_put)
  qed
next
  case (4 a r)
  then show ?case by simp
qed

section \<open>What the repository's operations do\<close>

definition lab_message :: "lib \<Rightarrow> lab_event \<Rightarrow> string \<times> json" where
  "lab_message L ev = (lab_event_kind ev, fst (lab_event_payload L ev))"

definition lab_audit :: "lib \<Rightarrow> lab_event \<Rightarrow> string \<times> string \<times> string option \<times> json" where
  "lab_audit L ev = (lab_event_kind ev, ''lab_instance'', Some (snd (lab_event_payload L ev)),
     fst (lab_event_payload L ev))"

lemma append_lab_event_InrD:
  "append_lab_event L ev t w = (Inr (), w') \<Longrightarrow> logs_only w w' \<and>
     published (w_db w') = published (w_db w) @ [lab_message L ev] \<and>
     audited (w_db w') = audited (w_db w) @ [lab_audit L ev]"
  unfolding append_lab_event_def lab_message_def lab_audit_def by (rule emit_InrD)

lemma flush_lab_events_InrD:
  "flush_lab_events L l t w = (Inr l', w') \<Longrightarrow> l' = l\<lparr>lb_events := []\<rparr> \<and> logs_only w w' \<and>
     published (w_db w') = published (w_db w) @ map (lab_message L) (lb_events l) \<and>
     audited (w_db w') = audited (w_db w) @ map (lab_audit L) (lb_events l)"
  using for_each_emits [where f = "\<lambda>ev. append_lab_event L ev t", OF append_lab_event_InrD]
  unfolding flush_lab_events_def
  by (fastforce dest!: bind_InrD simp: io_basic lb_pull_events_def)

lemma lab_save_InrD:
  assumes "lab_save L l w = (Inr l', w')"
  shows "l' = l\<lparr>lb_events := []\<rparr> \<and> (\<exists>r w1. get_lab_row (lb_id l) (w_db w) = Some r \<and>
    lr_updated_at r \<le> lb_updated_at l \<and> lab_row_ok (lab_merge l r) \<and>
    \<not> active_clash (lab_merge l r) (t_labs (w_db w)) \<and>
    w1 = w\<lparr>w_stmt := Suc (w_stmt w), w_db := (w_db w)\<lparr>t_labs :=
      put_row lr_id (lab_merge l r) (t_labs (w_db w))\<rparr>\<rparr> \<and> logs_only w1 w' \<and>
    published (w_db w') = published (w_db w) @ map (lab_message L) (lb_events l) \<and>
    audited (w_db w') = audited (w_db w) @ map (lab_audit L) (lb_events l))"
proof -
  obtain x w1 where upd: "tx_stmt (lab_update l) w = (Inr (Some x), w1)"
    and ev: "flush_lab_events L l (lab_event_occurred_at l) w1 = (Inr l', w')"
    using assms unfolding lab_save_def by (fastforce dest!: bind_InrD on_err_InrD one_row_InrD)
  obtain d' where d': "lab_update l (e_db_now (w_env w) (w_stmt w)) (w_db w) = Inr (Some x, d')"
    and w1: "w1 = w\<lparr>w_stmt := Suc (w_stmt w), w_db := d'\<rparr>"
    using tx_stmt_InrD [OF upd] by blast
  from lab_update_hit [OF d'] obtain r where r: "get_lab_row (lb_id l) (w_db w) = Some r"
    "lr_updated_at r \<le> lb_updated_at l" "x = lab_merge l r" "lab_row_ok x"
    "\<not> active_clash x (t_labs (w_db w))" "d' = (w_db w)\<lparr>t_labs := put_row lr_id x (t_labs (w_db w))\<rparr>"
    by blast
  have "published (w_db w1) = published (w_db w)" "audited (w_db w1) = audited (w_db w)"
    using r(6) w1 by (simp_all add: published_def audited_def)
  with r w1 flush_lab_events_InrD [OF ev] show ?thesis by fastforce
qed

lemma lab_create_InrD:
  assumes "lab_create L l w = (Inr l', w')"
  shows "l' = l\<lparr>lb_events := []\<rparr> \<and> (\<exists>r w1 now. r = create_lab_params l now \<and> lab_row_ok r \<and>
    lb_id l \<notin> lr_id ` set (t_labs (w_db w)) \<and> \<not> active_clash r (t_labs (w_db w)) \<and>
    w1 = w\<lparr>w_stmt := Suc (w_stmt w), w_db := (w_db w)\<lparr>t_labs := t_labs (w_db w) @ [r]\<rparr>\<rparr> \<and>
    logs_only w1 w' \<and>
    published (w_db w') = published (w_db w) @ map (lab_message L) (lb_events l) \<and>
    audited (w_db w') = audited (w_db w) @ map (lab_audit L) (lb_events l))"
proof -
  obtain w1 where ins: "tx_stmt (create_lab_instance (create_lab_params l)) w = (Inr (), w1)"
    and ev: "flush_lab_events L l (lab_event_occurred_at l) w1 = (Inr l', w')"
    using assms unfolding lab_create_def by (fastforce dest!: bind_InrD on_err_InrD)
  let ?r = "create_lab_params l (e_db_now (w_env w) (w_stmt w))"
  have r: "lab_row_ok ?r" "lb_id l \<notin> lr_id ` set (t_labs (w_db w))"
    "\<not> active_clash ?r (t_labs (w_db w))"
    "w1 = w\<lparr>w_stmt := Suc (w_stmt w), w_db := (w_db w)\<lparr>t_labs := t_labs (w_db w) @ [?r]\<rparr>\<rparr>"
    using tx_stmt_InrD [OF ins]
    by (auto simp: create_lab_instance_def Let_def lab_row_violation_None create_lab_params_def
        split: option.splits if_splits)
  have "published (w_db w1) = published (w_db w)" "audited (w_db w1) = audited (w_db w)"
    using r(4) by (simp_all add: published_def audited_def)
  with r flush_lab_events_InrD [OF ev] show ?thesis by fastforce
qed

lemma lab_from_row_merge:
  "lab_from_row (lab_merge l r) = Inr (l\<lparr>lb_id := lr_id r, lb_student := lr_student r,
     lb_course := lr_course r, lb_template := lr_template r, lb_created_at := lr_created_at r,
     lb_cleanup_at := timestamptz_ptr (lb_cleanup_at l),
     lb_unfreeze_at := timestamptz_ptr (lb_unfreeze_at l), lb_events := []\<rparr>)"
  by (simp add: lab_from_row_def lab_merge_def update_lab_params_def coalesce_def nullable_string_def)

lemma lab_get_InrD:
  "lab_get_by_id i w = (Inr l, w') \<Longrightarrow>
     \<exists>r. get_lab_row i (committed w) = Some r \<and> lab_from_row r = Inr l \<and>
       w' = w\<lparr>w_stmt := Suc (w_stmt w)\<rparr>"
  unfolding lab_get_by_id_def by (auto dest!: run_dests simp: io_basic)

lemma lab_from_row_fields:
  "lab_from_row r = Inr l \<Longrightarrow> lb_id l = lr_id r \<and> lb_student l = lr_student r \<and>
     lb_course l = lr_course r \<and> lb_template l = lr_template r \<and> lb_project l = lr_project r \<and>
     lb_state l = lr_state r \<and> lb_cleanup_at l = lr_cleanup_at r \<and>
     lb_updated_at l = lr_updated_at r \<and> lb_created_at l = lr_created_at r \<and> lb_events l = [] \<and>
     lb_frozen_by l = lr_frozen_by r \<and> lb_unfreeze_at l = lr_unfreeze_at r"
  by (auto simp: lab_from_row_def split: sum.splits)

section \<open>Invariant of the table\<close>

definition labs_ok :: "db \<Rightarrow> bool" where
  "labs_ok d \<longleftrightarrow> distinct (map lr_id (t_labs d)) \<and> (\<forall>r \<in> set (t_labs d). lab_row_ok r) \<and>
     (\<forall>r \<in> set (t_labs d). \<not> active_clash r (t_labs d))"

lemma labs_ok_create: "stmt_keeps labs_ok (create_lab_instance row)"
proof (rule stmt_keepsI)
  fix now d x d'
  assume ok: "labs_ok d" and run: "create_lab_instance row now d = Inr (x, d')"
  let ?r = "row now"
  have new: "lab_row_ok ?r" "lr_id ?r \<notin> lr_id ` set (t_labs d)" "\<not> active_clash ?r (t_labs d)"
    "d' = d\<lparr>t_labs := t_labs d @ [?r]\<rparr>"
    using run by (auto simp: create_lab_instance_def Let_def lab_row_violation_None
        split: option.splits if_splits)
  have "\<not> active_clash y (t_labs d @ [?r])" if "y \<in> set (t_labs d @ [?r])" for y
    using that ok new(2,3) by (auto simp: labs_ok_def active_clash_def)
  with ok new show "labs_ok d'" by (auto simp: labs_ok_def)
qed

lemma labs_ok_update: "stmt_keeps labs_ok (lab_update l)"
proof (rule stmt_keepsI)
  fix now d x d'
  assume ok: "labs_ok d" and upd: "lab_update l now d = Inr (x, d')"
  show "labs_ok d'"
  proof (cases x)
    case None
    with upd ok show ?thesis by (auto dest: lab_update_miss)
  next
    case (Some r')
    with lab_update_hit upd obtain r where r: "get_lab_row (lb_id l) d = Some r" "r' = lab_merge l r"
      "lab_row_ok r'" "\<not> active_clash r' (t_labs d)" "d' = d\<lparr>t_labs := put_row lr_id r' (t_labs d)\<rparr>"
      by blast
    have "\<not> active_clash y (put_row lr_id r' (t_labs d))" if "y \<in> set (put_row lr_id r' (t_labs d))" for y
      using put_row_mem [OF that] ok r(4)
      by (auto simp: labs_ok_def active_clash_def dest!: put_row_mem)
    with ok r show ?thesis using set_put_row [of lr_id r' "t_labs d"] by (auto simp: labs_ok_def)
  qed
qed

lemma labs_ok_other:
  "stmt_keeps labs_ok (insert_outbox topic payload t)"
  "stmt_keeps labs_ok (insert_audit_event i kind actor st sid payload req t)"
  "stmt_keeps labs_ok (update_project i s lab n t)"
  "stmt_keeps labs_ok (allocate_one_free_project dm lb locked)"
  by (auto simp: stmt_keeps_def insert_outbox_def insert_audit_event_def update_project_def
      allocate_one_free_project_def labs_ok_def Let_def split: if_splits option.splits)

lemma projects_ok_labs:
  "stmt_keeps projects_ok (create_lab_instance row)" "stmt_keeps projects_ok (lab_update l)"
  by (auto simp: stmt_keeps_def create_lab_instance_def lab_update_def update_lab_instance_def
      projects_ok_def Let_def split: if_splits option.splits)

lemma keeps_flush:
  assumes "\<And>topic payload t. stmt_keeps I (insert_outbox topic payload t)"
    and "\<And>i kind actor st sid payload req t. stmt_keeps I (insert_audit_event i kind actor st sid payload req t)"
  shows "keeps (db_inv I) (flush_lab_events L l t)"
  unfolding flush_lab_events_def append_lab_event_def by (intro keeps_intros keeps_emit assms)

lemma keeps_lab_save:
  assumes "\<And>topic payload t. stmt_keeps I (insert_outbox topic payload t)"
    and "\<And>i kind actor st sid payload req t. stmt_keeps I (insert_audit_event i kind actor st sid payload req t)"
    and "stmt_keeps I (lab_update l)"
  shows "keeps (db_inv I) (lab_save L l)"
  unfolding lab_save_def by (intro keeps_intros keeps_tx_stmt keeps_flush assms)

lemma keeps_lab_create:
  assumes "\<And>topic payload t. stmt_keeps I (insert_outbox topic payload t)"
    and "\<And>i kind actor st sid payload req t. stmt_keeps I (insert_audit_event i kind actor st sid payload req t)"
    and "stmt_keeps I (create_lab_instance (create_lab_params l))"
  shows "keeps (db_inv I) (lab_create L l)"
  unfolding lab_create_def by (intro keeps_intros keeps_tx_stmt keeps_flush assms)

lemma keeps_lab_get [keeps_intros]: "keeps (db_inv I) (lab_get_by_id i)"
  unfolding lab_get_by_id_def by (intro keeps_intros)

lemma keeps_lab_find_active [keeps_intros]: "keeps (db_inv I) (lab_find_active s c)"
  unfolding lab_find_active_def by (intro keeps_intros)

lemma keeps_lab_list [keeps_intros]: "keeps (db_inv I) (lab_list f)"
  unfolding lab_list_def by (intro keeps_intros)

section \<open>Properties\<close>

definition sample_lab_row :: "uuid \<Rightarrow> user_id \<Rightarrow> lstate \<Rightarrow> project_id option \<Rightarrow> time \<Rightarrow> lab_row" where
  "sample_lab_row i s st p t = \<lparr>lr_id = i, lr_student = s, lr_course = 4, lr_template = 5,
     lr_project = p, lr_state = st, lr_reason = '''', lr_resources = JObj [],
     lr_cleanup_at = (if st = Ready then Some (t + 100) else None), lr_unfreeze_at = None,
     lr_frozen_by = None, lr_frozen_reason = None, lr_student_key = None, lr_checker_key = None,
     lr_created_at = 1, lr_updated_at = t\<rparr>"

definition sample_lab :: "uuid \<Rightarrow> user_id \<Rightarrow> lstate \<Rightarrow> project_id option \<Rightarrow> time \<Rightarrow> lab" where
  "sample_lab i s st p t = \<lparr>lb_id = i, lb_student = s, lb_course = 4, lb_template = 5,
     lb_project = p, lb_state = st, lb_reason = '''', lb_resources = no_resources,
     lb_cleanup_at = (if st = Ready then Some (t + 100) else None), lb_unfreeze_at = None,
     lb_frozen_by = None, lb_frozen_reason = '''', lb_student_key = None, lb_checker_key = None,
     lb_created_at = 1, lb_updated_at = t, lb_events = []\<rparr>"

definition sample_lib :: lib where
  "sample_lib = \<lparr>uuid_string = (\<lambda>u. replicate (unat u) (CHR ''u'')),
     uuid_parse = (\<lambda>s. Some (of_nat (length s))), time_json = JInt,
     gcm_seal = (\<lambda>_ _ x _. x), gcm_open = (\<lambda>_ _ x _. Some x)\<rparr>"

definition sample_labs :: db where
  "sample_labs = sample_pool\<lparr>t_labs := [sample_lab_row 7 1 Ready (Some 3) 50]\<rparr>"

lemma get_sample_lab: "get_lab_row 7 sample_labs = Some (sample_lab_row 7 1 Ready (Some 3) 50)"
  by (simp add: get_lab_row_def sample_labs_def sample_lab_row_def)



text \<open>
  optimistic locking of labs: over any history of saves the update time recorded for a lab
  never goes back, so a use case that read an older version cannot undo a newer one.
\<close>
theorem lab_stamps_monotone:
  assumes "get_lab_row i d = Some r"
  shows "\<exists>r'. get_lab_row i (run_saves lab_update saves d) = Some r' \<and>
    lr_updated_at r \<le> lr_updated_at r'"
  using assms by (rule lab_repo.history_stamp_mono)

lemma lab_stamps_monotone_witness:
  "\<exists>r'. get_lab_row 7 (run_saves lab_update
      [(sample_lab 7 1 Cleaning (Some 3) 40, 3)] sample_labs) = Some r' \<and> 50 \<le> lr_updated_at r'"
proof -
  have t: "lr_updated_at (sample_lab_row 7 1 Ready (Some 3) 50) = 50" by (simp add: sample_lab_row_def)
  show ?thesis by (rule lab_stamps_monotone [OF get_sample_lab, unfolded t])
qed

end
