(* ===== verification/MiscStore.thy ===== *)
theory MiscStore
  imports LabStore "HOL-Library.List_Lexorder"
begin

text \<open>
  The other repositories of \<open>internal/adapters/storage/pgxrepo\<close> with their SQL: deploy steps,
  audit queries, scoped settings, the quota cache and the outbox as the publisher sees it.
\<close>

section \<open>Deploy steps\<close>

definition step_names :: "string list" where
  "step_names = [''allocate_project'', ''create_keypair'', ''provision_network'', ''boot_vm'',
     ''wait_ssh'', ''initial_check'']"

definition step_statuses :: "string list" where
  "step_statuses = [''pending'', ''in_progress'', ''succeeded'', ''failed'', ''compensated'']"

definition step_key :: "step_row \<Rightarrow> uuid \<times> string" where
  "step_key r = (dr_lab r, dr_name r)"

definition get_deploy_step_row :: "uuid \<Rightarrow> string \<Rightarrow> db \<Rightarrow> step_row option" where
  "get_deploy_step_row lab name d = find_row step_key (lab, name) (t_steps d)"

text \<open>\<open>ORDER BY started_at ASC NULLS LAST, step_name\<close>; texts compare byte by byte.\<close>

definition started_key :: "step_row \<Rightarrow> bool \<times> time" where
  "started_key r = (dr_started_at r = None, coalesce (dr_started_at r) 0)"

definition list_deploy_step_rows :: "uuid \<Rightarrow> db \<Rightarrow> step_row list" where
  "list_deploy_step_rows lab d =
     sort_key (\<lambda>r. (started_key r, map (\<lambda>c. of_char c :: nat) (dr_name r)))
       (filter (\<lambda>r. dr_lab r = lab) (t_steps d))"

definition upsert_deploy_step ::
  "uuid \<Rightarrow> string \<Rightarrow> string \<Rightarrow> int \<Rightarrow> string \<Rightarrow> json option \<Rightarrow> time option \<Rightarrow> time option \<Rightarrow> unit stmt" where
  "upsert_deploy_step lab name status att last_error res started finished now d =
     (let r = \<lparr>dr_lab = lab, dr_name = name, dr_status = status, dr_attempt = att,
         dr_last_error = nullable_string last_error, dr_result = res, dr_started_at = started,
         dr_finished_at = finished\<rparr> in
      if name \<notin> set step_names then Inl (check_violation ''lab_deploy_steps_step_name_check'')
      else if status \<notin> set step_statuses then Inl (check_violation ''lab_deploy_steps_status_check'')
      else if find_row step_key (lab, name) (t_steps d) = None
      then Inr ((), d\<lparr>t_steps := t_steps d @ [r]\<rparr>)
      else Inr ((), d\<lparr>t_steps := put_row step_key r (t_steps d)\<rparr>))"

definition deploy_step_from_row :: "step_row \<Rightarrow> deploy_step" where
  "deploy_step_from_row r = \<lparr>ds_lab = dr_lab r, ds_name = dr_name r, ds_status = dr_status r,
     ds_attempt = dr_attempt r, ds_last_error = coalesce (dr_last_error r) [],
     ds_result = dr_result r, ds_started_at = dr_started_at r, ds_finished_at = dr_finished_at r\<rparr>"

definition deploy_step_attempt_int32 :: "int \<Rightarrow> err + int" where
  "deploy_step_attempt_int32 n =
     (if n < 0 \<or> 2147483647 < n then Inl (Sentinel ErrInvalidInput) else Inr n)"

definition fresh_step :: "lab_id \<Rightarrow> string \<Rightarrow> deploy_step" where
  "fresh_step lab name = \<lparr>ds_lab = lab, ds_name = name, ds_status = ''pending'', ds_attempt = 0,
     ds_last_error = [], ds_result = None, ds_started_at = None, ds_finished_at = None\<rparr>"

definition steps_get_or_init :: "lab_id \<Rightarrow> string \<Rightarrow> ('c, deploy_step) prog" where
  "steps_get_or_init lab name =
     bind (attempt (one_row (conn_query (get_deploy_step_row lab name)))) (\<lambda>r.
     case r of
       Inl e \<Rightarrow> if err_is_no_rows e then ret (fresh_step lab name)
                else throw (Wrapped ''pgxrepo: get deploy step'' e)
     | Inr row \<Rightarrow> ret (deploy_step_from_row row))"

definition steps_save :: "deploy_step \<Rightarrow> ('c, unit) prog" where
  "steps_save s =
     bind (from_sum (deploy_step_attempt_int32 (ds_attempt s))) (\<lambda>att.
     on_err (Wrapped ''pgxrepo: save deploy step'')
       (conn_stmt (upsert_deploy_step (ds_lab s) (ds_name s) (ds_status s) att (ds_last_error s)
          (ds_result s) (timestamptz_ptr (ds_started_at s)) (timestamptz_ptr (ds_finished_at s)))))"

definition steps_list_by_lab :: "lab_id \<Rightarrow> ('c, deploy_step list) prog" where
  "steps_list_by_lab lab =
     bind (on_err (Wrapped ''pgxrepo: list deploy steps'')
       (conn_query (list_deploy_step_rows lab))) (\<lambda>rows.
     ret (map deploy_step_from_row rows))"

section \<open>Audit log\<close>

definition query_audit_rows ::
  "string option \<Rightarrow> uuid option \<Rightarrow> time option \<Rightarrow> int \<Rightarrow> db \<Rightarrow> audit_row list" where
  "query_audit_rows kind actor since limit d =
     take (nat limit) (rev (sort_key (\<lambda>r. (ar_occurred_at r, ar_id r))
       (filter (\<lambda>r. (case kind of None \<Rightarrow> True | Some k \<Rightarrow> ar_kind r = k) \<and>
           (case actor of None \<Rightarrow> True | Some a \<Rightarrow> ar_actor r = Some a) \<and>
           (case since of None \<Rightarrow> True | Some t \<Rightarrow> t \<le> ar_occurred_at r)) (t_audit d))))"

definition audit_limit :: "int \<Rightarrow> int" where
  "audit_limit n = (if n \<le> 0 then 100 else if 500 < n then 500 else n)"

definition audit_payload_bytes :: "json option \<Rightarrow> json" where
  "audit_payload_bytes p = (case p of None \<Rightarrow> JObj [] | Some j \<Rightarrow> j)"

definition audit_event_from_row :: "audit_row \<Rightarrow> audit_event" where
  "audit_event_from_row r = \<lparr>ae_id = ar_id r, ae_kind = ar_kind r, ae_actor = ar_actor r,
     ae_subject_type = ar_subject_type r, ae_subject_id = ar_subject_id r,
     ae_payload = (if ar_payload r = JNull then None else Some (ar_payload r)),
     ae_request_id = coalesce (ar_request_id r) [], ae_occurred_at = ar_occurred_at r\<rparr>"

definition audit_event_uuid :: "audit_event_id \<Rightarrow> ('c, uuid) prog" where
  "audit_event_uuid i = (if i = 0 then new_uuid else ret i)"

text \<open>\<open>AppendInTx\<close> and \<open>Append\<close> differ in the connection and the text of the error.\<close>

definition audit_append_in_tx :: "audit_event \<Rightarrow> ('c, unit) prog" where
  "audit_append_in_tx ev =
     bind (audit_event_uuid (ae_id ev)) (\<lambda>i.
     on_err (Wrapped ''pgxrepo: append audit event in tx'')
       (tx_stmt (insert_audit_event i (ae_kind ev) (ae_actor ev) (ae_subject_type ev)
          (ae_subject_id ev) (audit_payload_bytes (ae_payload ev)) (ae_request_id ev)
          (nullable_time_arg (ae_occurred_at ev)))))"

definition audit_append :: "audit_event \<Rightarrow> ('c, unit) prog" where
  "audit_append ev =
     bind (audit_event_uuid (ae_id ev)) (\<lambda>i.
     on_err (Wrapped ''pgxrepo: append audit event'')
       (conn_stmt (insert_audit_event i (ae_kind ev) (ae_actor ev) (ae_subject_type ev)
          (ae_subject_id ev) (audit_payload_bytes (ae_payload ev)) (ae_request_id ev)
          (nullable_time_arg (ae_occurred_at ev)))))"

definition audit_query :: "audit_filter \<Rightarrow> ('c, audit_event list) prog" where
  "audit_query f =
     bind (on_err (Wrapped ''pgxrepo: query audit events'')
       (conn_query (query_audit_rows (af_kind f) (af_actor f) (timestamptz_ptr (af_since f))
          (audit_limit (af_limit f))))) (\<lambda>rows.
     ret (map audit_event_from_row rows))"

section \<open>Settings\<close>

definition setting_key :: "setting_row \<Rightarrow> string \<times> string \<times> string" where
  "setting_key r = (sw_key r, sw_scope r, sw_scope_id r)"

definition scope_rank :: "string \<Rightarrow> nat" where
  "scope_rank s = (if s = ''per_lab_template'' then 1 else if s = ''per_course'' then 2 else 3)"

definition setting_applies :: "string \<Rightarrow> string option \<Rightarrow> string option \<Rightarrow> setting_row \<Rightarrow> bool" where
  "setting_applies key template course r \<longleftrightarrow> sw_key r = key \<and>
     ((sw_scope r = ''per_lab_template'' \<and> sw_scope_id r = coalesce template ''__none__'') \<or>
      (sw_scope r = ''per_course'' \<and> sw_scope_id r = coalesce course ''__none__'') \<or>
      (sw_scope r = ''global'' \<and> sw_scope_id r = []))"

definition resolve_setting_row ::
  "string \<Rightarrow> string option \<Rightarrow> string option \<Rightarrow> db \<Rightarrow> setting_row option" where
  "resolve_setting_row key template course d =
     min_row (\<lambda>r. scope_rank (sw_scope r)) (filter (setting_applies key template course) (t_settings d))"

definition text_key :: "string \<Rightarrow> nat list" where
  "text_key s = map of_char s"

definition list_setting_rows :: "string option \<Rightarrow> string option \<Rightarrow> db \<Rightarrow> setting_row list" where
  "list_setting_rows scope scope_id d =
     sort_key (\<lambda>r. (text_key (sw_scope r), text_key (sw_scope_id r), text_key (sw_key r)))
       (filter (\<lambda>r. (case scope of None \<Rightarrow> True | Some s \<Rightarrow> sw_scope r = s) \<and>
           (case scope_id of None \<Rightarrow> True | Some s \<Rightarrow> sw_scope_id r = s)) (t_settings d))"

definition upsert_setting ::
  "string \<Rightarrow> string \<Rightarrow> string \<Rightarrow> json \<Rightarrow> uuid option \<Rightarrow> time option \<Rightarrow> unit stmt" where
  "upsert_setting key scope scope_id val by updated now d =
     (let r = \<lparr>sw_key = key, sw_scope = scope, sw_scope_id = scope_id, sw_value = val,
         sw_updated_by = by, sw_updated_at = coalesce updated now\<rparr> in
      if scope \<notin> {''global'', ''per_course'', ''per_lab_template''}
      then Inl (check_violation ''settings_scope_check'')
      else if find_row setting_key (key, scope, scope_id) (t_settings d) = None
      then Inr ((), d\<lparr>t_settings := t_settings d @ [r]\<rparr>)
      else Inr ((), d\<lparr>t_settings := put_row setting_key r (t_settings d)\<rparr>))"

definition setting_from_row :: "setting_row \<Rightarrow> setting" where
  "setting_from_row r = \<lparr>st_key = sw_key r, st_value = sw_value r, st_scope = sw_scope r,
     st_scope_id = nullable_string (sw_scope_id r), st_updated_by = coalesce (sw_updated_by r) 0,
     st_updated_at = sw_updated_at r\<rparr>"

definition setting_user_id :: "user_id \<Rightarrow> uuid option" where
  "setting_user_id i = (if i = 0 then None else Some i)"

definition settings_resolve ::
  "lib \<Rightarrow> string \<Rightarrow> course_id option \<Rightarrow> template_id option \<Rightarrow> ('c, json) prog" where
  "settings_resolve L key course template =
     bind (on_err (or_no_rows ErrNotFound ''pgxrepo: resolve setting'')
       (one_row (conn_query (resolve_setting_row key (map_option (uuid_string L) template)
          (map_option (uuid_string L) course))))) (\<lambda>row.
     ret (sw_value row))"

definition settings_list :: "string \<Rightarrow> string option \<Rightarrow> ('c, setting list) prog" where
  "settings_list scope scope_id =
     bind (on_err (Wrapped ''pgxrepo: list settings'')
       (conn_query (list_setting_rows (if scope \<noteq> [] then Some scope else None) scope_id))) (\<lambda>rows.
     ret (map setting_from_row rows))"

definition settings_put :: "setting \<Rightarrow> ('c, unit) prog" where
  "settings_put s =
     on_err (Wrapped ''pgxrepo: put setting'')
       (tx_stmt (upsert_setting (st_key s) (st_scope s) (coalesce (st_scope_id s) []) (st_value s)
          (setting_user_id (st_updated_by s)) (nullable_time_arg (st_updated_at s))))"

section \<open>Quota cache\<close>

definition zero_quota :: quota_snapshot where
  "zero_quota = \<lparr>qs_vcpus = \<lparr>cap_used = 0, cap_total = 0, cap_unit = []\<rparr>,
     qs_ram = \<lparr>cap_used = 0, cap_total = 0, cap_unit = []\<rparr>,
     qs_disk = \<lparr>cap_used = 0, cap_total = 0, cap_unit = []\<rparr>, qs_fetched_at = 0\<rparr>"

text \<open>\<open>t.Sub(u)\<close> saturates at the ends of the 64-bit range.\<close>

definition time_sub :: "time \<Rightarrow> time \<Rightarrow> duration" where
  "time_sub t u = max (- (2 ^ 63)) (min (2 ^ 63 - 1) (t - u))"

text \<open>
  The snapshot column holds \<open>json.Marshal\<close> of the snapshot, which \<open>json.Unmarshal\<close> reads back:
  the table keeps the snapshot itself with the time of the write by the database's clock. The
  age is measured against the application's clock.
\<close>

definition quota_cache_read :: "('c, quota_snapshot \<times> duration) prog" where
  "quota_cache_read =
     bind (attempt (one_row (conn_query t_quota))) (\<lambda>r.
     case r of
       Inl e \<Rightarrow> if err_is_no_rows e then ret (zero_quota, 2 ^ 62)
                else throw (Wrapped ''pgxrepo: read quota cache'' e)
     | Inr row \<Rightarrow> bind clock_now (\<lambda>now. ret (fst row, time_sub now (snd row))))"

definition upsert_quota_cache :: "quota_snapshot \<Rightarrow> unit stmt" where
  "upsert_quota_cache q now d = Inr ((), d\<lparr>t_quota := Some (q, now)\<rparr>)"

definition quota_cache_write :: "quota_snapshot \<Rightarrow> ('c, unit) prog" where
  "quota_cache_write q =
     on_err (Wrapped ''pgxrepo: write quota cache'') (conn_stmt (upsert_quota_cache q))"

section \<open>Outbox\<close>

definition fetch_outbox_rows :: "int \<Rightarrow> int \<Rightarrow> db \<Rightarrow> outbox_row list" where
  "fetch_outbox_rows max_attempts limit d =
     take (nat limit) (sort_key ob_id
       (filter (\<lambda>r. ob_published_at r = None \<and> ob_attempts r < max_attempts) (t_outbox d)))"

definition bump_outbox_attempts :: "int \<Rightarrow> unit stmt" where
  "bump_outbox_attempts i now d =
     Inr ((), d\<lparr>t_outbox := map (\<lambda>r. if ob_id r = i then r\<lparr>ob_attempts := ob_attempts r + 1\<rparr> else r)
       (t_outbox d)\<rparr>)"

definition mark_outbox_published :: "int list \<Rightarrow> unit stmt" where
  "mark_outbox_published ids now d =
     Inr ((), d\<lparr>t_outbox := map (\<lambda>r. if ob_id r \<in> set ids then r\<lparr>ob_published_at := Some now\<rparr> else r)
       (t_outbox d)\<rparr>)"

definition outbox_fetch :: "int \<Rightarrow> int \<Rightarrow> ('c, outbox_row list) prog" where
  "outbox_fetch limit max_attempts =
     bind (from_sum (list_limit_int32 limit)) (\<lambda>limit.
     bind (from_sum (list_limit_int32 max_attempts)) (\<lambda>max_attempts.
     if limit = 0 \<or> max_attempts = 0 then ret []
     else on_err (Wrapped ''pgxrepo: fetch outbox'')
       (conn_query (fetch_outbox_rows max_attempts limit))))"

definition outbox_mark_published :: "int list \<Rightarrow> ('c, unit) prog" where
  "outbox_mark_published ids =
     (if ids = [] then ret ()
      else on_err (Wrapped ''pgxrepo: mark outbox published'') (conn_stmt (mark_outbox_published ids)))"

definition outbox_bump_attempts :: "int \<Rightarrow> ('c, unit) prog" where
  "outbox_bump_attempts i =
     (if i \<le> 0 then throw (Sentinel ErrInvalidInput)
      else on_err (Wrapped ''pgxrepo: bump outbox attempts'') (conn_stmt (bump_outbox_attempts i)))"

section \<open>What the repositories do\<close>

lemma get_step_upsert:
  assumes "upsert_deploy_step lab name status att le res st fin now d = Inr (u, d')"
  shows "get_deploy_step_row l n d' =
    (if (l, n) = (lab, name)
     then Some \<lparr>dr_lab = lab, dr_name = name, dr_status = status, dr_attempt = att,
       dr_last_error = nullable_string le, dr_result = res, dr_started_at = st, dr_finished_at = fin\<rparr>
     else get_deploy_step_row l n d)"
proof -
  let ?r = "\<lparr>dr_lab = lab, dr_name = name, dr_status = status, dr_attempt = att,
       dr_last_error = nullable_string le, dr_result = res, dr_started_at = st, dr_finished_at = fin\<rparr>"
  have k: "step_key ?r = (lab, name)" by (simp add: step_key_def)
  show ?thesis
  proof (cases "find_row step_key (lab, name) (t_steps d)")
    case None
    with assms have "d' = d\<lparr>t_steps := t_steps d @ [?r]\<rparr>"
      by (auto simp: upsert_deploy_step_def Let_def split: if_splits)
    with None k show ?thesis
      by (auto simp: get_deploy_step_row_def find_row_append split: option.splits)
  next
    case (Some x)
    with assms have d': "d' = d\<lparr>t_steps := put_row step_key ?r (t_steps d)\<rparr>"
      by (auto simp: upsert_deploy_step_def Let_def split: if_splits)
    show ?thesis
    proof (cases "(l, n) = (lab, name)")
      case True
      then show ?thesis
        using Some k find_row_put_same [of step_key ?r "t_steps d"]
        by (simp add: d' get_deploy_step_row_def)
    next
      case False
      then have "(l, n) \<noteq> step_key ?r" using k by metis
      from find_row_put_other [where key = step_key and r = ?r, OF this, of "t_steps d"] False show ?thesis
        by (auto simp: d' get_deploy_step_row_def)
    qed
  qed
qed

lemma silent_one_row [silent_intros]: "silent m \<Longrightarrow> silent (one_row m)"
  unfolding one_row_def by (intro silent_intros)

lemma silent_reads [silent_intros]:
  "silent (steps_get_or_init lab name)" "silent (lab_get_by_id i)" "silent (pool_get_by_id p)"
  "silent (lab_find_active s c)" "silent (settings_resolve L k co te)" "silent quota_cache_read"
  "silent (lab_list f)" "silent (steps_list_by_lab lab)" "silent (pool_list_by_domain dm st)"
  "silent (outbox_fetch n m)" "silent (audit_query q)" "silent (settings_list sc si)"
  unfolding steps_get_or_init_def lab_get_by_id_def pool_get_by_id_def lab_find_active_def
    settings_resolve_def quota_cache_read_def lab_list_def steps_list_by_lab_def
    pool_list_by_domain_def outbox_fetch_def audit_query_def settings_list_def project_id_arg_def
  by (intro silent_intros)+

section \<open>Settings hierarchy\<close>

definition settings_keys_ok :: "db \<Rightarrow> bool" where
  "settings_keys_ok d \<longleftrightarrow> distinct (map setting_key (t_settings d))"

lemma settings_keys_ok_upsert: "stmt_keeps settings_keys_ok (upsert_setting k s i v b t)"
proof (rule stmt_keepsI)
  fix now d x d'
  assume ok: "settings_keys_ok d" and run: "upsert_setting k s i v b t now d = Inr (x, d')"
  show "settings_keys_ok d'"
  proof (cases "find_row setting_key (k, s, i) (t_settings d)")
    case None
    then have "(k, s, i) \<notin> setting_key ` set (t_settings d)" by (simp add: find_row_None_iff)
    with None run ok show ?thesis
      by (auto simp: upsert_setting_def settings_keys_ok_def Let_def setting_key_def split: if_splits)
  next
    case (Some r)
    with run ok show ?thesis
      by (auto simp: upsert_setting_def settings_keys_ok_def Let_def split: if_splits)
  qed
qed

lemma find_setting_mem:
  "settings_keys_ok d \<Longrightarrow> r \<in> set (t_settings d) \<Longrightarrow>
     find_row setting_key (setting_key r) (t_settings d) = Some r"
  by (simp add: settings_keys_ok_def find_row_distinct)

lemma min_row_unique:
  "r \<in> set rows \<Longrightarrow> (\<And>x. x \<in> set rows \<Longrightarrow> x \<noteq> r \<Longrightarrow> f r < f x) \<Longrightarrow> min_row f rows = Some r"
proof -
  assume r: "r \<in> set rows" and least: "\<And>x. x \<in> set rows \<Longrightarrow> x \<noteq> r \<Longrightarrow> f r < f x"
  then obtain m where m: "min_row f rows = Some m" by (cases "min_row f rows") auto
  with min_row_SomeD [OF m] r least [of m] show ?thesis by force
qed

text \<open>
  settings resolve by scope: the value for the lab template wins over the one for the
  course, which wins over the global one, and there is no value exactly when none is set.
\<close>
theorem settings_hierarchy:
  assumes "settings_keys_ok d"
  shows "resolve_setting_row key (Some t) (Some c) d =
    (case find_row setting_key (key, ''per_lab_template'', t) (t_settings d) of
       Some r \<Rightarrow> Some r
     | None \<Rightarrow> (case find_row setting_key (key, ''per_course'', c) (t_settings d) of
         Some r \<Rightarrow> Some r
       | None \<Rightarrow> find_row setting_key (key, ''global'', []) (t_settings d)))"
proof -
  let ?F = "filter (setting_applies key (Some t) (Some c)) (t_settings d)"
  let ?keys = "[(key, ''per_lab_template'', t), (key, ''per_course'', c), (key, ''global'', [])]"
  have applies: "setting_applies key (Some t) (Some c) r \<longleftrightarrow> setting_key r \<in> set ?keys" for r
    by (auto simp: setting_applies_def setting_key_def coalesce_def)
  have rank: "setting_key r = (k, s, i) \<Longrightarrow> scope_rank (sw_scope r) = scope_rank s" for r k s i
    by (simp add: setting_key_def)
  have mem: "find_row setting_key k (t_settings d) = Some r \<Longrightarrow> r \<in> set (t_settings d) \<and> setting_key r = k"
    for k r by (rule find_row_SomeD)
  have uniq: "x = r" if "x \<in> set (t_settings d)" "r \<in> set (t_settings d)" "setting_key x = setting_key r" for x r
    using find_setting_mem [OF assms that(1)] find_setting_mem [OF assms that(2)] that(3)
    by (metis option.inject)
  have first: "min_row (\<lambda>r. scope_rank (sw_scope r)) ?F = Some r"
    if "r \<in> set (t_settings d)" "setting_key r \<in> set ?keys"
      "\<And>x. x \<in> set (t_settings d) \<Longrightarrow> setting_key x \<in> set ?keys \<Longrightarrow> setting_key x \<noteq> setting_key r \<Longrightarrow>
         scope_rank (sw_scope r) < scope_rank (sw_scope x)" for r
    using that uniq [OF _ that(1)] by (intro min_row_unique) (auto simp: applies)
  have none: "find_row setting_key k (t_settings d) = None \<Longrightarrow> x \<in> set (t_settings d) \<Longrightarrow> setting_key x \<noteq> k"
    for k x by (auto simp: find_row_None_iff)
  show ?thesis
  proof (cases "find_row setting_key (key, ''per_lab_template'', t) (t_settings d)")
    case (Some r)
    have "min_row (\<lambda>r. scope_rank (sw_scope r)) ?F = Some r"
      by (rule first) (use mem [OF Some] in \<open>auto simp: setting_key_def scope_rank_def\<close>)
    with Some show ?thesis by (simp add: resolve_setting_row_def)
  next
    case 1: None
    show ?thesis
    proof (cases "find_row setting_key (key, ''per_course'', c) (t_settings d)")
      case (Some r)
      have "min_row (\<lambda>r. scope_rank (sw_scope r)) ?F = Some r"
        by (rule first) (use mem [OF Some] none [OF 1] in \<open>auto simp: setting_key_def scope_rank_def\<close>)
      with Some 1 show ?thesis by (simp add: resolve_setting_row_def)
    next
      case 2: None
      show ?thesis
      proof (cases "find_row setting_key (key, ''global'', []) (t_settings d)")
        case (Some r)
        have "min_row (\<lambda>r. scope_rank (sw_scope r)) ?F = Some r"
          by (rule first) (use mem [OF Some] none [OF 1] none [OF 2] in \<open>auto simp: setting_key_def\<close>)
        with Some 1 2 show ?thesis by (simp add: resolve_setting_row_def)
      next
        case None
        then have "?F = []" using 1 2 none [OF 1] none [OF 2] none [OF None]
          by (auto simp: filter_empty_conv applies)
        then show ?thesis using 1 2 None by (simp add: resolve_setting_row_def)
      qed
    qed
  qed
qed

definition sample_setting :: "string \<Rightarrow> string \<Rightarrow> json \<Rightarrow> setting_row" where
  "sample_setting s i v = \<lparr>sw_key = ''k'', sw_scope = s, sw_scope_id = i, sw_value = v,
     sw_updated_by = None, sw_updated_at = 1\<rparr>"

lemma settings_hierarchy_witness:
  "resolve_setting_row ''k'' (Some ''t'') (Some ''c'')
     (empty_db\<lparr>t_settings := [sample_setting ''global'' [] (JInt 1),
        sample_setting ''per_course'' ''c'' (JInt 2)]\<rparr>) =
     Some (sample_setting ''per_course'' ''c'' (JInt 2))"
  by (subst settings_hierarchy) (simp_all add: settings_keys_ok_def setting_key_def sample_setting_def)

end
