(* ===== verification/Secrets.thy ===== *)
theory Secrets
  imports MiscStore
begin

text \<open>
  \<open>internal/adapters/secrets/envkek\<close>: envelope encryption of secrets. \<open>keyprovider.go\<close> wraps
  data keys with the key-encryption key, \<open>store.go\<close> keeps secrets in Postgres. AES-GCM sealing and
  opening are the library parameters \<open>gcm_seal\<close> and \<open>gcm_open\<close>. The store is written over any
  provider of wrapping and unwrapping; the locale \<open>key_provider\<close> states what it promises.
\<close>

section \<open>The key provider\<close>

definition key_size :: nat where "key_size = 32"
definition gcm_nonce_size :: nat where "gcm_nonce_size = 12"
definition current_version :: int where "current_version = 1"

text \<open>\<open>aes.NewCipher\<close> takes keys of 16, 24 or 32 bytes.\<close>

definition aes_key_ok :: "bytes \<Rightarrow> bool" where
  "aes_key_ok k \<longleftrightarrow> length k = 16 \<or> length k = 24 \<or> length k = 32"

definition new_key_provider_from_key :: "bytes \<Rightarrow> err + bytes" where
  "new_key_provider_from_key kek =
     (if length kek \<noteq> key_size then Inl (Plain ''envkek: KEK must be 32 bytes'') else Inr kek)"

definition encrypt_dek :: "lib \<Rightarrow> bytes \<Rightarrow> bytes \<Rightarrow> string \<Rightarrow> ('c, bytes \<times> bytes \<times> int) prog" where
  "encrypt_dek L kek dek aad =
     (if length dek \<noteq> key_size then throw (Plain ''envkek: DEK must be 32 bytes'')
      else if \<not> aes_key_ok kek then throw (Plain ''envkek: initialize KEK cipher'')
      else bind (random_bytes gcm_nonce_size) (\<lambda>nonce.
        ret (gcm_seal L kek nonce dek aad, nonce, current_version)))"

definition decrypt_dek :: "lib \<Rightarrow> bytes \<Rightarrow> bytes \<Rightarrow> bytes \<Rightarrow> int \<Rightarrow> string \<Rightarrow> err + bytes" where
  "decrypt_dek L kek ct nonce version aad =
     (if version \<noteq> current_version then Inl (Plain ''envkek: unsupported KEK version'')
      else if \<not> aes_key_ok kek then Inl (Plain ''envkek: initialize KEK cipher'')
      else case gcm_open L kek nonce ct aad of
        None \<Rightarrow> Inl (Plain ''envkek: decrypt DEK failed'')
      | Some dek \<Rightarrow> Inr dek)"

section \<open>The table of secrets\<close>

definition insert_secret :: "(time \<Rightarrow> secret_row) \<Rightarrow> secret_row stmt" where
  "insert_secret row now d =
     (let r = row now in
      if se_id r \<in> se_id ` set (t_secrets d) then Inl (unique_violation ''encrypted_secrets_pkey'')
      else Inr (r, d\<lparr>t_secrets := t_secrets d @ [r]\<rparr>))"

definition get_secret_row :: "uuid \<Rightarrow> db \<Rightarrow> secret_row option" where
  "get_secret_row i d = find_row se_id i (t_secrets d)"

definition delete_secret :: "uuid \<Rightarrow> unit stmt" where
  "delete_secret i now d = Inr ((), d\<lparr>t_secrets := filter (\<lambda>r. se_id r \<noteq> i) (t_secrets d)\<rparr>)"

section \<open>The store\<close>

type_synonym 'c wrap_fn = "bytes \<Rightarrow> string \<Rightarrow> ('c, bytes \<times> bytes \<times> int) prog"
type_synonym unwrap_fn = "bytes \<Rightarrow> bytes \<Rightarrow> int \<Rightarrow> string \<Rightarrow> err + bytes"

definition secret_aad :: "string \<Rightarrow> string \<Rightarrow> string" where
  "secret_aad kind ref_id = kind @ '':'' @ ref_id"

definition kek_version_int32 :: "int \<Rightarrow> err + int" where
  "kek_version_int32 v =
     (if v \<le> 0 \<or> 2147483647 < v then Inl (Sentinel ErrInvalidInput) else Inr v)"

definition encrypt_with_key :: "lib \<Rightarrow> bytes \<Rightarrow> bytes \<Rightarrow> string \<Rightarrow> ('c, bytes \<times> bytes) prog" where
  "encrypt_with_key L key plaintext aad =
     (if \<not> aes_key_ok key then throw (Plain ''envkek: initialize cipher'')
      else bind (random_bytes gcm_nonce_size) (\<lambda>nonce.
        ret (gcm_seal L key nonce plaintext aad, nonce)))"

definition decrypt_with_key :: "lib \<Rightarrow> bytes \<Rightarrow> bytes \<Rightarrow> bytes \<Rightarrow> string \<Rightarrow> bytes option" where
  "decrypt_with_key L key ct nonce aad =
     (if \<not> aes_key_ok key then None else gcm_open L key nonce ct aad)"

definition store_put ::
  "lib \<Rightarrow> 'c wrap_fn \<Rightarrow> string \<Rightarrow> string \<Rightarrow> bytes \<Rightarrow> ('c, secret_id) prog" where
  "store_put L wrap kind ref_id payload =
     (if kind = [] \<or> ref_id = [] then throw (Sentinel ErrInvalidInput)
      else bind (random_bytes key_size) (\<lambda>dek.
      bind (encrypt_with_key L dek payload (secret_aad kind ref_id)) (\<lambda>(ct, nonce).
      bind (on_err (Wrapped ''envkek: wrap DEK'') (wrap dek (secret_aad kind ref_id)))
        (\<lambda>(dek_ct, dek_nonce, version).
      bind (from_sum (kek_version_int32 version)) (\<lambda>v.
      bind new_uuid (\<lambda>i.
      bind clock_now (\<lambda>now.
      bind (on_err (Wrapped ''envkek: insert secret'') (conn_stmt (insert_secret (\<lambda>db_now.
          \<lparr>se_id = i, se_kind = kind, se_ref = ref_id, se_dek_ct = dek_ct, se_dek_nonce = dek_nonce,
           se_ct = ct, se_nonce = nonce, se_aad = secret_aad kind ref_id, se_kek_version = v,
           se_created_at = coalesce (nullable_time_arg now) db_now\<rparr>)))) (\<lambda>row.
      ret (se_id row)))))))))"

definition append_access_audit :: "lib \<Rightarrow> secret_id \<Rightarrow> ('c, unit) prog" where
  "append_access_audit L i =
     bind new_uuid (\<lambda>aid.
     bind clock_now (\<lambda>now.
     bind (attempt (audit_append \<lparr>ae_id = aid, ae_kind = ''secret.accessed'', ae_actor = None,
        ae_subject_type = ''encrypted_secret'', ae_subject_id = Some (uuid_string L i),
        ae_payload = Some (JObj []), ae_request_id = [], ae_occurred_at = now\<rparr>)) (\<lambda>_.
     ret ())))"

definition store_get ::
  "lib \<Rightarrow> unwrap_fn \<Rightarrow> secret_id \<Rightarrow> string \<Rightarrow> string \<Rightarrow> ('c, bytes) prog" where
  "store_get L unwrap i kind ref_id =
     bind (on_err (or_no_rows ErrNotFound ''envkek: get secret'')
       (one_row (conn_query (get_secret_row i)))) (\<lambda>row.
     if se_kind row \<noteq> kind \<or> se_ref row \<noteq> ref_id then throw (Sentinel ErrForbidden)
     else case unwrap (se_dek_ct row) (se_dek_nonce row) (se_kek_version row) (se_aad row) of
       Inl e \<Rightarrow> throw (Wrapped ''envkek: decrypt secret'' (Sentinel ErrSecretMismatch))
     | Inr dek \<Rightarrow> (case decrypt_with_key L dek (se_ct row) (se_nonce row) (se_aad row) of
         None \<Rightarrow> throw (Wrapped ''envkek: decrypt secret'' (Sentinel ErrSecretMismatch))
       | Some plaintext \<Rightarrow> bind (append_access_audit L i) (\<lambda>_. ret plaintext)))"

definition secret_delete :: "secret_id \<Rightarrow> ('c, unit) prog" where
  "secret_delete i = on_err (Wrapped ''envkek: delete secret'') (conn_stmt (delete_secret i))"

text \<open>The store the processes construct: over the environment's key-encryption key.\<close>

definition secret_put :: "lib \<Rightarrow> bytes \<Rightarrow> string \<Rightarrow> string \<Rightarrow> bytes \<Rightarrow> ('c, secret_id) prog" where
  "secret_put L kek = store_put L (encrypt_dek L kek)"

definition secret_get :: "lib \<Rightarrow> bytes \<Rightarrow> secret_id \<Rightarrow> string \<Rightarrow> string \<Rightarrow> ('c, bytes) prog" where
  "secret_get L kek = store_get L (decrypt_dek L kek)"

section \<open>What AES-GCM and a key provider promise\<close>

definition gcm_ok :: "lib \<Rightarrow> bool" where
  "gcm_ok L \<longleftrightarrow> (\<forall>k n x aad. aes_key_ok k \<longrightarrow> length n = gcm_nonce_size \<longrightarrow>
     gcm_open L k n (gcm_seal L k n x aad) aad = Some x)"

text \<open>Auditing an access never fails: its error is only logged.\<close>

lemma append_access_audit_total: "\<exists>w'. append_access_audit L i w = (Inr (), w')"
  by (simp add: append_access_audit_def bind_def new_uuid_def clock_now_def attempt_def ret_def
      split: prod.split)

text \<open>
  What a key provider promises when AES-GCM opens what it sealed: unwrapping a wrapped key under
  the same associated data gives the key, and wrapping changes nothing. \<open>L\<close> is the library.
\<close>

locale key_provider =
  fixes L :: lib
    and wrap :: "'c wrap_fn"
    and unwrap :: unwrap_fn
  assumes unwrap_wrap: "gcm_ok L \<Longrightarrow> wrap dek aad w = (Inr (ct, n, v), w') \<Longrightarrow> unwrap ct n v aad = Inr dek"
    and wrap_state: "wrap dek aad w = (r, w') \<Longrightarrow> same_state w w'"
begin

lemma put_row:
  assumes gcm: "gcm_ok L" and put: "store_put L wrap kind ref_id payload w = (Inr i, w')"
  shows "\<exists>r dek. t_secrets (w_db w') = t_secrets (w_db w) @ [r] \<and> se_id r = i \<and>
    i \<notin> se_id ` set (t_secrets (w_db w)) \<and> se_kind r = kind \<and> se_ref r = ref_id \<and>
    se_aad r = secret_aad kind ref_id \<and> w_snap w' = w_snap w \<and>
    unwrap (se_dek_ct r) (se_dek_nonce r) (se_kek_version r) (se_aad r) = Inr dek \<and>
    decrypt_with_key L dek (se_ct r) (se_nonce r) (se_aad r) = Some payload"
proof -
  from put have ne: "kind \<noteq> []" "ref_id \<noteq> []" by (auto simp: store_put_def io_basic)
  let ?aad = "secret_aad kind ref_id"
  from put ne obtain dek ct nonce dct dn v v' j now row w1 w2 w3 w4 w5 w6 where
    1: "random_bytes key_size w = (Inr dek, w1)" and
    2: "encrypt_with_key L dek payload ?aad w1 = (Inr (ct, nonce), w2)" and
    3: "wrap dek ?aad w2 = (Inr (dct, dn, v), w3)" and 4: "kek_version_int32 v = Inr v'" and
    5: "new_uuid w3 = (Inr j, w4)" and 6: "clock_now w4 = (Inr now, w5)" and
    7: "conn_stmt (insert_secret (\<lambda>db_now.
          \<lparr>se_id = j, se_kind = kind, se_ref = ref_id, se_dek_ct = dct, se_dek_nonce = dn,
           se_ct = ct, se_nonce = nonce, se_aad = ?aad, se_kek_version = v',
           se_created_at = coalesce (nullable_time_arg now) db_now\<rparr>)) w5 = (Inr row, w')" and
    i: "i = se_id row"
    unfolding store_put_def
    by (auto dest!: bind_InrD on_err_InrD simp: io_basic split: prod.splits)
  from 4 have v: "v' = v" by (simp add: kek_version_int32_def split: if_splits)
  from 2 have k: "aes_key_ok dek" "length nonce = gcm_nonce_size" "ct = gcm_seal L dek nonce payload ?aad"
    and s2: "w_db w2 = w_db w1" "w_snap w2 = w_snap w1"
    by (auto simp: encrypt_with_key_def io_basic dest!: bind_InrD random_bytes_InrD split: if_splits)
  have s: "w_db w5 = w_db w" "w_snap w5 = w_snap w"
    using random_bytes_InrD [OF 1] s2 same_stateD [OF wrap_state [OF 3]] new_uuid_InrD [OF 5]
      clock_now_InrD [OF 6] by auto
  have dec: "decrypt_with_key L dek ct nonce ?aad = Some payload"
    using k gcm by (simp add: decrypt_with_key_def gcm_ok_def)
  show ?thesis
    using conn_stmt_InrD [OF 7] i s v unwrap_wrap [OF gcm 3] dec
    by (auto simp: insert_secret_def Let_def split: if_splits)
qed

lemma get_after_put:
  assumes gcm: "gcm_ok L" and put: "store_put L wrap kind ref_id payload w = (Inr i, w1)"
    and kept: "get_secret_row i (committed w2) = get_secret_row i (w_db w1)"
    and ok: "no_db_faults w2"
  shows "fst (store_get L unwrap i kind ref_id w2) = Inr payload"
    and "(k, f) \<noteq> (kind, ref_id) \<Longrightarrow> fst (store_get L unwrap i k f w2) = Inl (Sentinel ErrForbidden)"
proof -
  obtain r dek where r: "t_secrets (w_db w1) = t_secrets (w_db w) @ [r]" "se_id r = i"
    "i \<notin> se_id ` set (t_secrets (w_db w))" "se_kind r = kind" "se_ref r = ref_id"
    "unwrap (se_dek_ct r) (se_dek_nonce r) (se_kek_version r) (se_aad r) = Inr dek"
    "decrypt_with_key L dek (se_ct r) (se_nonce r) (se_aad r) = Some payload"
    using put_row [OF gcm put] by blast
  have row: "get_secret_row i (w_db w1) = Some r"
  proof -
    have "find_row se_id i (t_secrets (w_db w)) = None" using r(3) by (simp only: find_row_None_iff not_False_eq_True)
    then show ?thesis using r(1,2) by (simp add: get_secret_row_def find_row_append)
  qed
  have q: "one_row (conn_query (get_secret_row i)) w2 = (Inr r, w2\<lparr>w_stmt := Suc (w_stmt w2)\<rparr>)"
  proof -
    have "get_secret_row i (committed w2) = Some r" using kept row by (rule trans)
    then have "conn_query (get_secret_row i) w2 = (Inr (Some r), w2\<lparr>w_stmt := Suc (w_stmt w2)\<rparr>)"
      using ok by (simp add: conn_query_def)
    then show ?thesis by (simp add: one_row_def bind_def ret_def)
  qed
  obtain u where u: "append_access_audit L i (w2\<lparr>w_stmt := Suc (w_stmt w2)\<rparr>) = (Inr (), u)"
    using append_access_audit_total by blast
  show "fst (store_get L unwrap i kind ref_id w2) = Inr payload"
    using r unfolding store_get_def bind_unfold on_err_unfold q by (simp add: bind_def u ret_def)
  show "(k, f) \<noteq> (kind, ref_id) \<Longrightarrow> fst (store_get L unwrap i k f w2) = Inl (Sentinel ErrForbidden)"
    using r unfolding store_get_def bind_unfold on_err_unfold q by (auto simp: io_basic)
qed

end

text \<open>The environment's key provider keeps these promises.\<close>

lemma envkek_wrap:
  "gcm_ok L \<Longrightarrow> encrypt_dek L kek dek aad w = (Inr (ct, n, v), w') \<Longrightarrow> decrypt_dek L kek ct n v aad = Inr dek"
  by (auto simp: encrypt_dek_def decrypt_dek_def gcm_ok_def io_basic dest!: bind_InrD random_bytes_InrD
      split: if_splits)

lemma silent_encrypt_dek [silent_intros]: "silent (encrypt_dek L kek dek aad)"
  unfolding encrypt_dek_def by (intro silent_intros)

interpretation envkek: key_provider L "encrypt_dek L kek" "decrypt_dek L kek" for L kek
proof (unfold_locales, goal_cases)
  case (1 dek aad w ct n v w')
  then show ?case by (rule envkek_wrap)
next
  case (2 dek aad w r w')
  then show ?case by (rule silentD [OF silent_encrypt_dek])
qed

lemma keeps_secret_put [keeps_intros]:
  assumes "\<And>row. stmt_keeps I (insert_secret row)"
  shows "keeps (db_inv I) (secret_put L kek kind ref_id payload)"
  unfolding secret_put_def store_put_def encrypt_with_key_def encrypt_dek_def case_prod_beta
  by (intro keeps_intros keeps_conn_stmt assms)

lemma keeps_secret_delete:
  "(\<And>i. stmt_keeps I (delete_secret i)) \<Longrightarrow> keeps (db_inv I) (secret_delete i)"
  unfolding secret_delete_def by (intro keeps_intros keeps_conn_stmt) auto

lemma keeps_secret_get:
  assumes "\<And>i kind actor st sid payload req t. stmt_keeps I (insert_audit_event i kind actor st sid payload req t)"
  shows "keeps (db_inv I) (secret_get L kek i kind ref_id)"
  unfolding secret_get_def store_get_def append_access_audit_def audit_append_def audit_event_uuid_def
  by (intro keeps_intros keeps_conn_stmt assms)

section \<open>Properties\<close>


lemma gcm_ok_sample: "gcm_ok sample_lib"
  by (simp add: gcm_ok_def sample_lib_def)


text \<open>
  The associated data does not separate kind and reference: two different identities can
  share it, so it binds a ciphertext to the joined text only.
\<close>
lemma secret_aad_ambiguous:
  "\<exists>k1 r1 k2 r2. (k1, r1) \<noteq> (k2, r2) \<and> k1 \<noteq> [] \<and> r1 \<noteq> [] \<and> k2 \<noteq> [] \<and> r2 \<noteq> [] \<and>
     secret_aad k1 r1 = secret_aad k2 r2"
  by (intro exI [of _ "''a''"] exI [of _ "''b:c''"] exI [of _ "''a:b''"] exI [of _ "''c''"])
    (simp add: secret_aad_def)

end
