(* ===== verification/IdentityStore.thy ===== *)
theory IdentityStore
  imports MiscStore
begin

text \<open>
  \<open>pgxrepo/user.go\<close> and \<open>pgxrepo/course.go\<close> with the SQL of \<open>sqlcgen/user.sql.go\<close> and
  \<open>sqlcgen/course.sql.go\<close>: users with their LTI identities, courses and enrollments. Letters
  outside ASCII are left alone by \<open>ascii_lower\<close>.
\<close>

definition ascii_lower :: "string \<Rightarrow> string" where
  "ascii_lower s = map (\<lambda>c. let n = (of_char c :: nat) in
     if 65 \<le> n \<and> n \<le> 90 then char_of (n + 32) else c) s"

definition role_text :: "role \<Rightarrow> string" where
  "role_text r = (case r of RoleStudent \<Rightarrow> ''student'' | RoleTeacher \<Rightarrow> ''teacher''
     | RoleAdmin \<Rightarrow> ''admin'' | RoleOther s \<Rightarrow> s)"

definition role_ok :: "role \<Rightarrow> bool" where
  "role_ok r \<longleftrightarrow> role_text r \<in> {''student'', ''teacher'', ''admin''}"

definition course_role_text :: "course_role \<Rightarrow> string" where
  "course_role_text r = (case r of CourseRoleLearner \<Rightarrow> ''learner'' | CourseRoleTeacher \<Rightarrow> ''teacher''
     | CourseRoleOther s \<Rightarrow> s)"

section \<open>Statements\<close>

definition get_user_row :: "uuid \<Rightarrow> db \<Rightarrow> user_row option" where
  "get_user_row i d = find_row uw_id i (t_users d)"

definition get_user_by_lti_row :: "string \<Rightarrow> string \<Rightarrow> db \<Rightarrow> user_row option" where
  "get_user_by_lti_row iss sub d =
     (case find_row (\<lambda>l. (li_iss l, li_sub l)) (iss, sub) (t_lti d) of
        None \<Rightarrow> None
      | Some l \<Rightarrow> get_user_row (li_user l) d)"

text \<open>The unique index on \<open>lower(email)\<close>.\<close>

definition email_taken :: "uuid \<Rightarrow> string option \<Rightarrow> db \<Rightarrow> bool" where
  "email_taken i email d = (case email of None \<Rightarrow> False | Some e \<Rightarrow>
     list_ex (\<lambda>u. uw_id u \<noteq> i \<and> map_option ascii_lower (uw_email u) = Some (ascii_lower e)) (t_users d))"

definition insert_user_from_launch ::
  "uuid \<Rightarrow> string \<Rightarrow> string option \<Rightarrow> role \<Rightarrow> user_row stmt" where
  "insert_user_from_launch i name email r now d =
     (if \<not> role_ok r then Inl (check_violation ''users_role_check'')
      else if i \<in> uw_id ` set (t_users d) then Inl (unique_violation ''users_pkey'')
      else if email_taken i email d then Inl (unique_violation ''users_email_unique'')
      else let u = \<lparr>uw_id = i, uw_display_name = name, uw_email = email, uw_role = r,
          uw_created_at = now\<rparr> in Inr (u, d\<lparr>t_users := t_users d @ [u]\<rparr>))"

definition update_user_from_launch ::
  "uuid \<Rightarrow> string \<Rightarrow> string option \<Rightarrow> role \<Rightarrow> user_row option stmt" where
  "update_user_from_launch i name email r now d =
     (case get_user_row i d of
        None \<Rightarrow> Inr (None, d)
      | Some u \<Rightarrow>
          if \<not> role_ok r then Inl (check_violation ''users_role_check'')
          else if email_taken i email d then Inl (unique_violation ''users_email_unique'')
          else let u' = u\<lparr>uw_display_name := name, uw_email := email, uw_role := r\<rparr> in
            Inr (Some u', d\<lparr>t_users := put_row uw_id u' (t_users d)\<rparr>))"

definition upsert_lti_identity :: "uuid \<Rightarrow> string \<Rightarrow> string \<Rightarrow> unit stmt" where
  "upsert_lti_identity i iss sub now d =
     (case find_row (\<lambda>l. (li_iss l, li_sub l)) (iss, sub) (t_lti d) of
        None \<Rightarrow> Inr ((), d\<lparr>t_lti := t_lti d @
          [\<lparr>li_user = i, li_iss = iss, li_sub = sub, li_created_at = now\<rparr>]\<rparr>)
      | Some l \<Rightarrow> Inr ((), d\<lparr>t_lti :=
          put_row (\<lambda>l. (li_iss l, li_sub l)) (l\<lparr>li_user := i\<rparr>) (t_lti d)\<rparr>))"

definition list_course_roles :: "uuid \<Rightarrow> db \<Rightarrow> (uuid \<times> course_role) list" where
  "list_course_roles i d =
     map (\<lambda>e. (en_course e, en_role e)) (filter (\<lambda>e. en_user e = i) (t_enrollments d))"

definition get_course_row :: "uuid \<Rightarrow> db \<Rightarrow> course option" where
  "get_course_row i d = find_row co_id i (t_courses d)"

definition get_course_by_external_row :: "string \<Rightarrow> db \<Rightarrow> course option" where
  "get_course_by_external_row x d = find_row co_external_id x (t_courses d)"

definition upsert_course :: "uuid \<Rightarrow> string \<Rightarrow> string \<Rightarrow> string \<Rightarrow> time option \<Rightarrow> uuid stmt" where
  "upsert_course i ext name ki_domain created now d =
     (case get_course_by_external_row ext d of
        Some c \<Rightarrow> Inr (co_id c, d\<lparr>t_courses :=
          put_row co_external_id (c\<lparr>co_name := name, co_ki_domain := ki_domain\<rparr>) (t_courses d)\<rparr>)
      | None \<Rightarrow>
          if i \<in> co_id ` set (t_courses d) then Inl (unique_violation ''courses_pkey'')
          else Inr (i, d\<lparr>t_courses := t_courses d @ [\<lparr>co_id = i, co_external_id = ext, co_name = name,
            co_ki_domain = ki_domain, co_created_at = coalesce created now\<rparr>]\<rparr>))"

definition enrollment_key :: "enrollment \<Rightarrow> uuid \<times> uuid" where
  "enrollment_key e = (en_user e, en_course e)"

definition enroll_course_user :: "uuid \<Rightarrow> uuid \<Rightarrow> course_role \<Rightarrow> time option \<Rightarrow> unit stmt" where
  "enroll_course_user u c r created now d =
     (if course_role_text r \<notin> {''learner'', ''teacher''}
      then Inl (check_violation ''enrollments_role_in_course_check'')
      else case find_row enrollment_key (u, c) (t_enrollments d) of
        Some e \<Rightarrow> Inr ((), d\<lparr>t_enrollments :=
          put_row enrollment_key (e\<lparr>en_role := r\<rparr>) (t_enrollments d)\<rparr>)
      | None \<Rightarrow> Inr ((), d\<lparr>t_enrollments := t_enrollments d @ [\<lparr>en_user = u, en_course = c,
          en_role = r, en_created_at = coalesce created now\<rparr>]\<rparr>))"

section \<open>Users\<close>

definition user_from_row :: "user_row \<Rightarrow> user" where
  "user_from_row r = \<lparr>us_id = uw_id r, us_display_name = uw_display_name r,
     us_email = coalesce (uw_email r) [], us_role = uw_role r, us_created_at = uw_created_at r\<rparr>"

definition user_get_by_id :: "user_id \<Rightarrow> ('c, user) prog" where
  "user_get_by_id i =
     bind (on_err (or_no_rows ErrNotFound ''pgxrepo: get user'')
       (one_row (conn_query (get_user_row i)))) (\<lambda>row. ret (user_from_row row))"

definition user_get_by_lti :: "string \<Rightarrow> string \<Rightarrow> ('c, user) prog" where
  "user_get_by_lti iss sub =
     bind (on_err (or_no_rows ErrNotFound ''pgxrepo: get user by lti'')
       (one_row (conn_query (get_user_by_lti_row iss sub)))) (\<lambda>row. ret (user_from_row row))"

text \<open>A query inside the transaction.\<close>

definition tx_query :: "(db \<Rightarrow> 'a) \<Rightarrow> ('c, 'a) prog" where
  "tx_query f = tx_stmt (\<lambda>now d. Inr (f d, d))"

definition user_upsert_from_launch ::
  "string \<Rightarrow> string \<Rightarrow> string \<Rightarrow> string \<Rightarrow> role \<Rightarrow> ('c, user) prog" where
  "user_upsert_from_launch iss sub name email r =
     (if iss = [] \<or> sub = [] \<or> name = [] \<or> role_text r = [] then throw (Sentinel ErrInvalidInput)
      else bind (attempt (one_row (tx_query (get_user_by_lti_row iss sub)))) (\<lambda>found.
      case found of
        Inr existing \<Rightarrow>
          bind (on_err (Wrapped ''pgxrepo: update user from launch'') (one_row (tx_stmt
            (update_user_from_launch (uw_id existing) name (nullable_string email) r)))) (\<lambda>row.
          ret (user_from_row row))
      | Inl e \<Rightarrow>
          if \<not> err_is_no_rows e then throw (Wrapped ''pgxrepo: get user by lti in upsert'' e)
          else bind new_uuid (\<lambda>i.
            bind (on_err (Wrapped ''pgxrepo: insert user from launch'') (tx_stmt
              (insert_user_from_launch i name (nullable_string email) r))) (\<lambda>row.
            bind (on_err (Wrapped ''pgxrepo: upsert lti identity'') (tx_stmt
              (upsert_lti_identity (uw_id row) iss sub))) (\<lambda>_.
            ret (user_from_row row))))))"

text \<open>A Go map from courses to roles: its pairs, one per course.\<close>

definition user_get_course_roles :: "user_id \<Rightarrow> ('c, (course_id \<times> course_role) list) prog" where
  "user_get_course_roles i =
     on_err (Wrapped ''pgxrepo: list course roles'') (conn_query (list_course_roles i))"

section \<open>Courses\<close>

definition course_get_by_id :: "course_id \<Rightarrow> ('c, course) prog" where
  "course_get_by_id i =
     on_err (or_no_rows ErrNotFound ''pgxrepo: get course'')
       (one_row (conn_query (get_course_row i)))"

definition course_get_by_external_id :: "string \<Rightarrow> ('c, course) prog" where
  "course_get_by_external_id x =
     on_err (or_no_rows ErrNotFound ''pgxrepo: get course by external id'')
       (one_row (conn_query (get_course_by_external_row x)))"

text \<open>\<open>Upsert\<close> sets the id of its argument, so it returns the course after it.\<close>

definition course_upsert :: "course \<Rightarrow> ('c, course) prog" where
  "course_upsert c =
     bind (if co_id c = 0 then new_uuid else ret (co_id c)) (\<lambda>i.
     bind (on_err (Wrapped ''pgxrepo: upsert course'') (tx_stmt (upsert_course i (co_external_id c)
       (co_name c) (co_ki_domain c) (nullable_time_arg (co_created_at c))))) (\<lambda>i'.
     ret (c\<lparr>co_id := i'\<rparr>)))"

definition course_enroll :: "enrollment \<Rightarrow> ('c, unit) prog" where
  "course_enroll e =
     on_err (Wrapped ''pgxrepo: enroll course user'') (tx_stmt (enroll_course_user (en_user e)
       (en_course e) (en_role e) (nullable_time_arg (en_created_at e))))"

lemma silent_identity_reads [silent_intros]:
  "silent (course_get_by_id i)" "silent (user_get_by_id u)" "silent (user_get_course_roles u)"
  unfolding course_get_by_id_def user_get_by_id_def user_get_course_roles_def
  by (intro silent_intros)+

end
