(* ===== verification/Queue.thy ===== *)
theory Queue
  imports World
begin

text \<open>
  \<open>internal/adapters/queue/asynq\<close>: the client that enqueues tasks. The broker (asynq on Redis)
  is a parameter of the environment: for each request it accepts the task under an id, reports
  that a task with this id exists, or fails. Accepted tasks are kept in \<open>w_tasks\<close> with the time
  they are scheduled for.
\<close>

definition task_type_text :: "task_type \<Rightarrow> string" where
  "task_type_text t = (case t of TaskDeployLab \<Rightarrow> ''deploy_lab'' | TaskCleanupLab \<Rightarrow> ''cleanup_lab''
     | TaskRunCheck \<Rightarrow> ''run_check'' | TaskRefreshQuota \<Rightarrow> ''refresh_quota''
     | TaskUnfreezeLab \<Rightarrow> ''unfreeze_lab_expired'' | TaskOther x \<Rightarrow> x)"

definition known_queues :: "string list" where
  "known_queues = [''deploy'', ''cleanup'', ''checks'', ''default'']"

definition queue_of :: "task \<Rightarrow> string" where
  "queue_of t = (if tk_queue t \<noteq> [] then tk_queue t else (case tk_type t of
     TaskDeployLab \<Rightarrow> ''deploy''
   | TaskCleanupLab \<Rightarrow> ''cleanup'' | TaskUnfreezeLab \<Rightarrow> ''cleanup''
   | TaskRunCheck \<Rightarrow> ''checks''
   | TaskRefreshQuota \<Rightarrow> ''default''
   | TaskOther _ \<Rightarrow> ''default''))"

datatype task_opt = OptQueue string | OptMaxRetry int | OptTaskID string | OptProcessAt time

definition enqueue_opts :: "task \<Rightarrow> task_opt list" where
  "enqueue_opts t = [OptQueue (queue_of t)] @
     (if 0 < tk_max_retries t then [OptMaxRetry (tk_max_retries t)] else []) @
     (if tk_key t \<noteq> [] then [OptTaskID (tk_key t)] else [])"

text \<open>What the broker keeps of a task and its options; 0 retries is the broker's own default.\<close>

fun apply_opt :: "task_opt \<Rightarrow> task \<times> time option \<Rightarrow> task \<times> time option" where
  "apply_opt (OptQueue q) (t, tm) = (t\<lparr>tk_queue := q\<rparr>, tm)"
| "apply_opt (OptMaxRetry n) (t, tm) = (t\<lparr>tk_max_retries := n\<rparr>, tm)"
| "apply_opt (OptTaskID k) (t, tm) = (t\<lparr>tk_key := k\<rparr>, tm)"
| "apply_opt (OptProcessAt r) (t, tm) = (t, Some r)"

definition to_asynq_task :: "task \<Rightarrow> task" where
  "to_asynq_task t = \<lparr>tk_type = tk_type t, tk_payload = tk_payload t, tk_key = [], tk_queue = [],
     tk_max_retries = 0\<rparr>"

definition from_asynq_task :: "task \<Rightarrow> task" where
  "from_asynq_task t = \<lparr>tk_type = tk_type t, tk_payload = tk_payload t, tk_key = [], tk_queue = [],
     tk_max_retries = 0\<rparr>"

definition broker_task :: "task \<Rightarrow> task_opt list \<Rightarrow> task \<times> time option" where
  "broker_task t opts = fold apply_opt opts (to_asynq_task t, None)"

definition broker_enqueue :: "task \<Rightarrow> task_opt list \<Rightarrow> ('c, broker_outcome) prog" where
  "broker_enqueue t opts w =
     (let out = e_broker (w_env w) (w_enq w); w1 = w\<lparr>w_enq := Suc (w_enq w)\<rparr> in
      case out of
        Accepted i \<Rightarrow> (Inr out, w1\<lparr>w_tasks := w_tasks w @ [broker_task t opts]\<rparr>)
      | _ \<Rightarrow> (Inr out, w1))"

definition enqueue_with :: "task \<Rightarrow> task_opt list \<Rightarrow> ('c, string) prog" where
  "enqueue_with t opts =
     bind (broker_enqueue t opts) (\<lambda>out.
     let failed = (\<lambda>m. throw (Wrapped (''asynq: enqueue '' @ task_type_text (tk_type t)) (Plain m))) in
     case out of
       Accepted i \<Rightarrow> ret i
     | TaskIDConflict \<Rightarrow> if tk_key t \<noteq> [] then ret (tk_key t)
         else failed ''task ID conflicts with another task''
     | DuplicateTask \<Rightarrow> if tk_key t \<noteq> [] then ret (tk_key t) else failed ''task already exists''
     | BrokerError m \<Rightarrow> failed m)"

definition enqueue :: "task \<Rightarrow> ('c, string) prog" where
  "enqueue t = enqueue_with t (enqueue_opts t)"

definition enqueue_at :: "task \<Rightarrow> time \<Rightarrow> ('c, string) prog" where
  "enqueue_at t run_at = enqueue_with t (enqueue_opts t @ [OptProcessAt run_at])"

section \<open>Facts\<close>

definition queued_task :: "task \<Rightarrow> task" where
  "queued_task t = t\<lparr>tk_queue := queue_of t,
     tk_max_retries := (if 0 < tk_max_retries t then tk_max_retries t else 0)\<rparr>"

lemma broker_task_enqueue: "broker_task t (enqueue_opts t) = (queued_task t, None)"
  by (simp add: broker_task_def enqueue_opts_def to_asynq_task_def queued_task_def)

lemma broker_task_enqueue_at:
  "broker_task t (enqueue_opts t @ [OptProcessAt r]) = (queued_task t, Some r)"
  by (simp add: broker_task_def enqueue_opts_def to_asynq_task_def queued_task_def)

text \<open>Two worlds that differ in the queue and its counter only.\<close>

definition queue_only :: "'c world \<Rightarrow> 'c world \<Rightarrow> bool" where
  "queue_only w w' \<longleftrightarrow> w' = w\<lparr>w_enq := w_enq w', w_tasks := w_tasks w'\<rparr>"

lemma queue_onlyD:
  assumes "queue_only w w'"
  shows "w_db w' = w_db w" "w_env w' = w_env w" "w_cloud w' = w_cloud w" "w_snap w' = w_snap w"
    "w_aborted w' = w_aborted w" "w_stmt w' = w_stmt w" "w_tick w' = w_tick w" "w_draw w' = w_draw w"
  using assms unfolding queue_only_def
  by (metis world.select_convs world.surjective world.update_convs)+

lemma enqueue_with_state:
  "enqueue_with t opts w = (r, w') \<Longrightarrow> queue_only w w' \<and>
     (w_tasks w' = w_tasks w \<or> w_tasks w' = w_tasks w @ [broker_task t opts])"
  by (auto simp: enqueue_with_def broker_enqueue_def bind_def Let_def io_basic queue_only_def
      split: broker_outcome.splits if_splits)

lemma enqueue_state:
  "enqueue t w = (r, w') \<Longrightarrow> queue_only w w' \<and>
     (w_tasks w' = w_tasks w \<or> w_tasks w' = w_tasks w @ [(queued_task t, None)])"
  unfolding enqueue_def by (auto dest: enqueue_with_state simp: broker_task_enqueue)

lemma enqueue_at_state:
  "enqueue_at t tm w = (r, w') \<Longrightarrow> queue_only w w' \<and>
     (w_tasks w' = w_tasks w \<or> w_tasks w' = w_tasks w @ [(queued_task t, Some tm)])"
  unfolding enqueue_at_def by (auto dest: enqueue_with_state simp: broker_task_enqueue_at)

lemma keeps_enqueue [keeps_intros]: "keeps (db_inv I) (enqueue t)"
  by (rule keepsI) (auto simp: db_inv_def dest!: enqueue_state dest: queue_onlyD(1))

lemma keeps_enqueue_at [keeps_intros]: "keeps (db_inv I) (enqueue_at t tm)"
  by (rule keepsI) (auto simp: db_inv_def dest!: enqueue_at_state dest: queue_onlyD(1))

section \<open>Properties\<close>

text \<open>
  enqueueing under an idempotency key fails only when the broker itself fails, never because
  the task is already known; in both cases at most one task is added, in the queue of its
  type and with its key, and nothing but the queue changes.
\<close>
theorem enqueue_idempotent:
  assumes "tk_key t \<noteq> []"
  shows "(\<exists>m. e_broker (w_env w) (w_enq w) = BrokerError m \<and>
      fst (enqueue t w) = Inl (Wrapped (''asynq: enqueue '' @ task_type_text (tk_type t)) (Plain m)) \<and>
      w_tasks (snd (enqueue t w)) = w_tasks w) \<or>
    (\<exists>i. fst (enqueue t w) = Inr i \<and> w_db (snd (enqueue t w)) = w_db w \<and>
      (if e_broker (w_env w) (w_enq w) \<in> {TaskIDConflict, DuplicateTask}
       then i = tk_key t \<and> w_tasks (snd (enqueue t w)) = w_tasks w
       else w_tasks (snd (enqueue t w)) = w_tasks w @ [(queued_task t, None)]))"
  using assms
  by (cases "e_broker (w_env w) (w_enq w)")
    (simp_all add: enqueue_def enqueue_with_def broker_enqueue_def bind_def Let_def io_basic
      broker_task_enqueue)

definition sample_task :: task where
  "sample_task = \<lparr>tk_type = TaskCleanupLab, tk_payload = JNull, tk_key = ''cleanup:7'', tk_queue = [],
     tk_max_retries = 5\<rparr>"

lemma enqueue_idempotent_witness:
  "w_tasks (snd (enqueue sample_task (world_of () empty_db))) = [(sample_task\<lparr>tk_queue := ''cleanup''\<rparr>, None)]"
  using enqueue_idempotent [of sample_task "world_of () empty_db"]
  by (simp add: sample_task_def quiet_env_def queued_task_def queue_of_def world_of_def)

end
