(* ===== verification/LabApp.thy ===== *)
theory LabApp
  imports IdentityStore Queue Secrets Quota
begin

text \<open>
  \<open>internal/app/lab\<close>: the use cases on labs. \<open>create_lab\<close> is the critical path: check the quota,
  rent a project and persist the lab in one transaction, hand the deploy to the queue. The others
  read a lab, ask the policy, run one operation of the aggregate and save it. The collaborators
  are the repositories, the queue and the secret store of the other theories; \<open>lab_deps\<close> holds
  the settings. The logger is left out.
\<close>

record lab_deps =
  ld_lib :: lib
  ld_kek :: bytes
  ld_threshold_pct :: rat
  ld_quota_max_age :: duration
  ld_cleanup_after :: duration
  ld_freeze_for :: duration

record actor =
  ac_user :: user_id
  ac_role :: role
  ac_course_roles :: "(course_id \<times> course_role) list"

definition default_quota_max_age :: duration where "default_quota_max_age = 60 * second"
definition default_list_limit :: int where "default_list_limit = 200"
definition default_cleanup_duration :: duration where "default_cleanup_duration = 7200 * second"
definition default_freeze_duration :: duration where "default_freeze_duration = 86400 * second"

section \<open>Creating a lab\<close>

record create_input =
  ci_student :: user_id
  ci_course :: course_id
  ci_template :: template_id
  ci_request_id :: string

definition resource_request_for :: "template_id \<Rightarrow> resource_request" where
  "resource_request_for t = \<lparr>rr_vcpus = 2, rr_ram_mb = 4096, rr_disk_gb = 20\<rparr>"

definition lab_task_payload :: "lib \<Rightarrow> lab_id \<Rightarrow> json" where
  "lab_task_payload L i = JObj [(''lab_id'', JStr (uuid_string L i))]"

definition refresh_quota_task :: task where
  "refresh_quota_task = \<lparr>tk_type = TaskRefreshQuota, tk_payload = JNull, tk_key = [], tk_queue = [],
     tk_max_retries = 0\<rparr>"

definition deploy_task :: "lib \<Rightarrow> lab_id \<Rightarrow> task" where
  "deploy_task L i = \<lparr>tk_type = TaskDeployLab, tk_payload = lab_task_payload L i,
     tk_key = ''deploy:'' @ uuid_string L i @ '':1'', tk_queue = [], tk_max_retries = 5\<rparr>"

definition cleanup_task :: "lib \<Rightarrow> lab_id \<Rightarrow> string \<Rightarrow> task" where
  "cleanup_task L i why = \<lparr>tk_type = TaskCleanupLab, tk_payload = lab_task_payload L i,
     tk_key = ''cleanup:'' @ uuid_string L i @ '':'' @ why, tk_queue = [], tk_max_retries = 5\<rparr>"

text \<open>Audit records of the use case are best effort: their errors are only logged.\<close>

definition append_audit :: "audit_event \<Rightarrow> ('c, unit) prog" where
  "append_audit ev = bind (attempt (audit_append ev)) (\<lambda>_. ret ())"

definition append_audit_tx :: "audit_event \<Rightarrow> ('c, unit) prog" where
  "append_audit_tx ev = bind (attempt (audit_append_in_tx ev)) (\<lambda>_. ret ())"

definition check_active :: "user_id \<Rightarrow> course_id \<Rightarrow> ('c, lab option) prog" where
  "check_active student course =
     bind (attempt (lab_find_active student course)) (\<lambda>found. case found of
       Inr active \<Rightarrow> ret active
     | Inl e \<Rightarrow> if err_is e ErrNotFound then ret None else throw (Wrapped ''check active lab'' e))"

text \<open>The body of the transaction; \<open>None\<close> is the flag \<open>poolEmpty\<close>.\<close>

definition create_lab_tx :: "lab_deps \<Rightarrow> create_input \<Rightarrow> time \<Rightarrow> ('c, lab option) prog" where
  "create_lab_tx d inp now = (let L = ld_lib d in
     bind (on_err (Wrapped ''resolve course'') (course_get_by_id (ci_course inp))) (\<lambda>course.
     bind (check_active (ci_student inp) (ci_course inp)) (\<lambda>active.
     if active \<noteq> None then throw (Sentinel ErrLabAlreadyActive)
     else bind new_uuid (\<lambda>i.
       bind (from_sum (transition PendingProject ''quota_ok'' now
         (new_lab i (ci_student inp) (ci_course inp) (ci_template inp) now))) (\<lambda>inst.
       bind (on_err (Wrapped ''persist lab'') (lab_create L inst)) (\<lambda>inst.
       bind (attempt (allocate_one_free (co_ki_domain course) (lb_id inst))) (\<lambda>alloc.
       case alloc of
         Inl e \<Rightarrow>
           if err_is e ErrPoolEmpty then
             bind (from_sum (transition Rejected ''pool_empty'' now inst)) (\<lambda>inst.
             bind (on_err (Wrapped ''save rejected lab'') (lab_save L inst)) (\<lambda>inst.
             bind new_uuid (\<lambda>aid.
             bind (append_audit_tx \<lparr>ae_id = aid, ae_kind = ''quota.blocked'',
               ae_actor = Some (ci_student inp), ae_subject_type = ''lab_instance'',
               ae_subject_id = Some (uuid_string L (lb_id inst)),
               ae_payload = Some (JObj [(''ki_domain_id'', JStr (co_ki_domain course)),
                 (''reason'', JStr ''pool_empty'')]),
               ae_request_id = ci_request_id inp, ae_occurred_at = now\<rparr>) (\<lambda>_.
             ret None))))
           else throw (Wrapped ''allocate project'' e)
       | Inr proj \<Rightarrow>
           bind (from_sum (assign_project (pj_id proj) now inst)) (\<lambda>inst.
           bind (on_err (Wrapped ''save lab'') (lab_save L inst)) (\<lambda>inst.
           bind (on_err (Wrapped ''save project'') (pool_save L proj)) (\<lambda>_.
           ret (Some inst)))))))))))"

definition create_lab :: "lab_deps \<Rightarrow> create_input \<Rightarrow> ('c, lab) prog" where
  "create_lab d inp = (let L = ld_lib d;
       threshold = (if ld_threshold_pct d \<le> 0 then default_threshold_pct else ld_threshold_pct d);
       max_age = (if ld_quota_max_age d \<le> 0 then default_quota_max_age else ld_quota_max_age d) in
     bind clock_now (\<lambda>now.
     bind (on_err (Wrapped ''create lab: read quota cache'') quota_cache_read) (\<lambda>(snap, age).
     if max_age < age then
       bind (attempt (enqueue refresh_quota_task)) (\<lambda>_.
       throw (Wrapped ''create lab: quota snapshot stale'' (Sentinel ErrCloudUnavailable)))
     else
       let decision = evaluate snap (resource_request_for (ci_template inp)) threshold in
       if \<not> dc_allowed decision then
         bind new_uuid (\<lambda>aid.
         bind (append_audit \<lparr>ae_id = aid, ae_kind = ''quota.blocked'',
           ae_actor = Some (ci_student inp), ae_subject_type = ''lab_template'',
           ae_subject_id = Some (uuid_string L (ci_template inp)),
           ae_payload = Some (JObj [(''predicted_pct'', JRat (dc_predicted decision)),
             (''reason'', JStr (dc_reason decision)),
             (''threshold_pct'', JRat (dc_threshold decision))]),
           ae_request_id = ci_request_id inp, ae_occurred_at = now\<rparr>) (\<lambda>_.
         throw (Sentinel ErrQuotaExceeded)))
       else
         bind (with_tx (create_lab_tx d inp now)) (\<lambda>created.
         case created of
           None \<Rightarrow> throw (Sentinel ErrPoolEmpty)
         | Some l \<Rightarrow>
             bind (attempt (enqueue (deploy_task L (lb_id l)))) (\<lambda>_.
             ret l)))))"

section \<open>Operations on an existing lab\<close>

definition can_lab :: "actor \<Rightarrow> action \<Rightarrow> lab \<Rightarrow> ('c, unit) prog" where
  "can_lab a act l =
     (case policy_can \<lparr>sb_user = ac_user a, sb_role = ac_role a,
          sb_course_roles = map_of (ac_course_roles a)\<rparr> act
        (LabResource (lb_id l) (lb_student l) (lb_course l)) of
        None \<Rightarrow> ret ()
      | Some e \<Rightarrow> throw e)"

definition save_lab :: "lib \<Rightarrow> lab \<Rightarrow> ('c, lab) prog" where
  "save_lab L l = with_tx (lab_save L l)"

definition cleanup_after :: "lab_deps \<Rightarrow> duration" where
  "cleanup_after d = (if 0 < ld_cleanup_after d then ld_cleanup_after d else default_cleanup_duration)"

definition freeze_for :: "lab_deps \<Rightarrow> duration" where
  "freeze_for d = (if 0 < ld_freeze_for d then ld_freeze_for d else default_freeze_duration)"

definition taught_course_ids :: "actor \<Rightarrow> course_id list" where
  "taught_course_ids a = map fst (filter (\<lambda>(i, r). r = CourseRoleTeacher) (ac_course_roles a))"

definition list_labs :: "actor \<Rightarrow> course_id option \<Rightarrow> lstate list \<Rightarrow> ('c, lab list) prog" where
  "list_labs a course states =
     (let f = \<lparr>lf_student = None, lf_course = course, lf_courses = [], lf_states = states,
         lf_limit = default_list_limit\<rparr> in
      case ac_role a of
        RoleAdmin \<Rightarrow> lab_list f
      | RoleTeacher \<Rightarrow> (case course of
          Some c \<Rightarrow> if map_of (ac_course_roles a) c \<noteq> Some CourseRoleTeacher
            then throw (Sentinel ErrForbidden) else lab_list f
        | None \<Rightarrow> if taught_course_ids a = [] then ret []
            else lab_list (f\<lparr>lf_courses := taught_course_ids a\<rparr>))
      | _ \<Rightarrow> lab_list (f\<lparr>lf_student := Some (ac_user a)\<rparr>))"

definition get_lab :: "actor \<Rightarrow> lab_id \<Rightarrow> ('c, lab \<times> deploy_step list) prog" where
  "get_lab a i =
     bind (lab_get_by_id i) (\<lambda>l.
     bind (can_lab a ActionLabRead l) (\<lambda>_.
     bind (on_err (Wrapped ''get lab: deploy steps'') (steps_list_by_lab i)) (\<lambda>steps.
     ret (l, steps))))"

definition stop_lab :: "lab_deps \<Rightarrow> actor \<Rightarrow> lab_id \<Rightarrow> ('c, lab) prog" where
  "stop_lab d a i =
     bind (lab_get_by_id i) (\<lambda>l.
     bind (can_lab a ActionLabDelete l) (\<lambda>_.
     if lb_state l \<noteq> Ready \<and> lb_state l \<noteq> Frozen \<and> lb_state l \<noteq> Failed
     then throw (bad_lab l (lstate_text Cleaning))
     else bind clock_now (\<lambda>now.
       bind (from_sum (transition Cleaning ''stop_requested'' now l)) (\<lambda>l.
       bind (save_lab (ld_lib d) l) (\<lambda>l.
       bind (attempt (enqueue (cleanup_task (ld_lib d) (lb_id l) ''manual''))) (\<lambda>_.
       ret l))))))"

definition freeze_lab ::
  "lab_deps \<Rightarrow> actor \<Rightarrow> lab_id \<Rightarrow> string \<Rightarrow> int option \<Rightarrow> ('c, lab) prog" where
  "freeze_lab d a i reason secs =
     bind (lab_get_by_id i) (\<lambda>l.
     bind (can_lab a ActionLabFreeze l) (\<lambda>_.
     if secs \<noteq> None \<and> ac_role a = RoleStudent then throw (Sentinel ErrForbidden)
     else let dur = (case secs of None \<Rightarrow> freeze_for d | Some n \<Rightarrow> wrap64 (n * second)) in
       bind clock_now (\<lambda>now.
       bind (from_sum (freeze (ac_user a) reason (now + dur) now l)) (\<lambda>l.
       save_lab (ld_lib d) l))))"

definition unfreeze_lab :: "lab_deps \<Rightarrow> actor \<Rightarrow> lab_id \<Rightarrow> ('c, lab) prog" where
  "unfreeze_lab d a i =
     bind (lab_get_by_id i) (\<lambda>l.
     bind (can_lab a ActionLabUnfreeze l) (\<lambda>_.
     bind clock_now (\<lambda>now.
     bind (from_sum (unfreeze (now + cleanup_after d) now l)) (\<lambda>l.
     save_lab (ld_lib d) l))))"

definition extend_lab :: "lab_deps \<Rightarrow> actor \<Rightarrow> lab_id \<Rightarrow> duration \<Rightarrow> ('c, lab) prog" where
  "extend_lab d a i by =
     bind (lab_get_by_id i) (\<lambda>l.
     bind (can_lab a ActionLabExtend l) (\<lambda>_.
     bind clock_now (\<lambda>now.
     bind (from_sum (extend_cleanup (now + by) now l)) (\<lambda>l.
     save_lab (ld_lib d) l))))"

definition get_lab_ssh_key :: "lab_deps \<Rightarrow> actor \<Rightarrow> lab_id \<Rightarrow> ('c, bytes) prog" where
  "get_lab_ssh_key d a i =
     bind (lab_get_by_id i) (\<lambda>l.
     if lb_student l \<noteq> ac_user a then throw (Sentinel ErrForbidden)
     else case lb_student_key l of
       None \<Rightarrow> throw (Sentinel ErrNotFound)
     | Some s \<Rightarrow> secret_get (ld_lib d) (ld_kek d) s ''ssh_private_key'' (uuid_string (ld_lib d) (lb_id l)))"

section \<open>What a creation that goes through did\<close>

lemma append_audit_tx_InrD:
  "append_audit_tx ev w = (r, w') \<Longrightarrow> \<not> w_aborted w' \<Longrightarrow> logs_only w w'"
  unfolding append_audit_tx_def audit_append_in_tx_def audit_event_uuid_def
  by (auto simp: bind_def attempt_def on_err_def ret_def tx_stmt_def new_uuid_def Let_def
      insert_audit_event_def logs_only_def erase_logs_def
      split: if_splits option.splits sum.splits prod.splits)

lemma append_audit_tx_total: "\<exists>w'. append_audit_tx ev w = (Inr (), w')"
  by (simp add: append_audit_tx_def bind_def attempt_def ret_def split: prod.split)

text \<open>A rented project that is saved at once keeps the row the rental wrote.\<close>

lemma project_merge_rented:
  "project_merge (project_from_row (rented lab now r)) (rented lab now r) = rented lab now r"
  by (cases r) (simp add: project_merge_def project_from_row_def rented_def nullable_allocated_def)

definition created_lab :: "create_input \<Rightarrow> lab_id \<Rightarrow> project_id \<Rightarrow> time \<Rightarrow> lab" where
  "created_lab inp i p now = \<lparr>lb_id = i, lb_student = ci_student inp, lb_course = ci_course inp,
     lb_template = ci_template inp, lb_project = Some p, lb_state = Deploying,
     lb_reason = ''project_assigned'', lb_resources = no_resources, lb_cleanup_at = None,
     lb_unfreeze_at = None, lb_frozen_by = None, lb_frozen_reason = [], lb_student_key = None,
     lb_checker_key = None, lb_created_at = now, lb_updated_at = now, lb_events = []\<rparr>"

definition pending_lab :: "create_input \<Rightarrow> lab_id \<Rightarrow> time \<Rightarrow> lab" where
  "pending_lab inp i now = (created_lab inp i 0 now)\<lparr>lb_project := None,
     lb_state := PendingProject, lb_reason := ''quota_ok''\<rparr>"

definition rejected_lab :: "create_input \<Rightarrow> lab_id \<Rightarrow> time \<Rightarrow> lab" where
  "rejected_lab inp i now = (pending_lab inp i now)\<lparr>lb_state := Rejected, lb_reason := ''pool_empty''\<rparr>"

lemma pending_lab_made:
  "transition PendingProject ''quota_ok'' now (new_lab i s c t now) = Inr l \<Longrightarrow>
     s = ci_student inp \<Longrightarrow> c = ci_course inp \<Longrightarrow> t = ci_template inp \<Longrightarrow>
     l\<lparr>lb_events := []\<rparr> = pending_lab inp i now"
  by (auto simp: transition_Inr new_lab_def lb_record_def pending_lab_def created_lab_def)

lemma created_lab_made:
  "assign_project p now (pending_lab inp i now) = Inr l \<Longrightarrow> l\<lparr>lb_events := []\<rparr> = created_lab inp i p now"
  by (auto simp: assign_project_def transition_Inr lb_record_def pending_lab_def created_lab_def
      split: if_splits)

lemma rejected_lab_made:
  "transition Rejected ''pool_empty'' now (pending_lab inp i now) = Inr l \<Longrightarrow>
     l\<lparr>lb_events := []\<rparr> = rejected_lab inp i now"
  by (auto simp: transition_Inr lb_record_def pending_lab_def created_lab_def rejected_lab_def)

lemma pending_lab_simps [simp]:
  "lb_id (pending_lab inp i now) = i" "lb_student (pending_lab inp i now) = ci_student inp"
  "lb_course (pending_lab inp i now) = ci_course inp" "lb_state (pending_lab inp i now) = PendingProject"
  "lb_id (created_lab inp i p now) = i" "lb_state (created_lab inp i p now) = Deploying"
  "lb_project (created_lab inp i p now) = Some p" "lb_state (rejected_lab inp i now) = Rejected"
  "lb_id (rejected_lab inp i now) = i" "lb_project (rejected_lab inp i now) = None"
  by (simp_all add: pending_lab_def created_lab_def rejected_lab_def)

lemma lab_create_rows:
  assumes "lab_create L l w = (Inr l', w')"
  shows "\<exists>now. t_labs (w_db w') = t_labs (w_db w) @ [create_lab_params l now] \<and>
    t_projects (w_db w') = t_projects (w_db w) \<and> lb_id l \<notin> lr_id ` set (t_labs (w_db w)) \<and>
    \<not> active_clash (create_lab_params l now) (t_labs (w_db w)) \<and>
    l' = l\<lparr>lb_events := []\<rparr> \<and> w_snap w' = w_snap w \<and> w_tasks w' = w_tasks w \<and> w_aborted w' = w_aborted w"
proof -
  from lab_create_InrD [OF assms] obtain r w1 now where
    "r = create_lab_params l now" "lb_id l \<notin> lr_id ` set (t_labs (w_db w))"
    "\<not> active_clash r (t_labs (w_db w))" "l' = l\<lparr>lb_events := []\<rparr>"
    "w1 = w\<lparr>w_stmt := Suc (w_stmt w), w_db := (w_db w)\<lparr>t_labs := t_labs (w_db w) @ [r]\<rparr>\<rparr>"
    "logs_only w1 w'" by blast
  with logs_onlyD [of w1 w'] show ?thesis by auto
qed

lemma lab_save_rows:
  assumes "lab_save L l w = (Inr l', w')"
  shows "\<exists>r. get_lab_row (lb_id l) (w_db w) = Some r \<and>
    t_labs (w_db w') = put_row lr_id (lab_merge l r) (t_labs (w_db w)) \<and>
    t_projects (w_db w') = t_projects (w_db w) \<and> l' = l\<lparr>lb_events := []\<rparr> \<and>
    w_snap w' = w_snap w \<and> w_tasks w' = w_tasks w \<and> w_aborted w' = w_aborted w"
proof -
  from lab_save_InrD [OF assms] obtain r w1 where
    "get_lab_row (lb_id l) (w_db w) = Some r" "l' = l\<lparr>lb_events := []\<rparr>"
    "w1 = w\<lparr>w_stmt := Suc (w_stmt w), w_db := (w_db w)\<lparr>t_labs :=
      put_row lr_id (lab_merge l r) (t_labs (w_db w))\<rparr>\<rparr>" "logs_only w1 w'" by blast
  with logs_onlyD [of w1 w'] show ?thesis by auto
qed

lemma pool_save_rows:
  assumes "pool_save L p w = (Inr p', w')" "pj_id p \<noteq> 0"
  shows "\<exists>r. get_project_row (pj_id p) (w_db w) = Some r \<and>
    t_projects (w_db w') = put_row pr_id (project_merge p r) (t_projects (w_db w)) \<and>
    t_labs (w_db w') = t_labs (w_db w) \<and> p' = p\<lparr>pj_events := []\<rparr> \<and>
    w_snap w' = w_snap w \<and> w_tasks w' = w_tasks w \<and> w_aborted w' = w_aborted w"
proof -
  from pool_save_InrD [OF assms] obtain r w1 where
    "get_project_row (pj_id p) (w_db w) = Some r" "p' = p\<lparr>pj_events := []\<rparr>"
    "w1 = w\<lparr>w_stmt := Suc (w_stmt w), w_db := (w_db w)\<lparr>t_projects :=
      put_row pr_id (project_merge p r) (t_projects (w_db w))\<rparr>\<rparr>" "logs_only w1 w'" by blast
  with logs_onlyD [of w1 w'] show ?thesis by auto
qed

lemma put_row_last:
  "key r \<notin> key ` set rows \<Longrightarrow> key x = key r \<Longrightarrow> put_row key x (rows @ [r]) = rows @ [x]"
  by (induction rows) auto

lemma put_row_twice: "key x = key y \<Longrightarrow> put_row key x (put_row key y rows) = put_row key x rows"
  by (induction rows) auto

lemma silent_check_active [silent_intros]: "silent (check_active s c)"
  unfolding check_active_def by (intro silent_intros)

text \<open>The steps of a transaction that found the pool empty, and of one that committed a lab.\<close>

lemma create_lab_tx_NoneD:
  assumes "create_lab_tx d inp now w = (Inr None, w')"
  obtains course w1 w2 i w3 a0 a1 w4 e w5 a2 a3 w6 j w7 ev where
    "course_get_by_id (ci_course inp) w = (Inr course, w1)"
    "check_active (ci_student inp) (ci_course inp) w1 = (Inr None, w2)" "new_uuid w2 = (Inr i, w3)"
    "transition PendingProject ''quota_ok'' now
       (new_lab i (ci_student inp) (ci_course inp) (ci_template inp) now) = Inr a0"
    "lab_create (ld_lib d) a0 w3 = (Inr a1, w4)"
    "allocate_one_free (co_ki_domain course) (lb_id a1) w4 = (Inl e, w5)" "err_is e ErrPoolEmpty"
    "transition Rejected ''pool_empty'' now a1 = Inr a2" "lab_save (ld_lib d) a2 w5 = (Inr a3, w6)"
    "new_uuid w6 = (Inr j, w7)" "append_audit_tx ev w7 = (Inr (), w')"
  using assms unfolding create_lab_tx_def Let_def
  by (clarsimp dest!: bind_InrD on_err_InrD attempt_InrD simp: io_basic split: sum.splits if_splits;
      (clarsimp dest!: bind_InrD on_err_InrD attempt_InrD simp: io_basic split: sum.splits if_splits)?;
      (rule that; assumption)?)

lemma create_lab_tx_SomeD:
  assumes "create_lab_tx d inp now w = (Inr (Some l), w')"
  obtains course w1 w2 i w3 a0 a1 w4 proj w5 a2 w6 p' where
    "course_get_by_id (ci_course inp) w = (Inr course, w1)"
    "check_active (ci_student inp) (ci_course inp) w1 = (Inr None, w2)" "new_uuid w2 = (Inr i, w3)"
    "transition PendingProject ''quota_ok'' now
       (new_lab i (ci_student inp) (ci_course inp) (ci_template inp) now) = Inr a0"
    "lab_create (ld_lib d) a0 w3 = (Inr a1, w4)"
    "allocate_one_free (co_ki_domain course) (lb_id a1) w4 = (Inr proj, w5)"
    "assign_project (pj_id proj) now a1 = Inr a2" "lab_save (ld_lib d) a2 w5 = (Inr l, w6)"
    "pool_save (ld_lib d) proj w6 = (Inr p', w')"
  using assms unfolding create_lab_tx_def Let_def
  by (clarsimp dest!: bind_InrD on_err_InrD attempt_InrD simp: io_basic split: sum.splits if_splits;
      (clarsimp dest!: bind_InrD on_err_InrD attempt_InrD simp: io_basic split: sum.splits if_splits)?;
      (rule that; assumption)?)

lemma course_get_InrD:
  "course_get_by_id i w = (Inr c, w') \<Longrightarrow> get_course_row i (committed w) = Some c \<and> same_state w w'"
  using silentD [OF silent_identity_reads(1), of i w "Inr c" w']
  unfolding course_get_by_id_def by (auto dest!: run_dests)

text \<open>What the committed transaction of a successful creation changed.\<close>

lemma create_lab_tx_created:
  assumes run: "create_lab_tx d inp now w = (Inr (Some l), w')" and nz: "0 \<notin> pr_id ` set (t_projects (w_db w))"
    and dist: "distinct (map pr_id (t_projects (w_db w)))"
  shows "\<exists>i r t x c. l = created_lab inp i (pr_id r) now \<and> r \<in> set (t_projects (w_db w)) \<and>
    pr_state r = PFree \<and> get_course_row (ci_course inp) (committed w) = Some c \<and>
    pr_ki_domain r = co_ki_domain c \<and>
    t_projects (w_db w') = put_row pr_id (rented i t r) (t_projects (w_db w)) \<and>
    t_labs (w_db w') = t_labs (w_db w) @ [x] \<and> i \<notin> lr_id ` set (t_labs (w_db w)) \<and>
    lr_id x = i \<and> lr_student x = ci_student inp \<and> lr_course x = ci_course inp \<and>
    lr_state x = Deploying \<and> lr_project x = Some (pr_id r) \<and> \<not> active_clash x (t_labs (w_db w)) \<and>
    w_tasks w' = w_tasks w"
proof -
  from create_lab_tx_SomeD [OF run] obtain course w1 w2 i w3 a0 a1 w4 proj w5 a2 w6 p' where
    1: "course_get_by_id (ci_course inp) w = (Inr course, w1)" and
    2: "check_active (ci_student inp) (ci_course inp) w1 = (Inr None, w2)" and 3: "new_uuid w2 = (Inr i, w3)" and
    4: "transition PendingProject ''quota_ok'' now
       (new_lab i (ci_student inp) (ci_course inp) (ci_template inp) now) = Inr a0" and
    5: "lab_create (ld_lib d) a0 w3 = (Inr a1, w4)" and
    6: "allocate_one_free (co_ki_domain course) (lb_id a1) w4 = (Inr proj, w5)" and
    7: "assign_project (pj_id proj) now a1 = Inr a2" and 8: "lab_save (ld_lib d) a2 w5 = (Inr l, w6)" and
    9: "pool_save (ld_lib d) proj w6 = (Inr p', w')" .
  have s3: "w_db w3 = w_db w" "w_tasks w3 = w_tasks w"
    using same_stateD [OF conjunct2 [OF course_get_InrD [OF 1]]]
      same_stateD [OF silentD [OF silent_check_active 2]] new_uuid_InrD [OF 3] by simp_all
  have a0: "lb_id a0 = i" "lb_student a0 = ci_student inp" "lb_course a0 = ci_course inp"
    "a0\<lparr>lb_events := []\<rparr> = pending_lab inp i now"
    using 4 pending_lab_made [OF 4] by (auto simp: transition_Inr lb_record_def new_lab_def)
  from lab_create_rows [OF 5] obtain t0 where c: "a1 = pending_lab inp i now"
    "t_labs (w_db w4) = t_labs (w_db w) @ [create_lab_params a0 t0]" "t_projects (w_db w4) = t_projects (w_db w)"
    "i \<notin> lr_id ` set (t_labs (w_db w))" "\<not> active_clash (create_lab_params a0 t0) (t_labs (w_db w))"
    "w_tasks w4 = w_tasks w"
    unfolding s3 a0 by blast
  from allocate_InrD [OF 6] obtain r t where r: "r \<in> set (candidates (co_ki_domain course) w4)"
    "proj = project_from_row (rented i t r)" "t_labs (w_db w5) = t_labs (w_db w4)"
    "t_projects (w_db w5) = put_row pr_id (rented i t r) (t_projects (w_db w4))" "w_tasks w5 = w_tasks w4"
    unfolding c(1) by auto
  have r': "r \<in> set (t_projects (w_db w))" "pr_state r = PFree" "pr_ki_domain r = co_ki_domain course"
    using r(1) c(3) by (simp_all add: candidates_def)
  have pid: "pj_id proj = pr_id r" using r(2) by simp
  have l: "lb_id a2 = i" "lb_state a2 = Deploying" "lb_project a2 = Some (pr_id r)"
    "a2\<lparr>lb_events := []\<rparr> = created_lab inp i (pr_id r) now"
    using 7 created_lab_made [OF 7 [unfolded c(1)]] unfolding c(1) pid
    by (auto simp: assign_project_def transition_Inr lb_record_def)
  have x0: "lr_id (create_lab_params a0 t0) = i" "lr_student (create_lab_params a0 t0) = ci_student inp"
    "lr_course (create_lab_params a0 t0) = ci_course inp"
    "lr_state (create_lab_params a0 t0) = lb_state a0"
    using a0 by (simp_all add: create_lab_params_def)
  have st0: "lb_state a0 = PendingProject" using 4 by (auto simp: transition_Inr lb_record_def)
  have "get_lab_row i (w_db w5) = Some (create_lab_params a0 t0)"
    using c(2,4) r(3) x0(1) find_row_None_iff [of lr_id i "t_labs (w_db w)"]
    by (simp add: get_lab_row_def find_row_append split: option.split)
  with lab_save_rows [OF 8] have s: "t_labs (w_db w6) =
      put_row lr_id (lab_merge a2 (create_lab_params a0 t0)) (t_labs (w_db w) @ [create_lab_params a0 t0])"
    "t_projects (w_db w6) = t_projects (w_db w5)" "l = a2\<lparr>lb_events := []\<rparr>" "w_tasks w6 = w_tasks w5"
    unfolding l(1) r(3) c(2) by auto
  let ?x = "lab_merge a2 (create_lab_params a0 t0)"
  have labs6: "t_labs (w_db w6) = t_labs (w_db w) @ [?x]"
    unfolding s(1) using c(4) x0(1) by (intro put_row_last) auto
  have "pr_id r \<noteq> 0" using nz r'(1) by force
  with pool_save_rows [OF 9] obtain r2 where p: "get_project_row (pr_id r) (w_db w6) = Some r2"
    "t_projects (w_db w') = put_row pr_id (project_merge proj r2) (t_projects (w_db w6))"
    "t_labs (w_db w') = t_labs (w_db w6)" "w_tasks w' = w_tasks w6"
    unfolding pid by auto
  have "get_project_row (pr_id r) (w_db w) = Some r" by (rule get_project_mem [OF dist r'(1)])
  then have "r2 = rented i t r"
    using p(1) find_row_put_same [of pr_id "rented i t r" "t_projects (w_db w)"]
    by (simp add: get_project_row_def s(2) r(4) c(3))
  then have pj: "t_projects (w_db w') = put_row pr_id (rented i t r) (t_projects (w_db w))"
    using p(2) unfolding s(2) r(4) c(3) r(2) by (simp add: project_merge_rented put_row_twice)
  have clash: "\<not> active_clash ?x (t_labs (w_db w))"
    using c(5) x0 st0 l(2) by (auto simp: active_clash_def lab_active_def)
  show ?thesis
    using l s(3,4) r' pj p(3,4) labs6 c(4,6) x0 clash r(5) course_get_InrD [OF 1]
    by (intro exI [of _ i] exI [of _ r] exI [of _ t] exI [of _ ?x] exI [of _ course]) simp
qed

section \<open>The outcome of a creation\<close>

definition same_tables :: "project_row list \<Rightarrow> lab_row list \<Rightarrow> 'c world \<Rightarrow> bool" where
  "same_tables ps ls w \<longleftrightarrow> t_projects (w_db w) = ps \<and> t_labs (w_db w) = ls \<and> w_snap w = None"

lemma keeps_same_silent: "silent m \<Longrightarrow> keeps (same_tables ps ls) m"
proof (rule keepsI)
  fix w r w'
  assume "silent m" "same_tables ps ls w" "m w = (r, w')"
  with silentD [of m w r w'] same_stateD [of w w'] show "same_tables ps ls w'"
    by (simp add: same_tables_def)
qed

lemma conn_stmt_state:
  "conn_stmt f w = (r, w') \<Longrightarrow> w' = w\<lparr>w_stmt := Suc (w_stmt w)\<rparr> \<or>
     (\<exists>x d' now. f now (w_db w) = Inr (x, d') \<and> w' = w\<lparr>w_stmt := Suc (w_stmt w), w_db := d'\<rparr>)"
  by (auto simp: conn_stmt_def Let_def split: option.splits sum.splits)

lemma keeps_same_audit: "keeps (same_tables ps ls) (audit_append ev)"
proof -
  have k: "keeps (same_tables ps ls) (conn_stmt (insert_audit_event i k a st sid p r t))" for i k a st sid p r t
    by (rule keepsI)
      (auto dest!: conn_stmt_state simp: same_tables_def insert_audit_event_def split: if_splits)
  show ?thesis unfolding audit_append_def audit_event_uuid_def
    by (intro keeps_intros k keeps_same_silent [OF silent_basic(6)])
qed

lemma keeps_same_append_audit: "keeps (same_tables ps ls) (append_audit ev)"
  unfolding append_audit_def by (intro keeps_intros keeps_same_audit)

lemma keeps_same_enqueue: "keeps (same_tables ps ls) (enqueue t)"
proof (rule keepsI)
  fix w r and w' :: "'a world"
  assume "same_tables ps ls w" "enqueue t w = (r, w')"
  with enqueue_state [of t w r w'] queue_onlyD [of w w'] show "same_tables ps ls w'"
    by (simp add: same_tables_def)
qed

lemma tx_stmt_InlD: "tx_stmt f w = (Inl e, w') \<Longrightarrow> w_db w' = w_db w"
  by (auto simp: tx_stmt_def Let_def split: if_splits option.splits sum.splits)

lemma allocate_InlD: "allocate_one_free dm lab w = (Inl e, w') \<Longrightarrow> w_db w' = w_db w \<and> w_snap w' = w_snap w"
  unfolding allocate_one_free_def one_row_def
  by (auto simp: bind_def get_w_def on_err_def ret_def throw_def tx_stmt_def Let_def
      allocate_one_free_project_def split: if_splits option.splits sum.splits prod.splits)

definition rejected_row :: "create_input \<Rightarrow> lab_row \<Rightarrow> bool" where
  "rejected_row inp x \<longleftrightarrow> lr_student x = ci_student inp \<and> lr_course x = ci_course inp \<and>
     lr_state x = Rejected \<and> lr_project x = None"

lemma create_lab_tx_rejected:
  assumes run: "create_lab_tx d inp now w = (Inr None, w')" and ok: "\<not> w_aborted w'"
  shows "t_projects (w_db w') = t_projects (w_db w) \<and>
    (\<exists>x. t_labs (w_db w') = t_labs (w_db w) @ [x] \<and> rejected_row inp x)"
proof -
  from create_lab_tx_NoneD [OF run] obtain course w1 w2 i w3 a0 a1 w4 e w5 a2 a3 w6 j w7 ev where
    1: "course_get_by_id (ci_course inp) w = (Inr course, w1)" and
    2: "check_active (ci_student inp) (ci_course inp) w1 = (Inr None, w2)" and 3: "new_uuid w2 = (Inr i, w3)" and
    4: "transition PendingProject ''quota_ok'' now
       (new_lab i (ci_student inp) (ci_course inp) (ci_template inp) now) = Inr a0" and
    5: "lab_create (ld_lib d) a0 w3 = (Inr a1, w4)" and
    6: "allocate_one_free (co_ki_domain course) (lb_id a1) w4 = (Inl e, w5)" and
    7: "transition Rejected ''pool_empty'' now a1 = Inr a2" and 8: "lab_save (ld_lib d) a2 w5 = (Inr a3, w6)" and
    9: "new_uuid w6 = (Inr j, w7)" and 10: "append_audit_tx ev w7 = (Inr (), w')" by metis
  have s3: "w_db w3 = w_db w"
    using same_stateD [OF conjunct2 [OF course_get_InrD [OF 1]]]
      same_stateD [OF silentD [OF silent_check_active 2]] new_uuid_InrD [OF 3] by simp
  have a0: "lb_id a0 = i" "lb_student a0 = ci_student inp" "lb_course a0 = ci_course inp"
    "a0\<lparr>lb_events := []\<rparr> = pending_lab inp i now"
    using 4 pending_lab_made [OF 4] by (auto simp: transition_Inr lb_record_def new_lab_def)
  from lab_create_rows [OF 5] obtain t0 where c: "a1 = pending_lab inp i now"
    "t_labs (w_db w4) = t_labs (w_db w) @ [create_lab_params a0 t0]" "t_projects (w_db w4) = t_projects (w_db w)"
    "i \<notin> lr_id ` set (t_labs (w_db w))"
    unfolding s3 a0 by blast
  have s5: "w_db w5 = w_db w4" using allocate_InlD [OF 6] by simp
  have l: "lb_id a2 = i" "lb_state a2 = Rejected" "lb_project a2 = None"
    using 7 unfolding c(1) by (auto simp: transition_Inr lb_record_def pending_lab_def)
  have x0: "lr_id (create_lab_params a0 t0) = i" "lr_student (create_lab_params a0 t0) = ci_student inp"
    "lr_course (create_lab_params a0 t0) = ci_course inp"
    using a0 by (simp_all add: create_lab_params_def)
  have "get_lab_row i (w_db w5) = Some (create_lab_params a0 t0)"
    using c(2,4) s5 x0(1) find_row_None_iff [of lr_id i "t_labs (w_db w)"]
    by (simp add: get_lab_row_def find_row_append split: option.split)
  with lab_save_rows [OF 8] have s: "t_labs (w_db w6) =
      put_row lr_id (lab_merge a2 (create_lab_params a0 t0)) (t_labs (w_db w) @ [create_lab_params a0 t0])"
    "t_projects (w_db w6) = t_projects (w_db w)"
    unfolding l(1) s5 c(2) c(3) by auto
  have labs6: "t_labs (w_db w6) = t_labs (w_db w) @ [lab_merge a2 (create_lab_params a0 t0)]"
    unfolding s(1) using c(4) x0(1) by (intro put_row_last) auto
  have "logs_only w7 w'" by (rule append_audit_tx_InrD [OF 10 ok])
  from logs_onlyD [OF this] new_uuid_InrD [OF 9] labs6 s(2) x0 l show ?thesis
    by (simp add: rejected_row_def)
qed

text \<open>
  What a creation leaves when it starts from the tables \<open>ps\<close> of projects and \<open>ls\<close> of labs: on
  success one more lab, deploying, on a project of the course's domain that was free and is now
  recorded as rented by it; on an error nothing, or the record of a rejected attempt.
\<close>

definition created_ok :: "create_input \<Rightarrow> project_row list \<Rightarrow> lab_row list \<Rightarrow> lab \<Rightarrow> db \<Rightarrow> bool" where
  "created_ok inp ps ls l d \<longleftrightarrow> (\<exists>r t x c now. l = created_lab inp (lr_id x) (pr_id r) now \<and>
     r \<in> set ps \<and> pr_state r = PFree \<and> get_course_row (ci_course inp) d = Some c \<and>
     pr_ki_domain r = co_ki_domain c \<and> t_projects d = put_row pr_id (rented (lr_id x) t r) ps \<and>
     t_labs d = ls @ [x] \<and> lr_id x \<notin> lr_id ` set ls \<and> lr_student x = ci_student inp \<and>
     lr_course x = ci_course inp \<and> lr_state x = Deploying \<and> lr_project x = Some (pr_id r) \<and>
     \<not> active_clash x ls)"

definition create_refused ::
  "create_input \<Rightarrow> project_row list \<Rightarrow> lab_row list \<Rightarrow> err \<Rightarrow> db \<Rightarrow> bool" where
  "create_refused inp ps ls e d \<longleftrightarrow> t_projects d = ps \<and>
     (t_labs d = ls \<or> (e = Sentinel ErrPoolEmpty \<and> (\<exists>x. t_labs d = ls @ [x] \<and> rejected_row inp x)))"

lemma create_lab_tx_courses: "keeps (\<lambda>w. t_courses (w_db w) = cs) (create_lab_tx d inp now)"
proof -
  have I: "(\<lambda>w::'a world. t_courses (w_db w) = cs) = db_inv (\<lambda>d. t_courses d = cs)"
    by (simp add: db_inv_def fun_eq_iff)
  have k: "stmt_keeps (\<lambda>d. t_courses d = cs) (insert_outbox a b c)"
    "stmt_keeps (\<lambda>d. t_courses d = cs) (insert_audit_event i1 i2 i3 i4 i5 i6 i7 i8)"
    "stmt_keeps (\<lambda>d. t_courses d = cs) (update_project j1 j2 j3 j4 j5)"
    "stmt_keeps (\<lambda>d. t_courses d = cs) (allocate_one_free_project k1 k2 k3)"
    "stmt_keeps (\<lambda>d. t_courses d = cs) (create_lab_instance row)"
    "stmt_keeps (\<lambda>d. t_courses d = cs) (lab_update l)"
    for a b c i1 i2 i3 i4 i5 i6 i7 i8 j1 j2 j3 j4 j5 k1 k2 k3 row l
    by (auto simp: stmt_keeps_def insert_outbox_def insert_audit_event_def update_project_def
        allocate_one_free_project_def create_lab_instance_def lab_update_def update_lab_instance_def
        Let_def split: if_splits option.splits)
  have c: "keeps (db_inv (\<lambda>d. t_courses d = cs)) (course_get_by_id i :: ('a, course) prog)" for i
    unfolding course_get_by_id_def by (intro keeps_intros)
  show ?thesis
    unfolding I create_lab_tx_def Let_def check_active_def append_audit_tx_def audit_append_in_tx_def
      audit_event_uuid_def
    by (intro keeps_intros c keeps_lab_create keeps_lab_save keeps_pool_save keeps_allocate_one_free
        keeps_tx_stmt k)
qed

lemma create_lab_commit:
  assumes "0 \<notin> pr_id ` set ps" "distinct (map pr_id ps)"
  shows "spec (same_tables ps ls) (with_tx (create_lab_tx d inp now))
    (\<lambda>res w. case res of None \<Rightarrow> create_refused inp ps ls (Sentinel ErrPoolEmpty) (w_db w)
       | Some l \<Rightarrow> created_ok inp ps ls l (w_db w))
    (\<lambda>e w. create_refused inp ps ls e (w_db w))"
proof (rule specI, goal_cases)
  case (1 w res w')
  let ?w0 = "w\<lparr>w_stmt := Suc (w_stmt w), w_snap := Some (w_db w), w_aborted := False\<rparr>"
  from with_tx_InrD [OF 1(2)] obtain w2 where w2: "create_lab_tx d inp now ?w0 = (Inr res, w2)"
    "w_db w' = w_db w2" "\<not> w_aborted w2" by auto
  have t: "t_projects (w_db ?w0) = ps" "t_labs (w_db ?w0) = ls" "committed ?w0 = w_db w"
    using 1(1) by (simp_all add: same_tables_def committed_def)
  show ?case
  proof (cases res)
    case None
    with w2 create_lab_tx_rejected [of d inp now ?w0 w2] t show ?thesis
      by (auto simp: create_refused_def)
  next
    case (Some l)
    have "t_courses (w_db w2) = t_courses (w_db w)"
      using keepsD [OF create_lab_tx_courses _ w2(1), of "t_courses (w_db w)"] by simp
    then have "get_course_row i (w_db w2) = get_course_row i (w_db w)" for i
      by (simp add: get_course_row_def)
    with Some create_lab_tx_created [OF w2(1) [unfolded Some]] t assms w2(2) show ?thesis
      by (fastforce simp: created_ok_def)
  qed
next
  case (2 w e w')
  with with_tx_atomic [OF 2(2)] show ?case by (simp add: same_tables_def create_refused_def)
qed

lemma create_lab_enqueue:
  "spec (\<lambda>w. created_ok inp ps ls l (w_db w)) (bind (attempt (enqueue t)) (\<lambda>_. ret l))
     (\<lambda>l w. created_ok inp ps ls l (w_db w)) E"
  by (rule specI) (auto simp: bind_def attempt_def ret_def split: prod.splits
      dest!: enqueue_state dest: queue_onlyD(1))

lemma create_lab_handover:
  assumes "0 \<notin> pr_id ` set ps" "distinct (map pr_id ps)"
  shows "spec (same_tables ps ls) (bind (with_tx (create_lab_tx d inp now)) (\<lambda>created. case created of
        None \<Rightarrow> throw (Sentinel ErrPoolEmpty)
      | Some l \<Rightarrow> bind (attempt (enqueue (t l))) (\<lambda>_. ret l)))
      (\<lambda>l w. created_ok inp ps ls l (w_db w)) (\<lambda>e w. create_refused inp ps ls e (w_db w))"
  by (rule spec_bind [OF create_lab_commit [OF assms]])
    (auto split: option.split intro!: spec_throw create_lab_enqueue)

lemma create_lab_spec:
  assumes "0 \<notin> pr_id ` set ps" "distinct (map pr_id ps)"
  shows "spec (same_tables ps ls) (create_lab d inp)
    (\<lambda>l w. created_ok inp ps ls l (w_db w)) (\<lambda>e w. create_refused inp ps ls e (w_db w))"
proof -
  have E: "same_tables ps ls w \<Longrightarrow> create_refused inp ps ls e (w_db w)" for w :: "'a world" and e
    by (simp add: same_tables_def create_refused_def)
  show ?thesis
    unfolding create_lab_def Let_def case_prod_beta
    by (intro spec_if create_lab_handover [OF assms] spec_keeps_bind spec_throw keeps_attempt keeps_on_err
        keeps_same_enqueue keeps_same_append_audit keeps_same_silent silent_intros; (rule E)?; assumption?)
qed

section \<open>The outcome of an operation on a lab\<close>

text \<open>
  What a use case that loads lab \<open>i\<close>, asks the policy for \<open>act\<close>, runs \<open>operation\<close> of the
  aggregate and saves leaves behind: on success the policy allowed it, the returned lab is the
  operation's result on the lab that was stored, and its row is the only change to the labs and
  projects; on an error no lab and no project changed.
\<close>

definition lab_edited :: "actor \<Rightarrow> action \<Rightarrow> (time \<Rightarrow> lab \<Rightarrow> err + lab) \<Rightarrow> lab_id \<Rightarrow> db \<Rightarrow> err + lab \<Rightarrow> db \<Rightarrow> bool" where
  "lab_edited a act operation i d res d' \<longleftrightarrow> t_projects d' = t_projects d \<and>
     (case res of
        Inl _ \<Rightarrow> t_labs d' = t_labs d
      | Inr l \<Rightarrow> \<exists>r l0 now l1. get_lab_row i d = Some r \<and> lab_from_row r = Inr l0 \<and>
          policy_can \<lparr>sb_user = ac_user a, sb_role = ac_role a,
              sb_course_roles = map_of (ac_course_roles a)\<rparr> act
            (LabResource i (lb_student l0) (lb_course l0)) = None \<and>
          operation now l0 = Inr l1 \<and> l = l1\<lparr>lb_events := []\<rparr> \<and>
          t_labs d' = put_row lr_id (lab_merge l1 r) (t_labs d))"

lemma save_lab_InrD:
  assumes "save_lab L l w = (Inr l', w')"
  shows "l' = l\<lparr>lb_events := []\<rparr> \<and> (\<exists>r. get_lab_row (lb_id l) (w_db w) = Some r \<and>
    t_labs (w_db w') = put_row lr_id (lab_merge l r) (t_labs (w_db w)) \<and>
    t_projects (w_db w') = t_projects (w_db w))"
proof -
  let ?w0 = "w\<lparr>w_stmt := Suc (w_stmt w), w_snap := Some (w_db w), w_aborted := False\<rparr>"
  from with_tx_InrD [OF assms [unfolded save_lab_def]] obtain w2
    where "lab_save L l ?w0 = (Inr l', w2)" "w_db w' = w_db w2" by auto
  with lab_save_rows [of L l ?w0 l' w2] show ?thesis by auto
qed

lemma save_lab_InlD: "save_lab L l w = (Inl e, w') \<Longrightarrow> w_db w' = w_db w"
  using with_tx_atomic [of "lab_save L l" w e w'] by (simp add: save_lab_def)

lemma can_lab_InrD:
  "can_lab a act l w = (Inr u, w') \<Longrightarrow> w' = w \<and>
     policy_can \<lparr>sb_user = ac_user a, sb_role = ac_role a, sb_course_roles = map_of (ac_course_roles a)\<rparr> act
       (LabResource (lb_id l) (lb_student l) (lb_course l)) = None"
  by (auto simp: can_lab_def ret_def throw_def split: option.splits)

lemma silent_can_lab [silent_intros]: "silent (can_lab a act l)"
  by (rule silentI) (auto simp: can_lab_def ret_def throw_def same_state_def split: option.splits)

lemma edit_lab_labs:
  assumes get: "get_lab_row i (w_db w) = Some r" "lab_from_row r = Inr l0"
    and pol: "policy_can \<lparr>sb_user = ac_user a, sb_role = ac_role a,
              sb_course_roles = map_of (ac_course_roles a)\<rparr> act
            (LabResource i (lb_student l0) (lb_course l0)) = None"
    and same: "w_db v = w_db w"
    and keep: "\<And>now l1. operation now l0 = Inr l1 \<Longrightarrow> lb_id l1 = lb_id l0"
    and run: "bind clock_now (\<lambda>now. bind (from_sum (operation now l0)) (save_lab L)) v = (res, w')"
  shows "lab_edited a act operation i (w_db w) res (w_db w')"
proof (cases res)
  case (Inl e)
  with run same have "w_db w' = w_db w"
    by (auto simp: bind_def clock_now_def from_sum_def dest: save_lab_InlD split: sum.splits)
  then show ?thesis by (simp add: lab_edited_def Inl)
next
  case (Inr l)
  with run obtain now l1 v2 where op: "operation now l0 = Inr l1" and s: "save_lab L l1 v2 = (Inr l, w')"
    and v2: "w_db v2 = w_db w" using same
    by (auto simp: bind_def clock_now_def from_sum_def split: sum.splits)
  have "lb_id l1 = i" using keep [OF op] lab_from_row_fields [OF get(2)] get_lab_row_id [OF get(1)] by simp
  with save_lab_InrD [OF s] get(1) v2
  have "l = l1\<lparr>lb_events := []\<rparr> \<and> t_labs (w_db w') = put_row lr_id (lab_merge l1 r) (t_labs (w_db w)) \<and>
      t_projects (w_db w') = t_projects (w_db w)" by auto
  then show ?thesis using get pol op unfolding lab_edited_def Inr sum.case by blast
qed

lemma load_lab_cases:
  assumes run: "bind (lab_get_by_id i) (\<lambda>l. bind (can_lab a act l) (\<lambda>_. f l)) w = (res, w')" and idle: "w_snap w = None"
  shows "(\<exists>e. res = Inl e \<and> w_db w' = w_db w) \<or>
    (\<exists>r l0 v. get_lab_row i (w_db w) = Some r \<and> lab_from_row r = Inr l0 \<and>
       policy_can \<lparr>sb_user = ac_user a, sb_role = ac_role a,
              sb_course_roles = map_of (ac_course_roles a)\<rparr> act
            (LabResource i (lb_student l0) (lb_course l0)) = None \<and>
       w_db v = w_db w \<and> w_snap v = None \<and> f l0 v = (res, w'))"
proof (cases "lab_get_by_id i w")
  case (Pair r1 w1)
  have s1: "w_db w1 = w_db w" "w_snap w1 = w_snap w"
    using same_stateD [OF silentD [OF silent_reads(2) Pair]] by simp_all
  show ?thesis
  proof (cases r1)
    case (Inl e)
    with run Pair s1 show ?thesis by (auto simp: bind_def)
  next
    case (Inr l0)
    from lab_get_InrD [OF Pair [unfolded Inr]] idle obtain r where r: "get_lab_row i (w_db w) = Some r"
      "lab_from_row r = Inr l0" by auto
    have id: "lb_id l0 = i" using lab_from_row_fields [OF r(2)] get_lab_row_id [OF r(1)] by simp
    show ?thesis
    proof (cases "can_lab a act l0 w1")
      case (Pair r2 w2)
      then show ?thesis
      proof (cases r2)
        case (Inl e)
        have "w_db w2 = w_db w1" using same_stateD [OF silentD [OF silent_can_lab Pair]] by simp
        with Inl Pair run \<open>lab_get_by_id i w = (r1, w1)\<close> \<open>r1 = Inr l0\<close> s1 show ?thesis
          by (auto simp: bind_def)
      next
        case (Inr u)
        from can_lab_InrD [OF Pair [unfolded Inr]] id have "w2 = w1" and
          "policy_can \<lparr>sb_user = ac_user a, sb_role = ac_role a,
              sb_course_roles = map_of (ac_course_roles a)\<rparr> act
            (LabResource i (lb_student l0) (lb_course l0)) = None" by simp_all
        moreover have "f l0 w1 = (res, w')" using run Pair Inr \<open>w2 = w1\<close> \<open>lab_get_by_id i w = (r1, w1)\<close> \<open>r1 = Inr l0\<close>
          by (simp add: bind_def)
        ultimately show ?thesis using r s1 idle by auto
      qed
    qed
  qed
qed

lemma lab_edited_err: "lab_edited a act operation i d (Inl e) d"
  by (simp add: lab_edited_def)

lemma operation_ids:
  "transition s why now l = Inr l1 \<Longrightarrow> lb_id l1 = lb_id l"
  "freeze by why til now l = Inr l1 \<Longrightarrow> lb_id l1 = lb_id l"
  "unfreeze til now l = Inr l1 \<Longrightarrow> lb_id l1 = lb_id l"
  "extend_cleanup til now l = Inr l1 \<Longrightarrow> lb_id l1 = lb_id l"
  by (auto simp: transition_Inr freeze_def unfreeze_def extend_cleanup_def lb_record_def Let_def
      split: if_splits sum.splits option.splits)

lemma lab_edited_queue:
  assumes "bind m (\<lambda>l. bind (attempt (enqueue (t l))) (\<lambda>_. ret l)) v = (res, w')"
    and "\<And>r v'. m v = (r, v') \<Longrightarrow> lab_edited a act operation i d r (w_db v')"
  shows "lab_edited a act operation i d res (w_db w')"
proof (cases "m v")
  case (Pair r v')
  show ?thesis
  proof (cases r)
    case (Inl e)
    with assms Pair show ?thesis by (auto simp: bind_def)
  next
    case (Inr l)
    with assms(1) Pair have "res = Inr l" "w_db w' = w_db v'"
      by (auto simp: bind_def attempt_def ret_def split: prod.splits dest!: enqueue_state dest: queue_onlyD(1))
    with assms(2) [OF Pair] Inr show ?thesis by simp
  qed
qed

text \<open>Stopping a lab: a transition to cleaning of a lab that is ready, frozen or failed.\<close>

definition stop_operation :: "time \<Rightarrow> lab \<Rightarrow> err + lab" where
  "stop_operation now l =
     (if lb_state l \<noteq> Ready \<and> lb_state l \<noteq> Frozen \<and> lb_state l \<noteq> Failed
      then Inl (bad_lab l (lstate_text Cleaning)) else transition Cleaning ''stop_requested'' now l)"

lemma stop_operation_id: "stop_operation now l = Inr l1 \<Longrightarrow> lb_id l1 = lb_id l"
  by (auto simp: stop_operation_def operation_ids split: if_splits)

lemma stop_lab_edits:
  assumes "w_snap w = None" "stop_lab d a i w = (res, w')"
  shows "lab_edited a ActionLabDelete stop_operation i (w_db w) res (w_db w')"
  using load_lab_cases [OF assms(2) [unfolded stop_lab_def] assms(1)]
proof (elim disjE exE conjE, goal_cases)
  case (1 e)
  then show ?case by (simp add: lab_edited_err)
next
  case (2 r l0 v)
  show ?case
  proof (cases "lb_state l0 \<noteq> Ready \<and> lb_state l0 \<noteq> Frozen \<and> lb_state l0 \<noteq> Failed")
    case True
    with 2 show ?thesis by (auto simp: throw_def lab_edited_err)
  next
    case False
    then have eq: "transition Cleaning ''stop_requested'' now l0 = stop_operation now l0" for now
      by (auto simp: stop_operation_def)
    let ?k = "\<lambda>l. bind (attempt (enqueue (cleanup_task (ld_lib d) (lb_id l) ''manual''))) (\<lambda>_. ret l)"
    have "bind (bind clock_now (\<lambda>now. bind (from_sum (stop_operation now l0)) (save_lab (ld_lib d)))) ?k v = (res, w')"
      using 2(6) False eq by (simp add: bind_assoc)
    then show ?thesis
      by (rule lab_edited_queue) (rule edit_lab_labs [OF 2(1,2,3,4) stop_operation_id])
  qed
qed

lemma unfreeze_lab_edits:
  assumes "w_snap w = None" "unfreeze_lab d a i w = (res, w')"
  shows "lab_edited a ActionLabUnfreeze (\<lambda>now. unfreeze (now + cleanup_after d) now) i (w_db w) res (w_db w')"
  using load_lab_cases [OF assms(2) [unfolded unfreeze_lab_def] assms(1)]
proof (elim disjE exE conjE, goal_cases)
  case (1 e)
  then show ?case by (simp add: lab_edited_err)
next
  case (2 r l0 v)
  from edit_lab_labs [where operation = "\<lambda>now. unfreeze (now + cleanup_after d) now",
      OF 2(1,2,3,4) operation_ids(3) 2(6)] show ?case .
qed

lemma extend_lab_edits:
  assumes "w_snap w = None" "extend_lab d a i dur w = (res, w')"
  shows "lab_edited a ActionLabExtend (\<lambda>now. extend_cleanup (now + dur) now) i (w_db w) res (w_db w')"
  using load_lab_cases [OF assms(2) [unfolded extend_lab_def] assms(1)]
proof (elim disjE exE conjE, goal_cases)
  case (1 e)
  then show ?case by (simp add: lab_edited_err)
next
  case (2 r l0 v)
  from edit_lab_labs [where operation = "\<lambda>now. extend_cleanup (now + dur) now",
      OF 2(1,2,3,4) operation_ids(4) 2(6)] show ?case .
qed

definition freeze_duration :: "lab_deps \<Rightarrow> int option \<Rightarrow> duration" where
  "freeze_duration d secs = (case secs of None \<Rightarrow> freeze_for d | Some n \<Rightarrow> wrap64 (n * second))"

lemma freeze_lab_edits:
  assumes "w_snap w = None" "freeze_lab d a i why secs w = (res, w')"
  shows "lab_edited a ActionLabFreeze (\<lambda>now. freeze (ac_user a) why (now + freeze_duration d secs) now)
      i (w_db w) res (w_db w')"
  using load_lab_cases [OF assms(2) [unfolded freeze_lab_def] assms(1)]
proof (elim disjE exE conjE, goal_cases)
  case (1 e)
  then show ?case by (simp add: lab_edited_err)
next
  case (2 r l0 v)
  show ?case
  proof (cases "secs \<noteq> None \<and> ac_role a = RoleStudent")
    case True
    with 2 show ?thesis by (auto simp: throw_def lab_edited_err)
  next
    case False
    with 2(6) have run: "bind clock_now (\<lambda>now. bind (from_sum (freeze (ac_user a) why
        (now + freeze_duration d secs) now l0)) (save_lab (ld_lib d))) v = (res, w')"
      by (auto simp: Let_def freeze_duration_def)
    from edit_lab_labs [where operation = "\<lambda>now. freeze (ac_user a) why (now + freeze_duration d secs) now",
      OF 2(1,2,3,4) operation_ids(2) run] show ?thesis .
  qed
qed

section \<open>Properties\<close>

definition sample_deps :: lab_deps where
  "sample_deps = \<lparr>ld_lib = sample_lib\<lparr>uuid_string := \<lambda>_. ''u''\<rparr>, ld_kek = [], ld_threshold_pct = 0, ld_quota_max_age = 0,
     ld_cleanup_after = 0, ld_freeze_for = 0\<rparr>"

definition sample_campus :: db where
  "sample_campus = sample_labs\<lparr>
     t_courses := [\<lparr>co_id = 4, co_external_id = ''x'', co_name = ''Linux'', co_ki_domain = ''d'', co_created_at = 1\<rparr>],
     t_quota := Some (zero_quota, 990)\<rparr>"

definition sample_input :: create_input where
  "sample_input = \<lparr>ci_student = 2, ci_course = 4, ci_template = 5, ci_request_id = ''r''\<rparr>"

definition sample_actor :: "role \<Rightarrow> user_id \<Rightarrow> actor" where
  "sample_actor r u = \<lparr>ac_user = u, ac_role = r, ac_course_roles = []\<rparr>"

text \<open>
  C1: creating a lab is all or nothing, whatever the database, the clocks and the queue do. If it
  succeeds there is exactly one more lab, deploying, that clashes with no other active lab of the
  student in the course, on a project of the course's domain that was free and is now recorded as
  rented by this lab. If it returns an error, no project changed and no lab was added but,
  with the pool empty, the record of the rejected attempt.
\<close>
theorem create_lab_outcome:
  assumes "w_snap w = None" "distinct (map pr_id (t_projects (w_db w)))"
    "0 \<notin> pr_id ` set (t_projects (w_db w))" "create_lab d inp w = (res, w')"
  shows "case res of
      Inr l \<Rightarrow> created_ok inp (t_projects (w_db w)) (t_labs (w_db w)) l (w_db w')
    | Inl e \<Rightarrow> create_refused inp (t_projects (w_db w)) (t_labs (w_db w)) e (w_db w')"
  using create_lab_spec [OF assms(3,2), of "t_labs (w_db w)" d inp] assms(1,4)
  by (fastforce simp: spec_def same_tables_def split: sum.split)

lemma create_lab_outcome_witness:
  "\<exists>l w'. create_lab sample_deps sample_input (world_of () sample_campus) = (Inr l, w') \<and>
     created_ok sample_input (t_projects sample_campus) (t_labs sample_campus) l (w_db w')"
proof -
  have "case create_lab sample_deps sample_input (world_of () sample_campus) of
      (Inl _, _) \<Rightarrow> False | (Inr _, _) \<Rightarrow> True" by code_simp
  then obtain l w' where run: "create_lab sample_deps sample_input (world_of () sample_campus) = (Inr l, w')"
    by (auto split: prod.splits sum.splits)
  have "distinct (map pr_id (t_projects sample_campus)) \<and> 0 \<notin> pr_id ` set (t_projects sample_campus)"
    by (simp add: sample_campus_def sample_labs_def sample_pool_def sample_row_def)
  with create_lab_outcome [OF _ _ _ run] run show ?thesis by simp
qed

lemma quota_cache_read_InrD:
  assumes "quota_cache_read w = (Inr (snap, age), w')" "w_snap w = None"
  shows "(\<exists>taken now. t_quota (w_db w) = Some (snap, taken) \<and> age = time_sub now taken) \<or>
    (snap = zero_quota \<and> age = 2 ^ 62)"
  using assms unfolding quota_cache_read_def one_row_def
  by (auto simp: bind_def attempt_def conn_query_def clock_now_def ret_def throw_def Let_def
      split: sum.splits option.splits if_splits)



text \<open>
  C17: the four operations a person runs on a lab. Each changes the database only if the policy
  allows the actor the action on the lab as it is stored, and then exactly the lab's row changes,
  to the result of the aggregate's operation: stopping moves a ready, frozen or failed lab to
  cleaning, freezing, unfreezing and extending set the timers. On any error no lab and no
  project has changed.
\<close>
theorem lab_operations:
  assumes "w_snap w = None"
  shows "(stop_lab d a i w = (res, w') \<longrightarrow>
      lab_edited a ActionLabDelete stop_operation i (w_db w) res (w_db w')) \<and>
    (freeze_lab d a i why secs w = (res, w') \<longrightarrow> lab_edited a ActionLabFreeze
       (\<lambda>now. freeze (ac_user a) why (now + freeze_duration d secs) now) i (w_db w) res (w_db w')) \<and>
    (unfreeze_lab d a i w = (res, w') \<longrightarrow> lab_edited a ActionLabUnfreeze
       (\<lambda>now. unfreeze (now + cleanup_after d) now) i (w_db w) res (w_db w')) \<and>
    (extend_lab d a i dur w = (res, w') \<longrightarrow> lab_edited a ActionLabExtend
       (\<lambda>now. extend_cleanup (now + dur) now) i (w_db w) res (w_db w'))"
  using assms by (simp add: stop_lab_edits freeze_lab_edits unfreeze_lab_edits extend_lab_edits)

lemma lab_operations_witness:
  "\<exists>l w'. stop_lab sample_deps (sample_actor RoleStudent 1) 7 (world_of () sample_campus) = (Inr l, w') \<and>
     lab_edited (sample_actor RoleStudent 1) ActionLabDelete stop_operation 7 sample_campus (Inr l) (w_db w')"
proof -
  have "case stop_lab sample_deps (sample_actor RoleStudent 1) 7 (world_of () sample_campus) of
      (Inl _, _) \<Rightarrow> False | (Inr _, _) \<Rightarrow> True" by code_simp
  then obtain l w' where
    run: "stop_lab sample_deps (sample_actor RoleStudent 1) 7 (world_of () sample_campus) = (Inr l, w')"
    by (auto split: prod.splits sum.splits)
  from lab_operations [of "world_of () sample_campus"] run show ?thesis by fastforce
qed

lemma list_lab_rows_mem:
  "r \<in> set (list_lab_rows student course courses states limit d) \<Longrightarrow>
     r \<in> set (t_labs d) \<and> (\<forall>s. student = Some s \<longrightarrow> lr_student r = s) \<and>
     (\<forall>c. course = Some c \<longrightarrow> lr_course r = c) \<and> (courses \<noteq> [] \<longrightarrow> lr_course r \<in> set courses) \<and>
     (states \<noteq> [] \<longrightarrow> lr_state r \<in> set states)"
  unfolding list_lab_rows_def by (drule in_set_takeD) (auto split: option.splits)

lemma labs_from_rows_mem:
  "labs_from_rows rows = Inr ls \<Longrightarrow> l \<in> set ls \<Longrightarrow> \<exists>r \<in> set rows. lab_from_row r = Inr l"
  by (induction rows arbitrary: ls) (auto split: sum.splits)

lemma lab_list_mem:
  assumes "lab_list f w = (Inr ls, w')" "l \<in> set ls"
  shows "\<exists>r \<in> set (t_labs (committed w)). lab_from_row r = Inr l \<and>
    (\<forall>s. lf_student f = Some s \<longrightarrow> lb_student l = s) \<and> (\<forall>c. lf_course f = Some c \<longrightarrow> lb_course l = c) \<and>
    (lf_courses f \<noteq> [] \<longrightarrow> lb_course l \<in> set (lf_courses f)) \<and> (lf_states f \<noteq> [] \<longrightarrow> lb_state l \<in> set (lf_states f))"
proof -
  from assms(1) obtain rows limit where
    rows: "rows = list_lab_rows (lf_student f) (lf_course f) (lf_courses f) (lf_states f) limit (committed w)"
    and ls: "labs_from_rows rows = Inr ls"
    unfolding lab_list_def by (fastforce dest!: run_dests simp: io_basic split: sum.splits)
  from labs_from_rows_mem [OF ls assms(2)] obtain r where r: "r \<in> set rows" "lab_from_row r = Inr l" ..
  from list_lab_rows_mem [OF r(1) [unfolded rows]] lab_from_row_fields [OF r(2)] r(2) show ?thesis
    by (intro bexI [of _ r]) simp_all
qed

lemma taught_course_role:
  "distinct (map fst (ac_course_roles a)) \<Longrightarrow> c \<in> set (taught_course_ids a) \<Longrightarrow>
     map_of (ac_course_roles a) c = Some CourseRoleTeacher"
  by (auto simp: taught_course_ids_def)

lemma read_policy:
  "sb_role s = RoleAdmin \<or> sb_course_roles s c = Some CourseRoleTeacher \<or> owner = sb_user s \<Longrightarrow>
     policy_can s ActionLabRead (LabResource i owner c) = None"
  by (auto simp: policy_can_def can_act_on_lab_def)

text \<open>
  listing labs discloses nothing that reading them one by one would not: every lab in the
  list is stored, is in one of the requested states and is one that the policy lets the actor
  read, whatever role the actor has and whatever course is asked for.
\<close>
theorem list_labs_readable:
  assumes "distinct (map fst (ac_course_roles a))" "list_labs a course states w = (Inr ls, w')" "l \<in> set ls"
  shows "(\<exists>r \<in> set (t_labs (committed w)). lab_from_row r = Inr l) \<and> (states \<noteq> [] \<longrightarrow> lb_state l \<in> set states) \<and>
    policy_can \<lparr>sb_user = ac_user a, sb_role = ac_role a, sb_course_roles = map_of (ac_course_roles a)\<rparr>
      ActionLabRead (LabResource (lb_id l) (lb_student l) (lb_course l)) = None"
proof -
  define f where "f = \<lparr>lf_student = None, lf_course = course, lf_courses = [], lf_states = states,
    lf_limit = default_list_limit\<rparr>"
  have "\<exists>g. lab_list g w = (Inr ls, w') \<and> lf_states g = states \<and>
     (ac_role a = RoleAdmin \<or> lf_student g = Some (ac_user a) \<or>
      (\<exists>c. lf_course g = Some c \<and> map_of (ac_course_roles a) c = Some CourseRoleTeacher) \<or>
      (lf_courses g \<noteq> [] \<and> lf_courses g = taught_course_ids a))"
  proof (cases "ac_role a")
    case RoleTeacher
    then show ?thesis using assms(2,3)
      by (auto simp: list_labs_def throw_def ret_def split: option.splits if_splits
          intro: exI [of _ "f\<lparr>lf_courses := taught_course_ids a\<rparr>"] exI [of _ f] simp flip: f_def)
        (auto simp: f_def)
  qed (use assms(2) in \<open>auto simp: list_labs_def Let_def\<close>)
  then obtain g where g: "lab_list g w = (Inr ls, w')" "lf_states g = states" and
    scope: "ac_role a = RoleAdmin \<or> lf_student g = Some (ac_user a) \<or>
      (\<exists>c. lf_course g = Some c \<and> map_of (ac_course_roles a) c = Some CourseRoleTeacher) \<or>
      (lf_courses g \<noteq> [] \<and> lf_courses g = taught_course_ids a)" by blast
  from lab_list_mem [OF g(1) assms(3)] g(2) scope taught_course_role [OF assms(1)] show ?thesis
    by (intro conjI read_policy) auto
qed

lemma list_labs_readable_witness:
  "\<exists>l w'. list_labs (sample_actor RoleStudent 1) None [] (world_of () sample_campus) = (Inr [l], w') \<and>
     policy_can \<lparr>sb_user = 1, sb_role = RoleStudent, sb_course_roles = Map.empty\<rparr>
       ActionLabRead (LabResource (lb_id l) (lb_student l) (lb_course l)) = None"
proof -
  have "case list_labs (sample_actor RoleStudent 1) None [] (world_of () sample_campus) of
      (Inr [_], _) \<Rightarrow> True | _ \<Rightarrow> False" by code_simp
  then obtain l w' where run: "list_labs (sample_actor RoleStudent 1) None [] (world_of () sample_campus) = (Inr [l], w')"
    by (auto split: prod.splits sum.splits list.splits)
  from list_labs_readable [OF _ run, of l] run show ?thesis by (simp add: sample_actor_def)
qed

lemma secret_get_InrD:
  assumes "secret_get L kek s kind ref_id w = (Inr key, w')"
  shows "\<exists>x dek. get_secret_row s (committed w) = Some x \<and> se_kind x = kind \<and> se_ref x = ref_id \<and>
    decrypt_dek L kek (se_dek_ct x) (se_dek_nonce x) (se_kek_version x) (se_aad x) = Inr dek \<and>
    decrypt_with_key L dek (se_ct x) (se_nonce x) (se_aad x) = Some key"
proof -
  from bind_InrD [OF assms [unfolded secret_get_def store_get_def]] obtain x w1 where
    q: "on_err (or_no_rows ErrNotFound ''envkek: get secret'')
       (one_row (conn_query (get_secret_row s))) w = (Inr x, w1)" and
    k: "(if se_kind x \<noteq> kind \<or> se_ref x \<noteq> ref_id then throw (Sentinel ErrForbidden)
     else case decrypt_dek L kek (se_dek_ct x) (se_dek_nonce x) (se_kek_version x) (se_aad x) of
       Inl e \<Rightarrow> throw (Wrapped ''envkek: decrypt secret'' (Sentinel ErrSecretMismatch))
     | Inr dek \<Rightarrow> (case decrypt_with_key L dek (se_ct x) (se_nonce x) (se_aad x) of
         None \<Rightarrow> throw (Wrapped ''envkek: decrypt secret'' (Sentinel ErrSecretMismatch))
       | Some plaintext \<Rightarrow> bind (append_access_audit L s) (\<lambda>_. ret plaintext))) w1 = (Inr key, w')"
    by blast
  have row: "get_secret_row s (committed w) = Some x"
    using q by (auto dest!: on_err_InrD one_row_InrD conn_query_InrD)
  show ?thesis
  proof (cases "decrypt_dek L kek (se_dek_ct x) (se_dek_nonce x) (se_kek_version x) (se_aad x)")
    case (Inl e)
    with k show ?thesis by (simp add: throw_def split: if_splits)
  next
    case (Inr dek)
    show ?thesis
    proof (cases "decrypt_with_key L dek (se_ct x) (se_nonce x) (se_aad x)")
      case None
      with Inr k show ?thesis by (simp add: throw_def split: if_splits)
    next
      case (Some p)
      with Inr k have "se_kind x = kind \<and> se_ref x = ref_id \<and> bind (append_access_audit L s) (\<lambda>_. ret p) w1 = (Inr key, w')"
        by (simp add: throw_def split: if_splits)
      moreover from this have "p = key" by (auto dest!: bind_InrD simp: ret_def)
      ultimately show ?thesis using row Inr Some by blast
    qed
  qed
qed

text \<open>
  the SSH key of a lab goes to its owner only: whoever receives a key is the student of the
  lab as it is stored, and the key is the plaintext of a secret that was sealed as an SSH key of
  this very lab.
\<close>
theorem ssh_key_owner:
  assumes "get_lab_ssh_key d a i w = (Inr key, w')"
  shows "\<exists>r s x dek. get_lab_row i (committed w) = Some r \<and> lr_student r = ac_user a \<and>
    lr_student_key r = Some s \<and> x \<in> set (t_secrets (committed w)) \<and> se_id x = s \<and>
    se_kind x = ''ssh_private_key'' \<and> se_ref x = uuid_string (ld_lib d) i \<and>
    decrypt_dek (ld_lib d) (ld_kek d) (se_dek_ct x) (se_dek_nonce x) (se_kek_version x) (se_aad x) = Inr dek \<and>
    decrypt_with_key (ld_lib d) dek (se_ct x) (se_nonce x) (se_aad x) = Some key"
proof -
  from assms obtain l w1 s where l: "lab_get_by_id i w = (Inr l, w1)" "lb_student l = ac_user a" "lb_student_key l = Some s"
    and g: "secret_get (ld_lib d) (ld_kek d) s ''ssh_private_key'' (uuid_string (ld_lib d) (lb_id l)) w1 = (Inr key, w')"
    unfolding get_lab_ssh_key_def by (auto dest!: bind_InrD simp: io_basic split: if_splits option.splits)
  from lab_get_InrD [OF l(1)] obtain r where r: "get_lab_row i (committed w) = Some r" "lab_from_row r = Inr l"
    "w1 = w\<lparr>w_stmt := Suc (w_stmt w)\<rparr>" by blast
  have c: "committed w1 = committed w" by (simp add: r(3) committed_def split: option.split)
  have "lr_student_key r = Some s" using r(2) l(3) by (auto simp: lab_from_row_def split: sum.splits)
  moreover have "lr_student r = ac_user a" "lb_id l = i"
    using lab_from_row_fields [OF r(2)] get_lab_row_id [OF r(1)] l(2) by simp_all
  moreover from secret_get_InrD [OF g] obtain x dek where x: "get_secret_row s (committed w) = Some x"
    "se_kind x = ''ssh_private_key''" "se_ref x = uuid_string (ld_lib d) (lb_id l)"
    "decrypt_dek (ld_lib d) (ld_kek d) (se_dek_ct x) (se_dek_nonce x) (se_kek_version x) (se_aad x) = Inr dek"
    "decrypt_with_key (ld_lib d) dek (se_ct x) (se_nonce x) (se_aad x) = Some key"
    unfolding c by blast
  moreover from x(1) have "x \<in> set (t_secrets (committed w)) \<and> se_id x = s"
    unfolding get_secret_row_def by (rule find_row_SomeD)
  ultimately show ?thesis using r(1) 
    by (intro exI [of _ r] exI [of _ s] exI [of _ x] exI [of _ dek]) simp
qed

definition sample_keys :: db where
  "sample_keys = sample_campus\<lparr>
     t_labs := [(sample_lab_row 7 1 Ready (Some 3) 50)\<lparr>lr_student_key := Some 9\<rparr>],
     t_secrets := [\<lparr>se_id = 9, se_kind = ''ssh_private_key'', se_ref = ''u'', se_dek_ct = replicate 32 5,
       se_dek_nonce = replicate 12 1, se_ct = [1, 2], se_nonce = replicate 12 2, se_aad = ''a'',
       se_kek_version = 1, se_created_at = 1\<rparr>]\<rparr>"

lemma ssh_key_owner_witness:
  "\<exists>key w' r. get_lab_ssh_key (sample_deps\<lparr>ld_kek := replicate 32 7\<rparr>) (sample_actor RoleStudent 1) 7
     (world_of () sample_keys) = (Inr key, w') \<and> get_lab_row 7 sample_keys = Some r \<and> lr_student r = 1"
  (is "\<exists>key w' r. get_lab_ssh_key ?d ?a 7 ?w = _ \<and> _")
proof -
  have "case get_lab_ssh_key ?d ?a 7 ?w of (Inl _, _) \<Rightarrow> False | (Inr _, _) \<Rightarrow> True" by code_simp
  then obtain key w' where run: "get_lab_ssh_key ?d ?a 7 ?w = (Inr key, w')"
    by (auto split: prod.splits sum.splits)
  from ssh_key_owner [OF run] run show ?thesis by (auto simp: sample_actor_def)
qed

end
