(* ===== verification/CloudInmem.thy ===== *)
theory CloudInmem
  imports Ports
begin

text \<open>
  The contract of a cloud provider, stated as a locale over the operations of
  \<open>ports.CloudProvider\<close>, and \<open>internal/adapters/cloud/inmem/provider.go\<close>, the in-memory
  provider that meets it. Go maps are association lists: the code looks them up by key or for an
  entry that is unique, so the random order of iteration does not show. The mutex makes each
  method one step. Key material, the clock and a done context are supplied by the state.
\<close>

section \<open>The contract\<close>

text \<open>
  Resources are scoped: an identifier stands for a project and a name, and no two servers (or
  networks) of a state share both. Creating is idempotent on project and name, deleting is
  idempotent on the identifier, and no operation touches another kind of resource. A failed
  creation may have made its resource and a failed deletion may have deleted it, but nothing else
  changes.

  The provider's side of the contract is left to the provider: \<open>scope_ok\<close> and \<open>name_ok\<close> say which
  project identifiers and server names it takes, \<open>key_of\<close> what identifies a key pair (of a project, or
  of the account), and \<open>lost p\<close> what a successful deletion in the project \<open>p\<close> promises of the entry.
\<close>

type_synonym resource_table = "string \<Rightarrow> (string \<times> string) option"

definition unique_names :: "resource_table \<Rightarrow> bool" where
  "unique_names t \<longleftrightarrow> (\<forall>i j x. t i = Some x \<longrightarrow> t j = Some x \<longrightarrow> i = j)"

text \<open>One creation: the entry was there, or it is new under an unused identifier.\<close>

definition made :: "string \<times> string \<Rightarrow> string \<Rightarrow> resource_table \<Rightarrow> resource_table \<Rightarrow> bool" where
  "made x i t t' \<longleftrightarrow> t' = t(i \<mapsto> x) \<and> (t i = Some x \<or> t i = None \<and> (\<forall>j. t j \<noteq> Some x))"

lemma made_unique: "unique_names t \<Longrightarrow> made x i t t' \<Longrightarrow> unique_names t'"
  by (auto simp: unique_names_def made_def split: if_splits)

lemma made_same: "made x i t t' \<Longrightarrow> t j = Some x \<Longrightarrow> unique_names t \<Longrightarrow> i = j \<and> t' = t"
  unfolding unique_names_def made_def by (metis fun_upd_triv)

lemma made_old: "made x i t t' \<Longrightarrow> t' j = Some y \<Longrightarrow> t j = Some y \<or> y = x"
  by (auto simp: made_def split: if_splits)

lemma made_keeps: "made x i t t' \<Longrightarrow> t j = Some y \<Longrightarrow> t' j = Some y"
  by (auto simp: made_def)

lemma made_new: "made x i t t' \<Longrightarrow> t' i = Some x"
  by (simp add: made_def)

text \<open>A failed creation made the entry or changed nothing; a deletion removes at most its entry.\<close>

definition tried :: "string \<times> string \<Rightarrow> resource_table \<Rightarrow> resource_table \<Rightarrow> bool" where
  "tried x t t' \<longleftrightarrow> t' = t \<or> (\<exists>i. made x i t t')"

definition dropped :: "string \<Rightarrow> resource_table \<Rightarrow> resource_table \<Rightarrow> bool" where
  "dropped i t t' \<longleftrightarrow> t' = t \<or> t' = t(i := None)"

lemma tried_unique: "unique_names t \<Longrightarrow> tried x t t' \<Longrightarrow> unique_names t'"
  by (auto simp: tried_def intro: made_unique)

lemma tried_refl [simp]: "tried x t t"
  by (simp add: tried_def)

lemma dropped_refl [simp]: "dropped i t t"
  by (simp add: dropped_def)

lemma dropped_unique: "unique_names t \<Longrightarrow> dropped i t t' \<Longrightarrow> unique_names t'"
  by (auto simp: dropped_def unique_names_def split: if_splits)

locale cloud_provider =
  fixes C :: "'c cloud_ops"
    and ok :: "'c \<Rightarrow> bool"
    and servers networks :: "'c \<Rightarrow> resource_table"
    and keys :: "'c \<Rightarrow> 'k set"
    and key_of :: "string \<Rightarrow> string \<Rightarrow> 'k"
    and lost :: "string \<Rightarrow> (string \<times> string) option \<Rightarrow> bool"
    and scope_ok name_ok :: "string \<Rightarrow> bool"
  assumes unique: "ok c \<Longrightarrow> unique_names (servers c) \<and> unique_names (networks c)"
    and nothing_lost: "lost p None"
    and boot: "ok c \<Longrightarrow> scope_ok p \<Longrightarrow> name_ok (ss_name s) \<Longrightarrow> c_boot_server C p s c = (r, c') \<Longrightarrow>
      ok c' \<and> networks c' = networks c \<and> keys c' = keys c \<and>
      (case r of Inl _ \<Rightarrow> tried (p, ss_name s) (servers c) (servers c') | Inr i \<Rightarrow> made (p, ss_name s) i (servers c) (servers c'))"
    and wait: "ok c \<Longrightarrow> scope_ok p \<Longrightarrow> c_wait_active C p i c = (d, c') \<Longrightarrow> ok c' \<and> servers c' = servers c \<and>
      networks c' = networks c \<and> keys c' = keys c"
    and fip: "ok c \<Longrightarrow> scope_ok p \<Longrightarrow> c_allocate_fip C p i c = (f, c') \<Longrightarrow> ok c' \<and> servers c' = servers c \<and>
      networks c' = networks c \<and> keys c' = keys c"
    and network: "ok c \<Longrightarrow> scope_ok p \<Longrightarrow> c_create_network C p n c = (r, c') \<Longrightarrow> ok c' \<and> servers c' = servers c \<and>
      keys c' = keys c \<and> (case r of Inl _ \<Rightarrow> tried (p, ns_name n) (networks c) (networks c')
        | Inr i \<Rightarrow> made (p, ns_name n) i (networks c) (networks c'))"
    and keypair: "ok c \<Longrightarrow> scope_ok p \<Longrightarrow> c_create_keypair C p k c = (q, c') \<Longrightarrow> ok c' \<and> servers c' = servers c \<and>
      networks c' = networks c \<and> (case q of Inl _ \<Rightarrow> keys c' = keys c \<or> keys c' = insert (key_of p k) (keys c)
        | Inr kp \<Rightarrow> kp_name kp = k \<and> keys c' = insert (key_of p k) (keys c))"
    and delete_server: "ok c \<Longrightarrow> scope_ok p \<Longrightarrow> c_delete_server C p i c = (d, c') \<Longrightarrow> ok c' \<and> networks c' = networks c \<and>
      keys c' = keys c \<and> dropped i (servers c) (servers c') \<and> (d = Inr () \<longrightarrow> lost p (servers c' i))"
    and delete_network: "ok c \<Longrightarrow> scope_ok p \<Longrightarrow> c_delete_network C p i c = (d, c') \<Longrightarrow> ok c' \<and> servers c' = servers c \<and>
      keys c' = keys c \<and> dropped i (networks c) (networks c') \<and> (d = Inr () \<longrightarrow> lost p (networks c' i))"
    and delete_keypair: "ok c \<Longrightarrow> scope_ok p \<Longrightarrow> c_delete_keypair C p k c = (d, c') \<Longrightarrow> ok c' \<and> servers c' = servers c \<and>
      networks c' = networks c \<and> keys c' \<subseteq> keys c \<and> keys c - {key_of p k} \<subseteq> keys c' \<and> (d = Inr () \<longrightarrow> key_of p k \<notin> keys c')"
begin

text \<open>A retry finds the server of the first attempt: same identifier, nothing new.\<close>

lemma boot_twice:
  assumes "ok c" "scope_ok p" "name_ok (ss_name s)" "c_boot_server C p s c = (Inr i, c1)" "c_boot_server C p s c1 = (Inr j, c2)"
  shows "i = j \<and> servers c2 = servers c1"
proof -
  from boot [OF assms(1-4)] have 1: "ok c1" "servers c1 i = Some (p, ss_name s)"
    by (auto dest: made_new)
  with boot [OF 1(1) assms(2,3,5)] unique [OF 1(1)] show ?thesis by (auto dest: made_same)
qed

text \<open>A deletion keeps what was lost before.\<close>

lemma lost_dropped: "lost p (t j) \<Longrightarrow> dropped i t t' \<Longrightarrow> lost p (t' j)"
  by (auto simp: dropped_def nothing_lost)

end

section \<open>The provider's state\<close>

record cluster =
  cl_vcpus :: int
  cl_ram_mb :: int
  cl_disk_gb :: int

definition default_capacity :: cluster where
  "default_capacity = \<lparr>cl_vcpus = 100, cl_ram_mb = 256 * 1024, cl_disk_gb = 4 * 1024\<rparr>"

record faults =
  ft_quota :: "err option"
  ft_create_keypair :: "err option"
  ft_delete_keypair :: "err option"
  ft_boot_server :: "err option"
  ft_wait_active :: "err option"
  ft_allocate_fip :: "err option"
  ft_delete_server :: "err option"
  ft_create_network :: "err option"
  ft_delete_network :: "err option"
  ft_boot_latency :: duration

definition no_faults :: faults where
  "no_faults = \<lparr>ft_quota = None, ft_create_keypair = None, ft_delete_keypair = None,
     ft_boot_server = None, ft_wait_active = None, ft_allocate_fip = None, ft_delete_server = None,
     ft_create_network = None, ft_delete_network = None, ft_boot_latency = 0\<rparr>"

record server =
  sv_id :: string
  sv_project :: string
  sv_name :: string
  sv_image :: string
  sv_flavor :: string
  sv_network :: string
  sv_keypair :: string
  sv_metadata :: "(string \<times> string) list"
  sv_booted_at :: time
  sv_resources :: resource_request

record stored_key =
  sk_key :: string
  sk_name :: string
  sk_project :: string
  sk_public :: string
  sk_private :: bytes
  sk_fingerprint :: string

record network =
  nw_id :: string
  nw_project :: string
  nw_name :: string
  nw_cidr :: string

text \<open>
  \<open>im_now\<close> and \<open>im_done\<close> give the clock's reading and the error of a context that is done before
  the wait is over, \<open>im_keygen\<close> the outcome of \<open>ed25519.GenerateKey\<close> with the encodings of the
  key (public line, PEM and fingerprint), each indexed by the number of earlier uses.
\<close>

record inmem =
  im_capacity :: cluster
  im_used :: cluster
  im_servers :: "server list"
  im_keypairs :: "stored_key list"
  im_networks :: "network list"
  im_floating :: "(string \<times> string) list"
  im_faults :: faults
  im_seq :: int
  im_now :: "nat \<Rightarrow> time"
  im_done :: "nat \<Rightarrow> err option"
  im_tick :: nat
  im_keygen :: "nat \<Rightarrow> err + string \<times> bytes \<times> string"
  im_keys_made :: nat

definition new_provider ::
  "cluster \<Rightarrow> faults \<Rightarrow> (nat \<Rightarrow> time) \<Rightarrow> (nat \<Rightarrow> err option) \<Rightarrow> (nat \<Rightarrow> err + string \<times> bytes \<times> string) \<Rightarrow> inmem" where
  "new_provider cap f now done gen = \<lparr>im_capacity =
      (if cap = \<lparr>cl_vcpus = 0, cl_ram_mb = 0, cl_disk_gb = 0\<rparr> then default_capacity else cap),
     im_used = \<lparr>cl_vcpus = 0, cl_ram_mb = 0, cl_disk_gb = 0\<rparr>, im_servers = [], im_keypairs = [],
     im_networks = [], im_floating = [], im_faults = f, im_seq = 0, im_now = now, im_done = done,
     im_tick = 0, im_keygen = gen, im_keys_made = 0\<rparr>"

section \<open>Its operations\<close>

definition im_read_clock :: "inmem \<Rightarrow> time \<times> inmem" where
  "im_read_clock p = (im_now p (im_tick p), p\<lparr>im_tick := Suc (im_tick p)\<rparr>)"

definition next_id :: "string \<Rightarrow> inmem \<Rightarrow> string \<times> inmem" where
  "next_id prefix p = (let n = im_seq p + 1 in (prefix @ ''-'' @ pad6_text n, p\<lparr>im_seq := n\<rparr>))"

definition request_from_flavor :: "string \<Rightarrow> resource_request" where
  "request_from_flavor f =
     (if f = ''m1.tiny'' then \<lparr>rr_vcpus = 1, rr_ram_mb = 512, rr_disk_gb = 1\<rparr>
      else if f = ''start'' then \<lparr>rr_vcpus = 1, rr_ram_mb = 1024, rr_disk_gb = 10\<rparr>
      else if f = ''m1.small'' \<or> f = ''small'' then \<lparr>rr_vcpus = 1, rr_ram_mb = 2048, rr_disk_gb = 20\<rparr>
      else if f = ''m1.medium'' \<or> f = ''medium'' then \<lparr>rr_vcpus = 2, rr_ram_mb = 4096, rr_disk_gb = 40\<rparr>
      else if f = ''m1.large'' \<or> f = ''large'' then \<lparr>rr_vcpus = 4, rr_ram_mb = 8192, rr_disk_gb = 80\<rparr>
      else \<lparr>rr_vcpus = 1, rr_ram_mb = 2048, rr_disk_gb = 20\<rparr>)"

definition fits :: "cluster \<Rightarrow> resource_request \<Rightarrow> cluster \<Rightarrow> bool" where
  "fits u r cap \<longleftrightarrow> wrap64 (cl_vcpus u + rr_vcpus r) \<le> cl_vcpus cap \<and>
     wrap64 (cl_ram_mb u + rr_ram_mb r) \<le> cl_ram_mb cap \<and>
     wrap64 (cl_disk_gb u + rr_disk_gb r) \<le> cl_disk_gb cap"

definition use_more :: "resource_request \<Rightarrow> cluster \<Rightarrow> cluster" where
  "use_more r u = \<lparr>cl_vcpus = wrap64 (cl_vcpus u + rr_vcpus r),
     cl_ram_mb = wrap64 (cl_ram_mb u + rr_ram_mb r), cl_disk_gb = wrap64 (cl_disk_gb u + rr_disk_gb r)\<rparr>"

definition use_less :: "resource_request \<Rightarrow> cluster \<Rightarrow> cluster" where
  "use_less r u = \<lparr>cl_vcpus = wrap64 (cl_vcpus u - rr_vcpus r),
     cl_ram_mb = wrap64 (cl_ram_mb u - rr_ram_mb r), cl_disk_gb = wrap64 (cl_disk_gb u - rr_disk_gb r)\<rparr>"

definition im_quota :: "inmem \<Rightarrow> (err + quota_snapshot) \<times> inmem" where
  "im_quota p = (case ft_quota (im_faults p) of Some e \<Rightarrow> (Inl e, p)
   | None \<Rightarrow> (case im_read_clock p of (now, p') \<Rightarrow>
      (Inr \<lparr>qs_vcpus = \<lparr>cap_used = cl_vcpus (im_used p), cap_total = cl_vcpus (im_capacity p), cap_unit = ''vcpu''\<rparr>,
         qs_ram = \<lparr>cap_used = cl_ram_mb (im_used p), cap_total = cl_ram_mb (im_capacity p), cap_unit = ''MB''\<rparr>,
         qs_disk = \<lparr>cap_used = cl_disk_gb (im_used p), cap_total = cl_disk_gb (im_capacity p), cap_unit = ''GB''\<rparr>,
         qs_fetched_at = now\<rparr>, p')))"

definition keypair_of :: "stored_key \<Rightarrow> keypair" where
  "keypair_of k = \<lparr>kp_name = sk_name k, kp_public = sk_public k, kp_private = sk_private k,
     kp_fingerprint = sk_fingerprint k\<rparr>"

definition im_create_keypair :: "string \<Rightarrow> string \<Rightarrow> inmem \<Rightarrow> (err + keypair) \<times> inmem" where
  "im_create_keypair project name p = (case ft_create_keypair (im_faults p) of Some e \<Rightarrow> (Inl e, p)
   | None \<Rightarrow> (let key = project @ ''/'' @ name in
      case find_row sk_key key (im_keypairs p) of
        Some k \<Rightarrow> (Inr (keypair_of k), p)
      | None \<Rightarrow> (let p1 = p\<lparr>im_keys_made := Suc (im_keys_made p)\<rparr> in
          case im_keygen p (im_keys_made p) of
            Inl e \<Rightarrow> (Inl (Wrapped ''generate keypair'' e), p1)
          | Inr (public, private, finger) \<Rightarrow>
             (let k = \<lparr>sk_key = key, sk_name = name, sk_project = project, sk_public = public,
                 sk_private = private, sk_fingerprint = finger\<rparr> in
              (Inr (keypair_of k), p1\<lparr>im_keypairs := im_keypairs p @ [k]\<rparr>)))))"

definition im_delete_keypair :: "string \<Rightarrow> string \<Rightarrow> inmem \<Rightarrow> (err + unit) \<times> inmem" where
  "im_delete_keypair project name p = (case ft_delete_keypair (im_faults p) of Some e \<Rightarrow> (Inl e, p)
   | None \<Rightarrow> (Inr (), p\<lparr>im_keypairs :=
       filter (\<lambda>k. sk_key k \<noteq> project @ ''/'' @ name) (im_keypairs p)\<rparr>))"

definition im_boot_server :: "string \<Rightarrow> server_spec \<Rightarrow> inmem \<Rightarrow> (err + string) \<times> inmem" where
  "im_boot_server project s p = (case ft_boot_server (im_faults p) of Some e \<Rightarrow> (Inl e, p)
   | None \<Rightarrow>
      (case List.find (\<lambda>v. sv_project v = project \<and> sv_name v = ss_name s) (im_servers p) of
         Some v \<Rightarrow> (Inr (sv_id v), p)
       | None \<Rightarrow>
          (let req = request_from_flavor (ss_flavor s) in
           if \<not> fits (im_used p) req (im_capacity p)
           then (Inl (Plain ''inmem: cluster capacity exhausted''), p)
           else (case next_id ''srv'' p of (i, p1) \<Rightarrow> case im_read_clock p1 of (now, p2) \<Rightarrow>
             (Inr i, p2\<lparr>im_servers := im_servers p @ [\<lparr>sv_id = i, sv_project = project,
                 sv_name = ss_name s, sv_image = ss_image s, sv_flavor = ss_flavor s,
                 sv_network = ss_network s, sv_keypair = ss_keypair s, sv_metadata = ss_metadata s,
                 sv_booted_at = now + ft_boot_latency (im_faults p), sv_resources = req\<rparr>],
               im_used := use_more req (im_used p)\<rparr>)))))"

definition im_wait_active :: "string \<Rightarrow> string \<Rightarrow> inmem \<Rightarrow> (err + unit) \<times> inmem" where
  "im_wait_active project i p = (case ft_wait_active (im_faults p) of Some e \<Rightarrow> (Inl e, p)
   | None \<Rightarrow> (case find_row sv_id i (im_servers p) of
        None \<Rightarrow> (Inl (Plain ''inmem: server not found''), p)
      | Some v \<Rightarrow> (case im_read_clock p of (now, p1) \<Rightarrow>
          if sv_booted_at v - now \<le> 0 then (Inr (), p1)
          else case im_done p (im_tick p) of Some e \<Rightarrow> (Inl e, p1) | None \<Rightarrow> (Inr (), p1))))"

definition im_allocate_fip :: "string \<Rightarrow> string \<Rightarrow> inmem \<Rightarrow> (err + string) \<times> inmem" where
  "im_allocate_fip project i p = (case ft_allocate_fip (im_faults p) of Some e \<Rightarrow> (Inl e, p)
   | None \<Rightarrow>
      if find_row sv_id i (im_servers p) = None then (Inl (Plain ''inmem: server not found''), p)
      else (case List.find (\<lambda>(ip, sid). sid = i) (im_floating p) of
         Some (ip, sid) \<Rightarrow> (Inr ip, p)
       | None \<Rightarrow> (let n = im_seq p + 1; ip = ''203.0.113.'' @ int_text (n mod 253 + 1) in
          (Inr ip, p\<lparr>im_seq := n,
             im_floating := filter (\<lambda>(ip', sid). ip' \<noteq> ip) (im_floating p) @ [(ip, i)]\<rparr>))))"

definition im_delete_server :: "string \<Rightarrow> string \<Rightarrow> inmem \<Rightarrow> (err + unit) \<times> inmem" where
  "im_delete_server project i p = (case ft_delete_server (im_faults p) of Some e \<Rightarrow> (Inl e, p)
   | None \<Rightarrow> (case find_row sv_id i (im_servers p) of
        None \<Rightarrow> (Inr (), p)
      | Some v \<Rightarrow> (Inr (), p\<lparr>im_used := use_less (sv_resources v) (im_used p),
          im_servers := filter (\<lambda>v. sv_id v \<noteq> i) (im_servers p),
          im_floating := filter (\<lambda>(ip, sid). sid \<noteq> i) (im_floating p)\<rparr>)))"

definition im_create_network :: "string \<Rightarrow> network_spec \<Rightarrow> inmem \<Rightarrow> (err + string) \<times> inmem" where
  "im_create_network project n p = (case ft_create_network (im_faults p) of Some e \<Rightarrow> (Inl e, p)
   | None \<Rightarrow>
      (case List.find (\<lambda>v. nw_project v = project \<and> nw_name v = ns_name n) (im_networks p) of
         Some v \<Rightarrow> (Inr (nw_id v), p)
       | None \<Rightarrow> (case next_id ''net'' p of (i, p1) \<Rightarrow>
          (Inr i, p1\<lparr>im_networks := im_networks p @
             [\<lparr>nw_id = i, nw_project = project, nw_name = ns_name n, nw_cidr = ns_cidr n\<rparr>]\<rparr>))))"

definition im_delete_network :: "string \<Rightarrow> string \<Rightarrow> inmem \<Rightarrow> (err + unit) \<times> inmem" where
  "im_delete_network project i p = (case ft_delete_network (im_faults p) of Some e \<Rightarrow> (Inl e, p)
   | None \<Rightarrow> (Inr (), p\<lparr>im_networks := filter (\<lambda>v. nw_id v \<noteq> i) (im_networks p)\<rparr>))"

definition inmem_ops :: "inmem cloud_ops" where
  "inmem_ops = \<lparr>c_quota = im_quota, c_create_keypair = im_create_keypair,
     c_delete_keypair = im_delete_keypair, c_boot_server = im_boot_server,
     c_wait_active = im_wait_active, c_allocate_fip = im_allocate_fip,
     c_delete_server = im_delete_server, c_create_network = im_create_network,
     c_delete_network = im_delete_network\<rparr>"

section \<open>The contract holds\<close>

definition server_label :: "server \<Rightarrow> string \<times> string" where
  "server_label v = (sv_project v, sv_name v)"

definition network_label :: "network \<Rightarrow> string \<times> string" where
  "network_label v = (nw_project v, nw_name v)"

definition table_of :: "('r \<Rightarrow> string) \<Rightarrow> ('r \<Rightarrow> string \<times> string) \<Rightarrow> 'r list \<Rightarrow> resource_table" where
  "table_of key label rows = (\<lambda>i. map_option label (find_row key i rows))"

text \<open>
  The state of a named kind of resource: identifiers come from the counter, and no two entries
  share a project and a name.
\<close>

definition numbered :: "string \<Rightarrow> int \<Rightarrow> ('r \<Rightarrow> string) \<Rightarrow> ('r \<Rightarrow> string \<times> string) \<Rightarrow> 'r list \<Rightarrow> bool" where
  "numbered prefix n key label rows \<longleftrightarrow> distinct (map key rows) \<and> distinct (map label rows) \<and>
     (\<forall>r \<in> set rows. \<exists>k. 1 \<le> k \<and> k \<le> n \<and> key r = prefix @ ''-'' @ pad6_text k)"

lemma numbered_mono: "numbered prefix n key label rows \<Longrightarrow> n \<le> m \<Longrightarrow> numbered prefix m key label rows"
  unfolding numbered_def by (meson order_trans)

lemma numbered_add:
  assumes "numbered prefix n key label rows" "0 \<le> n" "key r = prefix @ ''-'' @ pad6_text (n + 1)"
    "label r \<notin> label ` set rows"
  shows "numbered prefix (n + 1) key label (rows @ [r]) \<and>
    made (label r) (key r) (table_of key label rows) (table_of key label (rows @ [r]))"
proof -
  have fresh: "key r \<notin> key ` set rows"
  proof
    assume "key r \<in> key ` set rows"
    then obtain x where "x \<in> set rows" "key x = key r" by auto
    with assms(1,3) obtain k where "1 \<le> k" "k \<le> n" "pad6_text k = pad6_text (n + 1)"
      by (fastforce simp: numbered_def)
    then show False using pad6_text_inj [of k "n + 1"] assms(2) by simp
  qed
  have n: "numbered prefix (n + 1) key label (rows @ [r])"
    unfolding numbered_def
  proof (intro conjI ballI)
    show "distinct (map key (rows @ [r]))" "distinct (map label (rows @ [r]))"
      using assms(1,4) fresh by (simp_all add: numbered_def)
    fix x assume "x \<in> set (rows @ [r])"
    then consider "x = r" | "x \<in> set rows" by auto
    then show "\<exists>k. 1 \<le> k \<and> k \<le> n + 1 \<and> key x = prefix @ ''-'' @ pad6_text k"
    proof cases
      case 1
      with assms(2,3) show ?thesis by (intro exI [of _ "n + 1"]) simp
    next
      case 2
      with assms(1) obtain k where "1 \<le> k" "k \<le> n" "key x = prefix @ ''-'' @ pad6_text k"
        unfolding numbered_def by blast
      then show ?thesis by (intro exI [of _ k]) simp
    qed
  qed
  have f: "find_row key (key r) rows = None" using fresh by (simp add: find_row_None_iff)
  have "table_of key label (rows @ [r]) = (table_of key label rows)(key r \<mapsto> label r)"
    by (rule ext) (auto simp: table_of_def find_row_append f split: option.split)
  moreover have "table_of key label rows j \<noteq> Some (label r)" for j
  proof
    assume "table_of key label rows j = Some (label r)"
    then obtain x where "find_row key j rows = Some x" "label x = label r" by (auto simp: table_of_def)
    from find_row_SomeD [OF this(1)] this(2) assms(4) show False by (metis imageI)
  qed
  ultimately show ?thesis using n f by (simp add: made_def table_of_def)
qed

lemma numbered_filter:
  assumes "numbered prefix n key label rows"
  shows "numbered prefix n key label (filter (\<lambda>r. key r \<noteq> i) rows) \<and>
    table_of key label (filter (\<lambda>r. key r \<noteq> i) rows) = (table_of key label rows)(i := None)"
proof
  show "numbered prefix n key label (filter (\<lambda>r. key r \<noteq> i) rows)"
    using assms by (auto simp: numbered_def distinct_map_filter)
  have "find_row key j (filter (\<lambda>r. key r \<noteq> i) rows) = (if j = i then None else find_row key j rows)" for j
    by (induction rows) auto
  then show "table_of key label (filter (\<lambda>r. key r \<noteq> i) rows) = (table_of key label rows)(i := None)"
    by (auto simp: table_of_def)
qed

lemma numbered_unique: "numbered prefix n key label rows \<Longrightarrow> unique_names (table_of key label rows)"
  unfolding unique_names_def table_of_def
proof (intro allI impI)
  fix i j x
  assume n: "numbered prefix n key label rows" and
    "map_option label (find_row key i rows) = Some x" "map_option label (find_row key j rows) = Some x"
  then obtain a b where ab: "find_row key i rows = Some a" "find_row key j rows = Some b" "label a = label b"
    by auto
  with find_row_SomeD [OF ab(1)] find_row_SomeD [OF ab(2)] have "a \<in> set rows" "b \<in> set rows"
    "key a = i" "key b = j" by simp_all
  with ab(3) n show "i = j" unfolding numbered_def distinct_map by (metis inj_onD)
qed

lemma find_label:
  assumes "numbered prefix n key label rows" "List.find (\<lambda>r. label r = x) rows = Some r"
  shows "made x (key r) (table_of key label rows) (table_of key label rows)"
proof -
  from assms(2) have r: "r \<in> set rows" "label r = x" by (auto simp: find_Some_iff)
  have "find_row key (key r) rows = Some r"
    using assms(1) r(1) by (intro find_row_distinct) (simp_all add: numbered_def)
  with r(2) show ?thesis by (auto simp: made_def table_of_def)
qed

definition keys_ok :: "stored_key list \<Rightarrow> bool" where
  "keys_ok ks \<longleftrightarrow> (\<forall>k \<in> set ks. sk_key k = sk_project k @ ''/'' @ sk_name k \<and> CHR ''/'' \<notin> set (sk_project k))"

definition key_pairs :: "stored_key list \<Rightarrow> (string \<times> string) set" where
  "key_pairs ks = (\<lambda>k. (sk_project k, sk_name k)) ` set ks"

definition inmem_ok :: "inmem \<Rightarrow> bool" where
  "inmem_ok p \<longleftrightarrow> 0 \<le> im_seq p \<and> numbered ''srv'' (im_seq p) sv_id server_label (im_servers p) \<and>
     numbered ''net'' (im_seq p) nw_id network_label (im_networks p) \<and> keys_ok (im_keypairs p)"

definition inmem_servers :: "inmem \<Rightarrow> resource_table" where
  "inmem_servers p = table_of sv_id server_label (im_servers p)"

definition inmem_networks :: "inmem \<Rightarrow> resource_table" where
  "inmem_networks p = table_of nw_id network_label (im_networks p)"

definition inmem_keys :: "inmem \<Rightarrow> (string \<times> string) set" where
  "inmem_keys p = key_pairs (im_keypairs p)"

lemmas inmem_defs = inmem_ok_def inmem_servers_def inmem_networks_def inmem_keys_def

lemma slash_split:
  "CHR ''/'' \<notin> set p \<Longrightarrow> CHR ''/'' \<notin> set q \<Longrightarrow> p @ ''/'' @ a = q @ ''/'' @ b \<Longrightarrow> p = q \<and> a = b"
proof (induction p arbitrary: q)
  case Nil
  then show ?case by (cases q) auto
next
  case (Cons c p)
  then show ?case by (cases q) auto
qed

lemma find_pair: "List.find (\<lambda>v. sv_project v = project \<and> sv_name v = n) vs = List.find (\<lambda>v. server_label v = (project, n)) vs"
  "List.find (\<lambda>v. nw_project v = project \<and> nw_name v = n) ns = List.find (\<lambda>v. network_label v = (project, n)) ns"
  by (simp_all add: server_label_def network_label_def)

lemma boot_law:
  assumes "inmem_ok c" "im_boot_server p s c = (r, c')"
  shows "inmem_ok c' \<and> inmem_networks c' = inmem_networks c \<and> inmem_keys c' = inmem_keys c \<and>
    (case r of Inl _ \<Rightarrow> inmem_servers c' = inmem_servers c
     | Inr i \<Rightarrow> made (p, ss_name s) i (inmem_servers c) (inmem_servers c'))"
proof (cases "ft_boot_server (im_faults c) = None \<and>
    List.find (\<lambda>v. server_label v = (p, ss_name s)) (im_servers c) = None \<and>
    fits (im_used c) (request_from_flavor (ss_flavor s)) (im_capacity c)")
  case True
  let ?v = "\<lparr>sv_id = ''srv'' @ ''-'' @ pad6_text (im_seq c + 1), sv_project = p, sv_name = ss_name s,
    sv_image = ss_image s, sv_flavor = ss_flavor s, sv_network = ss_network s, sv_keypair = ss_keypair s,
    sv_metadata = ss_metadata s, sv_booted_at = im_now c (im_tick c) + ft_boot_latency (im_faults c),
    sv_resources = request_from_flavor (ss_flavor s)\<rparr>"
  have c': "r = Inr (sv_id ?v)" "c' = c\<lparr>im_seq := im_seq c + 1, im_tick := Suc (im_tick c),
      im_servers := im_servers c @ [?v], im_used := use_more (request_from_flavor (ss_flavor s)) (im_used c)\<rparr>"
    using True assms(2) by (auto simp: im_boot_server_def find_pair next_id_def im_read_clock_def Let_def)
  have "server_label ?v \<notin> server_label ` set (im_servers c)"
    using True by (auto simp: find_None_iff server_label_def)
  with numbered_add [of "''srv''" "im_seq c" sv_id server_label "im_servers c" ?v] assms(1)
  show ?thesis unfolding c' by (auto simp: inmem_defs server_label_def intro: numbered_mono)
next
  case False
  with assms find_label [of "''srv''" "im_seq c" sv_id server_label "im_servers c" "(p, ss_name s)"] show ?thesis
    by (auto simp: im_boot_server_def find_pair inmem_defs Let_def split: option.splits if_splits prod.splits)
qed

lemma network_law:
  assumes "inmem_ok c" "im_create_network p n c = (r, c')"
  shows "inmem_ok c' \<and> inmem_servers c' = inmem_servers c \<and> inmem_keys c' = inmem_keys c \<and>
    (case r of Inl _ \<Rightarrow> inmem_networks c' = inmem_networks c
     | Inr i \<Rightarrow> made (p, ns_name n) i (inmem_networks c) (inmem_networks c'))"
proof (cases "ft_create_network (im_faults c) = None \<and>
    List.find (\<lambda>v. network_label v = (p, ns_name n)) (im_networks c) = None")
  case True
  let ?v = "\<lparr>nw_id = ''net'' @ ''-'' @ pad6_text (im_seq c + 1), nw_project = p, nw_name = ns_name n,
    nw_cidr = ns_cidr n\<rparr>"
  have c': "r = Inr (nw_id ?v)" "c' = c\<lparr>im_seq := im_seq c + 1, im_networks := im_networks c @ [?v]\<rparr>"
    using True assms(2) by (auto simp: im_create_network_def find_pair next_id_def Let_def)
  have "network_label ?v \<notin> network_label ` set (im_networks c)"
    using True by (auto simp: find_None_iff network_label_def)
  with numbered_add [of "''net''" "im_seq c" nw_id network_label "im_networks c" ?v] assms(1)
  show ?thesis unfolding c' by (auto simp: inmem_defs network_label_def intro: numbered_mono)
next
  case False
  with assms find_label [of "''net''" "im_seq c" nw_id network_label "im_networks c" "(p, ns_name n)"] show ?thesis
    by (auto simp: im_create_network_def find_pair inmem_defs Let_def split: option.splits if_splits prod.splits)
qed

lemma keypair_law:
  assumes "inmem_ok c" "CHR ''/'' \<notin> set p" "im_create_keypair p k c = (q, c')"
  shows "inmem_ok c' \<and> inmem_servers c' = inmem_servers c \<and> inmem_networks c' = inmem_networks c \<and>
    (case q of Inl _ \<Rightarrow> inmem_keys c' = inmem_keys c
     | Inr kp \<Rightarrow> kp_name kp = k \<and> inmem_keys c' = insert (p, k) (inmem_keys c))"
proof (cases "find_row sk_key (p @ ''/'' @ k) (im_keypairs c)")
  case None
  with assms show ?thesis
    by (auto simp: im_create_keypair_def Let_def inmem_defs keys_ok_def key_pairs_def keypair_of_def
        split: option.splits sum.splits)
next
  case (Some x)
  from find_row_SomeD [OF Some] assms(1) have "x \<in> set (im_keypairs c)" "sk_key x = p @ ''/'' @ k"
    "sk_key x = sk_project x @ ''/'' @ sk_name x" "CHR ''/'' \<notin> set (sk_project x)"
    by (auto simp: inmem_ok_def keys_ok_def)
  with slash_split [OF assms(2), of "sk_project x" k "sk_name x"] have "sk_project x = p" "sk_name x = k"
    "(p, k) \<in> key_pairs (im_keypairs c)" by (auto simp: key_pairs_def)
  with Some assms(1,3) show ?thesis
    by (auto simp: im_create_keypair_def Let_def inmem_keys_def keypair_of_def insert_absorb split: option.splits)
qed

lemma delete_keypair_law:
  assumes "inmem_ok c" "CHR ''/'' \<notin> set p" "im_delete_keypair p k c = (d, c')"
  shows "inmem_ok c' \<and> inmem_servers c' = inmem_servers c \<and> inmem_networks c' = inmem_networks c \<and>
    inmem_keys c' = (case d of Inl _ \<Rightarrow> inmem_keys c | Inr _ \<Rightarrow> inmem_keys c - {(p, k)})"
proof -
  let ?ks = "im_keypairs c" and ?f = "\<lambda>x. sk_key x \<noteq> p @ ''/'' @ k"
  have ks: "keys_ok ?ks" using assms(1) by (simp add: inmem_ok_def)
  have same: "sk_key x = p @ ''/'' @ k \<longleftrightarrow> (sk_project x, sk_name x) = (p, k)" if "x \<in> set ?ks" for x
  proof -
    have "sk_key x = sk_project x @ ''/'' @ sk_name x" "CHR ''/'' \<notin> set (sk_project x)"
      using ks that by (simp_all add: keys_ok_def)
    note k = this
    show ?thesis
    proof
      assume "sk_key x = p @ ''/'' @ k"
      from trans [OF sym [OF this] k(1)] have "p @ ''/'' @ k = sk_project x @ ''/'' @ sk_name x" .
      from slash_split [OF assms(2) k(2) this] show "(sk_project x, sk_name x) = (p, k)" by simp
    qed (simp add: k(1))
  qed
  have "key_pairs (filter ?f ?ks) = key_pairs ?ks - {(p, k)}"
    unfolding key_pairs_def set_filter using same by blast
  moreover have "keys_ok (filter ?f ?ks)" using ks by (simp add: keys_ok_def)
  moreover have "c' = c\<lparr>im_keypairs := filter ?f ?ks\<rparr> \<and> d = Inr () \<or> c' = c \<and> (\<exists>e. d = Inl e)"
    using assms(3) by (cases "ft_delete_keypair (im_faults c)") (auto simp: im_delete_keypair_def)
  ultimately show ?thesis using assms(1) by (elim disjE conjE exE) (simp_all add: inmem_defs)
qed

text \<open>
  The provider takes any server name and every project identifier without a slash, names a key pair by its project and its name,
  and deletes whatever has the identifier.
\<close>

interpretation inmem: cloud_provider inmem_ops inmem_ok inmem_servers inmem_networks inmem_keys Pair
  "\<lambda>_ e. e = None" "\<lambda>p. CHR ''/'' \<notin> set p" "\<lambda>_. True"
proof (unfold_locales, goal_cases)
  case (1 c)
  then show ?case by (auto simp: inmem_defs intro: numbered_unique)
next
  case (2 p)
  show ?case by simp
next
  case (3 c p s r c')
  then show ?case using boot_law [of c p s r c'] by (auto simp: inmem_ops_def split: sum.splits)
next
  case (4 c p i d c')
  then show ?case
    by (auto simp: inmem_ops_def im_wait_active_def im_read_clock_def inmem_defs
        split: option.splits if_splits)
next
  case (5 c p i f c')
  then show ?case
    by (auto simp: inmem_ops_def im_allocate_fip_def inmem_defs Let_def intro: numbered_mono
        split: option.splits if_splits)
next
  case (6 c p n r c')
  then show ?case using network_law [of c p n r c'] by (auto simp: inmem_ops_def split: sum.splits)
next
  case (7 c p k q c')
  then show ?case using keypair_law [of c p k q c'] by (auto simp: inmem_ops_def split: sum.splits)
next
  case (8 c p i d c')
  then have "inmem_servers c i = None" if "find_row sv_id i (im_servers c) = None"
    using that by (simp add: inmem_servers_def table_of_def)
  with 8 numbered_filter [of "''srv''" "im_seq c" sv_id server_label "im_servers c" i]
  have "inmem_ok c' \<and> inmem_networks c' = inmem_networks c \<and> inmem_keys c' = inmem_keys c \<and>
      inmem_servers c' = (case d of Inl _ \<Rightarrow> inmem_servers c | Inr _ \<Rightarrow> (inmem_servers c)(i := None))"
    by (auto simp: inmem_ops_def im_delete_server_def inmem_defs table_of_def fun_eq_iff
        split: option.splits)
  then show ?case by (auto simp: dropped_def split: sum.splits)
next
  case (9 c p i d c')
  with numbered_filter [of "''net''" "im_seq c" nw_id network_label "im_networks c" i]
  have "inmem_ok c' \<and> inmem_servers c' = inmem_servers c \<and> inmem_keys c' = inmem_keys c \<and>
      inmem_networks c' = (case d of Inl _ \<Rightarrow> inmem_networks c | Inr _ \<Rightarrow> (inmem_networks c)(i := None))"
    by (auto simp: inmem_ops_def im_delete_network_def inmem_defs split: option.splits)
  then show ?case by (auto simp: dropped_def split: sum.splits)
next
  case (10 c p k d c')
  then show ?case using delete_keypair_law [of c p k d c'] by (auto simp: inmem_ops_def split: sum.splits)
qed

section \<open>Accounting\<close>

text \<open>A history of calls on one provider, in any order and with any arguments.\<close>

inductive inmem_reach :: "inmem \<Rightarrow> inmem \<Rightarrow> bool" for p0 where
  start: "inmem_reach p0 p0"
| quota: "inmem_reach p0 p \<Longrightarrow> im_quota p = (q, p') \<Longrightarrow> inmem_reach p0 p'"
| create_keypair: "inmem_reach p0 p \<Longrightarrow> im_create_keypair i n p = (k, p') \<Longrightarrow> inmem_reach p0 p'"
| delete_keypair: "inmem_reach p0 p \<Longrightarrow> im_delete_keypair i n p = (u, p') \<Longrightarrow> inmem_reach p0 p'"
| boot_server: "inmem_reach p0 p \<Longrightarrow> im_boot_server i s p = (r, p') \<Longrightarrow> inmem_reach p0 p'"
| wait_active: "inmem_reach p0 p \<Longrightarrow> im_wait_active i n p = (u, p') \<Longrightarrow> inmem_reach p0 p'"
| allocate_fip: "inmem_reach p0 p \<Longrightarrow> im_allocate_fip i n p = (r, p') \<Longrightarrow> inmem_reach p0 p'"
| delete_server: "inmem_reach p0 p \<Longrightarrow> im_delete_server i n p = (u, p') \<Longrightarrow> inmem_reach p0 p'"
| create_network: "inmem_reach p0 p \<Longrightarrow> im_create_network i nw p = (r, p') \<Longrightarrow> inmem_reach p0 p'"
| delete_network: "inmem_reach p0 p \<Longrightarrow> im_delete_network i n p = (u, p') \<Longrightarrow> inmem_reach p0 p'"

text \<open>The resources in use are the sum over the servers, and they fit the cluster.\<close>

definition in_use :: "server list \<Rightarrow> cluster" where
  "in_use vs = \<lparr>cl_vcpus = sum_list (map (\<lambda>v. rr_vcpus (sv_resources v)) vs),
     cl_ram_mb = sum_list (map (\<lambda>v. rr_ram_mb (sv_resources v)) vs),
     cl_disk_gb = sum_list (map (\<lambda>v. rr_disk_gb (sv_resources v)) vs)\<rparr>"

definition inside :: "cluster \<Rightarrow> cluster \<Rightarrow> bool" where
  "inside u cap \<longleftrightarrow> cl_vcpus u \<le> cl_vcpus cap \<and> cl_ram_mb u \<le> cl_ram_mb cap \<and> cl_disk_gb u \<le> cl_disk_gb cap"

definition small_request :: "resource_request \<Rightarrow> bool" where
  "small_request r \<longleftrightarrow> 0 \<le> rr_vcpus r \<and> rr_vcpus r \<le> 8192 \<and> 0 \<le> rr_ram_mb r \<and> rr_ram_mb r \<le> 8192 \<and>
     0 \<le> rr_disk_gb r \<and> rr_disk_gb r \<le> 8192"

definition bounded_capacity :: "cluster \<Rightarrow> bool" where
  "bounded_capacity cap \<longleftrightarrow> cl_vcpus cap \<le> 2 ^ 62 \<and> cl_ram_mb cap \<le> 2 ^ 62 \<and> cl_disk_gb cap \<le> 2 ^ 62"

definition accounted :: "inmem \<Rightarrow> bool" where
  "accounted p \<longleftrightarrow> bounded_capacity (im_capacity p) \<and> inside (in_use (im_servers p)) (im_capacity p) \<and>
     im_used p = in_use (im_servers p) \<and> distinct (map sv_id (im_servers p)) \<and>
     (\<forall>v \<in> set (im_servers p). small_request (sv_resources v))"

lemma small_request_flavor: "small_request (request_from_flavor f)"
  by (simp add: request_from_flavor_def small_request_def)

lemma in_use_nonneg:
  "\<forall>v \<in> set vs. small_request (sv_resources v) \<Longrightarrow>
     0 \<le> cl_vcpus (in_use vs) \<and> 0 \<le> cl_ram_mb (in_use vs) \<and> 0 \<le> cl_disk_gb (in_use vs)"
  by (auto simp: in_use_def small_request_def intro!: sum_list_nonneg)

lemma in_use_snoc: "in_use (vs @ [v]) = \<lparr>cl_vcpus = cl_vcpus (in_use vs) + rr_vcpus (sv_resources v),
    cl_ram_mb = cl_ram_mb (in_use vs) + rr_ram_mb (sv_resources v),
    cl_disk_gb = cl_disk_gb (in_use vs) + rr_disk_gb (sv_resources v)\<rparr>"
  by (simp add: in_use_def)

lemma sum_list_filter_key:
  "distinct (map key vs) \<Longrightarrow> v \<in> set vs \<Longrightarrow>
     sum_list (map f (filter (\<lambda>x. key x \<noteq> key v) vs)) = sum_list (map f vs) - (f v :: int)"
proof (induction vs)
  case (Cons x vs)
  show ?case
  proof (cases "key x = key v")
    case True
    then have "x = v" using Cons.prems by (metis distinct.simps(2) imageI list.set_map list.simps(9) set_ConsD)
    moreover have "filter (\<lambda>x. key x \<noteq> key v) vs = vs"
      using Cons.prems(1) True by (metis (mono_tags, lifting) distinct.simps(2) filter_True imageI list.set_map list.simps(9))
    ultimately show ?thesis by simp
  next
    case False
    then show ?thesis using Cons by auto
  qed
qed simp

lemma wrap64_small: "0 \<le> x \<Longrightarrow> x \<le> 2 ^ 62 + 8192 \<Longrightarrow> wrap64 x = x"
  by (rule wrap64_id) (simp add: int64_def)

lemma accounted_boot:
  assumes "accounted p" "sv_resources v = r" "small_request r" "fits (im_used p) r (im_capacity p)"
    "sv_id v \<notin> sv_id ` set (im_servers p)"
  shows "accounted (p\<lparr>im_servers := im_servers p @ [v], im_used := use_more r (im_used p)\<rparr>)"
proof -
  have a: "bounded_capacity (im_capacity p)" "inside (im_used p) (im_capacity p)"
    "im_used p = in_use (im_servers p)" "distinct (map sv_id (im_servers p))"
    "\<forall>v \<in> set (im_servers p). small_request (sv_resources v)"
    using assms(1) unfolding accounted_def by simp_all
  have nn: "0 \<le> cl_vcpus (im_used p)" "0 \<le> cl_ram_mb (im_used p)" "0 \<le> cl_disk_gb (im_used p)"
    using in_use_nonneg [OF a(5)] a(3) by simp_all
  have w: "wrap64 (cl_vcpus (im_used p) + rr_vcpus r) = cl_vcpus (im_used p) + rr_vcpus r"
    "wrap64 (cl_ram_mb (im_used p) + rr_ram_mb r) = cl_ram_mb (im_used p) + rr_ram_mb r"
    "wrap64 (cl_disk_gb (im_used p) + rr_disk_gb r) = cl_disk_gb (im_used p) + rr_disk_gb r"
    using nn a(1,2) assms(3) by (auto simp: inside_def bounded_capacity_def small_request_def intro!: wrap64_small)
  show ?thesis
    using a assms(2,3,4,5) unfolding accounted_def use_more_def w fits_def
    by (auto simp: in_use_snoc inside_def)
qed

lemma accounted_delete:
  assumes "accounted p" "v \<in> set (im_servers p)"
  shows "accounted (p\<lparr>im_used := use_less (sv_resources v) (im_used p),
    im_servers := filter (\<lambda>x. sv_id x \<noteq> sv_id v) (im_servers p)\<rparr>)"
proof -
  have a: "bounded_capacity (im_capacity p)" "inside (im_used p) (im_capacity p)"
    "im_used p = in_use (im_servers p)" "distinct (map sv_id (im_servers p))"
    "\<forall>v \<in> set (im_servers p). small_request (sv_resources v)"
    using assms(1) unfolding accounted_def by simp_all
  let ?vs = "filter (\<lambda>x. sv_id x \<noteq> sv_id v) (im_servers p)"
  let ?r = "sv_resources v"
  have less: "cl_vcpus (in_use ?vs) = cl_vcpus (im_used p) - rr_vcpus ?r"
    "cl_ram_mb (in_use ?vs) = cl_ram_mb (im_used p) - rr_ram_mb ?r"
    "cl_disk_gb (in_use ?vs) = cl_disk_gb (im_used p) - rr_disk_gb ?r"
    unfolding a(3) in_use_def using sum_list_filter_key [OF a(4) assms(2)] by simp_all
  have small: "\<forall>x \<in> set ?vs. small_request (sv_resources x)" using a(5) by simp
  have "small_request ?r" using a(5) assms(2) by blast
  then have r: "0 \<le> rr_vcpus ?r" "0 \<le> rr_ram_mb ?r" "0 \<le> rr_disk_gb ?r" by (simp_all add: small_request_def)
  have w: "wrap64 (cl_vcpus (im_used p) - rr_vcpus ?r) = cl_vcpus (im_used p) - rr_vcpus ?r"
    "wrap64 (cl_ram_mb (im_used p) - rr_ram_mb ?r) = cl_ram_mb (im_used p) - rr_ram_mb ?r"
    "wrap64 (cl_disk_gb (im_used p) - rr_disk_gb ?r) = cl_disk_gb (im_used p) - rr_disk_gb ?r"
    using in_use_nonneg [OF small] less a(1,2) r
    by (auto simp: inside_def bounded_capacity_def intro!: wrap64_small)
  have "use_less ?r (im_used p) = in_use ?vs"
    unfolding use_less_def w by (rule cluster.equality) (simp_all add: less)
  moreover have "inside (in_use ?vs) (im_capacity p)" using a(2) less r by (simp add: inside_def)
  ultimately show ?thesis
    using a(1,4,5) by (simp add: accounted_def distinct_map_filter)
qed

definition server_ids_ok :: "inmem \<Rightarrow> bool" where
  "server_ids_ok p \<longleftrightarrow> 0 \<le> im_seq p \<and> numbered ''srv'' (im_seq p) sv_id server_label (im_servers p)"

lemma boot_accounted:
  assumes "accounted p" "server_ids_ok p" "im_boot_server i s p = (r, p')"
  shows "accounted p' \<and> server_ids_ok p'"
proof (cases "p' = p")
  case False
  let ?v = "\<lparr>sv_id = ''srv'' @ ''-'' @ pad6_text (im_seq p + 1), sv_project = i, sv_name = ss_name s,
    sv_image = ss_image s, sv_flavor = ss_flavor s, sv_network = ss_network s, sv_keypair = ss_keypair s,
    sv_metadata = ss_metadata s, sv_booted_at = im_now p (im_tick p) + ft_boot_latency (im_faults p),
    sv_resources = request_from_flavor (ss_flavor s)\<rparr>"
  from False assms(3) have none: "List.find (\<lambda>v. server_label v = (i, ss_name s)) (im_servers p) = None"
    and fit: "fits (im_used p) (request_from_flavor (ss_flavor s)) (im_capacity p)"
    and p': "p' = p\<lparr>im_seq := im_seq p + 1, im_tick := Suc (im_tick p), im_servers := im_servers p @ [?v],
      im_used := use_more (request_from_flavor (ss_flavor s)) (im_used p)\<rparr>"
    by (auto simp: im_boot_server_def find_pair next_id_def im_read_clock_def Let_def
        split: option.splits if_splits)
  have "server_label ?v \<notin> server_label ` set (im_servers p)"
    using none by (auto simp: find_None_iff server_label_def)
  with assms(2) numbered_add [of "''srv''" "im_seq p" sv_id server_label "im_servers p" ?v]
  have n: "numbered ''srv'' (im_seq p + 1) sv_id server_label (im_servers p @ [?v])"
    by (simp add: server_ids_ok_def)
  then have "sv_id ?v \<notin> sv_id ` set (im_servers p)" by (simp add: numbered_def)
  from accounted_boot [OF assms(1) _ small_request_flavor fit this] n assms(2) show ?thesis
    by (simp add: p' accounted_def server_ids_ok_def)
qed (use assms in simp)

lemma delete_accounted:
  assumes "accounted p" "server_ids_ok p" "im_delete_server i n p = (u, p')"
  shows "accounted p' \<and> server_ids_ok p'"
proof (cases "p' = p")
  case False
  with assms(3) obtain v where v: "find_row sv_id n (im_servers p) = Some v" and
    p': "p' = p\<lparr>im_used := use_less (sv_resources v) (im_used p),
      im_servers := filter (\<lambda>v. sv_id v \<noteq> n) (im_servers p),
      im_floating := filter (\<lambda>(ip, sid). sid \<noteq> n) (im_floating p)\<rparr>"
    by (auto simp: im_delete_server_def split: option.splits)
  from find_row_SomeD [OF v] have "v \<in> set (im_servers p)" and id: "sv_id v = n" by simp_all
  from accounted_delete [OF assms(1) this(1)] id
    numbered_filter [of "''srv''" "im_seq p" sv_id server_label "im_servers p" n] assms(2)
  show ?thesis by (simp add: p' accounted_def server_ids_ok_def)
qed (use assms in simp)

text \<open>What the other operations leave alone.\<close>

definition same_servers :: "inmem \<Rightarrow> inmem \<Rightarrow> bool" where
  "same_servers p p' \<longleftrightarrow> im_servers p' = im_servers p \<and> im_used p' = im_used p \<and>
     im_capacity p' = im_capacity p \<and> im_seq p \<le> im_seq p'"

lemma same_servers_ops:
  "im_quota p = (q, p') \<Longrightarrow> same_servers p p'"
  "im_create_keypair i n p = (k, p') \<Longrightarrow> same_servers p p'"
  "im_delete_keypair i n p = (u, p') \<Longrightarrow> same_servers p p'"
  "im_wait_active i n p = (u, p') \<Longrightarrow> same_servers p p'"
  "im_allocate_fip i n p = (r, p') \<Longrightarrow> same_servers p p'"
  "im_create_network i nw p = (r, p') \<Longrightarrow> same_servers p p'"
  "im_delete_network i n p = (u, p') \<Longrightarrow> same_servers p p'"
  by (auto simp: same_servers_def im_quota_def im_create_keypair_def im_delete_keypair_def
      im_wait_active_def im_allocate_fip_def im_create_network_def im_delete_network_def
      im_read_clock_def next_id_def Let_def split: option.splits if_splits sum.splits prod.splits)

lemma same_servers_accounted:
  "same_servers p p' \<Longrightarrow> accounted p \<and> server_ids_ok p \<Longrightarrow> accounted p' \<and> server_ids_ok p'"
  by (auto simp: same_servers_def accounted_def server_ids_ok_def intro: numbered_mono)

lemma reach_accounted: "inmem_reach p0 p \<Longrightarrow> accounted p0 \<and> server_ids_ok p0 \<Longrightarrow> accounted p \<and> server_ids_ok p"
proof (induction rule: inmem_reach.induct)
  case (boot_server p i s r p')
  then show ?case using boot_accounted by blast
next
  case (delete_server p i n u p')
  then show ?case using delete_accounted by blast
qed (auto dest!: same_servers_ops dest: same_servers_accounted)

section \<open>Properties\<close>

text \<open>
  C31: the in-memory cluster never overcommits. Whatever calls a provider created with a capacity of
  at most \<open>2 ^ 62\<close> units per resource has served, the resources it reports in use are exactly
  those of the servers that exist, and they do not exceed the capacity.
\<close>
theorem inmem_accounting:
  assumes "bounded_capacity cap" "inside \<lparr>cl_vcpus = 0, cl_ram_mb = 0, cl_disk_gb = 0\<rparr> cap"
    "inmem_reach (new_provider cap f now done gen) p"
  shows "im_used p = in_use (im_servers p) \<and> inside (im_used p) (im_capacity p)"
proof -
  have "accounted (new_provider cap f now done gen) \<and> server_ids_ok (new_provider cap f now done gen)"
    using assms(1,2) by (simp add: accounted_def server_ids_ok_def new_provider_def numbered_def
        in_use_def default_capacity_def bounded_capacity_def inside_def)
  from reach_accounted [OF assms(3) this] show ?thesis unfolding accounted_def by simp
qed

definition sample_keygen :: "nat \<Rightarrow> err + string \<times> bytes \<times> string" where
  "sample_keygen n = Inr (''pub'', [1, 2, 3], ''fp'')"

definition sample_cloud :: "faults \<Rightarrow> inmem" where
  "sample_cloud f = new_provider default_capacity f int (\<lambda>_. None) sample_keygen"

definition sample_spec :: "string \<Rightarrow> server_spec" where
  "sample_spec n = \<lparr>ss_name = n, ss_image = ''i'', ss_flavor = ''large'', ss_network = ''n'',
     ss_keypair = ''k'', ss_user_data = '''', ss_metadata = []\<rparr>"

lemma inmem_accounting_witness:
  "\<exists>r p. im_boot_server ''p'' (sample_spec ''a'') (sample_cloud no_faults) = (r, p) \<and>
     length (im_servers p) = 1 \<and> im_used p = in_use (im_servers p)"
proof -
  obtain r p where run: "im_boot_server ''p'' (sample_spec ''a'') (sample_cloud no_faults) = (r, p)"
    by (cases "im_boot_server ''p'' (sample_spec ''a'') (sample_cloud no_faults)")
  have "length (im_servers (snd (im_boot_server ''p'' (sample_spec ''a'') (sample_cloud no_faults)))) = 1"
    by code_simp
  moreover have "inmem_reach (new_provider default_capacity no_faults int (\<lambda>_. None) sample_keygen) p"
    using run unfolding sample_cloud_def by (intro inmem_reach.boot_server [OF inmem_reach.start])
  from inmem_accounting [OF _ _ this] have "im_used p = in_use (im_servers p)"
    by (simp add: bounded_capacity_def inside_def default_capacity_def)
  ultimately show ?thesis using run by simp
qed

text \<open>
  The address of a floating IP depends on the counter modulo 253 only, and an address that is
  already taken is handed out again: its first server loses it.
\<close>
lemma fip_collision:
  assumes "(''203.0.113.'' @ int_text ((im_seq p + 1) mod 253 + 1), i) \<in> set (im_floating p)" "i \<noteq> j"
    "ft_allocate_fip (im_faults p) = None" "find_row sv_id j (im_servers p) \<noteq> None"
    "j \<notin> snd ` set (im_floating p)" "distinct (map fst (im_floating p))"
  shows "\<exists>ip p'. im_allocate_fip q j p = (Inr ip, p') \<and> (ip, i) \<in> set (im_floating p) \<and>
    (ip, j) \<in> set (im_floating p') \<and> (ip, i) \<notin> set (im_floating p')"
proof -
  have "List.find (\<lambda>(ip, sid). sid = j) (im_floating p) = None"
    using assms(5) by (force simp: find_None_iff)
  with assms show ?thesis by (auto simp: im_allocate_fip_def Let_def)
qed


end
