(* ===== verification/DeployApp.thy ===== *)
theory DeployApp
  imports LabApp CloudInmem
begin

text \<open>
  \<open>internal/app/deploy\<close>: the saga that deploys a lab. One delivery of the task runs the steps in
  order, skips those that an earlier delivery recorded as succeeded and replays their results,
  and stops at the first failure: below the limit of attempts the task fails and is delivered
  again, at the limit the lab fails and its cleanup is enqueued. The provider is any
  \<open>cloud_ops\<close>; the logger is left out.
\<close>

section \<open>Topology\<close>

record vm_spec =
  vm_name :: string
  vm_image :: string
  vm_flavor :: string
  vm_ip :: string
  vm_role :: string

record topology =
  tp_cidr :: string
  tp_vms :: "vm_spec list"

text \<open>A Go string literal outside ASCII, by its bytes.\<close>

definition utf8 :: "int list \<Rightarrow> string" where
  "utf8 bs = map char_of bs"

definition topology_for :: "template_id \<Rightarrow> topology" where
  "topology_for t = \<lparr>tp_cidr = ''10.0.0.0/24'', tp_vms = [
      \<lparr>vm_name = ''L-MS'', vm_image = ''LAB2_TMP_L-MS'', vm_flavor = ''small'', vm_ip = ''10.0.0.10'', vm_role = utf8 [
        208, 154, 208, 184, 208, 177, 208, 181, 209, 128, 32, 208, 145, 209, 141, 208, 186,
        208, 176, 208, 191, 32, 226, 128, 148, 32, 209, 129, 208, 181, 209, 128, 208, 178,
        208, 181, 209, 128, 32, 209, 131, 208, 191, 209, 128, 208, 176, 208, 178, 208, 187,
        208, 181, 208, 189, 208, 184, 209, 143]\<rparr>,
      \<lparr>vm_name = ''L-NFS'', vm_image = ''LAB2_TMP_L-NFS'', vm_flavor = ''start'', vm_ip = ''10.0.0.70'', vm_role = utf8 [
        209, 132, 208, 176, 208, 185, 208, 187, 208, 190, 208, 178, 209, 139, 208, 185, 32,
        209, 129, 208, 181, 209, 128, 208, 178, 208, 181, 209, 128, 44, 32, 209, 133, 209,
        128, 208, 176, 208, 189, 208, 184, 208, 187, 208, 184, 209, 137, 208, 181, 32, 208,
        146, 208, 156]\<rparr>,
      \<lparr>vm_name = ''L-PGSQL'', vm_image = ''LAB2_TMP_L-PGSQL'', vm_flavor = ''start'', vm_ip = ''10.0.0.55'', vm_role = utf8 [
        209, 129, 208, 181, 209, 128, 208, 178, 208, 181, 209, 128, 32, 208, 145, 208, 148,
        32, 80, 111, 115, 116, 103, 114, 101, 83, 81, 76]\<rparr>,
      \<lparr>vm_name = ''W-DC'', vm_image = ''LAB2_TMP_W-DC'', vm_flavor = ''medium'', vm_ip = ''10.0.0.5'', vm_role = utf8 [
        208, 186, 208, 190, 208, 189, 209, 130, 209, 128, 208, 190, 208, 187, 208, 187,
        208, 181, 209, 128, 32, 208, 180, 208, 190, 208, 188, 208, 181, 208, 189, 208, 176,
        44, 32, 68, 78, 83, 44, 32, 83, 77, 66]\<rparr>,
      \<lparr>vm_name = ''V-HYPERV'', vm_image = ''LAB2_TMP_V-HYPERV'', vm_flavor = ''large'', vm_ip = ''10.0.0.65'', vm_role = utf8 [
        208, 179, 208, 184, 208, 191, 208, 181, 209, 128, 208, 178, 208, 184, 208, 183,
        208, 190, 209, 128, 32, 77, 105, 99, 114, 111, 115, 111, 102, 116, 32, 72, 121,
        112, 101, 114, 45, 86]\<rparr>]\<rparr>"

definition keypair_name :: "lib \<Rightarrow> lab \<Rightarrow> string" where
  "keypair_name L l = ''lab-'' @ uuid_string L (lb_id l) @ ''-key''"

definition network_name :: "lib \<Rightarrow> lab \<Rightarrow> string" where
  "network_name L l = ''lab-'' @ uuid_string L (lb_id l) @ ''-net''"

definition server_name :: "lib \<Rightarrow> lab \<Rightarrow> string \<Rightarrow> string" where
  "server_name L l vm = ''lab-'' @ uuid_string L (lb_id l) @ ''-'' @ vm"

section \<open>State of the saga\<close>

record deploy_state =
  dy_keypair :: string
  dy_secret :: string
  dy_network :: string
  dy_servers :: "string list"
  dy_fips :: "string list"
  dy_check :: string

definition fresh_state :: deploy_state where
  "fresh_state = \<lparr>dy_keypair = [], dy_secret = [], dy_network = [], dy_servers = [], dy_fips = [],
     dy_check = []\<rparr>"

text \<open>
  The lists of the state are nil until something is appended, so the empty list stands for nil
  and marshals to null. Unmarshalling goes into the state that is there: an absent field, and a
  null where a string is expected, leave the old value.
\<close>

definition list_json :: "string list \<Rightarrow> json" where
  "list_json xs = (if xs = [] then JNull else JArr (map JStr xs))"

definition deploy_state_json :: "deploy_state \<Rightarrow> json" where
  "deploy_state_json s = JObj ([(''keypair_name'', JStr (dy_keypair s)),
     (''key_secret_id'', JStr (dy_secret s)), (''network_id'', JStr (dy_network s)),
     (''server_ids'', list_json (dy_servers s)), (''floating_ips'', list_json (dy_fips s))] @
     omit_empty_string ''initial_check'' (dy_check s))"

definition string_onto :: "string \<Rightarrow> json option \<Rightarrow> err + string" where
  "string_onto old j = (case j of None \<Rightarrow> Inr old | Some JNull \<Rightarrow> Inr old | Some (JStr s) \<Rightarrow> Inr s
     | Some _ \<Rightarrow> Inl unmarshal_error)"

definition list_onto :: "string list \<Rightarrow> json option \<Rightarrow> err + string list" where
  "list_onto old j = (case j of None \<Rightarrow> Inr old | Some j \<Rightarrow> decode_list (Some j))"

definition deploy_state_from_json :: "json \<Rightarrow> deploy_state \<Rightarrow> err + deploy_state" where
  "deploy_state_from_json j s = (case j of
     JNull \<Rightarrow> Inr s
   | JObj _ \<Rightarrow>
      (case string_onto (dy_keypair s) (json_field ''keypair_name'' j) of Inl e \<Rightarrow> Inl e | Inr k \<Rightarrow>
      (case string_onto (dy_secret s) (json_field ''key_secret_id'' j) of Inl e \<Rightarrow> Inl e | Inr i \<Rightarrow>
      (case string_onto (dy_network s) (json_field ''network_id'' j) of Inl e \<Rightarrow> Inl e | Inr n \<Rightarrow>
      (case list_onto (dy_servers s) (json_field ''server_ids'' j) of Inl e \<Rightarrow> Inl e | Inr vs \<Rightarrow>
      (case list_onto (dy_fips s) (json_field ''floating_ips'' j) of Inl e \<Rightarrow> Inl e | Inr fs \<Rightarrow>
      (case string_onto (dy_check s) (json_field ''initial_check'' j) of Inl e \<Rightarrow> Inl e | Inr c \<Rightarrow>
         Inr \<lparr>dy_keypair = k, dy_secret = i, dy_network = n, dy_servers = vs, dy_fips = fs,
           dy_check = c\<rparr>))))))
   | _ \<Rightarrow> Inl unmarshal_error)"

section \<open>Steps\<close>

record 'c deploy_deps =
  dd_lib :: lib
  dd_kek :: bytes
  dd_cloud :: "'c cloud_ops"
  dd_checks :: bool
  dd_cleanup_after :: duration
  dd_max_attempts :: int

definition deploy_max_attempts :: "'c deploy_deps \<Rightarrow> int" where
  "deploy_max_attempts D = (if 0 < dd_max_attempts D then dd_max_attempts D else 3)"

definition deploy_cleanup_after :: "'c deploy_deps \<Rightarrow> duration" where
  "deploy_cleanup_after D = (if 0 < dd_cleanup_after D then dd_cleanup_after D else 7200 * second)"

text \<open>The tenant a step passes to the provider: the string form of the lab's project.\<close>

definition lab_tenant :: "lib \<Rightarrow> lab \<Rightarrow> string" where
  "lab_tenant L l = uuid_string L (the (lb_project l))"

type_synonym 'c saga_step = "'c deploy_deps \<Rightarrow> lab \<Rightarrow> deploy_state \<Rightarrow> ('c, deploy_state) prog"

definition run_create_keypair :: "'c saga_step" where
  "run_create_keypair D l st = (let L = dd_lib D in
     bind (on_err (Wrapped ''create keypair'')
       (on_cloud (c_create_keypair (dd_cloud D) (lab_tenant L l) (keypair_name L l)))) (\<lambda>kp.
     bind (on_err (Wrapped ''store ssh key'') (secret_put L (dd_kek D) ''ssh_private_key''
       (uuid_string L (lb_id l)) (kp_private kp))) (\<lambda>sid.
     ret (st\<lparr>dy_keypair := kp_name kp, dy_secret := uuid_string L sid\<rparr>))))"

definition run_provision_network :: "'c saga_step" where
  "run_provision_network D l st = (let L = dd_lib D in
     bind (on_err (Wrapped ''create network'')
       (on_cloud (c_create_network (dd_cloud D) (lab_tenant L l)
          \<lparr>ns_name = network_name L l, ns_cidr = tp_cidr (topology_for (lb_template l))\<rparr>))) (\<lambda>net.
     ret (st\<lparr>dy_network := net\<rparr>)))"

definition vm_server_spec :: "lib \<Rightarrow> lab \<Rightarrow> deploy_state \<Rightarrow> vm_spec \<Rightarrow> server_spec" where
  "vm_server_spec L l st vm = \<lparr>ss_name = server_name L l (vm_name vm), ss_image = vm_image vm,
     ss_flavor = vm_flavor vm, ss_network = dy_network st, ss_keypair = dy_keypair st,
     ss_user_data = [], ss_metadata = [(''clg.role'', vm_role vm), (''clg.fixed_ip'', vm_ip vm)]\<rparr>"

fun boot_vms :: "'c deploy_deps \<Rightarrow> lab \<Rightarrow> vm_spec list \<Rightarrow> deploy_state \<Rightarrow> ('c, deploy_state) prog" where
  "boot_vms D l [] st = ret st"
| "boot_vms D l (vm # vms) st =
     bind (on_err (Wrapped (''boot server '' @ vm_name vm))
       (on_cloud (c_boot_server (dd_cloud D) (lab_tenant (dd_lib D) l)
          (vm_server_spec (dd_lib D) l st vm)))) (\<lambda>i.
     boot_vms D l vms (st\<lparr>dy_servers := dy_servers st @ [i]\<rparr>))"

definition run_boot_vm :: "'c saga_step" where
  "run_boot_vm D l st = boot_vms D l (tp_vms (topology_for (lb_template l))) (st\<lparr>dy_servers := []\<rparr>)"

fun wait_servers :: "'c deploy_deps \<Rightarrow> lab \<Rightarrow> string list \<Rightarrow> deploy_state \<Rightarrow> ('c, deploy_state) prog" where
  "wait_servers D l [] st = ret st"
| "wait_servers D l (i # is) st =
     bind (on_err (Wrapped (''wait for server '' @ i))
       (on_cloud (c_wait_active (dd_cloud D) (lab_tenant (dd_lib D) l) i))) (\<lambda>_.
     bind (on_err (Wrapped (''allocate floating ip for '' @ i))
       (on_cloud (c_allocate_fip (dd_cloud D) (lab_tenant (dd_lib D) l) i))) (\<lambda>ip.
     wait_servers D l is (st\<lparr>dy_fips := dy_fips st @ [ip]\<rparr>)))"

definition run_wait_ssh :: "'c saga_step" where
  "run_wait_ssh D l st = wait_servers D l (dy_servers st) (st\<lparr>dy_fips := []\<rparr>)"

definition run_initial_check :: "'c saga_step" where
  "run_initial_check D l st =
     ret (st\<lparr>dy_check := (if dd_checks D then run_state_text Passed else ''skipped'')\<rparr>)"

definition ordered_steps :: "(string \<times> 'c saga_step) list" where
  "ordered_steps = [(''create_keypair'', run_create_keypair),
     (''provision_network'', run_provision_network), (''boot_vm'', run_boot_vm),
     (''wait_ssh'', run_wait_ssh), (''initial_check'', run_initial_check)]"

section \<open>The saga\<close>

definition deploy_succeed :: "'c deploy_deps \<Rightarrow> lab \<Rightarrow> deploy_state \<Rightarrow> ('c, unit) prog" where
  "deploy_succeed D l st = (let L = dd_lib D;
       l = l\<lparr>lb_resources := \<lparr>ki_servers = dy_servers st, ki_network = dy_network st,
         ki_floating_ips = dy_fips st, ki_keypair = dy_keypair st\<rparr>\<rparr>;
       l = (if dy_secret st = [] then l else case uuid_parse L (dy_secret st) of
              None \<Rightarrow> l
            | Some i \<Rightarrow> l\<lparr>lb_checker_key := Some i, lb_student_key := Some i\<rparr>) in
     bind clock_now (\<lambda>now. let cleanup_at = now + deploy_cleanup_after D in
     bind (from_sum (case mark_ready cleanup_at now l of
        Inl e \<Rightarrow> Inl (Wrapped ''deploy: mark ready'' e) | Inr l \<Rightarrow> Inr l)) (\<lambda>l.
     bind (save_lab L l) (\<lambda>l.
     bind (attempt (enqueue_at (cleanup_task L (lb_id l) ''timer'') cleanup_at)) (\<lambda>_.
     ret ())))))"

definition deploy_fail :: "'c deploy_deps \<Rightarrow> lab \<Rightarrow> string \<Rightarrow> err \<Rightarrow> ('c, unit) prog" where
  "deploy_fail D l step cause =
     bind clock_now (\<lambda>now.
     bind (from_sum (case transition Failed (''deploy failed at '' @ step @ '': '' @ error_text cause) now l of
        Inl e \<Rightarrow> Inl (Wrapped ''deploy: transition to failed'' e) | Inr l \<Rightarrow> Inr l)) (\<lambda>l.
     bind (save_lab (dd_lib D) l) (\<lambda>l.
     bind (attempt (enqueue (cleanup_task (dd_lib D) (lb_id l) ''compensate''))) (\<lambda>_.
     ret ()))))"

fun run_steps :: "'c deploy_deps \<Rightarrow> lab \<Rightarrow> (string \<times> 'c saga_step) list \<Rightarrow> deploy_state \<Rightarrow> ('c, unit) prog" where
  "run_steps D l [] st = deploy_succeed D l st"
| "run_steps D l ((name, step) # rest) st =
     bind (on_err (Wrapped (''deploy: load step '' @ name)) (steps_get_or_init (lb_id l) name)) (\<lambda>rec.
     if ds_status rec = ''succeeded'' then
       (case ds_result rec of
          None \<Rightarrow> run_steps D l rest st
        | Some j \<Rightarrow> (case deploy_state_from_json j st of
            Inl e \<Rightarrow> throw (Wrapped (''deploy: replay step '' @ name @ '' result'') e)
          | Inr st \<Rightarrow> run_steps D l rest st))
     else
       let rec = rec\<lparr>ds_status := ''in_progress'', ds_attempt := ds_attempt rec + 1, ds_last_error := []\<rparr> in
       bind clock_now (\<lambda>started. let rec = rec\<lparr>ds_started_at := Some started\<rparr> in
       bind (on_err (Wrapped (''deploy: save step '' @ name)) (steps_save rec)) (\<lambda>_.
       bind (attempt (step D l st)) (\<lambda>out.
       bind clock_now (\<lambda>finished. let rec = rec\<lparr>ds_finished_at := Some finished\<rparr> in
       case out of
         Inl e \<Rightarrow>
           bind (attempt (steps_save (rec\<lparr>ds_status := ''failed'', ds_last_error := error_text e\<rparr>))) (\<lambda>_.
           if deploy_max_attempts D \<le> ds_attempt rec then deploy_fail D l name e
           else throw (Wrapped (''deploy: step '' @ name @ '' (attempt '' @ int_text (ds_attempt rec) @ '')'') e))
       | Inr st \<Rightarrow>
           bind (on_err (Wrapped (''deploy: save step '' @ name))
             (steps_save (rec\<lparr>ds_status := ''succeeded'', ds_result := Some (deploy_state_json st)\<rparr>))) (\<lambda>_.
           run_steps D l rest st))))))"

definition deploy_run :: "'c deploy_deps \<Rightarrow> lab_id \<Rightarrow> ('c, unit) prog" where
  "deploy_run D i =
     bind (on_err (Wrapped ''deploy: load lab'') (lab_get_by_id i)) (\<lambda>l.
     if lb_state l \<noteq> Deploying then ret ()
     else if lb_project l = None
     then throw (Plain (''deploy: lab '' @ uuid_string (dd_lib D) i @ '' has no project assigned''))
     else run_steps D l ordered_steps fresh_state)"

text \<open>
  The handler of the task: the payload is an object whose \<open>lab_id\<close> is a string; an absent or null
  \<open>lab_id\<close> is the empty string. The quoted text of a bad identifier is written without escapes.
\<close>

definition lab_id_of_payload :: "lib \<Rightarrow> string \<Rightarrow> json \<Rightarrow> err + lab_id" where
  "lab_id_of_payload L who j =
     (case (case j of JNull \<Rightarrow> Inr [] | JObj _ \<Rightarrow> decode_string (json_field ''lab_id'' j) | _ \<Rightarrow> Inl unmarshal_error) of
        Inl e \<Rightarrow> Inl (Wrapped (who @ '': bad task payload'') e)
      | Inr s \<Rightarrow> (case uuid_parse L s of
          None \<Rightarrow> Inl (Wrapped (who @ '': bad lab id '' @ [CHR 0x22] @ s @ [CHR 0x22]) (Plain ''invalid UUID''))
        | Some i \<Rightarrow> Inr i))"

definition deploy_handle_task :: "'c deploy_deps \<Rightarrow> task \<Rightarrow> ('c, unit) prog" where
  "deploy_handle_task D t =
     bind (from_sum (lab_id_of_payload (dd_lib D) ''deploy'' (tk_payload t))) (deploy_run D)"

end
