(* ===== verification/Progress.thy ===== *)
theory Progress
  imports LabApp
begin

text \<open>
  Runs that succeed. In a healthy world no statement fails, no transaction is open and the UUIDs
  still to be drawn are not those of audit events that exist; there a save that has one event to
  record goes through as soon as its row allows it. The liveness of the deploy saga rests on
  these lemmas.
\<close>

section \<open>Healthy worlds\<close>

definition fresh_ids :: "'c world \<Rightarrow> bool" where
  "fresh_ids w \<longleftrightarrow> (\<forall>n \<ge> w_draw w. e_uuid (w_env w) n \<notin> ar_id ` set (t_audit (w_db w)))"

definition able :: "'c world \<Rightarrow> bool" where
  "able w \<longleftrightarrow> no_db_faults w \<and> \<not> w_aborted w \<and> fresh_ids w"

definition healthy :: "'c world \<Rightarrow> bool" where
  "healthy w \<longleftrightarrow> able w \<and> w_snap w = None"

text \<open>A clock that never goes back and has passed \<open>t\<close>.\<close>

definition clock_past :: "time \<Rightarrow> 'c world \<Rightarrow> bool" where
  "clock_past t w \<longleftrightarrow> mono (e_clock (w_env w)) \<and> t \<le> e_clock (w_env w) (w_tick w) \<and>
     0 < e_clock (w_env w) (w_tick w)"

lemma clock_past_tick: "clock_past t w \<Longrightarrow> clock_past t (w\<lparr>w_tick := Suc (w_tick w)\<rparr>)"
  unfolding clock_past_def by simp (meson le_SucI order.trans le_refl monoD less_le_trans)

section \<open>Saves that go through\<close>

lemma emit_ok:
  assumes "able w"
  shows "\<exists>w'. emit ta tb kind stype ps t w = (Inr (), w')"
proof -
  let ?d1 = "(w_db w)\<lparr>t_outbox := t_outbox (w_db w) @ [\<lparr>ob_id = t_outbox_seq (w_db w), ob_topic = kind,
         ob_payload = fst ps, ob_occurred_at = coalesce (nullable_time_arg t) (e_db_now (w_env w) (w_stmt w)),
         ob_published_at = None, ob_attempts = 0\<rparr>], t_outbox_seq := t_outbox_seq (w_db w) + 1\<rparr>"
  let ?i = "e_uuid (w_env w) (w_draw w)"
  let ?w2 = "w\<lparr>w_stmt := Suc (w_stmt w), w_db := ?d1, w_draw := Suc (w_draw w)\<rparr>"
  let ?f = "insert_audit_event ?i kind None stype (Some (snd ps)) (fst ps) [] (nullable_time_arg t)"
  have w: "no_db_faults w" "\<not> w_aborted w" "?i \<notin> ar_id ` set (t_audit (w_db w))"
    using assms by (simp_all add: able_def fresh_ids_def)
  have 1: "tx_stmt (insert_outbox kind (fst ps) (nullable_time_arg t)) w =
      (Inr (), w\<lparr>w_stmt := Suc (w_stmt w), w_db := ?d1\<rparr>)"
    by (rule tx_stmt_ok [OF w(1,2)]) (simp add: insert_outbox_def)
  obtain d2 where ins: "?f (e_db_now (w_env ?w2) (w_stmt ?w2)) (w_db ?w2) = Inr ((), d2)"
    using w(3) by (simp add: insert_audit_event_def)
  have "tx_stmt ?f ?w2 = (Inr (), ?w2\<lparr>w_stmt := Suc (w_stmt ?w2), w_db := d2\<rparr>)"
    by (rule tx_stmt_ok [where f = ?f, OF _ _ ins]) (use w in simp_all)
  with 1 show ?thesis by (simp add: emit_def bind_def on_err_def new_uuid_def)
qed

lemma able_upd [simp]: "able (w\<lparr>w_stmt := n\<rparr>) = able w" "able (w\<lparr>w_tick := n\<rparr>) = able w"
  "able (w\<lparr>w_snap := s\<rparr>) = able w" "able (w\<lparr>w_cloud := c\<rparr>) = able w"
  by (simp_all add: able_def fresh_ids_def)

lemma able_db: "able w \<Longrightarrow> t_audit d = t_audit (w_db w) \<Longrightarrow> able (w\<lparr>w_db := d\<rparr>)"
  by (simp add: able_def fresh_ids_def)

lemma able_draw: "able w \<Longrightarrow> able (w\<lparr>w_draw := Suc (w_draw w)\<rparr>)"
  by (auto simp: able_def fresh_ids_def)

lemma flush_lab_events_ok:
  assumes "able w" "length (lb_events l) \<le> 1"
  shows "\<exists>w'. flush_lab_events L l t w = (Inr (l\<lparr>lb_events := []\<rparr>), w') \<and> no_db_faults w' \<and> \<not> w_aborted w'"
proof -
  have "\<exists>w'. for_each (lb_events l) (\<lambda>ev. append_lab_event L ev t) w = (Inr (), w')"
  proof (cases "lb_events l")
    case (Cons ev evs)
    with assms(2) have "lb_events l = [ev]" by simp
    moreover have "\<exists>w'. append_lab_event L ev t w = (Inr (), w')"
      unfolding append_lab_event_def by (rule emit_ok [OF assms(1)])
    ultimately show ?thesis by (auto simp: bind_unfold ret_def)
  qed (simp add: ret_def)
  then obtain w' where run: "flush_lab_events L l t w = (Inr (l\<lparr>lb_events := []\<rparr>), w')"
    by (auto simp: flush_lab_events_def bind_def ret_def lb_pull_events_def)
  with flush_lab_events_InrD [OF run] logs_onlyD [of w w'] assms(1) show ?thesis
    by (auto simp: able_def no_db_faults_def)
qed

text \<open>The row of a lab lets an aggregate be saved: it is not newer, and the result is a valid row.\<close>

definition lab_saveable :: "lab \<Rightarrow> db \<Rightarrow> bool" where
  "lab_saveable l d \<longleftrightarrow> (\<exists>r. get_lab_row (lb_id l) d = Some r \<and> lr_updated_at r \<le> lb_updated_at l \<and>
     lb_updated_at l \<noteq> 0 \<and> lab_row_ok (lab_merge l r) \<and> \<not> active_clash (lab_merge l r) (t_labs d))"

lemma lab_update_ok:
  assumes "lab_saveable l d"
  shows "\<exists>r. lab_update l now d = Inr (Some r, d\<lparr>t_labs := put_row lr_id r (t_labs d)\<rparr>)"
  using assms
  by (auto simp: lab_saveable_def lab_update_def update_lab_instance_def get_lab_row_def lab_merge_def Let_def
      timestamptz_def simp flip: lab_row_violation_None)

lemma save_lab_ok:
  assumes "healthy w" "lab_saveable l (w_db w)" "length (lb_events l) \<le> 1"
  shows "\<exists>w'. save_lab L l w = (Inr (l\<lparr>lb_events := []\<rparr>), w')"
proof -
  let ?w1 = "w\<lparr>w_stmt := Suc (w_stmt w), w_snap := Some (w_db w), w_aborted := False\<rparr>"
  have w1: "able ?w1" "no_db_faults ?w1" "\<not> w_aborted ?w1" "w_db ?w1 = w_db w"
    using assms(1) by (simp_all add: healthy_def able_def fresh_ids_def)
  obtain r where "lab_update l (e_db_now (w_env ?w1) (w_stmt ?w1)) (w_db ?w1) =
      Inr (Some r, (w_db w)\<lparr>t_labs := put_row lr_id r (t_labs (w_db w))\<rparr>)"
    using lab_update_ok [OF assms(2)] by fastforce
  from tx_stmt_ok [where f = "lab_update l", OF w1(2,3) this]
  have upd: "tx_stmt (lab_update l) ?w1 = (Inr (Some r), ?w1\<lparr>w_stmt := Suc (w_stmt ?w1),
      w_db := (w_db w)\<lparr>t_labs := put_row lr_id r (t_labs (w_db w))\<rparr>\<rparr>)" (is "_ = (_, ?w2)") .
  have "able ?w2" using w1(1) by (auto simp: able_def fresh_ids_def)
  from flush_lab_events_ok [OF this assms(3)] obtain w3 where
    "flush_lab_events L l (lab_event_occurred_at l) ?w2 = (Inr (l\<lparr>lb_events := []\<rparr>), w3)"
    and w3: "no_db_faults w3" "\<not> w_aborted w3" by blast
  with upd have run: "lab_save L l ?w1 = (Inr (l\<lparr>lb_events := []\<rparr>), w3)"
    by (simp add: lab_save_def bind_def on_err_def one_row_def ret_def)
  with w3 assms(1) have "save_lab L l w =
      (Inr (l\<lparr>lb_events := []\<rparr>), w3\<lparr>w_snap := None, w_stmt := Suc (w_stmt w3)\<rparr>)"
    by (simp add: save_lab_def with_tx_def healthy_def able_def)
  then show ?thesis ..
qed

text \<open>What a save of a lab leaves alone.\<close>

lemma save_lab_frame:
  assumes "save_lab L l w = (Inr l', w')"
  shows "w_env w' = w_env w" "w_tick w' = w_tick w" "w_cloud w' = w_cloud w" "t_steps (w_db w') = t_steps (w_db w)"
    "t_projects (w_db w') = t_projects (w_db w)" "w_snap w' = None" "w_tasks w' = w_tasks w"
proof -
  let ?w1 = "w\<lparr>w_stmt := Suc (w_stmt w), w_snap := Some (w_db w), w_aborted := False\<rparr>"
  from with_tx_InrD [OF assms [unfolded save_lab_def]] obtain w2 where
    w2: "lab_save L l ?w1 = (Inr l', w2)" "w' = w2\<lparr>w_snap := None, w_stmt := Suc (w_stmt w2)\<rparr>" by blast
  from lab_save_InrD [OF w2(1)] obtain r w3 where
    w3: "w3 = ?w1\<lparr>w_stmt := Suc (w_stmt ?w1), w_db := (w_db ?w1)\<lparr>t_labs :=
      put_row lr_id (lab_merge l r) (t_labs (w_db ?w1))\<rparr>\<rparr>" and logs: "logs_only w3 w2" by blast
  show "w_env w' = w_env w" "w_tick w' = w_tick w" "w_cloud w' = w_cloud w" "t_steps (w_db w') = t_steps (w_db w)"
    "t_projects (w_db w') = t_projects (w_db w)" "w_snap w' = None" "w_tasks w' = w_tasks w"
    using logs_onlyD [OF logs] by (simp_all add: w2(2) w3)
qed

text \<open>A change of state of a lab that is active keeps the index on active labs intact.\<close>

lemma labs_ok_clash:
  assumes "labs_ok d" "get_lab_row i d = Some r" "lab_active (lr_state r)"
    "lr_id x = lr_id r" "lr_student x = lr_student r" "lr_course x = lr_course r"
  shows "\<not> active_clash x (t_labs d)"
proof -
  have "r \<in> set (t_labs d)" using assms(2) by (auto simp: get_lab_row_def dest: find_row_SomeD)
  with assms show ?thesis by (auto simp: labs_ok_def active_clash_def)
qed

end
