(* ===== verification/DeployProgress.thy ===== *)
theory DeployProgress
  imports DeployApp Progress
begin

text \<open>
  What one delivery of the deploy task achieves, and what a series of deliveries does: the saved
  state of the steps survives its JSON form, a delivery in a healthy world settles the lab or
  uses up attempts, and so the lab settles within a fixed number of deliveries.
\<close>

section \<open>Replaying a step\<close>

lemma string_onto_JStr [simp]: "string_onto old (Some (JStr s)) = Inr s"
  by (simp add: string_onto_def)

lemma list_onto_list_json [simp]: "list_onto old (Some (list_json xs)) = Inr xs"
  by (simp add: list_onto_def list_json_def decode_list_def)

text \<open>
  replaying the recorded result of a step restores the state the saga had after it, on top of
  whatever it has now; only an empty outcome of the initial check, which is not written, leaves
  the old one.
\<close>
theorem deploy_state_replay:
  "deploy_state_from_json (deploy_state_json s) st =
     Inr (if dy_check s = [] then s\<lparr>dy_check := dy_check st\<rparr> else s)"
proof -
  let ?j = "deploy_state_json s"
  have f: "json_field ''keypair_name'' ?j = Some (JStr (dy_keypair s))"
    "json_field ''key_secret_id'' ?j = Some (JStr (dy_secret s))"
    "json_field ''network_id'' ?j = Some (JStr (dy_network s))"
    "json_field ''server_ids'' ?j = Some (list_json (dy_servers s))"
    "json_field ''floating_ips'' ?j = Some (list_json (dy_fips s))"
    "json_field ''initial_check'' ?j = (if dy_check s = [] then None else Some (JStr (dy_check s)))"
    by (simp_all add: json_field_def deploy_state_json_def omit_empty_string_def)
  have "deploy_state_from_json ?j st = Inr \<lparr>dy_keypair = dy_keypair s, dy_secret = dy_secret s,
      dy_network = dy_network s, dy_servers = dy_servers s, dy_fips = dy_fips s,
      dy_check = (if dy_check s = [] then dy_check st else dy_check s)\<rparr>"
    unfolding deploy_state_from_json_def f
    by (simp add: deploy_state_json_def string_onto_def)
  then show ?thesis by simp
qed

section \<open>Calm worlds\<close>

text \<open>
  The world in which a delivery works on the lab of row \<open>r\<close>: healthy, its clock past the row's
  stamp, the row in its table and the step records as given.
\<close>

definition calm :: "lab_row \<Rightarrow> step_row list \<Rightarrow> 'c world \<Rightarrow> bool" where
  "calm r ss w \<longleftrightarrow> healthy w \<and> clock_past (lr_updated_at r) w \<and> labs_ok (w_db w) \<and>
     get_lab_row (lr_id r) (w_db w) = Some r \<and> t_steps (w_db w) = ss"

lemma calm_labs: "t_labs d = t_labs (w_db w) \<Longrightarrow> labs_ok d = labs_ok (w_db w)"
  by (simp add: labs_ok_def)

lemma keeps_calm_clock: "keeps (calm r ss) clock_now"
  by (rule keepsI) (auto simp: clock_now_def calm_def healthy_def clock_past_tick)

lemma keeps_calm_draw: "keeps (calm r ss) new_uuid" "keeps (calm r ss) (random_bytes n)"
  by (auto intro!: keepsI simp: new_uuid_def random_bytes_def calm_def healthy_def able_draw clock_past_def)

lemma keeps_calm_cloud: "keeps (calm r ss) (on_cloud f)"
  by (rule keepsI) (auto simp: on_cloud_def calm_def healthy_def clock_past_def split: prod.splits)

lemma keeps_calm_query: "keeps (calm r ss) (conn_query f)"
  by (rule keepsI) (auto simp: conn_query_def calm_def healthy_def clock_past_def Let_def split: option.splits)

lemma keeps_calm_stmt:
  assumes "\<And>now d x d'. f now d = Inr (x, d') \<Longrightarrow>
    t_labs d' = t_labs d \<and> t_steps d' = t_steps d \<and> t_audit d' = t_audit d"
  shows "keeps (calm r ss) (conn_stmt f)"
proof (rule keepsI)
  fix w res w'
  assume c: "calm r ss w" and run: "conn_stmt f w = (res, w')"
  from conn_stmt_state [OF run] consider "w' = w\<lparr>w_stmt := Suc (w_stmt w)\<rparr>"
    | x d' now where "f now (w_db w) = Inr (x, d')" "w' = w\<lparr>w_stmt := Suc (w_stmt w), w_db := d'\<rparr>" by blast
  then show "calm r ss w'"
  proof cases
    case 1
    with c show ?thesis by (simp add: calm_def healthy_def clock_past_def)
  next
    case 2
    with c assms [OF 2(1)] show ?thesis
      by (auto simp: calm_def healthy_def clock_past_def get_lab_row_def labs_ok_def able_def fresh_ids_def)
  qed
qed

section \<open>Every step works in a calm world\<close>

lemma keeps_calm_secret_put: "keeps (calm r ss) (secret_put L kek kind ref_id payload)"
  unfolding secret_put_def store_put_def encrypt_dek_def encrypt_with_key_def case_prod_beta
  by (intro keeps_intros keeps_calm_draw keeps_calm_clock keeps_calm_stmt)
    (auto simp: insert_secret_def Let_def split: if_splits)

lemma keeps_calm_boot_vms: "keeps (calm r ss) (boot_vms D l vms st)"
  by (induction vms arbitrary: st) (auto intro!: keeps_intros keeps_calm_cloud)

lemma keeps_calm_wait_servers: "keeps (calm r ss) (wait_servers D l is st)"
  by (induction "is" arbitrary: st) (auto intro!: keeps_intros keeps_calm_cloud)

lemma keeps_calm_steps: "(name, step) \<in> set ordered_steps \<Longrightarrow> keeps (calm r ss) (step D l st)"
  by (auto simp: ordered_steps_def run_create_keypair_def run_provision_network_def run_boot_vm_def
      run_wait_ssh_def run_initial_check_def Let_def
      intro!: keeps_intros keeps_calm_cloud keeps_calm_secret_put keeps_calm_boot_vms keeps_calm_wait_servers)

section \<open>Step records\<close>

text \<open>
  The records a series of deliveries leaves: a succeeded step has a result that replays, any other
  has attempts to spare.
\<close>

definition record_ok :: "'c deploy_deps \<Rightarrow> step_row \<Rightarrow> bool" where
  "record_ok D s \<longleftrightarrow> (if dr_status s = ''succeeded'' then \<exists>y. dr_result s = Some (deploy_state_json y)
     else 0 \<le> dr_attempt s \<and> dr_attempt s < deploy_max_attempts D)"

definition records_ok :: "'c deploy_deps \<Rightarrow> lab_id \<Rightarrow> db \<Rightarrow> bool" where
  "records_ok D i d \<longleftrightarrow> (\<forall>n s. get_deploy_step_row i n d = Some s \<longrightarrow> record_ok D s)"

text \<open>The attempts a step has left, and those of a list of steps.\<close>

definition attempts_left :: "'c deploy_deps \<Rightarrow> lab_id \<Rightarrow> db \<Rightarrow> string \<Rightarrow> nat" where
  "attempts_left D i d n = (case get_deploy_step_row i n d of
     None \<Rightarrow> nat (deploy_max_attempts D)
   | Some s \<Rightarrow> if dr_status s = ''succeeded'' then 0 else nat (deploy_max_attempts D - dr_attempt s))"

definition budget :: "'c deploy_deps \<Rightarrow> lab_id \<Rightarrow> db \<Rightarrow> string list \<Rightarrow> nat" where
  "budget D i d ns = sum_list (map (attempts_left D i d) ns)"

text \<open>A save of a step record in a calm world.\<close>

definition step_row_of :: "deploy_step \<Rightarrow> step_row" where
  "step_row_of s = \<lparr>dr_lab = ds_lab s, dr_name = ds_name s, dr_status = ds_status s, dr_attempt = ds_attempt s,
     dr_last_error = nullable_string (ds_last_error s), dr_result = ds_result s,
     dr_started_at = timestamptz_ptr (ds_started_at s), dr_finished_at = timestamptz_ptr (ds_finished_at s)\<rparr>"

lemma steps_save_calm:
  assumes "calm r ss w" "ds_name s \<in> set step_names" "ds_status s \<in> set step_statuses"
    "0 \<le> ds_attempt s" "ds_attempt s \<le> 2147483647"
  shows "\<exists>w' ss'. steps_save s w = (Inr (), w') \<and> calm r ss' w' \<and>
    (\<forall>l n. get_deploy_step_row l n (w_db w') =
      (if (l, n) = (ds_lab s, ds_name s) then Some (step_row_of s) else get_deploy_step_row l n (w_db w)))"
proof -
  let ?f = "upsert_deploy_step (ds_lab s) (ds_name s) (ds_status s) (ds_attempt s) (ds_last_error s)
     (ds_result s) (timestamptz_ptr (ds_started_at s)) (timestamptz_ptr (ds_finished_at s))"
  let ?now = "e_db_now (w_env w) (w_stmt w)"
  have nf: "e_db_fault (w_env w) (w_stmt w) = None"
    using assms(1) by (simp add: calm_def healthy_def able_def)
  have "\<exists>ss'. ?f ?now (w_db w) = Inr ((), (w_db w)\<lparr>t_steps := ss'\<rparr>)"
    using assms(2,3) unfolding upsert_deploy_step_def Let_def
    by (cases "find_row step_key (ds_lab s, ds_name s) (t_steps (w_db w)) = None") auto
  then obtain ss' where up: "?f ?now (w_db w) = Inr ((), (w_db w)\<lparr>t_steps := ss'\<rparr>)" ..
  let ?w' = "w\<lparr>w_stmt := Suc (w_stmt w), w_db := (w_db w)\<lparr>t_steps := ss'\<rparr>\<rparr>"
  have run: "steps_save s w = (Inr (), ?w')"
    using nf up assms(4,5) by (simp add: steps_save_def deploy_step_attempt_int32_def bind_def from_sum_def
        on_err_def conn_stmt_def)
  have "calm r ss' ?w'" using assms(1)
    by (auto simp: calm_def healthy_def able_def fresh_ids_def clock_past_def get_lab_row_def labs_ok_def)
  moreover have "get_deploy_step_row l n (w_db ?w') =
      (if (l, n) = (ds_lab s, ds_name s) then Some (step_row_of s) else get_deploy_step_row l n (w_db w))" for l n
    using get_step_upsert [OF up, of l n] by (simp add: step_row_of_def)
  ultimately show ?thesis using run by blast
qed

section \<open>Settling\<close>

definition settled :: "lab_id \<Rightarrow> 'c world \<Rightarrow> bool" where
  "settled i w \<longleftrightarrow> w_snap w = None \<and>
     (\<exists>r. get_lab_row i (w_db w) = Some r \<and> (lr_state r = Ready \<or> lr_state r = Failed))"

lemma save_settles:
  assumes "calm r ss w" "lr_state r = Deploying" "lb_id l = lr_id r" "lb_state l = Ready \<or> lb_state l = Failed"
    "lb_state l = Ready \<Longrightarrow> \<exists>t. lb_cleanup_at l = Some t \<and> t \<noteq> 0"
    "lr_updated_at r \<le> lb_updated_at l" "0 < lb_updated_at l" "length (lb_events l) \<le> 1"
  shows "\<exists>w'. save_lab L l w = (Inr (l\<lparr>lb_events := []\<rparr>), w') \<and> settled (lr_id r) w'"
proof -
  have h: "healthy w" "labs_ok (w_db w)" "get_lab_row (lr_id r) (w_db w) = Some r"
    using assms(1) by (simp_all add: calm_def)
  have "\<not> active_clash (lab_merge l r) (t_labs (w_db w))"
    using labs_ok_clash [OF h(2,3)] assms(2) by (simp add: lab_active_def)
  moreover have "lab_row_ok (lab_merge l r)"
    using assms(4,5) by (auto simp: lab_row_ok_def lab_merge_def update_lab_params_def timestamptz_ptr_def timestamptz_def)
  ultimately have "lab_saveable l (w_db w)"
    using h(3) assms(3,6,7) unfolding lab_saveable_def by (intro exI [of _ r]) simp
  from save_lab_ok [OF h(1) this assms(8)] obtain w' where run: "save_lab L l w = (Inr (l\<lparr>lb_events := []\<rparr>), w')" by blast
  from save_lab_InrD [OF run] h(3) assms(3) have labs: "t_labs (w_db w') = put_row lr_id (lab_merge l r) (t_labs (w_db w))"
    by auto
  have "get_lab_row (lr_id r) (w_db w') = Some (lab_merge l r)"
    using get_lab_put [where k = "lr_id r" and d = "w_db w" and r = "lab_merge l r"] h(3) by (simp add: get_lab_row_def labs)
  with save_lab_frame(6) [OF run] assms(4) have "settled (lr_id r) w'" unfolding settled_def by simp
  with run show ?thesis by blast
qed

lemma enqueue_settled:
  "settled i w \<Longrightarrow> bind (attempt (enqueue t)) (\<lambda>_. ret ()) w = (res, w') \<Longrightarrow> settled i w'"
  "settled i w \<Longrightarrow> bind (attempt (enqueue_at t tm)) (\<lambda>_. ret ()) w = (res, w') \<Longrightarrow> settled i w'"
  by (auto simp: bind_def attempt_def ret_def settled_def split: prod.splits
      dest!: enqueue_state enqueue_at_state dest: queue_onlyD)

lemma calm_tick:
  assumes "calm r ss w"
  shows "calm r ss (w\<lparr>w_tick := Suc (w_tick w)\<rparr>)" "lr_updated_at r \<le> e_clock (w_env w) (w_tick w)"
    "0 < e_clock (w_env w) (w_tick w)"
  using assms clock_past_tick [of "lr_updated_at r" w]
  by (simp_all add: calm_def healthy_def clock_past_def)

lemma deploy_fail_settles:
  assumes "calm r ss w" "lr_state r = Deploying" "lab_from_row r = Inr l"
    "deploy_fail D l name e w = (res, w')"
  shows "settled (lr_id r) w'"
proof -
  let ?now = "e_clock (w_env w) (w_tick w)"
  let ?w1 = "w\<lparr>w_tick := Suc (w_tick w)\<rparr>"
  note l = lab_from_row_fields [OF assms(3)]
  obtain l1 where tr: "transition Failed (''deploy failed at '' @ name @ '': '' @ error_text e) ?now l = Inr l1"
    using l assms(2) by (simp add: transition_def can_transition_def)
  from tr l have l1: "lb_id l1 = lr_id r" "lb_state l1 = Failed" "lb_updated_at l1 = ?now"
    "length (lb_events l1) \<le> 1"
    by (auto simp: transition_Inr lb_record_def)
  from save_settles [OF calm_tick(1) [OF assms(1)] assms(2) l1(1)] l1 calm_tick(2,3) [OF assms(1)]
  obtain w2 where s: "save_lab (dd_lib D) l1 ?w1 = (Inr (l1\<lparr>lb_events := []\<rparr>), w2)" "settled (lr_id r) w2"
    by auto
  from assms(4) tr s(1) have "bind (attempt (enqueue (cleanup_task (dd_lib D) (lb_id (l1\<lparr>lb_events := []\<rparr>)) ''compensate'')))
      (\<lambda>_. ret ()) w2 = (res, w')"
    by (simp add: deploy_fail_def bind_def clock_now_def from_sum_def)
  from enqueue_settled(1) [OF s(2) this] show ?thesis .
qed

lemma deploy_succeed_settles:
  assumes "calm r ss w" "lr_state r = Deploying" "lab_from_row r = Inr l"
    "deploy_succeed D l st w = (res, w')"
  shows "settled (lr_id r) w'"
proof -
  let ?now = "e_clock (w_env w) (w_tick w)"
  let ?w1 = "w\<lparr>w_tick := Suc (w_tick w)\<rparr>"
  let ?at = "?now + deploy_cleanup_after D"
  note l = lab_from_row_fields [OF assms(3)]
  define l2 where "l2 = (let l = l\<lparr>lb_resources := \<lparr>ki_servers = dy_servers st, ki_network = dy_network st,
         ki_floating_ips = dy_fips st, ki_keypair = dy_keypair st\<rparr>\<rparr> in
       if dy_secret st = [] then l else case uuid_parse (dd_lib D) (dy_secret st) of
              None \<Rightarrow> l
            | Some i \<Rightarrow> l\<lparr>lb_checker_key := Some i, lb_student_key := Some i\<rparr>)"
  have l2: "lb_id l2 = lr_id r" "lb_state l2 = Deploying" "lb_events l2 = []"
    using l assms(2) by (auto simp: l2_def Let_def split: option.split)
  then obtain l1 where tr: "mark_ready ?at ?now l2 = Inr l1"
    by (simp add: mark_ready_def transition_def can_transition_def)
  from tr l2 have l1: "lb_id l1 = lr_id r" "lb_state l1 = Ready" "lb_updated_at l1 = ?now" "lb_cleanup_at l1 = Some ?at"
    "length (lb_events l1) \<le> 1"
    by (auto simp: mark_ready_def transition_Inr lb_record_def split: sum.splits)
  have "?at \<noteq> 0" using calm_tick(3) [OF assms(1)] by (simp add: deploy_cleanup_after_def second_def)
  with save_settles [OF calm_tick(1) [OF assms(1)] assms(2) l1(1)] l1 calm_tick(2,3) [OF assms(1)]
  obtain w2 where s: "save_lab (dd_lib D) l1 ?w1 = (Inr (l1\<lparr>lb_events := []\<rparr>), w2)" "settled (lr_id r) w2"
    by auto
  from assms(4) tr s(1) have "bind (attempt (enqueue_at (cleanup_task (dd_lib D) (lb_id (l1\<lparr>lb_events := []\<rparr>)) ''timer'') ?at))
      (\<lambda>_. ret ()) w2 = (res, w')"
    by (simp add: deploy_succeed_def bind_def clock_now_def from_sum_def Let_def l2_def)
  from enqueue_settled(2) [OF s(2) this] show ?thesis .
qed

section \<open>One delivery\<close>

lemma steps_get_calm:
  assumes "calm r ss w"
  shows "steps_get_or_init i n w = (Inr (case get_deploy_step_row i n (w_db w) of
      None \<Rightarrow> fresh_step i n | Some s \<Rightarrow> deploy_step_from_row s), w\<lparr>w_stmt := Suc (w_stmt w)\<rparr>)"
  using assms conn_query_ok [of w "get_deploy_step_row i n"]
  by (simp add: calm_def healthy_def able_def steps_get_or_init_def bind_def attempt_def one_row_def
      throw_def ret_def split: option.split)

lemma calm_stmt: "calm r ss w \<Longrightarrow> calm r ss (w\<lparr>w_stmt := n\<rparr>)"
  by (simp add: calm_def healthy_def clock_past_def)

lemma record_ok_step_row:
  "ds_status s = ''succeeded'' \<Longrightarrow> ds_result s = Some (deploy_state_json y) \<Longrightarrow> record_ok D (step_row_of s)"
  "ds_status s \<noteq> ''succeeded'' \<Longrightarrow> 0 \<le> ds_attempt s \<Longrightarrow> ds_attempt s < deploy_max_attempts D \<Longrightarrow>
     record_ok D (step_row_of s)"
  by (auto simp: record_ok_def step_row_of_def)

text \<open>What a delivery leaves that does not settle the lab: fewer attempts on the steps it could run.\<close>

definition used_up :: "'c deploy_deps \<Rightarrow> lab_row \<Rightarrow> string list \<Rightarrow> 'c world \<Rightarrow> 'c world \<Rightarrow> bool" where
  "used_up D r ns w w' \<longleftrightarrow> (\<exists>ss. calm r ss w') \<and> records_ok D (lr_id r) (w_db w') \<and>
     (\<forall>n. n \<notin> set ns \<longrightarrow> get_deploy_step_row (lr_id r) n (w_db w') = get_deploy_step_row (lr_id r) n (w_db w)) \<and>
     budget D (lr_id r) (w_db w') ns < budget D (lr_id r) (w_db w) ns"

lemma attempts_left_cong:
  "get_deploy_step_row i n d' = get_deploy_step_row i n d \<Longrightarrow> attempts_left D i d' n = attempts_left D i d n"
  by (simp add: attempts_left_def)

lemma budget_cong:
  "(\<And>n. n \<in> set ns \<Longrightarrow> get_deploy_step_row i n d' = get_deploy_step_row i n d) \<Longrightarrow> budget D i d' ns = budget D i d ns"
  unfolding budget_def by (rule arg_cong [where f = sum_list], rule map_cong) (auto intro: attempts_left_cong)

text \<open>One record replaced: only its step's attempts change.\<close>

lemma used_up_one:
  assumes "calm r ss w'" "records_ok D (lr_id r) (w_db w)" "record_ok D x" "n \<notin> set ns"
    "\<And>l m. get_deploy_step_row l m (w_db w') = (if (l, m) = (lr_id r, n) then Some x else get_deploy_step_row l m (w_db w))"
    "attempts_left D (lr_id r) (w_db w') n < attempts_left D (lr_id r) (w_db w) n"
  shows "used_up D r (n # ns) w w'"
proof -
  have "budget D (lr_id r) (w_db w') ns = budget D (lr_id r) (w_db w) ns"
    using assms(4,5) by (intro budget_cong) auto
  moreover have "records_ok D (lr_id r) (w_db w')" using assms(2,3,5) by (auto simp: records_ok_def split: if_splits)
  ultimately show ?thesis using assms(1,5,6) by (auto simp: used_up_def budget_def)
qed

text \<open>The rest of the steps after the first one was done or skipped.\<close>

lemma used_up_rest:
  assumes "used_up D r ns w1 w'" "n \<notin> set ns"
    "\<And>m. m \<noteq> n \<Longrightarrow> get_deploy_step_row (lr_id r) m (w_db w1) = get_deploy_step_row (lr_id r) m (w_db w)"
    "attempts_left D (lr_id r) (w_db w1) n \<le> attempts_left D (lr_id r) (w_db w) n"
  shows "used_up D r (n # ns) w w'"
proof -
  have "budget D (lr_id r) (w_db w1) ns = budget D (lr_id r) (w_db w) ns"
    using assms(2,3) by (intro budget_cong) metis
  moreover have "attempts_left D (lr_id r) (w_db w') n = attempts_left D (lr_id r) (w_db w1) n"
    using assms(1,2) by (auto simp: used_up_def intro: attempts_left_cong)
  ultimately show ?thesis using assms by (auto simp: used_up_def budget_def)
qed

lemma step_names_ok: "n \<in> fst ` set ordered_steps \<Longrightarrow> n \<in> set step_names"
  by (auto simp: ordered_steps_def step_names_def)

text \<open>A step that is run and recorded: three saves around the step itself.\<close>

lemma run_steps_body:
  assumes calm: "calm r ss w" and rec: "rec = (case get_deploy_step_row (lr_id r) n (w_db w) of
      None \<Rightarrow> fresh_step (lr_id r) n | Some s \<Rightarrow> deploy_step_from_row s)"
    and "ds_status rec \<noteq> ''succeeded''" and rs: "records_ok D (lr_id r) (w_db w)"
    and mem: "(n, step) \<in> set ordered_steps" and cap: "deploy_max_attempts D \<le> 2147483647"
    and id: "lb_id l = lr_id r"
    and run: "run_steps D l ((n, step) # rest) st w = (res, w')"
  shows "\<exists>w5 out s f fin. calm r s w5 \<and>
    (\<forall>i m. (i, m) \<noteq> (lr_id r, n) \<longrightarrow> get_deploy_step_row i m (w_db w5) = get_deploy_step_row i m (w_db w)) \<and>
    0 \<le> ds_attempt rec \<and> ds_attempt rec < deploy_max_attempts D \<and>
    attempts_left D (lr_id r) (w_db w) n = nat (deploy_max_attempts D - ds_attempt rec) \<and>
    fin = rec\<lparr>ds_status := ''in_progress'', ds_attempt := ds_attempt rec + 1, ds_last_error := [],
      ds_started_at := Some f, ds_finished_at := Some (snd out)\<rparr> \<and> ds_lab rec = lr_id r \<and> ds_name rec = n \<and>
    (case fst out of
       Inl e \<Rightarrow> bind (attempt (steps_save (fin\<lparr>ds_status := ''failed'', ds_last_error := error_text e\<rparr>))) (\<lambda>_.
           if deploy_max_attempts D \<le> ds_attempt fin then deploy_fail D l n e
           else throw (Wrapped (''deploy: step '' @ n @ '' (attempt '' @ int_text (ds_attempt fin) @ '')'') e)) w5 = (res, w')
     | Inr st \<Rightarrow> bind (on_err (Wrapped (''deploy: save step '' @ n))
             (steps_save (fin\<lparr>ds_status := ''succeeded'', ds_result := Some (deploy_state_json st)\<rparr>))) (\<lambda>_.
           run_steps D l rest st) w5 = (res, w'))"
proof -
  let ?i = "lr_id r" and ?mx = "deploy_max_attempts D"
  have mx: "0 < ?mx" by (simp add: deploy_max_attempts_def)
  have key: "ds_lab rec = ?i" "ds_name rec = n"
    unfolding rec by (auto simp: fresh_step_def deploy_step_from_row_def get_deploy_step_row_def step_key_def
        dest!: find_row_SomeD split: option.split)
  have att: "0 \<le> ds_attempt rec" "ds_attempt rec < ?mx"
    "attempts_left D ?i (w_db w) n = nat (?mx - ds_attempt rec)"
    using rs assms(3) mx unfolding rec attempts_left_def records_ok_def record_ok_def
    by (auto simp: fresh_step_def deploy_step_from_row_def split: option.splits if_splits)
  let ?f = "e_clock (w_env w) (w_tick w)"
  let ?w2 = "w\<lparr>w_stmt := Suc (w_stmt w), w_tick := Suc (w_tick w)\<rparr>"
  let ?r1 = "rec\<lparr>ds_status := ''in_progress'', ds_attempt := ds_attempt rec + 1, ds_last_error := [],
      ds_started_at := Some ?f\<rparr>"
  have c2: "calm r ss ?w2" using calm_tick(1) [OF calm_stmt [OF calm]] by simp
  have nm: "n \<in> set step_names" using mem by (intro step_names_ok) force
  from steps_save_calm [OF c2, of ?r1] nm key att(1,2) cap obtain w3 s where
    s3: "steps_save ?r1 ?w2 = (Inr (), w3)" "calm r s w3" and
    g3: "\<And>i m. get_deploy_step_row i m (w_db w3) =
       (if (i, m) = (?i, n) then Some (step_row_of ?r1) else get_deploy_step_row i m (w_db w))"
    by (auto simp: step_statuses_def)
  obtain out w4 where step: "step D l st w3 = (out, w4)" by fastforce
  have c4: "calm r s w4" by (rule keepsD [OF keeps_calm_steps [OF mem] s3(2) step])
  have g4: "get_deploy_step_row i m (w_db w4) = get_deploy_step_row i m (w_db w3)" for i m
    using s3(2) c4 by (simp add: get_deploy_step_row_def calm_def)
  let ?fin = "e_clock (w_env w4) (w_tick w4)"
  let ?w5 = "w4\<lparr>w_tick := Suc (w_tick w4)\<rparr>"
  have g5: "(i, m) \<noteq> (?i, n) \<longrightarrow> get_deploy_step_row i m (w_db ?w5) = get_deploy_step_row i m (w_db w)" for i m
    using g3 g4 by simp
  let ?r2 = "rec\<lparr>ds_status := ''in_progress'', ds_attempt := ds_attempt rec + 1, ds_last_error := [],
      ds_started_at := Some ?f, ds_finished_at := Some ?fin\<rparr>"
  have 1: "on_err g (steps_get_or_init (lb_id l) n) w = (Inr rec, w\<lparr>w_stmt := Suc (w_stmt w)\<rparr>)" for g
    using steps_get_calm [OF calm, of ?i n] id unfolding rec [symmetric] by (simp add: on_err_def)
  have 2: "clock_now (w\<lparr>w_stmt := Suc (w_stmt w)\<rparr>) = (Inr ?f, ?w2)" "clock_now w4 = (Inr ?fin, ?w5)"
    by (simp_all add: clock_now_def)
  have 3: "on_err g (steps_save ?r1) ?w2 = (Inr (), w3)" for g
    using s3(1) by (simp add: on_err_def)
  have 4: "attempt (step D l st) w3 = (Inr out, w4)" using step by (simp add: attempt_def)
  have "run_steps D l ((n, step) # rest) st w = (case out of
       Inl e \<Rightarrow> bind (attempt (steps_save (?r2\<lparr>ds_status := ''failed'', ds_last_error := error_text e\<rparr>))) (\<lambda>_.
           if ?mx \<le> ds_attempt ?r2 then deploy_fail D l n e
           else throw (Wrapped (''deploy: step '' @ n @ '' (attempt '' @ int_text (ds_attempt ?r2) @ '')'') e)) ?w5
     | Inr st \<Rightarrow> bind (on_err (Wrapped (''deploy: save step '' @ n))
             (steps_save (?r2\<lparr>ds_status := ''succeeded'', ds_result := Some (deploy_state_json st)\<rparr>))) (\<lambda>_.
           run_steps D l rest st) ?w5)"
    using assms(3) by (cases out) (simp_all add: bind_unfold 1 2 3 4 Let_def)
  with run calm_tick(1) [OF c4] g5 att key show ?thesis
    by (intro exI [of _ ?w5] exI [of _ "(out, ?fin)"] exI [of _ s] exI [of _ ?f] exI [of _ ?r2]) (simp split: sum.split)
qed

lemma settled_upd: "settled i (w\<lparr>w_stmt := n\<rparr>) = settled i w"
  by (simp add: settled_def)

text \<open>The last save of a step that was run.\<close>

lemma steps_save_over:
  assumes "calm r s w5" "(n, step) \<in> set ordered_steps" "ds_lab x = lr_id r" "ds_name x = n"
    "ds_status x \<in> set step_statuses" "0 \<le> ds_attempt x" "ds_attempt x \<le> 2147483647"
    "\<And>i m. (i, m) \<noteq> (lr_id r, n) \<Longrightarrow> get_deploy_step_row i m (w_db w5) = get_deploy_step_row i m (w_db w)"
  shows "\<exists>w6 s6. steps_save x w5 = (Inr (), w6) \<and> calm r s6 w6 \<and>
    (\<forall>k m. get_deploy_step_row k m (w_db w6) =
       (if (k, m) = (lr_id r, n) then Some (step_row_of x) else get_deploy_step_row k m (w_db w)))"
proof -
  have "n \<in> set step_names" using assms(2) by (intro step_names_ok) force
  with steps_save_calm [OF assms(1) _ assms(5,6,7)] assms(3,4) obtain w6 s6 where
    w6: "steps_save x w5 = (Inr (), w6)" "calm r s6 w6" and
    g6: "\<And>i m. get_deploy_step_row i m (w_db w6) =
      (if (i, m) = (lr_id r, n) then Some (step_row_of x) else get_deploy_step_row i m (w_db w5))" by auto
  have "get_deploy_step_row k m (w_db w6) =
       (if (k, m) = (lr_id r, n) then Some (step_row_of x) else get_deploy_step_row k m (w_db w))" for k m
    using g6 [of k m] assms(8) [of k m] by simp
  with w6 show ?thesis by blast
qed

text \<open>
  One step and the steps after it, for which the claim is assumed: the step was done by an earlier
  delivery, fails now, or succeeds now.
\<close>

lemma run_steps_skip:
  assumes "calm r ss w" "records_ok D (lr_id r) (w_db w)" "n \<notin> set (map fst rest)" "lb_id l = lr_id r"
    "ds_status (case get_deploy_step_row (lr_id r) n (w_db w) of
       None \<Rightarrow> fresh_step (lr_id r) n | Some s \<Rightarrow> deploy_step_from_row s) = ''succeeded''"
    "run_steps D l ((n, step) # rest) st w = (res, w')"
    and rest: "\<And>ss st v. calm r ss v \<Longrightarrow> records_ok D (lr_id r) (w_db v) \<Longrightarrow> run_steps D l rest st v = (res, w') \<Longrightarrow>
      settled (lr_id r) w' \<or> used_up D r (map fst rest) v w'"
  shows "settled (lr_id r) w' \<or> used_up D r (n # map fst rest) w w'"
proof -
  from assms(5) obtain s where s: "get_deploy_step_row (lr_id r) n (w_db w) = Some s" "dr_status s = ''succeeded''"
    by (auto simp: fresh_step_def deploy_step_from_row_def split: option.splits)
  have "record_ok D s" using assms(2) s(1) by (simp add: records_ok_def)
  with s(2) obtain y where y: "dr_result s = Some (deploy_state_json y)" by (auto simp: record_ok_def)
  let ?w1 = "w\<lparr>w_stmt := Suc (w_stmt w)\<rparr>"
  from assms(6) s y deploy_state_replay [of y st] steps_get_calm [OF assms(1), of "lr_id r" n] assms(4)
  have "\<exists>st'. run_steps D l rest st' ?w1 = (res, w')"
    by (auto simp: bind_unfold on_err_unfold deploy_step_from_row_def)
  then obtain st' where "run_steps D l rest st' ?w1 = (res, w')" ..
  from rest [OF calm_stmt [OF assms(1)] _ this] assms(2)
  have "settled (lr_id r) w' \<or> used_up D r (map fst rest) ?w1 w'" by simp
  moreover have "used_up D r (n # map fst rest) w w'" if u: "used_up D r (map fst rest) ?w1 w'"
    using used_up_rest [OF u assms(3), of w] by simp
  ultimately show ?thesis by blast
qed

lemma run_steps_failed:
  assumes "calm r s w5" "calm r ss w" "records_ok D (lr_id r) (w_db w)" "(n, step) \<in> set ordered_steps"
    "n \<notin> set ns" "lr_state r = Deploying" "lab_from_row r = Inr l" "deploy_max_attempts D \<le> 2147483647"
    "\<And>i m. (i, m) \<noteq> (lr_id r, n) \<Longrightarrow> get_deploy_step_row i m (w_db w5) = get_deploy_step_row i m (w_db w)"
    "ds_lab fin = lr_id r" "ds_name fin = n" "0 < ds_attempt fin" "ds_attempt fin \<le> deploy_max_attempts D"
    "attempts_left D (lr_id r) (w_db w) n = nat (deploy_max_attempts D - ds_attempt fin) + 1"
    "bind (attempt (steps_save (fin\<lparr>ds_status := ''failed'', ds_last_error := error_text e\<rparr>))) (\<lambda>_.
       if deploy_max_attempts D \<le> ds_attempt fin then deploy_fail D l n e else throw e') w5 = (res, w')"
  shows "settled (lr_id r) w' \<or> used_up D r (n # ns) w w'"
proof -
  let ?f = "fin\<lparr>ds_status := ''failed'', ds_last_error := error_text e\<rparr>"
  from steps_save_over [OF assms(1,4), of ?f w] assms(8-13) obtain w6 s6 where
    w6: "steps_save ?f w5 = (Inr (), w6)" "calm r s6 w6" and
    g6: "\<And>k m. get_deploy_step_row k m (w_db w6) =
       (if (k, m) = (lr_id r, n) then Some (step_row_of ?f) else get_deploy_step_row k m (w_db w))"
    by (auto simp: step_statuses_def)
  show ?thesis
  proof (cases "deploy_max_attempts D \<le> ds_attempt fin")
    case True
    with assms(15) w6(1) have "deploy_fail D l n e w6 = (res, w')" by (simp add: bind_unfold attempt_unfold)
    from deploy_fail_settles [OF w6(2) assms(6,7) this] show ?thesis ..
  next
    case False
    with assms(15) w6(1) have w': "w' = w6" by (simp add: bind_unfold attempt_unfold throw_def)
    have "record_ok D (step_row_of ?f)" using False assms(12) by (intro record_ok_step_row(2)) simp_all
    moreover have "attempts_left D (lr_id r) (w_db w6) n < attempts_left D (lr_id r) (w_db w) n"
      using g6 [of "lr_id r" n] assms(14) by (simp add: attempts_left_def [of D "lr_id r" "w_db w6"] step_row_of_def)
    ultimately show ?thesis unfolding w' using used_up_one [OF w6(2) assms(3) _ assms(5) g6] by blast
  qed
qed

lemma run_steps_done:
  assumes "calm r s w5" "records_ok D (lr_id r) (w_db w)" "(n, step) \<in> set ordered_steps"
    "n \<notin> set (map fst rest)" "deploy_max_attempts D \<le> 2147483647"
    "\<And>i m. (i, m) \<noteq> (lr_id r, n) \<Longrightarrow> get_deploy_step_row i m (w_db w5) = get_deploy_step_row i m (w_db w)"
    "ds_lab fin = lr_id r" "ds_name fin = n" "0 < ds_attempt fin" "ds_attempt fin \<le> deploy_max_attempts D"
    "bind (on_err g (steps_save (fin\<lparr>ds_status := ''succeeded'', ds_result := Some (deploy_state_json st)\<rparr>))) (\<lambda>_.
       run_steps D l rest st) w5 = (res, w')"
    and rest: "\<And>ss st v. calm r ss v \<Longrightarrow> records_ok D (lr_id r) (w_db v) \<Longrightarrow> run_steps D l rest st v = (res, w') \<Longrightarrow>
      settled (lr_id r) w' \<or> used_up D r (map fst rest) v w'"
  shows "settled (lr_id r) w' \<or> used_up D r (n # map fst rest) w w'"
proof -
  let ?f = "fin\<lparr>ds_status := ''succeeded'', ds_result := Some (deploy_state_json st)\<rparr>"
  from steps_save_over [OF assms(1,3), of ?f w] assms(5-10) obtain w6 s6 where
    w6: "steps_save ?f w5 = (Inr (), w6)" "calm r s6 w6" and
    g6: "\<And>k m. get_deploy_step_row k m (w_db w6) =
       (if (k, m) = (lr_id r, n) then Some (step_row_of ?f) else get_deploy_step_row k m (w_db w))"
    by (auto simp: step_statuses_def)
  from assms(11) w6(1) have run: "run_steps D l rest st w6 = (res, w')" by (simp add: bind_unfold on_err_unfold)
  have "records_ok D (lr_id r) (w_db w6)"
    using assms(2) g6 record_ok_step_row(1) [of ?f st D] by (auto simp: records_ok_def)
  note tail = rest [OF w6(2) this run]
  have "attempts_left D (lr_id r) (w_db w6) n = 0"
    using g6 [of "lr_id r" n] by (simp add: attempts_left_def step_row_of_def)
  then have "used_up D r (n # map fst rest) w w'" if u: "used_up D r (map fst rest) w6 w'"
    using used_up_rest [OF u assms(4), of w] g6 by simp
  with tail show ?thesis by blast
qed

lemma run_steps_settles:
  assumes "calm r ss w" "records_ok D (lr_id r) (w_db w)" "lr_state r = Deploying" "lab_from_row r = Inr l"
    "deploy_max_attempts D \<le> 2147483647" "set steps \<subseteq> set ordered_steps" "distinct (map fst steps)"
    "run_steps D l steps st w = (res, w')"
  shows "settled (lr_id r) w' \<or> used_up D r (map fst steps) w w'"
  using assms(1,2,6,7,8)
proof (induction steps arbitrary: ss w st)
  case Nil
  then show ?case using deploy_succeed_settles [OF Nil(1) assms(3,4)] by simp
next
  case (Cons p rest)
  obtain n step where p: "p = (n, step)" by fastforce
  have mem: "(n, step) \<in> set ordered_steps" "n \<notin> set (map fst rest)" "set rest \<subseteq> set ordered_steps"
    "distinct (map fst rest)" using Cons.prems(3,4) p by simp_all
  note tail = Cons.IH [OF _ _ mem(3,4)]
  have id: "lb_id l = lr_id r" using lab_from_row_fields [OF assms(4)] by simp
  let ?rec = "case get_deploy_step_row (lr_id r) n (w_db w) of
      None \<Rightarrow> fresh_step (lr_id r) n | Some s \<Rightarrow> deploy_step_from_row s"
  note run = Cons.prems(5) [unfolded p]
  have "settled (lr_id r) w' \<or> used_up D r (n # map fst rest) w w'"
  proof (cases "ds_status ?rec = ''succeeded''")
    case True
    from run_steps_skip [OF Cons.prems(1,2) mem(2) id True run tail] show ?thesis .
  next
    case False
    note body = run_steps_body [OF Cons.prems(1) refl False Cons.prems(2) mem(1) assms(5) id run]
    from body obtain w5 out s f fin where c5: "calm r s w5" and
      g5: "\<And>i m. (i, m) \<noteq> (lr_id r, n) \<Longrightarrow> get_deploy_step_row i m (w_db w5) = get_deploy_step_row i m (w_db w)" and
      att: "0 \<le> ds_attempt ?rec" "ds_attempt ?rec < deploy_max_attempts D"
        "attempts_left D (lr_id r) (w_db w) n = nat (deploy_max_attempts D - ds_attempt ?rec)" and
      fin: "fin = ?rec\<lparr>ds_status := ''in_progress'', ds_attempt := ds_attempt ?rec + 1, ds_last_error := [],
        ds_started_at := Some f, ds_finished_at := Some (snd out)\<rparr>" "ds_lab ?rec = lr_id r" "ds_name ?rec = n" and
      out: "case fst out of
       Inl e \<Rightarrow> bind (attempt (steps_save (fin\<lparr>ds_status := ''failed'', ds_last_error := error_text e\<rparr>))) (\<lambda>_.
           if deploy_max_attempts D \<le> ds_attempt fin then deploy_fail D l n e
           else throw (Wrapped (''deploy: step '' @ n @ '' (attempt '' @ int_text (ds_attempt fin) @ '')'') e)) w5 = (res, w')
     | Inr st \<Rightarrow> bind (on_err (Wrapped (''deploy: save step '' @ n))
             (steps_save (fin\<lparr>ds_status := ''succeeded'', ds_result := Some (deploy_state_json st)\<rparr>))) (\<lambda>_.
           run_steps D l rest st) w5 = (res, w')" by blast
    have k: "ds_lab fin = lr_id r" "ds_name fin = n" "0 < ds_attempt fin" "ds_attempt fin \<le> deploy_max_attempts D"
      "attempts_left D (lr_id r) (w_db w) n = nat (deploy_max_attempts D - ds_attempt fin) + 1"
      using fin att by simp_all
    show ?thesis
    proof (cases "fst out")
      case (Inl e)
      note out' = out [unfolded Inl sum.case]
      from run_steps_failed [OF c5 Cons.prems(1,2) mem(1,2) assms(3,4,5) g5 k out'] show ?thesis .
    next
      case (Inr st2)
      note out' = out [unfolded Inr sum.case]
      from run_steps_done [OF c5 Cons.prems(2) mem(1,2) assms(5) g5 k(1-4) out' tail] show ?thesis .
    qed
  qed
  then show ?case by (simp add: p)
qed

text \<open>One delivery of the task, and a series of them.\<close>

lemma ordered_names: "distinct (map fst ordered_steps)"
  by (simp add: ordered_steps_def)

lemma deploy_run_settles:
  assumes "calm r ss w" "records_ok D (lr_id r) (w_db w)" "lr_state r = Deploying" "lr_project r \<noteq> None"
    "lab_from_row r = Inr l" "deploy_max_attempts D \<le> 2147483647" "deploy_run D (lr_id r) w = (res, w')"
  shows "settled (lr_id r) w' \<or> used_up D r (map fst (ordered_steps :: (string \<times> 'c saga_step) list)) w (w' :: 'c world)"
proof -
  let ?w1 = "w\<lparr>w_stmt := Suc (w_stmt w)\<rparr>"
  have c: "no_db_faults w" "w_snap w = None" "get_lab_row (lr_id r) (w_db w) = Some r"
    using assms(1) by (simp_all add: calm_def healthy_def able_def)
  have "lab_get_by_id (lr_id r) w = (Inr l, ?w1)"
    using conn_query_ok [OF c(1,2), of "get_lab_row (lr_id r)"] c(3) assms(5)
    by (simp add: lab_get_by_id_def bind_unfold on_err_unfold one_row_def ret_def from_sum_def)
  with assms(7) lab_from_row_fields [OF assms(5)] assms(3,4)
  have run: "run_steps D l ordered_steps fresh_state ?w1 = (res, w')"
    by (simp add: deploy_run_def bind_unfold on_err_unfold)
  from run_steps_settles [OF calm_stmt [OF assms(1)] _ assms(3,5,6) subset_refl ordered_names run] assms(2)
  show ?thesis by (simp add: used_up_def)
qed

lemma deploy_run_settled:
  assumes "settled i w" "deploy_run D i w = (res, w')" shows "settled i w'"
proof (cases "lab_get_by_id i w")
  case (Pair x w1)
  from same_stateD [OF silentD [OF silent_reads(2) Pair]] assms(1) have s: "settled i w1" by (simp add: settled_def)
  show ?thesis
  proof (cases x)
    case (Inl e)
    with Pair assms(2) s show ?thesis by (simp add: deploy_run_def bind_unfold on_err_unfold)
  next
    case (Inr l)
    from lab_get_InrD [OF Pair [unfolded Inr]] assms(1) lab_from_row_fields have "lb_state l \<noteq> Deploying"
      by (fastforce simp: settled_def)
    with Pair Inr assms(2) s show ?thesis by (simp add: deploy_run_def bind_unfold on_err_unfold ret_def)
  qed
qed

fun deliveries :: "nat \<Rightarrow> 'c deploy_deps \<Rightarrow> lab_id \<Rightarrow> 'c world \<Rightarrow> 'c world" where
  "deliveries 0 D i w = w"
| "deliveries (Suc n) D i w = deliveries n D i (snd (deploy_run D i w))"

lemma deliveries_settled: "settled i w \<Longrightarrow> settled i (deliveries n D i w)"
proof (induction n arbitrary: w)
  case (Suc n)
  obtain res w' where run: "deploy_run D i w = (res, w')" by fastforce
  from Suc.IH [OF deploy_run_settled [OF Suc.prems run]] show ?case by (simp add: run)
qed simp

lemma deliveries_settle:
  assumes "calm r ss w" "records_ok D (lr_id r) (w_db w)" "lr_state r = Deploying" "lr_project r \<noteq> None"
    "lab_from_row r = Inr l" "deploy_max_attempts D \<le> 2147483647"
    "budget D (lr_id r) (w_db w) (map fst (ordered_steps :: (string \<times> 'c saga_step) list)) < n"
  shows "settled (lr_id r) (deliveries n D (lr_id r) (w :: 'c world))"
  using assms(1,2,7)
proof (induction n arbitrary: w ss)
  case (Suc n)
  obtain res w' where run: "deploy_run D (lr_id r) w = (res, w')" by fastforce
  from deploy_run_settles [OF Suc.prems(1,2) assms(3,4,5,6) run] show ?case
  proof
    assume "settled (lr_id r) w'"
    from deliveries_settled [OF this] show ?thesis by (simp add: run)
  next
    assume u: "used_up D r (map fst (ordered_steps :: (string \<times> 'c saga_step) list)) w w'"
    then obtain ss' where "calm r ss' w'" "records_ok D (lr_id r) (w_db w')" by (auto simp: used_up_def)
    from Suc.IH [OF this] u Suc.prems(3) show ?thesis by (simp add: run used_up_def)
  qed
qed simp

section \<open>Properties\<close>

text \<open>
  C8: a deploy ends. Take a healthy world (no failing statement, fresh UUIDs, a clock that does
  not go back) and a deploying lab with a project, whose step records are those of earlier
  deliveries. Whatever the cloud provider answers to each call, after more deliveries of the
  task than the steps have attempts left the lab is ready or failed, and stays so; a new lab has
  five times the limit of attempts left.
\<close>
theorem deploy_settles:
  assumes "healthy w" "clock_past (lr_updated_at r) w" "labs_ok (w_db w)" "get_lab_row i (w_db w) = Some r"
    "lr_state r = Deploying" "lr_project r \<noteq> None" "lab_from_row r = Inr l"
    "deploy_max_attempts D \<le> 2147483647" "records_ok D i (w_db w)"
    "budget D i (w_db w) [''create_keypair'', ''provision_network'', ''boot_vm'', ''wait_ssh'', ''initial_check''] < n"
  shows "\<exists>r'. get_lab_row i (w_db (deliveries n D i w)) = Some r' \<and> (lr_state r' = Ready \<or> lr_state r' = Failed)"
proof -
  have i: "lr_id r = i" using get_lab_row_id [OF assms(4)] .
  have "calm r (t_steps (w_db w)) w" using assms(1,2,3,4) i by (simp add: calm_def)
  from deliveries_settle [OF this _ assms(5,6,7,8)] assms(9,10)
  have "settled i (deliveries n D i w)" by (simp add: i ordered_steps_def)
  then show ?thesis by (simp add: settled_def)
qed

text \<open>A lab no step of which was recorded has five times the limit of attempts left.\<close>

lemma fresh_budget:
  assumes "\<forall>s \<in> set (t_steps d). dr_lab s \<noteq> i"
  shows "records_ok D i d \<and> budget D i d
    [''create_keypair'', ''provision_network'', ''boot_vm'', ''wait_ssh'', ''initial_check''] = 5 * nat (deploy_max_attempts D)"
proof -
  have "get_deploy_step_row i n d = None" for n
    using assms by (auto simp: get_deploy_step_row_def find_row_None_iff step_key_def)
  then show ?thesis by (simp add: records_ok_def budget_def attempts_left_def)
qed

definition text_lib :: lib where
  "text_lib = sample_lib\<lparr>uuid_string := \<lambda>u. ''u'' @ digits (uint u),
     uuid_parse := \<lambda>s. Some (word_of_int (digits_value (tl s)))\<rparr>"

lemma uuid_ok_text_lib: "uuid_ok text_lib"
  by (simp add: uuid_ok_def text_lib_def digits_value_digits)

definition sample_deploy :: "inmem deploy_deps" where
  "sample_deploy = \<lparr>dd_lib = text_lib, dd_kek = replicate 32 7, dd_cloud = inmem_ops, dd_checks = False,
     dd_cleanup_after = 0, dd_max_attempts = 0\<rparr>"

definition deploying_campus :: db where
  "deploying_campus = sample_campus\<lparr>t_labs := [sample_lab_row 7 1 Deploying (Some 3) 50]\<rparr>"

definition broken_boot :: faults where
  "broken_boot = no_faults\<lparr>ft_boot_server := Some (Plain ''nova down'')\<rparr>"

lemma sample_world_healthy:
  "t_audit d = [] \<Longrightarrow> healthy (world_of c d) \<and> (t \<le> 1000 \<longrightarrow> clock_past t (world_of c d))"
  by (auto simp: healthy_def able_def fresh_ids_def clock_past_def quiet_env_def mono_def)

lemma deploy_settles_witness:
  "\<exists>r'. get_lab_row 7 (w_db (deliveries 16 sample_deploy 7 (world_of (sample_cloud broken_boot) deploying_campus))) = Some r' \<and>
     (lr_state r' = Ready \<or> lr_state r' = Failed)"
proof -
  let ?w = "world_of (sample_cloud broken_boot) deploying_campus"
  let ?r = "sample_lab_row 7 1 Deploying (Some 3) 50"
  have mx: "deploy_max_attempts sample_deploy = 3" by (simp add: deploy_max_attempts_def sample_deploy_def)
  have t: "t_audit deploying_campus = []" "t_steps deploying_campus = []" "t_labs deploying_campus = [?r]"
    by (simp_all add: deploying_campus_def sample_campus_def sample_labs_def sample_pool_def empty_db_def)
  have h: "healthy ?w" "clock_past (lr_updated_at ?r) ?w" using sample_world_healthy [OF t(1), of "sample_cloud broken_boot" 50]
    by (simp_all add: sample_lab_row_def)
  have "labs_ok (w_db ?w)" by (simp add: labs_ok_def t lab_row_ok_def active_clash_def sample_lab_row_def)
  moreover have "get_lab_row 7 (w_db ?w) = Some ?r" by (simp add: get_lab_row_def t sample_lab_row_def)
  moreover obtain l where "lab_from_row ?r = Inr l"
    by (simp add: lab_from_row_def sample_lab_row_def ki_resources_from_json_def json_field_def decode_list_def decode_string_def)
  moreover have "records_ok sample_deploy 7 (w_db ?w) \<and> budget sample_deploy 7 (w_db ?w)
      [''create_keypair'', ''provision_network'', ''boot_vm'', ''wait_ssh'', ''initial_check''] < 16"
    using fresh_budget [of deploying_campus 7 sample_deploy] by (simp add: t mx)
  ultimately show ?thesis
    using deploy_settles [OF h, of 7 l sample_deploy 16] mx by (simp add: sample_lab_row_def)
qed


end
