(* ===== verification/DeploySafety.thy ===== *)
theory DeploySafety
  imports DeployProgress
begin

text \<open>
  What a delivery of the deploy task may do, whatever fails: which rows it changes, and which
  resources it makes at a provider that meets the contract \<open>cloud_provider\<close>.
\<close>

section \<open>Frames\<close>

lemma keeps_same_stmt:
  assumes "\<And>now d x d'. f now d = Inr (x, d') \<Longrightarrow> t_labs d' = t_labs d \<and> t_projects d' = t_projects d"
  shows "keeps (same_tables ps ls) (conn_stmt f)"
proof (rule keepsI)
  fix w res w'
  assume "same_tables ps ls w" "conn_stmt f w = (res, w')"
  with conn_stmt_state [of f w res w'] assms show "same_tables ps ls w'" by (auto simp: same_tables_def)
qed

lemma keeps_same_cloud: "keeps (same_tables ps ls) (on_cloud f)"
  by (rule keepsI) (auto simp: on_cloud_def same_tables_def split: prod.splits)

lemma keeps_same_steps_save: "keeps (same_tables ps ls) (steps_save s)"
  unfolding steps_save_def
  by (intro keeps_intros keeps_same_stmt) (auto simp: upsert_deploy_step_def Let_def split: if_splits)

lemma keeps_same_secret_put: "keeps (same_tables ps ls) (secret_put L kek kind ref_id payload)"
  unfolding secret_put_def store_put_def encrypt_dek_def encrypt_with_key_def case_prod_beta
  by (intro keeps_intros keeps_same_silent silent_intros keeps_same_stmt)
    (auto simp: insert_secret_def Let_def split: if_splits)

lemma keeps_same_boot_vms: "keeps (same_tables ps ls) (boot_vms D l vms st)"
  by (induction vms arbitrary: st) (auto intro!: keeps_intros keeps_same_cloud)

lemma keeps_same_wait_servers: "keeps (same_tables ps ls) (wait_servers D l is st)"
  by (induction "is" arbitrary: st) (auto intro!: keeps_intros keeps_same_cloud)

lemma keeps_same_step: "(name, step) \<in> set ordered_steps \<Longrightarrow> keeps (same_tables ps ls) (step D l st)"
  by (auto simp: ordered_steps_def run_create_keypair_def run_provision_network_def run_boot_vm_def
      run_wait_ssh_def run_initial_check_def Let_def
      intro!: keeps_intros keeps_same_cloud keeps_same_secret_put keeps_same_boot_vms keeps_same_wait_servers)

text \<open>A property of the provider's state, which only calls of the provider can change.\<close>

definition cloud_inv :: "('c \<Rightarrow> bool) \<Rightarrow> 'c world \<Rightarrow> bool" where
  "cloud_inv J w \<longleftrightarrow> J (w_cloud w)"

named_theorems cloud_frame \<open>programs that do not call the provider\<close>

lemma cloud_silent [cloud_frame]:
  assumes "silent m" shows "keeps (cloud_inv J) m"
proof (rule keepsI)
  fix w r w'
  assume "cloud_inv J w" "m w = (r, w')"
  with same_stateD(3) [OF silentD [OF assms]] show "cloud_inv J w'" by (simp add: cloud_inv_def)
qed

lemma cloud_stmts [cloud_frame]: "keeps (cloud_inv J) (tx_stmt f)" "keeps (cloud_inv J) (conn_stmt f)"
  by (auto intro!: keepsI simp: cloud_inv_def tx_stmt_def conn_stmt_def Let_def
      split: if_splits option.splits sum.splits)

lemma cloud_with_tx [cloud_frame]:
  assumes "keeps (cloud_inv J) f" shows "keeps (cloud_inv J) (with_tx f)"
proof (rule keepsI)
  fix w r w'
  assume J: "cloud_inv J w" and run: "with_tx f w = (r, w')"
  let ?w1 = "w\<lparr>w_stmt := Suc (w_stmt w), w_snap := Some (w_db w), w_aborted := False\<rparr>"
  obtain r2 w2 where f: "f ?w1 = (r2, w2)" by fastforce
  have "cloud_inv J w2" by (rule keepsD [OF assms _ f]) (use J in \<open>simp add: cloud_inv_def\<close>)
  then show "cloud_inv J w'"
    using run J f by (auto simp: with_tx_def cloud_inv_def split: option.splits sum.splits if_splits)
qed

lemma cloud_enqueue [cloud_frame]: "keeps (cloud_inv J) (enqueue t)" "keeps (cloud_inv J) (enqueue_at t tm)"
  by (auto intro!: keepsI simp: cloud_inv_def dest!: enqueue_state enqueue_at_state dest: queue_onlyD(3))

lemma cloud_emit [cloud_frame]: "keeps (cloud_inv J) (emit ta tb k s ps t)"
  unfolding emit_def by (intro keeps_intros cloud_frame silent_intros)

lemma cloud_lab_save [cloud_frame]: "keeps (cloud_inv J) (lab_save L l)"
  unfolding lab_save_def flush_lab_events_def append_lab_event_def
  by (intro keeps_intros cloud_frame silent_intros)

lemma cloud_save_lab [cloud_frame]: "keeps (cloud_inv J) (save_lab L l)"
  unfolding save_lab_def by (intro cloud_frame)

lemma cloud_steps_save [cloud_frame]: "keeps (cloud_inv J) (steps_save s)"
  unfolding steps_save_def by (intro keeps_intros cloud_frame)

lemma cloud_secret_put [cloud_frame]: "keeps (cloud_inv J) (secret_put L kek kind ref_id payload)"
  unfolding secret_put_def store_put_def encrypt_dek_def encrypt_with_key_def case_prod_beta
  by (intro keeps_intros cloud_frame silent_intros)

lemma cloud_call:
  "(\<And>c r c'. J c \<Longrightarrow> f c = (r, c') \<Longrightarrow> J c') \<Longrightarrow> keeps (cloud_inv J) (on_cloud f)"
  by (rule keepsI) (auto simp: cloud_inv_def on_cloud_def split: prod.splits)

section \<open>The rows a delivery changes\<close>

definition deploy_changed :: "lab_id \<Rightarrow> project_row list \<Rightarrow> lab_row list \<Rightarrow> 'c world \<Rightarrow> bool" where
  "deploy_changed i ps ls w \<longleftrightarrow> w_snap w = None \<and> t_projects (w_db w) = ps \<and>
     (\<exists>r l l'. find_row lr_id i ls = Some r \<and> lab_from_row r = Inr l \<and> lr_state r = Deploying \<and>
        t_labs (w_db w) = put_row lr_id (lab_merge l' r) ls \<and> lb_project l' = lb_project l \<and>
        (lb_state l' = Ready \<and> lb_cleanup_at l' \<noteq> None \<or>
         lb_state l' = Failed \<and> lb_resources l' = lb_resources l))"

definition deploy_outcome :: "lab_id \<Rightarrow> project_row list \<Rightarrow> lab_row list \<Rightarrow> 'c world \<Rightarrow> bool" where
  "deploy_outcome i ps ls w \<longleftrightarrow>
     w_snap w = None \<and> t_projects (w_db w) = ps \<and> t_labs (w_db w) = ls \<or> deploy_changed i ps ls w"

lemma outcome_same: "same_tables ps ls w \<Longrightarrow> deploy_outcome i ps ls w"
  by (simp add: same_tables_def deploy_outcome_def)

lemma deploy_outcome_row:
  assumes "deploy_outcome i ps ls w'" "find_row lr_id i ls = Some r"
  shows "w_snap w' = None \<and> (\<exists>r'. get_lab_row i (w_db w') = Some r' \<and> (r' = r \<or> lr_state r' \<noteq> Deploying))"
  using assms(1) unfolding deploy_outcome_def
proof
  assume "deploy_changed i ps ls w'"
  then obtain l l' where c: "w_snap w' = None" "t_labs (w_db w') = put_row lr_id (lab_merge l' r) ls"
    "lb_state l' = Ready \<or> lb_state l' = Failed"
    using assms(2) by (auto simp: deploy_changed_def)
  have "find_row lr_id (lr_id (lab_merge l' r)) (put_row lr_id (lab_merge l' r) ls) = Some (lab_merge l' r)"
    by (rule find_row_put_same) (use assms(2) find_row_SomeD [OF assms(2)] in simp)
  with c find_row_SomeD [OF assms(2)] show ?thesis by (auto simp: get_lab_row_def)
qed (use assms(2) in \<open>simp add: get_lab_row_def\<close>)

lemma outcome_save:
  assumes "find_row lr_id i ls = Some r" "lab_from_row r = Inr l" "lr_state r = Deploying" "lb_id l' = i"
    "lb_project l' = lb_project l" "lb_state l' = Ready \<and> lb_cleanup_at l' \<noteq> None \<or>
      lb_state l' = Failed \<and> lb_resources l' = lb_resources l"
  shows "spec (same_tables ps ls) (save_lab L l') (\<lambda>_. deploy_changed i ps ls) (\<lambda>_. deploy_outcome i ps ls)"
proof (rule specI)
  fix w x w'
  assume same: "same_tables ps ls w" and run: "save_lab L l' w = (Inr x, w')"
  from save_lab_InrD [OF run] same assms(1,4) with_tx_snap [OF run [unfolded save_lab_def]] have "w_snap w' = None" "t_labs (w_db w') = put_row lr_id (lab_merge l' r) ls"
    "t_projects (w_db w') = ps" by (auto simp: same_tables_def get_lab_row_def)
  with assms show "deploy_changed i ps ls w'" unfolding deploy_changed_def by blast
next
  fix w e w'
  assume same: "same_tables ps ls w" and run: "save_lab L l' w = (Inl e, w')"
  with save_lab_InlD [OF run] with_tx_snap [OF run [unfolded save_lab_def]] show "deploy_outcome i ps ls w'" by (simp add: same_tables_def deploy_outcome_def)
qed

lemma changed_queue_only: "queue_only w w' \<Longrightarrow> deploy_changed i ps ls w' = deploy_changed i ps ls w"
  by (simp add: deploy_changed_def queue_onlyD)

lemma keeps_outcome_enqueue:
  "keeps (deploy_changed i ps ls) (enqueue t)" "keeps (deploy_changed i ps ls) (enqueue_at t tm)"
  by (auto intro!: keepsI dest!: enqueue_state enqueue_at_state simp: changed_queue_only)

lemma outcome_save_then:
  assumes "find_row lr_id i ls = Some r" "lab_from_row r = Inr l" "lr_state r = Deploying" "lb_id l' = i"
    "lb_project l' = lb_project l" "lb_state l' = Ready \<and> lb_cleanup_at l' \<noteq> None \<or>
      lb_state l' = Failed \<and> lb_resources l' = lb_resources l"
    "\<And>x. keeps (deploy_changed i ps ls) (k x)"
  shows "spec (same_tables ps ls) (bind (save_lab L l') k) (\<lambda>_. deploy_changed i ps ls) (\<lambda>_. deploy_outcome i ps ls)"
proof (rule spec_bind [OF outcome_save [OF assms(1-6)]])
  fix x
  show "spec (deploy_changed i ps ls) (k x) (\<lambda>_. deploy_changed i ps ls) (\<lambda>_. deploy_outcome i ps ls)"
    using assms(7) [of x] by (auto simp: spec_def keeps_def deploy_outcome_def split: prod.splits sum.splits)
qed

lemma outcome_fail:
  assumes "find_row lr_id i ls = Some r" "lab_from_row r = Inr l" "lr_state r = Deploying"
  shows "spec (same_tables ps ls) (deploy_fail D l n e) (\<lambda>_. deploy_changed i ps ls) (\<lambda>_. deploy_outcome i ps ls)"
proof -
  have id: "lb_id l = i" "lb_state l = Deploying"
    using lab_from_row_fields [OF assms(2)] find_row_SomeD [OF assms(1)] assms(3) by simp_all
  show ?thesis unfolding deploy_fail_def
  proof (intro spec_keeps_bind [OF keeps_same_silent [OF silent_basic(5)]] outcome_same)
    fix now
    obtain l1 where tr: "transition Failed (''deploy failed at '' @ n @ '': '' @ error_text e) now l = Inr l1"
      using id by (simp add: transition_def can_transition_def)
    then have l1: "lb_id l1 = i" "lb_project l1 = lb_project l" "lb_state l1 = Failed" "lb_resources l1 = lb_resources l"
      using id by (auto simp: transition_Inr lb_record_def)
    have "spec (same_tables ps ls) (bind (save_lab (dd_lib D) l1) (\<lambda>l.
        bind (attempt (enqueue (cleanup_task (dd_lib D) (lb_id l) ''compensate''))) (\<lambda>_. ret ())))
        (\<lambda>_. deploy_changed i ps ls) (\<lambda>_. deploy_outcome i ps ls)"
      using l1 by (intro outcome_save_then [OF assms]) (auto intro!: keeps_intros keeps_outcome_enqueue)
    then show "spec (same_tables ps ls) (bind (from_sum
        (case transition Failed (''deploy failed at '' @ n @ '': '' @ error_text e) now l of
          Inl e \<Rightarrow> Inl (Wrapped ''deploy: transition to failed'' e) | Inr l \<Rightarrow> Inr l))
        (\<lambda>l. bind (save_lab (dd_lib D) l) (\<lambda>l.
        bind (attempt (enqueue (cleanup_task (dd_lib D) (lb_id l) ''compensate''))) (\<lambda>_. ret ()))))
        (\<lambda>_. deploy_changed i ps ls) (\<lambda>_. deploy_outcome i ps ls)"
      unfolding tr by (simp add: bind_def from_sum_def)
  qed
qed

lemma outcome_succeed:
  assumes "find_row lr_id i ls = Some r" "lab_from_row r = Inr l" "lr_state r = Deploying"
  shows "spec (same_tables ps ls) (deploy_succeed D l st) (\<lambda>_. deploy_changed i ps ls) (\<lambda>_. deploy_outcome i ps ls)"
proof -
  have id: "lb_id l = i" "lb_state l = Deploying"
    using lab_from_row_fields [OF assms(2)] find_row_SomeD [OF assms(1)] assms(3) by simp_all
  define l2 where "l2 = (let l = l\<lparr>lb_resources := \<lparr>ki_servers = dy_servers st, ki_network = dy_network st,
         ki_floating_ips = dy_fips st, ki_keypair = dy_keypair st\<rparr>\<rparr> in
       if dy_secret st = [] then l else case uuid_parse (dd_lib D) (dy_secret st) of
              None \<Rightarrow> l
            | Some i \<Rightarrow> l\<lparr>lb_checker_key := Some i, lb_student_key := Some i\<rparr>)"
  have l2: "lb_id l2 = i" "lb_state l2 = Deploying" "lb_project l2 = lb_project l"
    using id by (auto simp: l2_def Let_def split: option.split)
  have "spec (same_tables ps ls) (bind clock_now (\<lambda>now. let cleanup_at = now + deploy_cleanup_after D in
     bind (from_sum (case mark_ready cleanup_at now l2 of
        Inl e \<Rightarrow> Inl (Wrapped ''deploy: mark ready'' e) | Inr l \<Rightarrow> Inr l)) (\<lambda>l.
     bind (save_lab (dd_lib D) l) (\<lambda>l.
     bind (attempt (enqueue_at (cleanup_task (dd_lib D) (lb_id l) ''timer'') cleanup_at)) (\<lambda>_.
     ret ()))))) (\<lambda>_. deploy_changed i ps ls) (\<lambda>_. deploy_outcome i ps ls)"
    unfolding Let_def
  proof (intro spec_keeps_bind [OF keeps_same_silent [OF silent_basic(5)]] outcome_same)
    fix now
    let ?at = "now + deploy_cleanup_after D"
    obtain l1 where tr: "mark_ready ?at now l2 = Inr l1"
      using l2 by (simp add: mark_ready_def transition_def can_transition_def)
    then have l1: "lb_id l1 = i" "lb_project l1 = lb_project l" "lb_state l1 = Ready" "lb_cleanup_at l1 = Some ?at"
      using l2 by (auto simp: mark_ready_def transition_Inr lb_record_def split: sum.splits)
    have "spec (same_tables ps ls) (bind (save_lab (dd_lib D) l1) (\<lambda>l.
        bind (attempt (enqueue_at (cleanup_task (dd_lib D) (lb_id l) ''timer'') ?at)) (\<lambda>_. ret ())))
        (\<lambda>_. deploy_changed i ps ls) (\<lambda>_. deploy_outcome i ps ls)"
      using l1 by (intro outcome_save_then [OF assms]) (auto intro!: keeps_intros keeps_outcome_enqueue)
    then show "spec (same_tables ps ls) (bind (from_sum (case mark_ready ?at now l2 of
        Inl e \<Rightarrow> Inl (Wrapped ''deploy: mark ready'' e) | Inr l \<Rightarrow> Inr l)) (\<lambda>l.
     bind (save_lab (dd_lib D) l) (\<lambda>l.
     bind (attempt (enqueue_at (cleanup_task (dd_lib D) (lb_id l) ''timer'') ?at)) (\<lambda>_.
     ret ())))) (\<lambda>_. deploy_changed i ps ls) (\<lambda>_. deploy_outcome i ps ls)"
      unfolding tr by (simp add: bind_def from_sum_def)
  qed
  then show ?thesis by (simp add: deploy_succeed_def l2_def Let_def)
qed

lemma keeps_same_get_step: "keeps (same_tables ps ls) (steps_get_or_init i n)"
  unfolding steps_get_or_init_def one_row_def by (intro keeps_same_silent silent_intros)

lemma outcome_steps:
  assumes "find_row lr_id i ls = Some r" "lab_from_row r = Inr l" "lr_state r = Deploying"
  shows "set steps \<subseteq> set ordered_steps \<Longrightarrow>
    spec (same_tables ps ls) (run_steps D l steps st) (\<lambda>_. deploy_changed i ps ls) (\<lambda>_. deploy_outcome i ps ls)"
proof (induction steps arbitrary: st)
  case Nil
  show ?case by (simp add: outcome_succeed [OF assms])
next
  case (Cons x rest)
  obtain name step where x: "x = (name, step)" by fastforce
  with Cons.prems have mem: "(name, step) \<in> set ordered_steps" and rest: "set rest \<subseteq> set ordered_steps" by auto
  note go = Cons.IH [OF rest] outcome_fail [OF assms]
  have err: "spec (same_tables ps ls) (throw e) (\<lambda>_. deploy_changed i ps ls) (\<lambda>_. deploy_outcome i ps ls)" for e
    by (rule spec_throw) (rule outcome_same)
  show ?case unfolding x run_steps.simps Let_def
    by (intro spec_keeps_bind spec_if spec_case_option spec_case_sum go err keeps_on_err keeps_attempt
        keeps_same_steps_save keeps_same_get_step keeps_same_step [OF mem] keeps_same_silent [OF silent_basic(5)]
        outcome_same)
qed

lemma deploy_run_changes:
  assumes "w_snap w = None" "deploy_run D i w = (res, w')"
  shows "deploy_outcome i (t_projects (w_db w)) (t_labs (w_db w)) w' \<and>
    (\<forall>r. get_lab_row i (w_db w) = Some r \<and> lr_state r = Deploying \<and> res = Inr () \<longrightarrow>
       deploy_changed i (t_projects (w_db w)) (t_labs (w_db w)) w')"
proof -
  let ?ps = "t_projects (w_db w)" and ?ls = "t_labs (w_db w)"
  have same: "same_tables ?ps ?ls w" using assms(1) by (simp add: same_tables_def)
  obtain r1 w1 where g: "on_err (Wrapped ''deploy: load lab'') (lab_get_by_id i) w = (r1, w1)" by fastforce
  have "same_state w w1" by (rule silentD [where m = "on_err (Wrapped ''deploy: load lab'') (lab_get_by_id i)"])
    (use g in \<open>auto intro: silent_intros\<close>)
  with same have w1: "same_tables ?ps ?ls w1" using same_stateD(1,5) [of w w1] by (simp add: same_tables_def)
  show ?thesis
  proof (cases r1)
    case (Inl e)
    with g assms(2) w1 show ?thesis by (auto simp: deploy_run_def bind_def deploy_outcome_def same_tables_def)
  next
    case (Inr l)
    from lab_get_InrD [OF on_err_InrD [OF g [unfolded Inr]]] assms(1)
    obtain r where r: "get_lab_row i (w_db w) = Some r" "lab_from_row r = Inr l" by auto
    show ?thesis
    proof (cases "lb_state l \<noteq> Deploying \<or> lb_project l = None")
      case True
      with g Inr assms(2) w1 r lab_from_row_fields [OF r(2)] show ?thesis
        by (auto simp: deploy_run_def bind_def deploy_outcome_def same_tables_def ret_def throw_def split: if_splits)
    next
      case False
      with g Inr assms(2) have "run_steps D l ordered_steps fresh_state w1 = (res, w')"
        by (auto simp: deploy_run_def bind_def)
      moreover have "spec (same_tables ?ps ?ls) (run_steps D l ordered_steps fresh_state)
          (\<lambda>_. deploy_changed i ?ps ?ls) (\<lambda>_. deploy_outcome i ?ps ?ls)"
        using outcome_steps [of i ?ls r l ordered_steps ?ps D fresh_state] r False lab_from_row_fields [OF r(2)]
        by (simp add: get_lab_row_def)
      ultimately show ?thesis using w1 specD_Inr specD_Inl
        by (cases res) (fastforce simp: deploy_outcome_def)+
    qed
  qed
qed

lemmas deploy_run_outcome = conjunct1 [OF deploy_run_changes]

text \<open>
  C4: whatever fails, a delivery of the deploy task changes no project row and at most one lab row,
  the one of its own lab and only while that is Deploying, which keeps its project and becomes
  Ready with its cleanup time set, or Failed with its recorded resources as they were; and it
  leaves no transaction open. The lab that was Deploying is settled whenever the delivery is
  acknowledged.
\<close>
theorem deploy_run_rows:
  assumes "w_snap w = None" "deploy_run D i w = (res, w')"
  shows "deploy_outcome i (t_projects (w_db w)) (t_labs (w_db w)) w' \<and>
    (\<forall>r. get_lab_row i (w_db w) = Some r \<and> lr_state r = Deploying \<and> res = Inr () \<longrightarrow>
       deploy_changed i (t_projects (w_db w)) (t_labs (w_db w)) w')"
  by (rule deploy_run_changes [OF assms])

text \<open>
  The sample lab is deployed: the delivery is acknowledged and the lab's row changed.
\<close>

lemma deploy_run_rows_witness:
  "deploy_changed 7 (t_projects deploying_campus) (t_labs deploying_campus)
     (snd (deploy_run sample_deploy 7 (world_of (sample_cloud no_faults) deploying_campus)))"
proof -
  let ?w = "world_of (sample_cloud no_faults) deploying_campus"
  have "case deploy_run sample_deploy 7 ?w of (Inl _, _) \<Rightarrow> False | (Inr _, _) \<Rightarrow> True" by code_simp
  then obtain w' where "deploy_run sample_deploy 7 ?w = (Inr (), w')" by (auto split: prod.splits sum.splits)
  moreover have "get_lab_row 7 (w_db ?w) = Some (sample_lab_row 7 1 Deploying (Some 3) 50)"
    by (simp add: get_lab_row_def deploying_campus_def sample_lab_row_def)
  ultimately show ?thesis
    using deploy_run_rows [of ?w sample_deploy 7 "Inr ()" w'] by (simp add: sample_lab_row_def)
qed

end
