(* ===== verification/CloudFootprint.thy ===== *)
theory CloudFootprint
  imports DeploySafety
begin

text \<open>
  What deploying a lab leaves at the provider. At any provider that meets the contract
  \<open>cloud_provider\<close>, however often the task is delivered and whatever fails in between, the
  resources that were there remain, and the new ones carry the names of the lab: retries find
  what an earlier delivery made instead of making it again.
\<close>

section \<open>Growth of a table of resources\<close>

definition grown :: "(string \<times> string) set \<Rightarrow> resource_table \<Rightarrow> resource_table \<Rightarrow> bool" where
  "grown N t t' \<longleftrightarrow> (\<forall>i x. t i = Some x \<longrightarrow> t' i = Some x) \<and>
     (\<forall>i x. t' i = Some x \<longrightarrow> t i = Some x \<or> x \<in> N)"

lemma grown_refl [simp]: "grown N t t"
  by (simp add: grown_def)

lemma grown_made: "grown N t u \<Longrightarrow> made x i u u' \<Longrightarrow> x \<in> N \<Longrightarrow> grown N t u'"
  by (auto simp: grown_def made_def split: if_splits)

lemma grown_tried: "grown N t u \<Longrightarrow> tried x u u' \<Longrightarrow> x \<in> N \<Longrightarrow> grown N t u'"
  by (auto simp: tried_def intro: grown_made)

text \<open>Names are unique, so no more is made than there are names.\<close>

lemma grown_card:
  assumes "grown N t t'" "unique_names t'" "finite N"
  shows "finite {i. t i = None \<and> t' i \<noteq> None} \<and> card {i. t i = None \<and> t' i \<noteq> None} \<le> card N"
proof -
  let ?A = "{i. t i = None \<and> t' i \<noteq> None}"
  have inj: "inj_on (\<lambda>i. the (t' i)) ?A"
    using assms(2) by (auto simp: inj_on_def unique_names_def)
  have sub: "(\<lambda>i. the (t' i)) ` ?A \<subseteq> N"
    using assms(1) unfolding grown_def by fastforce
  from inj_on_finite [OF inj sub assms(3)] card_inj_on_le [OF inj sub assms(3)] show ?thesis by blast
qed

section \<open>The names of a lab\<close>

definition lab_server_names :: "lib \<Rightarrow> lab \<Rightarrow> (string \<times> string) set" where
  "lab_server_names L l = (\<lambda>vm. (lab_tenant L l, server_name L l (vm_name vm))) `
     set (tp_vms (topology_for (lb_template l)))"

definition lab_network_names :: "lib \<Rightarrow> lab \<Rightarrow> (string \<times> string) set" where
  "lab_network_names L l = {(lab_tenant L l, network_name L l)}"

definition lab_key_names :: "(string \<Rightarrow> string \<Rightarrow> 'k) \<Rightarrow> lib \<Rightarrow> lab \<Rightarrow> 'k set" where
  "lab_key_names key_of L l = {key_of (lab_tenant L l) (keypair_name L l)}"

text \<open>The provider takes the tenant of the lab and the names of its servers.\<close>

definition lab_scope_ok :: "(string \<Rightarrow> bool) \<Rightarrow> (string \<Rightarrow> bool) \<Rightarrow> lib \<Rightarrow> lab \<Rightarrow> bool" where
  "lab_scope_ok scope_ok name_ok L l \<longleftrightarrow> scope_ok (lab_tenant L l) \<and> (\<forall>x \<in> lab_server_names L l. name_ok (snd x))"

lemma lab_server_names_card: "finite (lab_server_names L l) \<and> card (lab_server_names L l) \<le> 5"
proof -
  have "length (tp_vms (topology_for (lb_template l))) = 5" by (simp add: topology_for_def)
  then show ?thesis unfolding lab_server_names_def
    by (metis List.finite_set card_image_le card_length finite_imageI order_trans)
qed

text \<open>The state \<open>c'\<close> holds what \<open>c\<close> held and resources of the lab.\<close>

definition footprint :: "('c \<Rightarrow> resource_table) \<Rightarrow> ('c \<Rightarrow> resource_table) \<Rightarrow>
    ('c \<Rightarrow> 'k set) \<Rightarrow> (string \<Rightarrow> string \<Rightarrow> 'k) \<Rightarrow> lib \<Rightarrow> lab \<Rightarrow> 'c \<Rightarrow> 'c \<Rightarrow> bool" where
  "footprint sv nw ks key_of L l c c' \<longleftrightarrow> grown (lab_server_names L l) (sv c) (sv c') \<and>
     grown (lab_network_names L l) (nw c) (nw c') \<and>
     ks c \<subseteq> ks c' \<and> ks c' \<subseteq> ks c \<union> lab_key_names key_of L l"

lemma footprint_refl [simp]: "footprint sv nw ks key_of L l c c"
  by (simp add: footprint_def)

section \<open>A delivery at any provider\<close>

lemma cloud_run_steps:
  assumes "\<And>name step st. (name, step) \<in> set steps \<Longrightarrow> keeps (cloud_inv J) (step D l st)"
  shows "keeps (cloud_inv J) (run_steps D l steps st)"
  using assms
proof (induction steps arbitrary: st)
  case Nil
  show ?case unfolding run_steps.simps deploy_succeed_def Let_def
    by (intro keeps_intros cloud_save_lab cloud_enqueue cloud_silent [OF silent_basic(5)])
next
  case (Cons x rest)
  obtain name step where x: "x = (name, step)" by fastforce
  have step: "keeps (cloud_inv J) (step D l st)" for st using Cons.prems x by auto
  have rest: "keeps (cloud_inv J) (run_steps D l rest st)" for st using Cons x by auto
  have fail: "keeps (cloud_inv J) (deploy_fail D l n e)" for n e
    unfolding deploy_fail_def by (intro keeps_intros cloud_save_lab cloud_enqueue cloud_silent [OF silent_basic(5)])
  show ?case unfolding x run_steps.simps Let_def
    by (intro keeps_intros step rest fail cloud_steps_save cloud_silent [OF silent_reads(1)]
        cloud_silent [OF silent_basic(5)])
qed

context cloud_provider begin

lemma step_footprint:
  assumes "dd_cloud D = C" "lab_scope_ok scope_ok name_ok (dd_lib D) l" "(name, step) \<in> set ordered_steps"
  shows "keeps (cloud_inv (\<lambda>c. ok c \<and> footprint servers networks keys key_of (dd_lib D) l c0 c)) (step D l st)"
proof -
  let ?L = "dd_lib D" and ?t = "lab_tenant (dd_lib D) l"
  let ?K = "cloud_inv (\<lambda>c. ok c \<and> footprint servers networks keys key_of ?L l c0 c)"
  have t: "scope_ok ?t" using assms(2) by (simp add: lab_scope_ok_def)
  have boot1: "keeps ?K (on_cloud (c_boot_server C ?t s))" if s: "(?t, ss_name s) \<in> lab_server_names ?L l" for s
  proof (rule cloud_call)
    fix c r c'
    assume c: "ok c \<and> footprint servers networks keys key_of ?L l c0 c" and run: "c_boot_server C ?t s c = (r, c')"
    have n: "name_ok (ss_name s)" using s assms(2) by (auto simp: lab_scope_ok_def)
    from boot [OF conjunct1 [OF c] t n run] c s show "ok c' \<and> footprint servers networks keys key_of ?L l c0 c'"
      by (auto simp: footprint_def dest: grown_made grown_tried split: sum.splits)
  qed
  have boots: "set vms \<subseteq> set (tp_vms (topology_for (lb_template l))) \<Longrightarrow> keeps ?K (boot_vms D l vms st)" for vms st
    by (induction vms arbitrary: st)
      (auto intro!: keeps_intros boot1 simp: assms(1) vm_server_spec_def lab_server_names_def)
  have wait1: "keeps ?K (on_cloud (c_wait_active C ?t i))" for i
    by (rule cloud_call) (use wait [OF _ t] in \<open>fastforce simp: footprint_def\<close>)
  have fip1: "keeps ?K (on_cloud (c_allocate_fip C ?t i))" for i
    by (rule cloud_call) (use fip [OF _ t] in \<open>fastforce simp: footprint_def\<close>)
  have waits: "keeps ?K (wait_servers D l is st)" for "is" st
    by (induction "is" arbitrary: st) (auto intro!: keeps_intros wait1 fip1 simp: assms(1))
  have net: "keeps ?K (on_cloud (c_create_network C ?t \<lparr>ns_name = network_name ?L l, ns_cidr = cidr\<rparr>))" for cidr
  proof (rule cloud_call)
    fix c r c'
    assume c: "ok c \<and> footprint servers networks keys key_of ?L l c0 c"
      and run: "c_create_network C ?t \<lparr>ns_name = network_name ?L l, ns_cidr = cidr\<rparr> c = (r, c')"
    from network [OF conjunct1 [OF c] t run] c show "ok c' \<and> footprint servers networks keys key_of ?L l c0 c'"
      by (auto simp: footprint_def lab_network_names_def dest: grown_made grown_tried split: sum.splits)
  qed
  have key: "keeps ?K (on_cloud (c_create_keypair C ?t (keypair_name ?L l)))"
  proof (rule cloud_call)
    fix c r c'
    assume c: "ok c \<and> footprint servers networks keys key_of ?L l c0 c"
      and run: "c_create_keypair C ?t (keypair_name ?L l) c = (r, c')"
    from keypair [OF conjunct1 [OF c] t run] c show "ok c' \<and> footprint servers networks keys key_of ?L l c0 c'"
      by (auto simp: footprint_def lab_key_names_def split: sum.splits)
  qed
  show ?thesis using assms(3)
    by (auto simp: assms(1) ordered_steps_def run_create_keypair_def run_provision_network_def run_boot_vm_def
        run_wait_ssh_def run_initial_check_def Let_def
        intro!: keeps_intros cloud_secret_put boots waits net key)
qed

lemma deploy_footprint:
  assumes "dd_cloud D = C" "lab_scope_ok scope_ok name_ok (dd_lib D) l" "deploy_run D i w = (res, w')"
    "w_snap w = None" "get_lab_row i (w_db w) = Some r" "lab_from_row r = Inr l"
    "ok (w_cloud w)" "footprint servers networks keys key_of (dd_lib D) l c0 (w_cloud w)"
  shows "ok (w_cloud w') \<and> footprint servers networks keys key_of (dd_lib D) l c0 (w_cloud w')"
proof -
  let ?K = "cloud_inv (\<lambda>c. ok c \<and> footprint servers networks keys key_of (dd_lib D) l c0 c)"
  obtain r1 w1 where g: "on_err (Wrapped ''deploy: load lab'') (lab_get_by_id i) w = (r1, w1)" by fastforce
  have "same_state w w1" by (rule silentD [where m = "on_err (Wrapped ''deploy: load lab'') (lab_get_by_id i)"])
    (use g in \<open>auto intro: silent_intros\<close>)
  with assms(7,8) have K1: "?K w1" using same_stateD(3) [of w w1] by (simp add: cloud_inv_def)
  have "?K w'"
  proof (cases r1)
    case (Inl e)
    with g assms(3) K1 show ?thesis by (auto simp: deploy_run_def bind_def)
  next
    case (Inr l1)
    from lab_get_InrD [OF on_err_InrD [OF g [unfolded Inr]]] assms(4-6) have l1: "l1 = l" by simp
    have "keeps ?K (run_steps D l ordered_steps fresh_state)"
      by (rule cloud_run_steps) (rule step_footprint [OF assms(1,2)])
    from keepsD [where I = ?K, OF this K1] show ?thesis using g Inr l1 assms(3) K1
      by (auto simp: deploy_run_def bind_def ret_def throw_def split: if_splits)
  qed
  then show ?thesis by (simp add: cloud_inv_def)
qed

text \<open>A lab that is not deploying is left alone.\<close>

lemma deploy_idle:
  assumes "deploy_run D i w = (res, w')" "w_snap w = None" "get_lab_row i (w_db w) = Some r" "lr_state r \<noteq> Deploying"
  shows "w_snap w' = None \<and> w_db w' = w_db w \<and> w_cloud w' = w_cloud w"
proof -
  obtain r1 w1 where g: "on_err (Wrapped ''deploy: load lab'') (lab_get_by_id i) w = (r1, w1)" by fastforce
  have "same_state w w1" by (rule silentD [where m = "on_err (Wrapped ''deploy: load lab'') (lab_get_by_id i)"])
    (use g in \<open>auto intro: silent_intros\<close>)
  note s = same_stateD [OF this]
  show ?thesis
  proof (cases r1)
    case (Inl e)
    with g assms(1,2) s show ?thesis by (auto simp: deploy_run_def bind_def)
  next
    case (Inr l1)
    from lab_get_InrD [OF on_err_InrD [OF g [unfolded Inr]]] assms(2-4) have "lb_state l1 \<noteq> Deploying"
      by (auto dest: lab_from_row_fields)
    with g Inr assms(1,2) s show ?thesis by (auto simp: deploy_run_def bind_def ret_def)
  qed
qed

lemma deliveries_idle:
  "w_snap w = None \<Longrightarrow> get_lab_row i (w_db w) = Some r \<Longrightarrow> lr_state r \<noteq> Deploying \<Longrightarrow>
     w_cloud (deliveries n D i w) = w_cloud w"
proof (induction n arbitrary: w)
  case (Suc n)
  obtain res w' where run: "deploy_run D i w = (res, w')" by fastforce
  from deploy_idle [OF this Suc.prems] Suc.IH [of w'] Suc.prems show ?case by (simp add: run)
qed simp

lemma deliveries_footprint:
  assumes "dd_cloud D = C" "lab_scope_ok scope_ok name_ok (dd_lib D) l" "lab_from_row r = Inr l"
  shows "w_snap w = None \<Longrightarrow> get_lab_row i (w_db w) = Some r \<Longrightarrow> ok (w_cloud w) \<Longrightarrow>
    footprint servers networks keys key_of (dd_lib D) l c0 (w_cloud w) \<Longrightarrow>
    ok (w_cloud (deliveries n D i w)) \<and>
    footprint servers networks keys key_of (dd_lib D) l c0 (w_cloud (deliveries n D i w))"
proof (induction n arbitrary: w)
  case (Suc n)
  obtain res w' where run: "deploy_run D i w = (res, w')" by fastforce
  from deploy_footprint [OF assms(1,2) run Suc.prems(1,2) assms(3) Suc.prems(3,4)]
  have fp: "ok (w_cloud w')" "footprint servers networks keys key_of (dd_lib D) l c0 (w_cloud w')" by auto
  from deploy_outcome_row [OF deploy_run_outcome [OF Suc.prems(1) run]] Suc.prems(2) consider
      "w_snap w' = None" "get_lab_row i (w_db w') = Some r"
    | r' where "w_snap w' = None" "get_lab_row i (w_db w') = Some r'" "lr_state r' \<noteq> Deploying"
    by (fastforce simp: get_lab_row_def)
  then show ?case
  proof cases
    case 1
    from Suc.IH [OF this fp] show ?thesis by (simp add: run)
  next
    case 2
    from deliveries_idle [OF 2] fp show ?thesis by (simp add: run)
  qed
qed simp

lemma deploys_bounded:
  assumes "ok (w_cloud w)" "dd_cloud D = C" "w_snap w = None" "get_lab_row i (w_db w) = Some r" "lab_from_row r = Inr l"
    "lab_scope_ok scope_ok name_ok (dd_lib D) l"
  shows "let c = w_cloud w; c' = w_cloud (deliveries n D i w) in
    footprint servers networks keys key_of (dd_lib D) l c c' \<and>
    card {s. servers c s = None \<and> servers c' s \<noteq> None} \<le> 5 \<and>
    card {s. networks c s = None \<and> networks c' s \<noteq> None} \<le> 1"
proof -
  define c where "c = w_cloud w"
  define c' where "c' = w_cloud (deliveries n D i w)"
  have fp: "ok c'" "footprint servers networks keys key_of (dd_lib D) l c c'"
    using deliveries_footprint [OF assms(2,6,5,3,4), of c n] assms(1) by (simp_all add: c_def c'_def)
  note u = unique [OF fp(1)]
  from fp(2) have g: "grown (lab_server_names (dd_lib D) l) (servers c) (servers c')"
    "grown (lab_network_names (dd_lib D) l) (networks c) (networks c')"
    by (simp_all add: footprint_def)
  have "card {s. servers c s = None \<and> servers c' s \<noteq> None} \<le> 5"
    using grown_card [OF g(1)] u lab_server_names_card [of "dd_lib D" l] by (meson order_trans)
  moreover have "card {s. networks c s = None \<and> networks c' s \<noteq> None} \<le> 1"
    using grown_card [OF g(2)] u by (simp add: lab_network_names_def)
  ultimately show ?thesis using fp(2) unfolding c_def c'_def Let_def by blast
qed

end

section \<open>Properties\<close>

text \<open>
  C10: retries accumulate nothing. Take the in-memory provider in any state it can be in and a
  lab whose tenant identifier has no slash. Whatever fails, and however often the deploy task is
  delivered, every server, network and key pair that was there remains, every other one carries
  one of the lab's own names in its tenant, and at most five servers, one network and one key
  pair are new.
\<close>
theorem deploy_accumulates_nothing:
  assumes "inmem_ok (w_cloud w)" "dd_cloud D = inmem_ops" "w_snap w = None"
    "get_lab_row i (w_db w) = Some r" "lab_from_row r = Inr l" "CHR ''/'' \<notin> set (lab_tenant (dd_lib D) l)"
  shows "let c = w_cloud w; c' = w_cloud (deliveries n D i w) in
    footprint inmem_servers inmem_networks inmem_keys Pair (dd_lib D) l c c' \<and>
    card {s. inmem_servers c s = None \<and> inmem_servers c' s \<noteq> None} \<le> 5 \<and>
    card {s. inmem_networks c s = None \<and> inmem_networks c' s \<noteq> None} \<le> 1"
  using inmem.deploys_bounded [OF assms(1-5)] assms(6) by (simp add: lab_scope_ok_def)

text \<open>Seven deliveries of the sample lab.\<close>

lemma deploy_accumulates_nothing_witness:
  "\<exists>l. let w = world_of (sample_cloud no_faults) deploying_campus; c' = w_cloud (deliveries 7 sample_deploy 7 w) in
     footprint inmem_servers inmem_networks inmem_keys Pair text_lib l (sample_cloud no_faults) c' \<and>
     card {s. inmem_servers (sample_cloud no_faults) s = None \<and> inmem_servers c' s \<noteq> None} \<le> 5"
proof -
  let ?w = "world_of (sample_cloud no_faults) deploying_campus"
  let ?r = "sample_lab_row 7 1 Deploying (Some 3) 50"
  have g: "get_lab_row 7 (w_db ?w) = Some ?r"
    by (simp add: get_lab_row_def deploying_campus_def sample_lab_row_def)
  obtain l where l: "lab_from_row ?r = Inr l"
    by (simp add: lab_from_row_def sample_lab_row_def ki_resources_from_json_def json_field_def decode_list_def decode_string_def)
  then have p: "lb_project l = Some 3" using lab_from_row_fields [OF l] by (simp add: sample_lab_row_def)
  have slash: "CHR ''/'' \<notin> set (lab_tenant (dd_lib sample_deploy) l)"
    unfolding lab_tenant_def p by code_simp
  have ok: "inmem_ok (w_cloud ?w)" by (simp add: inmem_ok_def numbered_def keys_ok_def sample_cloud_def new_provider_def)
  have d: "dd_cloud sample_deploy = inmem_ops" "dd_lib sample_deploy = text_lib" by (simp_all add: sample_deploy_def)
  show ?thesis
    using deploy_accumulates_nothing [OF ok d(1) _ g l slash, of 7] d(2) by (auto simp: Let_def)
qed

end
