(* ===== verification/CleanupApp.thy ===== *)
theory CleanupApp
  imports DeployApp
begin

text \<open>
  \<open>internal/app/cleanup\<close>: the saga that tears down a lab and returns its project to the pool. A
  failed teardown is counted on the project, and at the limit the project is quarantined and the
  lab finished. The provider is any \<open>cloud_ops\<close>; the logger is left out.
\<close>

record 'c cleanup_deps =
  cd_lib :: lib
  cd_cloud :: "'c cloud_ops"

definition save_project :: "lib \<Rightarrow> project \<Rightarrow> ('c, project) prog" where
  "save_project L p = with_tx (pool_save L p)"

text \<open>The panic of a nil dereference; the task server recovers it and takes the delivery as failed.\<close>

definition nil_dereference :: err where
  "nil_dereference = Plain ''runtime error: invalid memory address or nil pointer dereference''"

section \<open>Teardown\<close>

definition delete_servers :: "'c cleanup_deps \<Rightarrow> string \<Rightarrow> string list \<Rightarrow> ('c, unit) prog" where
  "delete_servers D tenant ids = for_each ids (\<lambda>i.
     on_err (Wrapped (''delete server '' @ i)) (on_cloud (c_delete_server (cd_cloud D) tenant i)))"

definition teardown :: "'c cleanup_deps \<Rightarrow> lab \<Rightarrow> ('c, unit) prog" where
  "teardown D l =
     (case lb_project l of
        None \<Rightarrow> ret ()
      | Some p \<Rightarrow> (let tenant = uuid_string (cd_lib D) p; res = lb_resources l in
          bind (delete_servers D tenant (ki_servers res)) (\<lambda>_.
          bind (if ki_keypair res \<noteq> []
            then on_err (Wrapped (''delete keypair '' @ ki_keypair res))
              (on_cloud (c_delete_keypair (cd_cloud D) tenant (ki_keypair res)))
            else ret ()) (\<lambda>_.
          if ki_network res \<noteq> []
          then on_err (Wrapped (''delete network '' @ ki_network res))
            (on_cloud (c_delete_network (cd_cloud D) tenant (ki_network res)))
          else ret ()))))"

section \<open>The saga\<close>

definition finish_lab :: "'c cleanup_deps \<Rightarrow> lab \<Rightarrow> string \<Rightarrow> time \<Rightarrow> ('c, unit) prog" where
  "finish_lab D l reason now =
     bind (from_sum (case transition Done reason now l of
        Inl e \<Rightarrow> Inl (Wrapped ''cleanup: transition to done'' e) | Inr l \<Rightarrow> Inr l)) (\<lambda>l.
     bind (save_lab (cd_lib D) l) (\<lambda>_. ret ()))"

definition enter_cleaning :: "'c cleanup_deps \<Rightarrow> lab \<Rightarrow> time \<Rightarrow> ('c, lab) prog" where
  "enter_cleaning D l now =
     (if lb_state l = Cleaning then ret l
      else bind (from_sum (case transition Cleaning ''cleanup'' now l of
          Inl e \<Rightarrow> Inl (Wrapped ''cleanup: transition to cleaning'' e) | Inr l \<Rightarrow> Inr l))
        (save_lab (cd_lib D)))"

definition claim_project :: "'c cleanup_deps \<Rightarrow> lab \<Rightarrow> time \<Rightarrow> ('c, project option) prog" where
  "claim_project D l now =
     (case lb_project l of
        None \<Rightarrow> ret None
      | Some p \<Rightarrow>
          bind (on_err (Wrapped ''cleanup: load project'') (pool_get_by_id p)) (\<lambda>proj.
          if pj_state proj = PAllocated then
            bind (from_sum (case release now proj of
                None \<Rightarrow> Inl nil_dereference
              | Some (Inl e) \<Rightarrow> Inl (Wrapped ''cleanup: release project'' e)
              | Some (Inr proj) \<Rightarrow> Inr proj)) (\<lambda>proj.
            bind (save_project (cd_lib D) proj) (\<lambda>proj. ret (Some proj)))
          else ret (Some proj)))"

definition teardown_failed ::
  "'c cleanup_deps \<Rightarrow> lab \<Rightarrow> project option \<Rightarrow> err \<Rightarrow> time \<Rightarrow> ('c, unit) prog" where
  "teardown_failed D l project e now =
     (case project of
        None \<Rightarrow> throw e
      | Some proj \<Rightarrow>
          if pj_state proj = PCleaning then
            let proj = (case record_cleanup_failure (error_text e) now proj of Inl _ \<Rightarrow> proj | Inr p \<Rightarrow> p) in
            bind (save_project (cd_lib D) proj) (\<lambda>proj.
            if pj_state proj = PQuarantine then finish_lab D l ''cleanup_failed_quarantined'' now
            else throw e)
          else throw e)"

definition teardown_done ::
  "'c cleanup_deps \<Rightarrow> lab \<Rightarrow> project option \<Rightarrow> time \<Rightarrow> ('c, unit) prog" where
  "teardown_done D l project now =
     bind (case project of
        None \<Rightarrow> ret ()
      | Some proj \<Rightarrow>
          if pj_state proj = PCleaning then
            bind (from_sum (case mark_clean now proj of
              Inl e \<Rightarrow> Inl (Wrapped ''cleanup: mark project clean'' e) | Inr proj \<Rightarrow> Inr proj)) (\<lambda>proj.
            bind (save_project (cd_lib D) proj) (\<lambda>_. ret ()))
          else ret ()) (\<lambda>_.
     bind (case lb_checker_key l of
        None \<Rightarrow> ret ()
      | Some s \<Rightarrow> bind (attempt (secret_delete s)) (\<lambda>_. ret ())) (\<lambda>_.
     finish_lab D l ''cleanup_complete'' now))"

definition cleanup_run :: "'c cleanup_deps \<Rightarrow> lab_id \<Rightarrow> ('c, unit) prog" where
  "cleanup_run D i =
     bind clock_now (\<lambda>now.
     bind (on_err (Wrapped ''cleanup: load lab'') (lab_get_by_id i)) (\<lambda>l.
     if lb_state l = Done then ret ()
     else if lb_state l \<noteq> Cleaning \<and> \<not> can_transition (lb_state l) Cleaning then ret ()
     else
       bind (enter_cleaning D l now) (\<lambda>l.
       bind (claim_project D l now) (\<lambda>project.
       bind (attempt (teardown D l)) (\<lambda>out.
       case out of
         Inl e \<Rightarrow> teardown_failed D l project e now
       | Inr _ \<Rightarrow> teardown_done D l project now)))))"

definition cleanup_handle_task :: "'c cleanup_deps \<Rightarrow> task \<Rightarrow> ('c, unit) prog" where
  "cleanup_handle_task D t =
     bind (from_sum (lab_id_of_payload (cd_lib D) ''cleanup'' (tk_payload t))) (cleanup_run D)"

end
