(* ===== verification/CleanupSafety.thy ===== *)
theory CleanupSafety
  imports CleanupApp DeploySafety
begin

text \<open>
  What the cleanup task may do, whatever fails: it leaves alone the labs it is not meant for, and
  a project goes back to the pool only when every resource recorded for its lab is gone from the
  provider, which is any that meets the contract \<open>cloud_provider\<close>.
\<close>

section \<open>Rules\<close>

lemma spec_attempt:
  "spec P m Q E \<Longrightarrow> spec P (attempt m) (\<lambda>r w. case r of Inl e \<Rightarrow> E e w | Inr x \<Rightarrow> Q x w) F"
  by (fastforce simp: spec_def io_simps split: prod.splits sum.splits)

lemma spec_keeps: "keeps I m \<Longrightarrow> spec I m (\<lambda>_. I) (\<lambda>_. I)"
  by (fastforce simp: spec_def keeps_def split: prod.splits sum.splits)

lemma keeps_spec: "spec I m (\<lambda>_. I) (\<lambda>_. I) \<Longrightarrow> keeps I m"
proof (rule keepsI)
  fix w r w'
  assume "spec I m (\<lambda>_. I) (\<lambda>_. I)" "I w" "m w = (r, w')"
  then show "I w'" by (cases r) (auto dest: specD_Inl specD_Inr)
qed

lemma spec_fact: "(b \<Longrightarrow> spec P m Q E) \<Longrightarrow> spec (\<lambda>w. P w \<and> b) m Q E"
  by (auto simp: spec_def)

section \<open>Freed projects\<close>

text \<open>The free rows are those of \<open>ps\<close>, and the provider's state satisfies \<open>J\<close>.\<close>

definition none_freed :: "project_row list \<Rightarrow> ('c \<Rightarrow> bool) \<Rightarrow> 'c world \<Rightarrow> bool" where
  "none_freed ps J w \<longleftrightarrow> J (w_cloud w) \<and> (\<forall>x \<in> set (t_projects (w_db w)). pr_state x = PFree \<longrightarrow> x \<in> set ps)"

definition freed_if :: "project_row list \<Rightarrow> project_id option \<Rightarrow> ('c \<Rightarrow> bool) \<Rightarrow> 'c world \<Rightarrow> bool" where
  "freed_if ps p G w \<longleftrightarrow> (\<forall>x \<in> set (t_projects (w_db w)). pr_state x = PFree \<longrightarrow>
     x \<in> set ps \<or> p = Some (pr_id x) \<and> G (w_cloud w))"

lemma freed_if_none: "none_freed ps J w \<Longrightarrow> freed_if ps p G w"
  by (simp add: none_freed_def freed_if_def)

lemma none_freed_silent: "silent m \<Longrightarrow> keeps (none_freed ps J) m"
  by (rule keepsI) (use silentD same_stateD(1,3) in \<open>fastforce simp: none_freed_def\<close>)

lemma none_freed_cloud:
  "(\<And>c r c'. J c \<Longrightarrow> f c = (r, c') \<Longrightarrow> J c') \<Longrightarrow> keeps (none_freed ps J) (on_cloud f)"
  by (rule keepsI) (auto simp: none_freed_def on_cloud_def split: prod.splits)

lemma spec_cloud:
  assumes "\<And>c x c'. J c \<Longrightarrow> f c = (Inr x, c') \<Longrightarrow> K c'" "\<And>c e c'. J c \<Longrightarrow> f c = (Inl e, c') \<Longrightarrow> E c'"
  shows "spec (none_freed ps J) (on_cloud f) (\<lambda>_. none_freed ps K) (\<lambda>_. none_freed ps E)"
  by (rule specI) (use assms in \<open>auto simp: none_freed_def on_cloud_def split: prod.splits\<close>)

lemma save_lab_cloud: "save_lab L l w = (r, w') \<Longrightarrow> w_cloud w' = w_cloud w"
  using keepsD [where m = "save_lab L l" and w = w and r = r and w' = w', OF cloud_save_lab [where J = "\<lambda>c. c = w_cloud w"]]
  by (simp add: cloud_inv_def)

lemma save_lab_projects: "save_lab L l w = (r, w') \<Longrightarrow> t_projects (w_db w') = t_projects (w_db w)"
  by (cases r) (auto dest: save_lab_InlD save_lab_InrD)

lemma none_freed_save_lab: "keeps (none_freed ps J) (save_lab L l)"
  by (rule keepsI) (auto simp: none_freed_def dest: save_lab_cloud save_lab_projects)

text \<open>A save of a project.\<close>

lemma cloud_save_project: "keeps (cloud_inv J) (save_project L p)"
  unfolding save_project_def pool_save_def project_id_arg_def append_project_event_def one_row_def
  by (intro keeps_intros cloud_with_tx cloud_stmts cloud_emit cloud_silent [OF silent_basic(6)])

lemma save_project_cloud: "save_project L p w = (r, w') \<Longrightarrow> w_cloud w' = w_cloud w"
  using keepsD [where m = "save_project L p" and w = w and r = r and w' = w', OF cloud_save_project [where J = "\<lambda>c. c = w_cloud w"]]
  by (simp add: cloud_inv_def)

lemma save_project_InlD: "save_project L p w = (Inl e, w') \<Longrightarrow> w_db w' = w_db w"
  unfolding save_project_def by (rule with_tx_atomic)

lemma save_project_InrD:
  assumes "save_project L p w = (Inr p', w')" "pj_id p \<noteq> 0"
  shows "p' = p\<lparr>pj_events := []\<rparr> \<and> (\<exists>r. get_project_row (pj_id p) (w_db w) = Some r \<and>
    t_projects (w_db w') = put_row pr_id (project_merge p r) (t_projects (w_db w))) \<and>
    t_labs (w_db w') = t_labs (w_db w)"
proof -
  let ?w0 = "w\<lparr>w_stmt := Suc (w_stmt w), w_snap := Some (w_db w), w_aborted := False\<rparr>"
  from with_tx_InrD [OF assms(1) [unfolded save_project_def]] obtain w2
    where s: "pool_save L p ?w0 = (Inr p', w2)" and w': "w_db w' = w_db w2" by auto
  from pool_save_InrD [OF s assms(2)] w' show ?thesis by (auto dest: logs_onlyD(1,2))
qed

lemma project_merge_simps [simp]:
  "pr_id (project_merge p r) = pr_id r" "pr_state (project_merge p r) = pj_state p"
  "pr_failures (project_merge p r) = pj_failures p"
  by (simp_all add: project_merge_def)

lemma none_freed_save_project:
  assumes "pj_id p \<noteq> 0" "pj_state p \<noteq> PFree"
  shows "spec (none_freed ps J) (save_project L p) (\<lambda>p' w. none_freed ps J w \<and> p' = p\<lparr>pj_events := []\<rparr>)
    (\<lambda>_. none_freed ps J)"
proof (rule specI)
  fix w p' w'
  assume I: "none_freed ps J w" and run: "save_project L p w = (Inr p', w')"
  from save_project_InrD [OF run assms(1)] save_project_cloud [OF run] I assms(2)
  show "none_freed ps J w' \<and> p' = p\<lparr>pj_events := []\<rparr>" by (auto simp: none_freed_def dest!: put_row_mem)
next
  fix w e w'
  assume "none_freed ps J w" and run: "save_project L p w = (Inl e, w')"
  with save_project_InlD [OF run] save_project_cloud [OF run] show "none_freed ps J w'"
    by (simp add: none_freed_def)
qed

section \<open>Before the teardown\<close>

lemma spec_enter_cleaning:
  "spec (none_freed ps J) (enter_cleaning D l now)
     (\<lambda>l' w. none_freed ps J w \<and> (lb_project l' = lb_project l \<and> lb_resources l' = lb_resources l))
     (\<lambda>_. none_freed ps J)"
proof (rule specI)
  fix w l' w'
  assume I: "none_freed ps J w" and run: "enter_cleaning D l now w = (Inr l', w')"
  show "none_freed ps J w' \<and> (lb_project l' = lb_project l \<and> lb_resources l' = lb_resources l)"
  proof (cases "lb_state l = Cleaning")
    case True
    with run I show ?thesis by (simp add: enter_cleaning_def ret_def)
  next
    case False
    with run obtain l1 where l1: "transition Cleaning ''cleanup'' now l = Inr l1"
      and s: "save_lab (cd_lib D) l1 w = (Inr l', w')"
      by (auto simp: enter_cleaning_def bind_def from_sum_def split: sum.splits)
    from l1 have "lb_project l1 = lb_project l \<and> lb_resources l1 = lb_resources l"
      by (auto simp: transition_Inr lb_record_def)
    with save_lab_InrD [OF s] keepsD [OF none_freed_save_lab I s] show ?thesis by simp
  qed
next
  fix w e w'
  assume I: "none_freed ps J w" and run: "enter_cleaning D l now w = (Inl e, w')"
  have "keeps (none_freed ps J) (enter_cleaning D l now)"
    unfolding enter_cleaning_def by (intro keeps_intros none_freed_save_lab)
  from keepsD [OF this I run] show "none_freed ps J w'" .
qed

lemma spec_claim_project:
  assumes "lb_project l \<noteq> Some 0"
  shows "spec (none_freed ps J) (claim_project D l now)
     (\<lambda>p w. none_freed ps J w \<and> map_option pj_id p = lb_project l) (\<lambda>_. none_freed ps J)"
proof (cases "lb_project l")
  case None
  then show ?thesis by (simp add: claim_project_def spec_ret)
next
  case (Some i)
  with assms have i: "i \<noteq> 0" by simp
  have load: "spec (none_freed ps J) (on_err g (pool_get_by_id i))
      (\<lambda>p w. none_freed ps J w \<and> pj_id p = i) (\<lambda>_. none_freed ps J)" for g
  proof (rule spec_on_err, rule specI)
    fix w p w'
    assume I: "none_freed ps J w" and run: "pool_get_by_id i w = (Inr p, w')"
    from pool_get_InrD [OF run i] get_project_row_id have "pj_id p = i" by auto
    with keepsD [OF none_freed_silent [OF silent_reads(3)] I run] show "none_freed ps J w' \<and> pj_id p = i" by simp
  qed (rule keepsD [OF none_freed_silent [OF silent_reads(3)]])
  show ?thesis unfolding claim_project_def Some option.case
  proof (rule spec_bind [OF load], rule spec_fact)
    fix p :: project
    assume p: "pj_id p = i"
    show "spec (none_freed ps J) (if pj_state p = PAllocated then
            bind (from_sum (case release now p of
                None \<Rightarrow> Inl nil_dereference
              | Some (Inl e) \<Rightarrow> Inl (Wrapped ''cleanup: release project'' e)
              | Some (Inr p) \<Rightarrow> Inr p)) (\<lambda>p.
            bind (save_project (cd_lib D) p) (\<lambda>p. ret (Some p)))
          else ret (Some p))
        (\<lambda>p w. none_freed ps J w \<and> map_option pj_id p = Some i) (\<lambda>_. none_freed ps J)"
    proof (rule spec_if)
      assume "pj_state p = PAllocated"
      show "spec (none_freed ps J) (bind (from_sum (case release now p of
                None \<Rightarrow> Inl nil_dereference
              | Some (Inl e) \<Rightarrow> Inl (Wrapped ''cleanup: release project'' e)
              | Some (Inr p) \<Rightarrow> Inr p)) (\<lambda>p.
            bind (save_project (cd_lib D) p) (\<lambda>p. ret (Some p))))
        (\<lambda>p w. none_freed ps J w \<and> map_option pj_id p = Some i) (\<lambda>_. none_freed ps J)"
      proof (cases "release now p")
        case None
        then show ?thesis by (simp add: spec_def bind_def from_sum_def)
      next
        case (Some r)
        show ?thesis
        proof (cases r)
          case (Inl e)
          with Some show ?thesis by (simp add: spec_def bind_def from_sum_def)
        next
          case (Inr p1)
          with Some p have p1: "pj_id p1 = i" "pj_state p1 \<noteq> PFree"
            by (auto simp: release_def pj_record_def split: if_splits option.splits)
          have "spec (none_freed ps J) (bind (save_project (cd_lib D) p1) (\<lambda>p. ret (Some p)))
              (\<lambda>p w. none_freed ps J w \<and> map_option pj_id p = Some i) (\<lambda>_. none_freed ps J)"
            by (rule spec_bind [OF none_freed_save_project]) (use p1 i in \<open>auto intro: spec_ret\<close>)
          with Some Inr show ?thesis by (simp add: bind_def from_sum_def)
        qed
      qed
    qed (simp add: spec_ret p)
  qed
qed

section \<open>After the teardown\<close>

lemma keeps_teardown_failed:
  assumes "map_option pj_id proj \<noteq> Some 0"
  shows "keeps (none_freed ps J) (teardown_failed D l proj e now)"
proof (cases proj)
  case None
  then show ?thesis by (simp add: teardown_failed_def keeps_throw)
next
  case (Some p)
  show ?thesis
  proof (cases "pj_state p = PCleaning")
    case True
    define p1 where "p1 = (case record_cleanup_failure (error_text e) now p of Inl _ \<Rightarrow> p | Inr p \<Rightarrow> p)"
    have p1: "pj_id p1 \<noteq> 0" "pj_state p1 \<noteq> PFree"
      using True Some assms by (auto simp: p1_def record_cleanup_failure_def pj_record_def Let_def)
    have save: "keeps (none_freed ps J) (save_project L p1)" for L
      by (rule keeps_spec, rule spec_weaken [OF none_freed_save_project [OF p1]]) auto
    show ?thesis unfolding teardown_failed_def Some option.case p1_def [symmetric] Let_def finish_lab_def
      by (intro keeps_intros save none_freed_save_lab)
  next
    case False
    with Some show ?thesis by (simp add: teardown_failed_def keeps_throw)
  qed
qed

lemma keeps_freed_save_lab: "keeps (freed_if ps p G) (save_lab L l)"
  by (rule keepsI) (simp add: freed_if_def save_lab_cloud save_lab_projects)

lemma keeps_freed_silent: "silent m \<Longrightarrow> keeps (freed_if ps p G) m"
  by (rule keepsI) (use silentD same_stateD(1,3) in \<open>fastforce simp: freed_if_def\<close>)

lemma keeps_freed_secret_delete: "keeps (freed_if ps p G) (secret_delete i)"
proof (rule keepsI)
  fix w r w'
  assume I: "freed_if ps p G w" and run: "secret_delete i w = (r, w')"
  then obtain r1 where r1: "conn_stmt (delete_secret i) w = (r1, w')"
    by (auto simp: secret_delete_def on_err_def split: prod.splits sum.splits)
  with conn_stmt_state [OF r1] I show "freed_if ps p G w'"
    by (auto simp: freed_if_def delete_secret_def split: if_splits)
qed

lemma save_free_project:
  assumes "pj_id p \<noteq> 0" "p_id = Some (pj_id p)"
  shows "spec (none_freed ps G) (save_project L p) (\<lambda>_. freed_if ps p_id G) (\<lambda>_. freed_if ps p_id G)"
proof (rule specI)
  fix w p' w'
  assume I: "none_freed ps G w" and run: "save_project L p w = (Inr p', w')"
  from save_project_InrD [OF run assms(1)] obtain r where r: "get_project_row (pj_id p) (w_db w) = Some r"
    "t_projects (w_db w') = put_row pr_id (project_merge p r) (t_projects (w_db w))" by blast
  show "freed_if ps p_id G w'"
    unfolding freed_if_def
  proof (intro ballI impI)
    fix x
    assume x: "x \<in> set (t_projects (w_db w'))" "pr_state x = PFree"
    from put_row_mem [OF x(1) [unfolded r(2)]] show "x \<in> set ps \<or> p_id = Some (pr_id x) \<and> G (w_cloud w')"
      using x(2) I assms(2) get_project_row_id [OF r(1)] save_project_cloud [OF run] by (auto simp: none_freed_def)
  qed
next
  fix w e w'
  assume "none_freed ps G w" and run: "save_project L p w = (Inl e, w')"
  with save_project_InlD [OF run] save_project_cloud [OF run] show "freed_if ps p_id G w'"
    by (simp add: none_freed_def freed_if_def)
qed

lemma spec_teardown_done:
  assumes "map_option pj_id proj = p_id" "p_id \<noteq> Some 0"
  shows "spec (none_freed ps G) (teardown_done D l proj now) (\<lambda>_. freed_if ps p_id G) (\<lambda>_. freed_if ps p_id G)"
proof -
  let ?free = "case proj of None \<Rightarrow> ret () | Some p \<Rightarrow> if pj_state p = PCleaning then
            bind (from_sum (case mark_clean now p of
              Inl e \<Rightarrow> Inl (Wrapped ''cleanup: mark project clean'' e) | Inr p \<Rightarrow> Inr p)) (\<lambda>p.
            bind (save_project (cd_lib D) p) (\<lambda>_. ret ()))
          else ret ()"
  have free: "spec (none_freed ps G) ?free (\<lambda>_. freed_if ps p_id G) (\<lambda>_. freed_if ps p_id G)"
  proof (rule spec_case_option)
    fix p
    assume p: "proj = Some p"
    show "spec (none_freed ps G) (if pj_state p = PCleaning then
            bind (from_sum (case mark_clean now p of
              Inl e \<Rightarrow> Inl (Wrapped ''cleanup: mark project clean'' e) | Inr p \<Rightarrow> Inr p)) (\<lambda>p.
            bind (save_project (cd_lib D) p) (\<lambda>_. ret ()))
          else ret ()) (\<lambda>_. freed_if ps p_id G) (\<lambda>_. freed_if ps p_id G)"
    proof (rule spec_if)
      assume "pj_state p = PCleaning"
      then obtain p1 where p1: "mark_clean now p = Inr p1" "pj_id p1 = pj_id p"
        by (simp add: mark_clean_def pj_record_def)
      have "spec (none_freed ps G) (bind (save_project (cd_lib D) p1) (\<lambda>_. ret ()))
          (\<lambda>_. freed_if ps p_id G) (\<lambda>_. freed_if ps p_id G)"
        by (rule spec_bind [OF save_free_project]) (use assms p p1 in \<open>auto intro: spec_ret\<close>)
      with p1 show "spec (none_freed ps G) (bind (from_sum (case mark_clean now p of
              Inl e \<Rightarrow> Inl (Wrapped ''cleanup: mark project clean'' e) | Inr p \<Rightarrow> Inr p)) (\<lambda>p.
            bind (save_project (cd_lib D) p) (\<lambda>_. ret ()))) (\<lambda>_. freed_if ps p_id G) (\<lambda>_. freed_if ps p_id G)"
        by (simp add: bind_def from_sum_def)
    qed (simp add: spec_ret freed_if_none)
  qed (simp add: spec_ret freed_if_none)
  have rest: "keeps (freed_if ps p_id G) (bind (case lb_checker_key l of
        None \<Rightarrow> ret ()
      | Some s \<Rightarrow> bind (attempt (secret_delete s)) (\<lambda>_. ret ())) (\<lambda>_. finish_lab D l ''cleanup_complete'' now))"
    unfolding finish_lab_def
    by (intro keeps_intros keeps_freed_secret_delete keeps_freed_save_lab)
  show ?thesis unfolding teardown_done_def by (rule spec_bind [OF free spec_keeps [OF rest]])
qed

section \<open>The teardown\<close>

definition resources_gone :: "(string \<Rightarrow> (string \<times> string) option \<Rightarrow> bool) \<Rightarrow> ('c \<Rightarrow> resource_table) \<Rightarrow> ('c \<Rightarrow> resource_table) \<Rightarrow>
    ('c \<Rightarrow> 'k set) \<Rightarrow> (string \<Rightarrow> string \<Rightarrow> 'k) \<Rightarrow> string \<Rightarrow> ki_resources \<Rightarrow> 'c \<Rightarrow> bool" where
  "resources_gone lost sv nw ks key_of tenant res c \<longleftrightarrow> (\<forall>i \<in> set (ki_servers res). lost tenant (sv c i)) \<and>
     (ki_keypair res \<noteq> [] \<longrightarrow> key_of tenant (ki_keypair res) \<notin> ks c) \<and>
     (ki_network res \<noteq> [] \<longrightarrow> lost tenant (nw c (ki_network res)))"

context cloud_provider begin

lemma delete_servers_spec:
  assumes "cd_cloud D = C" "scope_ok tenant"
  shows "spec (none_freed ps (\<lambda>c. ok c \<and> (\<forall>i \<in> S. lost tenant (servers c i)))) (delete_servers D tenant ids)
    (\<lambda>_. none_freed ps (\<lambda>c. ok c \<and> (\<forall>i \<in> S \<union> set ids. lost tenant (servers c i)))) (\<lambda>_. none_freed ps ok)"
proof (induction ids arbitrary: S)
  case Nil
  show ?case by (simp add: delete_servers_def spec_ret none_freed_def)
next
  case (Cons j ids)
  have one: "spec (none_freed ps (\<lambda>c. ok c \<and> (\<forall>i \<in> S. lost tenant (servers c i)))) (on_cloud (c_delete_server C tenant j))
      (\<lambda>_. none_freed ps (\<lambda>c. ok c \<and> (\<forall>i \<in> insert j S. lost tenant (servers c i)))) (\<lambda>_. none_freed ps ok)"
    by (rule spec_cloud) (use delete_server [OF _ assms(2)] lost_dropped in \<open>fastforce+\<close>)
  have split: "S \<union> set (j # ids) = insert j S \<union> set ids" by auto
  show ?case unfolding delete_servers_def for_each.simps split assms(1)
    by (rule spec_bind, rule spec_on_err, rule one, rule Cons.IH [unfolded delete_servers_def assms(1)])
qed

lemma teardown_spec:
  assumes "cd_cloud D = C" "lb_project l = Some p" "scope_ok (uuid_string (cd_lib D) p)"
  shows "spec (none_freed ps ok) (teardown D l)
    (\<lambda>_. none_freed ps (\<lambda>c. ok c \<and> resources_gone lost servers networks keys key_of (uuid_string (cd_lib D) p) (lb_resources l) c))
    (\<lambda>_. none_freed ps ok)"
proof -
  let ?t = "uuid_string (cd_lib D) p" and ?r = "lb_resources l"
  let ?J1 = "\<lambda>c. ok c \<and> (\<forall>i \<in> set (ki_servers ?r). lost ?t (servers c i))"
  let ?J2 = "\<lambda>c. ?J1 c \<and> (ki_keypair ?r \<noteq> [] \<longrightarrow> key_of ?t (ki_keypair ?r) \<notin> keys c)"
  have 1: "spec (none_freed ps ok) (delete_servers D ?t (ki_servers ?r)) (\<lambda>_. none_freed ps ?J1) (\<lambda>_. none_freed ps ok)"
    using delete_servers_spec [OF assms(1,3), of ps "{}" "ki_servers ?r"] by simp
  have k: "spec (none_freed ps ?J1) (on_cloud (c_delete_keypair C ?t (ki_keypair ?r)))
      (\<lambda>_. none_freed ps ?J2) (\<lambda>_. none_freed ps ok)"
    by (rule spec_cloud) (use delete_keypair [OF _ assms(3)] in \<open>fastforce+\<close>)
  have n: "spec (none_freed ps ?J2) (on_cloud (c_delete_network C ?t (ki_network ?r)))
      (\<lambda>_. none_freed ps (\<lambda>c. ?J2 c \<and> lost ?t (networks c (ki_network ?r)))) (\<lambda>_. none_freed ps ok)"
    by (rule spec_cloud) (use delete_network [OF _ assms(3)] in \<open>fastforce+\<close>)
  have skip: "spec (none_freed ps ?J1) (ret ()) (\<lambda>_. none_freed ps ?J2) (\<lambda>_. none_freed ps ok)" if "ki_keypair ?r = []"
    using that by (intro spec_ret) (simp add: none_freed_def)
  have fin: "none_freed ps ?J2 w \<Longrightarrow> ki_network ?r = [] \<Longrightarrow>
      none_freed ps (\<lambda>c. ok c \<and> resources_gone lost servers networks keys key_of ?t ?r c) w"
    "none_freed ps (\<lambda>c. ?J2 c \<and> lost ?t (networks c (ki_network ?r))) w \<Longrightarrow>
      none_freed ps (\<lambda>c. ok c \<and> resources_gone lost servers networks keys key_of ?t ?r c) w" for w
    by (auto simp: none_freed_def resources_gone_def)
  show ?thesis unfolding teardown_def assms(1,2) option.case Let_def
    by (intro spec_bind [OF 1] spec_bind [where R = "\<lambda>_. none_freed ps ?J2"] spec_if spec_on_err k skip
        spec_weaken [OF n] spec_ret) (auto intro: fin)
qed

text \<open>The rest of a cleanup, after the lab is cleaning.\<close>

lemma claimed_spec:
  assumes "cd_cloud D = C" "lb_project l = Some p" "p \<noteq> 0" "scope_ok (uuid_string (cd_lib D) p)"
    "\<And>c. G c \<longleftrightarrow> ok c \<and> resources_gone lost servers networks keys key_of (uuid_string (cd_lib D) p) (lb_resources l) c"
  shows "spec (none_freed ps ok)
    (bind (claim_project D l now) (\<lambda>project. bind (attempt (teardown D l)) (\<lambda>out.
       case out of Inl e \<Rightarrow> teardown_failed D l project e now | Inr _ \<Rightarrow> teardown_done D l project now)))
    (\<lambda>_. freed_if ps (Some p) G) (\<lambda>_. freed_if ps (Some p) G)"
proof -
  have c: "spec (none_freed ps ok) (claim_project D l now)
      (\<lambda>q w. none_freed ps ok w \<and> map_option pj_id q = lb_project l) (\<lambda>_. freed_if ps (Some p) G)"
    by (rule spec_weaken [OF spec_claim_project]) (use assms(2,3) freed_if_none in auto)
  show ?thesis
  proof (rule spec_bind [OF c])
  fix proj
  show "spec (\<lambda>w. none_freed ps ok w \<and> map_option pj_id proj = lb_project l)
    (bind (attempt (teardown D l)) (\<lambda>out.
       case out of Inl e \<Rightarrow> teardown_failed D l proj e now | Inr _ \<Rightarrow> teardown_done D l proj now))
    (\<lambda>_. freed_if ps (Some p) G) (\<lambda>_. freed_if ps (Some p) G)"
  proof (rule spec_fact, rule spec_bind [OF spec_attempt [OF teardown_spec [OF assms(1,2,4)]]])
    fix out
    assume proj: "map_option pj_id proj = lb_project l"
    show "spec (\<lambda>w. case out of Inl e \<Rightarrow> none_freed ps ok w
        | Inr x \<Rightarrow> none_freed ps (\<lambda>c. ok c \<and> resources_gone lost servers networks keys key_of (uuid_string (cd_lib D) p) (lb_resources l) c) w)
      (case out of Inl e \<Rightarrow> teardown_failed D l proj e now | Inr _ \<Rightarrow> teardown_done D l proj now)
      (\<lambda>_. freed_if ps (Some p) G) (\<lambda>_. freed_if ps (Some p) G)"
    proof (cases out)
      case (Inl e)
      have "spec (none_freed ps ok) (teardown_failed D l proj e now) (\<lambda>_. none_freed ps ok) (\<lambda>_. none_freed ps ok)"
        by (rule spec_keeps, rule keeps_teardown_failed) (use proj assms(2,3) in auto)
      from spec_weaken [OF this] show ?thesis by (simp add: Inl freed_if_none)
    next
      case (Inr u)
      have "G = (\<lambda>c. ok c \<and> resources_gone lost servers networks keys key_of (uuid_string (cd_lib D) p) (lb_resources l) c)"
        using assms(5) by auto
      with spec_teardown_done [of proj "Some p" ps G D l now] proj assms(2,3) show ?thesis by (simp add: Inr)
    qed
  qed
  qed
qed

lemma cleanup_spec:
  assumes "cd_cloud D = C" "lb_project l = Some p" "p \<noteq> 0" "scope_ok (uuid_string (cd_lib D) p)"
    "\<And>c. G c \<longleftrightarrow> ok c \<and> resources_gone lost servers networks keys key_of (uuid_string (cd_lib D) p) (lb_resources l) c"
  shows "spec (none_freed ps ok)
    (bind (enter_cleaning D l now) (\<lambda>l.
       bind (claim_project D l now) (\<lambda>project.
       bind (attempt (teardown D l)) (\<lambda>out.
       case out of Inl e \<Rightarrow> teardown_failed D l project e now | Inr _ \<Rightarrow> teardown_done D l project now))))
    (\<lambda>_. freed_if ps (Some p) G) (\<lambda>_. freed_if ps (Some p) G)"
proof (rule spec_bind [OF spec_weaken [OF spec_enter_cleaning]], assumption, assumption)
  show "none_freed ps ok w \<Longrightarrow> freed_if ps (Some p) G w" for w by (rule freed_if_none)
  fix l'
  show "spec (\<lambda>w. none_freed ps ok w \<and> (lb_project l' = lb_project l \<and> lb_resources l' = lb_resources l))
    (bind (claim_project D l' now) (\<lambda>project. bind (attempt (teardown D l')) (\<lambda>out.
       case out of Inl e \<Rightarrow> teardown_failed D l' project e now | Inr _ \<Rightarrow> teardown_done D l' project now)))
    (\<lambda>_. freed_if ps (Some p) G) (\<lambda>_. freed_if ps (Some p) G)"
    by (rule spec_fact, rule claimed_spec) (use assms in simp_all)
qed

end

section \<open>A delivery\<close>

lemma cleaning_from: "can_transition s Cleaning \<Longrightarrow> s \<in> {Ready, Frozen, Failed, Cleaning}"
  by (cases s) (simp_all add: can_transition_def)

text \<open>A lab that is not the cleanup's is left alone, with the provider.\<close>

lemma cleanup_run_cases:
  assumes "cleanup_run D i w = (res, w')" "w_snap w = None"
  shows "(w_db w' = w_db w \<and> w_cloud w' = w_cloud w \<and> w_tasks w' = w_tasks w) \<or>
    (\<exists>r l now w1. get_lab_row i (w_db w) = Some r \<and> lab_from_row r = Inr l \<and> same_state w w1 \<and>
       (lr_state r = Cleaning \<or> can_transition (lr_state r) Cleaning) \<and>
       bind (enter_cleaning D l now) (\<lambda>l.
         bind (claim_project D l now) (\<lambda>project.
         bind (attempt (teardown D l)) (\<lambda>out.
         case out of Inl e \<Rightarrow> teardown_failed D l project e now | Inr _ \<Rightarrow> teardown_done D l project now))) w1 = (res, w'))"
proof -
  let ?now = "e_clock (w_env w) (w_tick w)" and ?w0 = "w\<lparr>w_tick := Suc (w_tick w)\<rparr>"
  obtain r1 w1 where g: "on_err (Wrapped ''cleanup: load lab'') (lab_get_by_id i) ?w0 = (r1, w1)" by fastforce
  have "same_state ?w0 w1" by (rule silentD [where m = "on_err (Wrapped ''cleanup: load lab'') (lab_get_by_id i)"])
    (use g in \<open>auto intro: silent_intros\<close>)
  then have s: "same_state w w1" by (simp add: same_state_def)
  show ?thesis
  proof (cases r1)
    case (Inl e)
    with g assms(1) same_stateD [OF s] show ?thesis by (auto simp: cleanup_run_def bind_def clock_now_def)
  next
    case (Inr l)
    from lab_get_InrD [OF on_err_InrD [OF g [unfolded Inr]]] assms(2)
    obtain r where r: "get_lab_row i (w_db w) = Some r" "lab_from_row r = Inr l" by auto
    from lab_from_row_fields [OF r(2)] have "lb_state l = lr_state r" by simp
    then show ?thesis
      using r s g Inr assms(1) same_stateD [OF s]
      by (auto simp: cleanup_run_def bind_def clock_now_def ret_def split: if_splits)
  qed
qed

lemma keeps_cleanup_no_project:
  assumes "lb_project l = None"
  shows "keeps (none_freed ps (\<lambda>_. True))
    (bind (enter_cleaning D l now) (\<lambda>l.
       bind (claim_project D l now) (\<lambda>project.
       bind (attempt (teardown D l)) (\<lambda>out.
       case out of Inl e \<Rightarrow> teardown_failed D l project e now | Inr _ \<Rightarrow> teardown_done D l project now))))"
proof (rule keeps_spec, rule spec_bind [OF spec_enter_cleaning], rule spec_fact)
  fix l' :: lab
  assume "lb_project l' = lb_project l \<and> lb_resources l' = lb_resources l"
  with assms have l': "lb_project l' = None" by simp
  have sec: "keeps (none_freed ps (\<lambda>_. True)) (secret_delete s)" for s
    using keeps_freed_secret_delete [of ps None "\<lambda>_. True" s] by (simp add: keeps_def freed_if_def none_freed_def)
  show "spec (none_freed ps (\<lambda>_. True)) (bind (claim_project D l' now) (\<lambda>project.
       bind (attempt (teardown D l')) (\<lambda>out.
       case out of Inl e \<Rightarrow> teardown_failed D l' project e now | Inr _ \<Rightarrow> teardown_done D l' project now)))
     (\<lambda>_. none_freed ps (\<lambda>_. True)) (\<lambda>_. none_freed ps (\<lambda>_. True))"
    by (rule spec_keeps) (auto simp: claim_project_def teardown_def l' teardown_failed_def teardown_done_def
        finish_lab_def intro!: keeps_intros none_freed_save_lab sec)
qed

context cloud_provider begin

text \<open>At any provider: a project that a delivery frees is the lab's own, and empty of what the lab recorded.\<close>

lemma cleanup_frees_emptied:
  assumes "ok (w_cloud w)" "cd_cloud D = C" "w_snap w = None" "\<And>u. scope_ok (uuid_string (cd_lib D) u)"
    "\<And>r. get_lab_row i (w_db w) = Some r \<Longrightarrow> lr_project r \<noteq> Some 0"
    "cleanup_run D i w = (res, w')" "x \<in> set (t_projects (w_db w'))" "pr_state x = PFree"
  shows "x \<in> set (t_projects (w_db w)) \<or>
    (\<exists>r l. get_lab_row i (w_db w) = Some r \<and> lab_from_row r = Inr l \<and> lb_project l = Some (pr_id x) \<and>
       resources_gone lost servers networks keys key_of (uuid_string (cd_lib D) (pr_id x)) (lb_resources l) (w_cloud w'))"
  using cleanup_run_cases [OF assms(6,3)]
proof
  assume "w_db w' = w_db w \<and> w_cloud w' = w_cloud w \<and> w_tasks w' = w_tasks w"
  with assms(7) show ?thesis by simp
next
  assume "\<exists>r l now w1. get_lab_row i (w_db w) = Some r \<and> lab_from_row r = Inr l \<and> same_state w w1 \<and>
       (lr_state r = Cleaning \<or> can_transition (lr_state r) Cleaning) \<and>
       bind (enter_cleaning D l now) (\<lambda>l.
         bind (claim_project D l now) (\<lambda>project.
         bind (attempt (teardown D l)) (\<lambda>out.
         case out of Inl e \<Rightarrow> teardown_failed D l project e now | Inr _ \<Rightarrow> teardown_done D l project now))) w1 = (res, w')"
  then obtain r l now w1 where r: "get_lab_row i (w_db w) = Some r" "lab_from_row r = Inr l" "same_state w w1"
    and run: "bind (enter_cleaning D l now) (\<lambda>l.
         bind (claim_project D l now) (\<lambda>project.
         bind (attempt (teardown D l)) (\<lambda>out.
         case out of Inl e \<Rightarrow> teardown_failed D l project e now | Inr _ \<Rightarrow> teardown_done D l project now))) w1 = (res, w')"
    by blast
  let ?ps = "t_projects (w_db w)"
  have start: "none_freed ?ps J w1" if "J (w_cloud w)" for J
    using same_stateD(1,3) [OF r(3)] that by (simp add: none_freed_def)
  show ?thesis
  proof (cases "lb_project l")
    case None
    from keepsD [OF keeps_cleanup_no_project [OF None] start run] assms(7,8) show ?thesis by (simp add: none_freed_def)
  next
    case (Some p)
    with assms(5) [OF r(1)] lab_from_row_fields [OF r(2)] have "p \<noteq> 0" by auto
    note spec = cleanup_spec [OF assms(2) Some this assms(4), where ps = ?ps and now = now, OF refl]
    have "freed_if ?ps (Some p) (\<lambda>c. ok c \<and> resources_gone lost servers networks keys key_of
        (uuid_string (cd_lib D) p) (lb_resources l) c) w'"
      using run specD_Inr [OF spec start [of ok, OF assms(1)]] specD_Inl [OF spec start [of ok, OF assms(1)]]
      by (cases res) auto
    with assms(7,8) r Some show ?thesis by (auto simp: freed_if_def)
  qed
qed

end

section \<open>Properties\<close>

text \<open>
  C9: a project goes back to the pool only empty. Whatever fails during a delivery of the cleanup
  task, a project that is free afterwards was free before, with the same row, or it is the project
  of the lab that is cleaned up, and then no server, network or key pair recorded for the lab is
  left at the provider. UUIDs are written without a slash, and a lab's project has one.
\<close>
theorem cleanup_frees_empty_projects:
  assumes "inmem_ok (w_cloud w)" "cd_cloud D = inmem_ops" "w_snap w = None"
    "\<And>u. CHR ''/'' \<notin> set (uuid_string (cd_lib D) u)"
    "\<And>r. get_lab_row i (w_db w) = Some r \<Longrightarrow> lr_project r \<noteq> Some 0"
    "cleanup_run D i w = (res, w')" "x \<in> set (t_projects (w_db w'))" "pr_state x = PFree"
  shows "x \<in> set (t_projects (w_db w)) \<or>
    (\<exists>r l. get_lab_row i (w_db w) = Some r \<and> lab_from_row r = Inr l \<and> lb_project l = Some (pr_id x) \<and>
       resources_gone (\<lambda>_ e. e = None) inmem_servers inmem_networks inmem_keys Pair (uuid_string (cd_lib D) (pr_id x)) (lb_resources l) (w_cloud w'))"
  using inmem.cleanup_frees_emptied [OF assms] .

text \<open>
  C23: the cleanup leaves alone what is not its own: a lab that is not ready, frozen, failed or
  cleaning (so one that waits, is being deployed or checked, or is over), and an unknown lab. Nothing changes in the database, at
  the provider or in the queue.
\<close>
theorem cleanup_scope:
  assumes "w_snap w = None" "cleanup_run D i w = (res, w')"
    "\<And>r. get_lab_row i (w_db w) = Some r \<Longrightarrow> lr_state r \<notin> {Ready, Frozen, Failed, Cleaning}"
  shows "w_db w' = w_db w \<and> w_cloud w' = w_cloud w \<and> w_tasks w' = w_tasks w"
  using cleanup_run_cases [OF assms(2,1)] assms(3) cleaning_from by blast

text \<open>A ready lab with one server is cleaned up, and its project is free afterwards.\<close>

definition sample_cleanup :: "inmem cleanup_deps" where
  "sample_cleanup = \<lparr>cd_lib = text_lib, cd_cloud = inmem_ops\<rparr>"

definition serving_campus :: db where
  "serving_campus = sample_campus\<lparr>t_labs := [(sample_lab_row 7 1 Ready (Some 3) 50)\<lparr>lr_resources :=
     JObj [(''server_ids'', JArr [JStr ''srv-000001''])]\<rparr>]\<rparr>"

definition serving_cloud :: inmem where
  "serving_cloud = snd (im_boot_server ''u3'' (sample_spec ''a'') (sample_cloud no_faults))"

lemma digits_no_slash: "0 \<le> n \<Longrightarrow> CHR ''/'' \<notin> set (digits n)"
proof (induction n rule: digits.induct)
  case (1 n)
  have "digit k \<noteq> CHR ''/''" if "0 \<le> k" "k < 10" for k
    using of_char_digit [OF that] that by auto
  from this [of n] this [of "n mod 10"] 1 show ?case
    by (cases "n < 10") (auto simp: digits.simps [of n] dest: sym)
qed

lemma cleanup_frees_empty_projects_witness:
  "\<exists>w'. snd (cleanup_run sample_cleanup 7 (world_of serving_cloud serving_campus)) = w' \<and>
     im_servers serving_cloud \<noteq> [] \<and> inmem_servers (w_cloud w') ''srv-000001'' = None"
proof -
  let ?w = "world_of serving_cloud serving_campus"
  let ?r = "(sample_lab_row 7 1 Ready (Some 3) 50)\<lparr>lr_resources := JObj [(''server_ids'', JArr [JStr ''srv-000001''])]\<rparr>"
  obtain res w' where run: "cleanup_run sample_cleanup 7 ?w = (res, w')" by fastforce
  let ?x = "(sample_row 3 PFree None 1000)"
  have "(\<exists>x \<in> set (t_projects (w_db (snd (cleanup_run sample_cleanup 7 ?w)))). pr_id x = 3 \<and> pr_state x = PFree)"
    by code_simp
  then obtain x where x: "x \<in> set (t_projects (w_db w'))" "pr_id x = 3" "pr_state x = PFree" using run by auto
  have "inmem_ok (sample_cloud no_faults)" by (simp add: inmem_ok_def numbered_def keys_ok_def sample_cloud_def new_provider_def)
  with boot_law [of "sample_cloud no_faults" "''u3''" "sample_spec ''a''" "fst (im_boot_server ''u3'' (sample_spec ''a'') (sample_cloud no_faults))" serving_cloud]
  have ok: "inmem_ok (w_cloud ?w)" by (simp add: serving_cloud_def)
  have slash: "CHR ''/'' \<notin> set (uuid_string (cd_lib sample_cleanup) u)" for u
    by (simp add: sample_cleanup_def text_lib_def digits_no_slash)
  have row: "get_lab_row 7 (w_db ?w) = Some ?r"
    by (simp add: get_lab_row_def serving_campus_def sample_lab_row_def)
  have old: "x \<notin> set (t_projects (w_db ?w))"
    using x(2,3) by (auto simp: serving_campus_def sample_campus_def sample_labs_def sample_pool_def sample_row_def)
  have c: "cd_cloud sample_cleanup = inmem_ops" by (simp add: sample_cleanup_def)
  have "lr_project r \<noteq> Some 0" if "get_lab_row 7 (w_db ?w) = Some r" for r
    using row that by (auto simp: sample_lab_row_def)
  with cleanup_frees_empty_projects [OF ok c _ slash _ run x(1,3)] old obtain l
    where "lab_from_row ?r = Inr l" "resources_gone (\<lambda>_ e. e = None) inmem_servers inmem_networks inmem_keys Pair
      (uuid_string (cd_lib sample_cleanup) (pr_id x)) (lb_resources l) (w_cloud w')" using row by auto
  moreover from this(1) have "ki_servers (lb_resources l) = [''srv-000001'']"
    by (auto simp: lab_from_row_def ki_resources_from_json_def json_field_def decode_list_def decode_string_def
        split: sum.splits)
  moreover have "im_servers serving_cloud \<noteq> []" by code_simp
  ultimately show ?thesis using run by (simp add: resources_gone_def)
qed

lemma cleanup_scope_witness:
  "w_db (snd (cleanup_run sample_cleanup 7 (world_of serving_cloud deploying_campus))) = deploying_campus"
proof -
  let ?w = "world_of serving_cloud deploying_campus"
  obtain res w' where run: "cleanup_run sample_cleanup 7 ?w = (res, w')" by fastforce
  have "get_lab_row 7 (w_db ?w) = Some (sample_lab_row 7 1 Deploying (Some 3) 50)"
    by (simp add: get_lab_row_def deploying_campus_def sample_lab_row_def)
  with cleanup_scope [OF _ run] run show ?thesis by (simp add: sample_lab_row_def)
qed

end
