(* ===== verification/Scenarios.thy ===== *)
theory Scenarios
  imports CleanupSafety
begin

text \<open>
  Runs of the two sagas that end where the code does not mean to: what a failed deploy leaves at
  the provider, whose project a cleanup frees, and a deploy whose deliveries run out.
\<close>

section \<open>A failed deploy\<close>

text \<open>
  The cleanup of a lab without recorded resources does not call the provider: the resources of a
  deploy that failed are recorded with its steps, not with the lab, and stay.
\<close>

lemma cloud_secret_delete: "keeps (cloud_inv J) (secret_delete i)"
  unfolding secret_delete_def by (intro keeps_intros cloud_stmts)

lemma cleanup_blind:
  assumes "w_snap w = None" "get_lab_row i (w_db w) = Some r" "lab_from_row r = Inr l"
    "lb_resources l = \<lparr>ki_servers = [], ki_network = [], ki_floating_ips = fs, ki_keypair = []\<rparr>"
    "cleanup_run D i w = (res, w')"
  shows "w_cloud w' = w_cloud w"
  using cleanup_run_cases [OF assms(5,1)]
proof
  assume "\<exists>r l now w1. get_lab_row i (w_db w) = Some r \<and> lab_from_row r = Inr l \<and> same_state w w1 \<and>
       (lr_state r = Cleaning \<or> can_transition (lr_state r) Cleaning) \<and>
       bind (enter_cleaning D l now) (\<lambda>l.
         bind (claim_project D l now) (\<lambda>project.
         bind (attempt (teardown D l)) (\<lambda>out.
         case out of Inl e \<Rightarrow> teardown_failed D l project e now | Inr _ \<Rightarrow> teardown_done D l project now))) w1 = (res, w')"
  then obtain now w1 where s: "same_state w w1"
    and run: "bind (enter_cleaning D l now) (\<lambda>l.
         bind (claim_project D l now) (\<lambda>project.
         bind (attempt (teardown D l)) (\<lambda>out.
         case out of Inl e \<Rightarrow> teardown_failed D l project e now | Inr _ \<Rightarrow> teardown_done D l project now))) w1 = (res, w')"
    using assms(2,3) by auto
  let ?J = "cloud_inv (\<lambda>c. c = w_cloud w)"
  have k: "keeps ?J (enter_cleaning D l now)"
    unfolding enter_cleaning_def by (intro keeps_intros cloud_save_lab)
  have enter: "spec ?J (enter_cleaning D l now) (\<lambda>l' w. ?J w \<and> lb_resources l' = lb_resources l) (\<lambda>_. ?J)"
  proof (rule specI)
    fix v l' v'
    assume J: "?J v" and e: "enter_cleaning D l now v = (Inr l', v')"
    have "lb_resources l' = lb_resources l"
      using e by (auto simp: enter_cleaning_def bind_def from_sum_def ret_def transition_def lb_record_def
          split: if_splits dest!: save_lab_InrD)
    with keepsD [where I = ?J, OF k J e] show "?J v' \<and> lb_resources l' = lb_resources l" by simp
  qed (rule keepsD [where I = ?J, OF k])
  have rest: "keeps ?J (bind (claim_project D l' now) (\<lambda>project. bind (attempt (teardown D l')) (\<lambda>out.
         case out of Inl e \<Rightarrow> teardown_failed D l' project e now | Inr _ \<Rightarrow> teardown_done D l' project now)))"
    if "lb_resources l' = lb_resources l" for l'
    by (auto simp: claim_project_def teardown_def delete_servers_def that assms(4) teardown_failed_def
        teardown_done_def finish_lab_def Let_def intro!: keeps_intros cloud_save_lab cloud_save_project
        cloud_secret_delete cloud_silent [OF silent_reads(3)])
  have "keeps ?J (bind (enter_cleaning D l now) (\<lambda>l.
         bind (claim_project D l now) (\<lambda>project.
         bind (attempt (teardown D l)) (\<lambda>out.
         case out of Inl e \<Rightarrow> teardown_failed D l project e now | Inr _ \<Rightarrow> teardown_done D l project now))))"
    by (rule keeps_spec, rule spec_bind [OF enter], rule spec_fact, rule spec_keeps, rule rest)
  from keepsD [where I = ?J, OF this, of w1 res w'] run same_stateD(3) [OF s] show ?thesis by (simp add: cloud_inv_def)
qed simp

text \<open>A deploy whose second server does not fit: the lab is failed, without resources, the server is there.\<close>

definition tight_cloud :: inmem where
  "tight_cloud = new_provider \<lparr>cl_vcpus = 1, cl_ram_mb = 4096, cl_disk_gb = 100\<rparr> no_faults int (\<lambda>_. None) sample_keygen"

lemma failed_deploy_leaves_server:
  "case snd (deploy_run (sample_deploy\<lparr>dd_max_attempts := 1\<rparr>) 7 (world_of tight_cloud deploying_campus)) of w \<Rightarrow>
     map (\<lambda>r. (lr_state r, lr_resources r)) (t_labs (w_db w)) = [(Failed, JObj [])] \<and>
     length (im_servers (w_cloud w)) = 1"
  by code_simp

section \<open>Whose project\<close>

text \<open>
  A cleanup whose last save fails has freed the project but leaves the lab cleaning. Its next
  delivery takes the project of the lab, whoever has it by then: the project of a running lab is
  freed under it.
\<close>

lemma cleanup_interrupted:
  "case snd (cleanup_run sample_cleanup 7 ((world_of (sample_cloud no_faults) sample_campus)\<lparr>w_env :=
      quiet_env\<lparr>e_db_fault := (\<lambda>k. if k = 17 then Some (Plain ''connection lost'') else None)\<rparr>\<rparr>)) of w \<Rightarrow>
     map lr_state (t_labs (w_db w)) = [Cleaning] \<and>
     map (\<lambda>p. (pr_id p, pr_state p)) (t_projects (w_db w)) = [(1, PFree), (2, PFree), (3, PFree)]"
  by code_simp

lemma cleanup_frees_other_labs_project:
  "case snd (cleanup_run sample_cleanup 7 (world_of (sample_cloud no_faults) (sample_campus\<lparr>t_labs :=
      [sample_lab_row 7 1 Cleaning (Some 3) 50, sample_lab_row 77 2 Ready (Some 3) 60]\<rparr>))) of w \<Rightarrow>
     map (\<lambda>r. (lr_id r, lr_state r, lr_project r)) (t_labs (w_db w)) = [(7, Done, Some 3), (77, Ready, Some 3)] \<and>
     map (\<lambda>p. (pr_id p, pr_state p, pr_lab p)) (t_projects (w_db w)) = [(1, PFree, None), (2, PFree, None), (3, PFree, None)]"
  by code_simp

section \<open>Deliveries that run out\<close>

text \<open>
  The deploy task is delivered once and retried five times. Two failures of each of three steps
  stay below the limit of three attempts per step, and after them the lab is still deploying,
  with nothing left that would fail or clean it up.
\<close>

definition faulty :: "faults \<Rightarrow> inmem world \<Rightarrow> inmem world" where
  "faulty f w = w\<lparr>w_cloud := (w_cloud w)\<lparr>im_faults := f\<rparr>\<rparr>"

lemma deploy_runs_out:
  "tk_max_retries (deploy_task L i) = 5"
  "case deliveries 2 sample_deploy 7 (faulty (no_faults\<lparr>ft_boot_server := Some (Plain ''down'')\<rparr>)
     (deliveries 2 sample_deploy 7 (faulty (no_faults\<lparr>ft_create_network := Some (Plain ''down'')\<rparr>)
     (deliveries 2 sample_deploy 7 (world_of (sample_cloud (no_faults\<lparr>ft_create_keypair := Some (Plain ''down'')\<rparr>))
       deploying_campus))))) of w \<Rightarrow>
     map lr_state (t_labs (w_db w)) = [Deploying] \<and> w_tasks w = []"
  subgoal by (simp add: deploy_task_def)
  subgoal by code_simp
  done

end
