(* ===== verification/AdminApp.thy ===== *)
theory AdminApp
  imports CleanupSafety
begin

text \<open>
  \<open>internal/app/admin\<close>: the pool, the quota, the settings and the audit log for administrators
  and teachers. \<open>internal/app/quotarefresh\<close>: the task that refreshes the cached quota. The logger
  is left out; a nil clock stands for the system's, which \<open>clock_now\<close> is as well.
\<close>

record admin_actor =
  aa_user :: user_id
  aa_role :: role

record put_setting_input =
  pi_actor :: admin_actor
  pi_key :: string
  pi_value :: json
  pi_scope :: string
  pi_scope_id :: "string option"

section \<open>Guards\<close>

definition require_admin :: "admin_actor \<Rightarrow> ('c, unit) prog" where
  "require_admin a = (if aa_role a \<noteq> RoleAdmin then throw (Sentinel ErrForbidden) else ret ())"

definition require_teacher_or_admin :: "admin_actor \<Rightarrow> ('c, unit) prog" where
  "require_teacher_or_admin a =
     (if aa_role a \<noteq> RoleAdmin \<and> aa_role a \<noteq> RoleTeacher then throw (Sentinel ErrForbidden) else ret ())"

section \<open>Pool\<close>

definition list_projects :: "admin_actor \<Rightarrow> string \<Rightarrow> pstate option \<Rightarrow> ('c, project list) prog" where
  "list_projects a domain state = bind (require_admin a) (\<lambda>_. pool_list_by_domain domain state)"

definition quarantine_project :: "lib \<Rightarrow> admin_actor \<Rightarrow> project_id \<Rightarrow> string \<Rightarrow> ('c, unit) prog" where
  "quarantine_project L a i reason =
     bind (require_admin a) (\<lambda>_.
     bind clock_now (\<lambda>now.
     with_tx (
       bind (pool_get_by_id i) (\<lambda>p.
       bind (from_sum (quarantine_now reason now p)) (\<lambda>p.
       bind (pool_save L p) (\<lambda>_. ret ()))))))"

text \<open>The switch of \<open>ReleaseProject\<close>: \<open>None\<close> returns without a save.\<close>

definition release_decision :: "time \<Rightarrow> project \<Rightarrow> err + project option" where
  "release_decision now p = (case pj_state p of
     PFree \<Rightarrow> Inr None
   | PQuarantine \<Rightarrow> (case manual_resolve now p of Inl e \<Rightarrow> Inl e | Inr p \<Rightarrow> map_sum id Some (mark_clean now p))
   | PCleaning \<Rightarrow> map_sum id Some (mark_clean now p)
   | _ \<Rightarrow> Inl (InvalidTransition ''project'' (pstate_text (pj_state p)) (pstate_text PFree)))"

definition release_project :: "lib \<Rightarrow> admin_actor \<Rightarrow> project_id \<Rightarrow> ('c, unit) prog" where
  "release_project L a i =
     bind (require_admin a) (\<lambda>_.
     bind clock_now (\<lambda>now.
     with_tx (
       bind (pool_get_by_id i) (\<lambda>p.
       bind (from_sum (release_decision now p)) (\<lambda>p.
       case p of None \<Rightarrow> ret () | Some p \<Rightarrow> bind (pool_save L p) (\<lambda>_. ret ()))))))"

section \<open>Quota, settings and audit\<close>

definition get_quota :: "admin_actor \<Rightarrow> ('c, quota_snapshot) prog" where
  "get_quota a = bind (require_admin a) (\<lambda>_. bind quota_cache_read (\<lambda>(snap, _). ret snap))"

definition list_settings :: "admin_actor \<Rightarrow> string \<Rightarrow> string option \<Rightarrow> ('c, setting list) prog" where
  "list_settings a scope scope_id = bind (require_teacher_or_admin a) (\<lambda>_. settings_list scope scope_id)"

definition normalized_scope_id :: "string \<Rightarrow> string option \<Rightarrow> string option" where
  "normalized_scope_id scope scope_id =
     (if scope = ''global'' then None else if scope_id = None \<or> scope_id = Some [] then None else scope_id)"

definition put_setting :: "put_setting_input \<Rightarrow> ('c, setting) prog" where
  "put_setting inp =
     bind (require_teacher_or_admin (pi_actor inp)) (\<lambda>_.
     bind clock_now (\<lambda>now.
     let s = \<lparr>st_key = pi_key inp, st_value = pi_value inp, st_scope = pi_scope inp,
       st_scope_id = normalized_scope_id (pi_scope inp) (pi_scope_id inp),
       st_updated_by = aa_user (pi_actor inp), st_updated_at = now\<rparr> in
     bind (with_tx (settings_put s)) (\<lambda>_. ret s)))"

definition query_audit :: "admin_actor \<Rightarrow> audit_filter \<Rightarrow> ('c, audit_event list) prog" where
  "query_audit a f = bind (require_teacher_or_admin a) (\<lambda>_. audit_query f)"

section \<open>Refreshing the quota\<close>

definition refresh_quota_handle_task :: "'c cloud_ops \<Rightarrow> task \<Rightarrow> ('c, unit) prog" where
  "refresh_quota_handle_task C t =
     bind (on_err (Wrapped ''quotarefresh: get quota snapshot'') (on_cloud (c_quota C))) (\<lambda>snap.
     on_err (Wrapped ''quotarefresh: write quota cache'') (quota_cache_write snap))"

section \<open>Properties\<close>

text \<open>
  who may administer. Whoever is not an administrator is refused the pool and the quota, and
  whoever is neither a teacher nor an administrator the settings and the audit log, before
  anything is read or written.
\<close>
theorem admin_guards:
  assumes "aa_role a \<noteq> RoleAdmin"
  shows "list_projects a dm st w = (Inl (Sentinel ErrForbidden), w) \<and>
    quarantine_project L a i reason w = (Inl (Sentinel ErrForbidden), w) \<and>
    release_project L a i w = (Inl (Sentinel ErrForbidden), w) \<and>
    get_quota a w = (Inl (Sentinel ErrForbidden), w) \<and>
    (aa_role a \<noteq> RoleTeacher \<longrightarrow> list_settings a scope scope_id w = (Inl (Sentinel ErrForbidden), w) \<and>
       query_audit a f w = (Inl (Sentinel ErrForbidden), w) \<and>
       (\<forall>inp. pi_actor inp = a \<longrightarrow> put_setting inp w = (Inl (Sentinel ErrForbidden), w)))"
  using assms
  by (simp add: list_projects_def quarantine_project_def release_project_def get_quota_def list_settings_def
      query_audit_def put_setting_def require_admin_def require_teacher_or_admin_def io_simps)

lemma admin_guards_witness:
  "release_project text_lib \<lparr>aa_user = 1, aa_role = RoleTeacher\<rparr> 3 (world_of () sample_pool) =
     (Inl (Sentinel ErrForbidden), world_of () sample_pool)"
  using admin_guards [of "\<lparr>aa_user = 1, aa_role = RoleTeacher\<rparr>" "''d''" None "world_of () sample_pool" text_lib 3] by simp

text \<open>One transaction that loads a project, changes it and saves it.\<close>

lemma project_edit_InrD:
  assumes "with_tx (bind (pool_get_by_id i) (\<lambda>p. bind (from_sum (f p)) (\<lambda>p. bind (pool_save L p) (\<lambda>_. ret ())))) w = (Inr (), w')"
    "i \<noteq> 0" "\<And>p q. f p = Inr q \<Longrightarrow> pj_id q = pj_id p"
  shows "\<exists>r q. get_project_row i (w_db w) = Some r \<and> f (project_from_row r) = Inr q \<and>
    t_projects (w_db w') = put_row pr_id (project_merge q r) (t_projects (w_db w)) \<and>
    t_labs (w_db w') = t_labs (w_db w) \<and> w_snap w' = None \<and>
    published (w_db w') = published (w_db w) @ map (project_message L) (pj_events q)"
proof -
  let ?w0 = "w\<lparr>w_stmt := Suc (w_stmt w), w_snap := Some (w_db w), w_aborted := False\<rparr>"
  from with_tx_InrD [OF assms(1)] obtain w2
    where run: "bind (pool_get_by_id i) (\<lambda>p. bind (from_sum (f p)) (\<lambda>p. bind (pool_save L p) (\<lambda>_. ret ()))) ?w0 = (Inr (), w2)"
      and w': "w_db w' = w_db w2" "w_snap w' = None" by auto
  from bind_InrD [OF run] obtain p w1 where g: "pool_get_by_id i ?w0 = (Inr p, w1)"
    and run1: "bind (from_sum (f p)) (\<lambda>p. bind (pool_save L p) (\<lambda>_. ret ())) w1 = (Inr (), w2)" by auto
  from pool_get_InrD [OF g assms(2)] obtain r where r: "get_project_row i (w_db w) = Some r"
    "p = project_from_row r" "w_db w1 = w_db w" by (auto simp: committed_def)
  from run1 obtain q x where q: "f p = Inr q" and s: "pool_save L q w1 = (Inr x, w2)"
    by (auto simp: bind_def from_sum_def ret_def split: sum.splits prod.splits)
  have id: "pj_id q = i" using assms(3) [OF q] r get_project_row_id [OF r(1)] by simp
  from pool_save_InrD [OF s] id assms(2) obtain r2 wm where
    s2: "get_project_row i (w_db w1) = Some r2"
    "wm = w1\<lparr>w_stmt := Suc (w_stmt w1), w_db := (w_db w1)\<lparr>t_projects := put_row pr_id (project_merge q r2) (t_projects (w_db w1))\<rparr>\<rparr>"
    "logs_only wm w2" "published (w_db w2) = published (w_db w1) @ map (project_message L) (pj_events q)" by auto
  with r w' q logs_onlyD(1,2) [OF s2(3)] show ?thesis by auto
qed

lemma admin_quarantine_outcome:
  assumes "i \<noteq> 0" "quarantine_project L a i reason w = (Inr (), w')"
  shows "\<exists>r t. get_project_row i (w_db w) = Some r \<and> pr_state r \<notin> {PDecommissioned, PQuarantine} \<and>
    t_projects (w_db w') = put_row pr_id (r\<lparr>pr_state := PQuarantine, pr_lab := None, pr_changed_at := t\<rparr>) (t_projects (w_db w)) \<and>
    t_labs (w_db w') = t_labs (w_db w) \<and>
    published (w_db w') = published (w_db w) @ [project_message L (EventQuarantined i reason (pr_failures r))]"
proof -
  from assms(2) obtain now w1 where tx: "with_tx (bind (pool_get_by_id i) (\<lambda>p. bind (from_sum (quarantine_now reason now p))
      (\<lambda>p. bind (pool_save L p) (\<lambda>_. ret ())))) w1 = (Inr (), w')" and w1: "w_db w1 = w_db w"
    by (auto simp: quarantine_project_def require_admin_def bind_def throw_def ret_def clock_now_def split: if_splits)
  have id: "pj_id q = pj_id p" if "quarantine_now reason now p = Inr q" for p q
    using that by (auto simp: quarantine_now_def pj_record_def split: if_splits)
  from project_edit_InrD [OF tx assms(1) id] w1 obtain r q where r: "get_project_row i (w_db w) = Some r"
    and q: "quarantine_now reason now (project_from_row r) = Inr q"
    and *: "t_projects (w_db w') = put_row pr_id (project_merge q r) (t_projects (w_db w))"
    "t_labs (w_db w') = t_labs (w_db w)"
    "published (w_db w') = published (w_db w) @ map (project_message L) (pj_events q)"
    by auto
  from q get_project_row_id [OF r] have "pr_state r \<notin> {PDecommissioned, PQuarantine}"
    "project_merge q r = r\<lparr>pr_state := PQuarantine, pr_lab := None, pr_changed_at := now\<rparr>"
    "pj_events q = [EventQuarantined i reason (pr_failures r)]"
    by (auto simp: quarantine_now_def pj_record_def project_merge_def nullable_allocated_def split: if_splits)
  with r * show ?thesis by (intro exI [of _ r] exI [of _ now]) simp
qed

lemma release_decision_Inr:
  assumes "release_decision now (project_from_row r) = Inr (Some q)"
  shows "pr_state r \<in> {PQuarantine, PCleaning} \<and> pj_id q = pr_id r \<and> pj_events q = [EventFreed (pr_id r)] \<and>
    project_merge q r = r\<lparr>pr_state := PFree, pr_lab := None, pr_failures := 0, pr_changed_at := now\<rparr>"
  using assms by (auto simp: release_decision_def manual_resolve_def mark_clean_def pj_record_def project_merge_def
      nullable_allocated_def split: pstate.splits if_splits)

lemma admin_release_outcome:
  assumes "i \<noteq> 0" "release_project L a i w = (Inr (), w')"
  shows "\<exists>r t. get_project_row i (w_db w) = Some r \<and> t_labs (w_db w') = t_labs (w_db w) \<and>
    (pr_state r = PFree \<and> t_projects (w_db w') = t_projects (w_db w) \<or>
     pr_state r \<in> {PQuarantine, PCleaning} \<and>
     t_projects (w_db w') = put_row pr_id
       (r\<lparr>pr_state := PFree, pr_lab := None, pr_failures := 0, pr_changed_at := t\<rparr>) (t_projects (w_db w)) \<and>
     published (w_db w') = published (w_db w) @ [project_message L (EventFreed i)])"
proof -
  from assms(2) obtain now w1 where tx: "with_tx (bind (pool_get_by_id i) (\<lambda>p. bind (from_sum (release_decision now p))
      (\<lambda>p. case p of None \<Rightarrow> ret () | Some p \<Rightarrow> bind (pool_save L p) (\<lambda>_. ret ())))) w1 = (Inr (), w')" and w1: "w_db w1 = w_db w"
    by (auto simp: release_project_def require_admin_def bind_def throw_def ret_def clock_now_def split: if_splits)
  let ?w0 = "w1\<lparr>w_stmt := Suc (w_stmt w1), w_snap := Some (w_db w1), w_aborted := False\<rparr>"
  from with_tx_InrD [OF tx] obtain w2 where w2: "w_db w' = w_db w2"
    and run: "bind (pool_get_by_id i) (\<lambda>p. bind (from_sum (release_decision now p))
      (\<lambda>p. case p of None \<Rightarrow> ret () | Some p \<Rightarrow> bind (pool_save L p) (\<lambda>_. ret ()))) ?w0 = (Inr (), w2)" by auto
  from bind_InrD [OF run] obtain p v where g: "pool_get_by_id i ?w0 = (Inr p, v)"
    and run1: "bind (from_sum (release_decision now p))
      (\<lambda>p. case p of None \<Rightarrow> ret () | Some p \<Rightarrow> bind (pool_save L p) (\<lambda>_. ret ())) v = (Inr (), w2)" by auto
  from pool_get_InrD [OF g assms(1)] w1 obtain r where r: "get_project_row i (w_db w) = Some r"
    "p = project_from_row r" "w_db v = w_db w" by (auto simp: committed_def)
  from run1 obtain d where d: "release_decision now p = Inr d"
    and run2: "(case d of None \<Rightarrow> ret () | Some p \<Rightarrow> bind (pool_save L p) (\<lambda>_. ret ())) v = (Inr (), w2)"
    by (auto simp: bind_def from_sum_def split: sum.splits)
  show ?thesis
  proof (cases d)
    case None
    with d r(2) have "pr_state r = PFree"
      by (auto simp: release_decision_def mark_clean_def manual_resolve_def split: pstate.splits if_splits sum.splits)
    with None run2 r w2 show ?thesis by (auto simp: ret_def)
  next
    case (Some q)
    from release_decision_Inr [OF d [unfolded r(2) Some]] have q: "pr_state r \<in> {PQuarantine, PCleaning}" "pj_id q = i"
      "pj_events q = [EventFreed i]"
      "project_merge q r = r\<lparr>pr_state := PFree, pr_lab := None, pr_failures := 0, pr_changed_at := now\<rparr>"
      using get_project_row_id [OF r(1)] by auto
    from run2 Some obtain x where s: "pool_save L q v = (Inr x, w2)"
      by (auto simp: bind_def ret_def split: sum.splits prod.splits)
    from pool_save_InrD [OF s] q(2) assms(1) r obtain wm where
      wm: "wm = v\<lparr>w_stmt := Suc (w_stmt v), w_db := (w_db v)\<lparr>t_projects := put_row pr_id (project_merge q r) (t_projects (w_db v))\<rparr>\<rparr>"
      "logs_only wm w2" "published (w_db w2) = published (w_db v) @ map (project_message L) (pj_events q)" by auto
    from wm(1) logs_onlyD(1,2) [OF wm(2)] wm(3) q r w2 show ?thesis
      by (intro exI [of _ r] exI [of _ now]) simp
  qed
qed

text \<open>
  C38: what an administrator does to a project. Quarantining succeeds only on a project that is
  neither quarantined nor decommissioned, and the row then is quarantined without a lab; a release
  succeeds only on a free project, which stays as it is, or on a quarantined or cleaning
  one, whose row is then free, without a lab and without failures. No other project row and no
  lab row changes, and one event tells of a change.
\<close>
theorem admin_project_outcome:
  assumes "i \<noteq> 0"
  shows "(quarantine_project L a i reason w = (Inr (), w') \<longrightarrow>
      (\<exists>r t. get_project_row i (w_db w) = Some r \<and> pr_state r \<notin> {PDecommissioned, PQuarantine} \<and>
         t_projects (w_db w') = put_row pr_id (r\<lparr>pr_state := PQuarantine, pr_lab := None, pr_changed_at := t\<rparr>) (t_projects (w_db w)) \<and>
         t_labs (w_db w') = t_labs (w_db w) \<and>
         published (w_db w') = published (w_db w) @ [project_message L (EventQuarantined i reason (pr_failures r))])) \<and>
    (release_project L a i w = (Inr (), w') \<longrightarrow>
      (\<exists>r t. get_project_row i (w_db w) = Some r \<and> t_labs (w_db w') = t_labs (w_db w) \<and>
         (pr_state r = PFree \<and> t_projects (w_db w') = t_projects (w_db w) \<or>
          pr_state r \<in> {PQuarantine, PCleaning} \<and>
          t_projects (w_db w') = put_row pr_id
            (r\<lparr>pr_state := PFree, pr_lab := None, pr_failures := 0, pr_changed_at := t\<rparr>) (t_projects (w_db w)) \<and>
          published (w_db w') = published (w_db w) @ [project_message L (EventFreed i)])))"
  using admin_quarantine_outcome [OF assms] admin_release_outcome [OF assms] by blast

text \<open>The allocated project of the sample pool is quarantined.\<close>

lemma admin_project_outcome_witness:
  "\<exists>r t. get_project_row 3 sample_pool = Some r \<and> pr_state r = PAllocated \<and>
     t_projects (w_db (snd (quarantine_project text_lib \<lparr>aa_user = 1, aa_role = RoleAdmin\<rparr> 3 ''broken'' (world_of () sample_pool)))) =
       put_row pr_id (r\<lparr>pr_state := PQuarantine, pr_lab := None, pr_changed_at := t\<rparr>) (t_projects sample_pool)"
proof -
  let ?q = "quarantine_project text_lib \<lparr>aa_user = 1, aa_role = RoleAdmin\<rparr> 3 ''broken'' (world_of () sample_pool)"
  have "case ?q of (Inl _, _) \<Rightarrow> False | (Inr _, _) \<Rightarrow> True" by code_simp
  then obtain w' where run: "?q = (Inr (), w')" by (auto split: prod.splits sum.splits)
  have "get_project_row 3 sample_pool = Some (sample_row 3 PAllocated (Some 77) 5)"
    by (simp add: get_project_row_def sample_pool_def sample_row_def)
  with admin_project_outcome [of 3 text_lib "\<lparr>aa_user = 1, aa_role = RoleAdmin\<rparr>" "''broken''" "world_of () sample_pool" w'] run
  show ?thesis by (auto simp: sample_row_def)
qed

text \<open>
  Quarantining and releasing an allocated project makes it free while the lab that runs in it is
  left as it is.
\<close>

lemma admin_frees_used_project:
  assumes "i \<noteq> 0" "quarantine_project L a i reason w = (Inr (), w1)" "release_project L a i w1 = (Inr (), w2)"
  shows "\<exists>r. get_project_row i (w_db w2) = Some r \<and> pr_state r = PFree \<and> t_labs (w_db w2) = t_labs (w_db w)"
proof -
  from admin_quarantine_outcome [OF assms(1,2)] admin_release_outcome [OF assms(1,3)]
  obtain r t where r: "get_project_row i (w_db w1) = Some r" "t_labs (w_db w2) = t_labs (w_db w)"
    "pr_state r = PFree \<and> t_projects (w_db w2) = t_projects (w_db w1) \<or>
     t_projects (w_db w2) = put_row pr_id
       (r\<lparr>pr_state := PFree, pr_lab := None, pr_failures := 0, pr_changed_at := t\<rparr>) (t_projects (w_db w1))" by auto
  let ?f = "r\<lparr>pr_state := PFree, pr_lab := None, pr_failures := 0, pr_changed_at := t\<rparr>"
  have "find_row pr_id (pr_id ?f) (put_row pr_id ?f (t_projects (w_db w1))) = Some ?f"
    by (rule find_row_put_same) (use r(1) get_project_row_id [OF r(1)] in \<open>simp add: get_project_row_def\<close>)
  with r get_project_row_id [OF r(1)] show ?thesis by (auto simp: get_project_row_def)
qed

end
