(* ===== verification/OutboxApp.thy ===== *)
theory OutboxApp
  imports MiscStore
begin

text \<open>
  \<open>internal/app/outbox/publisher.go\<close>: the loop that forwards the rows of the outbox to the event
  bus. The publisher calls no cloud provider, so the external state of its world is the bus's. Rows are
  the repository's; the logger, and the waiting between two ticks, are left out.
\<close>

text \<open>\<open>pb_publish\<close> is the bus, \<open>pb_done\<close> says whether the context is done before the nth row of a tick.\<close>

record 'b publisher =
  pb_publish :: "string \<Rightarrow> json \<Rightarrow> 'b \<Rightarrow> (err + unit) \<times> 'b"
  pb_batch :: int
  pb_max_attempts :: int
  pb_done :: "nat \<Rightarrow> bool"

definition new_publisher :: "(string \<Rightarrow> json \<Rightarrow> 'b \<Rightarrow> (err + unit) \<times> 'b) \<Rightarrow> (nat \<Rightarrow> bool) \<Rightarrow> 'b publisher" where
  "new_publisher bus stop = \<lparr>pb_publish = bus, pb_batch = 100, pb_max_attempts = 10, pb_done = stop\<rparr>"

section \<open>A tick\<close>

text \<open>The loop over the batch; it returns the identifiers of the rows the bus has taken.\<close>

fun publish_rows :: "'b publisher \<Rightarrow> nat \<Rightarrow> outbox_row list \<Rightarrow> int list \<Rightarrow> ('b, int list) prog" where
  "publish_rows P n [] ids = ret ids"
| "publish_rows P n (r # rows) ids =
     (if pb_done P n then ret ids
      else bind (attempt (on_cloud (pb_publish P (ob_topic r) (ob_payload r)))) (\<lambda>out.
        case out of
          Inl _ \<Rightarrow> bind (attempt (outbox_bump_attempts (ob_id r))) (\<lambda>_. publish_rows P (Suc n) rows ids)
        | Inr _ \<Rightarrow> publish_rows P (Suc n) rows (ids @ [ob_id r])))"

definition publisher_tick :: "'b publisher \<Rightarrow> ('b, unit) prog" where
  "publisher_tick P =
     bind (outbox_fetch (pb_batch P) (pb_max_attempts P)) (\<lambda>rows.
     if rows = [] then ret ()
     else bind (publish_rows P 0 rows []) (\<lambda>published.
       if published = [] then ret () else outbox_mark_published published))"

text \<open>The defaults of \<open>Run\<close>, and its first \<open>n\<close> ticks, whose errors are logged.\<close>

definition with_defaults :: "'b publisher \<Rightarrow> 'b publisher" where
  "with_defaults P = P\<lparr>pb_batch := (if pb_batch P \<le> 0 then 100 else pb_batch P),
     pb_max_attempts := (if pb_max_attempts P \<le> 0 then 10 else pb_max_attempts P)\<rparr>"

fun publisher_ticks :: "nat \<Rightarrow> 'b publisher \<Rightarrow> ('b, unit) prog" where
  "publisher_ticks 0 P = ret ()"
| "publisher_ticks (Suc n) P = bind (attempt (publisher_tick P)) (\<lambda>_. publisher_ticks n P)"

definition publisher_run :: "nat \<Rightarrow> 'b publisher \<Rightarrow> ('b, unit) prog" where
  "publisher_run n P = publisher_ticks n (with_defaults P)"

section \<open>A bus that keeps what it has taken\<close>

text \<open>
  Whether the bus takes a message is the environment's choice; \<open>takes k\<close> answers the kth call.
\<close>

record log_bus =
  lb_calls :: nat
  lb_taken :: "(string \<times> json) list"

definition log_publish :: "(nat \<Rightarrow> bool) \<Rightarrow> string \<Rightarrow> json \<Rightarrow> log_bus \<Rightarrow> (err + unit) \<times> log_bus" where
  "log_publish takes topic payload b =
     (if takes (lb_calls b)
      then (Inr (), b\<lparr>lb_calls := Suc (lb_calls b), lb_taken := lb_taken b @ [(topic, payload)]\<rparr>)
      else (Inl (Plain ''bus unavailable''), b\<lparr>lb_calls := Suc (lb_calls b)\<rparr>))"

section \<open>What a tick does to the rows\<close>

definition message_of :: "outbox_row \<Rightarrow> string \<times> json" where
  "message_of r = (ob_topic r, ob_payload r)"

definition bump_rows :: "int set \<Rightarrow> outbox_row list \<Rightarrow> outbox_row list" where
  "bump_rows F rows = map (\<lambda>r. if ob_id r \<in> F then r\<lparr>ob_attempts := ob_attempts r + 1\<rparr> else r) rows"

lemma bump_rows_empty [simp]: "bump_rows {} rows = rows"
  by (simp add: bump_rows_def)

lemma bump_rows_bump: "F \<inter> G = {} \<Longrightarrow> bump_rows F (bump_rows G rows) = bump_rows (F \<union> G) rows"
  by (auto simp: bump_rows_def)

lemma bump_rows_ids [simp]: "map ob_id (bump_rows F rows) = map ob_id rows"
  by (induction rows) (auto simp: bump_rows_def)

lemma outbox_bump_state:
  assumes "outbox_bump_attempts i w = (res, w')"
  shows "w_cloud w' = w_cloud w \<and> w_snap w' = w_snap w \<and> (t_outbox (w_db w') = t_outbox (w_db w) \<or> t_outbox (w_db w') = bump_rows {i} (t_outbox (w_db w)))"
  using assms
  by (auto simp: outbox_bump_attempts_def throw_def on_err_def conn_stmt_def bump_outbox_attempts_def bump_rows_def Let_def
      split: if_splits option.splits)

lemma on_bus:
  "attempt (on_cloud (log_publish takes topic payload)) w = (res, w') \<Longrightarrow>
     w_db w' = w_db w \<and> w_snap w' = w_snap w \<and>
     ((\<exists>e. res = Inr (Inl e)) \<and> lb_taken (w_cloud w') = lb_taken (w_cloud w) \<and> \<not> takes (lb_calls (w_cloud w)) \<or>
      res = Inr (Inr ()) \<and> lb_taken (w_cloud w') = lb_taken (w_cloud w) @ [(topic, payload)])"
  by (auto simp: attempt_def on_cloud_def log_publish_def split: if_splits)

text \<open>
  A run of the loop: it bumps some rows of the batch and returns others, each of which the bus has
  taken.
\<close>

definition batch_outcome :: "outbox_row list \<Rightarrow> int set \<Rightarrow> int list \<Rightarrow> log_bus world \<Rightarrow> log_bus world \<Rightarrow> bool" where
  "batch_outcome rows F ids w w' \<longleftrightarrow> w_snap w' = w_snap w \<and> F \<subseteq> ob_id ` set rows \<and> set ids \<subseteq> ob_id ` set rows \<and>
     t_outbox (w_db w') = bump_rows F (t_outbox (w_db w)) \<and>
     (\<exists>ext. lb_taken (w_cloud w') = lb_taken (w_cloud w) @ ext \<and>
        (\<forall>r \<in> set rows. ob_id r \<in> set ids \<longrightarrow> message_of r \<in> set ext))"

lemma publish_rows_outcome:
  assumes "pb_publish P = log_publish takes"
  shows "publish_rows P n rows ids w = (res, w') \<Longrightarrow> distinct (map ob_id rows) \<Longrightarrow>
    \<exists>F ids'. res = Inr (ids @ ids') \<and> batch_outcome rows F ids' w w'"
proof (induction rows arbitrary: n ids w)
  case Nil
  then have "res = Inr (ids @ []) \<and> batch_outcome [] {} [] w w'" by (simp add: ret_def batch_outcome_def)
  then show ?case by blast
next
  case (Cons r rows)
  show ?case
  proof (cases "pb_done P n")
    case True
    with Cons.prems have "res = Inr (ids @ []) \<and> batch_outcome (r # rows) {} [] w w'"
      by (simp add: ret_def batch_outcome_def)
    then show ?thesis by blast
  next
    case False
    obtain o1 w1 where p: "attempt (on_cloud (log_publish takes (ob_topic r) (ob_payload r))) w = (o1, w1)" by fastforce
    note bus = on_bus [OF p]
    have fresh: "ob_id r \<notin> ob_id ` set rows" "distinct (map ob_id rows)" using Cons.prems(2) by auto
    show ?thesis
    proof (cases "\<exists>e. o1 = Inr (Inl e)")
      case True
      then obtain e where o1: "o1 = Inr (Inl e)" by blast
      obtain b w2 where b: "outbox_bump_attempts (ob_id r) w1 = (b, w2)" by fastforce
      from Cons.prems(1) False p o1 b have run: "publish_rows P (Suc n) rows ids w2 = (res, w')"
        by (simp add: assms bind_def attempt_def)
      from Cons.IH [OF run fresh(2)] obtain F ids' where out: "res = Inr (ids @ ids')" "batch_outcome rows F ids' w2 w'" by blast
      from outbox_bump_state [OF b] bus o1 obtain G where
        G: "w_snap w2 = w_snap w" "G \<subseteq> {ob_id r}" "t_outbox (w_db w2) = bump_rows G (t_outbox (w_db w))" "lb_taken (w_cloud w2) = lb_taken (w_cloud w)"
        by (metis bump_rows_empty empty_subsetI order_refl sum.distinct(1) sum.inject(2))
      have "F \<inter> G = {}" using out(2) G(2) fresh(1) by (auto simp: batch_outcome_def)
      with out(2) G fresh(1) have "batch_outcome (r # rows) (F \<union> G) ids' w w'"
        by (auto simp: batch_outcome_def bump_rows_bump)
      with out(1) show ?thesis by blast
    next
      case False2: False
      with bus have o1: "o1 = Inr (Inr ())" and t: "lb_taken (w_cloud w1) = lb_taken (w_cloud w) @ [message_of r]"
        by (auto simp: message_of_def)
      from Cons.prems(1) False p o1 have run: "publish_rows P (Suc n) rows (ids @ [ob_id r]) w1 = (res, w')"
        by (simp add: assms bind_def)
      from Cons.IH [OF run fresh(2)] obtain F ids' where out: "res = Inr ((ids @ [ob_id r]) @ ids')" "batch_outcome rows F ids' w1 w'" by blast
      have other: "ob_id x \<noteq> ob_id r" if "x \<in> set rows" for x using fresh(1) that by (metis imageI)
      from out bus t other have "batch_outcome (r # rows) F (ob_id r # ids') w w'"
        by (auto simp: batch_outcome_def)
      with out(1) show ?thesis by (intro exI [of _ F] exI [of _ "ob_id r # ids'"]) simp
    qed
  qed
qed

text \<open>
  One row before and after: what identifies it stays, the attempts grow up to the limit, a row at the limit
  is left alone, and it is marked published only if it was or if the bus has taken its message.
\<close>

definition row_step :: "int \<Rightarrow> (string \<times> json) list \<Rightarrow> outbox_row \<Rightarrow> outbox_row \<Rightarrow> bool" where
  "row_step m ext r r' \<longleftrightarrow> ob_id r' = ob_id r \<and> message_of r' = message_of r \<and> ob_occurred_at r' = ob_occurred_at r \<and>
     ob_attempts r \<le> ob_attempts r' \<and> ob_attempts r' \<le> max m (ob_attempts r) \<and>
     (m \<le> ob_attempts r \<longrightarrow> r' = r) \<and> (ob_published_at r \<noteq> None \<longrightarrow> r' = r) \<and>
     (ob_published_at r' \<noteq> None \<longrightarrow> ob_published_at r \<noteq> None \<or> message_of r \<in> set ext)"

definition forwarded :: "int \<Rightarrow> log_bus world \<Rightarrow> log_bus world \<Rightarrow> bool" where
  "forwarded m w w' \<longleftrightarrow> (\<exists>ext. lb_taken (w_cloud w') = lb_taken (w_cloud w) @ ext \<and>
     list_all2 (row_step m ext) (t_outbox (w_db w)) (t_outbox (w_db w')))"

lemma row_step_refl: "row_step m ext r r"
  by (simp add: row_step_def)

lemma row_step_trans: "row_step m e1 r s \<Longrightarrow> row_step m e2 s t \<Longrightarrow> row_step m (e1 @ e2) r t"
  unfolding row_step_def by (auto split: if_splits)

lemma forwarded_same:
  "lb_taken (w_cloud w') = lb_taken (w_cloud w) \<Longrightarrow> t_outbox (w_db w') = t_outbox (w_db w) \<Longrightarrow> forwarded m w w'"
  unfolding forwarded_def by (auto intro: exI [of _ "[]"] list.rel_refl_strong row_step_refl)

lemma forwarded_trans:
  assumes "forwarded m u v" "forwarded m v w" shows "forwarded m u w"
proof -
  from assms obtain e1 e2 where e: "lb_taken (w_cloud v) = lb_taken (w_cloud u) @ e1"
    "list_all2 (row_step m e1) (t_outbox (w_db u)) (t_outbox (w_db v))"
    "lb_taken (w_cloud w) = lb_taken (w_cloud v) @ e2"
    "list_all2 (row_step m e2) (t_outbox (w_db v)) (t_outbox (w_db w))" by (auto simp: forwarded_def)
  from list_all2_trans [OF row_step_trans e(2,4)] e(1,3) show ?thesis
    unfolding forwarded_def by (intro exI [of _ "e1 @ e2"]) simp
qed

lemma forwarded_ids: "forwarded m w w' \<Longrightarrow> map ob_id (t_outbox (w_db w')) = map ob_id (t_outbox (w_db w))"
proof -
  have "list_all2 (row_step m ext) xs ys \<Longrightarrow> map ob_id ys = map ob_id xs" for ext xs ys
    by (induction xs ys rule: list_all2_induct) (auto simp: row_step_def)
  then show "forwarded m w w' \<Longrightarrow> ?thesis" by (auto simp: forwarded_def)
qed

text \<open>The rows of a batch, bumped and marked.\<close>

lemma batch_forwarded:
  assumes "distinct (map ob_id T)" "set rows \<subseteq> set T"
    "\<And>r. r \<in> set rows \<Longrightarrow> ob_published_at r = None \<and> ob_attempts r < m"
    "F \<subseteq> ob_id ` set rows" "I \<subseteq> ob_id ` set rows" "\<forall>r \<in> set rows. ob_id r \<in> I \<longrightarrow> message_of r \<in> set ext"
  shows "list_all2 (row_step m ext) T
    (map (\<lambda>r. if ob_id r \<in> I then r\<lparr>ob_published_at := Some t\<rparr> else r) (bump_rows F T))"
proof -
  have mem: "r \<in> set rows" if "r \<in> set T" "ob_id r \<in> ob_id ` set rows" for r
  proof -
    from that(2) obtain x where "x \<in> set rows" "ob_id x = ob_id r" by auto
    with that(1) assms(1,2) show ?thesis by (metis distinct_map inj_onD subsetD)
  qed
  let ?G = "\<lambda>r. if ob_id r \<in> I then (if ob_id r \<in> F then r\<lparr>ob_attempts := ob_attempts r + 1\<rparr> else r)\<lparr>ob_published_at := Some t\<rparr>
      else if ob_id r \<in> F then r\<lparr>ob_attempts := ob_attempts r + 1\<rparr> else r"
  have "row_step m ext r (if ob_id r \<in> I then (if ob_id r \<in> F then r\<lparr>ob_attempts := ob_attempts r + 1\<rparr> else r)\<lparr>ob_published_at := Some t\<rparr>
      else if ob_id r \<in> F then r\<lparr>ob_attempts := ob_attempts r + 1\<rparr> else r)" if r: "r \<in> set T" for r
  proof (cases "ob_id r \<in> ob_id ` set rows")
    case True
    from mem [OF r True] have "r \<in> set rows" .
    with assms(3) [OF this] assms(6) show ?thesis by (auto simp: row_step_def message_of_def)
  next
    case False
    with assms(4,5) show ?thesis by (auto simp: row_step_refl)
  qed
  then have "list_all2 (row_step m ext) T (map ?G T)" unfolding list.rel_map by (rule list.rel_refl_strong)
  moreover have "map (\<lambda>r. if ob_id r \<in> I then r\<lparr>ob_published_at := Some t\<rparr> else r) (bump_rows F T) = map ?G T"
    by (auto simp: bump_rows_def)
  ultimately show ?thesis by simp
qed

lemma outbox_fetch_rows:
  assumes "outbox_fetch b m w = (Inr rows, w1)" "w_snap w = None" "distinct (map ob_id (t_outbox (w_db w)))"
  shows "w_db w1 = w_db w \<and> w_cloud w1 = w_cloud w \<and> w_snap w1 = None \<and> distinct (map ob_id rows) \<and>
    set rows \<subseteq> set (t_outbox (w_db w)) \<and> (\<forall>r \<in> set rows. ob_published_at r = None \<and> ob_attempts r < m)"
proof (cases "rows = []")
  case True
  with assms(1) same_stateD [OF silentD [OF silent_reads(10) assms(1)]] assms(2) show ?thesis by simp
next
  case False
  with assms(1) have r: "rows = fetch_outbox_rows m b (w_db w)"
    using assms(2)
    by (auto simp: outbox_fetch_def bind_def from_sum_def list_limit_int32_def on_err_def conn_query_def ret_def Let_def
        split: if_splits sum.splits option.splits)
  let ?P = "\<lambda>r. ob_published_at r = None \<and> ob_attempts r < m"
  have "distinct (map ob_id (filter ?P (t_outbox (w_db w))))" using assms(3) by (rule distinct_map_filter)
  then have "distinct (map ob_id (sort_key ob_id (filter ?P (t_outbox (w_db w)))))"
    by (simp add: distinct_map)
  then have "distinct (map ob_id rows)" unfolding r fetch_outbox_rows_def take_map [symmetric] by (rule distinct_take)
  moreover have "set rows \<subseteq> set (filter ?P (t_outbox (w_db w)))"
    unfolding r fetch_outbox_rows_def using set_take_subset by fastforce
  ultimately show ?thesis using same_stateD [OF silentD [OF silent_reads(10) assms(1)]] assms(2) by auto
qed

lemma outbox_mark_state:
  assumes "outbox_mark_published ids w = (res, w')"
  shows "w_cloud w' = w_cloud w \<and> w_snap w' = w_snap w \<and> (t_outbox (w_db w') = t_outbox (w_db w) \<or>
    (\<exists>t. t_outbox (w_db w') = map (\<lambda>r. if ob_id r \<in> set ids then r\<lparr>ob_published_at := Some t\<rparr> else r) (t_outbox (w_db w))))"
  using assms
  by (auto simp: outbox_mark_published_def ret_def on_err_def conn_stmt_def mark_outbox_published_def Let_def
      split: if_splits option.splits)

lemma tick_forwarded:
  assumes "pb_publish P = log_publish takes" "publisher_tick P w = (res, w')" "w_snap w = None"
    "distinct (map ob_id (t_outbox (w_db w)))"
  shows "forwarded (pb_max_attempts P) w w' \<and> w_snap w' = None"
proof -
  let ?m = "pb_max_attempts P"
  obtain fr w1 where f: "outbox_fetch (pb_batch P) ?m w = (fr, w1)" by fastforce
  note s1 = same_stateD [OF silentD [OF silent_reads(10) f]]
  show ?thesis
  proof (cases "\<exists>rows. fr = Inr rows \<and> rows \<noteq> []")
    case False
    then have "w' = w1" using assms(2) f
      by (cases fr) (auto simp: publisher_tick_def bind_def ret_def)
    with s1 assms(3) show ?thesis by (simp add: forwarded_same)
  next
    case True
    then obtain rows where rows: "fr = Inr rows" "rows \<noteq> []" by blast
    note ft = outbox_fetch_rows [OF f [unfolded rows(1)] assms(3,4)]
    obtain pr w2 where p: "publish_rows P 0 rows [] w1 = (pr, w2)" by fastforce
    from publish_rows_outcome [OF assms(1) p] ft obtain F ids
      where out: "pr = Inr ids" "batch_outcome rows F ids w1 w2" by auto
    then obtain ext where ext: "lb_taken (w_cloud w2) = lb_taken (w_cloud w) @ ext"
      "\<forall>r \<in> set rows. ob_id r \<in> set ids \<longrightarrow> message_of r \<in> set ext"
      and t2: "t_outbox (w_db w2) = bump_rows F (t_outbox (w_db w))" "w_snap w2 = None"
      and sub: "F \<subseteq> ob_id ` set rows" "set ids \<subseteq> ob_id ` set rows"
      using ft by (auto simp: batch_outcome_def)
    have mark: "outbox_mark_published ids w2 = (res, w') \<or> res = Inr () \<and> w' = w2"
      using assms(2) f rows p out(1) by (auto simp: publisher_tick_def bind_def ret_def split: if_splits)
    have "w_cloud w' = w_cloud w2 \<and> w_snap w' = None \<and> (\<exists>I t. I \<subseteq> set ids \<and> t_outbox (w_db w') =
        map (\<lambda>r. if ob_id r \<in> I then r\<lparr>ob_published_at := Some t\<rparr> else r) (t_outbox (w_db w2)))"
      using mark outbox_mark_state [of ids w2 res w'] t2(2) by fastforce
    then obtain I t where I: "w_cloud w' = w_cloud w2" "w_snap w' = None" "I \<subseteq> set ids" "t_outbox (w_db w') =
        map (\<lambda>r. if ob_id r \<in> I then r\<lparr>ob_published_at := Some t\<rparr> else r) (bump_rows F (t_outbox (w_db w)))"
      using t2(1) by auto
    have "list_all2 (row_step ?m ext) (t_outbox (w_db w)) (t_outbox (w_db w'))"
      unfolding I(4) by (rule batch_forwarded [where rows = rows]) (use ft ext(2) sub I(3) assms(4) in auto)
    with ext(1) I(1,2) show ?thesis by (auto simp: forwarded_def)
  qed
qed

lemma ticks_forwarded:
  assumes "pb_publish P = log_publish takes"
  shows "publisher_ticks n P w = (res, w') \<Longrightarrow> w_snap w = None \<Longrightarrow> distinct (map ob_id (t_outbox (w_db w))) \<Longrightarrow>
    forwarded (pb_max_attempts P) w w'"
proof (induction n arbitrary: w)
  case 0
  then show ?case by (simp add: ret_def forwarded_same)
next
  case (Suc n)
  obtain r1 w1 where t: "publisher_tick P w = (r1, w1)" by fastforce
  with Suc.prems(1) have run: "publisher_ticks n P w1 = (res, w')" by (simp add: bind_def attempt_def)
  from tick_forwarded [OF assms t Suc.prems(2,3)] have f: "forwarded (pb_max_attempts P) w w1" "w_snap w1 = None" by auto
  with forwarded_ids [OF f(1)] Suc.prems(3) have "distinct (map ob_id (t_outbox (w_db w1)))" by simp
  from forwarded_trans [OF f(1) Suc.IH [OF run f(2) this]] show ?case .
qed

section \<open>Properties\<close>

text \<open>
  C24: the outbox loses and invents nothing. However often the publisher ticks, whatever the bus
  refuses, whichever statements fail and wherever a tick is cut off: every row is still
  there with its message; it is marked published only if it was before or if the bus has taken its
  message since (so delivery is at least once); a published row stays as it is; its attempts never
  fall, never pass the limit by the publisher's doing, and a row that has reached the limit is not
  touched again.
\<close>
theorem outbox_at_least_once:
  assumes "pb_publish P = log_publish takes" "publisher_run n P w = (res, w')" "w_snap w = None"
    "distinct (map ob_id (t_outbox (w_db w)))"
  shows "\<exists>ext. lb_taken (w_cloud w') = lb_taken (w_cloud w) @ ext \<and>
    list_all2 (row_step (pb_max_attempts (with_defaults P)) ext) (t_outbox (w_db w)) (t_outbox (w_db w'))"
proof -
  have "pb_publish (with_defaults P) = log_publish takes" using assms(1) by (simp add: with_defaults_def)
  from ticks_forwarded [OF this assms(2) [unfolded publisher_run_def] assms(3,4)] show ?thesis by (simp add: forwarded_def)
qed

text \<open>Three rows, a bus that refuses every second call, two ticks.\<close>

definition sample_outbox :: db where
  "sample_outbox = empty_db\<lparr>t_outbox := map (\<lambda>i. \<lparr>ob_id = i, ob_topic = ''lab'', ob_payload = JNull,
     ob_occurred_at = i, ob_published_at = None, ob_attempts = 9\<rparr>) [1, 2, 3]\<rparr>"

definition flaky_publisher :: "log_bus publisher" where
  "flaky_publisher = new_publisher (log_publish even) (\<lambda>_. False)"

lemma outbox_at_least_once_witness:
  "\<exists>w'. snd (publisher_run 2 flaky_publisher (world_of \<lparr>lb_calls = 0, lb_taken = []\<rparr> sample_outbox)) = w' \<and>
     map (\<lambda>r. (ob_published_at r = None, ob_attempts r)) (t_outbox (w_db w')) = [(False, 9), (True, 10), (False, 9)] \<and>
     map ob_id (t_outbox (w_db w')) = [1, 2, 3]"
proof -
  let ?w = "world_of \<lparr>lb_calls = 0, lb_taken = []\<rparr> sample_outbox"
  obtain res w' where run: "publisher_run 2 flaky_publisher ?w = (res, w')" by fastforce
  have "map (\<lambda>r. (ob_published_at r = None, ob_attempts r)) (t_outbox (w_db (snd (publisher_run 2 flaky_publisher ?w)))) =
      [(False, 9), (True, 10), (False, 9)]" by code_simp
  moreover have "map ob_id (t_outbox (w_db w')) = [1, 2, 3]"
    using outbox_at_least_once [OF _ run, of even]
    by (auto simp: flaky_publisher_def new_publisher_def sample_outbox_def row_step_def list_all2_Cons1)
  ultimately show ?thesis using run by auto
qed

lemma publish_rows_all:
  assumes "pb_publish P = log_publish (\<lambda>_. True)" "\<And>n. \<not> pb_done P n"
  shows "publish_rows P n rows ids w = (Inr (ids @ map ob_id rows), w\<lparr>w_cloud :=
    \<lparr>lb_calls = lb_calls (w_cloud w) + length rows, lb_taken = lb_taken (w_cloud w) @ map message_of rows\<rparr>\<rparr>)"
proof (induction rows arbitrary: n ids w)
  case (Cons r rows)
  then show ?case by (simp add: assms bind_def attempt_def on_cloud_def log_publish_def message_of_def)
qed (simp add: ret_def)

text \<open>
  C25: when nothing fails, one tick forwards all there is: with no failing statement, a bus that takes
  everything and a batch that is large enough, the pending rows go to the bus in the order
  of their identifiers, each once, and are marked published; nothing else changes in the table.
\<close>
theorem outbox_flush:
  assumes "pb_publish P = log_publish (\<lambda>_. True)" "\<And>n. \<not> pb_done P n" "no_db_faults w" "w_snap w = None"
    "0 < pb_max_attempts P" "pb_max_attempts P \<le> 2147483647" "0 < pb_batch P" "pb_batch P \<le> 2147483647"
    "distinct (map ob_id (t_outbox (w_db w)))"
    "pending = (\<lambda>r. ob_published_at r = None \<and> ob_attempts r < pb_max_attempts P)"
    "int (length (filter pending (t_outbox (w_db w)))) \<le> pb_batch P"
  shows "\<exists>w' t. publisher_tick P w = (Inr (), w') \<and>
    lb_taken (w_cloud w') = lb_taken (w_cloud w) @ map message_of (sort_key ob_id (filter pending (t_outbox (w_db w)))) \<and>
    t_outbox (w_db w') = map (\<lambda>r. if pending r then r\<lparr>ob_published_at := Some t\<rparr> else r) (t_outbox (w_db w))"
proof -
  let ?T = "t_outbox (w_db w)"
  let ?rows = "sort_key ob_id (filter pending ?T)"
  let ?w1 = "w\<lparr>w_stmt := Suc (w_stmt w)\<rparr>"
  have "fetch_outbox_rows (pb_max_attempts P) (pb_batch P) (w_db w) = ?rows"
    using assms(10,11) by (simp add: fetch_outbox_rows_def)
  then have f: "outbox_fetch (pb_batch P) (pb_max_attempts P) w = (Inr ?rows, ?w1)"
    using assms(3-8) by (simp add: outbox_fetch_def list_limit_int32_def bind_def from_sum_def on_err_def conn_query_ok)
  let ?w2 = "?w1\<lparr>w_cloud := \<lparr>lb_calls = lb_calls (w_cloud w) + length ?rows, lb_taken = lb_taken (w_cloud w) @ map message_of ?rows\<rparr>\<rparr>"
  have p: "publish_rows P 0 ?rows [] ?w1 = (Inr (map ob_id ?rows), ?w2)"
    using publish_rows_all [OF assms(1,2), of 0 ?rows "[]" ?w1] by simp
  have mem: "ob_id r \<in> set (map ob_id ?rows) \<longleftrightarrow> pending r" if "r \<in> set ?T" for r
  proof
    assume "ob_id r \<in> set (map ob_id ?rows)"
    then obtain x where "x \<in> set ?T" "pending x" "ob_id x = ob_id r" by auto
    with that assms(9) show "pending r" by (metis distinct_map inj_onD)
  qed (use that in auto)
  show ?thesis
  proof (cases "?rows = []")
    case True
    then have none: "filter pending ?T = []" by (metis length_0_conv length_sort)
    then have "map (\<lambda>r. if pending r then r\<lparr>ob_published_at := Some 0\<rparr> else r) ?T = ?T"
      by (intro map_idI) (auto simp: filter_empty_conv)
    with f True none show ?thesis
      by (intro exI [of _ ?w1] exI [of _ 0]) (simp add: publisher_tick_def bind_def ret_def)
  next
    case False
    let ?t = "e_db_now (w_env w) (Suc (w_stmt w))"
    let ?d = "(w_db w)\<lparr>t_outbox := map (\<lambda>r. if ob_id r \<in> set (map ob_id ?rows) then r\<lparr>ob_published_at := Some ?t\<rparr> else r) ?T\<rparr>"
    have m: "outbox_mark_published (map ob_id ?rows) ?w2 = (Inr (), ?w2\<lparr>w_stmt := Suc (Suc (w_stmt w)), w_db := ?d\<rparr>)"
      using False assms(3) by (simp add: outbox_mark_published_def on_err_def conn_stmt_def mark_outbox_published_def)
    have "publisher_tick P w = (Inr (), ?w2\<lparr>w_stmt := Suc (Suc (w_stmt w)), w_db := ?d\<rparr>)"
      using f p m False by (simp add: publisher_tick_def bind_def)
    moreover have "t_outbox ?d = map (\<lambda>r. if pending r then r\<lparr>ob_published_at := Some ?t\<rparr> else r) ?T"
      using mem by simp
    ultimately show ?thesis by fastforce
  qed
qed

definition sample_publisher :: "log_bus publisher" where
  "sample_publisher = new_publisher (log_publish (\<lambda>_. True)) (\<lambda>_. False)"

lemma outbox_flush_witness:
  "\<exists>w' t. publisher_tick sample_publisher (world_of \<lparr>lb_calls = 0, lb_taken = []\<rparr> sample_outbox) = (Inr (), w') \<and>
     t_outbox (w_db w') = map (\<lambda>r. r\<lparr>ob_published_at := Some t\<rparr>) (t_outbox sample_outbox)"
proof -
  have "\<exists>w' t. publisher_tick sample_publisher (world_of \<lparr>lb_calls = 0, lb_taken = []\<rparr> sample_outbox) = (Inr (), w') \<and>
     lb_taken (w_cloud w') = lb_taken (w_cloud (world_of \<lparr>lb_calls = 0, lb_taken = []\<rparr> sample_outbox)) @ map message_of
       (sort_key ob_id (filter (\<lambda>r. ob_published_at r = None \<and> ob_attempts r < pb_max_attempts sample_publisher)
         (t_outbox (w_db (world_of \<lparr>lb_calls = 0, lb_taken = []\<rparr> sample_outbox))))) \<and>
     t_outbox (w_db w') = map (\<lambda>r. if ob_published_at r = None \<and> ob_attempts r < pb_max_attempts sample_publisher
       then r\<lparr>ob_published_at := Some t\<rparr> else r) (t_outbox (w_db (world_of \<lparr>lb_calls = 0, lb_taken = []\<rparr> sample_outbox)))"
    by (rule outbox_flush) (simp_all add: sample_publisher_def new_publisher_def sample_outbox_def)
  then show ?thesis by (auto simp: sample_publisher_def new_publisher_def sample_outbox_def)
qed

end
