(* ===== verification/CheckStore.thy ===== *)
theory CheckStore
  imports MiscStore
begin

text \<open>
  \<open>pgxrepo/check_run.go\<close> and \<open>pgxrepo/check_template.go\<close> with the SQL of
  \<open>sqlcgen/check_run.sql.go\<close>: check runs with the steps of their report, and the templates that
  name a playbook. The foreign keys of the two tables of runs are part of the statements.
\<close>

section \<open>The statements\<close>

definition foreign_key_violation :: "string \<Rightarrow> err" where
  "foreign_key_violation c = PgError ''23503'' c"

definition run_state_ok :: "run_state \<Rightarrow> bool" where
  "run_state_ok s \<longleftrightarrow> run_state_text s \<in>
     {''queued'', ''running'', ''passed'', ''failed'', ''timeout'', ''errored''}"

definition create_check_run :: "(time \<Rightarrow> run_row) \<Rightarrow> unit stmt" where
  "create_check_run f now d = (let r = f now in
     if \<not> run_state_ok (ru_state r) then Inl (check_violation ''check_runs_state_check'')
     else if ru_id r \<in> ru_id ` set (t_runs d) then Inl (unique_violation ''check_runs_pkey'')
     else if ru_lab r \<notin> lr_id ` set (t_labs d)
     then Inl (foreign_key_violation ''check_runs_lab_instance_id_fkey'')
     else if ru_template r \<notin> ct_id ` set (t_templates d)
     then Inl (foreign_key_violation ''check_runs_check_template_id_fkey'')
     else if (case ru_triggered_by r of None \<Rightarrow> False | Some u \<Rightarrow> u \<notin> uw_id ` set (t_users d))
     then Inl (foreign_key_violation ''check_runs_triggered_by_user_id_fkey'')
     else Inr ((), d\<lparr>t_runs := t_runs d @ [r]\<rparr>))"

text \<open>An update that finds no row is not an error.\<close>

definition update_check_run ::
  "uuid \<Rightarrow> run_state \<Rightarrow> string \<Rightarrow> string \<Rightarrow> time option \<Rightarrow> time option \<Rightarrow> unit stmt" where
  "update_check_run i st summary stdout started finished now d =
     (case find_row ru_id i (t_runs d) of
        None \<Rightarrow> Inr ((), d)
      | Some r \<Rightarrow>
          if \<not> run_state_ok st then Inl (check_violation ''check_runs_state_check'')
          else Inr ((), d\<lparr>t_runs := put_row ru_id (r\<lparr>ru_state := st, ru_summary := summary,
            ru_stdout := stdout, ru_started_at := started, ru_finished_at := finished\<rparr>) (t_runs d)\<rparr>))"

definition delete_check_run_steps :: "uuid \<Rightarrow> unit stmt" where
  "delete_check_run_steps i now d = Inr ((), d\<lparr>t_run_steps := filter (\<lambda>s. rw_run s \<noteq> i) (t_run_steps d)\<rparr>)"

definition insert_check_run_step ::
  "uuid \<Rightarrow> int \<Rightarrow> string \<Rightarrow> step_status \<Rightarrow> json option \<Rightarrow> json option \<Rightarrow> string \<Rightarrow> unit stmt" where
  "insert_check_run_step run seq task status expected actual message now d =
     (if \<exists>s \<in> set (t_run_steps d). rw_run s = run \<and> rw_seq s = seq
      then Inl (unique_violation ''check_run_steps_check_run_id_seq_key'')
      else if run \<notin> ru_id ` set (t_runs d)
      then Inl (foreign_key_violation ''check_run_steps_check_run_id_fkey'')
      else Inr ((), d\<lparr>t_run_steps := t_run_steps d @ [\<lparr>rw_run = run, rw_seq = seq, rw_task = task,
        rw_status = status, rw_expected = expected, rw_actual = actual,
        rw_message = nullable_string message\<rparr>]\<rparr>))"

definition get_run_row :: "uuid \<Rightarrow> db \<Rightarrow> run_row option" where
  "get_run_row i d = find_row ru_id i (t_runs d)"

definition list_run_step_rows :: "uuid \<Rightarrow> db \<Rightarrow> run_step_row list" where
  "list_run_step_rows i d = sort_key rw_seq (filter (\<lambda>s. rw_run s = i) (t_run_steps d))"

definition list_run_rows :: "uuid \<Rightarrow> int \<Rightarrow> db \<Rightarrow> run_row list" where
  "list_run_rows lab limit d =
     take (nat limit) (rev (sort_key (\<lambda>r. (ru_created_at r, ru_id r)) (filter (\<lambda>r. ru_lab r = lab) (t_runs d))))"

definition get_template_row :: "uuid \<Rightarrow> db \<Rightarrow> check_template option" where
  "get_template_row i d = find_row ct_id i (t_templates d)"

section \<open>The repositories\<close>

text \<open>Every use of a zero identifier draws a new one.\<close>

definition check_run_id_arg :: "check_run_id \<Rightarrow> ('c, uuid) prog" where
  "check_run_id_arg i = (if i = 0 then new_uuid else ret i)"

definition run_int32 :: "int \<Rightarrow> int" where
  "run_int32 n = sint (word_of_int n :: 32 word)"

text \<open>
  \<open>jsonBytes\<close> and \<open>jsonValue\<close> on the JSON the bytes denote: a nil value is a NULL column, and both a
  NULL column and the JSON \<open>null\<close> are read as nil.
\<close>

definition json_bytes :: "json option \<Rightarrow> json option" where
  "json_bytes v = v"

definition json_value :: "json option \<Rightarrow> json option" where
  "json_value raw = (case raw of None \<Rightarrow> None | Some j \<Rightarrow> if j = JNull then None else Some j)"

definition check_run_from_row :: "run_row \<Rightarrow> check_run" where
  "check_run_from_row r = \<lparr>cr_id = ru_id r, cr_lab = ru_lab r, cr_template = ru_template r,
     cr_triggered_by = ru_triggered_by r, cr_state = ru_state r, cr_started_at = ru_started_at r,
     cr_finished_at = ru_finished_at r, cr_summary = ru_summary r, cr_stdout = ru_stdout r, cr_steps = []\<rparr>"

definition step_result_from_row :: "run_step_row \<Rightarrow> step_result" where
  "step_result_from_row s = \<lparr>sr_task = rw_task s, sr_status = rw_status s,
     sr_expected = json_value (rw_expected s), sr_actual = json_value (rw_actual s),
     sr_message = coalesce (rw_message s) []\<rparr>"

definition insert_run_step :: "check_run_id \<Rightarrow> nat \<Rightarrow> step_result \<Rightarrow> ('c, unit) prog" where
  "insert_run_step run idx s =
     bind (check_run_id_arg run) (\<lambda>i.
     on_err (Wrapped ''pgxrepo: insert check run step'')
       (tx_stmt (insert_check_run_step i (run_int32 (int idx + 1)) (sr_task s) (sr_status s)
          (json_bytes (sr_expected s)) (json_bytes (sr_actual s)) (sr_message s))))"

fun insert_run_steps :: "check_run_id \<Rightarrow> nat \<Rightarrow> step_result list \<Rightarrow> ('c, unit) prog" where
  "insert_run_steps run idx [] = ret ()"
| "insert_run_steps run idx (s # ss) =
     bind (insert_run_step run idx s) (\<lambda>_. insert_run_steps run (Suc idx) ss)"

definition replace_check_run_steps :: "check_run \<Rightarrow> ('c, unit) prog" where
  "replace_check_run_steps r =
     bind (check_run_id_arg (cr_id r)) (\<lambda>i.
     bind (on_err (Wrapped ''pgxrepo: delete check run steps'') (tx_stmt (delete_check_run_steps i))) (\<lambda>_.
     insert_run_steps (cr_id r) 0 (cr_steps r)))"

definition check_run_params :: "uuid \<Rightarrow> check_run \<Rightarrow> time \<Rightarrow> run_row" where
  "check_run_params i r now = \<lparr>ru_id = i, ru_lab = cr_lab r, ru_template = cr_template r,
     ru_triggered_by = cr_triggered_by r, ru_state = cr_state r, ru_summary = cr_summary r,
     ru_stdout = cr_stdout r, ru_started_at = timestamptz_ptr (cr_started_at r),
     ru_finished_at = timestamptz_ptr (cr_finished_at r), ru_created_at = now\<rparr>"

definition run_create :: "check_run \<Rightarrow> ('c, unit) prog" where
  "run_create r =
     bind (check_run_id_arg (cr_id r)) (\<lambda>i.
     bind (on_err (Wrapped ''pgxrepo: create check run'') (tx_stmt (create_check_run (check_run_params i r)))) (\<lambda>_.
     replace_check_run_steps r))"

definition run_save :: "check_run \<Rightarrow> ('c, unit) prog" where
  "run_save r =
     bind (check_run_id_arg (cr_id r)) (\<lambda>i.
     bind (on_err (Wrapped ''pgxrepo: save check run'')
       (tx_stmt (update_check_run i (cr_state r) (cr_summary r) (cr_stdout r)
          (timestamptz_ptr (cr_started_at r)) (timestamptz_ptr (cr_finished_at r))))) (\<lambda>_.
     replace_check_run_steps r))"

definition run_get_by_id :: "check_run_id \<Rightarrow> ('c, check_run) prog" where
  "run_get_by_id i =
     bind (check_run_id_arg i) (\<lambda>i.
     bind (on_err (or_no_rows ErrNotFound ''pgxrepo: get check run'') (one_row (conn_query (get_run_row i)))) (\<lambda>row.
     bind (on_err (Wrapped ''pgxrepo: list check run steps'') (conn_query (list_run_step_rows (ru_id row)))) (\<lambda>steps.
     ret ((check_run_from_row row)\<lparr>cr_steps := map step_result_from_row steps\<rparr>))))"

definition run_list_by_lab :: "lab_id \<Rightarrow> int \<Rightarrow> ('c, check_run list) prog" where
  "run_list_by_lab lab limit =
     bind (from_sum (list_limit_int32 limit)) (\<lambda>limit.
     bind (on_err (Wrapped ''pgxrepo: list check runs'')
       (conn_query (list_run_rows lab (if limit = 0 then 50 else limit)))) (\<lambda>rows.
     ret (map check_run_from_row rows)))"

definition template_get_by_id :: "check_template_id \<Rightarrow> ('c, check_template) prog" where
  "template_get_by_id i =
     on_err (or_no_rows ErrNotFound ''pgxrepo: get check template'') (one_row (conn_query (get_template_row i)))"

lemma silent_check_reads [silent_intros]:
  "silent (check_run_id_arg i)" "silent (run_get_by_id i)" "silent (run_list_by_lab l n)"
  "silent (template_get_by_id t)"
  unfolding run_get_by_id_def run_list_by_lab_def template_get_by_id_def check_run_id_arg_def
  by (intro silent_intros)+

text \<open>Programs that stay inside the database: they leave the environment, the external state and the tasks alone.\<close>

definition outer :: "'c world \<Rightarrow> env \<times> 'c \<times> (task \<times> time option) list" where
  "outer w = (w_env w, w_cloud w, w_tasks w)"

lemma keeps_outer [keeps_intros]:
  "keeps (\<lambda>w. outer w = X) clock_now" "keeps (\<lambda>w. outer w = X) new_uuid"
  "keeps (\<lambda>w. outer w = X) (tx_stmt f)" "keeps (\<lambda>w. outer w = X) (conn_query g)"
  "keeps (\<lambda>w. outer w = X) (conn_stmt f)"
  by (auto simp: keeps_def outer_def clock_now_def new_uuid_def tx_stmt_def conn_query_def conn_stmt_def Let_def
      split: option.splits sum.splits)

lemma keeps_outer_tx [keeps_intros]:
  assumes "keeps (\<lambda>w. outer w = X) m" shows "keeps (\<lambda>w. outer w = X) (with_tx m)"
proof (rule keepsI)
  fix w r w'
  assume E: "outer w = X" and run: "with_tx m w = (r, w')"
  let ?w1 = "w\<lparr>w_stmt := Suc (w_stmt w), w_snap := Some (w_db w), w_aborted := False\<rparr>"
  obtain r2 w2 where f: "m ?w1 = (r2, w2)" by fastforce
  with keepsD [OF assms _ f] E have "outer w2 = X" by (simp add: outer_def)
  with run f E show "outer w' = X" by (auto simp: with_tx_def outer_def split: option.splits sum.splits if_splits)
qed

lemma outer_keeps:
  assumes "\<And>X. keeps (\<lambda>w. outer w = X) m"
  shows "keeps (\<lambda>w. w_env w = E) m" "keeps (\<lambda>w. w_cloud w = C) m" "keeps (\<lambda>w. w_tasks w = T) m"
  using assms unfolding keeps_def outer_def by force+

section \<open>The run that is stored\<close>

definition stored_run :: "uuid \<Rightarrow> db \<Rightarrow> check_run option" where
  "stored_run i d = map_option (\<lambda>row. (check_run_from_row row)\<lparr>cr_steps :=
     map step_result_from_row (list_run_step_rows i d)\<rparr>) (get_run_row i d)"

lemma get_run_row_id: "get_run_row i d = Some row \<Longrightarrow> ru_id row = i"
  by (auto simp: get_run_row_def dest: find_row_SomeD)

lemma run_get_InrD:
  assumes "run_get_by_id i w = (Inr r, w')" "i \<noteq> 0"
  shows "stored_run i (committed w) = Some r \<and> same_state w w'"
proof -
  have c: "committed (w\<lparr>w_stmt := n\<rparr>) = committed w" for n by (simp add: committed_def split: option.split)
  from assms obtain row where row: "get_run_row i (committed w) = Some row"
    "r = (check_run_from_row row)\<lparr>cr_steps := map step_result_from_row (list_run_step_rows (ru_id row) (committed w))\<rparr>"
    by (auto simp: run_get_by_id_def check_run_id_arg_def ret_def c dest!: bind_InrD on_err_InrD one_row_InrD conn_query_InrD)
  with get_run_row_id [OF row(1)] silentD [OF silent_check_reads(2) assms(1)] show ?thesis
    by (simp add: stored_run_def)
qed

lemma run_get_ok:
  assumes "no_db_faults w" "w_snap w = None" "stored_run i (w_db w) = Some r" "i \<noteq> 0"
  shows "\<exists>w'. run_get_by_id i w = (Inr r, w') \<and> same_state w w'"
proof -
  from assms(3) obtain row where row: "get_run_row i (w_db w) = Some row"
    "r = (check_run_from_row row)\<lparr>cr_steps := map step_result_from_row (list_run_step_rows i (w_db w))\<rparr>"
    by (auto simp: stored_run_def)
  with get_run_row_id [OF row(1)] assms(1,2,4)
  have "\<exists>w'. run_get_by_id i w = (Inr r, w')"
    by (simp add: run_get_by_id_def check_run_id_arg_def bind_def on_err_def one_row_def conn_query_ok ret_def)
  with silentD [OF silent_check_reads(2)] show ?thesis by blast
qed

lemma keeps_outer_steps [keeps_intros]: "keeps (\<lambda>w. outer w = X) (insert_run_steps i n ss)"
  by (induction ss arbitrary: n) (auto simp: insert_run_step_def check_run_id_arg_def intro!: keeps_intros)

lemma keeps_outer_run [keeps_intros]:
  "keeps (\<lambda>w. outer w = X) (run_create r)" "keeps (\<lambda>w. outer w = X) (run_save r)"
  unfolding run_create_def run_save_def replace_check_run_steps_def check_run_id_arg_def
  by (intro keeps_intros)+

section \<open>What a save stores\<close>

fun step_rows :: "uuid \<Rightarrow> nat \<Rightarrow> step_result list \<Rightarrow> run_step_row list" where
  "step_rows i n [] = []"
| "step_rows i n (s # ss) = \<lparr>rw_run = i, rw_seq = run_int32 (int n + 1), rw_task = sr_task s,
     rw_status = sr_status s, rw_expected = sr_expected s, rw_actual = sr_actual s,
     rw_message = nullable_string (sr_message s)\<rparr> # step_rows i (Suc n) ss"

definition step_ok :: "step_result \<Rightarrow> bool" where
  "step_ok s \<longleftrightarrow> sr_expected s \<noteq> Some JNull \<and> sr_actual s \<noteq> Some JNull"

lemma run_int32_id: "0 \<le> n \<Longrightarrow> n < 2 ^ 31 \<Longrightarrow> run_int32 n = n"
  by (simp add: run_int32_def int_word_sint)

lemma step_rows_run: "s \<in> set (step_rows i n ss) \<Longrightarrow> rw_run s = i"
  by (induction ss arbitrary: n) auto

lemma filter_step_rows [simp]:
  "filter (\<lambda>s. rw_run s = i) (step_rows i n ss) = step_rows i n ss"
  "k \<noteq> i \<Longrightarrow> filter (\<lambda>s. rw_run s = k) (step_rows i n ss) = []"
  using step_rows_run by (auto simp: filter_id_conv filter_empty_conv)

lemma step_rows_seq:
  "n + length ss < 2 ^ 31 \<Longrightarrow> map rw_seq (step_rows i n ss) = map (\<lambda>k. int k + 1) [n..<n + length ss]"
  by (induction ss arbitrary: n) (auto simp: run_int32_id upt_conv_Cons simp del: upt_Suc)

lemma sort_step_rows:
  assumes "length ss < 2 ^ 31" shows "sort_key rw_seq (step_rows i 0 ss) = step_rows i 0 ss"
proof -
  have "sorted (map rw_seq (step_rows i 0 ss))"
    using assms by (simp add: step_rows_seq sorted_map sorted_wrt_upt)
  then show ?thesis by (rule sort_key_id_if_sorted)
qed

lemma step_rows_results:
  "\<forall>s \<in> set ss. step_ok s \<Longrightarrow> map step_result_from_row (step_rows i n ss) = ss"
  by (induction ss arbitrary: n)
    (auto simp: step_result_from_row_def json_value_def step_ok_def coalesce_def nullable_string_def split: option.splits)

lemma insert_run_steps_InrD:
  "insert_run_steps i n ss w = (Inr (), w') \<Longrightarrow> i \<noteq> 0 \<Longrightarrow>
     w_db w' = (w_db w)\<lparr>t_run_steps := t_run_steps (w_db w) @ step_rows i n ss\<rparr> \<and> w_snap w' = w_snap w"
proof (induction ss arbitrary: n w)
  case Nil
  then show ?case by (simp add: ret_def)
next
  case (Cons s ss)
  from bind_InrD [OF Cons.prems(1) [unfolded insert_run_steps.simps]] obtain w1
    where ins: "insert_run_step i n s w = (Inr (), w1)" and run: "insert_run_steps i (Suc n) ss w1 = (Inr (), w')" by auto
  have "w_db w1 = (w_db w)\<lparr>t_run_steps := t_run_steps (w_db w) @ step_rows i n [s]\<rparr> \<and> w_snap w1 = w_snap w"
    using ins Cons.prems(2)
    by (auto simp: insert_run_step_def check_run_id_arg_def insert_check_run_step_def json_bytes_def
        dest!: on_err_InrD tx_stmt_InrD split: if_splits)
  with Cons.IH [OF run Cons.prems(2)] show ?case by simp
qed

definition run_merge :: "check_run \<Rightarrow> run_row \<Rightarrow> run_row" where
  "run_merge r row = row\<lparr>ru_state := cr_state r, ru_summary := cr_summary r, ru_stdout := cr_stdout r,
     ru_started_at := timestamptz_ptr (cr_started_at r), ru_finished_at := timestamptz_ptr (cr_finished_at r)\<rparr>"

definition saved_steps :: "check_run \<Rightarrow> db \<Rightarrow> run_step_row list" where
  "saved_steps r d = filter (\<lambda>s. rw_run s \<noteq> cr_id r) (t_run_steps d) @ step_rows (cr_id r) 0 (cr_steps r)"

lemma replace_steps_InrD:
  assumes "replace_check_run_steps r w = (Inr (), w')" "cr_id r \<noteq> 0"
  shows "w_db w' = (w_db w)\<lparr>t_run_steps := saved_steps r (w_db w)\<rparr> \<and> w_snap w' = w_snap w"
proof -
  from assms obtain w1 where del: "tx_stmt (delete_check_run_steps (cr_id r)) w = (Inr (), w1)"
    and ins: "insert_run_steps (cr_id r) 0 (cr_steps r) w1 = (Inr (), w')"
    by (auto simp: replace_check_run_steps_def check_run_id_arg_def dest!: bind_InrD on_err_InrD)
  from tx_stmt_InrD [OF del] have "w_db w1 = (w_db w)\<lparr>t_run_steps := filter (\<lambda>s. rw_run s \<noteq> cr_id r) (t_run_steps (w_db w))\<rparr>"
    "w_snap w1 = w_snap w" by (auto simp: delete_check_run_steps_def)
  with insert_run_steps_InrD [OF ins assms(2)] show ?thesis by (simp add: saved_steps_def)
qed

lemma run_save_InrD:
  assumes "run_save r w = (Inr (), w')" "cr_id r \<noteq> 0" "get_run_row (cr_id r) (w_db w) = Some row"
  shows "w_db w' = (w_db w)\<lparr>t_runs := put_row ru_id (run_merge r row) (t_runs (w_db w)),
    t_run_steps := saved_steps r (w_db w)\<rparr> \<and> w_snap w' = w_snap w \<and> run_state_ok (cr_state r)"
proof -
  from assms(1,2) obtain w1 where upd: "tx_stmt (update_check_run (cr_id r) (cr_state r) (cr_summary r) (cr_stdout r)
      (timestamptz_ptr (cr_started_at r)) (timestamptz_ptr (cr_finished_at r))) w = (Inr (), w1)"
    and rep: "replace_check_run_steps r w1 = (Inr (), w')"
    by (auto simp: run_save_def check_run_id_arg_def dest!: bind_InrD on_err_InrD)
  from tx_stmt_InrD [OF upd] assms(3) have "w_db w1 = (w_db w)\<lparr>t_runs := put_row ru_id (run_merge r row) (t_runs (w_db w))\<rparr>"
    "w_snap w1 = w_snap w" "run_state_ok (cr_state r)"
    by (auto simp: update_check_run_def get_run_row_def run_merge_def split: if_splits)
  with replace_steps_InrD [OF rep assms(2)] show ?thesis by (simp add: saved_steps_def)
qed

text \<open>
  A stored run after a save: the run that was saved, with the columns an update leaves alone; every
  other run is stored as before.
\<close>

definition stored_form :: "check_run \<Rightarrow> bool" where
  "stored_form r \<longleftrightarrow> cr_id r \<noteq> 0 \<and> cr_started_at r \<noteq> Some 0 \<and> cr_finished_at r \<noteq> Some 0 \<and>
     length (cr_steps r) < 2 ^ 31 \<and> (\<forall>s \<in> set (cr_steps r). step_ok s)"

lemma stored_run_saved:
  assumes "get_run_row (cr_id r) d = Some row" "stored_form r"
    "d' = d\<lparr>t_runs := put_row ru_id (run_merge r row) (t_runs d), t_run_steps := saved_steps r d\<rparr>"
  shows "stored_run (cr_id r) d' = Some (r\<lparr>cr_lab := ru_lab row, cr_template := ru_template row,
      cr_triggered_by := ru_triggered_by row\<rparr>) \<and> (k \<noteq> cr_id r \<longrightarrow> stored_run k d' = stored_run k d)"
proof -
  have id: "ru_id (run_merge r row) = cr_id r" using get_run_row_id [OF assms(1)] by (simp add: run_merge_def)
  have "find_row ru_id (ru_id (run_merge r row)) (put_row ru_id (run_merge r row) (t_runs d)) = Some (run_merge r row)"
    by (rule find_row_put_same) (use assms(1) id in \<open>simp add: get_run_row_def\<close>)
  then have row: "get_run_row (cr_id r) d' = Some (run_merge r row)" by (simp add: get_run_row_def assms(3) id)
  have steps: "list_run_step_rows (cr_id r) d' = step_rows (cr_id r) 0 (cr_steps r)"
    using assms(2) by (simp add: list_run_step_rows_def assms(3) saved_steps_def stored_form_def sort_step_rows)
  have ts: "timestamptz_ptr (cr_started_at r) = cr_started_at r" "timestamptz_ptr (cr_finished_at r) = cr_finished_at r"
    using assms(2) by (auto simp: stored_form_def timestamptz_ptr_def timestamptz_def split: option.splits)
  have 1: "stored_run (cr_id r) d' = Some (r\<lparr>cr_lab := ru_lab row, cr_template := ru_template row,
      cr_triggered_by := ru_triggered_by row\<rparr>)"
    using assms(2) id by (simp add: stored_run_def row steps step_rows_results stored_form_def check_run_from_row_def run_merge_def ts)
  have "stored_run k d' = stored_run k d" if "k \<noteq> cr_id r"
  proof -
    have "get_run_row k d' = get_run_row k d"
      using that id by (simp add: get_run_row_def assms(3) find_row_put_other)
    moreover have "filter (\<lambda>s. rw_run s = k) (saved_steps r d) = filter (\<lambda>s. rw_run s = k) (t_run_steps d)"
      using that by (auto simp: saved_steps_def intro: filter_cong)
    ultimately show ?thesis by (simp add: stored_run_def list_run_step_rows_def assms(3))
  qed
  with 1 show ?thesis by blast
qed

lemma run_create_InrD:
  assumes "run_create r w = (Inr (), w')" "cr_id r \<noteq> 0"
  shows "\<exists>now. w_db w' = (w_db w)\<lparr>t_runs := t_runs (w_db w) @ [check_run_params (cr_id r) r now],
      t_run_steps := saved_steps r (w_db w)\<rparr> \<and> get_run_row (cr_id r) (w_db w) = None \<and> w_snap w' = w_snap w \<and>
    run_state_ok (cr_state r) \<and> cr_lab r \<in> lr_id ` set (t_labs (w_db w)) \<and> cr_template r \<in> ct_id ` set (t_templates (w_db w))"
proof -
  from assms obtain w1 where cre: "tx_stmt (create_check_run (check_run_params (cr_id r) r)) w = (Inr (), w1)"
    and rep: "replace_check_run_steps r w1 = (Inr (), w')"
    by (auto simp: run_create_def check_run_id_arg_def dest!: bind_InrD on_err_InrD)
  have "get_run_row (cr_id r) (w_db w) = None" if "cr_id r \<notin> ru_id ` set (t_runs (w_db w))"
    using that by (simp add: get_run_row_def find_row_None_iff)
  with tx_stmt_InrD [OF cre] obtain now where "w_db w1 = (w_db w)\<lparr>t_runs := t_runs (w_db w) @ [check_run_params (cr_id r) r now]\<rparr>"
    "get_run_row (cr_id r) (w_db w) = None" "w_snap w1 = w_snap w" "run_state_ok (cr_state r)"
    "cr_lab r \<in> lr_id ` set (t_labs (w_db w))" "cr_template r \<in> ct_id ` set (t_templates (w_db w))"
    by (auto simp: create_check_run_def check_run_params_def Let_def split: if_splits option.splits)
  with replace_steps_InrD [OF rep assms(2)] show ?thesis by (intro exI [of _ now]) (simp add: saved_steps_def)
qed

lemma stored_run_created:
  assumes "get_run_row (cr_id r) d = None" "stored_form r"
    "d' = d\<lparr>t_runs := t_runs d @ [check_run_params (cr_id r) r now], t_run_steps := saved_steps r d\<rparr>"
  shows "stored_run (cr_id r) d' = Some r \<and> (k \<noteq> cr_id r \<longrightarrow> stored_run k d' = stored_run k d)"
proof -
  have row: "get_run_row k d' = (if k = cr_id r then Some (check_run_params (cr_id r) r now) else get_run_row k d)" for k
    using assms(1) by (auto simp: get_run_row_def assms(3) find_row_append check_run_params_def split: option.splits)
  have "list_run_step_rows (cr_id r) d' = step_rows (cr_id r) 0 (cr_steps r)"
    using assms(2) by (simp add: list_run_step_rows_def assms(3) saved_steps_def stored_form_def sort_step_rows)
  moreover have "timestamptz_ptr (cr_started_at r) = cr_started_at r" "timestamptz_ptr (cr_finished_at r) = cr_finished_at r"
    using assms(2) by (auto simp: stored_form_def timestamptz_ptr_def timestamptz_def split: option.splits)
  ultimately have "stored_run (cr_id r) d' = Some r"
    using assms(2) by (simp add: stored_run_def row step_rows_results stored_form_def check_run_from_row_def check_run_params_def)
  moreover have "stored_run k d' = stored_run k d" if "k \<noteq> cr_id r"
  proof -
    have "filter (\<lambda>s. rw_run s = k) (saved_steps r d) = filter (\<lambda>s. rw_run s = k) (t_run_steps d)"
      using that by (auto simp: saved_steps_def intro: filter_cong)
    with that show ?thesis by (simp add: stored_run_def list_run_step_rows_def assms(3)) (simp add: row [unfolded assms(3)])
  qed
  ultimately show ?thesis by blast
qed

section \<open>Properties\<close>

text \<open>
  check runs survive the database. A run that was created, or saved over the run with its
  identifier, is read back as it was, with the steps of its report in their order; a save
  leaves the lab, the template and the user of the stored run as they are, and neither touches
  another run.
\<close>
theorem check_run_roundtrip:
  assumes "stored_form r" "no_db_faults w'"
  shows "(with_tx (run_create r) w = (Inr (), w') \<longrightarrow> (\<exists>w''. run_get_by_id (cr_id r) w' = (Inr r, w''))) \<and>
    (stored_run (cr_id r) (w_db w) = Some old \<longrightarrow> with_tx (run_save r) w = (Inr (), w') \<longrightarrow>
      (\<exists>w''. run_get_by_id (cr_id r) w' = (Inr (r\<lparr>cr_lab := cr_lab old, cr_template := cr_template old,
          cr_triggered_by := cr_triggered_by old\<rparr>), w''))) \<and>
    (with_tx (run_create r) w = (Inr (), w') \<or> with_tx (run_save r) w = (Inr (), w') \<and> stored_run (cr_id r) (w_db w) \<noteq> None \<longrightarrow>
      (\<forall>k. k \<noteq> cr_id r \<longrightarrow> stored_run k (w_db w') = stored_run k (w_db w)))"
proof -
  have nz: "cr_id r \<noteq> 0" using assms(1) by (simp add: stored_form_def)
  have create: "stored_run (cr_id r) (w_db w') = Some r \<and> w_snap w' = None \<and> (\<forall>k. k \<noteq> cr_id r \<longrightarrow> stored_run k (w_db w') = stored_run k (w_db w))"
    if tx: "with_tx (run_create r) w = (Inr (), w')"
  proof -
    from with_tx_InrD [OF tx] obtain w2 where c: "run_create r (w\<lparr>w_stmt := Suc (w_stmt w), w_snap := Some (w_db w), w_aborted := False\<rparr>) = (Inr (), w2)"
      and w': "w_db w' = w_db w2" "w_snap w' = None" by auto
    from run_create_InrD [OF c nz] obtain now where d: "w_db w2 = (w_db w)\<lparr>t_runs := t_runs (w_db w) @ [check_run_params (cr_id r) r now],
      t_run_steps := saved_steps r (w_db w)\<rparr>" "get_run_row (cr_id r) (w_db w) = None" by auto
    from stored_run_created [OF d(2) assms(1) d(1)] w' show ?thesis by simp
  qed
  have save: "stored_run (cr_id r) (w_db w') = Some (r\<lparr>cr_lab := cr_lab old, cr_template := cr_template old,
      cr_triggered_by := cr_triggered_by old\<rparr>) \<and> w_snap w' = None \<and> (\<forall>k. k \<noteq> cr_id r \<longrightarrow> stored_run k (w_db w') = stored_run k (w_db w))"
    if old: "stored_run (cr_id r) (w_db w) = Some old" and tx: "with_tx (run_save r) w = (Inr (), w')" for old
  proof -
    from old obtain row where row: "get_run_row (cr_id r) (w_db w) = Some row" "cr_lab old = ru_lab row"
      "cr_template old = ru_template row" "cr_triggered_by old = ru_triggered_by row"
      by (auto simp: stored_run_def check_run_from_row_def)
    from with_tx_InrD [OF tx] obtain w2 where s: "run_save r (w\<lparr>w_stmt := Suc (w_stmt w), w_snap := Some (w_db w), w_aborted := False\<rparr>) = (Inr (), w2)"
      and w': "w_db w' = w_db w2" "w_snap w' = None" by auto
    from run_save_InrD [OF s nz, of row] row(1) have "w_db w2 = (w_db w)\<lparr>t_runs := put_row ru_id (run_merge r row) (t_runs (w_db w)),
      t_run_steps := saved_steps r (w_db w)\<rparr>" by simp
    from stored_run_saved [OF row(1) assms(1) this] w' row(2-4) show ?thesis by simp
  qed
  have get: "\<exists>w''. run_get_by_id (cr_id r) w' = (Inr x, w'')" if "stored_run (cr_id r) (w_db w') = Some x" "w_snap w' = None" for x
    using run_get_ok [OF assms(2) that(2,1) nz] by blast
  have 1: "with_tx (run_create r) w = (Inr (), w') \<longrightarrow> (\<exists>w''. run_get_by_id (cr_id r) w' = (Inr r, w''))"
    using create get by blast
  have 2: "stored_run (cr_id r) (w_db w) = Some old \<longrightarrow> with_tx (run_save r) w = (Inr (), w') \<longrightarrow>
      (\<exists>w''. run_get_by_id (cr_id r) w' = (Inr (r\<lparr>cr_lab := cr_lab old, cr_template := cr_template old,
          cr_triggered_by := cr_triggered_by old\<rparr>), w''))"
    using save get by blast
  show ?thesis using 1 2 create save by (metis option.exhaust)
qed

definition sample_run :: "uuid \<Rightarrow> run_state \<Rightarrow> check_run" where
  "sample_run i st = \<lparr>cr_id = i, cr_lab = 7, cr_template = 4, cr_triggered_by = Some 1, cr_state = st,
     cr_started_at = (if st = Queued then None else Some 60), cr_finished_at = (if run_terminal st then Some 70 else None),
     cr_summary = run_state_text st, cr_stdout = ''out'', cr_steps = (if run_terminal st
       then [\<lparr>sr_task = ''ping'', sr_status = StepOK, sr_expected = None, sr_actual = Some (JInt 1), sr_message = []\<rparr>,
             \<lparr>sr_task = ''users'', sr_status = StepFailed, sr_expected = None, sr_actual = None, sr_message = ''no''\<rparr>]
       else [])\<rparr>"

definition sample_checks :: db where
  "sample_checks = sample_labs\<lparr>t_users := [\<lparr>uw_id = 1, uw_display_name = ''s'', uw_email = None, uw_role = RoleStudent,
       uw_created_at = 1\<rparr>],
     t_templates := [\<lparr>ct_id = 4, ct_slug = ''users'', ct_name = ''Users'', ct_playbook = ''/checks/users.yml'', ct_timeout = 60\<rparr>]\<rparr>"

lemma check_run_roundtrip_witness:
  "\<exists>w' w''. with_tx (run_create (sample_run 5 Passed)) (world_of () sample_checks) = (Inr (), w') \<and>
     run_get_by_id 5 w' = (Inr (sample_run 5 Passed), w'')"
proof -
  let ?w = "world_of () sample_checks"
  have "case with_tx (run_create (sample_run 5 Passed)) ?w of (Inl _, _) \<Rightarrow> False | (Inr _, _) \<Rightarrow> True" by code_simp
  then obtain w' where run: "with_tx (run_create (sample_run 5 Passed)) ?w = (Inr (), w')"
    by (auto split: prod.splits sum.splits)
  from keepsD [OF outer_keeps(1) [OF keeps_outer_tx [OF keeps_outer_run(1)]] _ run] have "no_db_faults w'"
    by (simp add: no_db_faults_def quiet_env_def)
  moreover have "stored_form (sample_run 5 Passed)" by (simp add: stored_form_def sample_run_def run_terminal_def step_ok_def)
  ultimately show ?thesis using check_run_roundtrip [of "sample_run 5 Passed" w' ?w] run by (simp add: sample_run_def)
qed

end
