(* ===== verification/VerifyApp.thy ===== *)
theory VerifyApp
  imports CheckStore LabApp
begin

text \<open>
  \<open>internal/app/verify\<close>: running checks. A user asks for a check of a ready lab, which stores a
  queued run and hands it to the queue; the worker loads the run, asks the runner for its report
  and stores the verdict. The runner is a parameter whose state is part of the world's; the
  logger and the scrubbing of the key are left out, and the actor is that of \<open>app/lab\<close>.
\<close>

record 'c check_deps =
  vd_lib :: lib
  vd_kek :: bytes
  vd_runner :: "check_request \<Rightarrow> 'c \<Rightarrow> (check_result \<times> err option) \<times> 'c"

definition default_ssh_user :: string where "default_ssh_user = ''ubuntu''"

definition check_task_payload :: "lib \<Rightarrow> check_run_id \<Rightarrow> json" where
  "check_task_payload L i = JObj [(''check_run_id'', JStr (uuid_string L i))]"

definition check_task :: "lib \<Rightarrow> check_run_id \<Rightarrow> task" where
  "check_task L i = \<lparr>tk_type = TaskRunCheck, tk_payload = check_task_payload L i,
     tk_key = ''check:'' @ uuid_string L i @ '':1'', tk_queue = [], tk_max_retries = 3\<rparr>"

definition check_can_lab :: "actor \<Rightarrow> action \<Rightarrow> lab \<Rightarrow> ('c, unit) prog" where
  "check_can_lab a act l =
     (case policy_can \<lparr>sb_user = ac_user a, sb_role = ac_role a,
          sb_course_roles = map_of (ac_course_roles a)\<rparr> act
        (LabResource (lb_id l) (lb_student l) (lb_course l)) of
        None \<Rightarrow> ret ()
      | Some e \<Rightarrow> throw e)"

section \<open>Asking for a check and reading runs\<close>

definition queued_run :: "check_run_id \<Rightarrow> lab_id \<Rightarrow> check_template_id \<Rightarrow> user_id \<Rightarrow> check_run" where
  "queued_run i lab template user = \<lparr>cr_id = i, cr_lab = lab, cr_template = template, cr_triggered_by = Some user,
     cr_state = Queued, cr_started_at = None, cr_finished_at = None, cr_summary = [], cr_stdout = [], cr_steps = []\<rparr>"

text \<open>\<open>queue_check\<close> is \<open>RunCheck\<close> after its guards.\<close>

definition queue_check :: "lib \<Rightarrow> actor \<Rightarrow> lab_id \<Rightarrow> check_template_id \<Rightarrow> ('c, check_run) prog" where
  "queue_check L a lab template =
     bind new_uuid (\<lambda>i. let r = queued_run i lab template (ac_user a) in
     bind (with_tx (run_create r)) (\<lambda>_.
     bind (attempt (enqueue (check_task L i))) (\<lambda>_.
     ret r)))"

definition run_check :: "lib \<Rightarrow> actor \<Rightarrow> lab_id \<Rightarrow> check_template_id \<Rightarrow> ('c, check_run) prog" where
  "run_check L a lab template =
     bind (lab_get_by_id lab) (\<lambda>l.
     bind (check_can_lab a ActionCheckRun l) (\<lambda>_.
     if lb_state l \<noteq> Ready then throw (InvalidTransition ''lab'' (lstate_text (lb_state l)) ''run_check'')
     else bind (template_get_by_id template) (\<lambda>_. queue_check L a (lb_id l) template)))"

definition get_check_run :: "actor \<Rightarrow> check_run_id \<Rightarrow> ('c, check_run) prog" where
  "get_check_run a i =
     bind (run_get_by_id i) (\<lambda>r.
     bind (lab_get_by_id (cr_lab r)) (\<lambda>l.
     bind (check_can_lab a ActionLabRead l) (\<lambda>_.
     ret r)))"

definition list_checks_by_lab :: "actor \<Rightarrow> lab_id \<Rightarrow> ('c, check_run list) prog" where
  "list_checks_by_lab a lab =
     bind (lab_get_by_id lab) (\<lambda>l.
     bind (check_can_lab a ActionLabRead l) (\<lambda>_.
     run_list_by_lab lab 50))"

section \<open>Executing a check\<close>

definition check_save :: "check_run \<Rightarrow> ('c, unit) prog" where
  "check_save r = with_tx (run_save r)"

definition start_queued :: "check_run \<Rightarrow> ('c, check_run) prog" where
  "start_queued r =
     (if cr_state r = Queued then bind clock_now (\<lambda>now. from_sum (run_start now r)) else ret r)"

definition finish_errored :: "check_run \<Rightarrow> string \<Rightarrow> step_result list \<Rightarrow> string \<Rightarrow> ('c, unit) prog" where
  "finish_errored r summary steps stdout =
     bind (start_queued r) (\<lambda>r.
     bind clock_now (\<lambda>now.
     bind (from_sum (run_finish Errored summary steps stdout now r)) (\<lambda>r.
     check_save r)))"

definition start_and_save :: "check_run \<Rightarrow> ('c, check_run) prog" where
  "start_and_save r =
     (if cr_state r = Queued
      then bind (start_queued r) (\<lambda>r. bind (check_save r) (\<lambda>_. ret r))
      else ret r)"

definition check_request_for :: "lib \<Rightarrow> lab \<Rightarrow> check_template \<Rightarrow> bytes \<Rightarrow> check_request" where
  "check_request_for L l t key = \<lparr>rq_playbook = ct_playbook t, rq_host = hd (ki_floating_ips (lb_resources l)),
     rq_ssh_user = default_ssh_user, rq_key = key,
     rq_vars = [(''lab_id'', uuid_string L (lb_id l)), (''check_template'', ct_slug t)], rq_timeout = ct_timeout t\<rparr>"

definition final_state :: "check_result \<Rightarrow> run_state" where
  "final_state res = (if run_state_text (rs_state res) = [] \<or> \<not> run_terminal (rs_state res) then Errored else rs_state res)"

definition run_summary :: "check_result \<Rightarrow> err option \<Rightarrow> string" where
  "run_summary res e = (case e of None \<Rightarrow> run_state_text (final_state res) | Some e \<Rightarrow> error_text e)"

definition on_runner :: "'c check_deps \<Rightarrow> check_request \<Rightarrow> ('c, check_result \<times> err option) prog" where
  "on_runner D rq = on_cloud (\<lambda>c. case vd_runner D rq c of (out, c) \<Rightarrow> (Inr out, c))"

definition finish_run :: "check_run \<Rightarrow> check_result \<Rightarrow> err option \<Rightarrow> ('c, unit) prog" where
  "finish_run r res e =
     bind clock_now (\<lambda>now.
     bind (from_sum (run_finish (final_state res) (run_summary res e) (rs_steps res) (rs_stdout res) now r)) (\<lambda>r.
     check_save r))"

text \<open>What \<open>ExecuteCheck\<close> does with a run that is not terminal, and the whole of it.\<close>

definition execute_run :: "'c check_deps \<Rightarrow> check_run \<Rightarrow> ('c, unit) prog" where
  "execute_run D r =
     bind (lab_get_by_id (cr_lab r)) (\<lambda>l.
     case lb_checker_key l of
       None \<Rightarrow> finish_errored r ''lab is missing target host or checker key'' [] []
     | Some secret \<Rightarrow>
         if ki_floating_ips (lb_resources l) = []
         then finish_errored r ''lab is missing target host or checker key'' [] []
         else
           bind (template_get_by_id (cr_template r)) (\<lambda>t.
           bind (secret_get (vd_lib D) (vd_kek D) secret ''ssh_private_key'' (uuid_string (vd_lib D) (lb_id l))) (\<lambda>key.
           bind (start_and_save r) (\<lambda>r.
           bind (on_runner D (check_request_for (vd_lib D) l t key)) (\<lambda>(res, e).
           finish_run r res e)))))"

definition execute_check :: "'c check_deps \<Rightarrow> check_run_id \<Rightarrow> ('c, unit) prog" where
  "execute_check D i =
     bind (run_get_by_id i) (\<lambda>r. if run_terminal (cr_state r) then ret () else execute_run D r)"

definition check_id_of_payload :: "lib \<Rightarrow> json \<Rightarrow> err + check_run_id" where
  "check_id_of_payload L j =
     (case (case j of JNull \<Rightarrow> Inr [] | JObj _ \<Rightarrow> decode_string (json_field ''check_run_id'' j) | _ \<Rightarrow> Inl unmarshal_error) of
        Inl e \<Rightarrow> Inl (Wrapped ''verify: bad task payload'' e)
      | Inr s \<Rightarrow> (case uuid_parse L s of
          None \<Rightarrow> Inl (Wrapped (''verify: bad check run id '' @ [CHR 0x22] @ s @ [CHR 0x22]) (Plain ''invalid UUID''))
        | Some i \<Rightarrow> Inr i))"

definition check_handle_task :: "'c check_deps \<Rightarrow> task \<Rightarrow> ('c, unit) prog" where
  "check_handle_task D t =
     bind (from_sum (check_id_of_payload (vd_lib D) (tk_payload t))) (execute_check D)"

section \<open>A delivery moves the stored run along the aggregate's steps\<close>

text \<open>The tables around the run with identifier \<open>i\<close>: the labs, the projects and all other runs.\<close>

definition around :: "uuid \<Rightarrow> db \<Rightarrow> db \<Rightarrow> bool" where
  "around i d0 d \<longleftrightarrow> t_labs d = t_labs d0 \<and> t_projects d = t_projects d0 \<and>
     (\<forall>k. k \<noteq> i \<longrightarrow> stored_run k d = stored_run k d0)"

definition at_run :: "env \<Rightarrow> db \<Rightarrow> check_run \<Rightarrow> 'c world \<Rightarrow> bool" where
  "at_run E d0 r w \<longleftrightarrow> w_env w = E \<and> db_inv (\<lambda>d. around (cr_id r) d0 d \<and> stored_run (cr_id r) d = Some r) w"

lemma keeps_conj: "keeps I m \<Longrightarrow> keeps J m \<Longrightarrow> keeps (\<lambda>w. I w \<and> J w) m"
  by (auto simp: keeps_def)

lemma stored_run_audit: "insert_audit_event i k a st si p rq t now d = Inr (x, d') \<Longrightarrow>
    (\<forall>j. stored_run j d' = stored_run j d) \<and> t_labs d' = t_labs d \<and> t_projects d' = t_projects d"
  by (auto simp: insert_audit_event_def Let_def stored_run_def get_run_row_def list_run_step_rows_def split: if_splits)

lemma keeps_outer_secret: "keeps (\<lambda>w. outer w = X) (secret_get L kek i kind ref_id)"
  unfolding secret_get_def store_get_def append_access_audit_def audit_append_def audit_event_uuid_def
  by (intro keeps_intros)

lemma at_run_silent: "silent m \<Longrightarrow> keeps (at_run E d0 r) m"
  by (rule keepsI) (drule (1) silentD, simp add: at_run_def db_inv_def same_stateD)

lemma at_run_secret: "keeps (at_run E d0 r) (secret_get L kek i kind ref_id)"
  unfolding at_run_def
  by (intro keeps_conj outer_keeps(1) [OF keeps_outer_secret] keeps_secret_get stmt_keepsI)
    (drule stored_run_audit, simp add: around_def)

lemma at_run_runner: "keeps (at_run E d0 r) (on_runner D rq)"
  unfolding at_run_def on_runner_def
  by (intro keeps_conj keeps_intros) (auto simp: keeps_def on_cloud_def split: prod.splits)

lemma keeps_outer_save: "keeps (\<lambda>w. outer w = X) (check_save r)"
  unfolding check_save_def by (intro keeps_intros)

text \<open>A save that commits replaces the stored run; one that fails leaves it.\<close>

lemma at_run_save:
  assumes "cr_id r' = cr_id r" "cr_lab r' = cr_lab r" "cr_template r' = cr_template r"
    "cr_triggered_by r' = cr_triggered_by r" "stored_form r'"
  shows "spec (at_run E d0 r) (check_save r') (\<lambda>_. at_run E d0 r') (\<lambda>_. at_run E d0 r)"
proof (rule specI)
  fix w x w'
  assume I: "at_run E d0 r w" and run: "check_save r' w = (Inr x, w')"
  have env: "w_env w' = E"
    by (rule keepsD [OF outer_keeps(1) [OF keeps_outer_save] _ run]) (use I in \<open>simp add: at_run_def\<close>)
  from I have old: "stored_run (cr_id r') (w_db w) = Some r" and ar: "around (cr_id r) d0 (w_db w)"
    using assms(1) by (simp_all add: at_run_def db_inv_def)
  from with_tx_InrD [OF run [unfolded check_save_def]] obtain w2 where
    s: "run_save r' (w\<lparr>w_stmt := Suc (w_stmt w), w_snap := Some (w_db w), w_aborted := False\<rparr>) = (Inr (), w2)"
    and w': "w_db w' = w_db w2" by auto
  from old obtain row where row: "get_run_row (cr_id r') (w_db w) = Some row" "cr_lab r = ru_lab row"
    "cr_template r = ru_template row" "cr_triggered_by r = ru_triggered_by row"
    by (auto simp: stored_run_def check_run_from_row_def)
  have nz: "cr_id r' \<noteq> 0" using assms(5) by (simp add: stored_form_def)
  from run_save_InrD [OF s nz, of row] row(1) have d: "w_db w2 = (w_db w)\<lparr>t_runs := put_row ru_id (run_merge r' row) (t_runs (w_db w)),
      t_run_steps := saved_steps r' (w_db w)\<rparr>" by simp
  have "stored_run (cr_id r') (w_db w2) = Some r'" and "k \<noteq> cr_id r' \<longrightarrow> stored_run k (w_db w2) = stored_run k (w_db w)" for k
    using stored_run_saved [OF row(1) assms(5) d, of k] row(2-4) assms(2-4) by simp_all
  with env ar w' assms(1) show "at_run E d0 r' w'" by (simp add: at_run_def db_inv_def around_def d)
next
  fix w e w'
  assume I: "at_run E d0 r w" and run: "check_save r' w = (Inl e, w')"
  have "w_env w' = E"
    by (rule keepsD [OF outer_keeps(1) [OF keeps_outer_save] _ run]) (use I in \<open>simp add: at_run_def\<close>)
  with I with_tx_atomic [OF run [unfolded check_save_def]] show "at_run E d0 r w'" by (simp add: at_run_def db_inv_def)
qed

text \<open>What the worker relies on: clocks do not read the zero time, and reports fit their columns.\<close>

definition clock_set :: "env \<Rightarrow> bool" where
  "clock_set E \<longleftrightarrow> (\<forall>n. e_clock E n \<noteq> 0)"

definition report_ok :: "check_result \<Rightarrow> bool" where
  "report_ok res \<longleftrightarrow> length (rs_steps res) < 2 ^ 31 \<and> (\<forall>s \<in> set (rs_steps res). step_ok s)"

definition runner_ok :: "(check_request \<Rightarrow> 'c \<Rightarrow> (check_result \<times> err option) \<times> 'c) \<Rightarrow> bool" where
  "runner_ok R \<longleftrightarrow> (\<forall>rq c. report_ok (fst (fst (R rq c))))"

definition advanced :: "env \<Rightarrow> db \<Rightarrow> check_run \<Rightarrow> 'c world \<Rightarrow> bool" where
  "advanced E d0 r w \<longleftrightarrow> (\<exists>r'. cr_id r' = cr_id r \<and> run_step\<^sup>*\<^sup>* r r' \<and> at_run E d0 r' w)"

definition settled :: "env \<Rightarrow> db \<Rightarrow> check_run \<Rightarrow> 'c world \<Rightarrow> bool" where
  "settled E d0 r w \<longleftrightarrow> (\<exists>r'. cr_id r' = cr_id r \<and> run_step\<^sup>*\<^sup>* r r' \<and> run_terminal (cr_state r') \<and> at_run E d0 r' w)"

lemma at_run_advanced: "cr_id r' = cr_id r \<Longrightarrow> run_step\<^sup>*\<^sup>* r r' \<Longrightarrow> at_run E d0 r' w \<Longrightarrow> advanced E d0 r w"
  by (auto simp: advanced_def)

text \<open>Nothing that happens to a run changes what it is a run of.\<close>

definition same_check :: "check_run \<Rightarrow> check_run \<Rightarrow> bool" where
  "same_check r r' \<longleftrightarrow> cr_id r' = cr_id r \<and> cr_lab r' = cr_lab r \<and> cr_template r' = cr_template r \<and>
     cr_triggered_by r' = cr_triggered_by r"

lemma same_check_refl [simp]: "same_check r r"
  by (simp add: same_check_def)

lemma same_check_trans: "same_check a b \<Longrightarrow> same_check b c \<Longrightarrow> same_check a c"
  by (simp add: same_check_def)

lemma same_check_id: "same_check r r' \<Longrightarrow> cr_id r' = cr_id r"
  by (simp add: same_check_def)

lemma run_start_form:
  "run_start now r = Inr r' \<Longrightarrow> stored_form r \<Longrightarrow> now \<noteq> 0 \<Longrightarrow> stored_form r' \<and> run_step r r' \<and> same_check r r'"
  by (frule rs_start) (auto simp: run_start_def stored_form_def same_check_def split: if_splits)

lemma run_finish_form:
  "run_finish f s st so now r = Inr r' \<Longrightarrow> stored_form r \<Longrightarrow> now \<noteq> 0 \<Longrightarrow> length st < 2 ^ 31 \<Longrightarrow> \<forall>x \<in> set st. step_ok x \<Longrightarrow>
     stored_form r' \<and> run_step r r' \<and> run_terminal (cr_state r') \<and> same_check r r'"
  by (frule rs_finish) (auto simp: run_finish_def stored_form_def same_check_def split: if_splits)

text \<open>A save of the next state of a run, after reading the clock.\<close>

lemma spec_clock:
  assumes "clock_set E" "\<And>now. now \<noteq> 0 \<Longrightarrow> spec (at_run E d0 r) (f now) Q (\<lambda>_. advanced E d0 r)"
  shows "spec (at_run E d0 r) (bind clock_now f) Q (\<lambda>_. advanced E d0 r)"
proof (rule spec_bind [where R = "\<lambda>now w. now \<noteq> 0 \<and> at_run E d0 r w"])
  show "spec (at_run E d0 r) clock_now (\<lambda>now w. now \<noteq> 0 \<and> at_run E d0 r w) (\<lambda>_. advanced E d0 r)"
    using assms(1) by (auto simp: spec_def clock_now_def clock_set_def at_run_def db_inv_def)
  show "spec (\<lambda>w. now \<noteq> 0 \<and> at_run E d0 r w) (f now) Q (\<lambda>_. advanced E d0 r)" for now
    using assms(2) [of now] by (auto simp: spec_def)
qed

lemma spec_save_step:
  assumes "run_step\<^sup>*\<^sup>* r r'" "stored_form r'" "same_check r r'"
  shows "spec (at_run E d0 r) (check_save r') (\<lambda>_. at_run E d0 r') (\<lambda>_. advanced E d0 r)"
  by (rule spec_weaken [OF at_run_save]) (use assms in \<open>auto simp: same_check_def intro: at_run_advanced\<close>)

lemma final_state_terminal: "run_terminal (final_state res)"
  by (simp add: final_state_def) (simp add: run_terminal_def)

lemma spec_from_sum_bind:
  "(\<And>e. s = Inl e \<Longrightarrow> \<forall>w. P w \<longrightarrow> E e w) \<Longrightarrow> (\<And>x. s = Inr x \<Longrightarrow> spec P (f x) Q E) \<Longrightarrow> spec P (bind (from_sum s) f) Q E"
  by (cases s) (auto simp: spec_def from_sum_def bind_def)

lemma finish_settles:
  assumes "clock_set E" "stored_form r" "length st < 2 ^ 31" "\<forall>x \<in> set st. step_ok x" "run_step\<^sup>*\<^sup>* r0 r" "same_check r0 r"
  shows "spec (at_run E d0 r0) (bind clock_now (\<lambda>now. bind (from_sum (run_finish f s st so now r)) check_save))
    (\<lambda>_. settled E d0 r0) (\<lambda>_. advanced E d0 r0)"
proof (rule spec_clock [OF assms(1)], rule spec_from_sum_bind)
  fix now :: time and r'
  assume now: "now \<noteq> 0" and r': "run_finish f s st so now r = Inr r'"
  note f = run_finish_form [OF r' assms(2) now assms(3,4)]
  then have r: "run_step\<^sup>*\<^sup>* r0 r'" "same_check r0 r'"
    using assms(5,6) same_check_trans by (blast intro: rtranclp.rtrancl_into_rtrancl)+
  show "spec (at_run E d0 r0) (check_save r') (\<lambda>_. settled E d0 r0) (\<lambda>_. advanced E d0 r0)"
    by (rule spec_weaken [OF spec_save_step]) (use f r same_check_id in \<open>auto simp: settled_def\<close>)
qed (auto intro: at_run_advanced)

lemma from_advanced:
  assumes "cr_id r1 = cr_id r" "run_step\<^sup>*\<^sup>* r r1"
  shows "settled E d0 r1 w \<Longrightarrow> settled E d0 r w" "advanced E d0 r1 w \<Longrightarrow> advanced E d0 r w"
  using assms rtranclp_trans [of run_step r r1] unfolding settled_def advanced_def by metis+

lemma start_and_save_advances:
  assumes "clock_set E" "stored_form r"
  shows "spec (at_run E d0 r) (start_and_save r)
    (\<lambda>r1 w. at_run E d0 r1 w \<and> stored_form r1 \<and> cr_id r1 = cr_id r \<and> run_step\<^sup>*\<^sup>* r r1) (\<lambda>_. advanced E d0 r)"
proof (cases "cr_state r = Queued")
  case False
  with assms(2) show ?thesis by (auto simp: start_and_save_def spec_def ret_def)
next
  case True
  then have eq: "start_and_save r = bind clock_now (\<lambda>now. bind (from_sum (run_start now r)) (\<lambda>r1. bind (check_save r1) (\<lambda>_. ret r1)))"
    by (simp add: start_and_save_def start_queued_def bind_assoc)
  show ?thesis unfolding eq
  proof (rule spec_clock [OF assms(1)], rule spec_from_sum_bind)
    fix now :: time and r1
    assume now: "now \<noteq> 0" and r1: "run_start now r = Inr r1"
    note f = run_start_form [OF r1 assms(2) now]
    then have s: "run_step\<^sup>*\<^sup>* r r1" by auto
    show "spec (at_run E d0 r) (bind (check_save r1) (\<lambda>_. ret r1))
      (\<lambda>r1 w. at_run E d0 r1 w \<and> stored_form r1 \<and> cr_id r1 = cr_id r \<and> run_step\<^sup>*\<^sup>* r r1) (\<lambda>_. advanced E d0 r)"
      by (rule spec_bind [OF spec_save_step [OF s]]) (use f s in \<open>auto simp: same_check_id intro: spec_ret\<close>)
  qed (auto intro: at_run_advanced)
qed

lemma finish_errored_settles:
  assumes "clock_set E" "stored_form r"
  shows "spec (at_run E d0 r) (finish_errored r msg [] []) (\<lambda>_. settled E d0 r) (\<lambda>_. advanced E d0 r)"
proof (cases "cr_state r = Queued")
  case False
  then have eq: "finish_errored r msg [] [] = bind clock_now (\<lambda>now. bind (from_sum (run_finish Errored msg [] [] now r)) check_save)"
    by (simp add: finish_errored_def start_queued_def)
  show ?thesis unfolding eq by (rule finish_settles) (use assms in auto)
next
  case True
  then have eq: "finish_errored r msg [] [] = bind clock_now (\<lambda>now. bind (from_sum (run_start now r)) (\<lambda>r1.
      bind clock_now (\<lambda>now. bind (from_sum (run_finish Errored msg [] [] now r1)) check_save)))"
    by (simp add: finish_errored_def start_queued_def bind_assoc)
  show ?thesis unfolding eq
  proof (rule spec_clock [OF assms(1)], rule spec_from_sum_bind)
    fix now :: time and r1
    assume now: "now \<noteq> 0" and r1: "run_start now r = Inr r1"
    note f = run_start_form [OF r1 assms(2) now]
    show "spec (at_run E d0 r) (bind clock_now (\<lambda>now. bind (from_sum (run_finish Errored msg [] [] now r1)) check_save))
      (\<lambda>_. settled E d0 r) (\<lambda>_. advanced E d0 r)"
      by (rule finish_settles) (use assms(1) f in auto)
  qed (auto intro: at_run_advanced)
qed

lemma execute_rest_settles:
  assumes "clock_set E" "runner_ok (vd_runner D)" "stored_form r"
  shows "spec (at_run E d0 r) (bind (template_get_by_id (cr_template r)) (\<lambda>t.
      bind (secret_get L kek secret kind ref_id) (\<lambda>key.
      bind (start_and_save r) (\<lambda>r.
      bind (on_runner D (rq t key)) (\<lambda>(res, e). finish_run r res e))))) (\<lambda>_. settled E d0 r) (\<lambda>_. advanced E d0 r)"
proof (rule spec_keeps_bind [OF at_run_silent [OF silent_check_reads(4)]],
    rule spec_keeps_bind [OF at_run_secret])
  fix t key
  have body: "spec (at_run E d0 r1) (bind (on_runner D (rq t key)) (\<lambda>(res, e). finish_run r1 res e))
      (\<lambda>_. settled E d0 r1) (\<lambda>_. advanced E d0 r1)" if "stored_form r1" for r1
  proof (rule spec_bind [where R = "\<lambda>out w. report_ok (fst out) \<and> at_run E d0 r1 w"])
    show "spec (at_run E d0 r1) (on_runner D (rq t key)) (\<lambda>out w. report_ok (fst out) \<and> at_run E d0 r1 w) (\<lambda>_. advanced E d0 r1)"
      using assms(2) by (auto simp: spec_def on_runner_def on_cloud_def runner_ok_def at_run_def db_inv_def split: prod.splits)
        (metis fst_conv)
    fix out
    show "spec (\<lambda>w. report_ok (fst out) \<and> at_run E d0 r1 w) (case out of (res, e) \<Rightarrow> finish_run r1 res e)
        (\<lambda>_. settled E d0 r1) (\<lambda>_. advanced E d0 r1)"
    proof (cases "report_ok (fst out)")
      case True
      then have "spec (at_run E d0 r1) (finish_run r1 (fst out) (snd out)) (\<lambda>_. settled E d0 r1) (\<lambda>_. advanced E d0 r1)"
        unfolding finish_run_def by (intro finish_settles assms(1) that) (auto simp: report_ok_def)
      then show ?thesis by (cases out) (auto simp: spec_def)
    qed (simp add: spec_def)
  qed
  show "spec (at_run E d0 r) (bind (start_and_save r) (\<lambda>r. bind (on_runner D (rq t key)) (\<lambda>(res, e). finish_run r res e)))
      (\<lambda>_. settled E d0 r) (\<lambda>_. advanced E d0 r)"
  proof (rule spec_bind [OF start_and_save_advances [OF assms(1,3)]])
    fix r1
    show "spec (\<lambda>w. at_run E d0 r1 w \<and> stored_form r1 \<and> cr_id r1 = cr_id r \<and> run_step\<^sup>*\<^sup>* r r1)
       (bind (on_runner D (rq t key)) (\<lambda>(res, e). finish_run r1 res e)) (\<lambda>_. settled E d0 r) (\<lambda>_. advanced E d0 r)"
      using body [of r1] from_advanced [of r1 r] unfolding spec_def by (fastforce split: prod.splits sum.splits)
  qed
qed (auto intro: at_run_advanced)

lemma execute_advances:
  assumes "clock_set E" "runner_ok (vd_runner D)" "stored_form r"
  shows "spec (at_run E d0 r) (execute_run D r) (\<lambda>_. settled E d0 r) (\<lambda>_. advanced E d0 r)"
  unfolding execute_run_def
  by (rule spec_keeps_bind [OF at_run_silent [OF silent_reads(2)]])
    (auto intro!: spec_case_option spec_if finish_errored_settles execute_rest_settles assms intro: at_run_advanced)

lemma no_step_from_terminal: "run_step\<^sup>*\<^sup>* r r' \<Longrightarrow> run_terminal (cr_state r) \<Longrightarrow> r' = r"
  by (induction rule: converse_rtranclp_induct) (auto dest: run_terminal_final)

lemma run_get_state: "run_get_by_id i w = (Inl e, w') \<Longrightarrow> w_db w' = w_db w"
  using silentD [OF silent_check_reads(2)] same_stateD(1) by blast

section \<open>The verdict\<close>

lemma keeps_outer_start: "keeps (\<lambda>w. outer w = X) (start_and_save r)"
  unfolding start_and_save_def start_queued_def by (intro keeps_intros keeps_outer_save)+

definition no_target :: "lab \<Rightarrow> bool" where
  "no_target l \<longleftrightarrow> ki_floating_ips (lb_resources l) = [] \<or> lb_checker_key l = None"

definition reported :: "check_run \<Rightarrow> check_result \<Rightarrow> err option \<Rightarrow> bool" where
  "reported r res e \<longleftrightarrow> cr_state r = final_state res \<and> cr_summary r = run_summary res e \<and>
     cr_steps r = rs_steps res \<and> cr_stdout r = rs_stdout res"

lemma finish_InrD:
  assumes "bind clock_now (\<lambda>now. bind (from_sum (run_finish f s st so now r)) check_save) w = (Inr (), w')"
    "at_run E d0 r0 w" "clock_set E" "stored_form r" "length st < 2 ^ 31" "\<forall>x \<in> set st. step_ok x"
    "run_step\<^sup>*\<^sup>* r0 r" "same_check r0 r"
  shows "\<exists>r'. cr_state r' = f \<and> cr_summary r' = s \<and> cr_steps r' = st \<and> cr_stdout r' = so \<and> cr_id r' = cr_id r0 \<and>
    at_run E d0 r' w' \<and> w_cloud w' = w_cloud w"
proof -
  from bind_InrD [OF assms(1)] obtain now w1 where t: "clock_now w = (Inr now, w1)"
    and run: "bind (from_sum (run_finish f s st so now r)) check_save w1 = (Inr (), w')" by auto
  from run obtain r' where r': "run_finish f s st so now r = Inr r'"
    and sv: "check_save r' w1 = (Inr (), w')" by (auto simp: bind_def from_sum_def split: sum.splits)
  from t assms(2,3) have w1: "now \<noteq> 0" "at_run E d0 r0 w1" "w_cloud w1 = w_cloud w"
    by (auto simp: clock_now_def at_run_def db_inv_def clock_set_def)
  have g: "stored_form r' \<and> run_step r r' \<and> run_terminal (cr_state r') \<and> same_check r r'"
    by (rule run_finish_form [OF r' assms(4) w1(1) assms(5,6)])
  then have g2: "run_step\<^sup>*\<^sup>* r0 r'" "same_check r0 r'"
    using assms(7,8) same_check_trans by (blast intro: rtranclp.rtrancl_into_rtrancl)+
  have "at_run E d0 r' w'" by (rule specD_Inr [OF spec_save_step w1(2) sv]) (use g g2 in auto)
  moreover have "w_cloud w' = w_cloud w" using keepsD [OF outer_keeps(2) [OF keeps_outer_save] w1(3) sv] .
  moreover have "cr_state r' = f \<and> cr_summary r' = s \<and> cr_steps r' = st \<and> cr_stdout r' = so"
    using r' by (auto simp: run_finish_def split: if_splits)
  ultimately show ?thesis using g2 same_check_id by blast
qed

lemma finish_run_InrD:
  assumes "finish_run r res e w = (Inr (), w')" "at_run E d0 r w" "clock_set E" "stored_form r" "report_ok res"
  shows "\<exists>r'. reported r' res e \<and> cr_id r' = cr_id r \<and> at_run E d0 r' w' \<and> w_cloud w' = w_cloud w"
  using finish_InrD [OF assms(1) [unfolded finish_run_def] assms(2-4)] assms(5)
  by (auto simp: report_ok_def reported_def)

lemma finish_errored_InrD:
  assumes "finish_errored r msg [] [] w = (Inr (), w')" "at_run E d0 r w" "clock_set E" "stored_form r"
  shows "\<exists>r'. cr_state r' = Errored \<and> cr_summary r' = msg \<and> cr_steps r' = [] \<and> cr_id r' = cr_id r \<and>
    at_run E d0 r' w' \<and> w_cloud w' = w_cloud w"
proof -
  from bind_InrD [OF assms(1) [unfolded finish_errored_def]] obtain r1 w1 where st: "start_queued r w = (Inr r1, w1)"
    and fin: "bind clock_now (\<lambda>now. bind (from_sum (run_finish Errored msg [] [] now r1)) check_save) w1 = (Inr (), w')" by auto
  have "stored_form r1 \<and> run_step\<^sup>*\<^sup>* r r1 \<and> same_check r r1 \<and> at_run E d0 r w1 \<and> w_cloud w1 = w_cloud w"
  proof (cases "cr_state r = Queued")
    case True
    with st obtain now where r1: "run_start now r = Inr r1" and n: "now = e_clock (w_env w) (w_tick w)" and
      w1: "w1 = w\<lparr>w_tick := Suc (w_tick w)\<rparr>"
      by (auto simp: start_queued_def bind_def clock_now_def from_sum_def)
    have "now \<noteq> 0" using n assms(2,3) by (auto simp: at_run_def clock_set_def)
    from run_start_form [OF r1 assms(4) this] w1 assms(2) show ?thesis by (auto simp: at_run_def db_inv_def)
  next
    case False
    with st assms(2,4) show ?thesis by (simp add: start_queued_def ret_def)
  qed
  with finish_InrD [OF fin _ assms(3), of d0 r] show ?thesis by auto
qed

section \<open>Properties\<close>

text \<open>
  C13: the worker implements the state machine of the aggregate. Whatever fails on the way
  (statements, the secret store, the runner), a delivery of a check moves the stored run along
  steps of the domain's machine, so it never leaves a terminal state, never goes back and keeps what
  it is a run of; a delivery that returns no error leaves it terminal; and neither a lab, nor a project, nor
  another run changes.
\<close>
theorem check_refines_machine:
  assumes "execute_check D i w = (res, w')" "w_snap w = None" "i \<noteq> 0"
    "stored_run i (w_db w) = Some r" "stored_form r" "clock_set (w_env w)" "runner_ok (vd_runner D)"
  shows "\<exists>r'. stored_run i (w_db w') = Some r' \<and> run_step\<^sup>*\<^sup>* r r' \<and>
    (res = Inr () \<longrightarrow> run_terminal (cr_state r')) \<and> (run_terminal (cr_state r) \<longrightarrow> r' = r) \<and>
    t_labs (w_db w') = t_labs (w_db w) \<and> t_projects (w_db w') = t_projects (w_db w) \<and>
    (\<forall>k. k \<noteq> i \<longrightarrow> stored_run k (w_db w') = stored_run k (w_db w))"
proof -
  let ?E = "w_env w" and ?d = "w_db w"
  have id: "cr_id r = i" using assms(4) by (auto simp: stored_run_def check_run_from_row_def dest: get_run_row_id)
  obtain q w1 where q: "run_get_by_id i w = (q, w1)" by fastforce
  have s: "same_state w w1" using silentD [OF silent_check_reads(2) q] .
  have at: "at_run ?E ?d r w1" using s assms(4) id by (simp add: at_run_def db_inv_def around_def same_stateD)
  have "case res of Inl e \<Rightarrow> advanced ?E ?d r w' | Inr _ \<Rightarrow> settled ?E ?d r w'"
  proof (cases q)
    case (Inl e)
    with assms(1) q have "res = Inl e" "w' = w1" by (auto simp: execute_check_def bind_def)
    with at show ?thesis by (auto intro: at_run_advanced)
  next
    case (Inr x)
    with run_get_InrD [OF q [unfolded Inr] assms(3)] assms(2,4) have x: "x = r" by simp
    show ?thesis
    proof (cases "run_terminal (cr_state r)")
      case True
      with assms(1) q Inr x have "res = Inr ()" "w' = w1" by (auto simp: execute_check_def bind_def ret_def)
      with at True show ?thesis by (auto simp: settled_def)
    next
      case False
      note spec = execute_advances [OF assms(6,7,5), of ?d]
      from assms(1) q Inr x False show ?thesis
        by (cases res) (auto simp: execute_check_def bind_unfold [of "run_get_by_id i"]
            intro: specD_Inr [OF spec at] specD_Inl [OF spec at])
    qed
  qed
  then obtain r' where r': "cr_id r' = i" "run_step\<^sup>*\<^sup>* r r'" "at_run ?E ?d r' w'" "res = Inr () \<longrightarrow> run_terminal (cr_state r')"
    using id by (auto simp: settled_def advanced_def split: sum.splits)
  then show ?thesis using no_step_from_terminal [OF r'(2)] by (auto simp: at_run_def db_inv_def around_def)
qed

definition sample_report :: check_result where
  "sample_report = \<lparr>rs_state = RunFailed, rs_steps = cr_steps (sample_run 5 RunFailed), rs_stdout = ''out'',
     rs_stats = \<lparr>as_ok = 1, as_changed = 0, as_failed = 1, as_unreachable = 0, as_skipped = 0\<rparr>\<rparr>"

definition sample_check_deps :: "nat check_deps" where
  "sample_check_deps = \<lparr>vd_lib = sample_lib, vd_kek = replicate 32 7, vd_runner = (\<lambda>rq n. ((sample_report, None), Suc n))\<rparr>"

definition sample_target :: db where
  "sample_target = sample_checks\<lparr>
     t_labs := [(sample_lab_row 7 1 Ready (Some 3) 50)\<lparr>lr_checker_key := Some 9,
       lr_resources := ki_resources_to_json (no_resources\<lparr>ki_floating_ips := [''10.0.0.7'']\<rparr>)\<rparr>],
     t_secrets := [\<lparr>se_id = 9, se_kind = ''ssh_private_key'', se_ref = ''uuuuuuu'', se_dek_ct = replicate 32 5,
       se_dek_nonce = replicate 12 1, se_ct = [1, 2], se_nonce = replicate 12 2, se_aad = ''a'',
       se_kek_version = 1, se_created_at = 1\<rparr>],
     t_runs := [check_run_params 5 (sample_run 5 Queued) 40]\<rparr>"

lemma stored_sample: "stored_run 5 sample_target = Some (sample_run 5 Queued)"
  by (simp add: stored_run_def sample_target_def get_run_row_def list_run_step_rows_def sample_checks_def sample_labs_def
      sample_pool_def check_run_params_def check_run_from_row_def sample_run_def timestamptz_ptr_def empty_db_def run_terminal_def)

lemma sample_runner_ok: "runner_ok (vd_runner sample_check_deps)"
  by (simp add: runner_ok_def sample_check_deps_def report_ok_def sample_report_def sample_run_def run_terminal_def step_ok_def)

lemma sample_execution: "case execute_check sample_check_deps 5 (world_of 0 sample_target) of
    (Inl _, _) \<Rightarrow> False | (Inr _, w) \<Rightarrow> w_cloud w = 1"
  by code_simp

lemma check_refines_machine_witness:
  "\<exists>w' r'. execute_check sample_check_deps 5 (world_of 0 sample_target) = (Inr (), w') \<and>
     stored_run 5 (w_db w') = Some r' \<and> run_terminal (cr_state r')"
proof -
  obtain w' where run: "execute_check sample_check_deps 5 (world_of 0 sample_target) = (Inr (), w')"
    using sample_execution by (auto split: prod.splits sum.splits)
  have "stored_form (sample_run 5 Queued)" by (simp add: stored_form_def sample_run_def run_terminal_def)
  moreover have "clock_set quiet_env" by (auto simp: clock_set_def quiet_env_def)
  ultimately show ?thesis
    using check_refines_machine [OF run, of "sample_run 5 Queued"] sample_runner_ok stored_sample run by auto
qed

text \<open>
  the verdict is the runner's. A delivery that returns no error on a run that was not terminal
  either finds a lab without a target host or checker key, does not call the runner and stores an
  errored run, or calls the runner once, with the playbook of the run's template and the address of the
  run's lab, and stores its report: its state (errored when that is not terminal), its steps and output.
\<close>
theorem check_verdict:
  assumes "execute_check D i w = (Inr (), w')" "w_snap w = None" "i \<noteq> 0"
    "stored_run i (w_db w) = Some r" "stored_form r" "clock_set (w_env w)" "runner_ok (vd_runner D)"
    "\<not> run_terminal (cr_state r)"
  shows "\<exists>row l r'. get_lab_row (cr_lab r) (w_db w) = Some row \<and> lab_from_row row = Inr l \<and> stored_run i (w_db w') = Some r' \<and>
    (if no_target l then w_cloud w' = w_cloud w \<and> cr_state r' = Errored \<and> cr_steps r' = []
     else \<exists>t key res e. get_template_row (cr_template r) (w_db w) = Some t \<and>
       vd_runner D (check_request_for (vd_lib D) l t key) (w_cloud w) = ((res, e), w_cloud w') \<and> reported r' res e)"
proof -
  let ?E = "w_env w" and ?d = "w_db w"
  have id: "cr_id r = i" using assms(4) by (auto simp: stored_run_def check_run_from_row_def dest: get_run_row_id)
  from bind_InrD [OF assms(1) [unfolded execute_check_def]] obtain x w1 where q: "run_get_by_id i w = (Inr x, w1)"
    and run: "(if run_terminal (cr_state x) then ret () else execute_run D x) w1 = (Inr (), w')" by blast
  from run_get_InrD [OF q assms(3)] assms(2,4) have x: "x = r" and s: "same_state w w1" by simp_all
  have at: "at_run ?E ?d r w1" using s assms(4) id by (simp add: at_run_def db_inv_def around_def same_stateD)
  from run x assms(8) have ex: "execute_run D r w1 = (Inr (), w')" by simp
  from bind_InrD [OF ex [unfolded execute_run_def]] obtain l w2 where l: "lab_get_by_id (cr_lab r) w1 = (Inr l, w2)"
    and rest: "(case lb_checker_key l of
       None \<Rightarrow> finish_errored r ''lab is missing target host or checker key'' [] []
     | Some secret \<Rightarrow>
         if ki_floating_ips (lb_resources l) = []
         then finish_errored r ''lab is missing target host or checker key'' [] []
         else
           bind (template_get_by_id (cr_template r)) (\<lambda>t.
           bind (secret_get (vd_lib D) (vd_kek D) secret ''ssh_private_key'' (uuid_string (vd_lib D) (lb_id l))) (\<lambda>key.
           bind (start_and_save r) (\<lambda>r.
           bind (on_runner D (check_request_for (vd_lib D) l t key)) (\<lambda>(res, e).
           finish_run r res e))))) w2 = (Inr (), w')" by blast
  from lab_get_InrD [OF l] s assms(2) obtain row where row: "get_lab_row (cr_lab r) ?d = Some row" "lab_from_row row = Inr l"
    by (auto simp: same_stateD)
  have s2: "same_state w w2" using silentD [OF silent_reads(2) l] s same_state_trans by blast
  have at2: "at_run ?E ?d r w2" by (rule keepsD [OF at_run_silent [OF silent_reads(2)] at l])
  show ?thesis
  proof (cases "no_target l")
    case True
    with rest have fin: "finish_errored r ''lab is missing target host or checker key'' [] [] w2 = (Inr (), w')"
      by (auto simp: no_target_def split: option.splits)
    from finish_errored_InrD [OF fin at2 assms(6,5)] s2 id row True show ?thesis
      by (auto simp: at_run_def db_inv_def same_stateD)
  next
    case False
    then obtain secret where sec: "lb_checker_key l = Some secret" "ki_floating_ips (lb_resources l) \<noteq> []"
      by (auto simp: no_target_def)
    from bind_InrD [OF rest [unfolded sec, simplified sec option.case if_False]] obtain t w3 where
      t: "template_get_by_id (cr_template r) w2 = (Inr t, w3)" and
      r3: "bind (secret_get (vd_lib D) (vd_kek D) secret ''ssh_private_key'' (uuid_string (vd_lib D) (lb_id l))) (\<lambda>key.
           bind (start_and_save r) (\<lambda>r.
           bind (on_runner D (check_request_for (vd_lib D) l t key)) (\<lambda>(res, e).
           finish_run r res e))) w3 = (Inr (), w')" by auto
    have tr: "get_template_row (cr_template r) ?d = Some t"
      using t s2 assms(2) by (auto simp: template_get_by_id_def same_stateD dest!: on_err_InrD one_row_InrD conn_query_InrD)
    have at3: "at_run ?E ?d r w3" by (rule keepsD [OF at_run_silent [OF silent_check_reads(4)] at2 t])
    have c3: "w_cloud w3 = w_cloud w" using silentD [OF silent_check_reads(4) t] s2 by (simp add: same_stateD)
    from bind_InrD [OF r3] obtain key w4 where
      k: "secret_get (vd_lib D) (vd_kek D) secret ''ssh_private_key'' (uuid_string (vd_lib D) (lb_id l)) w3 = (Inr key, w4)"
      and r4: "bind (start_and_save r) (\<lambda>r. bind (on_runner D (check_request_for (vd_lib D) l t key)) (\<lambda>(res, e).
           finish_run r res e)) w4 = (Inr (), w')" by blast
    have at4: "at_run ?E ?d r w4" by (rule keepsD [OF at_run_secret at3 k])
    have c4: "w_cloud w4 = w_cloud w" by (rule keepsD [OF outer_keeps(2) [OF keeps_outer_secret] c3 k])
    from bind_InrD [OF r4] obtain r1 w5 where st: "start_and_save r w4 = (Inr r1, w5)"
      and r5: "bind (on_runner D (check_request_for (vd_lib D) l t key)) (\<lambda>(res, e). finish_run r1 res e) w5 = (Inr (), w')"
      by blast
    from specD_Inr [OF start_and_save_advances [OF assms(6,5)] at4 st]
    have at5: "at_run ?E ?d r1 w5" "stored_form r1" "cr_id r1 = i" using id by auto
    have c5: "w_cloud w5 = w_cloud w" by (rule keepsD [OF outer_keeps(2) [OF keeps_outer_start] c4 st])
    obtain res e c where out: "vd_runner D (check_request_for (vd_lib D) l t key) (w_cloud w) = ((res, e), c)"
      by (metis surj_pair)
    from r5 out c5 have fin: "finish_run r1 res e (w5\<lparr>w_cloud := c\<rparr>) = (Inr (), w')"
      by (simp add: bind_def on_runner_def on_cloud_def)
    have ok: "report_ok res" using assms(7) out by (metis runner_ok_def fst_conv)
    have at6: "at_run ?E ?d r1 (w5\<lparr>w_cloud := c\<rparr>)" using at5(1) by (simp add: at_run_def db_inv_def)
    from finish_run_InrD [OF fin at6 assms(6) at5(2) ok] obtain r' where
      "reported r' res e" "cr_id r' = i" "at_run ?E ?d r' w'" "w_cloud w' = c" using at5(3) by auto
    with row False tr out show ?thesis by (auto simp: at_run_def db_inv_def)
  qed
qed

lemma check_verdict_witness:
  "\<exists>w' r'. execute_check sample_check_deps 5 (world_of 0 sample_target) = (Inr (), w') \<and>
     stored_run 5 (w_db w') = Some r' \<and> cr_state r' = RunFailed"
proof -
  obtain w' where run: "execute_check sample_check_deps 5 (world_of 0 sample_target) = (Inr (), w')" and c: "w_cloud w' = 1"
    using sample_execution by (auto split: prod.splits sum.splits)
  have "stored_form (sample_run 5 Queued)" by (simp add: stored_form_def sample_run_def run_terminal_def)
  moreover have "clock_set quiet_env" by (auto simp: clock_set_def quiet_env_def)
  moreover have "\<not> run_terminal (cr_state (sample_run 5 Queued))" by (simp add: sample_run_def run_terminal_def)
  ultimately obtain r' where "stored_run 5 (w_db w') = Some r'" "reported r' sample_report None \<or> w_cloud w' = 0"
    using check_verdict [OF run, of "sample_run 5 Queued"] sample_runner_ok stored_sample
    by (auto simp: sample_check_deps_def split: if_splits)
  with run c show ?thesis by (auto simp: reported_def final_state_def sample_report_def run_state_text_def run_terminal_def)
qed

section \<open>Asking for a check\<close>

lemma check_can_lab_InrD:
  "check_can_lab a act l w = (Inr u, w') \<Longrightarrow> w' = w \<and> policy_can \<lparr>sb_user = ac_user a, sb_role = ac_role a,
      sb_course_roles = map_of (ac_course_roles a)\<rparr> act (LabResource (lb_id l) (lb_student l) (lb_course l)) = None"
  by (auto simp: check_can_lab_def ret_def throw_def split: option.splits)

lemma silent_check_can_lab [silent_intros]: "silent (check_can_lab a act l)"
  unfolding check_can_lab_def by (intro silent_intros)

lemma check_task_InrD:
  assumes "attempt (enqueue t) w = (Inr x, w')"
  shows "w_db w' = w_db w \<and> (w_tasks w' = w_tasks w \<or> w_tasks w' = w_tasks w @ [(queued_task t, None)])"
proof -
  from attempt_InrD [OF assms] have "enqueue t w = (x, w')" .
  then show ?thesis
    by (auto simp: enqueue_def enqueue_with_def broker_enqueue_def bind_def ret_def throw_def Let_def broker_task_enqueue
        split: broker_outcome.splits if_splits)
qed

text \<open>The run with identifier \<open>i\<close> is new, and nothing else about the runs changes.\<close>

definition run_added :: "check_run \<Rightarrow> db \<Rightarrow> db \<Rightarrow> bool" where
  "run_added r d d' \<longleftrightarrow> stored_run (cr_id r) d = None \<and> stored_run (cr_id r) d' = Some r \<and>
     (\<forall>k. k \<noteq> cr_id r \<longrightarrow> stored_run k d' = stored_run k d)"

lemma queue_check_InrD:
  assumes "queue_check L a lab template w = (Inr r, w')" "cr_id r \<noteq> 0"
  shows "r = queued_run (cr_id r) lab template (ac_user a) \<and> run_added r (w_db w) (w_db w') \<and>
    (w_tasks w' = w_tasks w \<or> w_tasks w' = w_tasks w @ [(queued_task (check_task L (cr_id r)), None)])"
proof -
  define i where "i = e_uuid (w_env w) (w_draw w)"
  from assms(1) have "bind (with_tx (run_create (queued_run i lab template (ac_user a)))) (\<lambda>_.
     bind (attempt (enqueue (check_task L i))) (\<lambda>_. ret (queued_run i lab template (ac_user a)))) (w\<lparr>w_draw := Suc (w_draw w)\<rparr>) = (Inr r, w')"
    by (simp add: queue_check_def bind_unfold [of new_uuid] new_uuid_def i_def Let_def)
  then obtain v w5 where cre: "with_tx (run_create (queued_run i lab template (ac_user a))) (w\<lparr>w_draw := Suc (w_draw w)\<rparr>) = (Inr (), w5)"
    and enq: "attempt (enqueue (check_task L i)) w5 = (Inr v, w')" and r: "r = queued_run i lab template (ac_user a)"
    by (auto simp: ret_def dest!: bind_InrD)
  have id: "cr_id r = i" "cr_id (queued_run i lab template (ac_user a)) = i" by (simp_all add: r queued_run_def)
  let ?w4 = "w\<lparr>w_draw := Suc (w_draw w), w_stmt := Suc (w_stmt w), w_snap := Some (w_db w), w_aborted := False\<rparr>"
  from with_tx_InrD [OF cre] obtain w6 where c6: "run_create r ?w4 = (Inr (), w6)" and w: "w_db w5 = w_db w6"
    by (auto simp: r)
  from run_create_InrD [OF c6 assms(2)] obtain now where
    d: "w_db w6 = (w_db w)\<lparr>t_runs := t_runs (w_db w) @ [check_run_params (cr_id r) r now], t_run_steps := saved_steps r (w_db w)\<rparr>"
    "get_run_row (cr_id r) (w_db w) = None" by auto
  have sf: "stored_form r" using assms(2) by (simp add: stored_form_def r queued_run_def)
  have add: "run_added r (w_db w) (w_db w6)"
    using stored_run_created [OF d(2) sf d(1)] d(2) by (auto simp: run_added_def stored_run_def [of _ "w_db w"])
  have "w_tasks w5 = w_tasks w"
    by (rule keepsD [OF outer_keeps(3) [OF keeps_outer_tx [OF keeps_outer_run(1)]] _ cre]) simp
  with check_task_InrD [OF enq] w add show ?thesis unfolding id r by simp
qed

lemma queue_check_InlD: "queue_check L a lab template w = (Inl e, w') \<Longrightarrow> w_db w' = w_db w"
  by (auto simp: queue_check_def Let_def bind_def new_uuid_def ret_def attempt_def split: sum.splits prod.splits dest: with_tx_atomic)

text \<open>
  a check is asked for by those the policy lets, on ready labs. When \<open>RunCheck\<close> returns a run,
  the stored lab was ready, the policy lets the user run checks on it and the template exists; the
  run is new, queued, and stored as it is returned; the task is the only thing handed to the
  queue, and the worker that gets it executes this run. A request that fails leaves the runs as they are.
\<close>
theorem check_request_guarded:
  assumes "run_check L a lab template w = (res, w')" "w_snap w = None"
  shows "(\<forall>r. res = Inr r \<longrightarrow> cr_id r \<noteq> 0 \<longrightarrow> (\<exists>row. get_lab_row lab (w_db w) = Some row \<and> lr_state row = Ready \<and>
      policy_can \<lparr>sb_user = ac_user a, sb_role = ac_role a, sb_course_roles = map_of (ac_course_roles a)\<rparr> ActionCheckRun
        (LabResource lab (lr_student row) (lr_course row)) = None \<and>
      get_template_row template (w_db w) \<noteq> None \<and> r = queued_run (cr_id r) lab template (ac_user a) \<and>
      run_added r (w_db w) (w_db w') \<and>
      (w_tasks w' = w_tasks w \<or> w_tasks w' = w_tasks w @ [(queued_task (check_task L (cr_id r)), None)]))) \<and>
    (\<forall>(D :: 'd check_deps) i. uuid_ok (vd_lib D) \<longrightarrow> check_handle_task D (queued_task (check_task (vd_lib D) i)) = execute_check D i) \<and>
    ((\<exists>e. res = Inl e) \<longrightarrow> w_db w' = w_db w)"
proof (intro conjI allI impI)
  fix r assume res: "res = Inr r" and nz: "cr_id r \<noteq> 0"
  from bind_InrD [OF assms(1) [unfolded run_check_def res]] obtain l w1 where l: "lab_get_by_id lab w = (Inr l, w1)"
    and r1: "bind (check_can_lab a ActionCheckRun l) (\<lambda>_.
     if lb_state l \<noteq> Ready then throw (InvalidTransition ''lab'' (lstate_text (lb_state l)) ''run_check'')
     else bind (template_get_by_id template) (\<lambda>_. queue_check L a (lb_id l) template)) w1 = (Inr r, w')" by blast
  from lab_get_InrD [OF l] assms(2) obtain row where row: "get_lab_row lab (w_db w) = Some row" "lab_from_row row = Inr l"
    "w1 = w\<lparr>w_stmt := Suc (w_stmt w)\<rparr>" by auto
  note lf = lab_from_row_fields [OF row(2)] get_lab_row_id [OF row(1)]
  from bind_InrD [OF r1] obtain u where can: "check_can_lab a ActionCheckRun l w1 = (Inr u, w1)" and ready: "lb_state l = Ready"
    and r2: "bind (template_get_by_id template) (\<lambda>_. queue_check L a (lb_id l) template) w1 = (Inr r, w')"
    by (auto simp: throw_def dest: check_can_lab_InrD split: if_splits)
  from bind_InrD [OF r2] obtain t w3 where t: "template_get_by_id template w1 = (Inr t, w3)"
    and q: "queue_check L a (lb_id l) template w3 = (Inr r, w')" by auto
  have tr: "get_template_row template (w_db w) = Some t" and w3: "w_db w3 = w_db w" "w_tasks w3 = w_tasks w"
    using t row(3) assms(2) by (auto simp: template_get_by_id_def dest!: on_err_InrD one_row_InrD conn_query_InrD)
  from queue_check_InrD [OF q nz] w3 lf tr ready check_can_lab_InrD [OF can] row(1)
  show "\<exists>row. get_lab_row lab (w_db w) = Some row \<and> lr_state row = Ready \<and>
      policy_can \<lparr>sb_user = ac_user a, sb_role = ac_role a, sb_course_roles = map_of (ac_course_roles a)\<rparr> ActionCheckRun
        (LabResource lab (lr_student row) (lr_course row)) = None \<and>
      get_template_row template (w_db w) \<noteq> None \<and> r = queued_run (cr_id r) lab template (ac_user a) \<and>
      run_added r (w_db w) (w_db w') \<and>
      (w_tasks w' = w_tasks w \<or> w_tasks w' = w_tasks w @ [(queued_task (check_task L (cr_id r)), None)])"
    by (intro exI [of _ row]) auto
next
  fix D :: "'d check_deps" and i
  assume "uuid_ok (vd_lib D)"
  then show "check_handle_task D (queued_task (check_task (vd_lib D) i)) = execute_check D i"
    by (simp add: check_handle_task_def queued_task_def check_task_def check_task_payload_def check_id_of_payload_def
        json_field_def decode_string_def uuid_ok_def from_sum_def bind_def)
next
  assume "\<exists>e. res = Inl e"
  with assms(1) show "w_db w' = w_db w"
    by (auto simp: run_check_def bind_def throw_def check_can_lab_def ret_def split: sum.splits prod.splits if_splits option.splits
        dest!: queue_check_InlD silentD [OF silent_reads(2)] silentD [OF silent_check_reads(4)] same_stateD(1))
qed

lemma check_request_guarded_witness:
  "\<exists>r w'. run_check sample_lib (sample_actor RoleStudent 1) 7 4 (world_of () sample_target) = (Inr r, w') \<and>
     stored_run (cr_id r) (w_db w') = Some r"
proof -
  have "case run_check sample_lib (sample_actor RoleStudent 1) 7 4 (world_of () sample_target) of
      (Inl _, _) \<Rightarrow> False | (Inr r, _) \<Rightarrow> cr_id r \<noteq> 0" by code_simp
  then obtain r w' where run: "run_check sample_lib (sample_actor RoleStudent 1) 7 4 (world_of () sample_target) = (Inr r, w')"
    and "cr_id r \<noteq> 0" by (auto split: prod.splits sum.splits)
  with check_request_guarded [OF run] show ?thesis by (auto simp: run_added_def)
qed

section \<open>What the worker relies on in a runner\<close>

text \<open>
  The contract of \<open>ports.CheckRunner\<close> as far as the verdict goes: the state of a report is terminal,
  its steps carry no JSON null, and a check passes only without an error and without a failed step.
\<close>

definition bad_step :: "step_result \<Rightarrow> bool" where
  "bad_step s \<longleftrightarrow> sr_status s = StepFailed \<or> sr_status s = StepUnreachable"

locale check_runner =
  fixes run :: "check_request \<Rightarrow> 'c \<Rightarrow> (check_result \<times> err option) \<times> 'c"
  assumes verdict: "run rq c = ((res, e), c') \<Longrightarrow> run_terminal (rs_state res)"
    and plain: "run rq c = ((res, e), c') \<Longrightarrow> s \<in> set (rs_steps res) \<Longrightarrow> step_ok s"
    and pass: "run rq c = ((res, e), c') \<Longrightarrow> rs_state res = Passed \<Longrightarrow> e = None \<and> \<not> (\<exists>s \<in> set (rs_steps res). bad_step s)"
begin

lemma runner_is_ok:
  assumes "\<And>rq c res e c'. run rq c = ((res, e), c') \<Longrightarrow> length (rs_steps res) < 2 ^ 31"
  shows "runner_ok run"
  unfolding runner_ok_def report_ok_def
proof (intro allI conjI ballI)
  fix rq c
  obtain res e c' where run: "run rq c = ((res, e), c')" by (metis surj_pair)
  show "length (rs_steps (fst (fst (run rq c)))) < 2 ^ 31" using assms [OF run] by (simp add: run)
  fix s assume "s \<in> set (rs_steps (fst (fst (run rq c))))"
  then show "step_ok s" using plain [OF run] by (simp add: run)
qed

lemma stored_verdict:
  assumes "run rq c = ((res, e), c')" "reported r res e"
  shows "cr_state r = rs_state res \<and>
    (cr_state r = Passed \<longrightarrow> e = None \<and> cr_summary r = ''passed'' \<and> \<not> (\<exists>s \<in> set (cr_steps r). bad_step s))"
proof -
  have "final_state res = rs_state res"
    using verdict [OF assms(1)] by (auto simp: final_state_def run_terminal_def run_state_text_def)
  with assms(2) pass [OF assms(1)] show ?thesis
    by (auto simp: reported_def run_summary_def run_state_text_def)
qed

end

end
