(* ===== verification/HttpSession.thy ===== *)
theory HttpSession
  imports VerifyApp AdminApp
begin

text \<open>
  \<open>internal/adapters/httpapi\<close>, the part every request passes: sessions in signed cookies and the middleware that
  asks for one (\<open>auth.go\<close>), the actors made from a session (\<open>actors.go\<close>) and the answers to errors
  (\<open>errors.go\<close>). The JWT library is a parameter; Go maps are association lists; one clock stands for the
  configured one and for \<open>time.Now\<close>; logging is left out.
\<close>

section \<open>Requests, responses and errors\<close>

record http_request =
  hq_method :: string
  hq_path :: string
  hq_cookies :: "(string \<times> string) list"
  hq_id :: string

record cookie =
  ck_name :: string
  ck_value :: string
  ck_path :: string
  ck_http_only :: bool
  ck_same_site :: string
  ck_secure :: bool
  ck_max_age :: int
  ck_expires :: time

datatype http_body = NoBody | JsonBody json | BytesBody bytes

record http_response =
  hr_status :: int
  hr_type :: string
  hr_body :: http_body
  hr_cookies :: "cookie list"

text \<open>An error of the layers below, or one of the two that the handlers themselves compare by identity.\<close>

datatype http_err = AppErr err | InvalidRequest | NotImplemented

definition herr_is :: "http_err \<Rightarrow> sentinel \<Rightarrow> bool" where
  "herr_is e s = (case e of AppErr x \<Rightarrow> err_is x s | _ \<Rightarrow> False)"

definition herr_code :: "http_err \<Rightarrow> string" where
  "herr_code e = (case e of AppErr x \<Rightarrow> error_code (Some x) | _ \<Rightarrow> ''ERR_INTERNAL'')"

definition is_invalid_transition :: "http_err \<Rightarrow> bool" where
  "is_invalid_transition e = (case e of AppErr x \<Rightarrow> err_as_transition x \<noteq> None | _ \<Rightarrow> False)"

text \<open>\<open>problemMeta\<close>: status, title, detail and code.\<close>

definition problem_meta :: "http_err \<Rightarrow> int \<times> string \<times> string \<times> string" where
  "problem_meta e =
     (if e = InvalidRequest \<or> herr_is e ErrInvalidInput then (400, ''Bad Request'', ''request is invalid'', ''ERR_INVALID_INPUT'')
      else if herr_is e ErrUnauthorized then (401, ''Unauthorized'', ''authentication is required'', herr_code e)
      else if herr_is e ErrForbidden then (403, ''Forbidden'', ''access denied'', herr_code e)
      else if herr_is e ErrNotFound then (404, ''Not Found'', ''resource not found'', herr_code e)
      else if herr_is e ErrLabAlreadyActive \<or> herr_is e ErrPoolEmpty \<or> herr_is e ErrQuotaExceeded \<or>
          herr_is e ErrIdempotencyClash \<or> is_invalid_transition e
        then (409, ''Conflict'', ''request conflicts with current state'', herr_code e)
      else if herr_is e ErrCloudUnavailable \<or> herr_is e ErrLMSUnavailable
        then (503, ''Service Unavailable'', ''dependency is temporarily unavailable'', herr_code e)
      else if e = NotImplemented then (501, ''Not Implemented'', ''operation is not implemented yet'', ''ERR_NOT_IMPLEMENTED'')
      else (500, ''Internal Server Error'', ''internal server error'', ''ERR_INTERNAL''))"

definition render_problem :: "string \<Rightarrow> http_err \<Rightarrow> http_response" where
  "render_problem request_id e = (case problem_meta e of (status, title, detail, code) \<Rightarrow>
     \<lparr>hr_status = status, hr_type = ''application/problem+json'', hr_body = JsonBody (JObj [(''code'', JStr code),
        (''detail'', JStr detail), (''instance'', JStr request_id), (''status'', JInt status), (''title'', JStr title),
        (''type'', JStr ''about:blank'')]), hr_cookies = []\<rparr>)"

section \<open>Principals and sessions\<close>

record principal =
  pr_user :: uuid
  pr_display :: string
  pr_email :: string
  pr_role :: string
  pr_courses :: "(uuid \<times> string) list"

record session_claims =
  sn_name :: string
  sn_email :: string
  sn_role :: string
  sn_courses :: "(string \<times> string) list"
  sn_subject :: string
  sn_issued_at :: "time option"
  sn_expires_at :: "time option"

text \<open>
  \<open>jwt.NewWithClaims(alg, claims).SignedString(key)\<close> and \<open>jwt.ParseWithClaims(token, &claims, keyfunc,
  jwt.WithValidMethods(algs))\<close> at a time.
\<close>

record session_jwt =
  sj_sign :: "string \<Rightarrow> string \<Rightarrow> session_claims \<Rightarrow> err + string"
  sj_parse :: "string \<Rightarrow> (string \<Rightarrow> err + string) \<Rightarrow> string list \<Rightarrow> time \<Rightarrow> err + session_claims"

definition session_cookie_name :: string where "session_cookie_name = ''clg_session''"

text \<open>\<open>r.Cookie(name)\<close> is the first cookie of the name; \<open>jwt.NewNumericDate\<close> cuts a time to seconds.\<close>

definition request_cookie :: "http_request \<Rightarrow> string \<Rightarrow> string option" where
  "request_cookie r name = map_of (hq_cookies r) name"

definition numeric_date :: "time \<Rightarrow> time" where "numeric_date t = t - t mod second"

definition encode_course_roles :: "lib \<Rightarrow> (uuid \<times> string) list \<Rightarrow> (string \<times> string) list" where
  "encode_course_roles L roles = map (\<lambda>(i, r). (uuid_string L i, r)) roles"

fun decode_course_roles :: "lib \<Rightarrow> (string \<times> string) list \<Rightarrow> (uuid \<times> string) list" where
  "decode_course_roles L [] = []"
| "decode_course_roles L ((s, r) # roles) =
     (case uuid_parse L s of None \<Rightarrow> decode_course_roles L roles | Some i \<Rightarrow> (i, r) # decode_course_roles L roles)"

definition claims_for :: "lib \<Rightarrow> principal \<Rightarrow> duration \<Rightarrow> time \<Rightarrow> session_claims" where
  "claims_for L p ttl now = \<lparr>sn_name = pr_display p, sn_email = pr_email p, sn_role = pr_role p,
     sn_courses = encode_course_roles L (pr_courses p), sn_subject = uuid_string L (pr_user p),
     sn_issued_at = Some (numeric_date now), sn_expires_at = Some (numeric_date (now + ttl))\<rparr>"

definition session_cookie :: "string \<Rightarrow> bool \<Rightarrow> int \<Rightarrow> time \<Rightarrow> cookie" where
  "session_cookie v dev max_age expires = \<lparr>ck_name = session_cookie_name, ck_value = v, ck_path = ''/'', ck_http_only = True,
     ck_same_site = ''Lax'', ck_secure = (\<not> dev), ck_max_age = max_age, ck_expires = expires\<rparr>"

text \<open>\<open>issue_session\<close> gives the cookie that the code sets.\<close>

definition issue_session :: "lib \<Rightarrow> session_jwt \<Rightarrow> principal \<Rightarrow> duration \<Rightarrow> string \<Rightarrow> bool \<Rightarrow> ('c, cookie) prog" where
  "issue_session L J p ttl secret dev =
     (if secret = [] \<or> pr_user p = 0 \<or> pr_role p = [] then throw (Sentinel ErrInvalidInput)
      else bind clock_now (\<lambda>now. let claims = claims_for L p ttl now in
        bind (from_sum (sj_sign J ''HS256'' secret claims)) (\<lambda>token.
        ret (session_cookie token dev 0 (numeric_date (now + ttl))))))"

text \<open>\<open>IssueSession\<close> with the value of \<open>CLG_JWT_SECRET\<close>.\<close>

definition issue_session_env :: "string \<Rightarrow> lib \<Rightarrow> session_jwt \<Rightarrow> principal \<Rightarrow> duration \<Rightarrow> ('c, cookie) prog" where
  "issue_session_env env_secret L J p ttl =
     (if env_secret = [] then throw (Sentinel ErrInvalidInput) else issue_session L J p ttl env_secret False)"

definition clear_session :: "bool \<Rightarrow> cookie" where
  "clear_session dev = session_cookie [] dev (-1) (62135596800 * second)"

definition session_key :: "string \<Rightarrow> string \<Rightarrow> err + string" where
  "session_key secret alg = (if alg \<noteq> ''HS256'' then Inl (Plain ''unexpected signing method'') else Inr secret)"

definition principal_of :: "lib \<Rightarrow> session_claims \<Rightarrow> err + principal" where
  "principal_of L c = (case uuid_parse L (sn_subject c) of
     None \<Rightarrow> Inl (Sentinel ErrUnauthorized)
   | Some i \<Rightarrow> if sn_role c = [] then Inl (Sentinel ErrUnauthorized)
       else Inr \<lparr>pr_user = i, pr_display = sn_name c, pr_email = sn_email c, pr_role = sn_role c,
         pr_courses = decode_course_roles L (sn_courses c)\<rparr>)"

text \<open>\<open>ParsePrincipal\<close>; the secret is that of the configuration or else of the environment.\<close>

definition parse_principal :: "string \<Rightarrow> lib \<Rightarrow> session_jwt \<Rightarrow> http_request \<Rightarrow> string \<Rightarrow> ('c, principal) prog" where
  "parse_principal env_secret L J r session_secret =
     (let secret = (if session_secret = [] then env_secret else session_secret) in
      case request_cookie r session_cookie_name of
        None \<Rightarrow> throw (Sentinel ErrUnauthorized)
      | Some token \<Rightarrow>
          if token = [] then throw (Sentinel ErrUnauthorized)
          else if secret = [] then throw (Sentinel ErrUnauthorized)
          else bind clock_now (\<lambda>now.
            case sj_parse J token (session_key secret) [''HS256''] now of
              Inl e \<Rightarrow> throw (Sentinel ErrUnauthorized)
            | Inr claims \<Rightarrow> from_sum (principal_of L claims)))"

definition dev_ids :: "(string \<times> string) list" where
  "dev_ids = [(''student'', ''9d3fc8dc-2b85-4ea2-99c8-5c24a9480631''), (''teacher'', ''a58939a4-80f0-4ff8-bff9-fec9633155a5''),
     (''admin'', ''1f387a9d-3316-48b7-9f0f-c8aaccc1fd88'')]"

definition dev_principal :: "lib \<Rightarrow> http_request \<Rightarrow> bool \<Rightarrow> principal option" where
  "dev_principal L r dev =
     (if \<not> dev then None
      else let role = (case request_cookie r ''clg_dev_role'' of Some v \<Rightarrow> if v \<noteq> [] then v else ''student'' | None \<Rightarrow> ''student'') in
        case map_of dev_ids role of None \<Rightarrow> None
        | Some s \<Rightarrow> (case uuid_parse L s of None \<Rightarrow> None
          | Some i \<Rightarrow> Some \<lparr>pr_user = i, pr_display = ''Demo '' @ role, pr_email = [], pr_role = role, pr_courses = []\<rparr>))"

definition trim_prefix :: "string \<Rightarrow> string \<Rightarrow> string" where
  "trim_prefix p s = (if take (length p) s = p then drop (length p) s else s)"

definition is_auth_exempt :: "http_request \<Rightarrow> bool" where
  "is_auth_exempt r = (let path = trim_prefix ''/api/v1'' (hq_path r) in
     (hq_method r = ''POST'' \<and> path = ''/auth/login'') \<or>
     (hq_method r = ''GET'' \<and> (path = ''/healthz'' \<or> path = ''/readyz'')))"

section \<open>The middleware\<close>

type_synonym ('c, 'a) hprog = "('c world, http_err, 'a) io"

text \<open>A call of a use case from a handler.\<close>

definition app :: "('c, 'a) prog \<Rightarrow> ('c, 'a) hprog" where
  "app m w = (case m w of (Inl e, w) \<Rightarrow> (Inl (AppErr e), w) | (Inr x, w) \<Rightarrow> (Inr x, w))"

record session_config =
  sc_lib :: lib
  sc_jwt :: session_jwt
  sc_secret :: string
  sc_env_secret :: string
  sc_dev :: bool

text \<open>
  \<open>require_auth\<close> gives the principal that the context of the request carries to the handler, if any.
\<close>

definition require_auth :: "session_config \<Rightarrow> http_request \<Rightarrow> ('c, principal option) hprog" where
  "require_auth S r =
     (if is_auth_exempt r then ret None
      else bind (attempt (app (parse_principal (sc_env_secret S) (sc_lib S) (sc_jwt S) r (sc_secret S)))) (\<lambda>res.
        case res of
          Inr p \<Rightarrow> ret (Some p)
        | Inl e \<Rightarrow> (case dev_principal (sc_lib S) r (sc_dev S) of
            Some p \<Rightarrow> ret (Some p)
          | None \<Rightarrow> throw (AppErr (Sentinel ErrUnauthorized)))))"

section \<open>Actors\<close>

definition role_of :: "string \<Rightarrow> role" where
  "role_of s = (if s = ''student'' then RoleStudent else if s = ''teacher'' then RoleTeacher
     else if s = ''admin'' then RoleAdmin else RoleOther s)"

definition course_role_of :: "string \<Rightarrow> course_role" where
  "course_role_of s = (if s = ''learner'' then CourseRoleLearner else if s = ''teacher'' then CourseRoleTeacher
     else CourseRoleOther s)"

definition principal_course_roles :: "principal \<Rightarrow> (course_id \<times> course_role) list" where
  "principal_course_roles p = map (\<lambda>(i, r). (i, course_role_of r)) (pr_courses p)"

definition lab_actor :: "principal \<Rightarrow> actor" where
  "lab_actor p = \<lparr>ac_user = pr_user p, ac_role = role_of (pr_role p), ac_course_roles = principal_course_roles p\<rparr>"

definition verify_actor :: "principal \<Rightarrow> actor" where
  "verify_actor p = \<lparr>ac_user = pr_user p, ac_role = role_of (pr_role p), ac_course_roles = principal_course_roles p\<rparr>"

definition admin_actor_of :: "principal \<Rightarrow> admin_actor" where
  "admin_actor_of p = \<lparr>aa_user = pr_user p, aa_role = role_of (pr_role p)\<rparr>"

definition http_course_roles :: "(course_id \<times> course_role) list \<Rightarrow> (uuid \<times> string) list" where
  "http_course_roles roles = map (\<lambda>(i, r). (i, course_role_text r)) roles"

section \<open>The tokens\<close>

text \<open>
  The documented behaviour of the library: a token signed with the key of an accepted algorithm parses to its claims
  until it expires, and nothing else parses; a token is not empty.
\<close>

definition alive :: "time \<Rightarrow> session_claims \<Rightarrow> bool" where
  "alive now c = (case sn_expires_at c of None \<Rightarrow> True | Some t \<Rightarrow> now < t)"

definition jwt_ok :: "session_jwt \<Rightarrow> bool" where
  "jwt_ok J \<longleftrightarrow> (\<forall>alg key c tok. sj_sign J alg key c = Inr tok \<longrightarrow> tok \<noteq> [] \<and>
     (\<forall>keyf algs now. alg \<in> set algs \<longrightarrow> keyf alg = Inr key \<longrightarrow>
        (if alive now c then sj_parse J tok keyf algs now = Inr c else \<exists>e. sj_parse J tok keyf algs now = Inl e))) \<and>
   (\<forall>tok keyf algs now c. sj_parse J tok keyf algs now = Inr c \<longrightarrow> alive now c \<and>
     (\<exists>alg key. alg \<in> set algs \<and> keyf alg = Inr key \<and> sj_sign J alg key c = Inr tok))"

lemma jwt_parses: "jwt_ok J \<Longrightarrow> sj_sign J alg key c = Inr tok \<Longrightarrow> alg \<in> set algs \<Longrightarrow> keyf alg = Inr key \<Longrightarrow>
    if alive now c then sj_parse J tok keyf algs now = Inr c else \<exists>e. sj_parse J tok keyf algs now = Inl e"
  unfolding jwt_ok_def by blast

lemma jwt_signed: "jwt_ok J \<Longrightarrow> sj_parse J tok keyf algs now = Inr c \<Longrightarrow> alive now c \<and>
    (\<exists>alg key. alg \<in> set algs \<and> keyf alg = Inr key \<and> sj_sign J alg key c = Inr tok)"
  unfolding jwt_ok_def by blast

lemma jwt_nonempty: "jwt_ok J \<Longrightarrow> sj_sign J alg key c = Inr tok \<Longrightarrow> tok \<noteq> []"
  unfolding jwt_ok_def by blast

lemma decode_encode_roles: "uuid_ok L \<Longrightarrow> decode_course_roles L (encode_course_roles L roles) = roles"
  by (induction roles) (auto simp: encode_course_roles_def uuid_ok_def)

lemma principal_of_claims: "uuid_ok L \<Longrightarrow> pr_role p \<noteq> [] \<Longrightarrow> principal_of L (claims_for L p ttl now) = Inr p"
  using decode_encode_roles [of L "pr_courses p"] by (simp add: principal_of_def claims_for_def) (simp add: uuid_ok_def)

lemma issue_session_InrD:
  assumes "issue_session L J p ttl secret dev w = (Inr ck, w')"
  shows "secret \<noteq> [] \<and> pr_role p \<noteq> [] \<and> ck_expires ck = numeric_date (e_clock (w_env w) (w_tick w) + ttl) \<and>
    sj_sign J ''HS256'' secret (claims_for L p ttl (e_clock (w_env w) (w_tick w))) = Inr (ck_value ck) \<and>
    ck_name ck = session_cookie_name \<and> ck_http_only ck \<and> ck_secure ck = (\<not> dev) \<and> w_db w' = w_db w"
  using assms unfolding issue_session_def
  by (auto simp: io_simps clock_now_def Let_def session_cookie_def split: if_splits sum.splits)

lemma parse_principal_InrD:
  assumes "parse_principal env_secret L J r session_secret w = (Inr p, w')"
  shows "let secret = (if session_secret = [] then env_secret else session_secret) in
    \<exists>token claims. request_cookie r session_cookie_name = Some token \<and> secret \<noteq> [] \<and>
      sj_parse J token (session_key secret) [''HS256''] (e_clock (w_env w) (w_tick w)) = Inr claims \<and>
      principal_of L claims = Inr p"
  using assms unfolding parse_principal_def Let_def
  by (auto simp: io_simps clock_now_def split: option.splits if_split_asm sum.splits)

section \<open>Properties\<close>

text \<open>The cookie that was issued gives back its principal until it expires.\<close>

lemma session_parses:
  assumes "jwt_ok J" "uuid_ok L" "issue_session L J p ttl secret dev w = (Inr ck, w1)"
    and "request_cookie r (ck_name ck) = Some (ck_value ck)"
  shows "fst (parse_principal env_secret L J r secret later) =
    (if e_clock (w_env later) (w_tick later) < ck_expires ck then Inr p else Inl (Sentinel ErrUnauthorized))"
proof -
  let ?c = "claims_for L p ttl (e_clock (w_env w) (w_tick w))"
  note i = issue_session_InrD [OF assms(3)]
  have alive: "alive now ?c = (now < ck_expires ck)" for now using i by (simp add: alive_def claims_for_def)
  have "if alive now ?c then sj_parse J (ck_value ck) (session_key secret) [''HS256''] now = Inr ?c
      else \<exists>e. sj_parse J (ck_value ck) (session_key secret) [''HS256''] now = Inl e" for now
    by (rule jwt_parses [OF assms(1)]) (use i in \<open>auto simp: session_key_def\<close>)
  note parses = this [unfolded alive]
  have "ck_value ck \<noteq> []" using i jwt_nonempty [OF assms(1)] by blast
  thus ?thesis
    using assms(4) i principal_of_claims [OF assms(2)] parses [of "e_clock (w_env later) (w_tick later)"]
    by (auto simp: parse_principal_def Let_def io_simps clock_now_def split: if_splits)
qed

text \<open>
  Outside the development mode nobody is somebody else: a request that passes carries no principal on the three open
  routes, and otherwise that of an unexpired token signed with the server's secret.
\<close>

lemma session_required:
  assumes "jwt_ok (sc_jwt S)" "\<not> sc_dev S" "require_auth S r w = (res, w')"
  shows "w_db w' = w_db w \<and> w_tasks w' = w_tasks w \<and> w_cloud w' = w_cloud w \<and>
   (if is_auth_exempt r then res = Inr None
    else res = Inl (AppErr (Sentinel ErrUnauthorized)) \<or>
     (\<exists>p token claims secret. res = Inr (Some p) \<and> request_cookie r session_cookie_name = Some token \<and>
        secret \<in> {sc_secret S, sc_env_secret S} - {[]} \<and> sj_sign (sc_jwt S) ''HS256'' secret claims = Inr token \<and>
        alive (e_clock (w_env w) (w_tick w)) claims \<and> principal_of (sc_lib S) claims = Inr p \<and> pr_role p \<noteq> []))"
proof (cases "is_auth_exempt r")
  case True
  thus ?thesis using assms(3) by (auto simp: require_auth_def io_simps)
next
  case False
  let ?secret = "if sc_secret S = [] then sc_env_secret S else sc_secret S"
  obtain pp w1 where parse: "parse_principal (sc_env_secret S) (sc_lib S) (sc_jwt S) r (sc_secret S) w = (pp, w1)" by fastforce
  have frame: "w_db w1 = w_db w" "w_tasks w1 = w_tasks w" "w_cloud w1 = w_cloud w"
    using parse by (auto simp: parse_principal_def Let_def io_simps clock_now_def split: option.splits if_splits sum.splits)
  have res: "w' = w1" "res = (case pp of Inr p \<Rightarrow> Inr (Some p) | Inl e \<Rightarrow> Inl (AppErr (Sentinel ErrUnauthorized)))"
    using assms(2,3) False parse
    by (auto simp: require_auth_def io_simps app_def dev_principal_def split: sum.splits)
  have "\<exists>p token claims secret. Inr (Some q) = Inr (Some p) \<and> request_cookie r session_cookie_name = Some token \<and>
      secret \<in> {sc_secret S, sc_env_secret S} - {[]} \<and> sj_sign (sc_jwt S) ''HS256'' secret claims = Inr token \<and>
      alive (e_clock (w_env w) (w_tick w)) claims \<and> principal_of (sc_lib S) claims = Inr p \<and> pr_role p \<noteq> []"
    if q: "pp = Inr q" for q
  proof -
    obtain token claims where t: "request_cookie r session_cookie_name = Some token" "?secret \<noteq> []"
      "sj_parse (sc_jwt S) token (session_key ?secret) [''HS256''] (e_clock (w_env w) (w_tick w)) = Inr claims"
      "principal_of (sc_lib S) claims = Inr q"
      using parse_principal_InrD [OF parse [unfolded q]] by (auto simp: Let_def)
    have "alive (e_clock (w_env w) (w_tick w)) claims" "sj_sign (sc_jwt S) ''HS256'' ?secret claims = Inr token"
      using jwt_signed [OF assms(1) t(3)] by (auto simp: session_key_def)
    moreover have "pr_role q \<noteq> []"
      using t(4) by (auto simp: principal_of_def split: option.splits if_splits)
    moreover have "?secret \<in> {sc_secret S, sc_env_secret S} - {[]}" using t(2) by simp
    ultimately show ?thesis using t(1,4) by blast
  qed
  thus ?thesis using False frame res by (cases pp) simp_all
qed

text \<open>
  C39: the answer to an error depends on its cause alone, not on the messages it is wrapped in: each sentinel and every
  invalid transition has one status and one code, and whatever else went wrong, a driver's error or a secret that
  does not match included, gives the same answer without any of its text.
\<close>
theorem problem_by_cause:
  "problem_meta (AppErr e) = (case root_cause e of
     Sentinel ErrInvalidInput \<Rightarrow> (400, ''Bad Request'', ''request is invalid'', ''ERR_INVALID_INPUT'')
   | Sentinel ErrUnauthorized \<Rightarrow> (401, ''Unauthorized'', ''authentication is required'', ''ERR_UNAUTHORIZED'')
   | Sentinel ErrForbidden \<Rightarrow> (403, ''Forbidden'', ''access denied'', ''ERR_FORBIDDEN'')
   | Sentinel ErrNotFound \<Rightarrow> (404, ''Not Found'', ''resource not found'', ''ERR_NOT_FOUND'')
   | Sentinel ErrLabAlreadyActive \<Rightarrow> (409, ''Conflict'', ''request conflicts with current state'', ''ERR_LAB_ALREADY_ACTIVE'')
   | Sentinel ErrPoolEmpty \<Rightarrow> (409, ''Conflict'', ''request conflicts with current state'', ''ERR_POOL_EMPTY'')
   | Sentinel ErrQuotaExceeded \<Rightarrow> (409, ''Conflict'', ''request conflicts with current state'', ''ERR_QUOTA_EXCEEDED'')
   | Sentinel ErrIdempotencyClash \<Rightarrow> (409, ''Conflict'', ''request conflicts with current state'', ''ERR_IDEMPOTENCY'')
   | InvalidTransition _ _ _ \<Rightarrow> (409, ''Conflict'', ''request conflicts with current state'', ''ERR_INVALID_TRANSITION'')
   | Sentinel ErrCloudUnavailable \<Rightarrow> (503, ''Service Unavailable'', ''dependency is temporarily unavailable'', ''ERR_CLOUD_UNAVAILABLE'')
   | Sentinel ErrLMSUnavailable \<Rightarrow> (503, ''Service Unavailable'', ''dependency is temporarily unavailable'', ''ERR_LMS_UNAVAILABLE'')
   | _ \<Rightarrow> (500, ''Internal Server Error'', ''internal server error'', ''ERR_INTERNAL''))"
proof -
  have as_transition: "err_as_transition e = None \<longleftrightarrow> (\<forall>a b c. root_cause e \<noteq> InvalidTransition a b c)"
    using err_as_transition_root [of e] by (metis option.exhaust_sel prod_cases3 option.distinct(1))
  show ?thesis
    by (cases "root_cause e"; (cases "root_cause e" rule: err.exhaust)?)
      (auto simp: problem_meta_def herr_is_def herr_code_def is_invalid_transition_def error_code_def err_is_root as_transition
        split: sentinel.splits)
qed

section \<open>Witnesses\<close>

definition sample_principal :: principal where
  "sample_principal = \<lparr>pr_user = 5, pr_display = ''Ann'', pr_email = [], pr_role = ''student'', pr_courses = [(4, ''learner'')]\<rparr>"

text \<open>Tokens for one set of claims alone.\<close>

definition sample_session :: session_claims where
  "sample_session = claims_for sample_lib sample_principal (3600 * second) (e_clock quiet_env 0)"

definition jwt_for :: "session_claims \<Rightarrow> session_jwt" where
  "jwt_for c = \<lparr>sj_sign = (\<lambda>alg key c'. if c' = c then Inr (alg @ ''.'' @ key) else Inl (Plain ''no'')),
     sj_parse = (\<lambda>tok keyf algs now.
       if list_ex (\<lambda>alg. case keyf alg of Inr key \<Rightarrow> tok = alg @ ''.'' @ key | Inl _ \<Rightarrow> False) algs \<and> alive now c
       then Inr c else Inl (Plain ''invalid token''))\<rparr>"

abbreviation sample_session_jwt :: session_jwt where "sample_session_jwt \<equiv> jwt_for sample_session"

lemma jwt_for_ok: "jwt_ok (jwt_for c)"
proof -
  have sign: "sj_sign (jwt_for c) alg key c' = Inr tok \<longleftrightarrow> c' = c \<and> tok = alg @ ''.'' @ key" for alg key c' tok
    by (auto simp: jwt_for_def)
  have parse: "sj_parse (jwt_for c) tok keyf algs now = (if (\<exists>alg \<in> set algs. \<exists>key. keyf alg = Inr key \<and> tok = alg @ ''.'' @ key) \<and>
      alive now c then Inr c else Inl (Plain ''invalid token''))" for tok keyf algs now
  proof -
    have "(case keyf alg of Inr key \<Rightarrow> tok = alg @ ''.'' @ key | Inl _ \<Rightarrow> False) \<longleftrightarrow> (\<exists>key. keyf alg = Inr key \<and> tok = alg @ ''.'' @ key)" for alg
      by (cases "keyf alg") auto
    thus ?thesis by (simp add: jwt_for_def list_ex_iff)
  qed
  show ?thesis unfolding jwt_ok_def sign parse by (auto split: if_split_asm)
qed

lemma sample_uuid_ok: "uuid_ok sample_lib" by (simp add: uuid_ok_def sample_lib_def)

definition sample_request :: "string \<Rightarrow> string \<Rightarrow> http_request" where
  "sample_request m p = \<lparr>hq_method = m, hq_path = p, hq_cookies = [(''clg_session'', ''HS256.key'')], hq_id = ''r1''\<rparr>"

definition sample_session_config :: session_config where
  "sample_session_config = \<lparr>sc_lib = sample_lib, sc_jwt = sample_session_jwt, sc_secret = ''key'', sc_env_secret = [], sc_dev = False\<rparr>"

end
