(* ===== verification/AnsibleRunner.thy ===== *)
theory AnsibleRunner
  imports VerifyApp
begin

text \<open>
  \<open>internal/adapters/checker/ansible\<close>: the runner of checks. \<open>parse_callback\<close> turns the output of the
  JSON callback into a report, \<open>runner_run\<close> prepares a directory with the key and the inventory, runs
  the playbook in it and judges the outcome. Parameters are the operating system (\<open>os_ops\<close>), the
  syntax of JSON (\<open>json_lib\<close>) and the order in which a Go map is walked.
\<close>

section \<open>Decoding JSON into Go values\<close>

text \<open>
  \<open>json.Unmarshal\<close> into the types of the callback. A null leaves the zero value, a missing field too;
  names of fields are compared without regard to case and the last one counts; a value of another
  type is an error of the whole call, as is an integer outside 64 bits.
\<close>

definition struct_field :: "json \<Rightarrow> string \<Rightarrow> json" where
  "struct_field j name = (case j of
     JObj kvs \<Rightarrow> coalesce (map_of (rev (map (\<lambda>(k, v). (ascii_lower k, v)) kvs)) name) JNull
   | _ \<Rightarrow> JNull)"

definition is_struct :: "json \<Rightarrow> bool" where
  "is_struct j = (case j of JObj _ \<Rightarrow> True | JNull \<Rightarrow> True | _ \<Rightarrow> False)"

definition go_bool :: "json \<Rightarrow> bool option" where
  "go_bool j = (case j of JNull \<Rightarrow> Some False | JBool b \<Rightarrow> Some b | _ \<Rightarrow> None)"

definition go_string :: "json \<Rightarrow> string option" where
  "go_string j = (case j of JNull \<Rightarrow> Some [] | JStr s \<Rightarrow> Some s | _ \<Rightarrow> None)"

definition go_int :: "json \<Rightarrow> int option" where
  "go_int j = (case j of JNull \<Rightarrow> Some 0
     | JInt n \<Rightarrow> if - (2 ^ 63) \<le> n \<and> n < 2 ^ 63 then Some n else None | _ \<Rightarrow> None)"

definition go_any :: "json \<Rightarrow> json option" where
  "go_any j = (if j = JNull then None else Some j)"

definition go_list :: "(json \<Rightarrow> 'a option) \<Rightarrow> json \<Rightarrow> 'a list option" where
  "go_list f j = (case j of JNull \<Rightarrow> Some [] | JArr js \<Rightarrow> those (map f js) | _ \<Rightarrow> None)"

definition last_wins :: "(string \<times> 'a) list \<Rightarrow> (string \<times> 'a) list" where
  "last_wins kvs = foldl (\<lambda>m (k, v). filter (\<lambda>(k', _). k' \<noteq> k) m @ [(k, v)]) [] kvs"

definition go_map :: "(json \<Rightarrow> 'a option) \<Rightarrow> json \<Rightarrow> (string \<times> 'a) list option" where
  "go_map f j = (case j of JNull \<Rightarrow> Some []
     | JObj kvs \<Rightarrow> map_option last_wins (those (map (\<lambda>(k, v). map_option (Pair k) (f v)) kvs)) | _ \<Rightarrow> None)"

section \<open>The callback's output\<close>

record callback_host =
  ch_changed :: bool
  ch_failed :: bool
  ch_unreachable :: bool
  ch_skipped :: bool
  ch_msg :: "json option"
  ch_stdout :: "json option"
  ch_stderr :: "json option"

record callback_task =
  ca_name :: string
  ca_hosts :: "(string \<times> callback_host) list"

record callback_stats =
  cs_ok :: int
  cs_changed :: int
  cs_failures :: int
  cs_failed :: int
  cs_unreachable :: int
  cs_skipped :: int

text \<open>A play is the list of its tasks.\<close>

record callback_output =
  co_plays :: "callback_task list list"
  co_stats :: "(string \<times> callback_stats) list"

definition decode_host :: "json \<Rightarrow> callback_host option" where
  "decode_host j = (if \<not> is_struct j then None else
     Option.bind (go_bool (struct_field j ''changed'')) (\<lambda>c.
     Option.bind (go_bool (struct_field j ''failed'')) (\<lambda>f.
     Option.bind (go_bool (struct_field j ''unreachable'')) (\<lambda>u.
     Option.bind (go_bool (struct_field j ''skipped'')) (\<lambda>s.
     Some \<lparr>ch_changed = c, ch_failed = f, ch_unreachable = u, ch_skipped = s,
       ch_msg = go_any (struct_field j ''msg''), ch_stdout = go_any (struct_field j ''stdout''),
       ch_stderr = go_any (struct_field j ''stderr'')\<rparr>)))))"

definition decode_task :: "json \<Rightarrow> callback_task option" where
  "decode_task j = (let t = struct_field j ''task'' in
     if \<not> is_struct j \<or> \<not> is_struct t then None else
     Option.bind (go_string (struct_field t ''name'')) (\<lambda>name.
     Option.bind (go_map decode_host (struct_field j ''hosts'')) (\<lambda>hosts.
     Some \<lparr>ca_name = name, ca_hosts = hosts\<rparr>)))"

definition decode_play :: "json \<Rightarrow> callback_task list option" where
  "decode_play j = (if \<not> is_struct j then None else go_list decode_task (struct_field j ''tasks''))"

definition decode_stats :: "json \<Rightarrow> callback_stats option" where
  "decode_stats j = (if \<not> is_struct j then None else
     Option.bind (go_int (struct_field j ''ok'')) (\<lambda>a.
     Option.bind (go_int (struct_field j ''changed'')) (\<lambda>b.
     Option.bind (go_int (struct_field j ''failures'')) (\<lambda>c.
     Option.bind (go_int (struct_field j ''failed'')) (\<lambda>d.
     Option.bind (go_int (struct_field j ''unreachable'')) (\<lambda>e.
     Option.bind (go_int (struct_field j ''skipped'')) (\<lambda>f.
     Some \<lparr>cs_ok = a, cs_changed = b, cs_failures = c, cs_failed = d, cs_unreachable = e, cs_skipped = f\<rparr>)))))))"

definition decode_output :: "json \<Rightarrow> callback_output option" where
  "decode_output j = (if \<not> is_struct j then None else
     Option.bind (go_list decode_play (struct_field j ''plays'')) (\<lambda>ps.
     Option.bind (go_map decode_stats (struct_field j ''stats'')) (\<lambda>ss.
     Some \<lparr>co_plays = ps, co_stats = ss\<rparr>)))"

section \<open>The report\<close>

text \<open>
  \<open>jl_decode\<close> and \<open>jl_encode\<close> are the syntax of \<open>encoding/json\<close>, \<open>jl_first\<close> the position at which
  a walk of a map with these keys begins.
\<close>

record json_lib =
  jl_decode :: "string \<Rightarrow> json option"
  jl_encode :: "json \<Rightarrow> string"
  jl_first :: "string list \<Rightarrow> nat"

definition first_host_result :: "json_lib \<Rightarrow> (string \<times> callback_host) list \<Rightarrow> callback_host option" where
  "first_host_result J hosts = (if hosts = [] then None
     else Some (snd (hosts ! (jl_first J (map fst hosts) mod length hosts))))"

definition host_status :: "callback_host \<Rightarrow> step_status" where
  "host_status h = (if ch_unreachable h then StepUnreachable else if ch_failed h then StepFailed
     else if ch_skipped h then StepSkipped else if ch_changed h then StepChanged else StepOK)"

fun first_message :: "json_lib \<Rightarrow> json option list \<Rightarrow> string" where
  "first_message J [] = []"
| "first_message J (v # vs) = (case v of
     Some (JStr s) \<Rightarrow> if s \<noteq> [] then s else first_message J vs
   | Some (JArr js) \<Rightarrow> jl_encode J (JArr js)
   | Some (JObj kvs) \<Rightarrow> jl_encode J (JObj kvs)
   | _ \<Rightarrow> first_message J vs)"

definition result_message :: "json_lib \<Rightarrow> callback_host \<Rightarrow> string" where
  "result_message J h = first_message J [ch_msg h, ch_stderr h, ch_stdout h]"

definition no_stats :: ansible_stats where
  "no_stats = \<lparr>as_ok = 0, as_changed = 0, as_failed = 0, as_unreachable = 0, as_skipped = 0\<rparr>"

definition sum_stats :: "(string \<times> callback_stats) list \<Rightarrow> ansible_stats" where
  "sum_stats stats = foldl (\<lambda>a (_, s). \<lparr>as_ok = wrap64 (as_ok a + cs_ok s),
     as_changed = wrap64 (as_changed a + cs_changed s),
     as_failed = wrap64 (as_failed a + wrap64 (cs_failures s + cs_failed s)),
     as_unreachable = wrap64 (as_unreachable a + cs_unreachable s),
     as_skipped = wrap64 (as_skipped a + cs_skipped s)\<rparr>) no_stats stats"

definition task_step :: "json_lib \<Rightarrow> callback_task \<Rightarrow> callback_host \<Rightarrow> step_result" where
  "task_step J t h = \<lparr>sr_task = (if ca_name t = [] then ''unnamed task'' else ca_name t),
     sr_status = host_status h, sr_expected = None, sr_actual = None, sr_message = result_message J h\<rparr>"

text \<open>The two loops over plays and tasks, which skip a task without hosts.\<close>

definition add_step :: "step_result \<Rightarrow> run_state \<times> step_result list \<Rightarrow> run_state \<times> step_result list" where
  "add_step s acc = (if sr_status s = StepFailed \<or> sr_status s = StepUnreachable then RunFailed else fst acc, snd acc @ [s])"

fun task_loop :: "json_lib \<Rightarrow> callback_task list \<Rightarrow> run_state \<times> step_result list \<Rightarrow> run_state \<times> step_result list" where
  "task_loop J [] acc = acc"
| "task_loop J (t # ts) acc = (case first_host_result J (ca_hosts t) of
     None \<Rightarrow> task_loop J ts acc
   | Some h \<Rightarrow> task_loop J ts (add_step (task_step J t h) acc))"

fun play_loop :: "json_lib \<Rightarrow> callback_task list list \<Rightarrow> run_state \<times> step_result list \<Rightarrow> run_state \<times> step_result list" where
  "play_loop J [] acc = acc"
| "play_loop J (p # ps) acc = play_loop J ps (task_loop J p acc)"

definition errored_result :: "string \<Rightarrow> check_result" where
  "errored_result out = \<lparr>rs_state = Errored, rs_steps = [], rs_stdout = out, rs_stats = no_stats\<rparr>"

definition parse_callback :: "json_lib \<Rightarrow> string \<Rightarrow> check_result \<times> err option" where
  "parse_callback J out =
     (if out = [] then (errored_result [], Some (Plain ''ansible: empty json callback output''))
      else case Option.bind (jl_decode J out) decode_output of
        None \<Rightarrow> (errored_result out, Some unmarshal_error)
      | Some co \<Rightarrow>
          let (st, steps) = play_loop J (co_plays co) (Passed, []);
              stats = sum_stats (co_stats co) in
          (\<lparr>rs_state = (if 0 < as_failed stats \<or> 0 < as_unreachable stats then RunFailed else st),
            rs_steps = steps, rs_stdout = out, rs_stats = stats\<rparr>, None))"

section \<open>Running a playbook\<close>

text \<open>
  What the runner asks of the operating system: a fresh directory, writing a file with a mode,
  removing a directory with all in it, and running a command with its arguments, additional
  environment and a limit on its time. A run gives the two outputs, the error of \<open>cmd.Run\<close>, and whether
  the limit had passed when it returned.
\<close>

record 'c os_ops =
  os_mkdir_temp :: "string \<Rightarrow> 'c \<Rightarrow> (err + string) \<times> 'c"
  os_write_file :: "string \<Rightarrow> bytes \<Rightarrow> int \<Rightarrow> 'c \<Rightarrow> (err + unit) \<times> 'c"
  os_remove_all :: "string \<Rightarrow> 'c \<Rightarrow> 'c"
  os_exec :: "string \<Rightarrow> string list \<Rightarrow> string list \<Rightarrow> duration option \<Rightarrow> 'c \<Rightarrow>
    (string \<times> string \<times> err option \<times> bool) \<times> 'c"

definition default_command :: string where "default_command = ''ansible-playbook''"
definition default_connect_timeout :: string where "default_connect_timeout = ''10''"

definition runner_command :: "string \<Rightarrow> string" where
  "runner_command command = (if command \<noteq> [] then command else default_command)"

definition text_bytes :: "string \<Rightarrow> bytes" where
  "text_bytes s = map of_char s"

definition newline :: string where "newline = [CHR 0x0A]"

definition inventory_text :: "check_request \<Rightarrow> string \<Rightarrow> string" where
  "inventory_text rq key_path = ''[target]'' @ newline @ rq_host rq @ '' ansible_user='' @ rq_ssh_user rq @
     '' ansible_ssh_private_key_file='' @ key_path @ newline"

definition playbook_args :: "json_lib \<Rightarrow> check_request \<Rightarrow> string \<Rightarrow> string list" where
  "playbook_args J rq inventory_path = [''-i'', inventory_path, rq_playbook rq, ''--extra-vars'',
     jl_encode J (JObj (map (\<lambda>(k, v). (k, JStr v)) (rq_vars rq))),
     ''--ssh-extra-args=-o StrictHostKeyChecking=accept-new -o ConnectTimeout='' @ default_connect_timeout]"

definition playbook_env :: "string list" where
  "playbook_env = [''ANSIBLE_STDOUT_CALLBACK=json'', ''ANSIBLE_CALLBACKS_ENABLED=json'', ''ANSIBLE_FORCE_COLOR=0'',
     ''ANSIBLE_HOST_KEY_CHECKING=False'']"

text \<open>\<open>fmt.Errorf("prefix: %w: %s", err, stderr)\<close>, whose text is all that is looked at.\<close>

definition failed_with :: "string \<Rightarrow> err \<Rightarrow> string \<Rightarrow> err" where
  "failed_with prefix e stderr = Plain (prefix @ '': '' @ error_text e @ '': '' @ stderr)"

definition judge :: "json_lib \<Rightarrow> string \<times> string \<times> err option \<times> bool \<Rightarrow> check_result \<times> err option" where
  "judge J out = (case out of (stdout, stderr, run_err, late) \<Rightarrow>
     if late then (\<lparr>rs_state = Timeout, rs_steps = [], rs_stdout = stdout, rs_stats = no_stats\<rparr>, None)
     else (case parse_callback J stdout of
         (parsed, Some parse_err) \<Rightarrow> (errored_result stdout, Some (case run_err of
             Some e \<Rightarrow> failed_with ''ansible: run failed'' e stderr
           | None \<Rightarrow> Wrapped ''ansible: parse json callback'' parse_err))
       | (parsed, None) \<Rightarrow> (case run_err of
             Some e \<Rightarrow> if rs_state parsed = Passed
               then (parsed\<lparr>rs_state := Errored\<rparr>, Some (failed_with ''ansible: run failed without failed tasks'' e stderr))
               else (parsed, None)
           | None \<Rightarrow> (parsed, None))))"

text \<open>What happens in the directory, which is removed in the end whatever happened.\<close>

definition run_in :: "'c os_ops \<Rightarrow> json_lib \<Rightarrow> string \<Rightarrow> check_request \<Rightarrow> string \<Rightarrow> 'c \<Rightarrow> (check_result \<times> err option) \<times> 'c" where
  "run_in S J command rq dir c = (let key_path = dir @ ''/key''; inventory_path = dir @ ''/inventory.ini'' in
     case os_write_file S key_path (rq_key rq) 384 c of
       (Inl e, c) \<Rightarrow> ((errored_result [], Some (Wrapped ''ansible: write ssh key'' e)), c)
     | (Inr _, c) \<Rightarrow> (case os_write_file S inventory_path (text_bytes (inventory_text rq key_path)) 384 c of
         (Inl e, c) \<Rightarrow> ((errored_result [], Some (Wrapped ''ansible: write inventory'' e)), c)
       | (Inr _, c) \<Rightarrow> (case os_exec S (runner_command command) (playbook_args J rq inventory_path) playbook_env
             (if 0 < rq_timeout rq then Some (wrap64 (rq_timeout rq * second)) else None) c of
           (out, c) \<Rightarrow> (judge J out, c))))"

definition runner_run :: "'c os_ops \<Rightarrow> json_lib \<Rightarrow> string \<Rightarrow> check_request \<Rightarrow> 'c \<Rightarrow> (check_result \<times> err option) \<times> 'c" where
  "runner_run S J command rq c =
     (if rq_playbook rq = [] \<or> rq_host rq = [] \<or> rq_ssh_user rq = []
      then ((errored_result [], Some (Plain ''ansible: playbook path, target host and ssh user are required'')), c)
      else case os_mkdir_temp S ''clg-ansible-*'' c of
        (Inl e, c) \<Rightarrow> ((errored_result [], Some (Wrapped ''ansible: create temp dir'' e)), c)
      | (Inr dir, c) \<Rightarrow> (case run_in S J command rq dir c of (out, c) \<Rightarrow> (out, os_remove_all S dir c)))"

section \<open>What a report says\<close>

definition loop_outcome :: "run_state \<times> step_result list \<Rightarrow> run_state \<times> step_result list \<Rightarrow> bool" where
  "loop_outcome a b \<longleftrightarrow> (\<exists>new. snd b = snd a @ new \<and> (\<forall>s \<in> set new. step_ok s) \<and>
     fst b = (if \<exists>s \<in> set new. bad_step s then RunFailed else fst a))"

lemma loop_outcome_refl: "loop_outcome a a"
  by (simp add: loop_outcome_def)

lemma loop_outcome_trans: "loop_outcome a b \<Longrightarrow> loop_outcome b c \<Longrightarrow> loop_outcome a c"
  unfolding loop_outcome_def
proof (elim exE conjE, goal_cases)
  case (1 xs ys)
  then show ?case by (intro exI [of _ "xs @ ys"]) auto
qed

lemma loop_outcome_step: "step_ok s \<Longrightarrow> loop_outcome acc (add_step s acc)"
  by (auto simp: loop_outcome_def bad_step_def add_step_def)

lemma task_step_ok [simp]: "step_ok (task_step J t h)"
  by (simp add: task_step_def step_ok_def)

lemma task_loop_outcome: "loop_outcome acc (task_loop J ts acc)"
  by (induction J ts acc rule: task_loop.induct)
    (auto simp: loop_outcome_refl split: option.split intro: loop_outcome_trans [OF loop_outcome_step [OF task_step_ok]])

lemma play_loop_outcome: "loop_outcome acc (play_loop J ps acc)"
  by (induction J ps acc rule: play_loop.induct)
    (auto simp: loop_outcome_refl intro: loop_outcome_trans [OF task_loop_outcome])

lemma task_loop_steps:
  "snd (task_loop J ts acc) = snd acc @ map (\<lambda>(t, h). task_step J t h)
     (List.map_filter (\<lambda>t. map_option (Pair t) (first_host_result J (ca_hosts t))) ts)"
  by (induction ts arbitrary: acc) (auto simp: add_step_def map_filter_simps split: option.split)

lemma play_loop_steps:
  "snd (play_loop J ps acc) = snd acc @ map (\<lambda>(t, h). task_step J t h)
     (List.map_filter (\<lambda>t. map_option (Pair t) (first_host_result J (ca_hosts t))) (concat ps))"
  by (induction ps arbitrary: acc) (auto simp: task_loop_steps map_filter_def)

lemma parse_callback_cases:
  obtains e where "parse_callback J out = (errored_result out, Some e)"
  | co res where "parse_callback J out = (res, None)" "Option.bind (jl_decode J out) decode_output = Some co" "out \<noteq> []"
      "rs_stdout res = out" "rs_stats res = sum_stats (co_stats co)"
      "rs_steps res = map (\<lambda>(t, h). task_step J t h)
         (List.map_filter (\<lambda>t. map_option (Pair t) (first_host_result J (ca_hosts t))) (concat (co_plays co)))"
      "\<forall>s \<in> set (rs_steps res). step_ok s"
      "rs_state res = (if (\<exists>s \<in> set (rs_steps res). bad_step s) \<or> 0 < as_failed (rs_stats res) \<or>
         0 < as_unreachable (rs_stats res) then RunFailed else Passed)"
proof (cases "out = [] \<or> Option.bind (jl_decode J out) decode_output = None")
  case True
  then show ?thesis by (cases "out = []") (auto simp: parse_callback_def intro: that(1))
next
  case False
  then obtain co where co: "Option.bind (jl_decode J out) decode_output = Some co" by auto
  obtain st steps where l: "play_loop J (co_plays co) (Passed, []) = (st, steps)" by fastforce
  have o: "loop_outcome (Passed, []) (st, steps)" using play_loop_outcome [of "(Passed, [])"] l by metis
  have s: "steps = map (\<lambda>(t, h). task_step J t h)
         (List.map_filter (\<lambda>t. map_option (Pair t) (first_host_result J (ca_hosts t))) (concat (co_plays co)))"
    using play_loop_steps [of J "co_plays co" "(Passed, [])"] l by simp
  let ?stats = "sum_stats (co_stats co)"
  let ?res = "\<lparr>rs_state = (if 0 < as_failed ?stats \<or> 0 < as_unreachable ?stats then RunFailed else st),
      rs_steps = steps, rs_stdout = out, rs_stats = ?stats\<rparr>"
  have "parse_callback J out = (?res, None)"
    using False co l by (simp add: parse_callback_def Let_def)
  then show ?thesis
    by (rule that(2) [OF _ co]) (use False o s in \<open>auto simp: loop_outcome_def\<close>)
qed

lemma judge_cases:
  assumes "judge J (stdout, stderr, run_err, late) = (res, e)"
  shows "run_terminal (rs_state res) \<and> (\<forall>s \<in> set (rs_steps res). step_ok s) \<and>
    (rs_state res = Passed \<longrightarrow> e = None \<and> run_err = None \<and> \<not> late \<and> \<not> (\<exists>s \<in> set (rs_steps res). bad_step s) \<and>
       parse_callback J stdout = (res, None))"
proof (cases late)
  case True
  with assms show ?thesis by (auto simp: judge_def run_terminal_def)
next
  case False
  show ?thesis
    by (rule parse_callback_cases [of J stdout])
      (use assms False in \<open>auto simp: judge_def errored_result_def run_terminal_def split: option.splits if_splits\<close>)
qed

text \<open>An outcome of the runner is that of a step before the playbook ran, or what is judged of the run.\<close>

definition ran :: "'c os_ops \<Rightarrow> json_lib \<Rightarrow> string \<Rightarrow> check_request \<Rightarrow> string \<times> string \<times> err option \<times> bool \<Rightarrow> bool" where
  "ran S J command rq out \<longleftrightarrow> (\<exists>dir c c'. os_exec S (runner_command command)
     (playbook_args J rq (dir @ ''/inventory.ini'')) playbook_env
     (if 0 < rq_timeout rq then Some (wrap64 (rq_timeout rq * second)) else None) c = (out, c'))"

lemma runner_run_cases:
  assumes "runner_run S J command rq c = ((res, e), c')"
  shows "res = errored_result [] \<and> e \<noteq> None \<or> (\<exists>out. ran S J command rq out \<and> judge J out = (res, e))"
  using assms
  by (auto simp: runner_run_def run_in_def ran_def Let_def split: if_splits prod.splits sum.splits) blast+

interpretation ansible: check_runner "runner_run S J command" for S J command
proof (unfold_locales, goal_cases)
  case (1 rq c res e c')
  from runner_run_cases [OF 1] show ?case
    using judge_cases by (fastforce simp: errored_result_def run_terminal_def)
next
  case (2 rq c res e c' s)
  from runner_run_cases [OF 2(1)] 2(2) show ?case
    using judge_cases by (fastforce simp: errored_result_def)
next
  case (3 rq c res e c')
  from runner_run_cases [OF 3(1)] 3(2) show ?case
    using judge_cases by (fastforce simp: errored_result_def)
qed

section \<open>Properties\<close>



text \<open>A system that accepts every call, and a playbook of one task on one host.\<close>

definition sample_output :: json where
  "sample_output = JObj [(''plays'', JArr [JObj [(''tasks'', JArr [JObj [(''task'', JObj [(''name'', JStr ''users'')]),
     (''hosts'', JObj [(''10.0.0.7'', JObj [(''changed'', JBool True)])])]])]]),
     (''stats'', JObj [(''10.0.0.7'', JObj [(''ok'', JInt 1)])])]"

definition sample_json_lib :: json_lib where
  "sample_json_lib = \<lparr>jl_decode = (\<lambda>_. Some sample_output), jl_encode = (\<lambda>_. ''json''), jl_first = (\<lambda>_. 0)\<rparr>"

definition sample_os :: "nat os_ops" where
  "sample_os = \<lparr>os_mkdir_temp = (\<lambda>_ n. (Inr ''/tmp/clg-ansible-1'', Suc n)), os_write_file = (\<lambda>_ _ _ n. (Inr (), Suc n)),
     os_remove_all = (\<lambda>_ n. Suc n), os_exec = (\<lambda>_ _ _ _ n. ((''out'', [], None, False), Suc n))\<rparr>"

definition sample_ansible_deps :: "nat check_deps" where
  "sample_ansible_deps = sample_check_deps\<lparr>vd_runner := runner_run sample_os sample_json_lib []\<rparr>"

lemma sample_judged: "judge sample_json_lib (''out'', [], None, False) =
    (\<lparr>rs_state = Passed, rs_steps = [\<lparr>sr_task = ''users'', sr_status = StepChanged, sr_expected = None, sr_actual = None,
       sr_message = []\<rparr>], rs_stdout = ''out'', rs_stats = no_stats\<lparr>as_ok := 1\<rparr>\<rparr>, None)"
  by code_simp

lemma sample_ansible_ok: "runner_ok (vd_runner sample_ansible_deps)"
  unfolding sample_ansible_deps_def
proof (simp, rule ansible.runner_is_ok)
  fix rq c res e c'
  assume "runner_run sample_os sample_json_lib [] rq c = ((res, e), c')"
  then have "length (rs_steps res) \<le> 1"
    by (auto simp: runner_run_def run_in_def Let_def sample_os_def sample_judged errored_result_def split: if_splits)
  then show "length (rs_steps res) < 2 ^ 31" by simp
qed


text \<open>A playbook that ran no task at all passes its check, and so does the output \<open>null\<close>.\<close>

lemma empty_report_passes:
  assumes "out \<noteq> []" "jl_decode J out = Some JNull \<or> jl_decode J out = Some (JObj [])"
  shows "\<exists>res. judge J (out, stderr, None, False) = (res, None) \<and> rs_state res = Passed \<and> rs_steps res = []"
proof -
  have "Option.bind (jl_decode J out) decode_output = Some \<lparr>co_plays = [], co_stats = []\<rparr>"
    using assms(2) by (auto simp: decode_output_def is_struct_def struct_field_def go_list_def go_map_def coalesce_def)
  with assms(1) show ?thesis
    by (auto simp: judge_def parse_callback_def sum_stats_def no_stats_def)
qed

end
