(* ===== verification/HttpTypes.thy ===== *)
theory HttpTypes
  imports HttpSession AnsibleRunner
begin

text \<open>
  The bodies of the REST API: the types of \<open>httpapi/generated.go\<close> with the JSON their field tags give, and the
  functions of \<open>labs.go\<close>, \<open>lab_ops.go\<close>, \<open>checks.go\<close>, \<open>admin.go\<close> and \<open>auth_handlers.go\<close> that fill them from the
  domain's values. A pointer is an option, a \<open>float32\<close> the rational it stands for; the decimal text of numbers is
  not modelled.
\<close>

section \<open>JSON of the fields\<close>

definition uuid_json :: "lib \<Rightarrow> uuid \<Rightarrow> json" where "uuid_json L u = JStr (uuid_string L u)"

definition or_null :: "('a \<Rightarrow> json) \<Rightarrow> 'a option \<Rightarrow> json" where
  "or_null f x = (case x of None \<Rightarrow> JNull | Some v \<Rightarrow> f v)"

text \<open>A field with \<open>omitempty\<close>.\<close>

definition omit :: "string \<Rightarrow> ('a \<Rightarrow> json) \<Rightarrow> 'a option \<Rightarrow> (string \<times> json) list" where
  "omit name f x = (case x of None \<Rightarrow> [] | Some v \<Rightarrow> [(name, f v)])"

definition time_ptr :: "time \<Rightarrow> time option" where "time_ptr t = (if t = 0 then None else Some t)"
definition optional_string :: "string \<Rightarrow> string option" where "optional_string s = (if s = [] then None else Some s)"
definition int_value :: "int option \<Rightarrow> int" where "int_value x = coalesce x 0"

section \<open>Labs\<close>

record api_lab =
  al_cleanup_at :: "time option"
  al_course :: uuid
  al_created_at :: time
  al_id :: uuid
  al_template :: uuid
  al_project :: "uuid option"
  al_state :: string
  al_reason :: "string option"
  al_student :: uuid
  al_unfreeze_at :: "time option"
  al_updated_at :: "time option"

definition api_lab_json :: "lib \<Rightarrow> api_lab \<Rightarrow> json" where
  "api_lab_json L a = JObj ([(''cleanup_at'', or_null (time_json L) (al_cleanup_at a)), (''course_id'', uuid_json L (al_course a)),
     (''created_at'', time_json L (al_created_at a)), (''id'', uuid_json L (al_id a)), (''lab_template_id'', uuid_json L (al_template a)),
     (''project_id'', or_null (uuid_json L) (al_project a)), (''state'', JStr (al_state a)), (''state_reason'', or_null JStr (al_reason a)),
     (''student_user_id'', uuid_json L (al_student a)), (''unfreeze_at'', or_null (time_json L) (al_unfreeze_at a))] @
     omit ''updated_at'' (time_json L) (al_updated_at a))"

definition lab_response :: "lab \<Rightarrow> api_lab" where
  "lab_response l = \<lparr>al_cleanup_at = lb_cleanup_at l, al_course = lb_course l, al_created_at = lb_created_at l, al_id = lb_id l,
     al_template = lb_template l, al_project = lb_project l, al_state = lstate_text (lb_state l),
     al_reason = (if lb_reason l \<noteq> [] then Some (lb_reason l) else None), al_student = lb_student l,
     al_unfreeze_at = lb_unfreeze_at l, al_updated_at = time_ptr (lb_updated_at l)\<rparr>"

record api_deploy_step =
  ap_attempt :: int
  ap_finished_at :: "time option"
  ap_last_error :: string
  ap_started_at :: "time option"
  ap_status :: string
  ap_step_name :: string

definition api_deploy_step_json :: "lib \<Rightarrow> api_deploy_step \<Rightarrow> json" where
  "api_deploy_step_json L s = JObj [(''attempt'', JInt (ap_attempt s)), (''finished_at'', or_null (time_json L) (ap_finished_at s)),
     (''last_error'', JStr (ap_last_error s)), (''started_at'', or_null (time_json L) (ap_started_at s)),
     (''status'', JStr (ap_status s)), (''step_name'', JStr (ap_step_name s))]"

text \<open>A detail is the lab's own fields and those of \<open>api_lab_detail\<close>; \<open>latest_check_run\<close> is never filled.\<close>

record api_lab_detail =
  ad_base :: api_lab
  ad_steps :: "api_deploy_step list option"
  ad_resources :: "(string list \<times> string option \<times> string list) option"

text \<open>A copy of an empty list of strings is nil, which becomes null.\<close>

definition api_resources_json :: "string list \<times> string option \<times> string list \<Rightarrow> json" where
  "api_resources_json x = (case x of (fips, network, servers) \<Rightarrow> JObj ([(''floating_ips'', list_json fips)] @
     omit ''network_id'' JStr network @ [(''server_ids'', list_json servers)]))"

definition api_lab_detail_json :: "lib \<Rightarrow> api_lab_detail \<Rightarrow> json" where
  "api_lab_detail_json L d = (let a = ad_base d in
     JObj ([(''cleanup_at'', or_null (time_json L) (al_cleanup_at a)), (''course_id'', uuid_json L (al_course a)),
     (''created_at'', time_json L (al_created_at a))] @ omit ''deploy_steps'' (\<lambda>ss. JArr (map (api_deploy_step_json L) ss)) (ad_steps d) @
     [(''id'', uuid_json L (al_id a))] @ omit ''ki_resources'' api_resources_json (ad_resources d) @
     [(''lab_template_id'', uuid_json L (al_template a)), (''project_id'', or_null (uuid_json L) (al_project a)),
     (''state'', JStr (al_state a)), (''state_reason'', or_null JStr (al_reason a)), (''student_user_id'', uuid_json L (al_student a)),
     (''unfreeze_at'', or_null (time_json L) (al_unfreeze_at a))] @ omit ''updated_at'' (time_json L) (al_updated_at a)))"

definition api_deploy_step_of :: "deploy_step \<Rightarrow> api_deploy_step" where
  "api_deploy_step_of s = \<lparr>ap_attempt = ds_attempt s, ap_finished_at = ds_finished_at s, ap_last_error = ds_last_error s,
     ap_started_at = ds_started_at s, ap_status = ds_status s, ap_step_name = ds_name s\<rparr>"

definition lab_detail_response :: "lab \<times> deploy_step list \<Rightarrow> api_lab_detail" where
  "lab_detail_response x = (case x of (l, steps) \<Rightarrow> let r = lb_resources l in
     \<lparr>ad_base = lab_response l, ad_steps = (if steps = [] then None else Some (map api_deploy_step_of steps)),
      ad_resources = (if ki_network r \<noteq> [] \<or> ki_servers r \<noteq> [] \<or> ki_floating_ips r \<noteq> []
        then Some (ki_floating_ips r, optional_string (ki_network r), ki_servers r) else None)\<rparr>)"

section \<open>The key of a lab\<close>

text \<open>
  \<open>zeroizingReader\<close> wraps a reader of the key. Its own \<open>Read\<close> clears the key at the end, but the response is written by
  \<open>io.Copy\<close>, which prefers the \<open>WriteTo\<close> that the type takes over from \<open>bytes.Reader\<close>.
\<close>

record key_reader =
  kr_buf :: bytes
  kr_pos :: nat

definition new_zeroizing_reader :: "bytes \<Rightarrow> key_reader" where
  "new_zeroizing_reader buf = \<lparr>kr_buf = buf, kr_pos = 0\<rparr>"

definition zeroizing_read :: "nat \<Rightarrow> key_reader \<Rightarrow> (bytes \<times> bool) \<times> key_reader" where
  "zeroizing_read n r = (if length (kr_buf r) \<le> kr_pos r then (([], True), r\<lparr>kr_buf := replicate (length (kr_buf r)) 0\<rparr>)
     else let x = take n (drop (kr_pos r) (kr_buf r)) in ((x, False), r\<lparr>kr_pos := kr_pos r + length x\<rparr>))"

definition key_write_to :: "key_reader \<Rightarrow> bytes \<times> key_reader" where
  "key_write_to r = (drop (kr_pos r) (kr_buf r), r\<lparr>kr_pos := length (kr_buf r)\<rparr>)"

definition ssh_key_response :: "key_reader \<Rightarrow> http_response \<times> key_reader" where
  "ssh_key_response r = (case key_write_to r of (out, r) \<Rightarrow>
     (\<lparr>hr_status = 200, hr_type = ''application/x-pem-file'', hr_body = BytesBody out, hr_cookies = []\<rparr>, r))"

lemma key_not_cleared: "ssh_key_response (new_zeroizing_reader key) =
    (\<lparr>hr_status = 200, hr_type = ''application/x-pem-file'', hr_body = BytesBody key, hr_cookies = []\<rparr>, \<lparr>kr_buf = key, kr_pos = length key\<rparr>)"
  by (simp add: ssh_key_response_def key_write_to_def new_zeroizing_reader_def)

section \<open>Checks\<close>

record api_check_run =
  ac_template :: uuid
  ac_finished_at :: "time option"
  ac_id :: uuid
  ac_lab :: uuid
  ac_started_at :: "time option"
  ac_state :: string
  ac_summary :: string

definition api_check_run_json :: "lib \<Rightarrow> api_check_run \<Rightarrow> json" where
  "api_check_run_json L c = JObj [(''check_template_id'', uuid_json L (ac_template c)), (''finished_at'', or_null (time_json L) (ac_finished_at c)),
     (''id'', uuid_json L (ac_id c)), (''lab_instance_id'', uuid_json L (ac_lab c)), (''started_at'', or_null (time_json L) (ac_started_at c)),
     (''state'', JStr (ac_state c)), (''summary'', JStr (ac_summary c))]"

definition check_run_response :: "check_run \<Rightarrow> api_check_run" where
  "check_run_response r = \<lparr>ac_template = cr_template r, ac_finished_at = cr_finished_at r, ac_id = cr_id r, ac_lab = cr_lab r,
     ac_started_at = cr_started_at r, ac_state = run_state_text (cr_state r), ac_summary = cr_summary r\<rparr>"

definition step_status_text :: "step_status \<Rightarrow> string" where
  "step_status_text s = (case s of StepOK \<Rightarrow> ''ok'' | StepChanged \<Rightarrow> ''changed'' | StepFailed \<Rightarrow> ''failed''
     | StepUnreachable \<Rightarrow> ''unreachable'' | StepSkipped \<Rightarrow> ''skipped'')"

record api_check_detail =
  ai_base :: api_check_run
  ai_stdout :: string
  ai_steps :: "step_result list option"

definition api_check_step_json :: "step_result \<Rightarrow> json" where
  "api_check_step_json s = JObj [(''actual'', coalesce (sr_actual s) JNull), (''expected'', coalesce (sr_expected s) JNull),
     (''message'', JStr (sr_message s)), (''status'', JStr (step_status_text (sr_status s))), (''task_name'', JStr (sr_task s))]"

definition api_check_detail_json :: "lib \<Rightarrow> api_check_detail \<Rightarrow> json" where
  "api_check_detail_json L d = (let c = ai_base d in JObj ([(''ansible_stdout'', JStr (ai_stdout d)),
     (''check_template_id'', uuid_json L (ac_template c)), (''finished_at'', or_null (time_json L) (ac_finished_at c)),
     (''id'', uuid_json L (ac_id c)), (''lab_instance_id'', uuid_json L (ac_lab c)), (''started_at'', or_null (time_json L) (ac_started_at c)),
     (''state'', JStr (ac_state c))] @ omit ''steps'' (\<lambda>ss. JArr (map api_check_step_json ss)) (ai_steps d) @
     [(''summary'', JStr (ac_summary c))]))"

definition check_run_detail_response :: "check_run \<Rightarrow> api_check_detail" where
  "check_run_detail_response r = \<lparr>ai_base = check_run_response r, ai_stdout = cr_stdout r,
     ai_steps = (if cr_steps r = [] then None else Some (cr_steps r))\<rparr>"

section \<open>Administration\<close>

record api_project =
  aj_lab :: "uuid option"
  aj_failures :: int
  aj_id :: uuid
  aj_ki_domain :: string
  aj_ki_project :: string
  aj_changed_at :: "time option"
  aj_name :: string
  aj_state :: string

definition api_project_json :: "lib \<Rightarrow> api_project \<Rightarrow> json" where
  "api_project_json L p = JObj ([(''allocated_to_lab_id'', or_null (uuid_json L) (aj_lab p)), (''cleanup_failures'', JInt (aj_failures p)),
     (''id'', uuid_json L (aj_id p)), (''ki_domain_id'', JStr (aj_ki_domain p)), (''ki_project_id'', JStr (aj_ki_project p))] @
     omit ''last_state_change_at'' (time_json L) (aj_changed_at p) @ [(''name'', JStr (aj_name p)), (''state'', JStr (aj_state p))])"

definition project_response :: "project \<Rightarrow> api_project" where
  "project_response p = \<lparr>aj_lab = pj_lab p, aj_failures = pj_failures p, aj_id = pj_id p, aj_ki_domain = pj_ki_domain p,
     aj_ki_project = pj_ki_project p, aj_changed_at = time_ptr (pj_changed_at p), aj_name = pj_name p, aj_state = pstate_text (pj_state p)\<rparr>"

text \<open>Conversion to \<open>float32\<close>: the nearest number with a 24-bit significand, ties to even.\<close>

definition round32 :: "rat \<Rightarrow> rat" where
  "round32 x = (let nearest = (\<lambda>y. let e = ilog2 y - 23 in of_int (round_half_even (y / pow2 e)) * pow2 e) in
     if x = 0 then 0 else if 0 < x then nearest x else - nearest (- x))"

record api_resource =
  ar_total :: rat
  ar_unit :: string
  ar_used :: rat

definition api_resource_json :: "api_resource \<Rightarrow> json" where
  "api_resource_json r = JObj [(''total'', JRat (ar_total r)), (''unit'', JStr (ar_unit r)), (''used'', JRat (ar_used r))]"

definition resource_response :: "capacity \<Rightarrow> api_resource" where
  "resource_response c = \<lparr>ar_total = round32 (of_int (cap_total c)), ar_unit = cap_unit c, ar_used = round32 (of_int (cap_used c))\<rparr>"

record api_quota =
  aq_disk :: api_resource
  aq_fetched_at :: "time option"
  aq_ram :: api_resource
  aq_disk_pct :: rat
  aq_max_pct :: rat
  aq_ram_pct :: rat
  aq_vcpus_pct :: rat
  aq_vcpus :: api_resource

definition api_quota_json :: "lib \<Rightarrow> api_quota \<Rightarrow> json" where
  "api_quota_json L q = JObj ([(''disk'', api_resource_json (aq_disk q))] @ omit ''fetched_at'' (time_json L) (aq_fetched_at q) @
     [(''ram'', api_resource_json (aq_ram q)), (''utilization_pct'', JObj [(''disk'', JRat (aq_disk_pct q)), (''max'', JRat (aq_max_pct q)),
       (''ram'', JRat (aq_ram_pct q)), (''vcpus'', JRat (aq_vcpus_pct q))]), (''vcpus'', api_resource_json (aq_vcpus q))])"

definition quota_response :: "quota_snapshot \<Rightarrow> api_quota" where
  "quota_response q = \<lparr>aq_disk = resource_response (qs_disk q), aq_fetched_at = time_ptr (qs_fetched_at q),
     aq_ram = resource_response (qs_ram q), aq_disk_pct = round32 (utilization_pct (qs_disk q)),
     aq_max_pct = round32 (max_utilization_pct q), aq_ram_pct = round32 (utilization_pct (qs_ram q)),
     aq_vcpus_pct = round32 (utilization_pct (qs_vcpus q)), aq_vcpus = resource_response (qs_vcpus q)\<rparr>"

record api_setting =
  ag_key :: string
  ag_scope :: string
  ag_scope_id :: "uuid option"
  ag_updated_at :: "time option"
  ag_updated_by :: uuid
  ag_value :: json

definition api_setting_json :: "lib \<Rightarrow> api_setting \<Rightarrow> json" where
  "api_setting_json L s = JObj ([(''key'', JStr (ag_key s)), (''scope'', JStr (ag_scope s)), (''scope_id'', or_null (uuid_json L) (ag_scope_id s))] @
     omit ''updated_at'' (time_json L) (ag_updated_at s) @ [(''updated_by_user_id'', uuid_json L (ag_updated_by s)), (''value'', ag_value s)])"

definition setting_response :: "lib \<Rightarrow> setting \<Rightarrow> api_setting" where
  "setting_response L s = \<lparr>ag_key = st_key s, ag_scope = st_scope s, ag_scope_id = Option.bind (st_scope_id s) (uuid_parse L),
     ag_updated_at = time_ptr (st_updated_at s), ag_updated_by = st_updated_by s, ag_value = st_value s\<rparr>"

record api_audit =
  au_actor :: "uuid option"
  au_id :: uuid
  au_kind :: string
  au_occurred_at :: "time option"
  au_payload :: "json option"
  au_request :: "string option"
  au_subject :: "uuid option"
  au_subject_type :: string

definition api_audit_json :: "lib \<Rightarrow> api_audit \<Rightarrow> json" where
  "api_audit_json L a = JObj ([(''actor_user_id'', or_null (uuid_json L) (au_actor a)), (''id'', uuid_json L (au_id a)), (''kind'', JStr (au_kind a))] @
     omit ''occurred_at'' (time_json L) (au_occurred_at a) @ [(''payload'', coalesce (au_payload a) JNull), (''request_id'', or_null JStr (au_request a)),
     (''subject_id'', or_null (uuid_json L) (au_subject a)), (''subject_type'', JStr (au_subject_type a))])"

definition audit_response :: "lib \<Rightarrow> audit_event \<Rightarrow> api_audit" where
  "audit_response L e = \<lparr>au_actor = ae_actor e, au_id = ae_id e, au_kind = ae_kind e, au_occurred_at = time_ptr (ae_occurred_at e),
     au_payload = ae_payload e, au_request = optional_string (ae_request_id e), au_subject = Option.bind (ae_subject_id e) (uuid_parse L),
     au_subject_type = ae_subject_type e\<rparr>"

section \<open>The signed-in user\<close>

record user_me =
  um_courses :: "(uuid \<times> string) list option"
  um_display_name :: string
  um_email :: "string option"
  um_id :: uuid
  um_role :: string

definition user_me_json :: "lib \<Rightarrow> user_me \<Rightarrow> json" where
  "user_me_json L u = JObj (omit ''courses'' (\<lambda>cs. JArr (map (\<lambda>(i, r). JObj [(''id'', uuid_json L i), (''role_in_course'', JStr r)]) cs)) (um_courses u) @
     [(''display_name'', JStr (um_display_name u))] @ omit ''email'' JStr (um_email u) @ [(''id'', uuid_json L (um_id u)), (''role'', JStr (um_role u))])"

definition user_me_courses :: "principal \<Rightarrow> (uuid \<times> string) list option" where
  "user_me_courses p = (if pr_courses p = [] then None else Some (pr_courses p))"

definition user_me_of :: "principal \<Rightarrow> user_me" where
  "user_me_of p = \<lparr>um_courses = user_me_courses p, um_display_name = pr_display p, um_email = optional_string (pr_email p),
     um_id = pr_user p, um_role = pr_role p\<rparr>"

end
