(* ===== verification/HttpApi.thy ===== *)
theory HttpApi
  imports HttpTypes
begin

text \<open>
  The handlers of the REST API (\<open>httpapi/labs.go\<close>, \<open>lab_ops.go\<close>, \<open>checks.go\<close>, \<open>admin.go\<close>, \<open>auth_handlers.go\<close>,
  \<open>notimplemented.go\<close>, \<open>health.go\<close>). A handler gets the principal the middleware found, the identifier of the request and
  its decoded parameters; states in a query are those the OpenAPI document names. The services behind the handlers
  are the use cases of the other theories; one that is not configured is \<open>None\<close>.
\<close>

record 'c api_server =
  sv_session :: session_config
  sv_lab :: "lab_deps option"
  sv_lab_ops :: "lab_deps option"
  sv_verify :: "'c check_deps option"
  sv_admin :: "lib option"

record setting_update =
  su_key :: string
  su_scope :: string
  su_scope_id :: "uuid option"
  su_value :: json

section \<open>What the handlers share\<close>

definition json_response :: "int \<Rightarrow> json \<Rightarrow> http_response" where
  "json_response status j = \<lparr>hr_status = status, hr_type = ''application/json'', hr_body = JsonBody j, hr_cookies = []\<rparr>"

definition empty_response :: "int \<Rightarrow> http_response" where
  "empty_response status = \<lparr>hr_status = status, hr_type = [], hr_body = NoBody, hr_cookies = []\<rparr>"

text \<open>The responses of the operations, as their \<open>Visit\<close> methods write them.\<close>

definition get_labs_200 :: "lib \<Rightarrow> api_lab list \<Rightarrow> http_response" where [simp]: "get_labs_200 L ls = json_response 200 (JArr (map (api_lab_json L) ls))"
definition post_labs_201 :: "lib \<Rightarrow> api_lab \<Rightarrow> http_response" where [simp]: "post_labs_201 L l = json_response 201 (api_lab_json L l)"
definition delete_labs_id_202 :: "lib \<Rightarrow> api_lab \<Rightarrow> http_response" where [simp]: "delete_labs_id_202 L l = json_response 202 (api_lab_json L l)"
definition get_labs_id_200 :: "lib \<Rightarrow> api_lab_detail \<Rightarrow> http_response" where [simp]: "get_labs_id_200 L d = json_response 200 (api_lab_detail_json L d)"
definition post_labs_id_freeze_200 :: "lib \<Rightarrow> api_lab \<Rightarrow> http_response" where [simp]: "post_labs_id_freeze_200 L l = json_response 200 (api_lab_json L l)"
definition post_labs_id_unfreeze_200 :: "lib \<Rightarrow> api_lab \<Rightarrow> http_response" where [simp]: "post_labs_id_unfreeze_200 L l = json_response 200 (api_lab_json L l)"
definition post_labs_id_extend_200 :: "lib \<Rightarrow> api_lab \<Rightarrow> http_response" where [simp]: "post_labs_id_extend_200 L l = json_response 200 (api_lab_json L l)"
definition get_labs_id_checks_200 :: "lib \<Rightarrow> api_check_run list \<Rightarrow> http_response" where [simp]: "get_labs_id_checks_200 L rs = json_response 200 (JArr (map (api_check_run_json L) rs))"
definition post_labs_id_checks_202 :: "lib \<Rightarrow> api_check_run \<Rightarrow> http_response" where [simp]: "post_labs_id_checks_202 L r = json_response 202 (api_check_run_json L r)"
definition get_checks_id_200 :: "lib \<Rightarrow> api_check_detail \<Rightarrow> http_response" where [simp]: "get_checks_id_200 L r = json_response 200 (api_check_detail_json L r)"
definition get_admin_projects_200 :: "lib \<Rightarrow> api_project list \<Rightarrow> http_response" where [simp]: "get_admin_projects_200 L ps = json_response 200 (JArr (map (api_project_json L) ps))"
definition get_admin_quota_200 :: "lib \<Rightarrow> api_quota \<Rightarrow> http_response" where [simp]: "get_admin_quota_200 L q = json_response 200 (api_quota_json L q)"
definition get_admin_settings_200 :: "lib \<Rightarrow> api_setting list \<Rightarrow> http_response" where [simp]: "get_admin_settings_200 L ss = json_response 200 (JArr (map (api_setting_json L) ss))"
definition put_admin_settings_200 :: "lib \<Rightarrow> api_setting \<Rightarrow> http_response" where [simp]: "put_admin_settings_200 L s = json_response 200 (api_setting_json L s)"
definition get_admin_audit_200 :: "lib \<Rightarrow> api_audit list \<Rightarrow> http_response" where [simp]: "get_admin_audit_200 L es = json_response 200 (JArr (map (api_audit_json L) es))"
definition get_auth_me_200 :: "lib \<Rightarrow> user_me \<Rightarrow> http_response" where [simp]: "get_auth_me_200 L u = json_response 200 (user_me_json L u)"

definition post_admin_projects_id_quarantine_200 :: http_response where [simp]: "post_admin_projects_id_quarantine_200 = empty_response 200"
definition post_admin_projects_id_release_200 :: http_response where [simp]: "post_admin_projects_id_release_200 = empty_response 200"
definition post_auth_logout_204 :: http_response where [simp]: "post_auth_logout_204 = empty_response 204"
definition get_healthz_200 :: http_response where [simp]: "get_healthz_200 = empty_response 200"
definition get_readyz_200 :: http_response where [simp]: "get_readyz_200 = empty_response 200"

abbreviation bad_request :: "('c, 'a) hprog" where "bad_request \<equiv> throw (AppErr (Sentinel ErrInvalidInput))"

definition with_principal :: "principal option \<Rightarrow> (principal \<Rightarrow> ('c, 'a) hprog) \<Rightarrow> ('c, 'a) hprog" where
  "with_principal p f = (case p of None \<Rightarrow> throw (AppErr (Sentinel ErrUnauthorized)) | Some p \<Rightarrow> f p)"

definition with_service :: "'s option \<Rightarrow> ('s \<Rightarrow> ('c, 'a) hprog) \<Rightarrow> ('c, 'a) hprog" where
  "with_service s f = (case s of None \<Rightarrow> throw NotImplemented | Some s \<Rightarrow> f s)"

text \<open>Call a use case and answer with its value.\<close>

definition answer :: "('c, 'a) prog \<Rightarrow> ('a \<Rightarrow> http_response) \<Rightarrow> ('c, http_response) hprog" where
  "answer m f = bind (app m) (\<lambda>x. ret (f x))"

abbreviation server_lib :: "'c api_server \<Rightarrow> lib" where "server_lib S \<equiv> sc_lib (sv_session S)"

definition lab_answer :: "'c api_server \<Rightarrow> (lib \<Rightarrow> api_lab \<Rightarrow> http_response) \<Rightarrow> ('c, lab) prog \<Rightarrow> ('c, http_response) hprog" where
  "lab_answer S visit m = answer m (\<lambda>l. visit (server_lib S) (lab_response l))"

section \<open>Labs\<close>

definition post_labs :: "'c api_server \<Rightarrow> principal option \<Rightarrow> string \<Rightarrow> (uuid \<times> uuid) option \<Rightarrow> ('c, http_response) hprog" where
  "post_labs S p request_id body =
     (case (sv_lab S, body) of
        (Some d, Some (course, template)) \<Rightarrow>
          with_principal p (\<lambda>p.
          if course = 0 \<or> template = 0 then bad_request
          else lab_answer S post_labs_201 (create_lab d \<lparr>ci_student = pr_user p, ci_course = course, ci_template = template,
            ci_request_id = request_id\<rparr>))
      | _ \<Rightarrow> bad_request)"

definition get_labs :: "'c api_server \<Rightarrow> principal option \<Rightarrow> uuid option \<Rightarrow> lstate list option \<Rightarrow> ('c, http_response) hprog" where
  "get_labs S p course states =
     with_service (sv_lab_ops S) (\<lambda>_. with_principal p (\<lambda>p.
     answer (list_labs (lab_actor p) course (coalesce states []))
       (\<lambda>ls. get_labs_200 (server_lib S) (map lab_response ls))))"

definition lab_detail :: "'c api_server \<Rightarrow> principal option \<Rightarrow> uuid \<Rightarrow> ('c, lab \<times> deploy_step list) hprog" where
  "lab_detail S p i = with_service (sv_lab_ops S) (\<lambda>_. with_principal p (\<lambda>p. app (get_lab (lab_actor p) i)))"

definition get_labs_id :: "'c api_server \<Rightarrow> principal option \<Rightarrow> uuid \<Rightarrow> ('c, http_response) hprog" where
  "get_labs_id S p i = bind (lab_detail S p i) (\<lambda>d.
     ret (get_labs_id_200 (server_lib S) (lab_detail_response d)))"

definition delete_labs_id :: "'c api_server \<Rightarrow> principal option \<Rightarrow> uuid \<Rightarrow> ('c, http_response) hprog" where
  "delete_labs_id S p i =
     with_service (sv_lab_ops S) (\<lambda>d. with_principal p (\<lambda>p. lab_answer S delete_labs_id_202 (stop_lab d (lab_actor p) i)))"

definition post_labs_id_freeze :: "'c api_server \<Rightarrow> principal option \<Rightarrow> uuid \<Rightarrow> (int option \<times> string) option \<Rightarrow> ('c, http_response) hprog" where
  "post_labs_id_freeze S p i body =
     (case (sv_lab_ops S, body) of
        (Some d, Some (secs, reason)) \<Rightarrow>
          if reason = [] then bad_request
          else with_principal p (\<lambda>p. lab_answer S post_labs_id_freeze_200 (freeze_lab d (lab_actor p) i reason secs))
      | _ \<Rightarrow> bad_request)"

definition post_labs_id_unfreeze :: "'c api_server \<Rightarrow> principal option \<Rightarrow> uuid \<Rightarrow> ('c, http_response) hprog" where
  "post_labs_id_unfreeze S p i =
     with_service (sv_lab_ops S) (\<lambda>d. with_principal p (\<lambda>p. lab_answer S post_labs_id_unfreeze_200 (unfreeze_lab d (lab_actor p) i)))"

definition post_labs_id_extend :: "'c api_server \<Rightarrow> principal option \<Rightarrow> uuid \<Rightarrow> int option \<Rightarrow> ('c, http_response) hprog" where
  "post_labs_id_extend S p i body =
     (case (sv_lab_ops S, body) of
        (Some d, Some secs) \<Rightarrow>
          if secs \<le> 0 then bad_request
          else with_principal p (\<lambda>p. lab_answer S post_labs_id_extend_200 (extend_lab d (lab_actor p) i (wrap64 (secs * second))))
      | _ \<Rightarrow> bad_request)"

definition get_labs_id_ssh_key :: "'c api_server \<Rightarrow> principal option \<Rightarrow> uuid \<Rightarrow> ('c, http_response) hprog" where
  "get_labs_id_ssh_key S p i =
     with_service (sv_lab_ops S) (\<lambda>d. with_principal p (\<lambda>p.
     answer (get_lab_ssh_key d (lab_actor p) i) (\<lambda>key. fst (ssh_key_response (new_zeroizing_reader key)))))"

section \<open>Checks\<close>

definition get_labs_id_checks :: "'c api_server \<Rightarrow> principal option \<Rightarrow> uuid \<Rightarrow> ('c, http_response) hprog" where
  "get_labs_id_checks S p i =
     with_service (sv_verify S) (\<lambda>_. with_principal p (\<lambda>p.
     answer (list_checks_by_lab (verify_actor p) i)
       (\<lambda>rs. get_labs_id_checks_200 (server_lib S) (map check_run_response rs))))"

definition post_labs_id_checks :: "'c api_server \<Rightarrow> principal option \<Rightarrow> uuid \<Rightarrow> uuid option \<Rightarrow> ('c, http_response) hprog" where
  "post_labs_id_checks S p i body =
     (case (sv_verify S, body) of
        (Some d, Some template) \<Rightarrow>
          if template = 0 then bad_request
          else with_principal p (\<lambda>p. answer (run_check (vd_lib d) (verify_actor p) i template)
            (\<lambda>r. post_labs_id_checks_202 (server_lib S) (check_run_response r)))
      | _ \<Rightarrow> bad_request)"

definition get_checks_id :: "'c api_server \<Rightarrow> principal option \<Rightarrow> uuid \<Rightarrow> ('c, http_response) hprog" where
  "get_checks_id S p i =
     with_service (sv_verify S) (\<lambda>_. with_principal p (\<lambda>p.
     answer (get_check_run (verify_actor p) i)
       (\<lambda>r. get_checks_id_200 (server_lib S) (check_run_detail_response r))))"

section \<open>Administration\<close>

definition get_admin_projects :: "'c api_server \<Rightarrow> principal option \<Rightarrow> string option \<Rightarrow> pstate option \<Rightarrow> ('c, http_response) hprog" where
  "get_admin_projects S p ki_domain state =
     with_service (sv_admin S) (\<lambda>_. with_principal p (\<lambda>p.
     answer (list_projects (admin_actor_of p) (coalesce ki_domain []) state)
       (\<lambda>ps. get_admin_projects_200 (server_lib S) (map project_response ps))))"

definition post_admin_projects_id_quarantine :: "'c api_server \<Rightarrow> principal option \<Rightarrow> uuid \<Rightarrow> string option \<Rightarrow> ('c, http_response) hprog" where
  "post_admin_projects_id_quarantine S p i body =
     (case (sv_admin S, body) of
        (Some L, Some reason) \<Rightarrow>
          if reason = [] then bad_request
          else with_principal p (\<lambda>p. answer (quarantine_project L (admin_actor_of p) i reason) (\<lambda>_. post_admin_projects_id_quarantine_200))
      | _ \<Rightarrow> bad_request)"

definition post_admin_projects_id_release :: "'c api_server \<Rightarrow> principal option \<Rightarrow> uuid \<Rightarrow> ('c, http_response) hprog" where
  "post_admin_projects_id_release S p i =
     with_service (sv_admin S) (\<lambda>L. with_principal p (\<lambda>p.
     answer (release_project L (admin_actor_of p) i) (\<lambda>_. post_admin_projects_id_release_200)))"

definition get_admin_quota :: "'c api_server \<Rightarrow> principal option \<Rightarrow> ('c, http_response) hprog" where
  "get_admin_quota S p =
     with_service (sv_admin S) (\<lambda>_. with_principal p (\<lambda>p.
     answer (get_quota (admin_actor_of p)) (\<lambda>q. get_admin_quota_200 (server_lib S) (quota_response q))))"

definition get_admin_settings :: "'c api_server \<Rightarrow> principal option \<Rightarrow> string option \<Rightarrow> uuid option \<Rightarrow> ('c, http_response) hprog" where
  "get_admin_settings S p scope scope_id =
     with_service (sv_admin S) (\<lambda>_. with_principal p (\<lambda>p.
     answer (list_settings (admin_actor_of p) (coalesce scope []) (map_option (uuid_string (server_lib S)) scope_id))
       (\<lambda>ss. get_admin_settings_200 (server_lib S) (map (setting_response (server_lib S)) ss))))"

definition put_admin_settings :: "'c api_server \<Rightarrow> principal option \<Rightarrow> setting_update option \<Rightarrow> ('c, http_response) hprog" where
  "put_admin_settings S p body =
     (case (sv_admin S, body) of
        (Some _, Some u) \<Rightarrow> with_principal p (\<lambda>p.
          answer (put_setting \<lparr>pi_actor = admin_actor_of p, pi_key = su_key u, pi_value = su_value u, pi_scope = su_scope u,
              pi_scope_id = map_option (uuid_string (server_lib S)) (su_scope_id u)\<rparr>)
            (\<lambda>s. put_admin_settings_200 (server_lib S) (setting_response (server_lib S) s)))
      | _ \<Rightarrow> bad_request)"

definition get_admin_audit :: "'c api_server \<Rightarrow> principal option \<Rightarrow> string option \<Rightarrow> uuid option \<Rightarrow> time option \<Rightarrow> int option \<Rightarrow> ('c, http_response) hprog" where
  "get_admin_audit S p kind act since limit =
     with_service (sv_admin S) (\<lambda>_. with_principal p (\<lambda>p.
     answer (query_audit (admin_actor_of p) \<lparr>af_kind = kind, af_actor = act, af_since = since, af_limit = int_value limit\<rparr>)
       (\<lambda>es. get_admin_audit_200 (server_lib S) (map (audit_response (server_lib S)) es))))"

section \<open>Sessions and health\<close>

definition get_auth_me :: "'c api_server \<Rightarrow> principal option \<Rightarrow> ('c, http_response) hprog" where
  "get_auth_me S p = with_principal p (\<lambda>p. ret (get_auth_me_200 (server_lib S) (user_me_of p)))"

definition post_auth_logout :: "'c api_server \<Rightarrow> ('c, http_response) hprog" where
  "post_auth_logout S = ret (post_auth_logout_204\<lparr>hr_cookies := [clear_session (sc_dev (sv_session S))]\<rparr>)"

definition post_auth_login :: "('c, http_response) hprog" where "post_auth_login = throw NotImplemented"
definition get_stream_labs :: "('c, http_response) hprog" where "get_stream_labs = throw NotImplemented"
definition get_healthz :: "('c, http_response) hprog" where "get_healthz = ret get_healthz_200"
definition get_readyz :: "('c, http_response) hprog" where "get_readyz = ret get_readyz_200"

end
