(* ===== verification/HttpServer.thy ===== *)
theory HttpServer
  imports HttpApi
begin

text \<open>
  The server around the handlers: the operations of \<open>httpapi/generated.go\<close>, which bind the parameters of a request,
  decode its body, call the handler and write its answer, the table of routes, and \<open>NewMux\<close> (\<open>mux.go\<close>), which puts
  the middleware before them. The router and the binding of parameters are libraries and so parameters of the model;
  a body is the JSON value the decoder reads first, if there is one.
\<close>

record api_request =
  rq_http :: http_request
  rq_query :: "(string \<times> string) list"
  rq_body :: "json option"

text \<open>
  \<open>bl_route\<close> is the router: the method and pattern that match a request, and the path parameter \<open>id\<close>. The others are
  \<open>runtime.BindStyledParameterWithOptions\<close> and \<open>runtime.BindQueryParameter\<close> at the types they are used at, with the
  name of the parameter.
\<close>

record bind_lib =
  bl_route :: "(string \<times> string) list \<Rightarrow> http_request \<Rightarrow> ((string \<times> string) \<times> string) option"
  bl_path_uuid :: "string \<Rightarrow> string \<Rightarrow> err + uuid"
  bl_string :: "string \<Rightarrow> (string \<times> string) list \<Rightarrow> err + string option"
  bl_uuid :: "string \<Rightarrow> (string \<times> string) list \<Rightarrow> err + uuid option"
  bl_time :: "string \<Rightarrow> (string \<times> string) list \<Rightarrow> err + time option"
  bl_int :: "string \<Rightarrow> (string \<times> string) list \<Rightarrow> err + int option"
  bl_lab_states :: "string \<Rightarrow> (string \<times> string) list \<Rightarrow> err + lstate list option"
  bl_project_state :: "string \<Rightarrow> (string \<times> string) list \<Rightarrow> err + pstate option"
  bl_email :: "string \<Rightarrow> bool"

type_synonym 'c responder = "'c world \<Rightarrow> http_response \<times> 'c world"

section \<open>Binding, decoding and answering\<close>

definition param_error :: "string \<Rightarrow> err \<Rightarrow> http_response" where
  "param_error name e = \<lparr>hr_status = 400, hr_type = ''text/plain; charset=utf-8'',
     hr_body = BytesBody (map (\<lambda>c. of_nat (of_char c)) (''Invalid format for parameter '' @ name @ '': '' @ error_text e @ [CHR 0x0A])),
     hr_cookies = []\<rparr>"

definition binding :: "string \<Rightarrow> (string \<Rightarrow> err + 'a) \<Rightarrow> ('a \<Rightarrow> 'c responder) \<Rightarrow> 'c responder" where
  "binding name b f w = (case b name of Inl e \<Rightarrow> (param_error name e, w) | Inr x \<Rightarrow> f x w)"

definition strict :: "string \<Rightarrow> ('c, http_response) hprog \<Rightarrow> 'c responder" where
  "strict request_id m w = (case m w of (Inl e, w) \<Rightarrow> (render_problem request_id e, w) | (Inr x, w) \<Rightarrow> (x, w))"

definition strict_body :: "api_request \<Rightarrow> (json \<Rightarrow> 'b option) \<Rightarrow> ('b \<Rightarrow> ('c, http_response) hprog) \<Rightarrow> 'c responder" where
  "strict_body r dec f w = (case Option.bind (rq_body r) dec of
     None \<Rightarrow> (render_problem (hq_id (rq_http r)) InvalidRequest, w)
   | Some b \<Rightarrow> strict (hq_id (rq_http r)) (f b) w)"

definition go_uuid :: "lib \<Rightarrow> json \<Rightarrow> uuid option" where
  "go_uuid L j = (case j of JNull \<Rightarrow> Some 0 | JStr s \<Rightarrow> uuid_parse L s | _ \<Rightarrow> None)"

definition go_ptr :: "(json \<Rightarrow> 'a option) \<Rightarrow> json \<Rightarrow> 'a option option" where
  "go_ptr f j = (if j = JNull then Some None else map_option Some (f j))"

definition quarantine_body :: "json \<Rightarrow> string option" where
  "quarantine_body j = (if \<not> is_struct j then None else go_string (struct_field j ''reason''))"

definition setting_body :: "lib \<Rightarrow> json \<Rightarrow> setting_update option" where
  "setting_body L j = (if \<not> is_struct j then None else
     Option.bind (go_string (struct_field j ''key'')) (\<lambda>k.
     Option.bind (go_string (struct_field j ''scope'')) (\<lambda>sc.
     Option.bind (go_ptr (go_uuid L) (struct_field j ''scope_id'')) (\<lambda>i.
     Some \<lparr>su_key = k, su_scope = sc, su_scope_id = i, su_value = struct_field j ''value''\<rparr>))))"

definition login_body :: "bind_lib \<Rightarrow> json \<Rightarrow> (string \<times> string) option" where
  "login_body B j = (if \<not> is_struct j then None else
     Option.bind (go_string (struct_field j ''email'')) (\<lambda>e.
     Option.bind (go_string (struct_field j ''password'')) (\<lambda>p.
     if struct_field j ''email'' \<noteq> JNull \<and> \<not> bl_email B e then None else Some (e, p))))"

definition labs_body :: "lib \<Rightarrow> json \<Rightarrow> (uuid \<times> uuid) option" where
  "labs_body L j = (if \<not> is_struct j then None else
     Option.bind (go_uuid L (struct_field j ''course_id'')) (\<lambda>c.
     Option.bind (go_uuid L (struct_field j ''lab_template_id'')) (\<lambda>t. Some (c, t))))"

definition checks_body :: "lib \<Rightarrow> json \<Rightarrow> uuid option" where
  "checks_body L j = (if \<not> is_struct j then None else go_uuid L (struct_field j ''check_template_id''))"

definition extend_body :: "json \<Rightarrow> int option" where
  "extend_body j = (if \<not> is_struct j then None else go_int (struct_field j ''extend_by_seconds''))"

definition freeze_body :: "json \<Rightarrow> (int option \<times> string) option" where
  "freeze_body j = (if \<not> is_struct j then None else
     Option.bind (go_ptr go_int (struct_field j ''freeze_for_seconds'')) (\<lambda>s.
     Option.bind (go_string (struct_field j ''reason'')) (\<lambda>x. Some (s, x))))"

section \<open>The strict handlers\<close>

text \<open>Each calls the handler of the same name with what was bound and decoded.\<close>

type_synonym 'c strict_op = "'c api_server \<Rightarrow> principal option \<Rightarrow> api_request \<Rightarrow> 'c responder"

abbreviation rid :: "api_request \<Rightarrow> string" where "rid r \<equiv> hq_id (rq_http r)"

definition sh_get_admin_audit :: "string option \<Rightarrow> uuid option \<Rightarrow> time option \<Rightarrow> int option \<Rightarrow> 'c strict_op" where
  "sh_get_admin_audit kind act since limit S p r = strict (rid r) (get_admin_audit S p kind act since limit)"
definition sh_get_admin_projects :: "string option \<Rightarrow> pstate option \<Rightarrow> 'c strict_op" where
  "sh_get_admin_projects ki_domain state S p r = strict (rid r) (get_admin_projects S p ki_domain state)"
definition sh_post_admin_projects_id_quarantine :: "uuid \<Rightarrow> 'c strict_op" where
  "sh_post_admin_projects_id_quarantine i S p r =
     strict_body r quarantine_body (\<lambda>b. post_admin_projects_id_quarantine S p i (Some b))"
definition sh_post_admin_projects_id_release :: "uuid \<Rightarrow> 'c strict_op" where
  "sh_post_admin_projects_id_release i S p r = strict (rid r) (post_admin_projects_id_release S p i)"
definition sh_get_admin_quota :: "'c strict_op" where
  "sh_get_admin_quota S p r = strict (rid r) (get_admin_quota S p)"
definition sh_get_admin_settings :: "string option \<Rightarrow> uuid option \<Rightarrow> 'c strict_op" where
  "sh_get_admin_settings scope scope_id S p r = strict (rid r) (get_admin_settings S p scope scope_id)"
definition sh_put_admin_settings :: "'c strict_op" where
  "sh_put_admin_settings S p r = strict_body r (setting_body (server_lib S)) (\<lambda>b. put_admin_settings S p (Some b))"
definition sh_post_auth_login :: "bind_lib \<Rightarrow> 'c strict_op" where
  "sh_post_auth_login B S p r = strict_body r (login_body B) (\<lambda>_. post_auth_login)"
definition sh_post_auth_logout :: "'c strict_op" where
  "sh_post_auth_logout S p r = strict (rid r) (post_auth_logout S)"
definition sh_get_auth_me :: "'c strict_op" where
  "sh_get_auth_me S p r = strict (rid r) (get_auth_me S p)"
definition sh_get_checks_id :: "uuid \<Rightarrow> 'c strict_op" where
  "sh_get_checks_id i S p r = strict (rid r) (get_checks_id S p i)"
definition sh_get_healthz :: "'c strict_op" where
  "sh_get_healthz S p r = strict (rid r) get_healthz"
definition sh_get_labs :: "uuid option \<Rightarrow> lstate list option \<Rightarrow> 'c strict_op" where
  "sh_get_labs course states S p r = strict (rid r) (get_labs S p course states)"
definition sh_post_labs :: "'c strict_op" where
  "sh_post_labs S p r = strict_body r (labs_body (server_lib S)) (\<lambda>b. post_labs S p (rid r) (Some b))"
definition sh_delete_labs_id :: "uuid \<Rightarrow> 'c strict_op" where
  "sh_delete_labs_id i S p r = strict (rid r) (delete_labs_id S p i)"
definition sh_get_labs_id :: "uuid \<Rightarrow> 'c strict_op" where
  "sh_get_labs_id i S p r = strict (rid r) (get_labs_id S p i)"
definition sh_get_labs_id_checks :: "uuid \<Rightarrow> 'c strict_op" where
  "sh_get_labs_id_checks i S p r = strict (rid r) (get_labs_id_checks S p i)"
definition sh_post_labs_id_checks :: "uuid \<Rightarrow> 'c strict_op" where
  "sh_post_labs_id_checks i S p r = strict_body r (checks_body (server_lib S)) (\<lambda>b. post_labs_id_checks S p i (Some b))"
definition sh_post_labs_id_extend :: "uuid \<Rightarrow> 'c strict_op" where
  "sh_post_labs_id_extend i S p r = strict_body r extend_body (\<lambda>b. post_labs_id_extend S p i (Some b))"
definition sh_post_labs_id_freeze :: "uuid \<Rightarrow> 'c strict_op" where
  "sh_post_labs_id_freeze i S p r = strict_body r freeze_body (\<lambda>b. post_labs_id_freeze S p i (Some b))"
definition sh_get_labs_id_ssh_key :: "uuid \<Rightarrow> 'c strict_op" where
  "sh_get_labs_id_ssh_key i S p r = strict (rid r) (get_labs_id_ssh_key S p i)"
definition sh_post_labs_id_unfreeze :: "uuid \<Rightarrow> 'c strict_op" where
  "sh_post_labs_id_unfreeze i S p r = strict (rid r) (post_labs_id_unfreeze S p i)"
definition sh_get_readyz :: "'c strict_op" where
  "sh_get_readyz S p r = strict (rid r) get_readyz"
definition sh_get_stream_labs :: "'c strict_op" where
  "sh_get_stream_labs S p r = strict (rid r) get_stream_labs"

section \<open>The operations of the router\<close>

text \<open>Each binds the parameters of its request, in order, and calls the strict handler; \<open>i\<close> is the path's \<open>id\<close>.\<close>

type_synonym 'c route_op = "bind_lib \<Rightarrow> string \<Rightarrow> 'c strict_op"

abbreviation path_id :: "bind_lib \<Rightarrow> string \<Rightarrow> (uuid \<Rightarrow> 'c responder) \<Rightarrow> 'c responder" where
  "path_id B i \<equiv> binding ''id'' (\<lambda>name. bl_path_uuid B name i)"

definition sw_get_admin_audit :: "'c route_op" where
  "sw_get_admin_audit B i S p r =
     binding ''kind'' (\<lambda>n. bl_string B n (rq_query r)) (\<lambda>kind.
     binding ''actor_user_id'' (\<lambda>n. bl_uuid B n (rq_query r)) (\<lambda>act.
     binding ''since'' (\<lambda>n. bl_time B n (rq_query r)) (\<lambda>since.
     binding ''limit'' (\<lambda>n. bl_int B n (rq_query r)) (\<lambda>limit.
     sh_get_admin_audit kind act since limit S p r))))"
definition sw_get_admin_projects :: "'c route_op" where
  "sw_get_admin_projects B i S p r =
     binding ''ki_domain_id'' (\<lambda>n. bl_string B n (rq_query r)) (\<lambda>ki_domain.
     binding ''state'' (\<lambda>n. bl_project_state B n (rq_query r)) (\<lambda>state.
     sh_get_admin_projects ki_domain state S p r))"
definition sw_post_admin_projects_id_quarantine :: "'c route_op" where
  "sw_post_admin_projects_id_quarantine B i S p r = path_id B i (\<lambda>i. sh_post_admin_projects_id_quarantine i S p r)"
definition sw_post_admin_projects_id_release :: "'c route_op" where
  "sw_post_admin_projects_id_release B i S p r = path_id B i (\<lambda>i. sh_post_admin_projects_id_release i S p r)"
definition sw_get_admin_quota :: "'c route_op" where
  "sw_get_admin_quota B i S p r = sh_get_admin_quota S p r"
definition sw_get_admin_settings :: "'c route_op" where
  "sw_get_admin_settings B i S p r =
     binding ''scope'' (\<lambda>n. bl_string B n (rq_query r)) (\<lambda>scope.
     binding ''scope_id'' (\<lambda>n. bl_uuid B n (rq_query r)) (\<lambda>scope_id.
     sh_get_admin_settings scope scope_id S p r))"
definition sw_put_admin_settings :: "'c route_op" where
  "sw_put_admin_settings B i S p r = sh_put_admin_settings S p r"
definition sw_post_auth_login :: "'c route_op" where
  "sw_post_auth_login B i S p r = sh_post_auth_login B S p r"
definition sw_post_auth_logout :: "'c route_op" where
  "sw_post_auth_logout B i S p r = sh_post_auth_logout S p r"
definition sw_get_auth_me :: "'c route_op" where
  "sw_get_auth_me B i S p r = sh_get_auth_me S p r"
definition sw_get_checks_id :: "'c route_op" where
  "sw_get_checks_id B i S p r = path_id B i (\<lambda>i. sh_get_checks_id i S p r)"
definition sw_get_healthz :: "'c route_op" where
  "sw_get_healthz B i S p r = sh_get_healthz S p r"
definition sw_get_labs :: "'c route_op" where
  "sw_get_labs B i S p r =
     binding ''course_id'' (\<lambda>n. bl_uuid B n (rq_query r)) (\<lambda>course.
     binding ''state'' (\<lambda>n. bl_lab_states B n (rq_query r)) (\<lambda>states.
     sh_get_labs course states S p r))"
definition sw_post_labs :: "'c route_op" where
  "sw_post_labs B i S p r = sh_post_labs S p r"
definition sw_delete_labs_id :: "'c route_op" where
  "sw_delete_labs_id B i S p r = path_id B i (\<lambda>i. sh_delete_labs_id i S p r)"
definition sw_get_labs_id :: "'c route_op" where
  "sw_get_labs_id B i S p r = path_id B i (\<lambda>i. sh_get_labs_id i S p r)"
definition sw_get_labs_id_checks :: "'c route_op" where
  "sw_get_labs_id_checks B i S p r = path_id B i (\<lambda>i. sh_get_labs_id_checks i S p r)"
definition sw_post_labs_id_checks :: "'c route_op" where
  "sw_post_labs_id_checks B i S p r = path_id B i (\<lambda>i. sh_post_labs_id_checks i S p r)"
definition sw_post_labs_id_extend :: "'c route_op" where
  "sw_post_labs_id_extend B i S p r = path_id B i (\<lambda>i. sh_post_labs_id_extend i S p r)"
definition sw_post_labs_id_freeze :: "'c route_op" where
  "sw_post_labs_id_freeze B i S p r = path_id B i (\<lambda>i. sh_post_labs_id_freeze i S p r)"
definition sw_get_labs_id_ssh_key :: "'c route_op" where
  "sw_get_labs_id_ssh_key B i S p r = path_id B i (\<lambda>i. sh_get_labs_id_ssh_key i S p r)"
definition sw_post_labs_id_unfreeze :: "'c route_op" where
  "sw_post_labs_id_unfreeze B i S p r = path_id B i (\<lambda>i. sh_post_labs_id_unfreeze i S p r)"
definition sw_get_readyz :: "'c route_op" where
  "sw_get_readyz B i S p r = sh_get_readyz S p r"
definition sw_get_stream_labs :: "'c route_op" where
  "sw_get_stream_labs B i S p r = sh_get_stream_labs S p r"

section \<open>Routes and the middleware\<close>

text \<open>\<open>HandlerWithOptions\<close> with an empty base URL.\<close>

definition api_routes :: "((string \<times> string) \<times> 'c route_op) list" where
  "api_routes = [
     ((''GET'', ''/admin/audit''), sw_get_admin_audit),
     ((''GET'', ''/admin/projects''), sw_get_admin_projects),
     ((''POST'', ''/admin/projects/{id}/quarantine''), sw_post_admin_projects_id_quarantine),
     ((''POST'', ''/admin/projects/{id}/release''), sw_post_admin_projects_id_release),
     ((''GET'', ''/admin/quota''), sw_get_admin_quota),
     ((''GET'', ''/admin/settings''), sw_get_admin_settings),
     ((''PUT'', ''/admin/settings''), sw_put_admin_settings),
     ((''POST'', ''/auth/login''), sw_post_auth_login),
     ((''POST'', ''/auth/logout''), sw_post_auth_logout),
     ((''GET'', ''/auth/me''), sw_get_auth_me),
     ((''GET'', ''/checks/{id}''), sw_get_checks_id),
     ((''GET'', ''/healthz''), sw_get_healthz),
     ((''GET'', ''/labs''), sw_get_labs),
     ((''POST'', ''/labs''), sw_post_labs),
     ((''DELETE'', ''/labs/{id}''), sw_delete_labs_id),
     ((''GET'', ''/labs/{id}''), sw_get_labs_id),
     ((''GET'', ''/labs/{id}/checks''), sw_get_labs_id_checks),
     ((''POST'', ''/labs/{id}/checks''), sw_post_labs_id_checks),
     ((''POST'', ''/labs/{id}/extend''), sw_post_labs_id_extend),
     ((''POST'', ''/labs/{id}/freeze''), sw_post_labs_id_freeze),
     ((''GET'', ''/labs/{id}/ssh-key''), sw_get_labs_id_ssh_key),
     ((''POST'', ''/labs/{id}/unfreeze''), sw_post_labs_id_unfreeze),
     ((''GET'', ''/readyz''), sw_get_readyz),
     ((''GET'', ''/stream/labs''), sw_get_stream_labs)]"

text \<open>The router's own answers: 404 when no pattern matches, 405 when only another method's does.\<close>

definition router_answer :: "int \<Rightarrow> http_response" where
  "router_answer status = \<lparr>hr_status = status, hr_type = ''text/plain; charset=utf-8'', hr_body = NoBody, hr_cookies = []\<rparr>"

definition route_request :: "'c api_server \<Rightarrow> bind_lib \<Rightarrow> principal option \<Rightarrow> api_request \<Rightarrow> 'c responder" where
  "route_request S B p r = (case bl_route B (map fst (api_routes :: ((string \<times> string) \<times> 'c route_op) list)) (rq_http r) of
     None \<Rightarrow> Pair (router_answer 404)
   | Some (key, i) \<Rightarrow> (case map_of api_routes key of None \<Rightarrow> Pair (router_answer 405) | Some f \<Rightarrow> f B i S p r))"

definition api_serve :: "'c api_server \<Rightarrow> bind_lib \<Rightarrow> api_request \<Rightarrow> 'c responder" where
  "api_serve S B r w = (case require_auth (sv_session S) (rq_http r) w of
     (Inl e, w) \<Rightarrow> (render_problem (rid r) e, w)
   | (Inr p, w) \<Rightarrow> route_request S B p r w)"

end
