(* ===== verification/HttpSafety.thy ===== *)
theory HttpSafety
  imports HttpServer
begin

text \<open>
  What the REST API guarantees end to end: who gets past the middleware, that nothing happens before that, what a
  request to create a lab leaves behind, and to whom a lab and its key are shown.
\<close>

section \<open>Answers\<close>

lemma strict_answer: "strict i (answer m f) w = (case m w of (Inl e, w') \<Rightarrow> (render_problem i (AppErr e), w') | (Inr x, w') \<Rightarrow> (f x, w'))"
  by (auto simp: strict_def answer_def app_def io_simps split: prod.splits sum.splits)

lemma strict_throw [simp]: "strict i (throw e) w = (render_problem i e, w)"
  by (simp add: strict_def io_simps)

lemma strict_ret [simp]: "strict i (ret x) w = (x, w)"
  by (simp add: strict_def io_simps)

lemma with_principal_simps [simp]: "with_principal (Some p) f = f p" "with_principal None f = throw (AppErr (Sentinel ErrUnauthorized))"
  by (simp_all add: with_principal_def)

lemma with_service_simps [simp]: "with_service (Some s) f = f s" "with_service None f = throw NotImplemented"
  by (simp_all add: with_service_def)

lemma problem_status: "400 \<le> hr_status (render_problem i e)"
  by (simp add: render_problem_def problem_meta_def)

lemma problem_not_ok [simp]: "hr_status (render_problem i e) \<noteq> 201" "hr_status (render_problem i e) \<noteq> 200"
  using problem_status [of i e] by auto

text \<open>The status of an answer is at least 400 exactly when the use case failed.\<close>

lemma strict_answer_ok:
  assumes "strict i (answer m f) w = (resp, w')" "hr_status resp < 400"
  shows "\<exists>x. m w = (Inr x, w') \<and> resp = f x"
proof (cases "m w")
  case (Pair x u)
  show ?thesis
  proof (cases x)
    case (Inl e)
    thus ?thesis using assms Pair problem_status [of i "AppErr e"] by (simp add: strict_answer)
  next
    case (Inr y)
    thus ?thesis using assms Pair by (simp add: strict_answer)
  qed
qed

section \<open>Without a principal nothing happens\<close>

lemmas sh_defs = sh_get_admin_audit_def sh_get_admin_projects_def sh_post_admin_projects_id_quarantine_def
  sh_post_admin_projects_id_release_def sh_get_admin_quota_def sh_get_admin_settings_def sh_put_admin_settings_def
  sh_post_auth_login_def sh_post_auth_logout_def sh_get_auth_me_def sh_get_checks_id_def sh_get_healthz_def sh_get_labs_def
  sh_post_labs_def sh_delete_labs_id_def sh_get_labs_id_def sh_get_labs_id_checks_def sh_post_labs_id_checks_def
  sh_post_labs_id_extend_def sh_post_labs_id_freeze_def sh_get_labs_id_ssh_key_def sh_post_labs_id_unfreeze_def
  sh_get_readyz_def sh_get_stream_labs_def

lemmas sw_defs = sw_get_admin_audit_def sw_get_admin_projects_def sw_post_admin_projects_id_quarantine_def
  sw_post_admin_projects_id_release_def sw_get_admin_quota_def sw_get_admin_settings_def sw_put_admin_settings_def
  sw_post_auth_login_def sw_post_auth_logout_def sw_get_auth_me_def sw_get_checks_id_def sw_get_healthz_def sw_get_labs_def
  sw_post_labs_def sw_delete_labs_id_def sw_get_labs_id_def sw_get_labs_id_checks_def sw_post_labs_id_checks_def
  sw_post_labs_id_extend_def sw_post_labs_id_freeze_def sw_get_labs_id_ssh_key_def sw_post_labs_id_unfreeze_def
  sw_get_readyz_def sw_get_stream_labs_def

text \<open>The handlers for a request that carries no principal.\<close>

definition inert :: "('c, http_response) hprog \<Rightarrow> bool" where
  "inert m \<longleftrightarrow> (\<forall>w. snd (m w) = w)"

lemma inert_basic [simp]: "inert (throw e)" "inert (ret x)"
  by (simp_all add: inert_def io_simps)

lemma inert_service [simp]: "(\<And>s. inert (f s)) \<Longrightarrow> inert (with_service s f)"
  by (cases s) simp_all

lemma inert_bind [simp]: "inert (bind (throw e) f)" by simp

lemma no_principal_handlers [simp]:
  "inert (get_admin_audit S None kind act since limit)" "inert (get_admin_projects S None ki_domain pstate)"
  "inert (post_admin_projects_id_quarantine S None i reason)" "inert (post_admin_projects_id_release S None i)"
  "inert (get_admin_quota S None)" "inert (get_admin_settings S None scope scope_id)" "inert (put_admin_settings S None upd)"
  "inert post_auth_login" "inert (post_auth_logout S)" "inert (get_auth_me S None)" "inert (get_checks_id S None i)"
  "inert get_healthz" "inert (get_labs S None course states)" "inert (post_labs S None request_id labs)"
  "inert (delete_labs_id S None i)" "inert (get_labs_id S None i)" "inert (get_labs_id_checks S None i)"
  "inert (post_labs_id_checks S None i template)" "inert (post_labs_id_extend S None i secs)"
  "inert (post_labs_id_freeze S None i freeze_args)" "inert (get_labs_id_ssh_key S None i)" "inert (post_labs_id_unfreeze S None i)"
  "inert get_readyz" "inert get_stream_labs"
  by (simp_all add: get_admin_audit_def get_admin_projects_def post_admin_projects_id_quarantine_def
      post_admin_projects_id_release_def get_admin_quota_def get_admin_settings_def put_admin_settings_def post_auth_login_def
      post_auth_logout_def get_auth_me_def get_checks_id_def get_healthz_def get_labs_def post_labs_def delete_labs_id_def
      get_labs_id_checks_def post_labs_id_checks_def post_labs_id_extend_def post_labs_id_freeze_def get_labs_id_ssh_key_def
      post_labs_id_unfreeze_def get_readyz_def get_stream_labs_def split: option.split prod.split)
    (cases "sv_lab_ops S"; simp add: get_labs_id_def lab_detail_def)

lemma inert_strict [simp]: "inert m \<Longrightarrow> snd (strict i m w) = w"
  by (auto simp: inert_def strict_def split: prod.splits sum.splits) (metis snd_conv)+

lemma inert_strict_body [simp]: "(\<And>b. inert (f b)) \<Longrightarrow> snd (strict_body r dec f w) = w"
  by (simp add: strict_body_def split: option.split)

lemma inert_binding [simp]: "(\<And>x. snd (f x w) = w) \<Longrightarrow> snd (binding name b f w) = w"
  by (simp add: binding_def split: sum.split)

lemma no_principal_no_effect: "snd (route_request S B None r w) = w"
proof -
  have "snd (f B i S None r w) = w" if "(key, f) \<in> set api_routes" for key f i
    using that unfolding api_routes_def by (auto simp: sw_defs sh_defs)
  thus ?thesis unfolding route_request_def by (auto dest!: map_of_SomeD split: option.splits)
qed

section \<open>Properties\<close>

definition same_effects :: "'c world \<Rightarrow> 'c world \<Rightarrow> bool" where
  "same_effects w w' \<longleftrightarrow> w_db w' = w_db w \<and> w_tasks w' = w_tasks w \<and> w_cloud w' = w_cloud w"

text \<open>The open routes: signing in and the two probes, with the prefix of the API or without.\<close>

definition open_routes :: "(string \<times> string) list" where
  "open_routes = [(''POST'', ''/api/v1/auth/login''), (''GET'', ''/api/v1/healthz''), (''GET'', ''/api/v1/readyz''),
     (''POST'', ''/auth/login''), (''GET'', ''/healthz''), (''GET'', ''/readyz'')]"

lemma trim_prefix_cases: "trim_prefix p s = t \<Longrightarrow> s = p @ t \<or> s = t"
  unfolding trim_prefix_def by (metis append_take_drop_id)

lemma exempt_open: "is_auth_exempt q \<Longrightarrow> (hq_method q, hq_path q) \<in> set open_routes"
  unfolding is_auth_exempt_def Let_def open_routes_def by (auto dest!: trim_prefix_cases)

text \<open>
  C5: nothing happens for a stranger. Whatever the request, the router and the binding of parameters make of it,
  outside the development mode the server either reads from it a cookie that was signed with its secret, has not
  expired and names a user, and serves the request for that user; or it changes neither the database nor the queue
  nor the cloud, and answers 401 unless the route is one of the three open ones.
\<close>
theorem api_authenticated:
  assumes "jwt_ok (sc_jwt (sv_session S))" "\<not> sc_dev (sv_session S)" "api_serve S B r w = (resp, w')"
  shows "(\<exists>p token claims secret w1. request_cookie (rq_http r) session_cookie_name = Some token \<and>
      secret \<in> {sc_secret (sv_session S), sc_env_secret (sv_session S)} - {[]} \<and>
      sj_sign (sc_jwt (sv_session S)) ''HS256'' secret claims = Inr token \<and> alive (e_clock (w_env w) (w_tick w)) claims \<and>
      principal_of (server_lib S) claims = Inr p \<and> same_effects w w1 \<and> route_request S B (Some p) r w1 = (resp, w')) \<or>
    same_effects w w' \<and> ((hq_method (rq_http r), hq_path (rq_http r)) \<in> set open_routes \<or> resp = render_problem (rid r) (AppErr (Sentinel ErrUnauthorized)))"
proof -
  obtain res w1 where auth: "require_auth (sv_session S) (rq_http r) w = (res, w1)" by fastforce
  note ok = session_required [OF assms(1,2) auth]
  hence same: "same_effects w w1" by (simp add: same_effects_def)
  show ?thesis
  proof (cases "is_auth_exempt (rq_http r)")
    case True
    with ok have "res = Inr None" by simp
    hence "route_request S B None r w1 = (resp, w')" using assms(3) auth by (simp add: api_serve_def)
    hence "w' = w1" using no_principal_no_effect [of S B r w1] by simp
    thus ?thesis using exempt_open [OF True] same by simp
  next
    case False
    with ok consider "res = Inl (AppErr (Sentinel ErrUnauthorized))"
      | p token claims secret where "res = Inr (Some p)" "request_cookie (rq_http r) session_cookie_name = Some token"
        "secret \<in> {sc_secret (sv_session S), sc_env_secret (sv_session S)} - {[]}"
        "sj_sign (sc_jwt (sv_session S)) ''HS256'' secret claims = Inr token" "alive (e_clock (w_env w) (w_tick w)) claims"
        "principal_of (server_lib S) claims = Inr p" by auto
    thus ?thesis
    proof cases
      case 1
      thus ?thesis using assms(3) auth same by (simp add: api_serve_def)
    next
      case (2 p token claims secret)
      have "route_request S B (Some p) r w1 = (resp, w')" using assms(3) auth 2(1) by (simp add: api_serve_def)
      thus ?thesis using 2 same by blast
    qed
  qed
qed

text \<open>
  C35: asking for a lab over the API. The answer 201 shows a lab that was created for the signed-in user in the course and
  from the template of the body, with everything the use case promises of it; every other answer is an error and leaves the
  labs and projects as they were, but for the rejected lab of a student whose course has no free project, who is told so.
\<close>
theorem post_labs_outcome:
  assumes "sv_lab S = Some d" "w_snap w = None" "0 \<notin> pr_id ` set (t_projects (w_db w))" "distinct (map pr_id (t_projects (w_db w)))"
    and "sh_post_labs S (Some p) r w = (resp, w')"
  shows "if hr_status resp = 201
    then \<exists>course template l. Option.bind (rq_body r) (labs_body (server_lib S)) = Some (course, template) \<and>
      created_ok \<lparr>ci_student = pr_user p, ci_course = course, ci_template = template, ci_request_id = rid r\<rparr>
        (t_projects (w_db w)) (t_labs (w_db w)) l (w_db w') \<and>
      resp = json_response 201 (api_lab_json (server_lib S) (lab_response l))
    else 400 \<le> hr_status resp \<and> t_projects (w_db w') = t_projects (w_db w) \<and> (t_labs (w_db w') = t_labs (w_db w) \<or>
      resp = render_problem (rid r) (AppErr (Sentinel ErrPoolEmpty)) \<and>
      (\<exists>course template x. t_labs (w_db w') = t_labs (w_db w) @ [x] \<and>
        rejected_row \<lparr>ci_student = pr_user p, ci_course = course, ci_template = template, ci_request_id = rid r\<rparr> x))"
proof (cases "Option.bind (rq_body r) (labs_body (server_lib S))")
  case None
  thus ?thesis using assms(5) problem_status [of "rid r" InvalidRequest] by (auto simp: sh_post_labs_def strict_body_def)
next
  case (Some b)
  obtain course template where b: "b = (course, template)" by fastforce
  let ?inp = "\<lparr>ci_student = pr_user p, ci_course = course, ci_template = template, ci_request_id = rid r\<rparr>"
  show ?thesis
  proof (cases "course = 0 \<or> template = 0")
    case True
    thus ?thesis using assms(1,5) Some b problem_status [of "rid r"]
      by (auto simp: sh_post_labs_def strict_body_def post_labs_def)
  next
    case False
    obtain x w1 where run: "create_lab d ?inp w = (x, w1)" by fastforce
    have spec: "spec (same_tables (t_projects (w_db w)) (t_labs (w_db w))) (create_lab d ?inp)
        (\<lambda>l v. created_ok ?inp (t_projects (w_db w)) (t_labs (w_db w)) l (w_db v))
        (\<lambda>e v. create_refused ?inp (t_projects (w_db w)) (t_labs (w_db w)) e (w_db v))"
      by (rule create_lab_spec [OF assms(3,4)])
    have st: "same_tables (t_projects (w_db w)) (t_labs (w_db w)) w" using assms(2) by (simp add: same_tables_def)
    have resp: "(resp, w') = (case x of Inl e \<Rightarrow> render_problem (rid r) (AppErr e)
        | Inr l \<Rightarrow> json_response 201 (api_lab_json (server_lib S) (lab_response l)), w1)"
      using assms(1,5) Some b False run
      by (auto simp: sh_post_labs_def strict_body_def post_labs_def lab_answer_def strict_answer split: sum.splits)
    show ?thesis
    proof (cases x)
      case (Inl e)
      from specD_Inl [OF spec st run [unfolded Inl]] show ?thesis
        using resp Inl problem_status [of "rid r" "AppErr e"] by (auto simp: create_refused_def)
    next
      case (Inr l)
      from specD_Inr [OF spec st run [unfolded Inr]] show ?thesis
        using resp Inr Some b by (auto simp: json_response_def)
    qed
  qed
qed


text \<open>
  C18: the private key of a lab leaves the server only to the lab's own student. An answer with a key is the body of the secret
  that was sealed as the SSH key of this very lab, and the user of the session is the student of the lab as stored;
  neither teachers nor administrators get it.
\<close>
theorem key_goes_to_student:
  assumes "sv_lab_ops S = Some d" "sh_get_labs_id_ssh_key i S (Some p) r w = (resp, w')" "hr_status resp = 200"
  shows "\<exists>key row s x dek. hr_body resp = BytesBody key \<and> get_lab_row i (committed w) = Some row \<and> lr_student row = pr_user p \<and>
    lr_student_key row = Some s \<and> x \<in> set (t_secrets (committed w)) \<and> se_id x = s \<and>
    se_kind x = ''ssh_private_key'' \<and> se_ref x = uuid_string (ld_lib d) i \<and>
    decrypt_dek (ld_lib d) (ld_kek d) (se_dek_ct x) (se_dek_nonce x) (se_kek_version x) (se_aad x) = Inr dek \<and>
    decrypt_with_key (ld_lib d) dek (se_ct x) (se_nonce x) (se_aad x) = Some key"
proof -
  have "strict (rid r) (answer (get_lab_ssh_key d (lab_actor p) i) (\<lambda>key. fst (ssh_key_response (new_zeroizing_reader key)))) w = (resp, w')"
    using assms(1,2) by (simp add: sh_get_labs_id_ssh_key_def get_labs_id_ssh_key_def)
  from strict_answer_ok [OF this] assms(3) obtain key where key: "get_lab_ssh_key d (lab_actor p) i w = (Inr key, w')"
    "resp = fst (ssh_key_response (new_zeroizing_reader key))" by auto
  from ssh_key_owner [OF key(1)] key(2) show ?thesis by (auto simp: key_not_cleared lab_actor_def)
qed

section \<open>Witnesses\<close>

definition sample_server :: "unit api_server" where
  "sample_server = \<lparr>sv_session = sample_session_config, sv_lab = Some sample_deps,
     sv_lab_ops = Some (sample_deps\<lparr>ld_kek := replicate 32 7\<rparr>), sv_verify = None, sv_admin = Some sample_lib\<rparr>"

definition sample_bind :: bind_lib where
  "sample_bind = \<lparr>bl_route = (\<lambda>keys r. if (hq_method r, drop 7 (hq_path r)) \<in> set keys then Some ((hq_method r, drop 7 (hq_path r)), []) else None),
     bl_path_uuid = (\<lambda>_ s. Inr (of_nat (length s))), bl_string = (\<lambda>_ _. Inr None), bl_uuid = (\<lambda>_ _. Inr None),
     bl_time = (\<lambda>_ _. Inr None), bl_int = (\<lambda>_ _. Inr None), bl_lab_states = (\<lambda>_ _. Inr None), bl_project_state = (\<lambda>_ _. Inr None),
     bl_email = (\<lambda>_. True)\<rparr>"

definition sample_post :: api_request where
  "sample_post = \<lparr>rq_http = sample_request ''POST'' ''/api/v1/labs'', rq_query = [],
     rq_body = Some (JObj [(''course_id'', JStr ''uuuu''), (''lab_template_id'', JStr ''uuuuu'')])\<rparr>"

definition sample_student :: "uuid \<Rightarrow> principal" where
  "sample_student u = \<lparr>pr_user = u, pr_display = ''Bo'', pr_email = [], pr_role = ''student'', pr_courses = []\<rparr>"

lemma sample_body: "labs_body sample_lib (JObj [(''course_id'', JStr ''uuuu''), (''lab_template_id'', JStr ''uuuuu'')]) = Some (4, 5)"
  by code_simp

definition sample_wish :: create_input where
  "sample_wish = \<lparr>ci_student = 5, ci_course = 4, ci_template = 5, ci_request_id = ''r1''\<rparr>"

text \<open>The world once the middleware has read the clock.\<close>

definition sample_after_auth :: "db \<Rightarrow> unit world" where
  "sample_after_auth d = (world_of () d)\<lparr>w_tick := 1\<rparr>"

lemma sample_created: "\<exists>l w'. create_lab sample_deps sample_wish (sample_after_auth sample_campus) = (Inr l, w')"
proof -
  have "case create_lab sample_deps sample_wish (sample_after_auth sample_campus) of (Inl _, _) \<Rightarrow> False | (Inr _, _) \<Rightarrow> True"
    by code_simp
  thus ?thesis by (auto split: prod.splits sum.splits)
qed

lemma sample_server_simps: "server_lib sample_server = sample_lib" "sv_lab sample_server = Some sample_deps"
  "sv_lab_ops sample_server = Some (sample_deps\<lparr>ld_kek := replicate 32 7\<rparr>)" "sc_jwt (sv_session sample_server) = sample_session_jwt"
  "\<not> sc_dev (sv_session sample_server)" "sv_session sample_server = sample_session_config" "sc_lib sample_session_config = sample_lib"
  by (simp_all add: sample_server_def sample_session_config_def)

lemma sample_posted: "\<exists>l w'. sh_post_labs sample_server (Some sample_principal) sample_post (sample_after_auth sample_campus) =
    (json_response 201 (api_lab_json sample_lib (lab_response l)), w')"
proof -
  obtain l w' where "create_lab sample_deps sample_wish (sample_after_auth sample_campus) = (Inr l, w')" using sample_created by blast
  thus ?thesis
    by (simp add: sh_post_labs_def strict_body_def sample_server_simps sample_post_def sample_body post_labs_def lab_answer_def
        strict_answer sample_principal_def sample_wish_def sample_request_def) blast
qed

lemma sample_admitted: "require_auth sample_session_config (rq_http sample_post) (world_of () d) = (Inr (Some sample_principal), sample_after_auth d)"
proof -
  have parsed: "sj_parse sample_session_jwt ''HS256.key'' (session_key ''key'') [''HS256''] (e_clock quiet_env 0) = Inr sample_session"
    by (simp add: jwt_for_def session_key_def alive_def sample_session_def claims_for_def numeric_date_def quiet_env_def second_def)
  have "principal_of sample_lib sample_session = Inr sample_principal"
    unfolding sample_session_def
    by (rule principal_of_claims [OF sample_uuid_ok]) (simp add: sample_principal_def)
  thus ?thesis
    using parsed by (simp add: require_auth_def is_auth_exempt_def sample_post_def sample_request_def trim_prefix_def parse_principal_def
        sample_session_config_def Let_def request_cookie_def session_cookie_name_def io_simps app_def clock_now_def sample_after_auth_def world_of_def)
qed

theorem api_authenticated_witness:
  "\<exists>resp w' p token claims. api_serve sample_server sample_bind sample_post (world_of () sample_campus) = (resp, w') \<and> hr_status resp = 201 \<and>
     request_cookie (rq_http sample_post) session_cookie_name = Some token \<and>
     sj_sign sample_session_jwt ''HS256'' ''key'' claims = Inr token \<and> principal_of sample_lib claims = Inr p"
proof -
  have "route_request sample_server sample_bind (Some sample_principal) sample_post =
      sh_post_labs sample_server (Some sample_principal) sample_post"
    by (simp add: route_request_def sample_bind_def sample_post_def sample_request_def api_routes_def sw_post_labs_def fun_eq_iff)
  then obtain resp w' where run: "api_serve sample_server sample_bind sample_post (world_of () sample_campus) = (resp, w')" "hr_status resp = 201"
    using sample_posted sample_admitted [of sample_campus]
    by (auto simp: api_serve_def sample_server_simps json_response_def)
  have closed: "(hq_method (rq_http sample_post), hq_path (rq_http sample_post)) \<notin> set open_routes" by code_simp
  show ?thesis
    using api_authenticated [OF _ _ run(1)] closed run jwt_for_ok
    by (auto simp: sample_server_simps sample_session_config_def)
qed

theorem post_labs_outcome_witness:
  "\<exists>resp w' l. sh_post_labs sample_server (Some sample_principal) sample_post (sample_after_auth sample_campus) = (resp, w') \<and>
     resp = json_response 201 (api_lab_json sample_lib (lab_response l)) \<and>
     created_ok sample_wish (t_projects sample_campus) (t_labs sample_campus) l (w_db w')"
proof -
  obtain resp w' where run: "sh_post_labs sample_server (Some sample_principal) sample_post (sample_after_auth sample_campus) = (resp, w')"
    "hr_status resp = 201"
    using sample_posted by (auto simp: json_response_def)
  have pre: "sv_lab sample_server = Some sample_deps" "w_snap (sample_after_auth sample_campus) = None"
    "0 \<notin> pr_id ` set (t_projects (w_db (sample_after_auth sample_campus)))"
    "distinct (map pr_id (t_projects (w_db (sample_after_auth sample_campus))))"
    by (simp_all add: sample_server_def sample_campus_def sample_labs_def sample_pool_def sample_row_def sample_after_auth_def)
  have body: "Option.bind (rq_body sample_post) (labs_body sample_lib) = Some (4, 5)"
    by (simp add: sample_post_def sample_server_simps sample_body)
  have w: "w_db (sample_after_auth sample_campus) = sample_campus" by (simp add: sample_after_auth_def)
  have p: "rid sample_post = ''r1''" "pr_user sample_principal = 5"
    by (simp_all add: sample_post_def sample_request_def sample_principal_def)
  show ?thesis
    using post_labs_outcome [OF pre run(1), unfolded w p sample_server_simps body] run
    unfolding sample_wish_def by auto
qed


theorem key_goes_to_student_witness:
  "\<exists>resp w' key. sh_get_labs_id_ssh_key 7 sample_server (Some (sample_student 1)) sample_post (world_of () sample_keys) = (resp, w') \<and>
     hr_status resp = 200 \<and> hr_body resp = BytesBody key"
proof -
  let ?d = "sample_deps\<lparr>ld_kek := replicate 32 7\<rparr>"
  have "case get_lab_ssh_key ?d (sample_actor RoleStudent 1) 7 (world_of () sample_keys) of (Inl _, _) \<Rightarrow> False | (Inr _, _) \<Rightarrow> True" by code_simp
  then obtain key w' where "get_lab_ssh_key ?d (sample_actor RoleStudent 1) 7 (world_of () sample_keys) = (Inr key, w')"
    by (auto split: prod.splits sum.splits)
  moreover have "lab_actor (sample_student 1) = sample_actor RoleStudent 1"
    by (simp add: lab_actor_def sample_student_def sample_actor_def principal_course_roles_def role_of_def)
  ultimately obtain resp where run: "sh_get_labs_id_ssh_key 7 sample_server (Some (sample_student 1)) sample_post (world_of () sample_keys) = (resp, w')"
    "hr_status resp = 200"
    by (simp add: sh_get_labs_id_ssh_key_def get_labs_id_ssh_key_def sample_server_simps strict_answer key_not_cleared)
  from key_goes_to_student [OF sample_server_simps(3) run] run show ?thesis by blast
qed

end
