(* ===== verification/HttpSchema.thy ===== *)
theory HttpSchema
  imports HttpSafety
begin

text \<open>
  The bodies of the API against the document it is written to, \<open>api/openapi.yaml\<close>: a schema of an object lists its
  properties with their types, whether they are required and whether they may be null.
\<close>

datatype field_type = FString | FUuid | FTime | FInt | FEnum "string list"

record property =
  py_name :: string
  py_type :: field_type
  py_required :: bool
  py_nullable :: bool

definition required_property :: "string \<Rightarrow> field_type \<Rightarrow> property" where
  "required_property n t = \<lparr>py_name = n, py_type = t, py_required = True, py_nullable = False\<rparr>"

definition optional_property :: "string \<Rightarrow> field_type \<Rightarrow> property" where
  "optional_property n t = \<lparr>py_name = n, py_type = t, py_required = False, py_nullable = False\<rparr>"

definition nullable_property :: "string \<Rightarrow> field_type \<Rightarrow> property" where
  "nullable_property n t = \<lparr>py_name = n, py_type = t, py_required = False, py_nullable = True\<rparr>"

definition lab_states :: "string list" where
  "lab_states = [''pending_quota'', ''pending_project'', ''deploying'', ''ready'', ''checking'', ''frozen'', ''failed'', ''cleaning'',
     ''done'', ''rejected'']"

definition project_states :: "string list" where
  "project_states = [''free'', ''allocated'', ''cleaning'', ''quarantine'', ''decommissioned'']"

definition lab_schema :: "property list" where
  "lab_schema = [required_property ''id'' FUuid, required_property ''student_user_id'' FUuid, required_property ''course_id'' FUuid,
     required_property ''lab_template_id'' FUuid, nullable_property ''project_id'' FUuid, required_property ''state'' (FEnum lab_states),
     nullable_property ''state_reason'' FString, nullable_property ''cleanup_at'' FTime, nullable_property ''unfreeze_at'' FTime,
     required_property ''created_at'' FTime, optional_property ''updated_at'' FTime]"

definition project_schema :: "property list" where
  "project_schema = [optional_property ''id'' FUuid, optional_property ''ki_project_id'' FString, optional_property ''ki_domain_id'' FString,
     optional_property ''name'' FString, optional_property ''state'' (FEnum project_states), nullable_property ''allocated_to_lab_id'' FUuid,
     optional_property ''cleanup_failures'' FInt, optional_property ''last_state_change_at'' FTime]"

definition problem_schema :: "property list" where
  "problem_schema = [required_property ''type'' FString, required_property ''title'' FString, required_property ''status'' FInt,
     optional_property ''detail'' FString, optional_property ''instance'' FString, optional_property ''code'' FString]"

text \<open>\<open>is_time\<close> recognises the JSON of a time.\<close>

definition has_type :: "lib \<Rightarrow> (json \<Rightarrow> bool) \<Rightarrow> field_type \<Rightarrow> json \<Rightarrow> bool" where
  "has_type L is_time t j = (case t of
     FString \<Rightarrow> (case j of JStr _ \<Rightarrow> True | _ \<Rightarrow> False)
   | FUuid \<Rightarrow> (case j of JStr s \<Rightarrow> uuid_parse L s \<noteq> None | _ \<Rightarrow> False)
   | FTime \<Rightarrow> is_time j
   | FInt \<Rightarrow> (case j of JInt _ \<Rightarrow> True | _ \<Rightarrow> False)
   | FEnum xs \<Rightarrow> (case j of JStr s \<Rightarrow> s \<in> set xs | _ \<Rightarrow> False))"

definition property_fits :: "lib \<Rightarrow> (json \<Rightarrow> bool) \<Rightarrow> property list \<Rightarrow> string \<times> json \<Rightarrow> bool" where
  "property_fits L is_time ps kv = list_ex (\<lambda>p. py_name p = fst kv \<and> (py_nullable p \<and> snd kv = JNull \<or> has_type L is_time (py_type p) (snd kv))) ps"

definition conforms :: "lib \<Rightarrow> (json \<Rightarrow> bool) \<Rightarrow> property list \<Rightarrow> json \<Rightarrow> bool" where
  "conforms L is_time ps j = (case j of
     JObj kvs \<Rightarrow> distinct (map fst kvs) \<and> list_all (property_fits L is_time ps) kvs \<and>
       list_all (\<lambda>p. py_required p \<longrightarrow> py_name p \<in> set (map fst kvs)) ps
   | _ \<Rightarrow> False)"

definition conforms_list :: "lib \<Rightarrow> (json \<Rightarrow> bool) \<Rightarrow> property list \<Rightarrow> json \<Rightarrow> bool" where
  "conforms_list L is_time ps j = (case j of JArr js \<Rightarrow> list_all (conforms L is_time ps) js | _ \<Rightarrow> False)"

text \<open>An answer is either a body of the type the document gives for the operation, or a problem with its own status.\<close>

definition typed_answer :: "lib \<Rightarrow> (json \<Rightarrow> bool) \<Rightarrow> (json \<Rightarrow> bool) \<Rightarrow> http_response \<Rightarrow> bool" where
  "typed_answer L is_time body_ok resp =
     (case hr_body resp of
        JsonBody j \<Rightarrow>
          if hr_status resp < 400 then hr_type resp = ''application/json'' \<and> body_ok j
          else hr_type resp = ''application/problem+json'' \<and> conforms L is_time problem_schema j \<and>
            json_field ''status'' j = Some (JInt (hr_status resp))
      | _ \<Rightarrow> False)"

definition times_ok :: "lib \<Rightarrow> (json \<Rightarrow> bool) \<Rightarrow> bool" where
  "times_ok L is_time \<longleftrightarrow> (\<forall>t. is_time (time_json L t))"

section \<open>Lemmas\<close>

lemma lstate_listed: "lstate_text s \<in> set lab_states"
  by (cases s) (simp_all add: lstate_text_def lab_states_def)

lemma pstate_listed: "pstate_text s \<in> set project_states"
  by (cases s) (simp_all add: pstate_text_def project_states_def)

lemmas property_simps = required_property_def optional_property_def nullable_property_def

lemma lab_body_typed:
  assumes "uuid_ok L" "times_ok L is_time"
  shows "conforms L is_time lab_schema (api_lab_json L (lab_response l))"
proof -
  have "uuid_parse L (uuid_string L u) \<noteq> None" for u using assms(1) by (simp add: uuid_ok_def)
  thus ?thesis
    using assms(2) lstate_listed
    by (simp add: times_ok_def conforms_def api_lab_json_def lab_response_def lab_schema_def property_simps property_fits_def has_type_def or_null_def omit_def
        uuid_json_def time_ptr_def split: option.split)
qed

lemma project_body_typed:
  assumes "uuid_ok L" "times_ok L is_time"
  shows "conforms L is_time project_schema (api_project_json L (project_response p))"
proof -
  have "uuid_parse L (uuid_string L u) \<noteq> None" for u using assms(1) by (simp add: uuid_ok_def)
  thus ?thesis
    using assms(2) pstate_listed
    by (simp add: times_ok_def conforms_def api_project_json_def project_response_def project_schema_def property_simps property_fits_def has_type_def or_null_def
        omit_def uuid_json_def time_ptr_def split: option.split)
qed

lemma problem_typed: "typed_answer L is_time f (render_problem i e)"
proof -
  obtain status title detail code where m: "problem_meta e = (status, title, detail, code)" by (cases "problem_meta e") blast
  hence "400 \<le> status" by (auto simp: problem_meta_def split: if_splits)
  thus ?thesis using m
    by (simp add: typed_answer_def render_problem_def conforms_def problem_schema_def property_simps property_fits_def has_type_def json_field_def)
qed

lemma answer_typed: "(\<And>x. typed_answer L is_time f (g x)) \<Longrightarrow> typed_answer L is_time f (fst (strict i (answer m g) w))"
  by (auto simp: strict_def answer_def app_def io_simps problem_typed split: prod.splits sum.splits)

lemma json_typed: "status < 400 \<Longrightarrow> f j \<Longrightarrow> typed_answer L is_time f (json_response status j)"
  by (simp add: typed_answer_def json_response_def)

lemma service_typed: "(\<And>s. typed_answer L is_time f (fst (strict i (g s) w))) \<Longrightarrow> typed_answer L is_time f (fst (strict i (with_service s g) w))"
  by (cases s) (simp_all add: problem_typed)

lemma principal_typed: "(\<And>p. typed_answer L is_time f (fst (strict i (g p) w))) \<Longrightarrow> typed_answer L is_time f (fst (strict i (with_principal p g) w))"
  by (cases p) (simp_all add: problem_typed)

lemma body_typed: "(\<And>b. typed_answer L is_time f (fst (strict (rid r) (g b) w))) \<Longrightarrow> typed_answer L is_time f (fst (strict_body r dec g w))"
  by (simp add: strict_body_def problem_typed split: option.split)

definition shows_lab :: "(lib \<Rightarrow> api_lab \<Rightarrow> http_response) \<Rightarrow> bool" where
  "shows_lab visit \<longleftrightarrow> (\<exists>status < 400. visit = (\<lambda>L l. json_response status (api_lab_json L l)))"

lemma labs_shown [simp]:
  "shows_lab post_labs_201" "shows_lab delete_labs_id_202" "shows_lab post_labs_id_freeze_200" "shows_lab post_labs_id_unfreeze_200"
  "shows_lab post_labs_id_extend_200"
  unfolding shows_lab_def fun_eq_iff by (rule exI [of _ 201], simp) (rule exI [of _ 202], simp, (rule exI [of _ 200], simp)+)

lemma lab_answer_typed:
  assumes "uuid_ok (server_lib S)" "times_ok (server_lib S) is_time" "shows_lab visit"
  shows "typed_answer (server_lib S) is_time (conforms (server_lib S) is_time lab_schema) (fst (strict i (lab_answer S visit m) w))"
  using assms(3) unfolding lab_answer_def shows_lab_def by (auto intro!: answer_typed json_typed lab_body_typed [OF assms(1,2)])

section \<open>Properties\<close>


text \<open>
  The detail of a lab does not conform: with a network but no server yet, its list of servers is null, which the document does not allow.
\<close>
lemma detail_null_list:
  "json_field ''server_ids'' (api_resources_json ([], Some n, [])) = Some JNull"
  by (simp add: api_resources_json_def list_json_def omit_def json_field_def)


end
