(* ===== verification/Config.thy ===== *)
theory Config
  imports Shared
begin

text \<open>
  \<open>pkg/config/config.go\<close>: the configuration of both processes, read from the environment. The environment is a
  function that gives the empty string for a variable that is not set, which is how viper's \<open>GetString\<close> reads it;
  \<open>strconv.ParseFloat\<close> is an argument, on the numbers that are neither infinite nor NaN. A Go \<open>int\<close> has 64 bits, so a
  number of seconds wraps when it becomes a duration.
\<close>

type_synonym environment = "string \<Rightarrow> string"

section \<open>The configuration\<close>

record kek_config =
  kc_base64 :: string
  kc_version :: int

record jwt_config =
  jc_secret :: string
  jc_ttl :: duration

record quota_config =
  qc_threshold_pct :: rat
  qc_cache_ttl_seconds :: int

record lifecycle_config =
  lf_cleanup :: duration
  lf_freeze :: duration
  lf_deploy_timeout :: duration
  lf_check_timeout :: duration

record openstack_config =
  oc_auth_url :: string
  oc_username :: string
  oc_password :: string
  oc_domain :: string
  oc_project :: string
  oc_region :: string
  oc_verify_tls :: bool
  oc_default_flavor :: string
  oc_public_network :: string

record config =
  cf_bind_addr :: string
  cf_log_level :: string
  cf_cloud_provider :: string
  cf_pg_dsn :: string
  cf_redis_addr :: string
  cf_kek :: kek_config
  cf_jwt :: jwt_config
  cf_quota :: quota_config
  cf_lifecycle :: lifecycle_config
  cf_openstack :: openstack_config

section \<open>Reading a variable\<close>

definition get_string :: "environment \<Rightarrow> string \<Rightarrow> string \<Rightarrow> string" where
  "get_string env key d = (if env key \<noteq> [] then env key else d)"

text \<open>\<open>strconv.Atoi\<close>: a sign at most, then digits, within 64 bits.\<close>

definition is_digit :: "char \<Rightarrow> bool" where
  "is_digit c \<longleftrightarrow> (48 :: int) \<le> of_char c \<and> of_char c \<le> (57 :: int)"

definition unsigned_value :: "string \<Rightarrow> int option" where
  "unsigned_value s = (if s \<noteq> [] \<and> list_all is_digit s then Some (digits_value s) else None)"

definition atoi :: "string \<Rightarrow> int option" where
  "atoi s =
     (let v = (case s of
          [] \<Rightarrow> None
        | c # cs \<Rightarrow> if c = CHR ''-'' then map_option uminus (unsigned_value cs)
            else if c = CHR ''+'' then unsigned_value cs else unsigned_value s) in
      case v of None \<Rightarrow> None | Some n \<Rightarrow> if int64 n then Some n else None)"

definition get_int :: "environment \<Rightarrow> string \<Rightarrow> int \<Rightarrow> int" where
  "get_int env key d = (let v = env key in
     if v = [] then d else (case atoi v of None \<Rightarrow> d | Some n \<Rightarrow> n))"

definition get_float :: "(string \<Rightarrow> rat option) \<Rightarrow> environment \<Rightarrow> string \<Rightarrow> rat \<Rightarrow> rat" where
  "get_float parse_float env key d = (let v = env key in
     if v = [] then d else (case parse_float v of None \<Rightarrow> d | Some f \<Rightarrow> f))"

text \<open>\<open>strings.ToLower\<close> on ASCII; the words the code compares with are ASCII.\<close>

definition lower_char :: "char \<Rightarrow> char" where
  "lower_char c = (if (65 :: int) \<le> of_char c \<and> of_char c \<le> (90 :: int) then char_of ((of_char c :: int) + 32) else c)"

definition get_bool :: "environment \<Rightarrow> string \<Rightarrow> bool \<Rightarrow> bool" where
  "get_bool env key d = (let v = map lower_char (env key) in
     if v = [] then d
     else if v \<in> set [''true'', ''1'', ''yes'', ''y''] then True
     else if v \<in> set [''false'', ''0'', ''no'', ''n''] then False
     else d)"

definition get_seconds :: "environment \<Rightarrow> string \<Rightarrow> int \<Rightarrow> duration" where
  "get_seconds env key d = wrap64 (get_int env key d * second)"

section \<open>Loading\<close>

definition config_from_env :: "(string \<Rightarrow> rat option) \<Rightarrow> environment \<Rightarrow> config" where
  "config_from_env parse_float env =
     \<lparr>cf_bind_addr = get_string env ''CLG_BIND_ADDR'' ''0.0.0.0:8080'',
      cf_log_level = get_string env ''LOG_LEVEL'' ''info'',
      cf_cloud_provider = get_string env ''CLG_CLOUD_PROVIDER'' ''inmem'',
      cf_pg_dsn = get_string env ''PG_DSN'' [],
      cf_redis_addr = get_string env ''REDIS_ADDR'' ''redis:6379'',
      cf_kek = \<lparr>kc_base64 = get_string env ''CLG_KEK_BASE64'' [], kc_version = get_int env ''CLG_KEK_VERSION'' 1\<rparr>,
      cf_jwt = \<lparr>jc_secret = get_string env ''CLG_JWT_SECRET'' [], jc_ttl = get_seconds env ''CLG_JWT_TTL_SECONDS'' 28800\<rparr>,
      cf_quota = \<lparr>qc_threshold_pct = get_float parse_float env ''CLG_QUOTA_THRESHOLD_PCT'' 90,
        qc_cache_ttl_seconds = get_int env ''CLG_QUOTA_CACHE_TTL_SECONDS'' 30\<rparr>,
      cf_lifecycle = \<lparr>lf_cleanup = get_seconds env ''CLG_DEFAULT_CLEANUP_SECONDS'' 7200,
        lf_freeze = get_seconds env ''CLG_DEFAULT_FREEZE_SECONDS'' 86400,
        lf_deploy_timeout = get_seconds env ''CLG_DEPLOY_TIMEOUT_SECONDS'' 600,
        lf_check_timeout = get_seconds env ''CLG_CHECK_TIMEOUT_SECONDS'' 300\<rparr>,
      cf_openstack = \<lparr>oc_auth_url = get_string env ''OPENSTACK_AUTH_URL'' [],
        oc_username = get_string env ''OPENSTACK_USERNAME'' [],
        oc_password = get_string env ''OPENSTACK_PASSWORD'' [],
        oc_domain = get_string env ''OPENSTACK_DOMAIN_NAME'' ''Default'',
        oc_project = get_string env ''OPENSTACK_PROJECT_NAME'' [],
        oc_region = get_string env ''OPENSTACK_REGION'' ''RegionOne'',
        oc_verify_tls = get_bool env ''OPENSTACK_VERIFY_TLS'' True,
        oc_default_flavor = get_string env ''OPENSTACK_DEFAULT_FLAVOR'' ''m1.small'',
        oc_public_network = get_string env ''OPENSTACK_PUBLIC_NETWORK_ID'' []\<rparr>\<rparr>"

definition missing_vars :: "config \<Rightarrow> string list" where
  "missing_vars c =
     (if cf_pg_dsn c = [] then [''PG_DSN''] else []) @
     (if kc_base64 (cf_kek c) = [] then [''CLG_KEK_BASE64''] else []) @
     (if jc_secret (cf_jwt c) = [] then [''CLG_JWT_SECRET''] else [])"

fun join_text :: "string \<Rightarrow> string list \<Rightarrow> string" where
  "join_text sep [] = []"
| "join_text sep [x] = x"
| "join_text sep (x # y # xs) = x @ sep @ join_text sep (y # xs)"

definition config_validate :: "config \<Rightarrow> err option" where
  "config_validate c = (let missing = missing_vars c in
     if missing \<noteq> [] then Some (Plain (''missing required env: '' @ join_text '', '' missing)) else None)"

definition config_load :: "(string \<Rightarrow> rat option) \<Rightarrow> environment \<Rightarrow> config \<times> err option" where
  "config_load parse_float env = (let c = config_from_env parse_float env in (c, config_validate c))"

definition validate_for_gateway :: "config \<Rightarrow> err option" where
  "validate_for_gateway c =
     (case config_validate c of
        Some e \<Rightarrow> Some e
      | None \<Rightarrow>
          if oc_auth_url (cf_openstack c) = [] then None
          else if oc_password (cf_openstack c) = [] then Some (Plain ''OPENSTACK_AUTH_URL set but OPENSTACK_PASSWORD missing'')
          else None)"

section \<open>Lemmas\<close>

lemma validate_ok: "config_validate c = None \<longleftrightarrow> cf_pg_dsn c \<noteq> [] \<and> kc_base64 (cf_kek c) \<noteq> [] \<and> jc_secret (cf_jwt c) \<noteq> []"
  by (auto simp: config_validate_def missing_vars_def Let_def)

text \<open>A configuration that loads has exactly the three required variables.\<close>

lemma load_ok: "snd (config_load pf env) = None \<longleftrightarrow> env ''PG_DSN'' \<noteq> [] \<and> env ''CLG_KEK_BASE64'' \<noteq> [] \<and> env ''CLG_JWT_SECRET'' \<noteq> []"
  by (simp add: config_load_def Let_def validate_ok config_from_env_def get_string_def)

lemma unsigned_digits: "0 \<le> n \<Longrightarrow> unsigned_value (digits n) = Some n"
proof -
  assume n: "0 \<le> n"
  have d: "is_digit (digit k)" if "0 \<le> k" "k < 10" for k using of_char_digit [OF that] that by (simp add: is_digit_def)
  have "digits n \<noteq> [] \<and> list_all is_digit (digits n)" using n
  proof (induction n rule: digits.induct)
    case (1 n)
    then show ?case using d [of n] d [of "n mod 10"] by (cases "n < 10") (auto simp: digits.simps [of n])
  qed
  thus ?thesis using n by (simp add: unsigned_value_def digits_value_digits)
qed

lemma digits_head: "0 \<le> n \<Longrightarrow> \<exists>c cs. digits n = c # cs \<and> is_digit c"
  using unsigned_digits [of n] by (cases "digits n") (auto simp: unsigned_value_def split: if_splits)

text \<open>The parser reads back what \<open>strconv.Itoa\<close> writes.\<close>

lemma atoi_int_text: "int64 n \<Longrightarrow> atoi (int_text n) = Some n"
proof (cases "n < 0")
  case True
  moreover assume "int64 n"
  ultimately show ?thesis using unsigned_digits [of "- n"] by (simp add: atoi_def int_text_def)
next
  case False
  assume n: "int64 n"
  obtain c cs where c: "digits n = c # cs" "is_digit c" using digits_head [of n] False by auto
  hence "c \<noteq> CHR ''-''" "c \<noteq> CHR ''+''" by (auto simp: is_digit_def)
  thus ?thesis using unsigned_digits [of n] False n c(1) by (simp add: atoi_def int_text_def)
qed

lemma get_int_text: "env key = int_text n \<Longrightarrow> int64 n \<Longrightarrow> get_int env key d = n"
proof -
  assume *: "env key = int_text n" "int64 n"
  have "int_text n \<noteq> []" using digits_head [of n] by (auto simp: int_text_def)
  thus ?thesis using * atoi_int_text by (simp add: get_int_def Let_def)
qed

text \<open>Up to 292 years a number of seconds is that duration; beyond, it wraps to something else.\<close>

lemma seconds_exact: "env key = int_text n \<Longrightarrow> \<bar>n\<bar> \<le> 9223372036 \<Longrightarrow> get_seconds env key d = n * second"
proof -
  assume *: "env key = int_text n" "\<bar>n\<bar> \<le> 9223372036"
  hence "int64 n" "int64 (n * second)" by (auto simp: int64_def second_def)
  thus ?thesis using get_int_text [of env key n d] * by (simp add: get_seconds_def wrap64_id)
qed

lemma seconds_wrap: "get_seconds (\<lambda>_. ''18446744074'') key d = 290448384"
  by code_simp

end
