(* ===== verification/OpenStack.thy ===== *)
theory OpenStack
  imports CloudInmem Config
begin

text \<open>
  \<open>internal/adapters/cloud/openstack\<close>: the production provider, on the client library gophercloud. The library and
  the services behind it are an argument, \<open>'o os_api\<close>: one field per call the adapter makes, over a state of the
  services. The adapter's own part is modelled in full: the cache of authenticated clients, the translation of errors,
  and each method of \<open>ports.CloudProvider\<close> with its calls in order. The two mutexes make the look-up of a client one step.
\<close>

section \<open>The client library\<close>

datatype api_error = CtxDone string | Status int string | NetFailure string | OtherFailure string

type_synonym ('o, 'a) api_call = "('o, api_error, 'a) io"

text \<open>A page of a listing, whose contents are extracted by a second call that may fail.\<close>

type_synonym 'a page = "api_error + 'a list"

datatype service_kind = Compute | Network | BlockStorage | Image

record auth_options =
  ao_endpoint :: string
  ao_username :: string
  ao_password :: string
  ao_domain :: string
  ao_reauth :: bool
  ao_tenant_id :: string
  ao_tenant_name :: string

record os_client =
  oc_auth :: auth_options
  oc_insecure :: bool
  oc_agents :: "string list"

record os_handle =
  oh_kind :: service_kind
  oh_client :: os_client
  oh_region :: string

record os_server =
  os_server_id :: string
  os_server_name :: string
  os_server_status :: string

record os_named =
  on_id :: string
  on_name :: string

record os_port =
  pt_id :: string
  pt_device :: string
  pt_fixed_subnets :: "string list"

record os_fip =
  fp_id :: string
  fp_port :: string
  fp_address :: string

record os_keypair =
  okp_name :: string
  okp_public :: string
  okp_private :: string
  okp_fingerprint :: string

record server_opts =
  so_name :: string
  so_image :: string
  so_flavor :: string
  so_user_data :: string
  so_metadata :: "(string \<times> string) list"
  so_networks :: "string list"
  so_key :: "string option"

record port_query =
  pq_network :: string
  pq_device :: string
  pq_owner :: string
  pq_project :: string

record subnet_opts =
  sn_network :: string
  sn_cidr :: string
  sn_name :: string
  sn_dhcp :: bool
  sn_project :: string

record router_opts =
  ro_name :: string
  ro_project :: string
  ro_gateway :: string
  ro_snat :: bool

record hypervisor_stats =
  hs_vcpus :: int
  hs_vcpus_used :: int
  hs_memory_mb :: int
  hs_memory_mb_used :: int
  hs_local_gb :: int
  hs_local_gb_used :: int

record volume_limits =
  vl_used_gb :: int
  vl_max_gb :: int

text \<open>
  \<open>api_patience\<close> is the number of times the timer of \<open>WaitForActive\<close> fires before the context of the call is done,
  and \<open>api_ctx_error\<close> the text of its error then; the task queue gives every task a deadline.
\<close>

record 'o os_api =
  api_new_client :: "string \<Rightarrow> api_error option"
  api_authenticate :: "os_client \<Rightarrow> ('o, unit) api_call"
  api_endpoint :: "os_handle \<Rightarrow> ('o, unit) api_call"
  api_list_servers :: "os_handle \<Rightarrow> string \<Rightarrow> ('o, os_server page) api_call"
  api_create_server :: "os_handle \<Rightarrow> server_opts \<Rightarrow> ('o, string) api_call"
  api_get_server :: "os_handle \<Rightarrow> string \<Rightarrow> ('o, os_server) api_call"
  api_delete_server :: "os_handle \<Rightarrow> string \<Rightarrow> ('o, unit) api_call"
  api_list_images :: "os_handle \<Rightarrow> string \<Rightarrow> nat \<Rightarrow> ('o, os_named page) api_call"
  api_list_flavors :: "os_handle \<Rightarrow> ('o, os_named page) api_call"
  api_get_keypair :: "os_handle \<Rightarrow> string \<Rightarrow> ('o, os_keypair option) api_call"
  api_create_keypair :: "os_handle \<Rightarrow> string \<Rightarrow> string \<Rightarrow> ('o, os_keypair) api_call"
  api_delete_keypair :: "os_handle \<Rightarrow> string \<Rightarrow> ('o, unit) api_call"
  api_list_networks :: "os_handle \<Rightarrow> string \<Rightarrow> string \<Rightarrow> ('o, os_named page) api_call"
  api_create_network :: "os_handle \<Rightarrow> string \<Rightarrow> bool \<Rightarrow> string \<Rightarrow> ('o, string) api_call"
  api_delete_network :: "os_handle \<Rightarrow> string \<Rightarrow> ('o, unit) api_call"
  api_list_subnets :: "os_handle \<Rightarrow> string \<Rightarrow> string \<Rightarrow> string \<Rightarrow> ('o, os_named page) api_call"
  api_create_subnet :: "os_handle \<Rightarrow> subnet_opts \<Rightarrow> ('o, os_named) api_call"
  api_delete_subnet :: "os_handle \<Rightarrow> string \<Rightarrow> ('o, unit) api_call"
  api_list_routers :: "os_handle \<Rightarrow> string \<Rightarrow> string \<Rightarrow> ('o, os_named page) api_call"
  api_create_router :: "os_handle \<Rightarrow> router_opts \<Rightarrow> ('o, string) api_call"
  api_delete_router :: "os_handle \<Rightarrow> string \<Rightarrow> ('o, unit) api_call"
  api_add_interface :: "os_handle \<Rightarrow> string \<Rightarrow> string \<Rightarrow> ('o, unit) api_call"
  api_remove_interface :: "os_handle \<Rightarrow> string \<Rightarrow> string \<Rightarrow> ('o, unit) api_call"
  api_list_ports :: "os_handle \<Rightarrow> port_query \<Rightarrow> ('o, os_port page) api_call"
  api_list_fips :: "os_handle \<Rightarrow> string \<Rightarrow> string \<Rightarrow> ('o, os_fip page) api_call"
  api_create_fip :: "os_handle \<Rightarrow> string \<Rightarrow> string \<Rightarrow> string \<Rightarrow> ('o, os_fip) api_call"
  api_delete_fip :: "os_handle \<Rightarrow> string \<Rightarrow> ('o, unit) api_call"
  api_hypervisors :: "os_handle \<Rightarrow> ('o, hypervisor_stats) api_call"
  api_volume_limits :: "os_handle \<Rightarrow> ('o, volume_limits option) api_call"
  api_clock :: "'o \<Rightarrow> time"
  api_patience :: "'o \<Rightarrow> nat"
  api_ctx_error :: "'o \<Rightarrow> string"

section \<open>Errors\<close>

text \<open>
  An error of the adapter: one of the library as it is, one that \<open>translateErr\<close> has wrapped, with the sentinel joined to
  it, or one of its own. Where it leaves the adapter the text of a joined error is dropped after that of its sentinel.
\<close>

datatype os_err = Untranslated api_error | Translated string "sentinel option" api_error | OwnError err

definition translate_err :: "string \<Rightarrow> api_error \<Rightarrow> os_err" where
  "translate_err op e = (case e of
     CtxDone _ \<Rightarrow> Untranslated e
   | Status n _ \<Rightarrow>
       if n = 404 then Translated op (Some ErrNotFound) e
       else if n \<in> set [401, 408, 429, 500, 502, 503, 504] then Translated op (Some ErrCloudUnavailable) e
       else Translated op None e
   | NetFailure _ \<Rightarrow> Translated op (Some ErrCloudUnavailable) e
   | OtherFailure _ \<Rightarrow> Translated op None e)"

definition api_error_text :: "api_error \<Rightarrow> string" where
  "api_error_text e = (case e of CtxDone m \<Rightarrow> m | Status _ m \<Rightarrow> m | NetFailure m \<Rightarrow> m | OtherFailure m \<Rightarrow> m)"

definition to_err :: "os_err \<Rightarrow> err" where
  "to_err e = (case e of
     Untranslated a \<Rightarrow> Plain (api_error_text a)
   | Translated op None a \<Rightarrow> Wrapped (''openstack: '' @ op) (Plain (api_error_text a))
   | Translated op (Some s) a \<Rightarrow> Wrapped (''openstack: '' @ op) (Sentinel s)
   | OwnError e \<Rightarrow> e)"

definition has_status :: "int \<Rightarrow> api_error \<Rightarrow> bool" where
  "has_status n e = (case e of Status m _ \<Rightarrow> m = n | _ \<Rightarrow> False)"

definition response_code_is :: "os_err \<Rightarrow> int \<Rightarrow> bool" where
  "response_code_is e n = (case e of Untranslated a \<Rightarrow> has_status n a | Translated _ _ a \<Rightarrow> has_status n a | OwnError _ \<Rightarrow> False)"

definition os_not_found :: "os_err \<Rightarrow> bool" where
  "os_not_found e \<longleftrightarrow> err_is (to_err e) ErrNotFound \<or> response_code_is e 404"

definition os_conflict :: "os_err \<Rightarrow> bool" where
  "os_conflict e \<longleftrightarrow> response_code_is e 409"

section \<open>The provider\<close>

record 'o os_provider =
  op_config :: openstack_config
  op_clients :: "(string \<times> os_client) list"
  op_service :: 'o

type_synonym ('o, 'a) os_prog = "('o os_provider, os_err, 'a) io"

definition admin_project_key :: string where "admin_project_key = ''_admin''"

definition os_new :: "openstack_config \<Rightarrow> 'o \<Rightarrow> err + 'o os_provider" where
  "os_new cfg s =
     (if oc_auth_url cfg = [] then Inl (Plain ''openstack: auth url is required'')
      else if oc_username cfg = [] \<or> oc_password cfg = [] then Inl (Plain ''openstack: username and password are required'')
      else Inr \<lparr>op_config = (if oc_region cfg = [] then cfg\<lparr>oc_region := ''RegionOne''\<rparr> else cfg), op_clients = [], op_service = s\<rparr>)"

definition auth_options_for :: "openstack_config \<Rightarrow> string \<Rightarrow> auth_options" where
  "auth_options_for cfg project =
     \<lparr>ao_endpoint = oc_auth_url cfg, ao_username = oc_username cfg, ao_password = oc_password cfg, ao_domain = oc_domain cfg,
      ao_reauth = True, ao_tenant_id = (if project \<noteq> [] then project else []),
      ao_tenant_name = (if project \<noteq> [] then [] else oc_project cfg)\<rparr>"

text \<open>A call of the library whose error is looked at; one whose error is translated; a listing.\<close>

definition raw_call :: "('o, 'a) api_call \<Rightarrow> ('o, api_error + 'a) os_prog" where
  "raw_call f c = (case f (op_service c) of (r, s) \<Rightarrow> (Inr r, c\<lparr>op_service := s\<rparr>))"

definition checked :: "string \<Rightarrow> ('o, 'a) api_call \<Rightarrow> ('o, 'a) os_prog" where
  "checked op f = bind (raw_call f) (\<lambda>r. case r of Inl e \<Rightarrow> throw (translate_err op e) | Inr x \<Rightarrow> ret x)"

definition listing :: "string \<Rightarrow> string \<Rightarrow> ('o, 'a page) api_call \<Rightarrow> ('o, 'a list) os_prog" where
  "listing op op2 f = bind (checked op f) (\<lambda>page. case page of Inl e \<Rightarrow> throw (translate_err op2 e) | Inr xs \<Rightarrow> ret xs)"

definition provider_client :: "'o os_api \<Rightarrow> string \<Rightarrow> ('o, os_client) os_prog" where
  "provider_client A project =
     (let key = (if project = [] then admin_project_key else project) in
     bind (get_w (\<lambda>c. (map_of (op_clients c) key, op_config c))) (\<lambda>(cached, cfg).
     case cached of
       Some client \<Rightarrow> ret client
     | None \<Rightarrow>
         (case api_new_client A (oc_auth_url cfg) of
            Some e \<Rightarrow> throw (translate_err ''create provider client'' e)
          | None \<Rightarrow>
              let client = \<lparr>oc_auth = auth_options_for cfg project, oc_insecure = \<not> oc_verify_tls cfg,
                oc_agents = [''cloud-lab-gateway'']\<rparr> in
              bind (checked ''authenticate'' (api_authenticate A client)) (\<lambda>_.
              bind (upd_w (\<lambda>c. c\<lparr>op_clients := (key, client) # op_clients c\<rparr>)) (\<lambda>_.
              ret client)))))"

definition service_client :: "'o os_api \<Rightarrow> service_kind \<Rightarrow> string \<Rightarrow> string \<Rightarrow> ('o, os_handle) os_prog" where
  "service_client A kind op project =
     bind (provider_client A project) (\<lambda>client.
     bind (get_w (\<lambda>c. \<lparr>oh_kind = kind, oh_client = client, oh_region = oc_region (op_config c)\<rparr>)) (\<lambda>h.
     bind (checked op (api_endpoint A h)) (\<lambda>_.
     ret h)))"

definition compute_client :: "'o os_api \<Rightarrow> string \<Rightarrow> ('o, os_handle) os_prog" where
  "compute_client A = service_client A Compute ''compute client''"

definition network_client :: "'o os_api \<Rightarrow> string \<Rightarrow> ('o, os_handle) os_prog" where
  "network_client A = service_client A Network ''network client''"

definition block_storage_client :: "'o os_api \<Rightarrow> string \<Rightarrow> ('o, os_handle) os_prog" where
  "block_storage_client A = service_client A BlockStorage ''block storage client''"

definition image_client :: "'o os_api \<Rightarrow> string \<Rightarrow> ('o, os_handle) os_prog" where
  "image_client A = service_client A Image ''image client''"

section \<open>Servers\<close>

definition find_server_by_name :: "'o os_api \<Rightarrow> os_handle \<Rightarrow> string \<Rightarrow> ('o, os_server option) os_prog" where
  "find_server_by_name A h name =
     bind (listing ''list servers'' ''extract servers'' (api_list_servers A h (''^'' @ name @ ''$''))) (\<lambda>all.
     ret (List.find (\<lambda>s. os_server_name s = name) all))"

definition quoted :: "string \<Rightarrow> string" where
  "quoted s = [CHR 0x22] @ s @ [CHR 0x22]"

definition resolve_image_ref :: "lib \<Rightarrow> 'o os_api \<Rightarrow> string \<Rightarrow> string \<Rightarrow> ('o, string) os_prog" where
  "resolve_image_ref L A project ref =
     (if uuid_parse L ref \<noteq> None then ret ref
      else bind (image_client A project) (\<lambda>h.
        bind (listing ''list images'' ''extract images'' (api_list_images A h ref 2)) (\<lambda>all.
        case List.find (\<lambda>i. on_name i = ref) all of
          Some i \<Rightarrow> ret (on_id i)
        | None \<Rightarrow> throw (OwnError (Wrapped (''openstack: image '' @ quoted ref) (Sentinel ErrNotFound))))))"

definition resolve_flavor_ref :: "lib \<Rightarrow> 'o os_api \<Rightarrow> os_handle \<Rightarrow> string \<Rightarrow> ('o, string) os_prog" where
  "resolve_flavor_ref L A h ref =
     (if uuid_parse L ref \<noteq> None then ret ref
      else bind (listing ''list flavors'' ''extract flavors'' (api_list_flavors A h)) (\<lambda>all.
        case List.find (\<lambda>f. on_name f = ref \<or> on_id f = ref) all of
          Some f \<Rightarrow> ret (on_id f)
        | None \<Rightarrow> throw (OwnError (Wrapped (''openstack: flavor '' @ quoted ref) (Sentinel ErrNotFound)))))"

definition server_create_opts :: "server_spec \<Rightarrow> string \<Rightarrow> string \<Rightarrow> server_opts" where
  "server_create_opts sp img flavor =
     \<lparr>so_name = ss_name sp, so_image = img, so_flavor = flavor, so_user_data = ss_user_data sp, so_metadata = ss_metadata sp,
      so_networks = (if ss_network sp \<noteq> [] then [ss_network sp] else []),
      so_key = (if ss_keypair sp \<noteq> [] then Some (ss_keypair sp) else None)\<rparr>"

definition os_boot_server :: "lib \<Rightarrow> 'o os_api \<Rightarrow> string \<Rightarrow> server_spec \<Rightarrow> ('o, string) os_prog" where
  "os_boot_server L A project sp =
     bind (compute_client A project) (\<lambda>h.
     bind (find_server_by_name A h (ss_name sp)) (\<lambda>existing.
     case existing of
       Some s \<Rightarrow> ret (os_server_id s)
     | None \<Rightarrow>
         bind (resolve_image_ref L A project (ss_image sp)) (\<lambda>image.
         bind (resolve_flavor_ref L A h (ss_flavor sp)) (\<lambda>flavor.
         checked ''boot server'' (api_create_server A h (server_create_opts sp image flavor))))))"

text \<open>The loop of \<open>WaitForActive\<close>; its last argument is the number of times the timer still fires.\<close>

primrec poll_server :: "'o os_api \<Rightarrow> os_handle \<Rightarrow> string \<Rightarrow> nat \<Rightarrow> ('o, unit) os_prog" where
  "poll_server A h i 0 =
     bind (checked ''get server status'' (api_get_server A h i)) (\<lambda>s.
     if os_server_status s = ''ACTIVE'' then ret ()
     else if os_server_status s = ''ERROR'' then throw (OwnError (Plain (''openstack: server '' @ i @ '' entered ERROR state'')))
     else bind (get_w (\<lambda>c. api_ctx_error A (op_service c))) (\<lambda>m. throw (Untranslated (CtxDone m))))"
| "poll_server A h i (Suc n) =
     bind (checked ''get server status'' (api_get_server A h i)) (\<lambda>s.
     if os_server_status s = ''ACTIVE'' then ret ()
     else if os_server_status s = ''ERROR'' then throw (OwnError (Plain (''openstack: server '' @ i @ '' entered ERROR state'')))
     else poll_server A h i n)"

definition os_wait_active :: "'o os_api \<Rightarrow> string \<Rightarrow> string \<Rightarrow> ('o, unit) os_prog" where
  "os_wait_active A project i =
     bind (compute_client A project) (\<lambda>h.
     bind (get_w (\<lambda>c. api_patience A (op_service c))) (poll_server A h i))"

section \<open>Floating addresses\<close>

definition server_ports_query :: "string \<Rightarrow> string \<Rightarrow> port_query" where
  "server_ports_query project server = \<lparr>pq_network = [], pq_device = server, pq_owner = [], pq_project = project\<rparr>"

definition first_server_port :: "'o os_api \<Rightarrow> string \<Rightarrow> string \<Rightarrow> ('o, os_port) os_prog" where
  "first_server_port A project server =
     bind (network_client A project) (\<lambda>h.
     bind (listing ''list server ports'' ''extract server ports'' (api_list_ports A h (server_ports_query project server))) (\<lambda>all.
     case all of
       [] \<Rightarrow> throw (OwnError (Wrapped (''openstack: server '' @ server @ '' port'') (Sentinel ErrNotFound)))
     | p # _ \<Rightarrow> ret p))"

definition os_allocate_fip :: "'o os_api \<Rightarrow> string \<Rightarrow> string \<Rightarrow> ('o, string) os_prog" where
  "os_allocate_fip A project server =
     bind (network_client A project) (\<lambda>h.
     bind (get_w (\<lambda>c. oc_public_network (op_config c))) (\<lambda>public.
     if public = [] then throw (OwnError (Plain ''openstack: public network id is required for floating IP allocation''))
     else
       bind (first_server_port A project server) (\<lambda>port.
       bind (listing ''list floating IPs'' ''extract floating IPs'' (api_list_fips A h (pt_id port) project)) (\<lambda>all.
       case List.find (\<lambda>f. fp_port f = pt_id port) all of
         Some f \<Rightarrow> ret (fp_address f)
       | None \<Rightarrow>
           bind (checked ''create floating IP'' (api_create_fip A h public (pt_id port) project)) (\<lambda>f.
           ret (fp_address f))))))"

text \<open>A call whose failure is passed over when the resource is already gone, or also when it is still in use.\<close>

definition unless_gone :: "string \<Rightarrow> ('o, unit) api_call \<Rightarrow> ('o, unit) os_prog" where
  "unless_gone op f = bind (raw_call f) (\<lambda>r. case r of
     Inl e \<Rightarrow> if os_not_found (translate_err op e) then ret () else throw (translate_err op e)
   | Inr _ \<Rightarrow> ret ())"

definition unless_gone_or_used :: "string \<Rightarrow> ('o, unit) api_call \<Rightarrow> ('o, unit) os_prog" where
  "unless_gone_or_used op f = bind (raw_call f) (\<lambda>r. case r of
     Inl e \<Rightarrow> if os_not_found (translate_err op e) \<or> os_conflict (translate_err op e) then ret () else throw (translate_err op e)
   | Inr _ \<Rightarrow> ret ())"

definition release_port_fips :: "'o os_api \<Rightarrow> os_handle \<Rightarrow> string \<Rightarrow> os_port \<Rightarrow> ('o, unit) os_prog" where
  "release_port_fips A h project port =
     bind (listing ''list server floating IPs'' ''extract server floating IPs'' (api_list_fips A h (pt_id port) project)) (\<lambda>fips.
     for_each fips (\<lambda>f. unless_gone ''delete floating IP'' (api_delete_fip A h (fp_id f))))"

definition release_fips_for_server :: "'o os_api \<Rightarrow> string \<Rightarrow> string \<Rightarrow> ('o, unit) os_prog" where
  "release_fips_for_server A project server =
     bind (network_client A project) (\<lambda>h.
     bind (listing ''list server ports'' ''extract server ports'' (api_list_ports A h (server_ports_query project server))) (\<lambda>all.
     for_each all (release_port_fips A h project)))"

definition os_delete_server :: "'o os_api \<Rightarrow> string \<Rightarrow> string \<Rightarrow> ('o, unit) os_prog" where
  "os_delete_server A project server =
     bind (compute_client A project) (\<lambda>h.
     bind (attempt (release_fips_for_server A project server)) (\<lambda>_.
     unless_gone ''delete server'' (api_delete_server A h server)))"

section \<open>Key pairs\<close>

definition bytes_of :: "string \<Rightarrow> bytes" where
  "bytes_of s = map of_char s"

definition keypair_from_openstack :: "os_keypair \<Rightarrow> keypair" where
  "keypair_from_openstack k = \<lparr>kp_name = okp_name k, kp_public = okp_public k, kp_private = bytes_of (okp_private k),
     kp_fingerprint = okp_fingerprint k\<rparr>"

definition os_create_keypair :: "'o os_api \<Rightarrow> string \<Rightarrow> string \<Rightarrow> ('o, keypair) os_prog" where
  "os_create_keypair A project name =
     bind (compute_client A project) (\<lambda>h.
     bind (raw_call (api_get_keypair A h name)) (\<lambda>existing.
     let create = bind (checked ''create keypair'' (api_create_keypair A h name ''ssh'')) (\<lambda>k. ret (keypair_from_openstack k)) in
     case existing of
       Inr (Some k) \<Rightarrow> ret (keypair_from_openstack k)
     | Inr None \<Rightarrow> create
     | Inl e \<Rightarrow> if \<not> os_not_found (Untranslated e) then throw (translate_err ''get keypair'' e) else create))"

definition os_delete_keypair :: "'o os_api \<Rightarrow> string \<Rightarrow> string \<Rightarrow> ('o, unit) os_prog" where
  "os_delete_keypair A project name =
     bind (compute_client A project) (\<lambda>h. unless_gone ''delete keypair'' (api_delete_keypair A h name))"

section \<open>Networks\<close>

definition find_network_by_name :: "'o os_api \<Rightarrow> os_handle \<Rightarrow> string \<Rightarrow> string \<Rightarrow> ('o, os_named option) os_prog" where
  "find_network_by_name A h project name =
     bind (listing ''list networks'' ''extract networks'' (api_list_networks A h name project)) (\<lambda>all.
     ret (List.find (\<lambda>n. on_name n = name) all))"

definition ensure_subnet :: "'o os_api \<Rightarrow> os_handle \<Rightarrow> string \<Rightarrow> string \<Rightarrow> network_spec \<Rightarrow> ('o, os_named) os_prog" where
  "ensure_subnet A h project net n = (let name = ns_name n @ ''-subnet'' in
     bind (listing ''list subnets'' ''extract subnets'' (api_list_subnets A h name net project)) (\<lambda>all.
     case List.find (\<lambda>s. on_name s = name) all of
       Some s \<Rightarrow> ret s
     | None \<Rightarrow> checked ''create subnet'' (api_create_subnet A h
         \<lparr>sn_network = net, sn_cidr = ns_cidr n, sn_name = name, sn_dhcp = True, sn_project = project\<rparr>)))"

definition ensure_router :: "'o os_api \<Rightarrow> os_handle \<Rightarrow> string \<Rightarrow> string \<Rightarrow> ('o, string) os_prog" where
  "ensure_router A h project name =
     bind (listing ''list routers'' ''extract routers'' (api_list_routers A h name project)) (\<lambda>all.
     let found = (case List.find (\<lambda>r. on_name r = name) all of Some r \<Rightarrow> on_id r | None \<Rightarrow> []) in
     if found \<noteq> [] then ret found
     else bind (get_w (\<lambda>c. oc_public_network (op_config c))) (\<lambda>public.
       checked ''create router'' (api_create_router A h
         \<lparr>ro_name = name, ro_project = project, ro_gateway = public, ro_snat = True\<rparr>)))"

definition ensure_router_interface :: "'o os_api \<Rightarrow> os_handle \<Rightarrow> string \<Rightarrow> string \<Rightarrow> string \<Rightarrow> ('o, unit) os_prog" where
  "ensure_router_interface A h project net_name subnet =
     bind (ensure_router A h project (net_name @ ''-router'')) (\<lambda>router.
     bind (raw_call (api_add_interface A h router subnet)) (\<lambda>r. case r of
       Inl e \<Rightarrow> if \<not> os_conflict (Untranslated e) then throw (translate_err ''add router interface'' e) else ret ()
     | Inr _ \<Rightarrow> ret ()))"

definition os_create_network :: "'o os_api \<Rightarrow> string \<Rightarrow> network_spec \<Rightarrow> ('o, string) os_prog" where
  "os_create_network A project n =
     bind (network_client A project) (\<lambda>h.
     bind (find_network_by_name A h project (ns_name n)) (\<lambda>existing.
     case existing of
       Some x \<Rightarrow> ret (on_id x)
     | None \<Rightarrow>
         bind (checked ''create network'' (api_create_network A h (ns_name n) True project)) (\<lambda>created.
         bind (ensure_subnet A h project created n) (\<lambda>subnet.
         bind (get_w (\<lambda>c. oc_public_network (op_config c))) (\<lambda>public.
         if public \<noteq> [] then bind (ensure_router_interface A h project (ns_name n) (on_id subnet)) (\<lambda>_. ret created)
         else ret created)))))"

definition detach_router_port :: "'o os_api \<Rightarrow> os_handle \<Rightarrow> os_port \<Rightarrow> ('o, unit) os_prog" where
  "detach_router_port A h port =
     bind (for_each (pt_fixed_subnets port) (\<lambda>subnet.
       unless_gone_or_used ''remove router interface'' (api_remove_interface A h (pt_device port) subnet))) (\<lambda>_.
     if pt_device port \<noteq> [] then unless_gone_or_used ''delete router'' (api_delete_router A h (pt_device port)) else ret ())"

text \<open>A listing that is left out when what it lists for is gone.\<close>

definition for_listing :: "string \<Rightarrow> string \<Rightarrow> ('o, 'a page) api_call \<Rightarrow> ('a \<Rightarrow> ('o, unit) os_prog) \<Rightarrow> ('o, unit) os_prog" where
  "for_listing op op2 f body =
     bind (raw_call f) (\<lambda>r. case r of
       Inl e \<Rightarrow> if \<not> os_not_found (Untranslated e) then throw (translate_err op e) else ret ()
     | Inr (Inl e) \<Rightarrow> throw (translate_err op2 e)
     | Inr (Inr xs) \<Rightarrow> for_each xs body)"

definition os_delete_network :: "'o os_api \<Rightarrow> string \<Rightarrow> string \<Rightarrow> ('o, unit) os_prog" where
  "os_delete_network A project net =
     bind (network_client A project) (\<lambda>h.
     bind (for_listing ''list router ports'' ''extract router ports''
       (api_list_ports A h \<lparr>pq_network = net, pq_device = [], pq_owner = ''network:router_interface'', pq_project = project\<rparr>)
       (detach_router_port A h)) (\<lambda>_.
     bind (for_listing ''list subnets'' ''extract subnets'' (api_list_subnets A h [] net project)
       (\<lambda>s. unless_gone_or_used ''delete subnet'' (api_delete_subnet A h (on_id s)))) (\<lambda>_.
     unless_gone ''delete network'' (api_delete_network A h net))))"

section \<open>Utilisation\<close>

definition os_quota :: "'o os_api \<Rightarrow> ('o, quota_snapshot) os_prog" where
  "os_quota A =
     bind (compute_client A []) (\<lambda>h.
     bind (checked ''hypervisor statistics'' (api_hypervisors A h)) (\<lambda>s.
     bind (attempt (block_storage_client A [])) (\<lambda>cinder.
     bind (case cinder of
         Inl _ \<Rightarrow> ret None
       | Inr v \<Rightarrow> bind (raw_call (api_volume_limits A v)) (\<lambda>lim. ret (case lim of
           Inr (Some l) \<Rightarrow> if 0 \<le> vl_max_gb l then Some (vl_used_gb l, vl_max_gb l) else None
         | _ \<Rightarrow> None))) (\<lambda>volumes.
     bind (get_w (\<lambda>c. api_clock A (op_service c))) (\<lambda>now.
     let disk = (case volumes of Some d \<Rightarrow> d | None \<Rightarrow> (hs_local_gb_used s, hs_local_gb s)) in
     ret \<lparr>qs_vcpus = \<lparr>cap_used = hs_vcpus_used s, cap_total = hs_vcpus s, cap_unit = ''vcpu''\<rparr>,
       qs_ram = \<lparr>cap_used = hs_memory_mb_used s, cap_total = hs_memory_mb s, cap_unit = ''MB''\<rparr>,
       qs_disk = \<lparr>cap_used = fst disk, cap_total = snd disk, cap_unit = ''GB''\<rparr>,
       qs_fetched_at = now\<rparr>)))))"

section \<open>The provider as a \<open>ports.CloudProvider\<close>\<close>

definition os_method :: "('o, 'a) os_prog \<Rightarrow> 'o os_provider \<Rightarrow> (err + 'a) \<times> 'o os_provider" where
  "os_method m c = (case m c of (r, c') \<Rightarrow> (map_sum to_err id r, c'))"

definition os_ops :: "lib \<Rightarrow> 'o os_api \<Rightarrow> 'o os_provider cloud_ops" where
  "os_ops L A = \<lparr>c_quota = os_method (os_quota A),
     c_create_keypair = (\<lambda>p k. os_method (os_create_keypair A p k)),
     c_delete_keypair = (\<lambda>p k. os_method (os_delete_keypair A p k)),
     c_boot_server = (\<lambda>p s. os_method (os_boot_server L A p s)),
     c_wait_active = (\<lambda>p i. os_method (os_wait_active A p i)),
     c_allocate_fip = (\<lambda>p i. os_method (os_allocate_fip A p i)),
     c_delete_server = (\<lambda>p i. os_method (os_delete_server A p i)),
     c_create_network = (\<lambda>p n. os_method (os_create_network A p n)),
     c_delete_network = (\<lambda>p i. os_method (os_delete_network A p i))\<rparr>"

end
