(* ===== verification/OpenStackContract.thy ===== *)
theory OpenStackContract
  imports OpenStack CleanupSafety
begin

text \<open>
  The OpenStack adapter meets the contract of a cloud provider, at services that do what they document. What the
  contract speaks of is read off the services: the servers and the networks with their projects, and the names of the
  account's key pairs, which no project owns.
\<close>

section \<open>What the services document\<close>

text \<open>The project a client is authenticated for. A token without one is the administrator's.\<close>

definition handle_scope :: "os_handle \<Rightarrow> string" where
  "handle_scope h = ao_tenant_id (oc_auth (oh_client h))"

text \<open>Letters, digits, dashes and underscores stand for themselves in a regular expression.\<close>

definition plain_char :: "char \<Rightarrow> bool" where
  "plain_char c \<longleftrightarrow> is_digit c \<or> (65 :: int) \<le> of_char c \<and> of_char c \<le> (90 :: int) \<or>
     (97 :: int) \<le> of_char c \<and> of_char c \<le> (122 :: int) \<or> c = CHR ''-'' \<or> c = CHR ''_''"

definition plain_name :: "string \<Rightarrow> bool" where
  "plain_name s \<longleftrightarrow> list_all plain_char s"

definition fresh_entry :: "string \<times> string \<Rightarrow> string \<Rightarrow> resource_table \<Rightarrow> resource_table \<Rightarrow> bool" where
  "fresh_entry x i t t' \<longleftrightarrow> t i = None \<and> t' = t(i \<mapsto> x)"

text \<open>A success or a 404 promises that the project has no such resource; nobody else's is promised anything.\<close>

definition os_lost :: "string \<Rightarrow> (string \<times> string) option \<Rightarrow> bool" where
  "os_lost p e \<longleftrightarrow> (\<forall>n. e \<noteq> Some (p, n))"

definition gone_answer :: "api_error + unit \<Rightarrow> bool" where
  "gone_answer r \<longleftrightarrow> (case r of Inr _ \<Rightarrow> True | Inl e \<Rightarrow> has_status 404 e)"

text \<open>A call that does not touch servers, networks or key pairs.\<close>

definition quiet :: "('o \<Rightarrow> 't) \<Rightarrow> ('o, 'a) api_call \<Rightarrow> bool" where
  "quiet T f \<longleftrightarrow> (\<forall>s. T (snd (f s)) = T s)"

type_synonym 'o os_view = "'o \<Rightarrow> resource_table \<times> resource_table \<times> string set"

definition quiet_service :: "'o os_api \<Rightarrow> 'o os_view \<Rightarrow> bool" where
  "quiet_service A T \<longleftrightarrow>
     (\<forall>x. quiet T (api_authenticate A x)) \<and> (\<forall>h. quiet T (api_endpoint A h)) \<and> (\<forall>h x. quiet T (api_list_servers A h x)) \<and>
     (\<forall>h x. quiet T (api_get_server A h x)) \<and> (\<forall>h x y. quiet T (api_list_images A h x y)) \<and> (\<forall>h. quiet T (api_list_flavors A h)) \<and>
     (\<forall>h x. quiet T (api_get_keypair A h x)) \<and> (\<forall>h x y. quiet T (api_list_networks A h x y)) \<and>
     (\<forall>h x y z. quiet T (api_list_subnets A h x y z)) \<and> (\<forall>h x. quiet T (api_create_subnet A h x)) \<and>
     (\<forall>h x. quiet T (api_delete_subnet A h x)) \<and> (\<forall>h x y. quiet T (api_list_routers A h x y)) \<and>
     (\<forall>h x. quiet T (api_create_router A h x)) \<and> (\<forall>h x. quiet T (api_delete_router A h x)) \<and>
     (\<forall>h x y. quiet T (api_add_interface A h x y)) \<and> (\<forall>h x y. quiet T (api_remove_interface A h x y)) \<and>
     (\<forall>h x. quiet T (api_list_ports A h x)) \<and> (\<forall>h x y. quiet T (api_list_fips A h x y)) \<and>
     (\<forall>h x y z. quiet T (api_create_fip A h x y z)) \<and> (\<forall>h x. quiet T (api_delete_fip A h x))"

definition server_service :: "'o os_api \<Rightarrow> 'o os_view \<Rightarrow> bool" where
  "server_service A T \<longleftrightarrow>
     (\<forall>h n s xs s'. plain_name n \<longrightarrow> api_list_servers A h (''^'' @ n @ ''$'') s = (Inr (Inr xs), s') \<longrightarrow>
        (\<forall>v \<in> set xs. fst (T s) (os_server_id v) = Some (handle_scope h, os_server_name v)) \<and>
        (\<forall>i. fst (T s) i = Some (handle_scope h, n) \<longrightarrow> (\<exists>v \<in> set xs. os_server_name v = n))) \<and>
     (\<forall>h so s r s'. api_create_server A h so s = (r, s') \<longrightarrow> snd (T s') = snd (T s) \<and>
        (case r of Inr i \<Rightarrow> fresh_entry (handle_scope h, so_name so) i (fst (T s)) (fst (T s'))
         | Inl _ \<Rightarrow> fst (T s') = fst (T s) \<or> (\<exists>i. fresh_entry (handle_scope h, so_name so) i (fst (T s)) (fst (T s'))))) \<and>
     (\<forall>h i s r s'. api_delete_server A h i s = (r, s') \<longrightarrow> snd (T s') = snd (T s) \<and> dropped i (fst (T s)) (fst (T s')) \<and>
        (gone_answer r \<longrightarrow> os_lost (handle_scope h) (fst (T s') i)))"

definition network_service :: "'o os_api \<Rightarrow> 'o os_view \<Rightarrow> bool" where
  "network_service A T \<longleftrightarrow>
     (\<forall>h n s xs s'. api_list_networks A h n (handle_scope h) s = (Inr (Inr xs), s') \<longrightarrow>
        (\<forall>v \<in> set xs. fst (snd (T s)) (on_id v) = Some (handle_scope h, on_name v)) \<and>
        (\<forall>i. fst (snd (T s)) i = Some (handle_scope h, n) \<longrightarrow> (\<exists>v \<in> set xs. on_name v = n))) \<and>
     (\<forall>h n up s r s'. api_create_network A h n up (handle_scope h) s = (r, s') \<longrightarrow>
        fst (T s') = fst (T s) \<and> snd (snd (T s')) = snd (snd (T s)) \<and>
        (case r of Inr i \<Rightarrow> fresh_entry (handle_scope h, n) i (fst (snd (T s))) (fst (snd (T s')))
         | Inl _ \<Rightarrow> fst (snd (T s')) = fst (snd (T s)) \<or> (\<exists>i. fresh_entry (handle_scope h, n) i (fst (snd (T s))) (fst (snd (T s')))))) \<and>
     (\<forall>h i s r s'. api_delete_network A h i s = (r, s') \<longrightarrow> fst (T s') = fst (T s) \<and> snd (snd (T s')) = snd (snd (T s)) \<and>
        dropped i (fst (snd (T s))) (fst (snd (T s'))) \<and> (gone_answer r \<longrightarrow> os_lost (handle_scope h) (fst (snd (T s')) i)))"

definition keypair_service :: "'o os_api \<Rightarrow> 'o os_view \<Rightarrow> bool" where
  "keypair_service A T \<longleftrightarrow>
     (\<forall>h n s k s'. api_get_keypair A h n s = (Inr (Some k), s') \<longrightarrow> okp_name k = n \<and> n \<in> snd (snd (T s))) \<and>
     (\<forall>h n t s r s'. api_create_keypair A h n t s = (r, s') \<longrightarrow> fst (T s') = fst (T s) \<and> fst (snd (T s')) = fst (snd (T s)) \<and>
        (case r of Inr k \<Rightarrow> okp_name k = n \<and> snd (snd (T s')) = insert n (snd (snd (T s)))
         | Inl _ \<Rightarrow> snd (snd (T s')) = snd (snd (T s)) \<or> snd (snd (T s')) = insert n (snd (snd (T s))))) \<and>
     (\<forall>h n s r s'. api_delete_keypair A h n s = (r, s') \<longrightarrow> fst (T s') = fst (T s) \<and> fst (snd (T s')) = fst (snd (T s)) \<and>
        snd (snd (T s')) \<subseteq> snd (snd (T s)) \<and> snd (snd (T s)) - {n} \<subseteq> snd (snd (T s')) \<and> (gone_answer r \<longrightarrow> n \<notin> snd (snd (T s'))))"

definition service_ok :: "'o os_api \<Rightarrow> 'o os_view \<Rightarrow> bool" where
  "service_ok A T \<longleftrightarrow> quiet_service A T \<and> server_service A T \<and> network_service A T \<and> keypair_service A T"

lemma server_created:
  "service_ok A T \<Longrightarrow> api_create_server A h so s = (r, s') \<Longrightarrow> snd (T s') = snd (T s) \<and>
     (case r of Inr i \<Rightarrow> fresh_entry (handle_scope h, so_name so) i (fst (T s)) (fst (T s'))
      | Inl _ \<Rightarrow> fst (T s') = fst (T s) \<or> (\<exists>i. fresh_entry (handle_scope h, so_name so) i (fst (T s)) (fst (T s'))))"
  unfolding service_ok_def server_service_def by blast

lemma server_deleted:
  "service_ok A T \<Longrightarrow> api_delete_server A h i s = (r, s') \<Longrightarrow> snd (T s') = snd (T s) \<and> dropped i (fst (T s)) (fst (T s')) \<and>
     (gone_answer r \<longrightarrow> os_lost (handle_scope h) (fst (T s') i))"
  unfolding service_ok_def server_service_def by blast

lemma network_listed:
  "service_ok A T \<Longrightarrow> api_list_networks A h n (handle_scope h) s = (Inr (Inr xs), s') \<Longrightarrow>
     (\<forall>v \<in> set xs. fst (snd (T s)) (on_id v) = Some (handle_scope h, on_name v)) \<and>
     (\<forall>i. fst (snd (T s)) i = Some (handle_scope h, n) \<longrightarrow> (\<exists>v \<in> set xs. on_name v = n))"
  unfolding service_ok_def network_service_def by blast

lemma network_created:
  "service_ok A T \<Longrightarrow> api_create_network A h n up (handle_scope h) s = (r, s') \<Longrightarrow>
     fst (T s') = fst (T s) \<and> snd (snd (T s')) = snd (snd (T s)) \<and>
     (case r of Inr i \<Rightarrow> fresh_entry (handle_scope h, n) i (fst (snd (T s))) (fst (snd (T s')))
      | Inl _ \<Rightarrow> fst (snd (T s')) = fst (snd (T s)) \<or> (\<exists>i. fresh_entry (handle_scope h, n) i (fst (snd (T s))) (fst (snd (T s')))))"
  unfolding service_ok_def network_service_def by blast

lemma network_deleted:
  "service_ok A T \<Longrightarrow> api_delete_network A h i s = (r, s') \<Longrightarrow> fst (T s') = fst (T s) \<and> snd (snd (T s')) = snd (snd (T s)) \<and>
     dropped i (fst (snd (T s))) (fst (snd (T s'))) \<and> (gone_answer r \<longrightarrow> os_lost (handle_scope h) (fst (snd (T s')) i))"
  unfolding service_ok_def network_service_def by blast

lemma keypair_found: "service_ok A T \<Longrightarrow> api_get_keypair A h n s = (Inr (Some k), s') \<Longrightarrow> okp_name k = n \<and> n \<in> snd (snd (T s))"
  unfolding service_ok_def keypair_service_def by blast

lemma keypair_created:
  "service_ok A T \<Longrightarrow> api_create_keypair A h n ty s = (r, s') \<Longrightarrow> fst (T s') = fst (T s) \<and> fst (snd (T s')) = fst (snd (T s)) \<and>
     (case r of Inr k \<Rightarrow> okp_name k = n \<and> snd (snd (T s')) = insert n (snd (snd (T s)))
      | Inl _ \<Rightarrow> snd (snd (T s')) = snd (snd (T s)) \<or> snd (snd (T s')) = insert n (snd (snd (T s))))"
  unfolding service_ok_def keypair_service_def by blast

lemma keypair_deleted:
  "service_ok A T \<Longrightarrow> api_delete_keypair A h n s = (r, s') \<Longrightarrow> fst (T s') = fst (T s) \<and> fst (snd (T s')) = fst (snd (T s)) \<and>
     snd (snd (T s')) \<subseteq> snd (snd (T s)) \<and> snd (snd (T s)) - {n} \<subseteq> snd (snd (T s')) \<and> (gone_answer r \<longrightarrow> n \<notin> snd (snd (T s')))"
  unfolding service_ok_def keypair_service_def by blast

section \<open>The adapter's state\<close>

definition clients_ok :: "(string \<times> os_client) list \<Rightarrow> bool" where
  "clients_ok cs \<longleftrightarrow> (\<forall>k x. map_of cs k = Some x \<longrightarrow> k \<noteq> admin_project_key \<longrightarrow> ao_tenant_id (oc_auth x) = k)"

definition os_scope_ok :: "string \<Rightarrow> bool" where
  "os_scope_ok p \<longleftrightarrow> p \<noteq> [] \<and> p \<noteq> admin_project_key"

definition os_ok :: "'o os_view \<Rightarrow> 'o os_provider \<Rightarrow> bool" where
  "os_ok T c \<longleftrightarrow> clients_ok (op_clients c) \<and> unique_names (fst (T (op_service c))) \<and> unique_names (fst (snd (T (op_service c))))"

text \<open>The services hold \<open>t\<close>.\<close>

definition os_at :: "'o os_view \<Rightarrow> resource_table \<times> resource_table \<times> string set \<Rightarrow> 'o os_provider \<Rightarrow> bool" where
  "os_at T t c \<longleftrightarrow> clients_ok (op_clients c) \<and> T (op_service c) = t"

section \<open>The adapter around the calls\<close>

lemma raw_call_spec:
  assumes "\<And>s r s'. T s = t \<Longrightarrow> f s = (r, s') \<Longrightarrow> Q r (T s')"
  shows "spec (os_at T t) (raw_call f) (\<lambda>r c. clients_ok (op_clients c) \<and> Q r (T (op_service c))) E"
  using assms by (auto simp: spec_def raw_call_def os_at_def split: prod.splits)

lemma keeps_raw: "quiet T f \<Longrightarrow> keeps (os_at T t) (raw_call f)"
  by (auto simp: keeps_def raw_call_def quiet_def os_at_def split: prod.splits) (metis snd_conv)

lemma keeps_checked: "quiet T f \<Longrightarrow> keeps (os_at T t) (checked op f)"
  unfolding checked_def by (intro keeps_intros keeps_raw)

lemma keeps_listing: "quiet T f \<Longrightarrow> keeps (os_at T t) (listing op op2 f)"
  unfolding listing_def by (intro keeps_intros keeps_checked)

lemma keeps_unless_gone: "quiet T f \<Longrightarrow> keeps (os_at T t) (unless_gone op f)"
  unfolding unless_gone_def by (intro keeps_intros keeps_raw)

lemma keeps_unless_gone_or_used: "quiet T f \<Longrightarrow> keeps (os_at T t) (unless_gone_or_used op f)"
  unfolding unless_gone_or_used_def by (intro keeps_intros keeps_raw)

lemma keeps_for_listing:
  "quiet T f \<Longrightarrow> (\<And>x. keeps (os_at T t) (body x)) \<Longrightarrow> keeps (os_at T t) (for_listing op op2 f body)"
  unfolding for_listing_def by (intro keeps_intros keeps_raw)

lemmas keeps_calls = keeps_raw keeps_checked keeps_listing keeps_unless_gone keeps_unless_gone_or_used keeps_for_listing

text \<open>A client that is found or made for a project is a client of that project.\<close>

lemma provider_client_spec:
  assumes "quiet_service A T"
  shows "spec (os_at T t) (provider_client A p) (\<lambda>x c. os_at T t c \<and> (os_scope_ok p \<longrightarrow> ao_tenant_id (oc_auth x) = p)) (\<lambda>_. os_at T t)"
proof -
  have q: "quiet T (api_authenticate A x)" for x using assms by (simp add: quiet_service_def)
  have auth: "T (snd (api_authenticate A x s)) = T s" for x s using q by (simp add: quiet_def)
  have T: "api_authenticate A x s = (r, s') \<Longrightarrow> T s' = T s" for x s r s' using auth [of x s] by simp
  show ?thesis
    by (rule specI)
      (auto simp: provider_client_def Let_def io_simps checked_def raw_call_def os_at_def clients_ok_def os_scope_ok_def
        auth_options_for_def dest: T split: option.splits prod.splits sum.splits if_splits)
qed

lemma service_client_spec:
  assumes "quiet_service A T"
  shows "spec (os_at T t) (service_client A k op p) (\<lambda>h c. os_at T t c \<and> (os_scope_ok p \<longrightarrow> handle_scope h = p)) (\<lambda>_. os_at T t)"
  unfolding service_client_def
proof (rule spec_bind [OF provider_client_spec [OF assms]])
  fix x
  have e: "keeps (os_at T t) (checked op (api_endpoint A h))" for h
    using assms by (intro keeps_checked) (simp add: quiet_service_def)
  show "spec (\<lambda>c. os_at T t c \<and> (os_scope_ok p \<longrightarrow> ao_tenant_id (oc_auth x) = p))
      (bind (get_w (\<lambda>c. \<lparr>oh_kind = k, oh_client = x, oh_region = oc_region (op_config c)\<rparr>)) (\<lambda>h.
        bind (checked op (api_endpoint A h)) (\<lambda>_. ret h)))
      (\<lambda>h c. os_at T t c \<and> (os_scope_ok p \<longrightarrow> handle_scope h = p)) (\<lambda>_. os_at T t)"
  proof (rule specI)
    fix c h c'
    assume *: "os_at T t c \<and> (os_scope_ok p \<longrightarrow> ao_tenant_id (oc_auth x) = p)"
      "bind (get_w (\<lambda>c. \<lparr>oh_kind = k, oh_client = x, oh_region = oc_region (op_config c)\<rparr>)) (\<lambda>h.
        bind (checked op (api_endpoint A h)) (\<lambda>_. ret h)) c = (Inr h, c')"
    then show "os_at T t c' \<and> (os_scope_ok p \<longrightarrow> handle_scope h = p)"
      using keepsD [OF e] by (fastforce simp: io_simps handle_scope_def split: prod.splits sum.splits)
  next
    fix c r c'
    assume *: "os_at T t c \<and> (os_scope_ok p \<longrightarrow> ao_tenant_id (oc_auth x) = p)"
      "bind (get_w (\<lambda>c. \<lparr>oh_kind = k, oh_client = x, oh_region = oc_region (op_config c)\<rparr>)) (\<lambda>h.
        bind (checked op (api_endpoint A h)) (\<lambda>_. ret h)) c = (Inl r, c')"
    then show "os_at T t c'"
      using keepsD [OF e] by (fastforce simp: io_simps split: prod.splits sum.splits)
  qed
qed

lemma keeps_service_client: "quiet_service A T \<Longrightarrow> keeps (os_at T t) (service_client A k op p)"
  by (rule keeps_spec, rule spec_weaken [OF service_client_spec]) auto

lemma with_client:
  assumes "quiet_service A T" "os_scope_ok p" "\<And>h. handle_scope h = p \<Longrightarrow> spec (os_at T t) (f h) Q E"
    and "\<And>e c. os_at T t c \<Longrightarrow> E e c"
  shows "spec (os_at T t) (bind (service_client A k op p) f) Q E"
proof (rule spec_bind [where R = "\<lambda>h c. os_at T t c \<and> (os_scope_ok p \<longrightarrow> handle_scope h = p)"])
  show "spec (os_at T t) (service_client A k op p) (\<lambda>h c. os_at T t c \<and> (os_scope_ok p \<longrightarrow> handle_scope h = p)) E"
    by (rule spec_weaken [OF service_client_spec [OF assms(1)]]) (use assms(4) in auto)
  show "spec (\<lambda>c. os_at T t c \<and> (os_scope_ok p \<longrightarrow> handle_scope h = p)) (f h) Q E" for h
    using assms(2) assms(3) [of h] by (auto simp: spec_def)
qed

text \<open>The last call of an operation decides what the services hold.\<close>

lemma checked_spec:
  assumes "\<And>s r s'. T s = t \<Longrightarrow> f s = (r, s') \<Longrightarrow> (case r of Inr x \<Rightarrow> Q x (T s') | Inl _ \<Rightarrow> R (T s'))"
  shows "spec (os_at T t) (checked op f) (\<lambda>x c. \<exists>t'. os_at T t' c \<and> Q x t') (\<lambda>_ c. \<exists>t'. os_at T t' c \<and> R t')"
  using assms unfolding checked_def
  by (fastforce simp: spec_def io_simps raw_call_def os_at_def split: prod.splits sum.splits)

lemma not_found_404: "os_not_found (translate_err op e) \<longleftrightarrow> has_status 404 e"
  by (auto simp: os_not_found_def translate_err_def to_err_def response_code_is_def has_status_def split: api_error.split)

lemma unless_gone_spec:
  assumes "\<And>s r s'. T s = t \<Longrightarrow> f s = (r, s') \<Longrightarrow> R (T s') \<and> (gone_answer r \<longrightarrow> Q (T s'))"
  shows "spec (os_at T t) (unless_gone op f) (\<lambda>_ c. \<exists>t'. os_at T t' c \<and> R t' \<and> Q t') (\<lambda>_ c. \<exists>t'. os_at T t' c \<and> R t')"
  using assms unfolding unless_gone_def
  by (fastforce simp: spec_def io_simps raw_call_def os_at_def not_found_404 gone_answer_def split: prod.splits sum.splits if_splits)

lemma keeps_into_spec: "keeps I m \<Longrightarrow> (\<And>x. spec I (f x) Q E) \<Longrightarrow> (\<And>e c. I c \<Longrightarrow> E e c) \<Longrightarrow> spec I (bind m f) Q E"
  by (rule spec_keeps_bind)

section \<open>Servers\<close>

lemma keeps_resolve_image: "quiet_service A T \<Longrightarrow> keeps (os_at T t) (resolve_image_ref L A p ref)"
  unfolding resolve_image_ref_def image_client_def
  by (intro keeps_intros keeps_service_client keeps_calls) (simp_all add: quiet_service_def)

lemma keeps_resolve_flavor: "quiet_service A T \<Longrightarrow> keeps (os_at T t) (resolve_flavor_ref L A h ref)"
  unfolding resolve_flavor_ref_def
  by (intro keeps_intros keeps_calls) (simp_all add: quiet_service_def)

lemma listing_spec:
  assumes "quiet T f" "\<And>s xs s'. T s = t \<Longrightarrow> f s = (Inr (Inr xs), s') \<Longrightarrow> Q xs"
  shows "spec (os_at T t) (listing op op2 f) (\<lambda>xs c. os_at T t c \<and> Q xs) (\<lambda>_. os_at T t)"
proof (rule specI)
  fix c xs c'
  assume c: "os_at T t c" "listing op op2 f c = (Inr xs, c')"
  have "\<exists>s'. f (op_service c) = (Inr (Inr xs), s')"
    using c(2) by (auto simp: listing_def checked_def raw_call_def io_simps split: prod.splits sum.splits)
  then show "os_at T t c' \<and> Q xs"
    using keepsD [OF keeps_listing [OF assms(1)] c] assms(2) c(1) by (auto simp: os_at_def)
next
  fix c e c'
  assume "os_at T t c" "listing op op2 f c = (Inl e, c')"
  then show "os_at T t c'" by (rule keepsD [OF keeps_listing [OF assms(1)]])
qed

lemma find_some: "List.find P xs = Some x \<Longrightarrow> P x \<and> x \<in> set xs"
  by (induction xs) (auto split: if_splits)

lemma find_server_spec:
  assumes "service_ok A T" "plain_name n"
  shows "spec (os_at T t) (find_server_by_name A h n) (\<lambda>x c. os_at T t c \<and> (case x of
      Some v \<Rightarrow> fst t (os_server_id v) = Some (handle_scope h, n) | None \<Rightarrow> (\<forall>i. fst t i \<noteq> Some (handle_scope h, n)))) (\<lambda>_. os_at T t)"
  unfolding find_server_by_name_def
proof (rule spec_bind [OF listing_spec])
  show "quiet T (api_list_servers A h (''^'' @ n @ ''$''))" using assms(1) by (simp add: service_ok_def quiet_service_def)
  fix s xs s'
  assume "T s = t" "api_list_servers A h (''^'' @ n @ ''$'') s = (Inr (Inr xs), s')"
  with assms show "(\<forall>v \<in> set xs. fst t (os_server_id v) = Some (handle_scope h, os_server_name v)) \<and>
      (\<forall>i. fst t i = Some (handle_scope h, n) \<longrightarrow> (\<exists>v \<in> set xs. os_server_name v = n))"
    unfolding service_ok_def server_service_def by blast
next
  fix xs
  show "spec (\<lambda>c. os_at T t c \<and> (\<forall>v \<in> set xs. fst t (os_server_id v) = Some (handle_scope h, os_server_name v)) \<and>
      (\<forall>i. fst t i = Some (handle_scope h, n) \<longrightarrow> (\<exists>v \<in> set xs. os_server_name v = n)))
    (ret (List.find (\<lambda>s. os_server_name s = n) xs)) (\<lambda>x c. os_at T t c \<and> (case x of
      Some v \<Rightarrow> fst t (os_server_id v) = Some (handle_scope h, n) | None \<Rightarrow> (\<forall>i. fst t i \<noteq> Some (handle_scope h, n)))) (\<lambda>_. os_at T t)"
    by (rule spec_ret) (auto split: option.split dest: find_some simp: find_None_iff)
qed

text \<open>What a creation may leave: the entry, if it was not there.\<close>

definition os_made :: "'o os_view \<Rightarrow> (resource_table \<times> resource_table \<times> string set \<Rightarrow> bool) \<Rightarrow> 'o os_provider \<Rightarrow> bool" where
  "os_made T Q c \<longleftrightarrow> (\<exists>t'. os_at T t' c \<and> Q t')"

lemma os_madeI: "os_at T t c \<Longrightarrow> Q t \<Longrightarrow> os_made T Q c"
  unfolding os_made_def by blast

lemma fresh_made: "fresh_entry x i t t' \<Longrightarrow> \<forall>j. t j \<noteq> Some x \<Longrightarrow> made x i t t'"
  by (simp add: fresh_entry_def made_def)

lemma fresh_tried: "t' = t \<or> (\<exists>i. fresh_entry x i t t') \<Longrightarrow> \<forall>j. t j \<noteq> Some x \<Longrightarrow> tried x t t'"
  unfolding tried_def using fresh_made by blast

lemma boot_server_spec:
  assumes "service_ok A T" "os_scope_ok p" "plain_name (ss_name sp)"
  shows "spec (os_at T t) (os_boot_server L A p sp)
    (\<lambda>i. os_made T (\<lambda>t'. snd t' = snd t \<and> made (p, ss_name sp) i (fst t) (fst t')))
    (\<lambda>_. os_made T (\<lambda>t'. snd t' = snd t \<and> tried (p, ss_name sp) (fst t) (fst t')))"
proof -
  let ?n = "ss_name sp"
  let ?Q = "\<lambda>i. os_made T (\<lambda>t'. snd t' = snd t \<and> made (p, ?n) i (fst t) (fst t'))"
  let ?E = "\<lambda>_ :: os_err. os_made T (\<lambda>t'. snd t' = snd t \<and> tried (p, ?n) (fst t) (fst t'))"
  have q: "quiet_service A T" using assms(1) by (simp add: service_ok_def)
  have E: "os_at T t c \<Longrightarrow> ?E e c" for e c by (rule os_madeI, assumption) simp
  have create: "spec (os_at T t) (checked ''boot server'' (api_create_server A h (server_create_opts sp img fl))) ?Q ?E"
    if h: "handle_scope h = p" and new: "\<forall>i. fst t i \<noteq> Some (p, ?n)" for h img fl
    unfolding os_made_def
  proof (rule checked_spec)
    fix s r s'
    assume s: "T s = t" "api_create_server A h (server_create_opts sp img fl) s = (r, s')"
    have "so_name (server_create_opts sp img fl) = ?n" by (simp add: server_create_opts_def)
    with server_created [OF assms(1) s(2)] s(1) h have "snd (T s') = snd t \<and> (case r of Inr i \<Rightarrow> fresh_entry (p, ?n) i (fst t) (fst (T s'))
         | Inl _ \<Rightarrow> fst (T s') = fst t \<or> (\<exists>i. fresh_entry (p, ?n) i (fst t) (fst (T s'))))"
      by (cases r) simp_all
    then show "case r of Inr i \<Rightarrow> snd (T s') = snd t \<and> made (p, ?n) i (fst t) (fst (T s'))
        | Inl _ \<Rightarrow> snd (T s') = snd t \<and> tried (p, ?n) (fst t) (fst (T s'))"
      using fresh_made fresh_tried new by (cases r) auto
  qed
  show ?thesis unfolding os_boot_server_def compute_client_def
  proof (rule with_client [OF q assms(2) _ E])
    fix h
    assume h: "handle_scope h = p"
    show "spec (os_at T t) (bind (find_server_by_name A h ?n) (\<lambda>existing. case existing of
        Some s \<Rightarrow> ret (os_server_id s)
      | None \<Rightarrow> bind (resolve_image_ref L A p (ss_image sp)) (\<lambda>image.
         bind (resolve_flavor_ref L A h (ss_flavor sp)) (\<lambda>flavor.
         checked ''boot server'' (api_create_server A h (server_create_opts sp image flavor)))))) ?Q ?E"
    proof (rule spec_bind [OF spec_weaken [OF find_server_spec [OF assms(1,3)]]], assumption, assumption)
      fix x
      show "spec (\<lambda>c. os_at T t c \<and> (case x of Some v \<Rightarrow> fst t (os_server_id v) = Some (handle_scope h, ?n)
            | None \<Rightarrow> (\<forall>i. fst t i \<noteq> Some (handle_scope h, ?n))))
        (case x of Some s \<Rightarrow> ret (os_server_id s)
         | None \<Rightarrow> bind (resolve_image_ref L A p (ss_image sp)) (\<lambda>image.
            bind (resolve_flavor_ref L A h (ss_flavor sp)) (\<lambda>flavor.
            checked ''boot server'' (api_create_server A h (server_create_opts sp image flavor))))) ?Q ?E"
      proof (cases x)
        case None
        have "spec (os_at T t) (bind (resolve_image_ref L A p (ss_image sp)) (\<lambda>image.
            bind (resolve_flavor_ref L A h (ss_flavor sp)) (\<lambda>flavor.
            checked ''boot server'' (api_create_server A h (server_create_opts sp image flavor))))) ?Q ?E"
          if "\<forall>i. fst t i \<noteq> Some (p, ?n)"
          using create [OF h that] E by (intro spec_keeps_bind keeps_resolve_image keeps_resolve_flavor q)
        then show ?thesis using None h by (auto simp: spec_def)
      next
        case (Some v)
        show ?thesis unfolding Some option.case
          by (rule spec_ret, rule os_madeI) (use h in \<open>auto simp: made_def\<close>)
      qed
    qed (rule E)
  qed
qed

lemma keeps_poll: "quiet_service A T \<Longrightarrow> keeps (os_at T t) (poll_server A h i n)"
  by (induction n) (auto intro!: keeps_intros keeps_calls simp: quiet_service_def)

lemma keeps_wait: "quiet_service A T \<Longrightarrow> keeps (os_at T t) (os_wait_active A p i)"
  unfolding os_wait_active_def compute_client_def
  by (intro keeps_intros keeps_service_client keeps_poll)

lemma keeps_allocate: "quiet_service A T \<Longrightarrow> keeps (os_at T t) (os_allocate_fip A p i)"
  unfolding os_allocate_fip_def first_server_port_def network_client_def
  by (intro keeps_intros keeps_service_client keeps_calls)
    (auto simp: quiet_service_def intro: keeps_intros split: list.split)

lemma keeps_release: "quiet_service A T \<Longrightarrow> keeps (os_at T t) (release_fips_for_server A p i)"
  unfolding release_fips_for_server_def release_port_fips_def network_client_def
  by (intro keeps_intros keeps_service_client keeps_calls) (simp_all add: quiet_service_def)

lemma delete_server_spec:
  assumes "service_ok A T" "os_scope_ok p"
  shows "spec (os_at T t) (os_delete_server A p i)
    (\<lambda>_. os_made T (\<lambda>t'. (snd t' = snd t \<and> dropped i (fst t) (fst t')) \<and> os_lost p (fst t' i)))
    (\<lambda>_. os_made T (\<lambda>t'. snd t' = snd t \<and> dropped i (fst t) (fst t')))"
proof -
  have q: "quiet_service A T" using assms(1) by (simp add: service_ok_def)
  have E: "os_at T t c \<Longrightarrow> os_made T (\<lambda>t'. snd t' = snd t \<and> dropped i (fst t) (fst t')) c" for c
    by (rule os_madeI, assumption) simp
  show ?thesis unfolding os_delete_server_def compute_client_def
  proof (rule with_client [OF q assms(2)])
    fix h
    assume h: "handle_scope h = p"
    show "spec (os_at T t) (bind (attempt (release_fips_for_server A p i)) (\<lambda>_. unless_gone ''delete server'' (api_delete_server A h i)))
      (\<lambda>_. os_made T (\<lambda>t'. (snd t' = snd t \<and> dropped i (fst t) (fst t')) \<and> os_lost p (fst t' i)))
      (\<lambda>_. os_made T (\<lambda>t'. snd t' = snd t \<and> dropped i (fst t) (fst t')))"
    proof (rule spec_keeps_bind)
      show "keeps (os_at T t) (attempt (release_fips_for_server A p i))" by (intro keeps_intros keeps_release q)
      show "spec (os_at T t) (unless_gone ''delete server'' (api_delete_server A h i))
        (\<lambda>_. os_made T (\<lambda>t'. (snd t' = snd t \<and> dropped i (fst t) (fst t')) \<and> os_lost p (fst t' i)))
        (\<lambda>_. os_made T (\<lambda>t'. snd t' = snd t \<and> dropped i (fst t) (fst t')))"
        unfolding os_made_def by (rule unless_gone_spec) (use server_deleted [OF assms(1)] h in fastforce)
    qed (rule E)
  qed (rule E)
qed

section \<open>Networks\<close>

lemma find_network_spec:
  assumes "service_ok A T" "handle_scope h = p"
  shows "spec (os_at T t) (find_network_by_name A h p n) (\<lambda>x c. os_at T t c \<and> (case x of
      Some v \<Rightarrow> fst (snd t) (on_id v) = Some (p, n) | None \<Rightarrow> (\<forall>i. fst (snd t) i \<noteq> Some (p, n)))) (\<lambda>_. os_at T t)"
  unfolding find_network_by_name_def
proof (rule spec_bind [OF listing_spec])
  show "quiet T (api_list_networks A h n p)" using assms(1) by (simp add: service_ok_def quiet_service_def)
  fix s xs s'
  assume "T s = t" "api_list_networks A h n p s = (Inr (Inr xs), s')"
  with assms show "(\<forall>v \<in> set xs. fst (snd t) (on_id v) = Some (p, on_name v)) \<and>
      (\<forall>i. fst (snd t) i = Some (p, n) \<longrightarrow> (\<exists>v \<in> set xs. on_name v = n))"
    using network_listed [OF assms(1), of h n s xs s'] by simp
next
  fix xs
  show "spec (\<lambda>c. os_at T t c \<and> (\<forall>v \<in> set xs. fst (snd t) (on_id v) = Some (p, on_name v)) \<and>
      (\<forall>i. fst (snd t) i = Some (p, n) \<longrightarrow> (\<exists>v \<in> set xs. on_name v = n)))
    (ret (List.find (\<lambda>s. on_name s = n) xs)) (\<lambda>x c. os_at T t c \<and> (case x of
      Some v \<Rightarrow> fst (snd t) (on_id v) = Some (p, n) | None \<Rightarrow> (\<forall>i. fst (snd t) i \<noteq> Some (p, n)))) (\<lambda>_. os_at T t)"
    by (rule spec_ret) (auto split: option.split dest: find_some simp: find_None_iff)
qed

lemma keeps_ensure_subnet: "quiet_service A T \<Longrightarrow> keeps (os_at T t) (ensure_subnet A h p net n)"
  unfolding ensure_subnet_def Let_def
  by (intro keeps_intros keeps_calls) (simp_all add: quiet_service_def)

lemma keeps_ensure_router: "quiet_service A T \<Longrightarrow> keeps (os_at T t) (ensure_router_interface A h p n s)"
  unfolding ensure_router_interface_def ensure_router_def Let_def
  by (intro keeps_intros keeps_calls) (simp_all add: quiet_service_def)

definition os_network_tail :: "'o os_api \<Rightarrow> os_handle \<Rightarrow> string \<Rightarrow> network_spec \<Rightarrow> string \<Rightarrow> ('o, string) os_prog" where
  "os_network_tail A h p n created =
     bind (ensure_subnet A h p created n) (\<lambda>subnet.
     bind (get_w (\<lambda>c. oc_public_network (op_config c))) (\<lambda>public.
     if public \<noteq> [] then bind (ensure_router_interface A h p (ns_name n) (on_id subnet)) (\<lambda>_. ret created)
     else ret created))"

lemma network_tail: "quiet_service A T \<Longrightarrow> spec (os_at T t) (os_network_tail A h p n i) (\<lambda>j c. os_at T t c \<and> j = i) (\<lambda>_. os_at T t)"
proof (rule specI)
  assume q: "quiet_service A T"
  have k: "keeps (os_at T t) (os_network_tail A h p n i)"
    unfolding os_network_tail_def by (intro keeps_intros keeps_ensure_subnet keeps_ensure_router q)
  fix c j c'
  assume c: "os_at T t c" "os_network_tail A h p n i c = (Inr j, c')"
  from c(2) have "j = i"
    unfolding os_network_tail_def by (auto simp: io_simps split: prod.splits sum.splits if_splits)
  with keepsD [OF k c] show "os_at T t c' \<and> j = i" by simp
next
  assume q: "quiet_service A T"
  have k: "keeps (os_at T t) (os_network_tail A h p n i)"
    unfolding os_network_tail_def by (intro keeps_intros keeps_ensure_subnet keeps_ensure_router q)
  fix c e c'
  assume "os_at T t c" "os_network_tail A h p n i c = (Inl e, c')"
  then show "os_at T t c'" by (rule keepsD [OF k])
qed

lemma create_network_spec:
  assumes "service_ok A T" "os_scope_ok p"
  shows "spec (os_at T t) (os_create_network A p n)
    (\<lambda>i. os_made T (\<lambda>t'. fst t' = fst t \<and> snd (snd t') = snd (snd t) \<and> made (p, ns_name n) i (fst (snd t)) (fst (snd t'))))
    (\<lambda>_. os_made T (\<lambda>t'. fst t' = fst t \<and> snd (snd t') = snd (snd t) \<and> tried (p, ns_name n) (fst (snd t)) (fst (snd t'))))"
proof -
  let ?n = "ns_name n"
  let ?M = "\<lambda>i t'. fst t' = fst t \<and> snd (snd t') = snd (snd t) \<and> made (p, ?n) i (fst (snd t)) (fst (snd t'))"
  let ?R = "\<lambda>t'. fst t' = fst t \<and> snd (snd t') = snd (snd t) \<and> tried (p, ?n) (fst (snd t)) (fst (snd t'))"
  let ?Q = "\<lambda>i. os_made T (?M i)" and ?E = "\<lambda>_ :: os_err. os_made T ?R"
  have q: "quiet_service A T" using assms(1) by (simp add: service_ok_def)
  have E: "os_at T t c \<Longrightarrow> ?E e c" for e c by (rule os_madeI, assumption) simp
  have tail: "spec (os_made T (?M i)) (os_network_tail A h p n i) ?Q ?E" for h i
  proof (rule spec_pre)
    fix c
    assume "os_made T (?M i) c"
    then obtain t' where t': "os_at T t' c" "?M i t'" unfolding os_made_def by blast
    have r: "?R t'" using t'(2) by (auto simp: tried_def)
    have qe: "os_at T t' v \<Longrightarrow> ?Q i v" "os_at T t' v \<Longrightarrow> ?E e v" for v e
      by (rule os_madeI, assumption, rule t'(2), rule os_madeI, assumption, rule r)
    show "spec (\<lambda>v. v = c) (os_network_tail A h p n i) ?Q ?E"
      by (rule spec_weaken [OF network_tail [OF q, of t']]) (use qe t'(1) in blast)+
  qed
  have create: "spec (os_at T t) (checked ''create network'' (api_create_network A h ?n True p)) ?Q ?E"
    if h: "handle_scope h = p" and new: "\<forall>i. fst (snd t) i \<noteq> Some (p, ?n)" for h
    unfolding os_made_def
  proof (rule checked_spec)
    fix s r s'
    assume s: "T s = t" "api_create_network A h ?n True p s = (r, s')"
    have "fst (T s') = fst t \<and> snd (snd (T s')) = snd (snd t) \<and> (case r of Inr i \<Rightarrow> fresh_entry (p, ?n) i (fst (snd t)) (fst (snd (T s')))
        | Inl _ \<Rightarrow> fst (snd (T s')) = fst (snd t) \<or> (\<exists>i. fresh_entry (p, ?n) i (fst (snd t)) (fst (snd (T s')))))"
      using network_created [OF assms(1), of h ?n True s r s'] s h by (cases r) simp_all
    then show "case r of Inr i \<Rightarrow> ?M i (T s') | Inl _ \<Rightarrow> ?R (T s')"
      using fresh_made fresh_tried new by (cases r) auto
  qed
  show ?thesis unfolding os_create_network_def network_client_def os_network_tail_def [symmetric]
  proof (rule with_client [OF q assms(2) _ E])
    fix h
    assume h: "handle_scope h = p"
    show "spec (os_at T t) (bind (find_network_by_name A h p ?n) (\<lambda>existing. case existing of
        Some x \<Rightarrow> ret (on_id x)
      | None \<Rightarrow> bind (checked ''create network'' (api_create_network A h ?n True p)) (os_network_tail A h p n))) ?Q ?E"
    proof (rule spec_bind [OF spec_weaken [OF find_network_spec [OF assms(1) h]]], assumption, assumption)
      fix x
      show "spec (\<lambda>c. os_at T t c \<and> (case x of Some v \<Rightarrow> fst (snd t) (on_id v) = Some (p, ?n)
            | None \<Rightarrow> (\<forall>i. fst (snd t) i \<noteq> Some (p, ?n))))
        (case x of Some x \<Rightarrow> ret (on_id x)
         | None \<Rightarrow> bind (checked ''create network'' (api_create_network A h ?n True p)) (os_network_tail A h p n)) ?Q ?E"
      proof (cases x)
        case None
        have "spec (os_at T t) (bind (checked ''create network'' (api_create_network A h ?n True p)) (os_network_tail A h p n)) ?Q ?E"
          if "\<forall>i. fst (snd t) i \<noteq> Some (p, ?n)"
          by (rule spec_bind [OF create [OF h that] tail])
        then show ?thesis using None by (auto simp: spec_def)
      next
        case (Some v)
        show ?thesis unfolding Some option.case
          by (rule spec_ret, rule os_madeI) (auto simp: made_def)
      qed
    qed (rule E)
  qed
qed

lemma keeps_detach: "quiet_service A T \<Longrightarrow> keeps (os_at T t) (detach_router_port A h port)"
  unfolding detach_router_port_def
  by (intro keeps_intros keeps_calls) (simp_all add: quiet_service_def)

lemma delete_network_spec:
  assumes "service_ok A T" "os_scope_ok p"
  shows "spec (os_at T t) (os_delete_network A p i)
    (\<lambda>_. os_made T (\<lambda>t'. (fst t' = fst t \<and> snd (snd t') = snd (snd t) \<and> dropped i (fst (snd t)) (fst (snd t'))) \<and> os_lost p (fst (snd t') i)))
    (\<lambda>_. os_made T (\<lambda>t'. fst t' = fst t \<and> snd (snd t') = snd (snd t) \<and> dropped i (fst (snd t)) (fst (snd t'))))"
proof -
  let ?R = "\<lambda>t'. fst t' = fst t \<and> snd (snd t') = snd (snd t) \<and> dropped i (fst (snd t)) (fst (snd t'))"
  let ?Q = "\<lambda>_ :: unit. os_made T (\<lambda>t'. ?R t' \<and> os_lost p (fst (snd t') i))" and ?E = "\<lambda>_ :: os_err. os_made T ?R"
  have q: "quiet_service A T" using assms(1) by (simp add: service_ok_def)
  have E: "os_at T t c \<Longrightarrow> ?E e c" for e c by (rule os_madeI, assumption) simp
  show ?thesis unfolding os_delete_network_def network_client_def
  proof (rule with_client [OF q assms(2) _ E])
    fix h
    assume h: "handle_scope h = p"
    have last: "spec (os_at T t) (unless_gone ''delete network'' (api_delete_network A h i)) ?Q ?E"
      unfolding os_made_def by (rule unless_gone_spec) (use network_deleted [OF assms(1)] h in fastforce)
    show "spec (os_at T t) (bind (for_listing ''list router ports'' ''extract router ports''
        (api_list_ports A h \<lparr>pq_network = i, pq_device = [], pq_owner = ''network:router_interface'', pq_project = p\<rparr>)
        (detach_router_port A h)) (\<lambda>_.
      bind (for_listing ''list subnets'' ''extract subnets'' (api_list_subnets A h [] i p)
        (\<lambda>s. unless_gone_or_used ''delete subnet'' (api_delete_subnet A h (on_id s)))) (\<lambda>_.
      unless_gone ''delete network'' (api_delete_network A h i)))) ?Q ?E"
      by (intro spec_keeps_bind last E keeps_for_listing keeps_detach keeps_unless_gone_or_used q)
        (use q in \<open>simp_all add: quiet_service_def\<close>)
  qed
qed

section \<open>Key pairs\<close>

text \<open>The key pairs after a success, and after anything.\<close>

definition key_added :: "string \<Rightarrow> resource_table \<times> resource_table \<times> string set \<Rightarrow> resource_table \<times> resource_table \<times> string set \<Rightarrow> bool" where
  "key_added n t t' \<longleftrightarrow> fst t' = fst t \<and> fst (snd t') = fst (snd t) \<and> snd (snd t') = insert n (snd (snd t))"

definition key_tried :: "string \<Rightarrow> resource_table \<times> resource_table \<times> string set \<Rightarrow> resource_table \<times> resource_table \<times> string set \<Rightarrow> bool" where
  "key_tried n t t' \<longleftrightarrow> fst t' = fst t \<and> fst (snd t') = fst (snd t) \<and> (snd (snd t') = snd (snd t) \<or> snd (snd t') = insert n (snd (snd t)))"

lemma make_keypair_spec:
  assumes "service_ok A T"
  shows "spec (os_at T t) (bind (checked ''create keypair'' (api_create_keypair A h n ''ssh'')) (\<lambda>k. ret (keypair_from_openstack k)))
    (\<lambda>k c. kp_name k = n \<and> os_made T (key_added n t) c) (\<lambda>_. os_made T (key_tried n t))"
proof (rule spec_bind)
  show "spec (os_at T t) (checked ''create keypair'' (api_create_keypair A h n ''ssh''))
      (\<lambda>k c. \<exists>t'. os_at T t' c \<and> (okp_name k = n \<and> key_added n t t')) (\<lambda>_. os_made T (key_tried n t))"
    unfolding os_made_def
  proof (rule checked_spec)
    fix s r s'
    assume "T s = t" "api_create_keypair A h n ''ssh'' s = (r, s')"
    with keypair_created [OF assms]
    show "case r of Inr k \<Rightarrow> okp_name k = n \<and> key_added n t (T s') | Inl _ \<Rightarrow> key_tried n t (T s')"
      by (cases r) (fastforce simp: key_added_def key_tried_def)+
  qed
  show "spec (\<lambda>c. \<exists>t'. os_at T t' c \<and> (okp_name k = n \<and> key_added n t t')) (ret (keypair_from_openstack k))
      (\<lambda>k c. kp_name k = n \<and> os_made T (key_added n t) c) (\<lambda>_. os_made T (key_tried n t))" for k
    by (rule spec_ret) (auto simp: keypair_from_openstack_def os_made_def)
qed

lemma get_keypair_spec:
  assumes "service_ok A T"
  shows "spec (os_at T t) (raw_call (api_get_keypair A h n))
    (\<lambda>r c. os_at T t c \<and> (\<forall>k. r = Inr (Some k) \<longrightarrow> okp_name k = n \<and> n \<in> snd (snd t))) E"
proof (rule specI)
  fix c r c'
  assume c: "os_at T t c" "raw_call (api_get_keypair A h n) c = (Inr r, c')"
  then obtain s' where "api_get_keypair A h n (op_service c) = (r, s')" by (auto simp: raw_call_def split: prod.splits)
  with keypair_found [OF assms, of h n "op_service c"] c(1)
  have "\<forall>k. r = Inr (Some k) \<longrightarrow> okp_name k = n \<and> n \<in> snd (snd t)" by (auto simp: os_at_def)
  moreover have "os_at T t c'" by (rule keepsD [OF keeps_raw c]) (use assms in \<open>simp add: service_ok_def quiet_service_def\<close>)
  ultimately show "os_at T t c' \<and> (\<forall>k. r = Inr (Some k) \<longrightarrow> okp_name k = n \<and> n \<in> snd (snd t))" by simp
qed (auto simp: raw_call_def split: prod.splits)

lemma create_keypair_spec:
  assumes "service_ok A T" "os_scope_ok p"
  shows "spec (os_at T t) (os_create_keypair A p n)
    (\<lambda>k c. kp_name k = n \<and> os_made T (key_added n t) c) (\<lambda>_. os_made T (key_tried n t))"
proof -
  let ?Q = "\<lambda>k c. kp_name k = n \<and> os_made T (key_added n t) c" and ?E = "\<lambda>_ :: os_err. os_made T (key_tried n t)"
  have q: "quiet_service A T" using assms(1) by (simp add: service_ok_def)
  have E: "os_at T t c \<Longrightarrow> ?E e c" for e c by (rule os_madeI, assumption) (simp add: key_tried_def)
  show ?thesis unfolding os_create_keypair_def compute_client_def Let_def
  proof (rule with_client [OF q assms(2) _ E], rule spec_bind [OF get_keypair_spec [OF assms(1)]])
    fix h and r :: "api_error + os_keypair option"
    let ?P = "\<lambda>c. os_at T t c \<and> (\<forall>k. r = Inr (Some k) \<longrightarrow> okp_name k = n \<and> n \<in> snd (snd t))"
    let ?create = "bind (checked ''create keypair'' (api_create_keypair A h n ''ssh'')) (\<lambda>k. ret (keypair_from_openstack k))"
    have c: "spec ?P ?create ?Q ?E" using make_keypair_spec [OF assms(1)] by (auto simp: spec_def)
    have old: "spec ?P (ret (keypair_from_openstack k)) ?Q ?E" if "r = Inr (Some k)" for k :: os_keypair
      by (rule spec_ret) (use that in \<open>auto simp: keypair_from_openstack_def key_added_def insert_absorb intro!: os_madeI\<close>)
    have bad: "spec ?P (throw e) ?Q ?E" for e :: os_err by (rule spec_throw) (use E in auto)
    show "spec ?P (case r of
          Inr (Some k) \<Rightarrow> ret (keypair_from_openstack k)
        | Inr None \<Rightarrow> ?create
        | Inl e \<Rightarrow> if \<not> os_not_found (Untranslated e) then throw (translate_err ''get keypair'' e) else ?create) ?Q ?E"
    proof (cases r)
      case (Inl e)
      show ?thesis using c bad [of "translate_err ''get keypair'' e"]
        by (cases "os_not_found (Untranslated e)") (simp_all add: Inl)
    next
      case (Inr x)
      show ?thesis using c old by (cases x) (simp_all add: Inr)
    qed
  qed
qed

lemma delete_keypair_spec:
  assumes "service_ok A T" "os_scope_ok p"
  shows "spec (os_at T t) (os_delete_keypair A p n)
    (\<lambda>_. os_made T (\<lambda>t'. (fst t' = fst t \<and> fst (snd t') = fst (snd t) \<and> snd (snd t') \<subseteq> snd (snd t) \<and> snd (snd t) - {n} \<subseteq> snd (snd t')) \<and>
      n \<notin> snd (snd t')))
    (\<lambda>_. os_made T (\<lambda>t'. fst t' = fst t \<and> fst (snd t') = fst (snd t) \<and> snd (snd t') \<subseteq> snd (snd t) \<and> snd (snd t) - {n} \<subseteq> snd (snd t')))"
proof -
  let ?R = "\<lambda>t'. fst t' = fst t \<and> fst (snd t') = fst (snd t) \<and> snd (snd t') \<subseteq> snd (snd t) \<and> snd (snd t) - {n} \<subseteq> snd (snd t')"
  have q: "quiet_service A T" using assms(1) by (simp add: service_ok_def)
  have E: "os_at T t c \<Longrightarrow> os_made T ?R c" for c by (rule os_madeI, assumption) simp
  show ?thesis unfolding os_delete_keypair_def compute_client_def
  proof (rule with_client [OF q assms(2) _ E])
    fix h
    show "spec (os_at T t) (unless_gone ''delete keypair'' (api_delete_keypair A h n))
        (\<lambda>_. os_made T (\<lambda>t'. ?R t' \<and> n \<notin> snd (snd t'))) (\<lambda>_. os_made T ?R)"
      unfolding os_made_def by (rule unless_gone_spec) (use keypair_deleted [OF assms(1)] in fastforce)
  qed
qed

section \<open>The contract\<close>

definition os_servers :: "'o os_view \<Rightarrow> 'o os_provider \<Rightarrow> resource_table" where
  "os_servers T c = fst (T (op_service c))"

definition os_networks :: "'o os_view \<Rightarrow> 'o os_provider \<Rightarrow> resource_table" where
  "os_networks T c = fst (snd (T (op_service c)))"

definition os_keys :: "'o os_view \<Rightarrow> 'o os_provider \<Rightarrow> string set" where
  "os_keys T c = snd (snd (T (op_service c)))"

text \<open>The key pair of a name, whatever the project.\<close>

definition os_key_of :: "string \<Rightarrow> string \<Rightarrow> string" where
  "os_key_of p k = k"

lemmas os_view_defs = os_servers_def os_networks_def os_keys_def os_ok_def os_key_of_def

lemma os_ok_at: "os_ok T c \<Longrightarrow> os_at T (T (op_service c)) c"
  by (simp add: os_ok_def os_at_def)

text \<open>A method after its triple.\<close>

lemma method_spec:
  assumes "\<And>t. spec (os_at T t) m (Q t) (E t)" "os_ok T c" "os_method m c = (r, c')"
  shows "case r of Inl _ \<Rightarrow> \<exists>e. E (T (op_service c)) e c' | Inr x \<Rightarrow> Q (T (op_service c)) x c'"
proof -
  obtain r0 where r0: "m c = (r0, c')" "r = map_sum to_err id r0"
    using assms(3) by (auto simp: os_method_def split: prod.splits)
  note s = assms(1) [of "T (op_service c)"] and c = os_ok_at [OF assms(2)]
  show ?thesis using specD_Inl [OF s c] specD_Inr [OF s c] r0 by (cases r0) auto
qed

lemma method_keeps:
  assumes "\<And>t. keeps (os_at T t) m" "os_ok T c" "os_method m c = (r, c')"
  shows "os_ok T c' \<and> T (op_service c') = T (op_service c)"
proof -
  obtain r0 where "m c = (r0, c')" using assms(3) by (auto simp: os_method_def split: prod.splits)
  from keepsD [OF assms(1) os_ok_at [OF assms(2)] this] assms(2) show ?thesis by (simp add: os_at_def os_ok_def)
qed

lemma os_made_ok: "os_made T Q c \<Longrightarrow> (\<And>t. Q t \<Longrightarrow> unique_names (fst t) \<and> unique_names (fst (snd t))) \<Longrightarrow>
    os_ok T c \<and> Q (T (op_service c))"
  by (auto simp: os_made_def os_at_def os_ok_def)

lemma os_names: "os_ok T c \<Longrightarrow> unique_names (fst (T (op_service c))) \<and> unique_names (fst (snd (T (op_service c))))"
  by (simp add: os_ok_def)

lemma os_boot_law:
  assumes "service_ok A T" "os_ok T c" "os_scope_ok p" "plain_name (ss_name s)" "os_method (os_boot_server L A p s) c = (r, c')"
  shows "os_ok T c' \<and> os_networks T c' = os_networks T c \<and> os_keys T c' = os_keys T c \<and>
    (case r of Inl _ \<Rightarrow> tried (p, ss_name s) (os_servers T c) (os_servers T c')
     | Inr i \<Rightarrow> made (p, ss_name s) i (os_servers T c) (os_servers T c'))"
  using method_spec [OF boot_server_spec [OF assms(1,3,4)] assms(2,5)] os_names [OF assms(2)]
  by (cases r) (auto simp: os_made_def os_at_def os_view_defs dest: made_unique tried_unique)

lemma os_network_law:
  assumes "service_ok A T" "os_ok T c" "os_scope_ok p" "os_method (os_create_network A p n) c = (r, c')"
  shows "os_ok T c' \<and> os_servers T c' = os_servers T c \<and> os_keys T c' = os_keys T c \<and>
    (case r of Inl _ \<Rightarrow> tried (p, ns_name n) (os_networks T c) (os_networks T c')
     | Inr i \<Rightarrow> made (p, ns_name n) i (os_networks T c) (os_networks T c'))"
  using method_spec [OF create_network_spec [OF assms(1,3)] assms(2,4)] os_names [OF assms(2)]
  by (cases r) (auto simp: os_made_def os_at_def os_view_defs dest: made_unique tried_unique)

lemma os_keypair_law:
  assumes "service_ok A T" "os_ok T c" "os_scope_ok p" "os_method (os_create_keypair A p k) c = (q, c')"
  shows "os_ok T c' \<and> os_servers T c' = os_servers T c \<and> os_networks T c' = os_networks T c \<and>
    (case q of Inl _ \<Rightarrow> os_keys T c' = os_keys T c \<or> os_keys T c' = insert (os_key_of p k) (os_keys T c)
     | Inr kp \<Rightarrow> kp_name kp = k \<and> os_keys T c' = insert (os_key_of p k) (os_keys T c))"
  using method_spec [OF create_keypair_spec [OF assms(1,3)] assms(2,4)] os_names [OF assms(2)]
  by (cases q) (auto simp: os_made_def os_at_def os_view_defs key_added_def key_tried_def)

lemma os_delete_server_law:
  assumes "service_ok A T" "os_ok T c" "os_scope_ok p" "os_method (os_delete_server A p i) c = (d, c')"
  shows "os_ok T c' \<and> os_networks T c' = os_networks T c \<and> os_keys T c' = os_keys T c \<and>
    dropped i (os_servers T c) (os_servers T c') \<and> (d = Inr () \<longrightarrow> os_lost p (os_servers T c' i))"
  using method_spec [OF delete_server_spec [OF assms(1,3)] assms(2,4)] os_names [OF assms(2)]
  by (cases d) (auto simp: os_made_def os_at_def os_view_defs dest: dropped_unique)

lemma os_delete_network_law:
  assumes "service_ok A T" "os_ok T c" "os_scope_ok p" "os_method (os_delete_network A p i) c = (d, c')"
  shows "os_ok T c' \<and> os_servers T c' = os_servers T c \<and> os_keys T c' = os_keys T c \<and>
    dropped i (os_networks T c) (os_networks T c') \<and> (d = Inr () \<longrightarrow> os_lost p (os_networks T c' i))"
  using method_spec [OF delete_network_spec [OF assms(1,3)] assms(2,4)] os_names [OF assms(2)]
  by (cases d) (auto simp: os_made_def os_at_def os_view_defs dest: dropped_unique)

lemma os_delete_keypair_law:
  assumes "service_ok A T" "os_ok T c" "os_scope_ok p" "os_method (os_delete_keypair A p k) c = (d, c')"
  shows "os_ok T c' \<and> os_servers T c' = os_servers T c \<and> os_networks T c' = os_networks T c \<and> os_keys T c' \<subseteq> os_keys T c \<and>
    os_keys T c - {os_key_of p k} \<subseteq> os_keys T c' \<and> (d = Inr () \<longrightarrow> os_key_of p k \<notin> os_keys T c')"
  using method_spec [OF delete_keypair_spec [OF assms(1,3)] assms(2,4)] os_names [OF assms(2)]
  by (cases d) (auto simp: os_made_def os_at_def os_view_defs)

lemma openstack_contract:
  assumes "service_ok A T"
  shows "cloud_provider (os_ops L A) (os_ok T) (os_servers T) (os_networks T) (os_keys T) os_key_of os_lost os_scope_ok plain_name"
proof (unfold_locales, goal_cases)
  case (1 c)
  then show ?case by (simp add: os_view_defs)
next
  case (2 p)
  show ?case by (simp add: os_lost_def)
next
  case (3 c p s r c')
  then show ?case by (intro os_boot_law [OF assms]) (simp_all add: os_ops_def)
next
  case (4 c p i d c')
  then have "os_method (os_wait_active A p i) c = (d, c')" by (simp add: os_ops_def)
  from method_keeps [OF keeps_wait 4(1) this] 4 assms show ?case by (auto simp: service_ok_def os_servers_def os_networks_def os_keys_def)
next
  case (5 c p i f c')
  then have "os_method (os_allocate_fip A p i) c = (f, c')" by (simp add: os_ops_def)
  from method_keeps [OF keeps_allocate 5(1) this] 5 assms show ?case by (auto simp: service_ok_def os_servers_def os_networks_def os_keys_def)
next
  case (6 c p n r c')
  then show ?case by (intro os_network_law [OF assms]) (simp_all add: os_ops_def)
next
  case (7 c p k q c')
  then show ?case by (intro os_keypair_law [OF assms]) (simp_all add: os_ops_def)
next
  case (8 c p i d c')
  then show ?case by (intro os_delete_server_law [OF assms]) (simp_all add: os_ops_def)
next
  case (9 c p i d c')
  then show ?case by (intro os_delete_network_law [OF assms]) (simp_all add: os_ops_def)
next
  case (10 c p k d c')
  then show ?case by (intro os_delete_keypair_law [OF assms]) (simp_all add: os_ops_def)
qed

end
