(* ===== verification/OpenStackLabs.thy ===== *)
theory OpenStackLabs
  imports OpenStackContract CloudFootprint
begin

text \<open>
  Labs at the OpenStack adapter: what the sagas leave there, at any services that do what they document. A small
  implementation of the services shows that such services exist.
\<close>

section \<open>Services that keep what they promise\<close>

record ref_service =
  rf_servers :: "(string \<times> string \<times> string) list"
  rf_networks :: "(string \<times> string \<times> string) list"
  rf_keys :: "string list"

text \<open>An identifier that is longer than every one in use.\<close>

definition unused_id :: "(string \<times> 'a) list \<Rightarrow> string" where
  "unused_id xs = CHR ''i'' # concat (map fst xs)"

definition owned_by :: "(string \<times> string \<times> string) list \<Rightarrow> string \<Rightarrow> string list" where
  "owned_by xs p = filter (\<lambda>i. case map_of xs i of Some (q, _) \<Rightarrow> q = p | None \<Rightarrow> False) (map fst xs)"

definition name_of :: "(string \<times> string \<times> string) list \<Rightarrow> string \<Rightarrow> string" where
  "name_of xs i = (case map_of xs i of Some (_, n) \<Rightarrow> n | None \<Rightarrow> [])"

definition remove_owned :: "string \<Rightarrow> string \<Rightarrow> (string \<times> string \<times> string) list \<Rightarrow>
    (api_error + unit) \<times> (string \<times> string \<times> string) list" where
  "remove_owned p i xs = (if i \<in> set (owned_by xs p) then (Inr (), filter (\<lambda>x. fst x \<noteq> i) xs) else (Inl (Status 404 ''not found''), xs))"

definition ok_call :: "'a \<Rightarrow> ('o, 'a) api_call" where
  "ok_call x s = (Inr x, s)"

definition ref_api :: "ref_service os_api" where
  "ref_api = \<lparr>api_new_client = (\<lambda>_. None), api_authenticate = (\<lambda>_. ok_call ()), api_endpoint = (\<lambda>_. ok_call ()),
     api_list_servers = (\<lambda>h _ s. (Inr (Inr (map (\<lambda>i. \<lparr>os_server_id = i, os_server_name = name_of (rf_servers s) i,
       os_server_status = ''ACTIVE''\<rparr>) (owned_by (rf_servers s) (handle_scope h)))), s)),
     api_create_server = (\<lambda>h x s. let i = unused_id (rf_servers s) in
       (Inr i, s\<lparr>rf_servers := (i, handle_scope h, so_name x) # rf_servers s\<rparr>)),
     api_get_server = (\<lambda>h i. ok_call \<lparr>os_server_id = i, os_server_name = [], os_server_status = ''ACTIVE''\<rparr>),
     api_delete_server = (\<lambda>h i s. case remove_owned (handle_scope h) i (rf_servers s) of (r, xs) \<Rightarrow> (r, s\<lparr>rf_servers := xs\<rparr>)),
     api_list_images = (\<lambda>_ n _. ok_call (Inr [\<lparr>on_id = ''image'', on_name = n\<rparr>])),
     api_list_flavors = (\<lambda>_. ok_call (Inr (map (\<lambda>n. \<lparr>on_id = n, on_name = n\<rparr>) [''start'', ''small'', ''medium'', ''large'']))),
     api_get_keypair = (\<lambda>_ n s. (if n \<in> set (rf_keys s)
       then Inr (Some \<lparr>okp_name = n, okp_public = ''public'', okp_private = [], okp_fingerprint = []\<rparr>)
       else Inl (Status 404 ''not found''), s)),
     api_create_keypair = (\<lambda>_ n _ s. (Inr \<lparr>okp_name = n, okp_public = ''public'', okp_private = ''private'', okp_fingerprint = []\<rparr>,
       s\<lparr>rf_keys := List.insert n (rf_keys s)\<rparr>)),
     api_delete_keypair = (\<lambda>_ n s. (if n \<in> set (rf_keys s) then Inr () else Inl (Status 404 ''not found''),
       s\<lparr>rf_keys := removeAll n (rf_keys s)\<rparr>)),
     api_list_networks = (\<lambda>h _ _ s. (Inr (Inr (map (\<lambda>i. \<lparr>on_id = i, on_name = name_of (rf_networks s) i\<rparr>)
       (owned_by (rf_networks s) (handle_scope h)))), s)),
     api_create_network = (\<lambda>h n _ p s. let i = unused_id (rf_networks s) in (Inr i, s\<lparr>rf_networks := (i, p, n) # rf_networks s\<rparr>)),
     api_delete_network = (\<lambda>h i s. case remove_owned (handle_scope h) i (rf_networks s) of (r, xs) \<Rightarrow> (r, s\<lparr>rf_networks := xs\<rparr>)),
     api_list_subnets = (\<lambda>_ _ _ _. ok_call (Inr [])),
     api_create_subnet = (\<lambda>_ x. ok_call \<lparr>on_id = ''subnet'', on_name = sn_name x\<rparr>),
     api_delete_subnet = (\<lambda>_ _. ok_call ()),
     api_list_routers = (\<lambda>_ _ _. ok_call (Inr [])),
     api_create_router = (\<lambda>_ _. ok_call ''router''),
     api_delete_router = (\<lambda>_ _. ok_call ()),
     api_add_interface = (\<lambda>_ _ _. ok_call ()),
     api_remove_interface = (\<lambda>_ _ _. ok_call ()),
     api_list_ports = (\<lambda>_ q. ok_call (Inr (if pq_device q \<noteq> [] then [\<lparr>pt_id = pq_device q, pt_device = pq_device q, pt_fixed_subnets = []\<rparr>] else []))),
     api_list_fips = (\<lambda>_ _ _. ok_call (Inr [])),
     api_create_fip = (\<lambda>_ _ port _. ok_call \<lparr>fp_id = ''fip'', fp_port = port, fp_address = ''203.0.113.1''\<rparr>),
     api_delete_fip = (\<lambda>_ _. ok_call ()),
     api_hypervisors = (\<lambda>_. ok_call \<lparr>hs_vcpus = 64, hs_vcpus_used = 0, hs_memory_mb = 65536, hs_memory_mb_used = 0, hs_local_gb = 1000,
       hs_local_gb_used = 0\<rparr>),
     api_volume_limits = (\<lambda>_. ok_call None),
     api_clock = (\<lambda>_. 1000), api_patience = (\<lambda>_. 3), api_ctx_error = (\<lambda>_. ''context deadline exceeded'')\<rparr>"

definition ref_view :: "ref_service os_view" where
  "ref_view s = (map_of (rf_servers s), map_of (rf_networks s), set (rf_keys s))"

lemma unused_fresh: "map_of xs (unused_id xs) = None"
proof -
  have "length i < length (unused_id xs)" if "i \<in> fst ` set xs" for i
  proof -
    from that obtain x where "(i, x) \<in> set xs" by auto
    then have "length i \<le> sum_list (map length (map fst xs))"
      by (induction xs) auto
    then show ?thesis by (simp add: unused_id_def length_concat)
  qed
  then show ?thesis by (fastforce simp: map_of_eq_None_iff)
qed

lemma owned_by_iff: "i \<in> set (owned_by xs p) \<longleftrightarrow> (\<exists>n. map_of xs i = Some (p, n))"
  by (force simp: owned_by_def dest: map_of_SomeD split: option.splits)

lemma remove_owned_map: "remove_owned p i xs = (r, ys) \<Longrightarrow> dropped i (map_of xs) (map_of ys) \<and> (gone_answer r \<longrightarrow> os_lost p (map_of ys i))"
proof -
  have del: "map_of (filter (\<lambda>x. fst x \<noteq> i) xs) = (map_of xs)(i := None)"
    by (induction xs) (auto simp: fun_eq_iff)
  assume "remove_owned p i xs = (r, ys)"
  then show ?thesis using owned_by_iff [of i xs p] del
    by (auto simp: remove_owned_def dropped_def os_lost_def gone_answer_def has_status_def split: if_splits)
qed

lemma ref_listed: "map_of xs i = Some (p, name_of xs i) \<longleftrightarrow> i \<in> set (owned_by xs p)"
  by (auto simp: owned_by_iff name_of_def)

lemma ref_all: "map_of xs i = Some (p, n) \<Longrightarrow> \<exists>v \<in> set (owned_by xs p). name_of xs v = n"
  by (rule bexI [of _ i]) (auto simp: owned_by_iff name_of_def)

lemma ref_service_ok: "service_ok ref_api ref_view"
proof -
  have "quiet_service ref_api ref_view" by (simp add: quiet_service_def quiet_def ref_api_def ok_call_def Let_def)
  moreover have "server_service ref_api ref_view"
    using unused_fresh remove_owned_map ref_listed ref_all
    by (auto simp: server_service_def ref_api_def ref_view_def Let_def fresh_entry_def split: prod.splits)
  moreover have "network_service ref_api ref_view"
    using unused_fresh remove_owned_map ref_listed ref_all
    by (auto simp: network_service_def ref_api_def ref_view_def Let_def fresh_entry_def split: prod.splits)
  moreover have "keypair_service ref_api ref_view"
    by (auto simp: keypair_service_def ref_api_def ref_view_def gone_answer_def has_status_def split: if_splits)
  ultimately show ?thesis by (simp add: service_ok_def)
qed

section \<open>Half a network\<close>

text \<open>
  A network whose creation failed half-way stays half: when the subnet cannot be made, the first call fails, and the
  retry of the step finds the network by its name and returns it, without a subnet and without a router.
\<close>

definition no_subnets :: "ref_service os_api" where
  "no_subnets = ref_api\<lparr>api_create_subnet := (\<lambda>_ _ s. (Inl (Status 500 ''neutron''), s))\<rparr>"

definition sample_os_config :: openstack_config where
  "sample_os_config = \<lparr>oc_auth_url = ''https://keystone'', oc_username = ''u'', oc_password = ''p'', oc_domain = ''Default'', oc_project = ''admin'',
     oc_region = ''RegionOne'', oc_verify_tls = True, oc_default_flavor = ''m1.small'', oc_public_network = ''public''\<rparr>"

definition empty_openstack :: "ref_service os_provider" where
  "empty_openstack = \<lparr>op_config = sample_os_config, op_clients = [], op_service = \<lparr>rf_servers = [], rf_networks = [], rf_keys = []\<rparr>\<rparr>"

lemma half_network:
  "let (r1, c1) = c_create_network (os_ops L no_subnets) ''p'' \<lparr>ns_name = ''lab'', ns_cidr = ''10.0.0.0/24''\<rparr> empty_openstack;
       (r2, c2) = c_create_network (os_ops L no_subnets) ''p'' \<lparr>ns_name = ''lab'', ns_cidr = ''10.0.0.0/24''\<rparr> c1
   in r1 = Inl (Wrapped ''openstack: create subnet'' (Sentinel ErrCloudUnavailable)) \<and> r2 = Inr ''i'' \<and>
      rf_networks (op_service c2) = [(''i'', ''p'', ''lab'')]"
  by (simp add: os_ops_def os_method_def os_create_network_def network_client_def service_client_def provider_client_def Let_def io_simps
      checked_def raw_call_def find_network_by_name_def listing_def ensure_subnet_def no_subnets_def ref_api_def ok_call_def
      empty_openstack_def sample_os_config_def handle_scope_def auth_options_for_def owned_by_def name_of_def unused_id_def
      translate_err_def to_err_def)

section \<open>Properties\<close>


definition openstack_deploy :: "ref_service os_provider deploy_deps" where
  "openstack_deploy = \<lparr>dd_lib = text_lib, dd_kek = replicate 32 7, dd_cloud = os_ops text_lib ref_api, dd_checks = False,
     dd_cleanup_after = 0, dd_max_attempts = 0\<rparr>"



definition serving_openstack :: "ref_service os_provider" where
  "serving_openstack = empty_openstack\<lparr>op_service := \<lparr>rf_servers = [(''srv-000001'', ''u3'', ''lab-u7-L-MS'')], rf_networks = [], rf_keys = []\<rparr>\<rparr>"

definition openstack_cleanup :: "ref_service os_provider cleanup_deps" where
  "openstack_cleanup = \<lparr>cd_lib = text_lib, cd_cloud = os_ops text_lib ref_api\<rparr>"

lemma text_lib_scope: "os_scope_ok (uuid_string text_lib u)"
  by (simp add: os_scope_ok_def text_lib_def admin_project_key_def)


end
