(* ===== verification/LtiVerifier.thy ===== *)
theory LtiVerifier
  imports Ports
begin

text \<open>
  \<open>internal/lti/claims.go\<close> and \<open>internal/adapters/lms/lti13/verifier.go\<close>: the verifier of LTI 1.3
  launch tokens with its cache of platform keys and its record of used nonces. Parameters of the
  model are the JWT library and SHA-256 (\<open>jwt_lib\<close>), the replies of the platform's JWKS endpoint,
  Redis when it is configured, and the clock; the standard library's base64 and big integers
  are defined. The mutex makes each access to a map one step; a map is an association list.
\<close>

section \<open>Claims\<close>

record launch_claims =
  lc_issuer :: string
  lc_subject :: string
  lc_audience :: "string list"
  lc_azp :: string
  lc_nonce :: string
  lc_deployment :: string
  lc_message_type :: string
  lc_version :: string
  lc_roles :: "string list"
  lc_context_id :: string
  lc_context_label :: string
  lc_context_title :: string
  lc_resource_id :: string
  lc_resource_title :: string
  lc_template_slug :: string
  lc_email :: string
  lc_name :: string

definition validate_resource_link :: "launch_claims \<Rightarrow> err + unit" where
  "validate_resource_link c =
     (if lc_issuer c = [] then Inl (Plain ''lti: issuer is required'')
      else if lc_subject c = [] then Inl (Plain ''lti: subject is required'')
      else if lc_audience c = [] then Inl (Plain ''lti: audience is required'')
      else if lc_nonce c = [] then Inl (Plain ''lti: nonce is required'')
      else if lc_deployment c = [] then Inl (Plain ''lti: deployment id is required'')
      else if lc_message_type c \<noteq> ''LtiResourceLinkRequest'' then Inl (Plain ''lti: unsupported message type'')
      else if lc_version c \<noteq> ''1.3.0'' then Inl (Plain ''lti: unsupported version'')
      else if lc_roles c = [] then Inl (Plain ''lti: at least one role is required'')
      else if lc_context_id c = [] then Inl (Plain ''lti: context id is required'')
      else if lc_resource_id c = [] then Inl (Plain ''lti: resource link id is required'')
      else Inr ())"

text \<open>\<open>ports.LTILaunch\<close>; its map of raw claims holds strings only.\<close>

record lti_launch =
  ll_iss :: string
  ll_sub :: string
  ll_aud :: "string list"
  ll_email :: string
  ll_name :: string
  ll_course :: string
  ll_resource :: string
  ll_roles :: "string list"
  ll_raw :: "(string \<times> string) list"

section \<open>Keys of the platform\<close>

record rsa_key =
  rk_n :: int
  rk_e :: int

record jwk =
  jk_kty :: string
  jk_use :: string
  jk_kid :: string
  jk_alg :: string
  jk_n :: string
  jk_e :: string

text \<open>
  \<open>base64.RawURLEncoding.DecodeString\<close>: line breaks are skipped, any other character outside the
  alphabet is an error, and so is a lone last character; the unused bits of the last group are
  not looked at.
\<close>

definition b64_digit :: "char \<Rightarrow> int option" where
  "b64_digit c = (let n = (of_char c :: int) in
     if 65 \<le> n \<and> n \<le> 90 then Some (n - 65)
     else if 97 \<le> n \<and> n \<le> 122 then Some (n - 71)
     else if 48 \<le> n \<and> n \<le> 57 then Some (n + 4)
     else if n = 45 then Some 62 else if n = 95 then Some 63 else None)"

fun b64_digits :: "string \<Rightarrow> int list option" where
  "b64_digits [] = Some []"
| "b64_digits (c # s) = (case b64_digit c of None \<Rightarrow> None | Some d \<Rightarrow> map_option ((#) d) (b64_digits s))"

fun b64_bytes :: "int list \<Rightarrow> int list option" where
  "b64_bytes (a # b # c # d # ds) = (let v = ((a * 64 + b) * 64 + c) * 64 + d in
     map_option (\<lambda>bs. v div 65536 # v div 256 mod 256 # v mod 256 # bs) (b64_bytes ds))"
| "b64_bytes [a, b, c] = (let v = (a * 64 + b) * 64 + c in Some [v div 1024, v div 4 mod 256])"
| "b64_bytes [a, b] = Some [(a * 64 + b) div 16]"
| "b64_bytes [a] = None"
| "b64_bytes [] = Some []"

definition b64_decode :: "string \<Rightarrow> int list option" where
  "b64_decode s = (case b64_digits (filter (\<lambda>c. c \<noteq> CHR 0x0A \<and> c \<noteq> CHR 0x0D) s) of
     None \<Rightarrow> None | Some ds \<Rightarrow> b64_bytes ds)"

text \<open>\<open>big.Int.SetBytes\<close>.\<close>

definition big_endian :: "int list \<Rightarrow> int" where
  "big_endian bs = foldl (\<lambda>v b. 256 * v + b) 0 bs"

definition base64_error :: err where
  "base64_error = Plain ''illegal base64 data''"

definition jwk_public_key :: "jwk \<Rightarrow> err + rsa_key" where
  "jwk_public_key j =
     (if jk_kid j = [] \<or> jk_kty j \<noteq> ''RSA'' \<or> jk_n j = [] \<or> jk_e j = [] then Inl (Plain ''invalid rsa jwk'')
      else if jk_use j \<noteq> [] \<and> jk_use j \<noteq> ''sig'' then Inl (Plain ''unsupported jwk use'')
      else if jk_alg j \<noteq> [] \<and> jk_alg j \<noteq> ''RS256'' then Inl (Plain ''unsupported jwk alg'')
      else case b64_decode (jk_n j) of None \<Rightarrow> Inl base64_error
      | Some nb \<Rightarrow> (case b64_decode (jk_e j) of None \<Rightarrow> Inl base64_error
      | Some eb \<Rightarrow> (let e = big_endian eb in
          if 2 ^ 63 \<le> e \<or> e \<le> 1 then Inl (Plain ''invalid jwk exponent'')
          else Inr \<lparr>rk_n = big_endian nb, rk_e = e\<rparr>)))"

section \<open>The verifier\<close>

text \<open>What a request to the JWKS endpoint gives: a status, and the keys if the body decodes.\<close>

datatype jwks_reply = BadRequest | NetworkError | Response int "jwk list option"

text \<open>
  \<open>jw_parse\<close> splits and decodes a token into the algorithm and key id of its header and its
  claims, \<open>jw_signed\<close> checks its RS256 signature under a key, \<open>jw_valid\<close> its times, its audience and
  its issuer.
\<close>

record jwt_lib =
  jw_parse :: "string \<Rightarrow> (string \<times> string \<times> launch_claims) option"
  jw_signed :: "string \<Rightarrow> rsa_key \<Rightarrow> bool"
  jw_valid :: "string \<Rightarrow> string \<Rightarrow> string \<Rightarrow> time \<Rightarrow> bool"
  sha256_hex :: "string \<Rightarrow> string"

record verifier =
  vf_issuer :: string
  vf_client :: string
  vf_jwks_url :: string
  vf_ttl :: duration
  vf_keys :: "(string \<times> rsa_key) list"
  vf_seen :: "(string \<times> time) list"
  vf_clock :: "nat \<Rightarrow> time"
  vf_tick :: nat
  vf_http :: "nat \<Rightarrow> jwks_reply"
  vf_fetches :: nat
  vf_redis :: "(nat \<Rightarrow> string \<Rightarrow> err + bool) option"
  vf_redis_calls :: nat

type_synonym 'a vprog = "(verifier, err, 'a) io"

definition default_nonce_ttl :: duration where "default_nonce_ttl = 600 * second"

definition new_verifier :: "string \<Rightarrow> string \<Rightarrow> string \<Rightarrow> duration \<Rightarrow> (nat \<Rightarrow> time) \<Rightarrow> (nat \<Rightarrow> jwks_reply) \<Rightarrow>
    (nat \<Rightarrow> string \<Rightarrow> err + bool) option \<Rightarrow> verifier" where
  "new_verifier issuer client url ttl clock http redis = \<lparr>vf_issuer = issuer, vf_client = client,
     vf_jwks_url = url, vf_ttl = (if ttl \<le> 0 then default_nonce_ttl else ttl), vf_keys = [], vf_seen = [],
     vf_clock = clock, vf_tick = 0, vf_http = http, vf_fetches = 0, vf_redis = redis, vf_redis_calls = 0\<rparr>"

definition map_put :: "'k \<Rightarrow> 'v \<Rightarrow> ('k \<times> 'v) list \<Rightarrow> ('k \<times> 'v) list" where
  "map_put k v m = (k, v) # filter (\<lambda>(k', _). k' \<noteq> k) m"

definition unavailable :: "string \<Rightarrow> err" where
  "unavailable what = Wrapped what (Sentinel ErrLMSUnavailable)"

text \<open>The loop over the keys of the payload; a later key replaces an earlier one of its id.\<close>

fun parse_jwks :: "jwk list \<Rightarrow> (string \<times> rsa_key) list \<Rightarrow> err + (string \<times> rsa_key) list" where
  "parse_jwks [] keys = Inr keys"
| "parse_jwks (j # js) keys = (case jwk_public_key j of
     Inl _ \<Rightarrow> Inl (unavailable ''lti13: parse jwk'')
   | Inr k \<Rightarrow> parse_jwks js (map_put (jk_kid j) k keys))"

definition fetch_jwks :: "(string \<times> rsa_key) list vprog" where
  "fetch_jwks v = (let v1 = v\<lparr>vf_fetches := Suc (vf_fetches v)\<rparr> in
     (case vf_http v (vf_fetches v) of
        BadRequest \<Rightarrow> Inl (unavailable ''lti13: build jwks request'')
      | NetworkError \<Rightarrow> Inl (unavailable ''lti13: fetch jwks'')
      | Response status body \<Rightarrow>
          if status < 200 \<or> 299 < status then Inl (unavailable (''lti13: jwks returned '' @ int_text status))
          else case body of None \<Rightarrow> Inl (unavailable ''lti13: decode jwks'')
          | Some js \<Rightarrow> parse_jwks js [], v1))"

definition public_key :: "string \<Rightarrow> rsa_key vprog" where
  "public_key kid =
     bind (get_w vf_keys) (\<lambda>cached.
     case map_of cached kid of Some k \<Rightarrow> ret k
     | None \<Rightarrow>
        bind fetch_jwks (\<lambda>keys.
        bind (upd_w (\<lambda>v. v\<lparr>vf_keys := foldr (\<lambda>(i, k). map_put i k) keys (vf_keys v)\<rparr>)) (\<lambda>_.
        bind (get_w vf_keys) (\<lambda>cached.
        case map_of cached kid of Some k \<Rightarrow> ret k
        | None \<Rightarrow> throw (Plain ''lti13: jwks kid not found'')))))"

definition verifier_now :: "time vprog" where
  "verifier_now v = (Inr (vf_clock v (vf_tick v)), v\<lparr>vf_tick := Suc (vf_tick v)\<rparr>)"

definition nonce_key :: "jwt_lib \<Rightarrow> string \<Rightarrow> string \<Rightarrow> string" where
  "nonce_key J issuer nonce = ''lti:nonce:'' @ sha256_hex J (issuer @ [CHR 0x00] @ nonce)"

definition claim_local :: "string \<Rightarrow> unit vprog" where
  "claim_local key =
     bind verifier_now (\<lambda>now.
     bind (upd_w (\<lambda>v. v\<lparr>vf_seen := filter (\<lambda>(_, e). now < e) (vf_seen v)\<rparr>)) (\<lambda>_.
     bind (get_w (\<lambda>v. map_of (vf_seen v) key)) (\<lambda>found.
     if (case found of None \<Rightarrow> False | Some e \<Rightarrow> now < e) then throw (Sentinel ErrUnauthorized)
     else upd_w (\<lambda>v. v\<lparr>vf_seen := map_put key (now + vf_ttl v) (vf_seen v)\<rparr>))))"

definition claim_nonce :: "jwt_lib \<Rightarrow> string \<Rightarrow> string \<Rightarrow> unit vprog" where
  "claim_nonce J issuer nonce = (let key = nonce_key J issuer nonce in
     bind (get_w (\<lambda>v. map_option (\<lambda>r. r (vf_redis_calls v) key) (vf_redis v))) (\<lambda>reply.
     case reply of
       Some r \<Rightarrow>
         bind (upd_w (\<lambda>v. v\<lparr>vf_redis_calls := Suc (vf_redis_calls v)\<rparr>)) (\<lambda>_.
         case r of Inl _ \<Rightarrow> throw (unavailable ''lti13: store nonce'')
         | Inr stored \<Rightarrow> if stored then ret () else throw (Sentinel ErrUnauthorized))
     | None \<Rightarrow> claim_local key))"

text \<open>
  \<open>jwt.ParseWithClaims\<close> as the code calls it: decode, check the method, look the key up, check the
  signature, then validate the claims. Its errors only matter by the one sentinel they can carry.
\<close>

definition parse_token :: "jwt_lib \<Rightarrow> string \<Rightarrow> launch_claims vprog" where
  "parse_token J token =
     (case jw_parse J token of
        None \<Rightarrow> throw (Plain ''token is malformed'')
      | Some (alg, kid, c) \<Rightarrow>
          if alg \<noteq> ''RS256'' then throw (Plain ''token signature is invalid: signing method is invalid'')
          else bind (on_err (Wrapped ''token is unverifiable: error while executing keyfunc'')
              (if kid = [] then throw (Plain ''lti13: token kid is required'') else public_key kid)) (\<lambda>key.
            if \<not> jw_signed J token key then throw (Plain ''token signature is invalid'')
            else bind verifier_now (\<lambda>wall. bind (get_w (\<lambda>v. jw_valid J token (vf_client v) (vf_issuer v) wall)) (\<lambda>ok.
              if ok then ret c else throw (Plain ''token has invalid claims'')))))"

definition verify_launch :: "jwt_lib \<Rightarrow> string \<Rightarrow> string \<Rightarrow> string \<Rightarrow> lti_launch vprog" where
  "verify_launch J token state form_nonce =
     bind (get_w (\<lambda>v. v)) (\<lambda>v.
     if token = [] \<or> vf_issuer v = [] \<or> vf_client v = [] \<or> vf_jwks_url v = [] then throw (Sentinel ErrInvalidInput)
     else bind (on_err (\<lambda>e. if err_is e ErrLMSUnavailable then e else Wrapped ''lti13: verify token'' (Sentinel ErrUnauthorized))
         (parse_token J token)) (\<lambda>c.
       bind (on_err (\<lambda>_. Wrapped ''lti13: validate claims'' (Sentinel ErrUnauthorized)) (from_sum (validate_resource_link c))) (\<lambda>_.
       if lc_azp c \<noteq> [] \<and> lc_azp c \<noteq> vf_client v then throw (Sentinel ErrUnauthorized)
       else if form_nonce \<noteq> [] \<and> form_nonce \<noteq> lc_nonce c then throw (Sentinel ErrUnauthorized)
       else bind (claim_nonce J (lc_issuer c) (lc_nonce c)) (\<lambda>_.
         ret \<lparr>ll_iss = lc_issuer c, ll_sub = lc_subject c, ll_aud = lc_audience c, ll_email = lc_email c,
           ll_name = lc_name c, ll_course = lc_context_id c, ll_resource = lc_resource_id c, ll_roles = lc_roles c,
           ll_raw = [(''context_label'', lc_context_label c), (''context_title'', lc_context_title c),
             (''deployment_id'', lc_deployment c), (''lab_template_slug'', lc_template_slug c),
             (''resource_title'', lc_resource_title c), (''state'', state)]\<rparr>))))"

definition report_grade :: "unit vprog" where
  "report_grade = throw (unavailable ''lti13: AGS is not wired yet'')"

definition get_course_members :: "unit vprog" where
  "get_course_members = throw (unavailable ''lti13: NRPS is not wired yet'')"

section \<open>What the operations do\<close>

lemma map_of_map_put [simp]: "map_of (map_put k v m) i = (if i = k then Some v else map_of m i)"
proof -
  have "map_of (filter (\<lambda>(k', _). k' \<noteq> k) m) i = (if i = k then None else map_of m i)"
    by (induction m) auto
  then show ?thesis by (simp add: map_put_def)
qed

lemma map_of_map_puts:
  "map_of (foldr (\<lambda>(i, k). map_put i k) ks m) i = (case map_of ks i of None \<Rightarrow> map_of m i | Some k \<Rightarrow> Some k)"
  by (induction ks) auto

lemma parse_jwks_key:
  "parse_jwks js keys = Inr ks \<Longrightarrow> map_of ks i = Some k \<Longrightarrow>
     map_of keys i = Some k \<or> (\<exists>j \<in> set js. jk_kid j = i \<and> jwk_public_key j = Inr k)"
proof (induction js arbitrary: keys)
  case (Cons j js)
  then obtain k1 where k1: "jwk_public_key j = Inr k1" "parse_jwks js (map_put (jk_kid j) k1 keys) = Inr ks"
    by (auto split: sum.splits)
  from Cons.IH [OF k1(2) Cons.prems(2)] k1(1) show ?case by (auto split: if_splits)
qed simp

text \<open>A key of the platform: one it serves now, under its identifier.\<close>

definition served :: "verifier \<Rightarrow> string \<Rightarrow> rsa_key \<Rightarrow> bool" where
  "served v kid k \<longleftrightarrow> (\<exists>status js. vf_http v (vf_fetches v) = Response status (Some js) \<and> 200 \<le> status \<and> status \<le> 299 \<and>
     (\<exists>j \<in> set js. jk_kid j = kid \<and> jwk_public_key j = Inr k))"

text \<open>Everything but the caches and the counters stays.\<close>

definition same_config :: "verifier \<Rightarrow> verifier \<Rightarrow> bool" where
  "same_config v v' \<longleftrightarrow> vf_issuer v' = vf_issuer v \<and> vf_client v' = vf_client v \<and> vf_jwks_url v' = vf_jwks_url v \<and>
     vf_ttl v' = vf_ttl v \<and> vf_clock v' = vf_clock v \<and> vf_http v' = vf_http v \<and> vf_redis v' = vf_redis v"

lemma public_key_run:
  assumes "public_key kid v = (r, v')"
  shows "same_config v v' \<and> vf_seen v' = vf_seen v \<and> vf_tick v' = vf_tick v \<and>
    (\<forall>k. r = Inr k \<longrightarrow> map_of (vf_keys v) kid = Some k \<or> served v kid k)"
proof (cases "map_of (vf_keys v) kid")
  case (Some k)
  with assms show ?thesis by (auto simp: public_key_def bind_def get_w_def ret_def same_config_def)
next
  case None
  obtain fr v1 where f: "fetch_jwks v = (fr, v1)" by fastforce
  then have v1: "v1 = v\<lparr>vf_fetches := Suc (vf_fetches v)\<rparr>" by (simp add: fetch_jwks_def Let_def)
  show ?thesis
  proof (cases fr)
    case (Inl e)
    with assms None f v1 show ?thesis by (auto simp: public_key_def bind_def get_w_def same_config_def)
  next
    case (Inr keys)
    with f obtain status js where http: "vf_http v (vf_fetches v) = Response status (Some js)" "200 \<le> status" "status \<le> 299"
      "parse_jwks js [] = Inr keys"
      by (auto simp: fetch_jwks_def Let_def split: jwks_reply.splits option.splits if_splits)
    have key: "served v kid k" if "map_of keys kid = Some k" for k
      using parse_jwks_key [OF http(4) that] http(1-3) by (auto simp: served_def)
    from assms None f Inr v1 key show ?thesis
      by (auto simp: public_key_def bind_def get_w_def upd_w_def ret_def throw_def same_config_def map_of_map_puts
          split: option.splits)
  qed
qed

lemma parse_token_run:
  assumes "parse_token J token v = (r, v')"
  shows "same_config v v' \<and> vf_seen v' = vf_seen v \<and> vf_tick v \<le> vf_tick v' \<and>
    (\<forall>c. r = Inr c \<longrightarrow> (\<exists>kid k wall. jw_parse J token = Some (''RS256'', kid, c) \<and> kid \<noteq> [] \<and>
       (map_of (vf_keys v) kid = Some k \<or> served v kid k) \<and> jw_signed J token k \<and>
       jw_valid J token (vf_client v) (vf_issuer v) wall))"
proof (cases "jw_parse J token")
  case None
  with assms show ?thesis by (auto simp: parse_token_def throw_def same_config_def)
next
  case (Some x)
  obtain alg kid c where x: "x = (alg, kid, c)" by (cases x)
  show ?thesis
  proof (cases "alg \<noteq> ''RS256'' \<or> kid = []")
    case True
    with assms Some x show ?thesis
      by (auto simp: parse_token_def throw_def bind_def on_err_def same_config_def split: if_splits)
  next
    case False
    obtain pr v1 where p: "public_key kid v = (pr, v1)" by fastforce
    note pk = public_key_run [OF p]
    show ?thesis
    proof (cases pr)
      case (Inl e)
      with assms Some x False p pk show ?thesis by (auto simp: parse_token_def bind_def on_err_def)
    next
      case (Inr k)
      with assms Some x False p pk show ?thesis
        by (auto simp: parse_token_def bind_def on_err_def throw_def verifier_now_def get_w_def ret_def same_config_def
            split: if_splits)
    qed
  qed
qed

text \<open>A claim of a nonce in memory.\<close>

lemma map_of_filter_kept: "map_of m k = Some e \<Longrightarrow> P (k, e) \<Longrightarrow> map_of (filter P m) k = Some e"
  by (induction m) (auto split: if_splits)

lemma claim_local_run:
  assumes "claim_local key v = (r, v')"
  shows "same_config v v' \<and> vf_tick v' = Suc (vf_tick v) \<and>
    (r = Inr () \<longrightarrow> map_of (vf_seen v') key = Some (vf_clock v (vf_tick v) + vf_ttl v)) \<and>
    (\<forall>k e. map_of (vf_seen v) k = Some e \<longrightarrow> vf_clock v (vf_tick v) < e \<longrightarrow>
       map_of (vf_seen v') k = Some e \<and> (k = key \<longrightarrow> r = Inl (Sentinel ErrUnauthorized)))"
proof -
  let ?now = "vf_clock v (vf_tick v)"
  let ?seen = "filter (\<lambda>(_, e). ?now < e) (vf_seen v)"
  have kept: "map_of ?seen k = Some e" if "map_of (vf_seen v) k = Some e" "?now < e" for k e
    by (rule map_of_filter_kept [OF that(1)]) (use that(2) in simp)
  have run: "(r, v') = (if (case map_of ?seen key of None \<Rightarrow> False | Some e \<Rightarrow> ?now < e)
      then (Inl (Sentinel ErrUnauthorized), v\<lparr>vf_tick := Suc (vf_tick v), vf_seen := ?seen\<rparr>)
      else (Inr (), v\<lparr>vf_tick := Suc (vf_tick v), vf_seen := map_put key (?now + vf_ttl v) ?seen\<rparr>))"
    using assms by (auto simp: claim_local_def bind_def verifier_now_def upd_w_def get_w_def throw_def split: option.splits)
  show ?thesis
  proof (cases "case map_of ?seen key of None \<Rightarrow> False | Some e \<Rightarrow> ?now < e")
    case True
    with run kept show ?thesis by (auto simp: same_config_def)
  next
    case False
    with run have v': "r = Inr ()" "v' = v\<lparr>vf_tick := Suc (vf_tick v), vf_seen := map_put key (?now + vf_ttl v) ?seen\<rparr>"
      by auto
    have "k \<noteq> key" if "map_of (vf_seen v) k = Some e" "?now < e" for k e
      using False kept [OF that] that(2) by auto
    with v' kept show ?thesis by (auto simp: same_config_def)
  qed
qed

text \<open>A launch: what it keeps, and what a verified one rests on.\<close>

lemma verify_launch_run:
  assumes "verify_launch J token state fn v = (r, v')" "vf_redis v = None"
  shows "same_config v v' \<and> vf_tick v \<le> vf_tick v' \<and>
    (\<forall>k e. map_of (vf_seen v) k = Some e \<longrightarrow> (\<forall>n < vf_tick v'. vf_clock v n < e) \<longrightarrow> map_of (vf_seen v') k = Some e \<and>
       (\<forall>alg kid c. jw_parse J token = Some (alg, kid, c) \<longrightarrow> nonce_key J (lc_issuer c) (lc_nonce c) = k \<longrightarrow> r \<noteq> Inr ll)) \<and>
    (r = Inr ll \<longrightarrow> (\<exists>alg kid c. jw_parse J token = Some (alg, kid, c) \<and> vf_tick v' \<noteq> 0 \<and>
       map_of (vf_seen v') (nonce_key J (lc_issuer c) (lc_nonce c)) = Some (vf_clock v (vf_tick v' - 1) + vf_ttl v)))"
proof (cases "token = [] \<or> vf_issuer v = [] \<or> vf_client v = [] \<or> vf_jwks_url v = []")
  case True
  with assms(1) show ?thesis by (auto simp: verify_launch_def bind_def get_w_def throw_def same_config_def)
next
  case False
  obtain pr v1 where p: "parse_token J token v = (pr, v1)" by fastforce
  note pt = parse_token_run [OF p]
  show ?thesis
  proof (cases pr)
    case (Inl e)
    with assms(1) False p pt show ?thesis by (auto simp: verify_launch_def bind_def get_w_def on_err_def)
  next
    case (Inr c)
    show ?thesis
    proof (cases "validate_resource_link c = Inr () \<and> (lc_azp c = [] \<or> lc_azp c = vf_client v) \<and> (fn = [] \<or> fn = lc_nonce c)")
      case False2: False
      with assms(1) False p pt Inr show ?thesis
        by (cases "validate_resource_link c")
          (auto simp: verify_launch_def bind_def get_w_def on_err_def from_sum_def throw_def split: if_splits)
    next
      case True
      let ?key = "nonce_key J (lc_issuer c) (lc_nonce c)"
      obtain cr v2 where cl: "claim_local ?key v1 = (cr, v2)" by fastforce
      have redis: "vf_redis v1 = None" using pt assms(2) by (simp add: same_config_def)
      from assms(1) False p Inr True cl redis have v': "v' = v2" "(\<exists>l. r = Inr l) \<longleftrightarrow> cr = Inr ()"
        by (auto simp: verify_launch_def claim_nonce_def bind_def get_w_def on_err_def from_sum_def ret_def Let_def
            split: sum.splits)
      note cr = claim_local_run [OF cl]
      from pt Inr obtain kid where tok: "jw_parse J token = Some (''RS256'', kid, c)" by auto
      have config: "same_config v v2" using pt cr by (simp add: same_config_def)
      from pt cr have clock: "vf_clock v1 = vf_clock v" "vf_ttl v1 = vf_ttl v" "vf_seen v1 = vf_seen v"
        "vf_tick v \<le> vf_tick v1" "vf_tick v2 = Suc (vf_tick v1)"
        by (auto simp: same_config_def)
      show ?thesis using config clock cr tok v' by auto
    qed
  qed
qed

section \<open>Properties\<close>


text \<open>A library that takes the text ''ok'' for a token of the sample platform.\<close>

definition sample_claims :: launch_claims where
  "sample_claims = \<lparr>lc_issuer = ''moodle'', lc_subject = ''u1'', lc_audience = [''clg''], lc_azp = [], lc_nonce = ''n1'',
     lc_deployment = ''d'', lc_message_type = ''LtiResourceLinkRequest'', lc_version = ''1.3.0'',
     lc_roles = [''membership#Instructor''], lc_context_id = ''linux-101'', lc_context_label = [],
     lc_context_title = ''Linux'', lc_resource_id = ''r'', lc_resource_title = [], lc_template_slug = [],
     lc_email = ''t@example.test'', lc_name = ''Teacher''\<rparr>"

definition sample_jwt :: jwt_lib where
  "sample_jwt = \<lparr>jw_parse = (\<lambda>t. if t = ''ok'' then Some (''RS256'', ''k1'', sample_claims) else None),
     jw_signed = (\<lambda>_ k. rk_e k = 65537), jw_valid = (\<lambda>_ _ _ _. True), sha256_hex = id\<rparr>"

definition sample_verifier :: verifier where
  "sample_verifier = new_verifier ''moodle'' ''clg'' ''https://lms/jwks'' 0 int
     (\<lambda>_. Response 200 (Some [\<lparr>jk_kty = ''RSA'', jk_use = ''sig'', jk_kid = ''k1'', jk_alg = ''RS256'', jk_n = ''AQAB'',
        jk_e = ''AQAB''\<rparr>])) None"

lemma sample_launch: "case verify_launch sample_jwt ''ok'' ''s'' [] sample_verifier of (Inl _, _) \<Rightarrow> False | (Inr l, v) \<Rightarrow> vf_tick v = 2"
  by code_simp


text \<open>Launches one after the other, with their tokens, states and form nonces.\<close>

fun launches :: "jwt_lib \<Rightarrow> (string \<times> string \<times> string) list \<Rightarrow> verifier \<Rightarrow> verifier" where
  "launches J [] v = v"
| "launches J ((token, state, fn) # ls) v = launches J ls (snd (verify_launch J token state fn v))"

lemma launches_keep:
  "vf_redis v = None \<Longrightarrow> same_config v (launches J ls v) \<and> vf_tick v \<le> vf_tick (launches J ls v) \<and>
    (\<forall>k e. map_of (vf_seen v) k = Some e \<longrightarrow> (\<forall>n < vf_tick (launches J ls v). vf_clock v n < e) \<longrightarrow>
       map_of (vf_seen (launches J ls v)) k = Some e)"
proof (induction ls arbitrary: v)
  case Nil
  then show ?case by (simp add: same_config_def)
next
  case (Cons l ls)
  obtain token state fn where l: "l = (token, state, fn)" by (cases l)
  obtain r v1 where run: "verify_launch J token state fn v = (r, v1)" by fastforce
  note 1 = verify_launch_run [OF run Cons.prems]
  then have "vf_redis v1 = None" "vf_clock v1 = vf_clock v" using Cons.prems by (auto simp: same_config_def)
  note 2 = Cons.IH [OF this(1)]
  have eq: "launches J (l # ls) v = launches J ls v1" by (simp add: l run)
  have "map_of (vf_seen (launches J ls v1)) k = Some e"
    if "map_of (vf_seen v) k = Some e" "\<forall>n < vf_tick (launches J ls v1). vf_clock v n < e" for k e
  proof -
    have "\<forall>n < vf_tick v1. vf_clock v n < e" using that(2) 2 by auto
    with 1 that(1) have "map_of (vf_seen v1) k = Some e" by blast
    with 2 that(2) \<open>vf_clock v1 = vf_clock v\<close> show ?thesis by simp
  qed
  moreover have "same_config v (launches J ls v1)" using 1 2 by (simp add: same_config_def)
  moreover have "vf_tick v \<le> vf_tick v1" using 1 by blast
  then have "vf_tick v \<le> vf_tick (launches J ls v1)" using 2 by linarith
  ultimately show ?case unfolding eq by blast
qed

text \<open>
  C15: no replay. A verifier without Redis that has verified a launch refuses every further token
  with the same issuer and nonce, whatever launches come in between and however they end, as long
  as its clock reads less than the time to live after the claim of the nonce.
\<close>
theorem nonce_no_replay:
  assumes "verify_launch J token state fn v = (Inr ll, v1)" "vf_redis v = None"
    "jw_parse J token = Some (alg, kid, c)" "jw_parse J token' = Some (alg', kid', c')"
    "lc_issuer c' = lc_issuer c" "lc_nonce c' = lc_nonce c"
    "verify_launch J token' state' fn' (launches J ls v1) = (r, v3)"
    "\<And>n. n < vf_tick v3 \<Longrightarrow> vf_clock v n < vf_clock v (vf_tick v1 - 1) + vf_ttl v"
  shows "\<exists>e. r = Inl e"
proof -
  let ?key = "nonce_key J (lc_issuer c) (lc_nonce c)" and ?e = "vf_clock v (vf_tick v1 - 1) + vf_ttl v"
  from verify_launch_run [OF assms(1,2), of ll] assms(3)
  have 1: "same_config v v1" "map_of (vf_seen v1) ?key = Some ?e" by auto
  then have redis1: "vf_redis v1 = None" and c1: "vf_clock v1 = vf_clock v" using assms(2) by (simp_all add: same_config_def)
  note 2 = launches_keep [OF redis1, of J ls]
  then have redis2: "vf_redis (launches J ls v1) = None" and c2: "vf_clock (launches J ls v1) = vf_clock v"
    using redis1 c1 by (simp_all add: same_config_def)
  note 3 = verify_launch_run [OF assms(7) redis2]
  have le: "vf_tick (launches J ls v1) \<le> vf_tick v3" using 3 by blast
  have "\<forall>n < vf_tick (launches J ls v1). vf_clock v1 n < ?e"
    unfolding c1 using assms(8) le less_le_trans by blast
  with 2 1(2) have seen: "map_of (vf_seen (launches J ls v1)) ?key = Some ?e" by blast
  have "\<forall>n < vf_tick v3. vf_clock (launches J ls v1) n < ?e" unfolding c2 using assms(8) by blast
  with 3 seen assms(4) have "nonce_key J (lc_issuer c') (lc_nonce c') = ?key \<longrightarrow> r \<noteq> Inr ll'" for ll' by blast
  then show ?thesis unfolding assms(5,6) by (cases r) auto
qed

lemma nonce_no_replay_witness:
  "\<exists>e. fst (verify_launch sample_jwt ''ok'' ''s'' [] (snd (verify_launch sample_jwt ''ok'' ''s'' [] sample_verifier))) = Inl e"
proof -
  obtain ll v1 where 1: "verify_launch sample_jwt ''ok'' ''s'' [] sample_verifier = (Inr ll, v1)" and t1: "vf_tick v1 = 2"
    using sample_launch by (auto split: prod.splits sum.splits)
  obtain r v3 where 3: "verify_launch sample_jwt ''ok'' ''s'' [] (launches sample_jwt [] v1) = (r, v3)" by fastforce
  have "vf_tick (snd (verify_launch sample_jwt ''ok'' ''s'' [] (snd (verify_launch sample_jwt ''ok'' ''s'' [] sample_verifier)))) = 4"
    by code_simp
  then have t3: "vf_tick v3 = 4" using 1 3 by simp
  have p: "jw_parse sample_jwt ''ok'' = Some (''RS256'', ''k1'', sample_claims)" by (simp add: sample_jwt_def)
  have c: "vf_redis sample_verifier = None" "vf_clock sample_verifier = int" "vf_ttl sample_verifier = 600000000000"
    by (simp_all add: sample_verifier_def new_verifier_def default_nonce_ttl_def second_def)
  have "vf_clock sample_verifier n < vf_clock sample_verifier (vf_tick v1 - 1) + vf_ttl sample_verifier" if "n < vf_tick v3" for n
  proof -
    have "int n < 4" using that t3 by linarith
    then show ?thesis unfolding c by linarith
  qed
  from nonce_no_replay [OF 1 c(1) p p refl refl 3 this] have "\<exists>e. r = Inl e" .
  with 1 3 show ?thesis by simp
qed

end
