(* ===== verification/MoodleApp.thy ===== *)
theory MoodleApp
  imports LtiVerifier IdentityStore
begin

text \<open>
  \<open>internal/app/moodle\<close>: a launch from the LMS signs a user in. The launch is verified, its roles
  decide the user's, and one transaction writes the user, the course and the enrollment. The
  external state of this use case is the verifier's.
\<close>

section \<open>Roles\<close>

text \<open>
  \<open>strings.ToLower\<close> as far as a search for an ASCII word can tell: ASCII letters, and the two
  letters outside ASCII whose lower case is in it, U+0130 and U+212A.
\<close>

fun lower_text :: "string \<Rightarrow> string" where
  "lower_text (a # b # c # s) =
     (if a = CHR 0xC4 \<and> b = CHR 0xB0 then CHR ''i'' # lower_text (c # s)
      else if a = CHR 0xE2 \<and> b = CHR 0x84 \<and> c = CHR 0xAA then CHR ''k'' # lower_text s
      else ascii_lower [a] @ lower_text (b # c # s))"
| "lower_text [a, b] = (if a = CHR 0xC4 \<and> b = CHR 0xB0 then ''i'' else ascii_lower [a, b])"
| "lower_text s = ascii_lower s"

fun has_prefix :: "string \<Rightarrow> string \<Rightarrow> bool" where
  "has_prefix [] s = True"
| "has_prefix (a # p) [] = False"
| "has_prefix (a # p) (c # s) = (a = c \<and> has_prefix p s)"

fun contains :: "string \<Rightarrow> string \<Rightarrow> bool" where
  "contains sub [] = has_prefix sub []"
| "contains sub (c # s) = (has_prefix sub (c # s) \<or> contains sub s)"

text \<open>\<open>None\<close> stands for the two empty roles.\<close>

definition roles_from_launch :: "string list \<Rightarrow> (role \<times> course_role) option" where
  "roles_from_launch roles =
     (if \<exists>r \<in> set roles. contains ''instructor'' (lower_text r) \<or> contains ''teacher'' (lower_text r)
      then Some (RoleTeacher, CourseRoleTeacher)
      else if \<exists>r \<in> set roles. contains ''learner'' (lower_text r) then Some (RoleStudent, CourseRoleLearner)
      else None)"

definition redirect_for_role :: "role \<Rightarrow> string" where
  "redirect_for_role r = (case r of RoleTeacher \<Rightarrow> ''/teacher'' | RoleAdmin \<Rightarrow> ''/admin'' | _ \<Rightarrow> ''/student'')"

section \<open>The launch\<close>

record launch_input =
  li_token :: string
  li_state :: string
  li_nonce :: string

record launch_result =
  lu_user :: user
  lu_course_roles :: "(course_id \<times> course_role) list"
  lu_redirect :: string

definition persist_launch :: "lti_launch \<Rightarrow> role \<Rightarrow> course_role \<Rightarrow> (verifier, user) prog" where
  "persist_launch ll global in_course =
     bind (user_upsert_from_launch (ll_iss ll) (ll_sub ll) (ll_name ll) (ll_email ll) global) (\<lambda>u.
     bind clock_now (\<lambda>now.
     let title = (case map_of (ll_raw ll) ''context_title'' of Some t \<Rightarrow> t | None \<Rightarrow> []) in
     bind (course_upsert \<lparr>co_id = 0, co_external_id = ll_course ll,
         co_name = (if title \<noteq> [] then title else ll_course ll), co_ki_domain = ll_course ll, co_created_at = now\<rparr>) (\<lambda>c.
     bind clock_now (\<lambda>now.
     bind (course_enroll \<lparr>en_user = us_id u, en_course = co_id c, en_role = in_course, en_created_at = now\<rparr>) (\<lambda>_.
     ret u)))))"

definition handle_launch :: "jwt_lib \<Rightarrow> launch_input \<Rightarrow> (verifier, launch_result) prog" where
  "handle_launch J inp =
     (if li_token inp = [] then throw (Sentinel ErrInvalidInput)
      else bind (on_err (Wrapped ''moodle: verify launch'')
          (on_cloud (verify_launch J (li_token inp) (li_state inp) (li_nonce inp)))) (\<lambda>ll.
        case roles_from_launch (ll_roles ll) of
          None \<Rightarrow> throw (Sentinel ErrForbidden)
        | Some (global, in_course) \<Rightarrow>
            bind (on_err (Wrapped ''moodle: persist launch'') (with_tx (persist_launch ll global in_course))) (\<lambda>u.
            bind (user_get_course_roles (us_id u)) (\<lambda>roles.
            ret \<lparr>lu_user = u, lu_course_roles = roles, lu_redirect = redirect_for_role global\<rparr>))))"

section \<open>What is written\<close>

lemma tx_query_InrD: "tx_query f w = (Inr x, w') \<Longrightarrow> x = f (w_db w) \<and> w_db w' = w_db w \<and> \<not> w_aborted w"
  unfolding tx_query_def by (auto dest!: tx_stmt_InrD)

lemma user_updated:
  assumes "get_user_by_lti_row iss sub d = Some old" "update_user_from_launch (uw_id old) name email r t d = Inr (Some row, d')"
  shows "get_user_by_lti_row iss sub d' = Some row \<and> uw_role row = r \<and> uw_display_name row = name \<and>
    t_courses d' = t_courses d \<and> t_enrollments d' = t_enrollments d"
proof -
  from assms(1) obtain l where l: "find_row (\<lambda>l. (li_iss l, li_sub l)) (iss, sub) (t_lti d) = Some l" "get_user_row (li_user l) d = Some old"
    by (auto simp: get_user_by_lti_row_def split: option.splits)
  from l(2) have id: "uw_id old = li_user l" using find_row_SomeD by (fastforce simp: get_user_row_def)
  from assms(2) l(2) id have row: "row = old\<lparr>uw_display_name := name, uw_email := email, uw_role := r\<rparr>"
    "d' = d\<lparr>t_users := put_row uw_id row (t_users d)\<rparr>"
    by (auto simp: update_user_from_launch_def Let_def split: if_splits)
  have "find_row uw_id (uw_id row) (put_row uw_id row (t_users d)) = Some row"
    by (rule find_row_put_same) (use l(2) id row(1) in \<open>simp add: get_user_row_def\<close>)
  with l(1) id row show ?thesis by (simp add: get_user_by_lti_row_def get_user_row_def)
qed

lemma lti_upserted:
  assumes "upsert_lti_identity i iss sub t d = Inr ((), d')"
  shows "(\<exists>l. find_row (\<lambda>l. (li_iss l, li_sub l)) (iss, sub) (t_lti d') = Some l \<and> li_user l = i) \<and>
    t_users d' = t_users d \<and> t_courses d' = t_courses d \<and> t_enrollments d' = t_enrollments d"
proof (cases "find_row (\<lambda>l. (li_iss l, li_sub l)) (iss, sub) (t_lti d)")
  case None
  with assms show ?thesis by (auto simp: upsert_lti_identity_def find_row_append)
next
  case (Some l)
  then have k: "(li_iss l, li_sub l) = (iss, sub)" using find_row_SomeD by fastforce
  have "find_row (\<lambda>l. (li_iss l, li_sub l)) (li_iss (l\<lparr>li_user := i\<rparr>), li_sub (l\<lparr>li_user := i\<rparr>))
      (put_row (\<lambda>l. (li_iss l, li_sub l)) (l\<lparr>li_user := i\<rparr>) (t_lti d)) = Some (l\<lparr>li_user := i\<rparr>)"
    by (rule find_row_put_same) (use Some k in simp)
  with assms Some k show ?thesis by (auto simp: upsert_lti_identity_def)
qed

lemma user_inserted:
  assumes "insert_user_from_launch i name email r t d = Inr (row, d')" "upsert_lti_identity (uw_id row) iss sub t2 d' = Inr ((), d2)"
  shows "get_user_by_lti_row iss sub d2 = Some row \<and> uw_role row = r \<and> uw_display_name row = name \<and>
    t_courses d2 = t_courses d \<and> t_enrollments d2 = t_enrollments d"
proof -
  from assms(1) have row: "uw_id row = i" "uw_role row = r" "uw_display_name row = name" "i \<notin> uw_id ` set (t_users d)"
    "d' = d\<lparr>t_users := t_users d @ [row]\<rparr>"
    by (auto simp: insert_user_from_launch_def Let_def split: if_splits)
  have "find_row uw_id i (t_users d) = None" using row(4) by (simp add: find_row_None_iff)
  with row have "find_row uw_id i (t_users d') = Some row" by (simp add: find_row_append)
  with lti_upserted [OF assms(2)] row show ?thesis by (auto simp: get_user_by_lti_row_def get_user_row_def)
qed

lemma user_upsert_InrD:
  assumes "user_upsert_from_launch iss sub name email r w = (Inr u, w')"
  shows "\<exists>row. get_user_by_lti_row iss sub (w_db w') = Some row \<and> u = user_from_row row \<and> uw_role row = r \<and>
    uw_display_name row = name \<and> t_courses (w_db w') = t_courses (w_db w) \<and> t_enrollments (w_db w') = t_enrollments (w_db w)"
proof -
  obtain fr w1 where q: "one_row (tx_query (get_user_by_lti_row iss sub)) w = (fr, w1)" by fastforce
  show ?thesis
  proof (cases fr)
    case (Inr old)
    from one_row_InrD [OF q [unfolded Inr]] have old: "get_user_by_lti_row iss sub (w_db w) = Some old" "w_db w1 = w_db w"
      by (auto dest!: tx_query_InrD)
    have "bind (on_err (Wrapped ''pgxrepo: update user from launch'') (one_row (tx_stmt
        (update_user_from_launch (uw_id old) name (nullable_string email) r)))) (\<lambda>row. ret (user_from_row row)) w1 = (Inr u, w')"
      using assms q Inr
      by (simp add: user_upsert_from_launch_def bind_unfold [of "attempt m" for m] attempt_unfold throw_def split: if_splits)
    from bind_InrD [OF this] obtain row where upd: "tx_stmt (update_user_from_launch (uw_id old) name (nullable_string email) r) w1 = (Inr (Some row), w')"
      "u = user_from_row row"
      by (auto simp: ret_def dest!: on_err_InrD one_row_InrD)
    from tx_stmt_InrD [OF upd(1)] user_updated [OF old(1)] old(2) upd(2) show ?thesis by fastforce
  next
    case (Inl e)
    have "bind new_uuid (\<lambda>i. bind (on_err (Wrapped ''pgxrepo: insert user from launch'') (tx_stmt
              (insert_user_from_launch i name (nullable_string email) r))) (\<lambda>row.
            bind (on_err (Wrapped ''pgxrepo: upsert lti identity'') (tx_stmt
              (upsert_lti_identity (uw_id row) iss sub))) (\<lambda>_. ret (user_from_row row)))) w1 = (Inr u, w')"
      using assms q Inl
      by (simp add: user_upsert_from_launch_def bind_unfold [of "attempt m" for m] attempt_unfold throw_def split: if_splits)
    from bind_InrD [OF this] obtain i w2 row w3 where ins: "tx_stmt (insert_user_from_launch i name (nullable_string email) r) w2 = (Inr row, w3)"
      and lti: "tx_stmt (upsert_lti_identity (uw_id row) iss sub) w3 = (Inr (), w')" and u: "u = user_from_row row"
      and w2: "w_db w2 = w_db w1"
      by (auto simp: ret_def new_uuid_def dest!: bind_InrD on_err_InrD)
    have w1: "w_db w1 = w_db w"
      using q Inl by (auto simp: one_row_def bind_def tx_query_def tx_stmt_def throw_def ret_def Let_def
          split: if_splits option.splits)
    from tx_stmt_InrD [OF ins] tx_stmt_InrD [OF lti] user_inserted w1 w2 u show ?thesis by fastforce
  qed
qed

lemma course_upsert_InrD:
  assumes "course_upsert c w = (Inr c', w')"
  shows "(\<exists>row. get_course_by_external_row (co_external_id c) (w_db w') = Some row \<and> co_id row = co_id c' \<and>
      co_name row = co_name c \<and> co_ki_domain row = co_ki_domain c) \<and>
    t_users (w_db w') = t_users (w_db w) \<and> t_lti (w_db w') = t_lti (w_db w)"
proof -
  have "\<exists>i w1. w_db w1 = w_db w \<and> (\<exists>i'. c' = c\<lparr>co_id := i'\<rparr> \<and>
      tx_stmt (upsert_course i (co_external_id c) (co_name c) (co_ki_domain c) (nullable_time_arg (co_created_at c))) w1 = (Inr i', w'))"
  proof -
    from bind_InrD [OF assms [unfolded course_upsert_def]] obtain i w1 where
      i: "(if co_id c = 0 then new_uuid else ret (co_id c)) w = (Inr i, w1)"
      and rest: "bind (on_err (Wrapped ''pgxrepo: upsert course'') (tx_stmt
         (upsert_course i (co_external_id c) (co_name c) (co_ki_domain c) (nullable_time_arg (co_created_at c)))))
         (\<lambda>i'. ret (c\<lparr>co_id := i'\<rparr>)) w1 = (Inr c', w')" by blast
    from i have "w_db w1 = w_db w" by (auto simp: ret_def new_uuid_def split: if_splits)
    with rest show ?thesis by (auto simp: ret_def dest!: bind_InrD on_err_InrD)
  qed
  then obtain i w1 i' where w1: "w_db w1 = w_db w" and c': "c' = c\<lparr>co_id := i'\<rparr>"
    and up: "tx_stmt (upsert_course i (co_external_id c) (co_name c) (co_ki_domain c) (nullable_time_arg (co_created_at c))) w1 = (Inr i', w')"
    by blast
  from tx_stmt_InrD [OF up] w1 obtain t d where
    d: "upsert_course i (co_external_id c) (co_name c) (co_ki_domain c) (nullable_time_arg (co_created_at c)) t (w_db w) = Inr (i', d)"
    and w': "w_db w' = d" by auto
  show ?thesis
  proof (cases "get_course_by_external_row (co_external_id c) (w_db w)")
    case None
    with d c' show ?thesis unfolding w'
      by (auto simp: upsert_course_def get_course_by_external_row_def find_row_append split: if_splits)
  next
    case (Some old)
    then have k: "co_external_id old = co_external_id c" using find_row_SomeD by (fastforce simp: get_course_by_external_row_def)
    let ?row = "old\<lparr>co_name := co_name c, co_ki_domain := co_ki_domain c\<rparr>"
    have "find_row co_external_id (co_external_id ?row) (put_row co_external_id ?row (t_courses (w_db w))) = Some ?row"
      by (rule find_row_put_same) (use Some k in \<open>simp add: get_course_by_external_row_def\<close>)
    with d Some c' k show ?thesis unfolding w' by (auto simp: upsert_course_def get_course_by_external_row_def)
  qed
qed

lemma course_enroll_InrD:
  assumes "course_enroll e w = (Inr (), w')"
  shows "(\<exists>x. find_row enrollment_key (en_user e, en_course e) (t_enrollments (w_db w')) = Some x \<and> en_role x = en_role e) \<and>
    t_users (w_db w') = t_users (w_db w) \<and> t_lti (w_db w') = t_lti (w_db w) \<and> t_courses (w_db w') = t_courses (w_db w)"
proof -
  from on_err_InrD [OF assms [unfolded course_enroll_def]] obtain t d
    where d: "enroll_course_user (en_user e) (en_course e) (en_role e) (nullable_time_arg (en_created_at e)) t (w_db w) = Inr ((), d)"
      "w_db w' = d" by (auto dest!: tx_stmt_InrD)
  show ?thesis
  proof (cases "find_row enrollment_key (en_user e, en_course e) (t_enrollments (w_db w))")
    case None
    with d(1) show ?thesis unfolding d(2)
      by (auto simp: enroll_course_user_def find_row_append enrollment_key_def split: if_splits)
  next
    case (Some x)
    then have k: "enrollment_key x = (en_user e, en_course e)" using find_row_SomeD by fastforce
    have "find_row enrollment_key (enrollment_key (x\<lparr>en_role := en_role e\<rparr>))
        (put_row enrollment_key (x\<lparr>en_role := en_role e\<rparr>) (t_enrollments (w_db w))) = Some (x\<lparr>en_role := en_role e\<rparr>)"
      by (rule find_row_put_same) (use Some k in \<open>simp add: enrollment_key_def\<close>)
    with d(1) Some k show ?thesis unfolding d(2) by (auto simp: enroll_course_user_def enrollment_key_def split: if_splits)
  qed
qed

text \<open>The state after a launch that was persisted.\<close>

definition signed_in :: "lti_launch \<Rightarrow> role \<Rightarrow> course_role \<Rightarrow> user \<Rightarrow> db \<Rightarrow> bool" where
  "signed_in ll global in_course u d \<longleftrightarrow>
     (\<exists>row c e. get_user_by_lti_row (ll_iss ll) (ll_sub ll) d = Some row \<and> u = user_from_row row \<and> uw_role row = global \<and>
        uw_display_name row = ll_name ll \<and> get_course_by_external_row (ll_course ll) d = Some c \<and>
        find_row enrollment_key (us_id u, co_id c) (t_enrollments d) = Some e \<and> en_role e = in_course)"

lemma persist_launch_InrD:
  assumes "persist_launch ll global in_course w = (Inr u, w')"
  shows "signed_in ll global in_course u (w_db w')"
proof -
  from bind_InrD [OF assms [unfolded persist_launch_def]] obtain u1 w1 where
    up: "user_upsert_from_launch (ll_iss ll) (ll_sub ll) (ll_name ll) (ll_email ll) global w = (Inr u1, w1)"
    and rest: "bind clock_now (\<lambda>now.
     let title = (case map_of (ll_raw ll) ''context_title'' of Some t \<Rightarrow> t | None \<Rightarrow> []) in
     bind (course_upsert \<lparr>co_id = 0, co_external_id = ll_course ll,
         co_name = (if title \<noteq> [] then title else ll_course ll), co_ki_domain = ll_course ll, co_created_at = now\<rparr>) (\<lambda>c.
     bind clock_now (\<lambda>now.
     bind (course_enroll \<lparr>en_user = us_id u1, en_course = co_id c, en_role = in_course, en_created_at = now\<rparr>) (\<lambda>_.
     ret u1)))) w1 = (Inr u, w')" by blast
  from bind_InrD [OF rest] obtain now w2 where t2: "clock_now w1 = (Inr now, w2)" and
    rest2': "(let title = (case map_of (ll_raw ll) ''context_title'' of Some t \<Rightarrow> t | None \<Rightarrow> []) in
     bind (course_upsert \<lparr>co_id = 0, co_external_id = ll_course ll,
         co_name = (if title \<noteq> [] then title else ll_course ll), co_ki_domain = ll_course ll, co_created_at = now\<rparr>) (\<lambda>c.
     bind clock_now (\<lambda>now.
     bind (course_enroll \<lparr>en_user = us_id u1, en_course = co_id c, en_role = in_course, en_created_at = now\<rparr>) (\<lambda>_.
     ret u1)))) w2 = (Inr u, w')" by blast
  from t2 have w2: "w_db w2 = w_db w1" by (auto simp: clock_now_def)
  from rest2' obtain c0 where c0: "co_external_id c0 = ll_course ll" and
    rest2: "bind (course_upsert c0) (\<lambda>c. bind clock_now (\<lambda>now.
     bind (course_enroll \<lparr>en_user = us_id u1, en_course = co_id c, en_role = in_course, en_created_at = now\<rparr>) (\<lambda>_.
     ret u1))) w2 = (Inr u, w')" unfolding Let_def by (metis course.select_convs(2))
  from bind_InrD [OF rest2] obtain c w3 where co: "course_upsert c0 w2 = (Inr c, w3)"
    and rest3: "bind clock_now (\<lambda>now.
     bind (course_enroll \<lparr>en_user = us_id u1, en_course = co_id c, en_role = in_course, en_created_at = now\<rparr>) (\<lambda>_.
     ret u1)) w3 = (Inr u, w')" by blast
  from bind_InrD [OF rest3] obtain now3 w4 where t4: "clock_now w3 = (Inr now3, w4)" and
    rest4: "bind (course_enroll \<lparr>en_user = us_id u1, en_course = co_id c, en_role = in_course, en_created_at = now3\<rparr>)
      (\<lambda>_. ret u1) w4 = (Inr u, w')" by blast
  from t4 have w4: "w_db w4 = w_db w3" by (auto simp: clock_now_def)
  let ?e = "\<lparr>en_user = us_id u1, en_course = co_id c, en_role = in_course, en_created_at = now3\<rparr>"
  from bind_InrD [OF rest4] have en: "course_enroll ?e w4 = (Inr (), w')" and u: "u = u1" by (auto simp: ret_def)
  from user_upsert_InrD [OF up] obtain row where row: "get_user_by_lti_row (ll_iss ll) (ll_sub ll) (w_db w1) = Some row"
    "u1 = user_from_row row" "uw_role row = global" "uw_display_name row = ll_name ll" by blast
  note cu = course_upsert_InrD [OF co] and ce = course_enroll_InrD [OF en]
  have "get_user_by_lti_row (ll_iss ll) (ll_sub ll) (w_db w') = Some row"
    using row(1) cu ce w2 w4 by (auto simp: get_user_by_lti_row_def get_user_row_def split: option.splits)
  moreover obtain crow where "get_course_by_external_row (ll_course ll) (w_db w') = Some crow" "co_id crow = co_id c"
    using cu ce c0 w4 by (auto simp: get_course_by_external_row_def)
  moreover obtain x where "find_row enrollment_key (us_id u, co_id c) (t_enrollments (w_db w')) = Some x" "en_role x = in_course"
    using ce u by auto
  ultimately show ?thesis using row u unfolding signed_in_def by auto
qed

section \<open>Properties\<close>

text \<open>
  C37: a launch signs in whom the platform vouches for, and nobody else. When a launch succeeds, the
  verifier has accepted its token; the user row found under the issuer and subject of the launch
  has its name and the role of its roles, which is teacher or student and never administrator;
  the course of the launch exists and the user is enrolled in it with the role in the course; the
  session's roles include that one and the page is the role's. When the token is refused or has no
  known role, no table changes.
\<close>
theorem launch_signs_in:
  assumes "handle_launch J inp w = (res, w')" "w_snap w = None"
  shows "(\<forall>r. res = Inr r \<longrightarrow> (\<exists>ll v' global in_course c.
      verify_launch J (li_token inp) (li_state inp) (li_nonce inp) (w_cloud w) = (Inr ll, v') \<and>
      roles_from_launch (ll_roles ll) = Some (global, in_course) \<and> global \<in> {RoleTeacher, RoleStudent} \<and>
      signed_in ll global in_course (lu_user r) (w_db w') \<and>
      get_course_by_external_row (ll_course ll) (w_db w') = Some c \<and> (co_id c, in_course) \<in> set (lu_course_roles r) \<and>
      lu_redirect r = (if global = RoleTeacher then ''/teacher'' else ''/student''))) \<and>
    ((\<forall>ll v'. verify_launch J (li_token inp) (li_state inp) (li_nonce inp) (w_cloud w) = (Inr ll, v') \<longrightarrow>
       roles_from_launch (ll_roles ll) = None) \<longrightarrow> (\<exists>e. res = Inl e) \<and> w_db w' = w_db w)"
proof -
  obtain vr v1 where v: "verify_launch J (li_token inp) (li_state inp) (li_nonce inp) (w_cloud w) = (vr, v1)" by fastforce
  show ?thesis
  proof (cases "li_token inp \<noteq> [] \<and> (\<exists>ll x. vr = Inr ll \<and> roles_from_launch (ll_roles ll) = Some x)")
    case False
    with assms(1) v have "(\<exists>e. res = Inl e) \<and> w_db w' = w_db w"
      by (cases vr) (auto simp: handle_launch_def bind_def on_err_def on_cloud_def throw_def split: if_splits option.splits)
    then show ?thesis by auto
  next
    case True
    then obtain ll global in_course where ll: "vr = Inr ll" "roles_from_launch (ll_roles ll) = Some (global, in_course)" by auto
    have g: "global \<in> {RoleTeacher, RoleStudent}" using ll(2) by (auto simp: roles_from_launch_def split: if_splits)
    let ?rest = "bind (on_err (Wrapped ''moodle: persist launch'') (with_tx (persist_launch ll global in_course))) (\<lambda>u.
            bind (user_get_course_roles (us_id u)) (\<lambda>roles.
            ret \<lparr>lu_user = u, lu_course_roles = roles, lu_redirect = redirect_for_role global\<rparr>))"
    have run: "?rest (w\<lparr>w_cloud := v1\<rparr>) = (res, w')"
      using assms(1) v True ll by (simp add: handle_launch_def bind_unfold [of "on_err g (on_cloud f)" for g f] on_err_unfold on_cloud_def)
    have "\<exists>c. signed_in ll global in_course (lu_user r) (w_db w') \<and>
        get_course_by_external_row (ll_course ll) (w_db w') = Some c \<and> (co_id c, in_course) \<in> set (lu_course_roles r) \<and>
        lu_redirect r = redirect_for_role global" if r: "res = Inr r" for r
    proof -
      from bind_InrD [OF run [unfolded r]] obtain u w2 where p: "with_tx (persist_launch ll global in_course) (w\<lparr>w_cloud := v1\<rparr>) = (Inr u, w2)"
        and run2: "bind (user_get_course_roles (us_id u)) (\<lambda>roles.
            ret \<lparr>lu_user = u, lu_course_roles = roles, lu_redirect = redirect_for_role global\<rparr>) w2 = (Inr r, w')"
        by (auto dest!: on_err_InrD)
      from with_tx_InrD [OF p] obtain w3 where "persist_launch ll global in_course
          ((w\<lparr>w_cloud := v1\<rparr>)\<lparr>w_stmt := Suc (w_stmt w), w_snap := Some (w_db w), w_aborted := False\<rparr>) = (Inr u, w3)"
        "w_db w2 = w_db w3" "w_snap w2 = None" by auto
      with persist_launch_InrD have s: "signed_in ll global in_course u (w_db w2)" by fastforce
      from bind_InrD [OF run2] obtain roles where roles: "roles = list_course_roles (us_id u) (w_db w2)" "w_db w' = w_db w2"
        "r = \<lparr>lu_user = u, lu_course_roles = roles, lu_redirect = redirect_for_role global\<rparr>"
        using \<open>w_snap w2 = None\<close>
        by (auto simp: user_get_course_roles_def ret_def dest!: on_err_InrD conn_query_InrD)
      from s obtain c e where c: "get_course_by_external_row (ll_course ll) (w_db w2) = Some c"
        "find_row enrollment_key (us_id u, co_id c) (t_enrollments (w_db w2)) = Some e" "en_role e = in_course"
        by (auto simp: signed_in_def)
      from find_row_SomeD [OF c(2)] c(3) have "(co_id c, in_course) \<in> set roles"
        by (force simp: roles(1) list_course_roles_def enrollment_key_def)
      with s c(1) roles show ?thesis by auto
    qed
    moreover have "redirect_for_role global = (if global = RoleTeacher then ''/teacher'' else ''/student'')"
      using g by (auto simp: redirect_for_role_def)
    ultimately show ?thesis using v ll g by auto
  qed
qed

lemma launch_signs_in_witness:
  "\<exists>r w' ll. handle_launch sample_jwt \<lparr>li_token = ''ok'', li_state = ''s'', li_nonce = []\<rparr> (world_of sample_verifier empty_db) = (Inr r, w') \<and>
     signed_in ll RoleTeacher CourseRoleTeacher (lu_user r) (w_db w')"
proof -
  let ?inp = "\<lparr>li_token = ''ok'', li_state = ''s'', li_nonce = []\<rparr>"
  have "case handle_launch sample_jwt ?inp (world_of sample_verifier empty_db) of
      (Inl _, _) \<Rightarrow> False | (Inr r, _) \<Rightarrow> lu_redirect r = ''/teacher''" by code_simp
  then obtain r w' where run: "handle_launch sample_jwt ?inp (world_of sample_verifier empty_db) = (Inr r, w')"
    and page: "lu_redirect r = ''/teacher''" by (auto split: prod.splits sum.splits)
  from launch_signs_in [OF run] obtain ll global in_course where
    ll: "roles_from_launch (ll_roles ll) = Some (global, in_course)" "signed_in ll global in_course (lu_user r) (w_db w')"
    "lu_redirect r = (if global = RoleTeacher then ''/teacher'' else ''/student'')" by fastforce
  with page have "global = RoleTeacher" "in_course = CourseRoleTeacher"
    by (auto simp: roles_from_launch_def split: if_splits)
  with run ll(2) show ?thesis by blast
qed

end
