(* ===== verification/SseBroker.thy ===== *)
theory SseBroker
  imports LabStore "HOL-Library.Sublist"
begin

text \<open>
  \<open>internal/adapters/sse/broker.go\<close>: the broker that turns events of the bus into server-sent events
  for the browsers that may see them. Clients are numbered in the order in which they subscribe; the goroutines
  of the code, one for each topic and one for each client, are interleaved by the steps of
  \<open>sse_step\<close>, at the points where the code holds the mutex or uses a channel. The logger and the
  flushing of responses are left out. Numbers of a quota event stay exact.
\<close>

definition audience_all :: string where "audience_all = ''all''"
definition client_buffer_size :: nat where "client_buffer_size = 32"

definition event_topics :: "string list" where
  "event_topics = [''lab.state_changed'', ''lab.deploy_progress'', ''check.state_changed'', ''quota.snapshot'']"

record sse_event =
  ev_type :: string
  ev_data :: string
  ev_id :: string

section \<open>Projecting events\<close>

text \<open>\<open>encode\<close> is \<open>json.Marshal\<close>; the keys of the maps are in its order.\<close>

definition string_field :: "json \<Rightarrow> string \<Rightarrow> string" where
  "string_field raw key = (case json_field key raw of Some (JStr s) \<Rightarrow> s | _ \<Rightarrow> [])"

fun first_string :: "json \<Rightarrow> string list \<Rightarrow> string" where
  "first_string raw [] = []"
| "first_string raw (k # ks) = (if string_field raw k \<noteq> [] then string_field raw k else first_string raw ks)"

fun number_field :: "json \<Rightarrow> string list \<Rightarrow> json" where
  "number_field raw [] = JInt 0"
| "number_field raw (k # ks) = (case json_field k raw of
     Some (JInt n) \<Rightarrow> JInt n | Some (JRat q) \<Rightarrow> JRat q | _ \<Rightarrow> number_field raw ks)"

definition lab_id_from :: "lib \<Rightarrow> json \<Rightarrow> err + lab_id" where
  "lab_id_from L raw = (let i = first_string raw [''lab_id'', ''labId''] in
     if i = [] then Inl (Sentinel ErrInvalidInput)
     else case uuid_parse L i of None \<Rightarrow> Inl (Plain ''invalid UUID'') | Some u \<Rightarrow> Inr u)"

definition user_audience :: "lib \<Rightarrow> user_id \<Rightarrow> string" where
  "user_audience L u = ''user:'' @ uuid_string L u"

definition lab_audience :: "lib \<Rightarrow> (lab_id \<Rightarrow> err + user_id) \<Rightarrow> lab_id \<Rightarrow> err + string" where
  "lab_audience L owner i = (case owner i of Inl e \<Rightarrow> Inl e | Inr u \<Rightarrow> Inr (user_audience L u))"

text \<open>An event about a lab, for the owner of the lab.\<close>

definition project_lab :: "lib \<Rightarrow> (json \<Rightarrow> string) \<Rightarrow> (lab_id \<Rightarrow> err + user_id) \<Rightarrow> string \<Rightarrow>
    (lab_id \<Rightarrow> (string \<times> json) list) \<Rightarrow> json \<Rightarrow> err + (sse_event \<times> string)" where
  "project_lab L encode owner topic body raw =
     (case lab_id_from L raw of Inl e \<Rightarrow> Inl e
      | Inr i \<Rightarrow> (case lab_audience L owner i of Inl e \<Rightarrow> Inl e
        | Inr aud \<Rightarrow> Inr (\<lparr>ev_type = topic, ev_data = encode (JObj (body i)), ev_id = []\<rparr>, aud)))"

definition is_object :: "json \<Rightarrow> bool" where
  "is_object raw = (case raw of JNull \<Rightarrow> True | JObj _ \<Rightarrow> True | _ \<Rightarrow> False)"

definition sse_project :: "lib \<Rightarrow> (json \<Rightarrow> string) \<Rightarrow> (lab_id \<Rightarrow> err + user_id) \<Rightarrow> string \<Rightarrow> json \<Rightarrow>
    err + (sse_event \<times> string)" where
  "sse_project L encode owner topic raw =
     (if \<not> is_object raw then Inl (Plain ''json: cannot unmarshal'')
      else if topic = ''lab.state_changed'' then
        (let state = first_string raw [''state'', ''to''] in
         project_lab L encode owner topic (\<lambda>i. [(''labId'', JStr (uuid_string L i)),
           (''reason'', JStr (string_field raw ''reason'')), (''state'', JStr state), (''type'', JStr topic)]) raw)
      else if topic = ''lab.deploy_progress'' then
        project_lab L encode owner topic (\<lambda>i. [(''labId'', JStr (uuid_string L i)),
          (''status'', JStr (string_field raw ''status'')), (''step'', JStr (first_string raw [''step'', ''step_name''])),
          (''type'', JStr topic)]) raw
      else if topic = ''check.state_changed'' then
        project_lab L encode owner topic (\<lambda>i. [(''checkId'', JStr (first_string raw [''check_id'', ''checkRunId''])),
          (''labId'', JStr (uuid_string L i)), (''state'', JStr (string_field raw ''state'')), (''type'', JStr topic)]) raw
      else if topic = ''quota.snapshot'' then
        Inr (\<lparr>ev_type = topic, ev_data = encode (JObj [(''cpu'', number_field raw [''cpu'', ''vcpus'']),
          (''disk'', number_field raw [''disk'']), (''ram'', number_field raw [''ram'']), (''type'', JStr topic)]), ev_id = []\<rparr>,
          audience_all)
      else Inl (Plain (''unsupported topic '' @ topic)))"

section \<open>The broker's state and methods\<close>

text \<open>
  Of a client: its audiences, the channel of events and whether \<open>done\<close> is closed; whether its loop
  still runs, what the loop has written, and, for the properties, the events written and how much
  had been published when it subscribed.
\<close>

record sse_client =
  sc_audiences :: "string list"
  sc_buffer :: "sse_event list"
  sc_done :: bool
  sc_live :: bool
  sc_stream :: string
  sc_written :: "sse_event list"
  sc_from :: nat

text \<open>
  \<open>br_sending\<close> holds the publications under way: the targets left of the event a topic's goroutine is
  sending. \<open>br_log\<close> records what has been published, for the properties.
\<close>

record broker =
  br_clients :: "nat list"
  br_by_aud :: "string \<Rightarrow> nat list option"
  br_client :: "nat \<Rightarrow> sse_client"
  br_next :: nat
  br_sending :: "(string \<times> sse_event \<times> nat list) list"
  br_log :: "(string \<times> sse_event) list"

definition no_client :: sse_client where
  "no_client = \<lparr>sc_audiences = [], sc_buffer = [], sc_done = False, sc_live = False, sc_stream = [], sc_written = [],
     sc_from = 0\<rparr>"

definition new_broker :: broker where
  "new_broker = \<lparr>br_clients = [], br_by_aud = (\<lambda>_. None), br_client = (\<lambda>_. no_client), br_next = 0,
     br_sending = [], br_log = []\<rparr>"

text \<open>\<open>Start\<close> subscribes to the topics in turn and gives up at the first that fails.\<close>

fun broker_start :: "(string \<Rightarrow> err + unit) \<Rightarrow> string list \<Rightarrow> string list \<Rightarrow> string list \<times> err option" where
  "broker_start subscribe [] started = (started, None)"
| "broker_start subscribe (t # ts) started = (case subscribe t of
     Inl e \<Rightarrow> (started, Some (Wrapped (''sse: subscribe '' @ t) e))
   | Inr _ \<Rightarrow> broker_start subscribe ts (started @ [t]))"

definition upd_client :: "nat \<Rightarrow> (sse_client \<Rightarrow> sse_client) \<Rightarrow> broker \<Rightarrow> broker" where
  "upd_client c f b = b\<lparr>br_client := (br_client b)(c := f (br_client b c))\<rparr>"

fun add_audiences :: "nat \<Rightarrow> string list \<Rightarrow> (string \<Rightarrow> nat list option) \<Rightarrow> string \<Rightarrow> nat list option" where
  "add_audiences c [] m = m"
| "add_audiences c (a # as) m = add_audiences c as (m(a := Some (List.insert c (coalesce (m a) []))))"

definition broker_add :: "nat \<Rightarrow> broker \<Rightarrow> broker" where
  "broker_add c b = b\<lparr>br_clients := List.insert c (br_clients b),
     br_by_aud := add_audiences c (sc_audiences (br_client b c)) (br_by_aud b)\<rparr>"

fun drop_audiences :: "nat \<Rightarrow> string list \<Rightarrow> (string \<Rightarrow> nat list option) \<Rightarrow> string \<Rightarrow> nat list option" where
  "drop_audiences c [] m = m"
| "drop_audiences c (a # as) m = (let rest = removeAll c (coalesce (m a) []) in
     drop_audiences c as (m(a := if rest = [] then None else Some rest)))"

definition broker_drop :: "nat \<Rightarrow> broker \<Rightarrow> broker" where
  "broker_drop c b =
     (if c \<notin> set (br_clients b) then b
      else upd_client c (\<lambda>x. x\<lparr>sc_done := True\<rparr>) (b\<lparr>br_clients := removeAll c (br_clients b),
        br_by_aud := drop_audiences c (sc_audiences (br_client b c)) (br_by_aud b)\<rparr>))"

text \<open>The first part of \<open>Subscribe\<close>: a new client with its channel, and \<open>add\<close>.\<close>

definition broker_subscribe :: "string list \<Rightarrow> broker \<Rightarrow> broker" where
  "broker_subscribe audiences b =
     broker_add (br_next b) (b\<lparr>br_next := Suc (br_next b), br_client := (br_client b)(br_next b :=
       no_client\<lparr>sc_audiences := audiences, sc_live := True, sc_from := length (br_log b)\<rparr>)\<rparr>)"

text \<open>
  \<open>Publish\<close>: the targets are read under the mutex, in any order; then each is sent the event or dropped
  when its channel is full.
\<close>

definition targets :: "string \<Rightarrow> broker \<Rightarrow> nat list" where
  "targets aud b = coalesce (br_by_aud b aud) []"

definition publish_begin :: "string \<Rightarrow> string \<Rightarrow> sse_event \<Rightarrow> nat list \<Rightarrow> broker \<Rightarrow> broker" where
  "publish_begin topic aud ev cs b = b\<lparr>br_sending := (topic, ev, cs) # br_sending b, br_log := br_log b @ [(aud, ev)]\<rparr>"

definition broker_offer :: "nat \<Rightarrow> sse_event \<Rightarrow> broker \<Rightarrow> broker" where
  "broker_offer c ev b =
     (if length (sc_buffer (br_client b c)) < client_buffer_size
      then upd_client c (\<lambda>x. x\<lparr>sc_buffer := sc_buffer x @ [ev]\<rparr>) b
      else broker_drop c b)"

section \<open>The loop of a client\<close>

definition event_frame :: "sse_event \<Rightarrow> string" where
  "event_frame ev = (let nl = [CHR 0x0A] in
     (if ev_id ev \<noteq> [] then ''id: '' @ ev_id ev @ nl else []) @
     (if ev_type ev \<noteq> [] then ''event: '' @ ev_type ev @ nl else []) @
     ''data: '' @ ev_data ev @ nl @ nl)"

definition ping_frame :: string where "ping_frame = '': ping'' @ [CHR 0x0A, CHR 0x0A]"

definition client_write :: "nat \<Rightarrow> broker \<Rightarrow> broker" where
  "client_write c = upd_client c (\<lambda>x. x\<lparr>sc_buffer := tl (sc_buffer x),
     sc_written := sc_written x @ [hd (sc_buffer x)], sc_stream := sc_stream x @ event_frame (hd (sc_buffer x))\<rparr>)"

definition client_ping :: "nat \<Rightarrow> broker \<Rightarrow> broker" where
  "client_ping c = upd_client c (\<lambda>x. x\<lparr>sc_stream := sc_stream x @ ping_frame\<rparr>)"

text \<open>The loop returns when its context is done, \<open>done\<close> is closed or a write fails; \<open>drop\<close> is deferred.\<close>

definition client_leave :: "nat \<Rightarrow> broker \<Rightarrow> broker" where
  "client_leave c b = upd_client c (\<lambda>x. x\<lparr>sc_live := False\<rparr>) (broker_drop c b)"

section \<open>Interleaving\<close>

definition sending_of :: "string \<Rightarrow> broker \<Rightarrow> (sse_event \<times> nat list) option" where
  "sending_of topic b = map_of (br_sending b) topic"

definition set_sending :: "string \<Rightarrow> (sse_event \<times> nat list) option \<Rightarrow> broker \<Rightarrow> broker" where
  "set_sending topic x b = b\<lparr>br_sending := (case x of None \<Rightarrow> [] | Some (ev, cs) \<Rightarrow> [(topic, ev, cs)]) @
     filter (\<lambda>(t, _). t \<noteq> topic) (br_sending b)\<rparr>"

text \<open>
  \<open>own\<close> is who owns the labs; the resolver of a publication may fail, but does not lie. A subscription, a
  message on a topic whose goroutine is idle, one step of a publication and one turn of a client's loop can come
  in any order.
\<close>

inductive sse_step :: "lib \<Rightarrow> (json \<Rightarrow> string) \<Rightarrow> (lab_id \<Rightarrow> user_id option) \<Rightarrow> broker \<Rightarrow> broker \<Rightarrow> bool" for L encode own where
  subscribe: "sse_step L encode own b (broker_subscribe auds b)"
| receive: "topic \<in> set event_topics \<Longrightarrow> sending_of topic b = None \<Longrightarrow> (\<And>i u. owner i = Inr u \<Longrightarrow> own i = Some u) \<Longrightarrow>
    sse_project L encode owner topic raw = Inr (ev, aud) \<Longrightarrow> distinct cs \<Longrightarrow> set cs = set (targets aud b) \<Longrightarrow>
    sse_step L encode own b (publish_begin topic aud ev cs b)"
| send: "sending_of topic b = Some (ev, c # cs) \<Longrightarrow>
    sse_step L encode own b (broker_offer c ev (set_sending topic (Some (ev, cs)) b))"
| sent: "sending_of topic b = Some (ev, []) \<Longrightarrow> sse_step L encode own b (set_sending topic None b)"
| deliver: "sc_live (br_client b c) \<Longrightarrow> sc_buffer (br_client b c) \<noteq> [] \<Longrightarrow> sse_step L encode own b (client_write c b)"
| keepalive: "sc_live (br_client b c) \<Longrightarrow> sse_step L encode own b (client_ping c b)"
| leave: "sc_live (br_client b c) \<Longrightarrow> sse_step L encode own b (client_leave c b)"

abbreviation sse_reachable :: "lib \<Rightarrow> (json \<Rightarrow> string) \<Rightarrow> (lab_id \<Rightarrow> user_id option) \<Rightarrow> broker \<Rightarrow> bool" where
  "sse_reachable L encode own \<equiv> (sse_step L encode own)\<^sup>*\<^sup>* new_broker"

section \<open>The tables agree with each other\<close>

definition lookup_ok :: "broker \<Rightarrow> bool" where
  "lookup_ok b \<longleftrightarrow> (\<forall>aud c. c \<in> set (targets aud b) \<longleftrightarrow>
     c \<in> set (br_clients b) \<and> aud \<in> set (sc_audiences (br_client b c)))"

lemma add_audiences_at: "c' \<in> set (coalesce (add_audiences c as m aud) []) \<longleftrightarrow>
    c' \<in> set (coalesce (m aud) []) \<or> c' = c \<and> aud \<in> set as"
  by (induction as arbitrary: m) (auto simp: coalesce_def)

lemma coalesce_rest: "set (coalesce (if xs = [] then None else Some xs) []) = set xs"
  by (simp add: coalesce_def)

lemma drop_audiences_at: "c' \<in> set (coalesce (drop_audiences c as m aud) []) \<longleftrightarrow>
    c' \<in> set (coalesce (m aud) []) \<and> \<not> (c' = c \<and> aud \<in> set as)"
proof (induction as arbitrary: m)
  case (Cons a as)
  show ?case by (simp only: drop_audiences.simps Let_def Cons.IH) (auto simp: coalesce_rest simp del: removeAll.simps)
qed simp

lemma client_upd_client [simp]: "br_client (upd_client c f b) d = (if d = c then f (br_client b c) else br_client b d)"
  and rest_upd_client [simp]: "br_clients (upd_client c f b) = br_clients b" "br_by_aud (upd_client c f b) = br_by_aud b"
    "br_next (upd_client c f b) = br_next b" "br_sending (upd_client c f b) = br_sending b"
    "br_log (upd_client c f b) = br_log b" "targets aud (upd_client c f b) = targets aud b"
    "sending_of t (upd_client c f b) = sending_of t b"
  by (simp_all add: upd_client_def targets_def sending_of_def)

text \<open>What every operation but \<open>Subscribe\<close> leaves of a client.\<close>

lemma drop_client: "br_client (broker_drop c b) d = (if d = c \<and> c \<in> set (br_clients b)
    then (br_client b c)\<lparr>sc_done := True\<rparr> else br_client b d)"
  and drop_clients: "set (br_clients (broker_drop c b)) = set (br_clients b) - {c}"
  and drop_rest: "br_next (broker_drop c b) = br_next b" "br_sending (broker_drop c b) = br_sending b"
    "br_log (broker_drop c b) = br_log b" "sending_of t (broker_drop c b) = sending_of t b"
  by (auto simp: broker_drop_def sending_of_def)

lemma drop_lookup: assumes "lookup_ok b" shows "lookup_ok (broker_drop c b)"
proof (cases "c \<in> set (br_clients b)")
  case True
  have "c' \<in> set (targets aud (broker_drop c b)) \<longleftrightarrow> c' \<in> set (targets aud b) \<and>
      \<not> (c' = c \<and> aud \<in> set (sc_audiences (br_client b c)))" for c' aud
    using True drop_audiences_at [of c' c "sc_audiences (br_client b c)" "br_by_aud b" aud]
    by (simp add: broker_drop_def targets_def)
  thus ?thesis using assms True by (auto simp: lookup_ok_def drop_client drop_clients)
qed (use assms in \<open>simp add: broker_drop_def\<close>)

lemma subscribe_client: "br_client (broker_subscribe as b) d = (if d = br_next b
    then no_client\<lparr>sc_audiences := as, sc_live := True, sc_from := length (br_log b)\<rparr> else br_client b d)"
  and subscribe_clients: "set (br_clients (broker_subscribe as b)) = insert (br_next b) (set (br_clients b))"
  and subscribe_rest: "br_next (broker_subscribe as b) = Suc (br_next b)" "br_sending (broker_subscribe as b) = br_sending b"
    "br_log (broker_subscribe as b) = br_log b" "sending_of t (broker_subscribe as b) = sending_of t b"
  by (auto simp: broker_subscribe_def broker_add_def sending_of_def)

lemma subscribe_lookup:
  assumes "lookup_ok b" "br_next b \<notin> set (br_clients b)"
  shows "lookup_ok (broker_subscribe as b)"
proof -
  have "c' \<in> set (targets aud (broker_subscribe as b)) \<longleftrightarrow> c' \<in> set (targets aud b) \<or>
      (c' = br_next b \<and> aud \<in> set as)" for c' aud
    using add_audiences_at [of c' "br_next b" as "br_by_aud b" aud]
    by (simp add: broker_subscribe_def broker_add_def targets_def)
  thus ?thesis using assms by (auto simp: lookup_ok_def subscribe_client subscribe_clients)
qed

lemma sending_set [simp]: "sending_of t (set_sending topic x b) = (if t = topic then x else sending_of t b)"
proof -
  have "map_of (filter (\<lambda>(u, _). u \<noteq> topic) xs) t = (if t = topic then None else map_of xs t)"
    for xs :: "(string \<times> sse_event \<times> nat list) list"
    by (induction xs) auto
  thus ?thesis by (auto simp: sending_of_def set_sending_def split: option.splits)
qed

lemma set_sending_rest [simp]: "br_client (set_sending t x b) = br_client b" "br_clients (set_sending t x b) = br_clients b"
  "br_next (set_sending t x b) = br_next b" "br_log (set_sending t x b) = br_log b"
  "targets aud (set_sending t x b) = targets aud b" "lookup_ok (set_sending t x b) = lookup_ok b"
  by (simp_all add: set_sending_def targets_def lookup_ok_def)

lemma sending_publish: "sending_of t (publish_begin topic aud ev cs b) = (if t = topic then Some (ev, cs) else sending_of t b)"
  and publish_rest: "br_client (publish_begin topic aud ev cs b) = br_client b"
    "br_clients (publish_begin topic aud ev cs b) = br_clients b" "br_next (publish_begin topic aud ev cs b) = br_next b"
    "br_log (publish_begin topic aud ev cs b) = br_log b @ [(aud, ev)]"
    "lookup_ok (publish_begin topic aud ev cs b) = lookup_ok b"
  by (simp_all add: publish_begin_def sending_of_def lookup_ok_def targets_def)

lemmas broker_views = drop_client drop_clients drop_rest subscribe_client subscribe_clients subscribe_rest
  sending_publish publish_rest

section \<open>Delivery\<close>

text \<open>
  Of one topic: what a client has been given, what a publication under way still holds for it, and what has been
  published for its audiences since it subscribed.
\<close>

definition got :: "nat \<Rightarrow> string \<Rightarrow> broker \<Rightarrow> sse_event list" where
  "got c t b = filter (\<lambda>ev. ev_type ev = t) (sc_written (br_client b c) @ sc_buffer (br_client b c))"

definition pending :: "nat \<Rightarrow> string \<Rightarrow> broker \<Rightarrow> sse_event list" where
  "pending c t b = (case sending_of t b of Some (ev, cs) \<Rightarrow> if c \<in> set cs then [ev] else [] | None \<Rightarrow> [])"

definition due_for :: "nat \<Rightarrow> string \<Rightarrow> broker \<Rightarrow> sse_event list" where
  "due_for c t b = map snd (filter (\<lambda>(aud, ev). ev_type ev = t \<and> aud \<in> set (sc_audiences (br_client b c)))
     (drop (sc_from (br_client b c)) (br_log b)))"

definition served :: "nat \<Rightarrow> string \<Rightarrow> broker \<Rightarrow> bool" where
  "served c t b \<longleftrightarrow> prefix (got c t b @ pending c t b) (due_for c t b) \<and>
     (c \<in> set (br_clients b) \<longrightarrow> got c t b @ pending c t b = due_for c t b)"

text \<open>The log: where each published event comes from.\<close>

definition sourced :: "lib \<Rightarrow> (json \<Rightarrow> string) \<Rightarrow> (lab_id \<Rightarrow> user_id option) \<Rightarrow> string \<times> sse_event \<Rightarrow> bool" where
  "sourced L encode own x \<longleftrightarrow> (\<exists>owner topic raw. (\<forall>i u. owner i = Inr u \<longrightarrow> own i = Some u) \<and>
     sse_project L encode owner topic raw = Inr (snd x, fst x) \<and> topic \<in> set event_topics)"

definition orderly :: "broker \<Rightarrow> bool" where
  "orderly b \<longleftrightarrow> lookup_ok b \<and> set (br_clients b) \<subseteq> {..<br_next b} \<and>
     (\<forall>t ev cs. sending_of t b = Some (ev, cs) \<longrightarrow> ev_type ev = t \<and> distinct cs \<and> set cs \<subseteq> {..<br_next b}) \<and>
     (\<forall>c. length (sc_buffer (br_client b c)) \<le> client_buffer_size \<and> sc_from (br_client b c) \<le> length (br_log b))"

lemma orderlyD:
  assumes "orderly b"
  shows "lookup_ok b" "c \<in> set (br_clients b) \<Longrightarrow> c < br_next b"
    "sending_of t b = Some (ev, cs) \<Longrightarrow> ev_type ev = t \<and> distinct cs \<and> set cs \<subseteq> {..<br_next b}"
    "length (sc_buffer (br_client b c)) \<le> client_buffer_size" "sc_from (br_client b c) \<le> length (br_log b)"
  using assms by (auto simp: orderly_def)

lemma sse_project_type: "sse_project L encode owner topic raw = Inr (ev, aud) \<Longrightarrow> ev_type ev = topic"
  by (auto simp: sse_project_def project_lab_def Let_def split: if_splits sum.splits)

lemma orderly_step:
  assumes "sse_step L encode own b b'" "orderly b"
  shows "orderly b'"
  using assms
proof (cases rule: sse_step.cases)
  case (subscribe auds)
  have "br_next b \<notin> set (br_clients b)" using orderlyD(2) [OF assms(2)] by blast
  thus ?thesis using assms(2) subscribe_lookup [of b auds]
    unfolding subscribe orderly_def
    by (auto simp: broker_views no_client_def less_Suc_eq; blast)
next
  case (receive topic owner raw ev aud cs)
  have "set cs \<subseteq> {..<br_next b}"
    using receive orderlyD(1,2) [OF assms(2)] by (auto simp: lookup_ok_def)
  thus ?thesis using assms(2) sse_project_type [OF receive(5)] receive
    unfolding orderly_def by (auto simp: broker_views le_SucI)
next
  case (send topic ev c cs)
  have "orderly (set_sending topic (Some (ev, cs)) b)" using assms(2) send unfolding orderly_def by force
  moreover have "orderly (broker_offer c ev d)" if "orderly d" for d
    using that drop_lookup [of d c] unfolding orderly_def broker_offer_def
    by (auto simp: broker_views) (auto simp: lookup_ok_def)
  ultimately show ?thesis unfolding send by blast
next
  case (sent topic ev)
  thus ?thesis using assms(2) unfolding orderly_def by auto
next
  case (deliver c)
  thus ?thesis using assms(2) unfolding orderly_def client_write_def
    by (auto simp: lookup_ok_def le_diff_conv le_SucI)
next
  case (keepalive c)
  thus ?thesis using assms(2) unfolding orderly_def client_ping_def by (auto simp: lookup_ok_def)
next
  case (leave c)
  have "orderly (broker_drop c b)"
    using assms(2) drop_lookup [of b c] unfolding orderly_def by (auto simp: broker_views)
  thus ?thesis unfolding leave orderly_def client_leave_def by (auto simp: lookup_ok_def)
qed

lemma due_log: "sc_from (br_client b c) \<le> length (br_log b) \<Longrightarrow> br_log b' = br_log b @ [(aud, ev)] \<Longrightarrow>
    br_client b' c = br_client b c \<Longrightarrow> due_for c t b' = due_for c t b @
      (if ev_type ev = t \<and> aud \<in> set (sc_audiences (br_client b c)) then [ev] else [])"
  by (simp add: due_for_def)

lemma due_same: "br_log b' = br_log b \<Longrightarrow> sc_from (br_client b' c) = sc_from (br_client b c) \<Longrightarrow>
    sc_audiences (br_client b' c) = sc_audiences (br_client b c) \<Longrightarrow> due_for c t b' = due_for c t b"
  by (simp add: due_for_def)

lemma pending_same: "sending_of t b' = sending_of t b \<Longrightarrow> pending c t b' = pending c t b"
  by (simp add: pending_def)

lemma got_same: "sc_written (br_client b' c) @ sc_buffer (br_client b' c) = sc_written (br_client b c) @ sc_buffer (br_client b c) \<Longrightarrow>
    got c t b' = got c t b"
  by (simp add: got_def)

lemma served_same:
  assumes "served c t b" "got c t b' = got c t b" "pending c t b' = pending c t b" "due_for c t b' = due_for c t b"
    "set (br_clients b') \<subseteq> set (br_clients b)"
  shows "served c t b'"
  using assms by (auto simp: served_def)

lemma served_offer:
  assumes "orderly b" "sending_of topic b = Some (ev, c # cs)" "served d t b"
  shows "served d t (broker_offer c ev (set_sending topic (Some (ev, cs)) b))" (is "served d t ?b'")
proof (cases "d = c \<and> t = topic")
  case False
  have ev: "ev_type ev = topic" using orderlyD(3) [OF assms(1,2)] by blast
  show ?thesis
    by (rule served_same [OF assms(3)])
      (use False ev assms(2) in \<open>auto simp: broker_offer_def broker_views got_def pending_def due_for_def split: if_splits\<close>)
next
  case True
  have ev: "ev_type ev = topic" "c \<notin> set cs" using orderlyD(3) [OF assms(1,2)] by auto
  have p: "pending c topic b = [ev]" "pending c topic ?b' = []"
    using assms(2) ev by (auto simp: pending_def broker_offer_def broker_views)
  have u: "due_for c topic ?b' = due_for c topic b"
    by (rule due_same) (auto simp: broker_offer_def broker_views)
  have s: "prefix (got c topic b @ [ev]) (due_for c topic b)"
    "c \<in> set (br_clients b) \<longrightarrow> got c topic b @ [ev] = due_for c topic b"
    using assms(3) True p by (auto simp: served_def)
  show ?thesis
  proof (cases "length (sc_buffer (br_client b c)) < client_buffer_size")
    case room: True
    have "got c topic ?b' = got c topic b @ [ev]" "set (br_clients ?b') = set (br_clients b)"
      using room ev by (simp_all add: got_def broker_offer_def)
    thus ?thesis using True p u s by (simp add: served_def)
  next
    case full: False
    have "got c topic ?b' = got c topic b" "c \<notin> set (br_clients ?b')"
      using full by (auto simp: got_def broker_offer_def broker_views)
    thus ?thesis using True p u s(1) append_prefixD by (auto simp: served_def)
  qed
qed

lemma served_publish:
  assumes "orderly b" "sending_of topic b = None" "ev_type ev = topic" "set cs = set (targets aud b)" "served c t b"
  shows "served c t (publish_begin topic aud ev cs b)" (is "served c t ?b'")
proof -
  have cs: "c \<in> set cs \<longleftrightarrow> c \<in> set (br_clients b) \<and> aud \<in> set (sc_audiences (br_client b c))"
    using assms(4) orderlyD(1) [OF assms(1)] by (simp add: lookup_ok_def)
  have "due_for c t ?b' = due_for c t b @ (if ev_type ev = t \<and> aud \<in> set (sc_audiences (br_client b c)) then [ev] else [])"
    by (rule due_log) (use orderlyD(5) [OF assms(1)] in \<open>auto simp: publish_rest\<close>)
  moreover have "got c t ?b' = got c t b" by (simp add: got_def publish_rest)
  moreover have "pending c t ?b' = (if t = topic then if c \<in> set cs then [ev] else [] else pending c t b)"
    by (simp add: pending_def sending_publish)
  moreover have "t = topic \<Longrightarrow> pending c t b = []" using assms(2) by (simp add: pending_def)
  ultimately show ?thesis using assms(3,5) cs by (auto simp: served_def publish_rest)
qed

lemma served_step:
  assumes "sse_step L encode own b b'" "orderly b" "\<forall>c t. served c t b"
  shows "served c t b'"
  using assms(1)
proof (cases rule: sse_step.cases)
  case (subscribe auds)
  show ?thesis
  proof (cases "c = br_next b")
    case True
    have "pending c t b = []" using orderlyD(3) [OF assms(2), of t] True
      by (fastforce simp: pending_def split: option.splits)
    moreover have "pending c t b' = pending c t b" by (rule pending_same) (simp add: subscribe broker_views)
    ultimately show ?thesis
      using True unfolding subscribe
      by (simp add: served_def got_def due_for_def broker_views no_client_def)
  next
    case False
    show ?thesis using assms(3) False unfolding subscribe served_def got_def pending_def due_for_def
      by (simp add: broker_views)
  qed
next
  case (receive topic owner raw ev aud cs)
  thus ?thesis using served_publish [OF assms(2)] sse_project_type assms(3) by blast
next
  case (send topic ev c' cs)
  thus ?thesis using served_offer [OF assms(2)] assms(3) by blast
next
  case (sent topic ev)
  show ?thesis unfolding sent(1)
    by (rule served_same [OF assms(3) [rule_format]])
      (use sent in \<open>auto simp: got_def pending_def due_for_def\<close>)
next
  case (deliver c')
  show ?thesis unfolding deliver(1)
    by (rule served_same [OF assms(3) [rule_format]])
      (use deliver in \<open>auto simp: got_def pending_def due_for_def client_write_def simp flip: filter_append\<close>)
next
  case (keepalive c')
  show ?thesis unfolding keepalive(1)
    by (rule served_same [OF assms(3) [rule_format]])
      (auto simp: got_def pending_def due_for_def client_ping_def)
next
  case (leave c')
  show ?thesis unfolding leave(1)
    by (rule served_same [OF assms(3) [rule_format]])
      (auto simp: got_def pending_def due_for_def client_leave_def broker_views)
qed

lemma log_step:
  assumes "sse_step L encode own b b'" "\<forall>x \<in> set (br_log b). sourced L encode own x"
  shows "\<forall>x \<in> set (br_log b'). sourced L encode own x"
  using assms
proof (cases rule: sse_step.cases)
  case (receive topic owner raw ev aud cs)
  hence "sourced L encode own (aud, ev)" unfolding sourced_def by auto
  thus ?thesis using assms(2) by (auto simp: receive publish_rest)
qed (auto simp: broker_views broker_offer_def client_write_def client_ping_def client_leave_def)

lemma sse_invariant:
  assumes "sse_reachable L encode own b"
  shows "orderly b" "served c t b" "\<forall>x \<in> set (br_log b). sourced L encode own x"
proof -
  have "orderly b \<and> (\<forall>c t. served c t b) \<and> (\<forall>x \<in> set (br_log b). sourced L encode own x)"
    using assms
  proof (induction rule: rtranclp_induct)
    case base
    show ?case by (simp add: orderly_def served_def lookup_ok_def new_broker_def targets_def got_def pending_def
        due_for_def sending_of_def no_client_def coalesce_def client_buffer_size_def)
  next
    case (step b b')
    hence b: "orderly b" "\<forall>c t. served c t b" "\<forall>x \<in> set (br_log b). sourced L encode own x" by blast+
    show ?case using orderly_step [OF step.hyps(2) b(1)] served_step [OF step.hyps(2) b(1,2)]
      log_step [OF step.hyps(2) b(3)] by blast
  qed
  thus "orderly b" "served c t b" "\<forall>x \<in> set (br_log b). sourced L encode own x" by blast+
qed

section \<open>The stream a browser reads\<close>

text \<open>
  The reference: how a browser reads an event stream. Lines end with LF; a blank line dispatches the event of
  the fields before it, and a line that starts with a colon is a comment.
\<close>

fun stream_lines :: "string \<Rightarrow> string \<Rightarrow> string list" where
  "stream_lines line [] = []"
| "stream_lines line (x # xs) = (if x = CHR 0x0A then line # stream_lines [] xs else stream_lines (line @ [x]) xs)"

fun field_value :: "string \<Rightarrow> string \<Rightarrow> string option" where
  "field_value name line = (if take (length name + 1) line = name @ '':'' then
     (let v = drop (length name + 1) line in Some (if take 1 v = '' '' then drop 1 v else v)) else None)"

fun read_events :: "string \<Rightarrow> string \<Rightarrow> string list \<Rightarrow> (string \<times> string) list" where
  "read_events ty buf [] = []"
| "read_events ty buf (l # ls) =
     (if l = [] then (if buf = [] then [] else [(if ty = [] then ''message'' else ty, butlast buf)]) @ read_events [] [] ls
      else if take 1 l = '':'' then read_events ty buf ls
      else case field_value ''event'' l of Some v \<Rightarrow> read_events v buf ls
      | None \<Rightarrow> (case field_value ''data'' l of Some v \<Rightarrow> read_events ty (buf @ v @ [CHR 0x0A]) ls | None \<Rightarrow> read_events ty buf ls))"

definition browser_events :: "string \<Rightarrow> (string \<times> string) list" where
  "browser_events s = read_events [] [] (stream_lines [] s)"

definition one_line :: "string \<Rightarrow> bool" where "one_line s \<longleftrightarrow> CHR 0x0A \<notin> set s"

lemma stream_line: "one_line s \<Longrightarrow> stream_lines l (s @ CHR 0x0A # rest) = (l @ s) # stream_lines [] rest"
  by (induction s arbitrary: l) (auto simp: one_line_def)

lemma browser_ping: "browser_events (ping_frame @ rest) = browser_events rest"
  by (simp add: browser_events_def ping_frame_def)

lemma browser_event:
  assumes "one_line (ev_id ev)" "one_line (ev_type ev)" "one_line (ev_data ev)"
  shows "browser_events (event_frame ev @ rest) =
    (if ev_type ev = [] then ''message'' else ev_type ev, ev_data ev) # browser_events rest"
proof -
  note ls = assms [THEN stream_line]
  show ?thesis by (simp add: browser_events_def event_frame_def Let_def ls)
qed

section \<open>What the browsers see\<close>

definition stream_ok :: "nat \<Rightarrow> broker \<Rightarrow> bool" where
  "stream_ok c b \<longleftrightarrow> (\<exists>blocks. sc_stream (br_client b c) = concat (map (case_option ping_frame event_frame) blocks) \<and>
     sc_written (br_client b c) = List.map_filter id blocks)"

lemma stream_okI: "sc_stream (br_client b c) = concat (map (case_option ping_frame event_frame) blocks) \<Longrightarrow>
    sc_written (br_client b c) = List.map_filter id blocks \<Longrightarrow> stream_ok c b"
  unfolding stream_ok_def by blast

lemma stream_more: "stream_ok c b \<Longrightarrow> sc_stream (br_client b' c) = sc_stream (br_client b c) @ case_option ping_frame event_frame x \<Longrightarrow>
    sc_written (br_client b' c) = sc_written (br_client b c) @ List.map_filter id [x] \<Longrightarrow> stream_ok c b'"
  unfolding stream_ok_def
proof (elim exE conjE)
  fix blocks
  assume "sc_stream (br_client b' c) = sc_stream (br_client b c) @ case_option ping_frame event_frame x"
    "sc_written (br_client b' c) = sc_written (br_client b c) @ List.map_filter id [x]"
    "sc_stream (br_client b c) = concat (map (case_option ping_frame event_frame) blocks)"
    "sc_written (br_client b c) = List.map_filter id blocks"
  thus "\<exists>blocks. sc_stream (br_client b' c) = concat (map (case_option ping_frame event_frame) blocks) \<and>
      sc_written (br_client b' c) = List.map_filter id blocks"
    by (intro exI [of _ "blocks @ [x]"]) (simp add: List.map_filter_def)
qed

lemma stream_same: "stream_ok c b \<Longrightarrow> sc_stream (br_client b' c) = sc_stream (br_client b c) \<Longrightarrow>
    sc_written (br_client b' c) = sc_written (br_client b c) \<Longrightarrow> stream_ok c b'"
  by (simp add: stream_ok_def)

lemma stream_step:
  assumes "sse_step L encode own b b'" "stream_ok c b"
  shows "stream_ok c b'"
  using assms(1)
proof (cases rule: sse_step.cases)
  case (subscribe auds)
  show ?thesis
    by (cases "c = br_next b", rule stream_okI [of _ _ "[]"], insert stream_same [OF assms(2)])
      (auto simp: subscribe broker_views no_client_def List.map_filter_def)
next
  case (deliver d)
  show ?thesis
    by (cases "c = d", rule stream_more [OF assms(2), of _ "Some (hd (sc_buffer (br_client b d)))"],
        insert stream_same [OF assms(2)])
      (auto simp: deliver client_write_def List.map_filter_def)
next
  case (keepalive d)
  show ?thesis
    by (cases "c = d", rule stream_more [OF assms(2), of _ None], insert stream_same [OF assms(2)])
      (auto simp: keepalive client_ping_def List.map_filter_def)
qed (auto intro!: stream_same [OF assms(2)] simp: broker_views broker_offer_def client_leave_def)

lemma stream_reachable: "sse_reachable L encode own b \<Longrightarrow> stream_ok c b"
proof (induction rule: rtranclp_induct)
  case base
  show ?case by (rule stream_okI [of _ _ "[]"]) (simp_all add: new_broker_def no_client_def List.map_filter_def)
qed (blast intro: stream_step)

lemma due_sourced: "\<forall>x \<in> set (br_log b). sourced L encode own x \<Longrightarrow> ev \<in> set (due_for c t b) \<Longrightarrow>
    \<exists>aud \<in> set (sc_audiences (br_client b c)). sourced L encode own (aud, ev) \<and> ev_type ev = t"
  unfolding due_for_def by (auto dest!: in_set_dropD)

lemma written_sourced:
  assumes "sse_reachable L encode own b" "ev \<in> set (sc_written (br_client b c))"
  shows "\<exists>aud \<in> set (sc_audiences (br_client b c)). sourced L encode own (aud, ev)"
proof -
  have "ev \<in> set (got c (ev_type ev) b)" using assms(2) by (simp add: got_def)
  moreover have "prefix (got c (ev_type ev) b) (due_for c (ev_type ev) b)"
    using sse_invariant(2) [OF assms(1), of c "ev_type ev"] by (auto simp: served_def dest: append_prefixD)
  ultimately have "ev \<in> set (due_for c (ev_type ev) b)" by (meson set_mono_prefix subsetD)
  from due_sourced [OF sse_invariant(3) [OF assms(1)] this] show ?thesis by blast
qed

lemma sourced_event:
  assumes "sourced L encode own (aud, ev)"
  shows "ev_id ev = [] \<and> ev_type ev \<in> set event_topics \<and> (\<exists>ps. ev_data ev = encode (JObj ps) \<and>
    (ev_type ev = ''quota.snapshot'' \<and> aud = audience_all \<or>
     (\<exists>i u. own i = Some u \<and> aud = user_audience L u \<and> map_of ps ''labId'' = Some (JStr (uuid_string L i)))))"
proof -
  from assms obtain owner topic raw where o: "\<And>i u. owner i = Inr u \<Longrightarrow> own i = Some u"
    and p: "sse_project L encode owner topic raw = Inr (ev, aud)" and "topic \<in> set event_topics"
    unfolding sourced_def by auto
  have lab: "ev_id ev = [] \<and> (\<exists>ps. ev_data ev = encode (JObj ps) \<and>
      (\<exists>i u. own i = Some u \<and> aud = user_audience L u \<and> map_of ps ''labId'' = Some (JStr (uuid_string L i))))"
    if "project_lab L encode owner t body raw = Inr (ev, aud)"
      "\<And>i. map_of (body i) ''labId'' = Some (JStr (uuid_string L i))" for t body
    using that o unfolding project_lab_def lab_audience_def by (auto split: sum.splits; blast)
  show ?thesis
    using p \<open>topic \<in> set event_topics\<close> sse_project_type [OF p]
    unfolding sse_project_def Let_def by (auto split: if_splits dest!: lab; blast)
qed

lemma browser_blocks:
  assumes "\<forall>ev \<in> set (List.map_filter id bs). ev_id ev = [] \<and> ev_type ev \<in> set event_topics \<and> one_line (ev_data ev)"
  shows "browser_events (concat (map (case_option ping_frame event_frame) bs)) =
    map (\<lambda>ev. (ev_type ev, ev_data ev)) (List.map_filter id bs)"
  using assms
proof (induction bs)
  case Nil
  show ?case by (simp add: browser_events_def List.map_filter_def)
next
  case (Cons x bs)
  show ?case
  proof (cases x)
    case None
    thus ?thesis using Cons by (simp add: browser_ping List.map_filter_def)
  next
    case (Some ev)
    hence "one_line (ev_type ev)" "ev_type ev \<noteq> []" "one_line (ev_id ev)" "one_line (ev_data ev)"
      using Cons.prems by (auto simp: event_topics_def one_line_def List.map_filter_def)
    thus ?thesis using Some Cons by (simp add: browser_event List.map_filter_def)
  qed
qed

lemma browser_written:
  assumes "sse_reachable L encode own b" "\<And>j. one_line (encode j)"
  shows "browser_events (sc_stream (br_client b c)) = map (\<lambda>ev. (ev_type ev, ev_data ev)) (sc_written (br_client b c))"
proof -
  obtain bs where bs: "sc_stream (br_client b c) = concat (map (case_option ping_frame event_frame) bs)"
    "sc_written (br_client b c) = List.map_filter id bs"
    using stream_reachable [OF assms(1), of c] unfolding stream_ok_def by blast
  have "\<forall>ev \<in> set (List.map_filter id bs). ev_id ev = [] \<and> ev_type ev \<in> set event_topics \<and> one_line (ev_data ev)"
    using written_sourced [OF assms(1), of _ c] sourced_event [of L encode own] assms(2)
    unfolding bs(2) by fastforce
  from browser_blocks [OF this] show ?thesis unfolding bs .
qed

section \<open>Properties\<close>

text \<open>The resolver that the gateway gives to the broker.\<close>

definition resolve_owner :: "'c world \<Rightarrow> lab_id \<Rightarrow> err + user_id" where
  "resolve_owner w i = (case fst (lab_get_by_id i w) of Inl e \<Rightarrow> Inl e | Inr l \<Rightarrow> Inr (lb_student l))"

definition watched :: "string \<Rightarrow> nat \<Rightarrow> broker \<Rightarrow> (string \<times> string) list" where
  "watched t c b = filter (\<lambda>e. fst e = t) (browser_events (sc_stream (br_client b c)))"

text \<open>
  C7: nothing is lost, doubled or reordered on the way to a browser. Whatever the interleaving, what the browser
  reads from the stream of a client, of each topic, is a prefix of the events published for its audiences since it
  subscribed; and as long as the broker has not dropped the client, a client whose channel is empty has
  read all of them when no publication on the topic is under way. A channel never holds more than 32 events.
\<close>
theorem sse_delivery:
  assumes "sse_reachable L encode own b" "\<And>j. one_line (encode j)"
  shows "prefix (watched t c b) (map (\<lambda>ev. (ev_type ev, ev_data ev)) (due_for c t b)) \<and>
    (c \<in> set (br_clients b) \<and> sc_buffer (br_client b c) = [] \<and> sending_of t b = None \<longrightarrow>
       watched t c b = map (\<lambda>ev. (ev_type ev, ev_data ev)) (due_for c t b)) \<and>
    length (sc_buffer (br_client b c)) \<le> client_buffer_size"
proof (intro conjI)
  have w: "watched t c b = map (\<lambda>ev. (ev_type ev, ev_data ev)) (filter (\<lambda>ev. ev_type ev = t) (sc_written (br_client b c)))"
    using browser_written [OF assms, of c] by (simp add: watched_def filter_map o_def)
  have s: "served c t b" by (rule sse_invariant(2) [OF assms(1)])
  have "prefix (filter (\<lambda>ev. ev_type ev = t) (sc_written (br_client b c))) (due_for c t b)"
    using s append_prefixD by (fastforce simp: served_def got_def)
  thus "prefix (watched t c b) (map (\<lambda>ev. (ev_type ev, ev_data ev)) (due_for c t b))"
    unfolding w by (rule map_mono_prefix)
  show "c \<in> set (br_clients b) \<and> sc_buffer (br_client b c) = [] \<and> sending_of t b = None \<longrightarrow>
      watched t c b = map (\<lambda>ev. (ev_type ev, ev_data ev)) (due_for c t b)"
    using s unfolding w by (auto simp: served_def got_def pending_def)
  show "length (sc_buffer (br_client b c)) \<le> client_buffer_size"
    by (rule orderlyD(4) [OF sse_invariant(1) [OF assms(1)]])
qed

text \<open>
  C19: a browser that is signed in as one user, whose stream has the audiences the handler gives it, never reads an
  event about somebody else's lab: each event it reads is of the quota, or about a lab which that user owns.
\<close>
theorem sse_private:
  assumes "sse_reachable L encode own b" "\<And>j. one_line (encode j)" "uuid_ok L"
    and "sc_audiences (br_client b c) = [user_audience L u, audience_all]"
    and "(ty, dat) \<in> set (browser_events (sc_stream (br_client b c)))"
  shows "ty = ''quota.snapshot'' \<or> (\<exists>i ps. own i = Some u \<and> dat = encode (JObj ps) \<and>
    map_of ps ''labId'' = Some (JStr (uuid_string L i)))"
proof -
  obtain ev where ev: "ev \<in> set (sc_written (br_client b c))" "ty = ev_type ev" "dat = ev_data ev"
    using assms(5) unfolding browser_written [OF assms(1,2)] by auto
  obtain aud where aud: "aud = user_audience L u \<or> aud = audience_all" and s: "sourced L encode own (aud, ev)"
    using written_sourced [OF assms(1) ev(1)] assms(4) by auto
  have inj: "u' = u" if "uuid_string L u' = uuid_string L u" for u'
    using that assms(3) by (metis option.inject uuid_ok_def)
  show ?thesis
    using sourced_event [OF s] aud ev inj by (auto simp: user_audience_def audience_all_def)
qed

text \<open>
  the message that the outbox publishes when a lab changes its state is one the broker can read: it becomes an
  event with the lab, its new state and the reason, for the student of the lab alone.
\<close>
theorem lab_change_for_student:
  assumes "uuid_ok L" "uuid_string L i \<noteq> []" "get_lab_row i (committed w) = Some r" "lab_from_row r = Inr l"
    and "e_db_fault (w_env w) (w_stmt w) = None"
  shows "sse_project L encode (resolve_owner w) (fst (lab_message L (EventStateChanged i from to reason)))
      (snd (lab_message L (EventStateChanged i from to reason))) =
    Inr (\<lparr>ev_type = ''lab.state_changed'', ev_data = encode (JObj [(''labId'', JStr (uuid_string L i)),
      (''reason'', JStr reason), (''state'', JStr (lstate_text to)), (''type'', JStr ''lab.state_changed'')]), ev_id = []\<rparr>,
      user_audience L (lr_student r))"
proof -
  have "lb_student l = lr_student r" using assms(4) by (auto simp: lab_from_row_def split: sum.splits)
  hence "resolve_owner w i = Inr (lr_student r)"
    using assms(3-5) by (simp add: resolve_owner_def lab_get_by_id_def bind_def on_err_def one_row_def conn_query_def Let_def
        from_sum_def ret_def)
  thus ?thesis using assms(1,2)
    by (simp add: lab_message_def lab_event_kind_def sse_project_def is_object_def project_lab_def lab_id_from_def Let_def
        string_field_def json_field_def uuid_ok_def lab_audience_def)
qed

section \<open>Witnesses\<close>

text \<open>User 1 watches; lab 7, which is that user's, becomes ready; the event is published, offered and written.\<close>

definition sample_sse_event :: sse_event where
  "sample_sse_event = \<lparr>ev_type = ''lab.state_changed'', ev_data = ''{}'', ev_id = []\<rparr>"

definition sample_subscribed :: broker where
  "sample_subscribed = broker_subscribe [user_audience sample_lib 1, audience_all] new_broker"

definition sample_published :: broker where
  "sample_published = publish_begin ''lab.state_changed'' (user_audience sample_lib 1) sample_sse_event [0] sample_subscribed"

definition sample_offered :: broker where
  "sample_offered = broker_offer 0 sample_sse_event
     (set_sending ''lab.state_changed'' (Some (sample_sse_event, [])) sample_published)"

definition sample_watched :: broker where
  "sample_watched = client_write 0 (set_sending ''lab.state_changed'' None sample_offered)"

abbreviation sample_own :: "lab_id \<Rightarrow> user_id option" where "sample_own \<equiv> \<lambda>_. Some 1"

lemma sample_client: "br_client sample_published 0 = no_client\<lparr>sc_audiences := [user_audience sample_lib 1, audience_all], sc_live := True\<rparr>"
  by (simp add: sample_published_def sample_subscribed_def broker_views new_broker_def no_client_def)

lemma sample_receive: "sse_step sample_lib (\<lambda>_. ''{}'') sample_own sample_subscribed sample_published"
  unfolding sample_published_def
proof (rule receive)
  show "sse_project sample_lib (\<lambda>_. ''{}'') (\<lambda>_. Inr 1) ''lab.state_changed'' (JObj [(''lab_id'', JStr ''uuuuuuu'')]) =
      Inr (sample_sse_event, user_audience sample_lib 1)"
    by (simp add: sse_project_def is_object_def project_lab_def lab_id_from_def string_field_def json_field_def
        sample_lib_def lab_audience_def sample_sse_event_def)
  show "sending_of ''lab.state_changed'' sample_subscribed = None"
    "set [0] = set (targets (user_audience sample_lib 1) sample_subscribed)"
    by (simp_all add: sample_subscribed_def sending_of_def broker_subscribe_def broker_add_def targets_def coalesce_def
        new_broker_def no_client_def audience_all_def user_audience_def)
qed (simp_all add: event_topics_def)

lemma sample_watch_reachable: "sse_reachable sample_lib (\<lambda>_. ''{}'') sample_own sample_watched"
proof -
  have "sse_step sample_lib (\<lambda>_. ''{}'') sample_own new_broker sample_subscribed"
    unfolding sample_subscribed_def by (rule subscribe)
  moreover have "sse_step sample_lib (\<lambda>_. ''{}'') sample_own sample_published sample_offered"
    unfolding sample_offered_def by (rule send) (simp add: sample_published_def sending_publish)
  moreover have "sse_step sample_lib (\<lambda>_. ''{}'') sample_own sample_offered (set_sending ''lab.state_changed'' None sample_offered)"
    by (rule sent [of _ _ sample_sse_event]) (simp add: sample_offered_def broker_offer_def broker_views)
  moreover have "sse_step sample_lib (\<lambda>_. ''{}'') sample_own (set_sending ''lab.state_changed'' None sample_offered) sample_watched"
    unfolding sample_watched_def
    by (rule deliver) (simp_all add: sample_offered_def broker_offer_def sample_client client_buffer_size_def no_client_def)
  ultimately show ?thesis using sample_receive
    by (meson converse_rtranclp_into_rtranclp rtranclp.rtrancl_refl)
qed

lemma sample_one_line: "one_line ''{}''" by (simp add: one_line_def)

lemma sample_watched_facts:
  "sc_audiences (br_client sample_watched 0) = [user_audience sample_lib 1, audience_all]"
  "0 \<in> set (br_clients sample_watched)" "sc_buffer (br_client sample_watched 0) = []"
  "sending_of ''lab.state_changed'' sample_watched = None"
  "sc_stream (br_client sample_watched 0) = event_frame sample_sse_event"
proof -
  have "0 \<in> set (br_clients sample_published)"
    by (simp add: sample_published_def sample_subscribed_def broker_views new_broker_def)
  thus "sc_audiences (br_client sample_watched 0) = [user_audience sample_lib 1, audience_all]"
    "0 \<in> set (br_clients sample_watched)" "sc_buffer (br_client sample_watched 0) = []"
    "sending_of ''lab.state_changed'' sample_watched = None"
    "sc_stream (br_client sample_watched 0) = event_frame sample_sse_event"
    by (simp_all add: sample_watched_def sample_offered_def client_write_def broker_offer_def sample_client
        client_buffer_size_def no_client_def)
qed

lemma sample_browser: "browser_events (sc_stream (br_client sample_watched 0)) = [(''lab.state_changed'', ''{}'')]"
  using browser_event [of sample_sse_event "[]"] sample_watched_facts(5)
  by (simp add: sample_sse_event_def one_line_def browser_events_def)

theorem sse_delivery_witness:
  "watched ''lab.state_changed'' 0 sample_watched = [(''lab.state_changed'', ''{}'')] \<and>
   map (\<lambda>ev. (ev_type ev, ev_data ev)) (due_for 0 ''lab.state_changed'' sample_watched) = [(''lab.state_changed'', ''{}'')]"
proof -
  have w: "watched ''lab.state_changed'' 0 sample_watched = [(''lab.state_changed'', ''{}'')]"
    by (simp add: watched_def sample_browser)
  thus ?thesis
    using sse_delivery [OF sample_watch_reachable sample_one_line, of "''lab.state_changed''" 0] sample_watched_facts(2-4)
    by metis
qed

theorem sse_private_witness:
  "\<exists>i ps. sample_own i = Some 1 \<and> ''{}'' = (\<lambda>_. ''{}'') (JObj ps) \<and> map_of ps ''labId'' = Some (JStr (uuid_string sample_lib i))"
proof -
  have "uuid_ok sample_lib" by (simp add: uuid_ok_def sample_lib_def)
  moreover have "(''lab.state_changed'', ''{}'') \<in> set (browser_events (sc_stream (br_client sample_watched 0)))"
    by (simp add: sample_browser)
  ultimately show ?thesis
    using sse_private [OF sample_watch_reachable sample_one_line _ sample_watched_facts(1)] by force
qed

theorem lab_change_for_student_witness:
  "\<exists>ev. sse_project sample_lib (\<lambda>_. ''{}'') (resolve_owner (world_of () sample_labs))
     (fst (lab_message sample_lib (EventStateChanged 7 Checking Ready ''ok'')))
     (snd (lab_message sample_lib (EventStateChanged 7 Checking Ready ''ok''))) = Inr (ev, ''user:u'')"
proof -
  have "uuid_ok sample_lib" "uuid_string sample_lib 7 \<noteq> []" by (simp_all add: uuid_ok_def sample_lib_def)
  moreover have "get_lab_row 7 (committed (world_of () sample_labs)) = Some (sample_lab_row 7 1 Ready (Some 3) 50)"
    by (simp add: get_sample_lab world_of_def committed_def)
  moreover have "\<exists>l. lab_from_row (sample_lab_row 7 1 Ready (Some 3) 50) = Inr l"
    by (simp add: lab_from_row_def sample_lab_row_def ki_resources_from_json_def json_field_def decode_list_def decode_string_def)
  then obtain l where "lab_from_row (sample_lab_row 7 1 Ready (Some 3) 50) = Inr l" by blast
  moreover have "e_db_fault (w_env (world_of () sample_labs)) (w_stmt (world_of () sample_labs)) = None"
    by (simp add: world_of_def quiet_env_def)
  ultimately have "sse_project sample_lib (\<lambda>_. ''{}'') (resolve_owner (world_of () sample_labs))
     (fst (lab_message sample_lib (EventStateChanged 7 Checking Ready ''ok'')))
     (snd (lab_message sample_lib (EventStateChanged 7 Checking Ready ''ok''))) =
     Inr (\<lparr>ev_type = ''lab.state_changed'', ev_data = ''{}'', ev_id = []\<rparr>,
      user_audience sample_lib (lr_student (sample_lab_row 7 1 Ready (Some 3) 50)))"
    by (rule lab_change_for_student)
  moreover have "user_audience sample_lib (lr_student (sample_lab_row 7 1 Ready (Some 3) 50)) = ''user:u''"
    by (simp add: user_audience_def sample_lab_row_def sample_lib_def)
  ultimately show ?thesis by simp
qed

end
