(* ===== verification/HttpEntry.thy ===== *)
theory HttpEntry
  imports HttpSession MoodleApp SseBroker
begin

text \<open>
  The two entries beside the REST API: the browser's LTI launch (\<open>httpapi/lti.go\<close>), which signs a user in, and the
  stream of events (\<open>sse/handler.go\<close>), which uses the session. A form is \<open>None\<close> when it cannot be parsed.
\<close>

section \<open>The launch\<close>

record lti_deps =
  lt_moodle :: "jwt_lib option"
  lt_lib :: lib
  lt_jwt :: session_jwt
  lt_dev :: bool
  lt_secret :: string
  lt_ttl :: duration

definition default_session_ttl :: duration where "default_session_ttl = 8 * 3600 * second"

definition form_value :: "(string \<times> string) list \<Rightarrow> string \<Rightarrow> string" where
  "form_value form name = coalesce (map_of form name) []"

definition launch_principal :: "launch_result \<Rightarrow> principal" where
  "launch_principal res = \<lparr>pr_user = us_id (lu_user res), pr_display = us_display_name (lu_user res), pr_email = us_email (lu_user res),
     pr_role = role_text (us_role (lu_user res)), pr_courses = http_course_roles (lu_course_roles res)\<rparr>"

text \<open>The answer, with its location if it is a redirect.\<close>

definition lti_handle_launch :: "lti_deps \<Rightarrow> http_request \<Rightarrow> (string \<times> string) list option \<Rightarrow>
    verifier world \<Rightarrow> (http_response \<times> string option) \<times> verifier world" where
  "lti_handle_launch D r form w =
     (let problem = (\<lambda>e. (render_problem (hq_id r) (AppErr e), None)) in
      case lt_moodle D of
        None \<Rightarrow> (problem (Sentinel ErrLMSUnavailable), w)
      | Some J \<Rightarrow> (case form of
          None \<Rightarrow> (problem (Sentinel ErrInvalidInput), w)
        | Some f \<Rightarrow> (case handle_launch J \<lparr>li_token = form_value f ''id_token'', li_state = form_value f ''state'',
              li_nonce = form_value f ''nonce''\<rparr> w of
            (Inl e, w) \<Rightarrow> (problem e, w)
          | (Inr res, w) \<Rightarrow>
              (let ttl = (if lt_ttl D \<le> 0 then default_session_ttl else lt_ttl D) in
               case issue_session (lt_lib D) (lt_jwt D) (launch_principal res) ttl (lt_secret D) (lt_dev D) w of
                 (Inl e, w) \<Rightarrow> (problem e, w)
               | (Inr ck, w) \<Rightarrow> ((\<lparr>hr_status = 303, hr_type = [], hr_body = NoBody, hr_cookies = [ck]\<rparr>,
                   Some (if lu_redirect res = [] then ''/'' else lu_redirect res)), w)))))"

section \<open>The stream of events\<close>

definition plain_error :: "int \<Rightarrow> http_response" where
  "plain_error status = \<lparr>hr_status = status, hr_type = ''text/plain; charset=utf-8'', hr_body = NoBody, hr_cookies = []\<rparr>"

text \<open>
  \<open>sse_labs\<close> up to the loop of the client, which is a step of \<open>SseBroker\<close>; \<open>flusher\<close> tells whether the response can be flushed.
\<close>

definition sse_labs :: "string \<Rightarrow> lib \<Rightarrow> session_jwt \<Rightarrow> string \<Rightarrow> bool \<Rightarrow> http_request \<Rightarrow> broker option \<Rightarrow>
    'c world \<Rightarrow> (http_response \<times> broker option) \<times> 'c world" where
  "sse_labs env_secret L J secret flusher r b w = (case b of
     None \<Rightarrow> ((plain_error 503, None), w)
   | Some br \<Rightarrow> (case parse_principal env_secret L J r secret w of
       (Inl e, w) \<Rightarrow> ((plain_error 401, b), w)
     | (Inr p, w) \<Rightarrow>
         if \<not> flusher then ((plain_error 500, b), w)
         else ((\<lparr>hr_status = 200, hr_type = ''text/event-stream'', hr_body = NoBody, hr_cookies = []\<rparr>,
           Some (broker_subscribe [user_audience L (pr_user p), audience_all] br)), w)))"

section \<open>Properties\<close>

lemma role_text_of: "role_text (role_of s) = s" by (simp add: role_text_def role_of_def)

lemma course_role_text_of: "course_role_text (course_role_of s) = s" by (simp add: course_role_text_def course_role_of_def)

lemma launch_actor: "map (\<lambda>(i, r). (i, course_role_text r)) (ac_course_roles (lab_actor (launch_principal res))) =
    map (\<lambda>(i, r). (i, course_role_text r)) (lu_course_roles res)"
  by (induction "lu_course_roles res" arbitrary: res)
    (simp_all add: lab_actor_def launch_principal_def principal_course_roles_def http_course_roles_def course_role_text_of split_def)

lemma lti_launch_cookie:
  assumes "lti_handle_launch D r form w = ((resp, Some loc), w')"
  shows "\<exists>J f res w1 ck ttl. lt_moodle D = Some J \<and> form = Some f \<and> handle_launch J \<lparr>li_token = form_value f ''id_token'',
      li_state = form_value f ''state'', li_nonce = form_value f ''nonce''\<rparr> w = (Inr res, w1) \<and>
    issue_session (lt_lib D) (lt_jwt D) (launch_principal res) ttl (lt_secret D) (lt_dev D) w1 = (Inr ck, w') \<and> hr_cookies resp = [ck]"
  using assms unfolding lti_handle_launch_def Let_def by (force split: option.splits prod.splits sum.splits)


text \<open>The world at the launch: the session library that signs the claims of this launch.\<close>

definition sample_launch_deps :: "session_claims \<Rightarrow> lti_deps" where
  "sample_launch_deps c = \<lparr>lt_moodle = Some sample_jwt, lt_lib = sample_lib, lt_jwt = jwt_for c, lt_dev = False,
     lt_secret = ''key'', lt_ttl = 0\<rparr>"


end
