(* ===== verification/Processes.thy ===== *)
theory Processes
  imports HttpEntry HttpSafety OpenStack CleanupApp OutboxApp
begin

text \<open>
  The two processes. \<open>cmd/gateway/main.go\<close> builds its services from the configuration and mounts the API, the LTI endpoint
  and the stream of events; \<open>cmd/worker/main.go\<close> builds the task handlers and registers them with the queue
  (\<open>internal/adapters/queue/asynq/registry.go\<close>). What a start finds outside is a record: the environment, whether
  PostgreSQL and Redis answer, the libraries. Signals, the shutdown, the logger and the pooling of connections are left out.
\<close>

section \<open>The key of the secret store\<close>

text \<open>\<open>base64.StdEncoding\<close>: padded, line breaks ignored, the unused bits of the last digit not looked at.\<close>

definition std_digit :: "char \<Rightarrow> int option" where
  "std_digit c = (if c = CHR ''+'' then Some 62 else if c = CHR ''/'' then Some 63
     else if c = CHR ''-'' \<or> c = CHR ''_'' then None else b64_digit c)"

definition std_bytes :: "string \<Rightarrow> int list option" where
  "std_bytes cs = (case those (map std_digit cs) of None \<Rightarrow> None | Some ds \<Rightarrow> b64_bytes ds)"

fun std_quanta :: "string \<Rightarrow> int list option" where
  "std_quanta (a # b # c # d # s) =
     (if s = [] \<and> d = CHR ''='' then std_bytes (if c = CHR ''='' then [a, b] else [a, b, c])
      else case (std_bytes [a, b, c, d], std_quanta s) of (Some x, Some y) \<Rightarrow> Some (x @ y) | _ \<Rightarrow> None)"
| "std_quanta [] = Some []"
| "std_quanta s = None"

definition std_decode :: "string \<Rightarrow> int list option" where
  "std_decode s = std_quanta (filter (\<lambda>c. c \<noteq> CHR 0x0A \<and> c \<noteq> CHR 0x0D) s)"

definition new_key_provider :: "environment \<Rightarrow> err + bytes" where
  "new_key_provider env =
     (if env ''CLG_KEK_BASE64'' = [] then Inl (Plain ''envkek: CLG_KEK_BASE64 is required'')
      else case std_decode (env ''CLG_KEK_BASE64'') of
        None \<Rightarrow> Inl (Plain ''envkek: invalid KEK encoding'')
      | Some bs \<Rightarrow> new_key_provider_from_key (map of_int bs))"

section \<open>Starting the gateway\<close>

record outside =
  out_env :: environment
  out_parse_float :: "string \<Rightarrow> rat option"
  out_lib :: lib
  out_session_jwt :: session_jwt
  out_lti_jwt :: jwt_lib
  out_postgres :: "err option"
  out_redis :: "err option"
  out_subscribe :: "string \<Rightarrow> err + unit"
  out_clock :: "nat \<Rightarrow> time"
  out_jwks :: "nat \<Rightarrow> jwks_reply"
  out_nonces :: "nat \<Rightarrow> string \<Rightarrow> err + bool"

definition env_or_default :: "environment \<Rightarrow> string \<Rightarrow> string \<Rightarrow> string" where
  "env_or_default env key fallback = (if env key \<noteq> [] then env key else fallback)"

definition gateway_lab_deps :: "lib \<Rightarrow> bytes \<Rightarrow> config \<Rightarrow> lab_deps" where
  "gateway_lab_deps L kek cfg = \<lparr>ld_lib = L, ld_kek = kek, ld_threshold_pct = qc_threshold_pct (cf_quota cfg),
     ld_quota_max_age = wrap64 (wrap64 (qc_cache_ttl_seconds (cf_quota cfg) * 2) * second),
     ld_cleanup_after = lf_cleanup (cf_lifecycle cfg), ld_freeze_for = lf_freeze (cf_lifecycle cfg)\<rparr>"

definition dev_mode :: "environment \<Rightarrow> bool" where
  "dev_mode env \<longleftrightarrow> env ''CLG_ENV'' \<noteq> ''production''"

definition gateway_verifier :: "outside \<Rightarrow> verifier" where
  "gateway_verifier X = new_verifier (env_or_default (out_env X) ''LTI_PLATFORM_ISSUER'' ''https://moodle-emulator.local'')
     (env_or_default (out_env X) ''LTI_AUDIENCE'' ''cloud-lab-gateway'')
     (env_or_default (out_env X) ''LTI_JWKS_URL'' ''http://localhost:9000/jwks.json'')
     0 (out_clock X) (out_jwks X) (Some (out_nonces X))"

record gateway =
  gw_api :: "verifier api_server"
  gw_lti :: lti_deps
  gw_lib :: lib
  gw_jwt :: session_jwt
  gw_secret :: string
  gw_env_secret :: string

text \<open>The gateway gives the checks neither secrets nor a runner: it only queues them.\<close>

definition gateway_check_deps :: "lib \<Rightarrow> 'c check_deps" where
  "gateway_check_deps L = \<lparr>vd_lib = L, vd_kek = [], vd_runner = (\<lambda>_ c. ((errored_result [], Some nil_dereference), c))\<rparr>"

definition gateway_of :: "outside \<Rightarrow> bytes \<Rightarrow> config \<Rightarrow> gateway" where
  "gateway_of X kek cfg =
     (let L = out_lib X; secret = jc_secret (cf_jwt cfg); dev = dev_mode (out_env X);
        labs = gateway_lab_deps L kek cfg in
      \<lparr>gw_api = \<lparr>sv_session = \<lparr>sc_lib = L, sc_jwt = out_session_jwt X, sc_secret = secret,
           sc_env_secret = out_env X ''CLG_JWT_SECRET'', sc_dev = dev\<rparr>,
         sv_lab = Some labs, sv_lab_ops = Some labs, sv_verify = Some (gateway_check_deps L), sv_admin = Some L\<rparr>,
       gw_lti = \<lparr>lt_moodle = Some (out_lti_jwt X), lt_lib = L, lt_jwt = out_session_jwt X, lt_dev = dev, lt_secret = secret,
         lt_ttl = jc_ttl (cf_jwt cfg)\<rparr>,
       gw_lib = L, gw_jwt = out_session_jwt X, gw_secret = secret, gw_env_secret = out_env X ''CLG_JWT_SECRET''\<rparr>)"

definition start_gateway :: "outside \<Rightarrow> err + gateway" where
  "start_gateway X =
     (case config_load (out_parse_float X) (out_env X) of
        (_, Some e) \<Rightarrow> Inl (Wrapped ''config'' e)
      | (cfg, None) \<Rightarrow>
          (case validate_for_gateway cfg of
             Some e \<Rightarrow> Inl (Wrapped ''config validation'' e)
           | None \<Rightarrow>
               (case out_postgres X of Some e \<Rightarrow> Inl (Wrapped ''postgres'' e)
                | None \<Rightarrow> (case out_redis X of Some e \<Rightarrow> Inl (Wrapped ''redis'' e)
                  | None \<Rightarrow> (case new_key_provider (out_env X) of Inl e \<Rightarrow> Inl e
                    | Inr kek \<Rightarrow> (case broker_start (out_subscribe X) event_topics [] of
                        (_, Some e) \<Rightarrow> Inl e
                      | (_, None) \<Rightarrow> Inr (gateway_of X kek cfg)))))))"

section \<open>Serving\<close>

datatype part = PartHealthz | PartReadyz | PartApi | PartLti | PartSse | PartNone

text \<open>A mount takes the path itself and everything below it.\<close>

definition mounted :: "string \<Rightarrow> string \<Rightarrow> bool" where
  "mounted p path \<longleftrightarrow> path = p \<or> take (Suc (length p)) path = p @ ''/''"

definition part_of :: "string \<Rightarrow> part" where
  "part_of path = (if path = ''/healthz'' then PartHealthz else if path = ''/readyz'' then PartReadyz
     else if mounted ''/api/v1'' path then PartApi else if mounted ''/lti'' path then PartLti
     else if mounted ''/sse'' path then PartSse else PartNone)"

text \<open>What a request finds outside: its parsed form, whether PostgreSQL and Redis answer a ping, whether its response can be flushed.\<close>

record surroundings =
  su_bind :: bind_lib
  su_form :: "(string \<times> string) list option"
  su_pg_ping :: "err option"
  su_redis_ping :: "err option"
  su_flusher :: bool

definition only_method :: "string \<Rightarrow> api_request \<Rightarrow> http_response \<Rightarrow> http_response" where
  "only_method m r resp = (if hq_method (rq_http r) = m then resp else router_answer 405)"

definition readyz_answer :: "surroundings \<Rightarrow> http_response" where
  "readyz_answer U = (if su_pg_ping U \<noteq> None \<or> su_redis_ping U \<noteq> None then plain_error 503 else empty_response 200)"

definition gateway_serve :: "gateway \<Rightarrow> surroundings \<Rightarrow> api_request \<Rightarrow> verifier world \<times> broker \<Rightarrow>
    (http_response \<times> string option) \<times> verifier world \<times> broker" where
  "gateway_serve G U r wb = (case wb of (w, b) \<Rightarrow>
     (case part_of (hq_path (rq_http r)) of
        PartHealthz \<Rightarrow> ((only_method ''GET'' r (empty_response 200), None), w, b)
      | PartReadyz \<Rightarrow> ((only_method ''GET'' r (readyz_answer U), None), w, b)
      | PartApi \<Rightarrow> (case api_serve (gw_api G) (su_bind U) r w of (resp, w) \<Rightarrow> ((resp, None), w, b))
      | PartLti \<Rightarrow>
          if hq_path (rq_http r) \<noteq> ''/lti/launch'' then ((router_answer 404, None), w, b)
          else if hq_method (rq_http r) \<noteq> ''POST'' then ((router_answer 405, None), w, b)
          else (case lti_handle_launch (gw_lti G) (rq_http r) (su_form U) w of (resp, w) \<Rightarrow> (resp, w, b))
      | PartSse \<Rightarrow>
          if hq_path (rq_http r) \<noteq> ''/sse/labs'' then ((router_answer 404, None), w, b)
          else if hq_method (rq_http r) \<noteq> ''GET'' then ((router_answer 405, None), w, b)
          else (case sse_labs (gw_env_secret G) (gw_lib G) (gw_jwt G) (gw_secret G) (su_flusher U) (rq_http r) (Some b) w of
             ((resp, b'), w) \<Rightarrow> ((resp, None), w, case b' of Some b' \<Rightarrow> b' | None \<Rightarrow> b))
      | PartNone \<Rightarrow> ((router_answer 404, None), w, b)))"

section \<open>The worker\<close>

record 'c worker =
  wk_deploy :: "'c deploy_deps"
  wk_cleanup :: "'c cleanup_deps"
  wk_cloud :: "'c cloud_ops"
  wk_check :: "'c check_deps"

text \<open>The clock, the contexts and the key material of the in-memory provider are those of \<open>new_provider\<close>.\<close>

definition build_cloud_provider :: "(nat \<Rightarrow> time) \<Rightarrow> (nat \<Rightarrow> err option) \<Rightarrow> (nat \<Rightarrow> err + string \<times> bytes \<times> string) \<Rightarrow> config \<Rightarrow> 'o \<Rightarrow> err + ((inmem + 'o os_provider) \<times> string)" where
  "build_cloud_provider now dn gen cfg s =
     (if cf_cloud_provider cfg \<in> set [[], ''inmem''] then Inr (Inl (new_provider default_capacity no_faults now dn gen), ''inmem'')
      else if cf_cloud_provider cfg = ''openstack'' then
        (case os_new (cf_openstack cfg) s of
           Inl e \<Rightarrow> Inl (Wrapped ''openstack provider'' e)
         | Inr p \<Rightarrow> Inr (Inr p, ''openstack''))
      else Inl (Plain (''unsupported CLG_CLOUD_PROVIDER '' @ quoted (cf_cloud_provider cfg))))"

definition worker_of :: "lib \<Rightarrow> bytes \<Rightarrow> config \<Rightarrow> 'c cloud_ops \<Rightarrow>
    (check_request \<Rightarrow> 'c \<Rightarrow> (check_result \<times> err option) \<times> 'c) \<Rightarrow> 'c worker" where
  "worker_of L kek cfg C runner =
     \<lparr>wk_deploy = \<lparr>dd_lib = L, dd_kek = kek, dd_cloud = C, dd_checks = False, dd_cleanup_after = lf_cleanup (cf_lifecycle cfg),
        dd_max_attempts = 0\<rparr>,
      wk_cleanup = \<lparr>cd_lib = L, cd_cloud = C\<rparr>, wk_cloud = C, wk_check = \<lparr>vd_lib = L, vd_kek = kek, vd_runner = runner\<rparr>\<rparr>"

text \<open>The start of the worker up to its registry; it does not ask for the gateway's validation.\<close>

definition start_worker :: "outside \<Rightarrow> (nat \<Rightarrow> time) \<Rightarrow> (nat \<Rightarrow> err option) \<Rightarrow> (nat \<Rightarrow> err + string \<times> bytes \<times> string) \<Rightarrow> 'o \<Rightarrow> err + (config \<times> bytes \<times> (inmem + 'o os_provider) \<times> string)" where
  "start_worker X now dn gen s =
     (case config_load (out_parse_float X) (out_env X) of
        (_, Some e) \<Rightarrow> Inl (Wrapped ''config'' e)
      | (cfg, None) \<Rightarrow>
          (case out_postgres X of Some e \<Rightarrow> Inl (Wrapped ''postgres'' e)
           | None \<Rightarrow> (case out_redis X of Some e \<Rightarrow> Inl (Wrapped ''redis'' e)
             | None \<Rightarrow> (case build_cloud_provider now dn gen cfg s of Inl e \<Rightarrow> Inl e
               | Inr (c, name) \<Rightarrow> (case new_key_provider (out_env X) of Inl e \<Rightarrow> Inl e
                 | Inr kek \<Rightarrow> Inr (cfg, kek, c, name))))))"

definition worker_handlers :: "'c worker \<Rightarrow> (string \<times> (task \<Rightarrow> ('c, unit) prog)) list" where
  "worker_handlers W =
     [(task_type_text TaskDeployLab, deploy_handle_task (wk_deploy W)), (task_type_text TaskCleanupLab, cleanup_handle_task (wk_cleanup W)),
      (task_type_text TaskRefreshQuota, refresh_quota_handle_task (wk_cloud W)), (task_type_text TaskRunCheck, check_handle_task (wk_check W))]"

text \<open>
  A delivery. \<open>mux\<close> is asynq's \<open>ServeMux\<close>: it picks one of the patterns that handlers are registered under, for a
  registered type the type itself (\<open>mux_ok\<close>).
\<close>

definition mux_ok :: "(string list \<Rightarrow> string \<Rightarrow> string option) \<Rightarrow> bool" where
  "mux_ok mux \<longleftrightarrow> (\<forall>ps t. t \<in> set ps \<longrightarrow> mux ps t = Some t) \<and> (\<forall>ps t p. mux ps t = Some p \<longrightarrow> p \<in> set ps)"

definition worker_deliver :: "(string list \<Rightarrow> string \<Rightarrow> string option) \<Rightarrow> 'c worker \<Rightarrow> task \<Rightarrow> ('c, unit) prog" where
  "worker_deliver mux W t =
     (case Option.bind (mux (map fst (worker_handlers W)) (task_type_text (tk_type t))) (map_of (worker_handlers W)) of
        None \<Rightarrow> throw (Plain (''handler not found for task '' @ quoted (task_type_text (tk_type t))))
      | Some h \<Rightarrow> h (from_asynq_task t))"

definition registry_concurrency :: "int \<Rightarrow> int" where
  "registry_concurrency n = (if n \<le> 0 then 8 else n)"

section \<open>The event bus\<close>

text \<open>\<open>Publish\<close> of the bus on Redis; \<open>publish\<close> is the client's.\<close>

definition bus_publish :: "(string \<Rightarrow> json \<Rightarrow> 'b \<Rightarrow> (err + unit) \<times> 'b) \<Rightarrow> string \<Rightarrow> json \<Rightarrow> 'b \<Rightarrow> (err + unit) \<times> 'b" where
  "bus_publish publish topic payload b = (case publish topic payload b of
     (Inl e, b) \<Rightarrow> (Inl (Wrapped (''eventbus: publish '' @ topic) e), b) | (Inr u, b) \<Rightarrow> (Inr u, b))"

end
