(* ===== verification/ProcessSafety.thy ===== *)
theory ProcessSafety
  imports Processes
begin

text \<open>
  What the gateway process promises as a whole, from its environment to its answers: a process that starts has its
  secrets, and in production only a session or a launch moves it.
\<close>

section \<open>The start\<close>

lemma start_gateway_InrD:
  assumes "start_gateway X = Inr G"
  shows "out_env X ''CLG_JWT_SECRET'' \<noteq> [] \<and> out_env X ''PG_DSN'' \<noteq> [] \<and> (\<exists>kek. new_key_provider (out_env X) = Inr kek \<and>
    G = gateway_of X kek (config_from_env (out_parse_float X) (out_env X)))"
proof -
  obtain cfg e where load: "config_load (out_parse_float X) (out_env X) = (cfg, e)" by fastforce
  have e: "e = None" using assms load by (cases e) (simp_all add: start_gateway_def)
  hence "out_env X ''CLG_JWT_SECRET'' \<noteq> []" "out_env X ''PG_DSN'' \<noteq> []"
    using load load_ok [of "out_parse_float X" "out_env X"] by simp_all
  moreover have "cfg = config_from_env (out_parse_float X) (out_env X)"
    using load by (simp add: config_load_def Let_def)
  ultimately show ?thesis
    using assms load e unfolding start_gateway_def
    by (auto split: option.splits sum.splits prod.splits)
qed

lemma gateway_of_sel:
  "gw_lib (gateway_of X kek cfg) = out_lib X" "gw_jwt (gateway_of X kek cfg) = out_session_jwt X"
  "gw_secret (gateway_of X kek cfg) = jc_secret (cf_jwt cfg)" "gw_env_secret (gateway_of X kek cfg) = out_env X ''CLG_JWT_SECRET''"
  "sv_session (gw_api (gateway_of X kek cfg)) = \<lparr>sc_lib = out_lib X, sc_jwt = out_session_jwt X, sc_secret = jc_secret (cf_jwt cfg),
     sc_env_secret = out_env X ''CLG_JWT_SECRET'', sc_dev = dev_mode (out_env X)\<rparr>"
  by (simp_all add: gateway_of_def Let_def)

lemma configured_secret: "jc_secret (cf_jwt (config_from_env pf env)) = env ''CLG_JWT_SECRET''"
  by (simp add: config_from_env_def get_string_def)

section \<open>Who moves it\<close>

text \<open>The request carries a session: a cookie signed with the secret, alive, of a principal.\<close>

definition carries_session :: "lib \<Rightarrow> session_jwt \<Rightarrow> string \<Rightarrow> http_request \<Rightarrow> time \<Rightarrow> bool" where
  "carries_session L J secret r now \<longleftrightarrow> (\<exists>token claims p. request_cookie r session_cookie_name = Some token \<and>
     sj_sign J ''HS256'' secret claims = Inr token \<and> alive now claims \<and> principal_of L claims = Inr p)"

lemma api_stranger:
  assumes "jwt_ok (sc_jwt (sv_session S))" "\<not> sc_dev (sv_session S)" "api_serve S B r w = (resp, w')"
    and "sc_secret (sv_session S) = secret" "sc_env_secret (sv_session S) = secret"
  shows "carries_session (server_lib S) (sc_jwt (sv_session S)) secret (rq_http r) (e_clock (w_env w) (w_tick w)) \<or> same_effects w w'"
proof -
  obtain res w1 where auth: "require_auth (sv_session S) (rq_http r) w = (res, w1)" by fastforce
  note ok = session_required [OF assms(1,2) auth]
  have same: "same_effects w w1" using ok by (simp add: same_effects_def)
  consider "\<exists>e. res = Inl e" | "res = Inr None" | p where "res = Inr (Some p)" by (cases res) (blast, metis option.exhaust)
  thus ?thesis
  proof cases
    case 1
    thus ?thesis using assms(3) auth same by (auto simp: api_serve_def)
  next
    case 2
    hence "route_request S B None r w1 = (resp, w')" using assms(3) auth by (simp add: api_serve_def)
    thus ?thesis using no_principal_no_effect [of S B r w1] same by simp
  next
    case (3 p)
    thus ?thesis using ok assms(4,5) by (auto simp: carries_session_def split: if_splits)
  qed
qed

lemma sse_stranger:
  assumes "jwt_ok J" "sse_labs secret L J secret fl r (Some b) w = ((resp, b'), w')"
  shows "same_effects w w' \<and> (carries_session L J secret r (e_clock (w_env w) (w_tick w)) \<or> b' = Some b)"
proof -
  obtain pp w1 where parse: "parse_principal secret L J r secret w = (pp, w1)" by fastforce
  have "same_effects w w1"
    using parse by (auto simp: parse_principal_def Let_def io_simps clock_now_def same_effects_def split: option.splits if_splits sum.splits)
  moreover have "w' = w1" using assms(2) parse by (auto simp: sse_labs_def split: sum.splits if_splits)
  moreover have "carries_session L J secret r (e_clock (w_env w) (w_tick w))" if q: "pp = Inr q" for q
  proof -
    from parse_principal_InrD [OF parse [unfolded q]] obtain token claims where t:
      "request_cookie r session_cookie_name = Some token"
      "sj_parse J token (session_key secret) [''HS256''] (e_clock (w_env w) (w_tick w)) = Inr claims" "principal_of L claims = Inr q"
      by (auto simp: Let_def)
    from jwt_signed [OF assms(1) t(2)] t show ?thesis unfolding carries_session_def by (auto simp: session_key_def)
  qed
  moreover have "b' = Some b" if "pp = Inl e" for e using assms(2) parse that by (simp add: sse_labs_def)
  ultimately show ?thesis by (cases pp) auto
qed

text \<open>
  C6: the gateway in production. If the process starts with CLG_ENV set to production, it has a secret for its sessions;
  and from then on, whatever the request, its path, its parameters and the state of the databases, either the request
  carries a cookie signed with that secret which has not expired and names a principal, or it is a launch by POST at
  /lti/launch, or nothing is written, queued or asked of the platform and no stream of events is opened.
\<close>
theorem gateway_closed:
  assumes "start_gateway X = Inr G" "out_env X ''CLG_ENV'' = ''production''" "jwt_ok (out_session_jwt X)"
    and "gateway_serve G U r (w, b) = (answer_loc, w', b')"
  shows "out_env X ''CLG_JWT_SECRET'' \<noteq> [] \<and>
    ((\<exists>token claims p. request_cookie (rq_http r) session_cookie_name = Some token \<and>
        sj_sign (out_session_jwt X) ''HS256'' (out_env X ''CLG_JWT_SECRET'') claims = Inr token \<and>
        alive (e_clock (w_env w) (w_tick w)) claims \<and> principal_of (out_lib X) claims = Inr p) \<or>
     hq_method (rq_http r) = ''POST'' \<and> hq_path (rq_http r) = ''/lti/launch'' \<or>
     same_effects w w' \<and> b' = b)"
proof -
  let ?secret = "out_env X ''CLG_JWT_SECRET''" and ?path = "hq_path (rq_http r)"
  from start_gateway_InrD [OF assms(1)] obtain kek where G: "G = gateway_of X kek (config_from_env (out_parse_float X) (out_env X))"
    and secret: "?secret \<noteq> []" by blast
  note sel = gateway_of_sel [of X kek "config_from_env (out_parse_float X) (out_env X)", folded G, unfolded configured_secret]
  let ?closed = "carries_session (out_lib X) (out_session_jwt X) ?secret (rq_http r) (e_clock (w_env w) (w_tick w)) \<or>
     hq_method (rq_http r) = ''POST'' \<and> ?path = ''/lti/launch'' \<or> same_effects w w' \<and> b' = b"
  have refl: "same_effects w w" by (simp add: same_effects_def)
  have ?closed
  proof (cases "part_of ?path")
    case PartApi
    then obtain resp where "api_serve (gw_api G) (su_bind U) r w = (resp, w')" "b' = b"
      using assms(4) by (auto simp: gateway_serve_def split: prod.splits)
    moreover have "\<not> sc_dev (sv_session (gw_api G))" using assms(2) by (simp add: sel dev_mode_def)
    ultimately show ?thesis using api_stranger [of "gw_api G" "su_bind U" r w resp w' ?secret] assms(3)
      by (auto simp: sel)
  next
    case PartSse
    show ?thesis
    proof (cases "?path = ''/sse/labs'' \<and> hq_method (rq_http r) = ''GET''")
      case True
      obtain resp b1 w1 where sse: "sse_labs ?secret (out_lib X) (out_session_jwt X) ?secret (su_flusher U) (rq_http r) (Some b) w = ((resp, b1), w1)"
        by (metis surj_pair)
      have "w' = w1 \<and> b' = (case b1 of Some b' \<Rightarrow> b' | None \<Rightarrow> b)"
        using True PartSse assms(4) sse by (auto simp: gateway_serve_def sel split: option.splits)
      thus ?thesis using sse_stranger [OF assms(3) sse] by auto
    next
      case False
      thus ?thesis using PartSse assms(4) refl by (auto simp: gateway_serve_def split: if_splits)
    qed
  next
    case PartLti
    thus ?thesis using assms(4) refl by (auto simp: gateway_serve_def split: if_splits)
  qed (use assms(4) refl in \<open>auto simp: gateway_serve_def\<close>)
  thus ?thesis using secret unfolding carries_session_def by blast
qed

text \<open>
  With any other value of CLG_ENV, \<open>staging\<close> as well as a misspelt \<open>production\<close>, a cookie anyone can write makes its bearer
  an administrator.
\<close>

lemma dev_admin:
  assumes "start_gateway X = Inr G" "out_env X ''CLG_ENV'' \<noteq> ''production''" "\<not> is_auth_exempt r"
    and "hq_cookies r = [(''clg_dev_role'', ''admin'')]" "uuid_parse (out_lib X) ''1f387a9d-3316-48b7-9f0f-c8aaccc1fd88'' = Some i"
  shows "\<exists>p. require_auth (sv_session (gw_api G)) r w = (Inr (Some p), w) \<and> pr_role p = ''admin''"
proof -
  from start_gateway_InrD [OF assms(1)] obtain kek where G: "G = gateway_of X kek (config_from_env (out_parse_float X) (out_env X))" by blast
  show ?thesis
    using assms(2-5) by (simp add: G gateway_of_sel dev_mode_def require_auth_def parse_principal_def request_cookie_def session_cookie_name_def
        dev_principal_def dev_ids_def app_def io_simps Let_def)
qed

section \<open>The worker\<close>

text \<open>A delivery of a registered type reaches the handler registered for it.\<close>

lemma deliver_registered:
  assumes "mux_ok mux" "(task_type_text (tk_type t), h) \<in> set (worker_handlers W)"
  shows "worker_deliver mux W t = h (from_asynq_task t)"
proof -
  have "distinct (map fst (worker_handlers W))" by (simp add: worker_handlers_def task_type_text_def)
  hence "map_of (worker_handlers W) (task_type_text (tk_type t)) = Some h" by (rule map_of_is_SomeI) (rule assms(2))
  moreover have "mux (map fst (worker_handlers W)) (task_type_text (tk_type t)) = Some (task_type_text (tk_type t))"
    using assms by (force simp: mux_ok_def)
  ultimately show ?thesis by (simp add: worker_deliver_def)
qed

section \<open>Witnesses\<close>

definition sample_env :: environment where
  "sample_env key = (if key = ''PG_DSN'' then ''pg'' else if key = ''CLG_JWT_SECRET'' then ''key'' else if key = ''CLG_ENV'' then ''production''
     else if key = ''CLG_KEK_BASE64'' then replicate 43 (CHR ''A'') @ ''='' else [])"

definition sample_outside :: outside where
  "sample_outside = \<lparr>out_env = sample_env, out_parse_float = (\<lambda>_. None), out_lib = sample_lib, out_session_jwt = sample_session_jwt,
     out_lti_jwt = sample_jwt, out_postgres = None, out_redis = None, out_subscribe = (\<lambda>_. Inr ()), out_clock = int,
     out_jwks = (\<lambda>_. NetworkError), out_nonces = (\<lambda>_ _. Inr True)\<rparr>"

definition sample_surroundings :: surroundings where
  "sample_surroundings = \<lparr>su_bind = sample_bind, su_form = None, su_pg_ping = None, su_redis_ping = None, su_flusher = True\<rparr>"

lemma sample_start: "\<exists>G. start_gateway sample_outside = Inr G"
proof -
  have "case new_key_provider sample_env of Inr kek \<Rightarrow> True | Inl _ \<Rightarrow> False" by code_simp
  then obtain kek where kek: "new_key_provider sample_env = Inr kek" by (auto split: sum.splits)
  obtain cfg where load: "config_load (\<lambda>_. None) sample_env = (cfg, None)"
    using load_ok [of "\<lambda>_. None" sample_env] by (cases "config_load (\<lambda>_. None) sample_env") (simp add: sample_env_def)
  hence "cfg = config_from_env (\<lambda>_. None) sample_env" by (simp add: config_load_def Let_def)
  hence "validate_for_gateway cfg = None"
    using load by (simp add: validate_for_gateway_def config_load_def Let_def) (simp add: config_from_env_def get_string_def sample_env_def)
  moreover have "broker_start (\<lambda>_. Inr ()) topics started = (started @ topics, None)" for topics started
    by (induction topics arbitrary: started) simp_all
  ultimately show ?thesis
    using load kek by (auto simp: start_gateway_def sample_outside_def)
qed

theorem gateway_closed_witness:
  "\<exists>G out w' b'. start_gateway sample_outside = Inr G \<and>
     gateway_serve G sample_surroundings (sample_post\<lparr>rq_http := (rq_http sample_post)\<lparr>hq_cookies := []\<rparr>\<rparr>) (world_of sample_verifier sample_campus, new_broker) = (out, w', b') \<and>
     same_effects (world_of sample_verifier sample_campus) w' \<and> b' = new_broker"
proof -
  let ?r = "sample_post\<lparr>rq_http := (rq_http sample_post)\<lparr>hq_cookies := []\<rparr>\<rparr>" and ?w = "world_of sample_verifier sample_campus"
  obtain G where G: "start_gateway sample_outside = Inr G" using sample_start by blast
  obtain out w' b' where run: "gateway_serve G sample_surroundings ?r (?w, new_broker) = (out, w', b')" by (metis surj_pair)
  have "out_env sample_outside ''CLG_ENV'' = ''production''" "jwt_ok (out_session_jwt sample_outside)"
    by (simp_all add: sample_outside_def sample_env_def jwt_for_ok)
  from gateway_closed [OF G this run] have "same_effects ?w w' \<and> b' = new_broker"
    by (simp add: sample_post_def sample_request_def request_cookie_def)
  thus ?thesis using G run by blast
qed

end
