(* ===== verification/Emulator.thy ===== *)
theory Emulator
  imports ProcessSafety
begin

text \<open>
  \<open>cmd/moodle-emulator\<close>: the LMS of the demo. It shows courses and users, signs an LTI launch for the user that is picked,
  and serves the public key; the gateway accepts its launches out of the box. Parameters are the random source, the key
  functions of the standard library, the disk, and the signing of tokens by the JWT library. Pages are the data that is put
  into their templates.
\<close>

section \<open>Courses and users\<close>

record emu_lab =
  el_slug :: string
  el_title :: string

record emu_course =
  ec_external_id :: string
  ec_title :: string
  ec_labs :: "emu_lab list"

record emu_user =
  eu_external_id :: string
  eu_name :: string
  eu_role :: string

definition emu_courses :: "emu_course list" where
  "emu_courses = [
     \<lparr>ec_external_id = ''linux-101'' , ec_title = ''Linux '' @ utf8 [208, 190, 209, 129, 208, 189, 208, 190,
     208, 178, 209, 139],
      ec_labs = [\<lparr>el_slug = ''linux-basics-1'' , el_title = utf8 [208, 155, 208, 176, 208, 177, 208, 176] @
      '' 1: '' @ utf8 [208, 191, 208, 190, 208, 187, 209, 140, 208, 183, 208, 190, 208, 178, 208, 176, 209, 130, 208,
      181, 208, 187, 208, 184, 32, 208, 184, 32, 208, 191, 209, 128, 208, 176, 208, 178, 208, 176]\<rparr>,
        \<lparr>el_slug = ''linux-basics-2'' , el_title = utf8 [208, 155, 208, 176, 208, 177, 208, 176] @
        '' 2: cron '' @ utf8 [208, 184] @ '' systemd'' \<rparr>]\<rparr>,
     \<lparr>ec_external_id = ''nginx-201'' , ec_title = ''Nginx '' @ utf8 [208, 184, 32, 208, 186, 208, 190, 208,
     189, 209, 132, 208, 184, 208, 179, 209, 131, 209, 128, 208, 176, 209, 134, 208, 184, 209, 143],
      ec_labs = [\<lparr>el_slug = ''nginx-config-1'' , el_title = utf8 [208, 155, 208, 176, 208, 177, 208, 176] @
      '' 1: SSL + reverse proxy'' \<rparr>]\<rparr>]"

definition emu_users :: "emu_user list" where
  "emu_users = [
     \<lparr>eu_external_id = ''student-001'' , eu_name = utf8 [208, 152, 208, 178, 208, 176, 208, 189, 32, 208, 159,
     208, 181, 209, 130, 209, 128, 208, 190, 208, 178], eu_role = ''Learner'' \<rparr>,
     \<lparr>eu_external_id = ''student-002'' , eu_name = utf8 [208, 144, 208, 189, 208, 189, 208, 176, 32, 208, 161,
     208, 188, 208, 184, 209, 128, 208, 189, 208, 190, 208, 178, 208, 176], eu_role = ''Learner'' \<rparr>,
     \<lparr>eu_external_id = ''student-003'' , eu_name = utf8 [208, 158, 208, 187, 208, 181, 208, 179, 32, 208, 152,
     208, 178, 208, 176, 208, 189, 208, 190, 208, 178], eu_role = ''Learner'' \<rparr>,
     \<lparr>eu_external_id = ''student-004'' , eu_name = utf8 [208, 156, 208, 176, 209, 128, 208, 184, 209, 143, 32,
     208, 154, 209, 131, 208, 183, 208, 189, 208, 181, 209, 134, 208, 190, 208, 178, 208, 176], eu_role = ''Learner''
     \<rparr>,
     \<lparr>eu_external_id = ''student-005'' , eu_name = utf8 [208, 148, 208, 188, 208, 184, 209, 130, 209, 128,
     208, 184, 208, 185, 32, 208, 161, 208, 190, 208, 186, 208, 190, 208, 187, 208, 190, 208, 178], eu_role =
     ''Learner'' \<rparr>,
     \<lparr>eu_external_id = ''teacher-001'' , eu_name = utf8 [208, 159, 209, 128, 208, 181, 208, 191, 208, 190,
     208, 180, 208, 176, 208, 178, 208, 176, 209, 130, 208, 181, 208, 187, 209, 140, 32, 208, 161, 208, 181, 209,
     128, 208, 179, 208, 181, 208, 185], eu_role = ''Instructor'' \<rparr>]"


definition find_user :: "string \<Rightarrow> emu_user option" where
  "find_user i = find (\<lambda>u. eu_external_id u = i) emu_users"

fun find_lab_in :: "string \<Rightarrow> string \<Rightarrow> emu_course list \<Rightarrow> (emu_course \<times> emu_lab) option" where
  "find_lab_in course slug [] = None"
| "find_lab_in course slug (c # cs) =
     (if ec_external_id c \<noteq> course then find_lab_in course slug cs
      else case find (\<lambda>l. el_slug l = slug) (ec_labs c) of
        Some l \<Rightarrow> Some (c, l) | None \<Rightarrow> find_lab_in course slug cs)"

definition find_lab :: "string \<Rightarrow> string \<Rightarrow> (emu_course \<times> emu_lab) option" where
  "find_lab course slug = find_lab_in course slug emu_courses"

section \<open>The key\<close>

datatype file_reply = NotExist | ReadFailed err | Contents string

datatype 'k parsed_key = RsaKey 'k | OtherKey

text \<open>
  The standard library and the world around it: reads of the random source by their number and length, the clock, PEM and
  X.509, the disk. \<open>em_sign\<close> signs claims by RS256 under a key identifier; its claims carry the time they expire.
\<close>

record issued_claims = launch_claims +
  ic_expires :: time
  ic_issued :: time

record 'k emu_lib =
  em_random :: "nat \<Rightarrow> nat \<Rightarrow> err + int list"
  em_clock :: "nat \<Rightarrow> time"
  em_generate :: "nat \<Rightarrow> err + 'k"
  em_pem_decode :: "string \<Rightarrow> string option"
  em_pem_encode :: "string \<Rightarrow> string \<Rightarrow> string"
  em_pkcs1 :: "string \<Rightarrow> 'k option"
  em_pkcs8 :: "string \<Rightarrow> err + 'k parsed_key"
  em_marshal :: "'k \<Rightarrow> err + string"
  em_write :: "string \<Rightarrow> string \<Rightarrow> (string \<Rightarrow> file_reply) \<Rightarrow> err option \<times> (string \<Rightarrow> file_reply)"
  em_public :: "'k \<Rightarrow> rsa_key"
  em_sign :: "string \<Rightarrow> issued_claims \<Rightarrow> 'k \<Rightarrow> err + string"

record emu_world =
  ew_disk :: "string \<Rightarrow> file_reply"
  ew_draws :: nat
  ew_ticks :: nat

type_synonym 'a emu_prog = "(emu_world, err, 'a) io"

record 'k signer =
  sg_kid :: string
  sg_key :: 'k

definition read_private_key :: "'k emu_lib \<Rightarrow> string \<Rightarrow> err + 'k" where
  "read_private_key L raw =
     (case em_pem_decode L raw of
        None \<Rightarrow> Inl (Plain ''moodle-emulator: private key pem is invalid'')
      | Some block \<Rightarrow>
          (case em_pkcs1 L block of Some k \<Rightarrow> Inr k
           | None \<Rightarrow> (case em_pkcs8 L block of
               Inl e \<Rightarrow> Inl (Wrapped ''moodle-emulator: parse private key'' e)
             | Inr OtherKey \<Rightarrow> Inl (Plain ''moodle-emulator: private key is not RSA'')
             | Inr (RsaKey k) \<Rightarrow> Inr k)))"

definition write_private_key :: "'k emu_lib \<Rightarrow> string \<Rightarrow> 'k \<Rightarrow> unit emu_prog" where
  "write_private_key L path key =
     bind (on_err (Wrapped ''moodle-emulator: marshal private key'') (from_sum (em_marshal L key))) (\<lambda>raw.
     bind (get_w (\<lambda>w. em_write L path (em_pem_encode L ''PRIVATE KEY'' raw) (ew_disk w))) (\<lambda>(e, disk).
     bind (upd_w (\<lambda>w. w\<lparr>ew_disk := disk\<rparr>)) (\<lambda>_.
     case e of None \<Rightarrow> ret () | Some e \<Rightarrow> throw (Wrapped ''moodle-emulator: write private key'' e))))"

definition next_draw :: "nat emu_prog" where
  "next_draw w = (Inr (ew_draws w), w\<lparr>ew_draws := Suc (ew_draws w)\<rparr>)"

definition load_signer :: "'k emu_lib \<Rightarrow> string \<Rightarrow> string \<Rightarrow> 'k signer emu_prog" where
  "load_signer L path kid =
     (if kid = [] then throw (Plain ''moodle-emulator: kid is required'')
      else let path = (if path = [] then ''/tmp/moodle-emulator-key.pem'' else path) in
        bind (get_w (\<lambda>w. ew_disk w path)) (\<lambda>file.
        case file of
          Contents raw \<Rightarrow> bind (from_sum (read_private_key L raw)) (\<lambda>k. ret \<lparr>sg_kid = kid, sg_key = k\<rparr>)
        | ReadFailed e \<Rightarrow> throw e
        | NotExist \<Rightarrow>
            bind next_draw (\<lambda>n.
            case em_generate L n of
              Inl e \<Rightarrow> throw (Wrapped ''moodle-emulator: generate rsa key'' e)
            | Inr k \<Rightarrow> bind (write_private_key L path k) (\<lambda>_. ret \<lparr>sg_kid = kid, sg_key = k\<rparr>))))"

text \<open>\<open>big.Int.Bytes\<close>, and \<open>base64.RawURLEncoding.EncodeToString\<close>.\<close>

function int_bytes :: "int \<Rightarrow> int list" where
  "int_bytes n = (if n \<le> 0 then [] else int_bytes (n div 256) @ [n mod 256])"
  by pat_completeness auto
termination by (relation "measure nat") auto

definition b64_char :: "int \<Rightarrow> char" where
  "b64_char d = (if d < 26 then char_of (d + 65) else if d < 52 then char_of (d + 71)
     else if d < 62 then char_of (d - 4) else if d = 62 then CHR ''-'' else CHR ''_'')"

fun b64_sextets :: "int list \<Rightarrow> int list" where
  "b64_sextets (a # b # c # bs) = (let v = (a * 256 + b) * 256 + c in
     v div 262144 # v div 4096 mod 64 # v div 64 mod 64 # v mod 64 # b64_sextets bs)"
| "b64_sextets [a, b] = (let v = a * 256 + b in [v div 1024, v div 16 mod 64, v mod 16 * 4])"
| "b64_sextets [a] = [a div 4, a mod 4 * 16]"
| "b64_sextets [] = []"

definition b64_encode :: "int list \<Rightarrow> string" where
  "b64_encode bs = map b64_char (b64_sextets bs)"

definition public_jwk :: "'k emu_lib \<Rightarrow> 'k signer \<Rightarrow> jwk" where
  "public_jwk L s = (let pub = em_public L (sg_key s) in
     \<lparr>jk_kty = ''RSA'', jk_use = ''sig'', jk_kid = sg_kid s, jk_alg = ''RS256'',
      jk_n = b64_encode (int_bytes (rk_n pub)), jk_e = b64_encode (int_bytes (rk_e pub))\<rparr>)"

section \<open>A launch\<close>

record launch_payload =
  lp_token :: string
  lp_state :: string
  lp_nonce :: string

definition hex_digit :: "int \<Rightarrow> char" where
  "hex_digit d = (if d < 10 then char_of (48 + d) else char_of (87 + d))"

definition hex_text :: "int list \<Rightarrow> string" where
  "hex_text bs = concat (map (\<lambda>b. [hex_digit (b div 16), hex_digit (b mod 16)]) bs)"

definition random_hex :: "'k emu_lib \<Rightarrow> nat \<Rightarrow> string emu_prog" where
  "random_hex L n =
     bind next_draw (\<lambda>i.
     case em_random L i n of
       Inl e \<Rightarrow> throw (Wrapped ''moodle-emulator: random bytes'' e)
     | Inr bs \<Rightarrow> ret (hex_text bs))"

definition role_uri :: "string \<Rightarrow> string" where
  "role_uri role = (if role = ''Instructor'' then ''http://purl.imsglobal.org/vocab/lis/v2/membership#Instructor''
     else ''http://purl.imsglobal.org/vocab/lis/v2/membership#Learner'')"

definition emu_client_id :: string where
  "emu_client_id = ''cloud-lab-gateway''"

definition launch_claims_for :: "time \<Rightarrow> string \<Rightarrow> emu_user \<Rightarrow> emu_course \<Rightarrow> emu_lab \<Rightarrow> string \<Rightarrow> issued_claims" where
  "launch_claims_for now issuer u c l nonce =
     \<lparr>lc_issuer = issuer, lc_subject = ''user-'' @ eu_external_id u, lc_audience = [emu_client_id], lc_azp = emu_client_id,
      lc_nonce = nonce, lc_deployment = ''emu-deployment-1'', lc_message_type = ''LtiResourceLinkRequest'',
      lc_version = ''1.3.0'', lc_roles = [role_uri (eu_role u)], lc_context_id = ec_external_id c,
      lc_context_label = ec_external_id c, lc_context_title = ec_title c, lc_resource_id = el_slug l,
      lc_resource_title = el_title l, lc_template_slug = el_slug l, lc_email = eu_external_id u @ ''@emulator.local'',
      lc_name = eu_name u, ic_expires = now + 300 * second, ic_issued = now\<rparr>"

definition issue_launch :: "'k emu_lib \<Rightarrow> 'k signer \<Rightarrow> time \<Rightarrow> string \<Rightarrow> emu_user \<Rightarrow> emu_course \<Rightarrow> emu_lab \<Rightarrow>
    launch_payload emu_prog" where
  "issue_launch L s now issuer u c l =
     bind (random_hex L 32) (\<lambda>nonce.
     bind (random_hex L 16) (\<lambda>state.
     let claims = launch_claims_for now issuer u c l nonce in
     bind (from_sum (validate_resource_link (launch_claims.truncate claims))) (\<lambda>_.
     bind (on_err (Wrapped ''moodle-emulator: sign launch'') (from_sum (em_sign L (sg_kid s) claims (sg_key s)))) (\<lambda>token.
     ret \<lparr>lp_token = token, lp_state = state, lp_nonce = nonce\<rparr>))))"

section \<open>The server\<close>

record emu_config =
  em_addr :: string
  em_gateway_url :: string
  em_issuer :: string
  em_key_path :: string
  em_kid :: string

definition trim_right :: "char \<Rightarrow> string \<Rightarrow> string" where
  "trim_right c s = rev (dropWhile ((=) c) (rev s))"

definition emu_config_from_env :: "environment \<Rightarrow> emu_config" where
  "emu_config_from_env env = (let port = env_or_default env ''EMULATOR_PORT'' ''9000'' in
     \<lparr>em_addr = (if contains '':'' port then port else '':'' @ port),
      em_gateway_url = trim_right CHR ''/'' (env_or_default env ''EMULATOR_GATEWAY_URL'' ''http://localhost:8080''),
      em_issuer = env_or_default env ''EMULATOR_ISSUER'' ''https://moodle-emulator.local'',
      em_key_path = env ''EMULATOR_PRIVATE_KEY_PEM_PATH'',
      em_kid = env_or_default env ''EMULATOR_LTI_KID'' ''emu-key-1''\<rparr>)"

record 'k emu_server =
  es_config :: emu_config
  es_signer :: "'k signer"

definition emu_start :: "'k emu_lib \<Rightarrow> environment \<Rightarrow> 'k emu_server emu_prog" where
  "emu_start L env = (let cfg = emu_config_from_env env in
     bind (load_signer L (em_key_path cfg) (em_kid cfg)) (\<lambda>s. ret \<lparr>es_config = cfg, es_signer = s\<rparr>))"

text \<open>A request: its form, if it parses, and its query.\<close>

record emu_request =
  er_method :: string
  er_path :: string
  er_form :: "err + (string \<Rightarrow> string)"
  er_query :: "string \<Rightarrow> string"

datatype emu_page =
    IndexPage "emu_course list" "emu_user list"
  | KeysPage "jwk list"
  | LaunchPage string launch_payload
  | ErrorPage int string

definition emu_now :: "'k emu_lib \<Rightarrow> time emu_prog" where
  "emu_now L w = (Inr (em_clock L (ew_ticks w)), w\<lparr>ew_ticks := Suc (ew_ticks w)\<rparr>)"

definition handle_launch_form :: "'k emu_lib \<Rightarrow> 'k emu_server \<Rightarrow> emu_request \<Rightarrow> emu_world \<Rightarrow> emu_page \<times> emu_world" where
  "handle_launch_form L S rq w =
     (case er_form rq of
        Inl e \<Rightarrow> (ErrorPage 400 (error_text e), w)
      | Inr form \<Rightarrow>
          (case find_user (form ''user'') of
             None \<Rightarrow> (ErrorPage 400 ''unknown user'', w)
           | Some u \<Rightarrow>
               (case find_lab (er_query rq ''course'') (er_query rq ''lab'') of
                  None \<Rightarrow> (ErrorPage 400 ''unknown course or lab'', w)
                | Some (c, l) \<Rightarrow>
                    (case bind (emu_now L) (\<lambda>now. issue_launch L (es_signer S) now (em_issuer (es_config S)) u c l) w of
                       (Inl e, w') \<Rightarrow> (ErrorPage 500 (error_text e), w')
                     | (Inr p, w') \<Rightarrow> (LaunchPage (em_gateway_url (es_config S) @ ''/lti/launch'') p, w')))))"

text \<open>The three patterns of the router, for paths in their clean form; a pattern for GET also takes HEAD.\<close>

definition emu_serve :: "'k emu_lib \<Rightarrow> 'k emu_server \<Rightarrow> emu_request \<Rightarrow> emu_world \<Rightarrow> emu_page \<times> emu_world" where
  "emu_serve L S rq w =
     (if er_method rq = ''GET'' \<or> er_method rq = ''HEAD'' then
        (if er_path rq = ''/jwks.json'' then KeysPage [public_jwk L (es_signer S)] else IndexPage emu_courses emu_users, w)
      else if er_method rq = ''POST'' \<and> er_path rq = ''/launch'' then handle_launch_form L S rq w
      else (ErrorPage 405 ''Method Not Allowed'', w))"

section \<open>Encodings\<close>

declare int_bytes.simps [simp del]

definition byte_list :: "int list \<Rightarrow> bool" where
  "byte_list bs \<longleftrightarrow> (\<forall>b \<in> set bs. 0 \<le> b \<and> b < 256)"

lemma byte_list_simps [simp]:
  "byte_list []" "byte_list (b # bs) \<longleftrightarrow> 0 \<le> b \<and> b < 256 \<and> byte_list bs" "byte_list (bs @ cs) \<longleftrightarrow> byte_list bs \<and> byte_list cs"
  by (auto simp: byte_list_def)

lemma int_bytes_bytes: "byte_list (int_bytes n)"
  by (induction n rule: int_bytes.induct) (subst int_bytes.simps, simp)

lemma big_endian_snoc: "big_endian (bs @ [b]) = 256 * big_endian bs + b"
  by (simp add: big_endian_def)

lemma big_endian_int_bytes: "0 \<le> n \<Longrightarrow> big_endian (int_bytes n) = n"
proof (induction n rule: int_bytes.induct)
  case (1 n)
  show ?case
  proof (cases "n = 0")
    case True
    then show ?thesis by (simp add: int_bytes.simps big_endian_def)
  next
    case False
    with 1 show ?thesis by (subst int_bytes.simps) (simp add: big_endian_snoc)
  qed
qed

lemma int_bytes_some: "0 < n \<Longrightarrow> int_bytes n \<noteq> []"
  by (subst int_bytes.simps) simp

definition sextet_list :: "int list \<Rightarrow> bool" where
  "sextet_list ds \<longleftrightarrow> (\<forall>d \<in> set ds. 0 \<le> d \<and> d < 64)"

lemma b64_digit_char: "0 \<le> d \<Longrightarrow> d < 64 \<Longrightarrow> b64_digit (b64_char d) = Some d"
  by (auto simp: b64_digit_def b64_char_def Let_def of_char_of)

lemma b64_digits_chars: "sextet_list ds \<Longrightarrow> b64_digits (map b64_char ds) = Some ds"
  by (induction ds) (auto simp: sextet_list_def b64_digit_char)

lemma b64_char_plain: "0 \<le> d \<Longrightarrow> d < 64 \<Longrightarrow> b64_char d \<noteq> CHR 0x0A \<and> b64_char d \<noteq> CHR 0x0D"
  using b64_digit_char [of d] by (auto simp: b64_digit_def)

lemma sextets_range: "byte_list bs \<Longrightarrow> sextet_list (b64_sextets bs)"
  by (induction bs rule: b64_sextets.induct) (auto simp: sextet_list_def Let_def)

lemma byte_carry: "0 \<le> b \<Longrightarrow> b < 256 \<Longrightarrow> (x * 256 + b) div 256 = x \<and> (x * 256 + b) mod 256 = (b :: int)"
  by simp

lemma sextets_back: "byte_list bs \<Longrightarrow> b64_bytes (b64_sextets bs) = Some bs"
proof (induction bs rule: b64_sextets.induct)
  case (1 a b c bs)
  define v where "v = (a * 256 + b) * 256 + c"
  have "v div 4096 = v div 64 div 64" "v div 262144 = v div 64 div 64 div 64" by (simp_all flip: zdiv_zmult2_eq)
  then have "((v div 262144 * 64 + v div 4096 mod 64) * 64 + v div 64 mod 64) * 64 + v mod 64 = v"
    by (simp only: div_mult_mod_eq)
  moreover have low: "v div 256 = a * 256 + b" "v mod 256 = c" using 1(2) byte_carry [of c "a * 256 + b"] by (simp_all add: v_def)
  moreover have "v div 65536 = v div 256 div 256" by (simp flip: zdiv_zmult2_eq)
  then have "v div 65536 = a" "v div 256 mod 256 = b" using 1(2) byte_carry [of b a] low by simp_all
  moreover have "b64_bytes (b64_sextets bs) = Some bs" using 1 by (simp del: b64_sextets.simps)
  ultimately show ?case by (simp only: b64_sextets.simps b64_bytes.simps Let_def v_def [symmetric] option.map)
next
  case (2 a b)
  define v where "v = a * 256 + b"
  have "v div 1024 = v div 16 div 64" by (simp flip: zdiv_zmult2_eq)
  then have "(v div 1024 * 64 + v div 16 mod 64) * 16 + v mod 16 = v" by (simp only: div_mult_mod_eq)
  then have "(v div 1024 * 64 + v div 16 mod 64) * 64 + v mod 16 * 4 = v * 4" by linarith
  moreover have "v * 4 div 1024 = v div 256" "v * 4 div 4 = v" using div_mult_mult2 [of 4 v 256] by simp_all
  moreover have "v div 256 = a" "v mod 256 = b" using 2 byte_carry [of b a] by (simp_all add: v_def)
  ultimately show ?case by (simp only: b64_sextets.simps b64_bytes.simps Let_def v_def [symmetric])
next
  case (3 a)
  have "a div 4 * 64 + a mod 4 * 16 = a * 16" using div_mult_mod_eq [of a 4] by linarith
  then show ?case by (simp del: div_mult_self1 div_mult_self2 div_mult_self3 div_mult_self4)
qed simp

lemma b64_round: "byte_list bs \<Longrightarrow> b64_decode (b64_encode bs) = Some bs"
proof -
  assume bs: "byte_list bs"
  then have "filter (\<lambda>c. c \<noteq> CHR 0x0A \<and> c \<noteq> CHR 0x0D) (b64_encode bs) = b64_encode bs"
    using sextets_range b64_char_plain by (fastforce simp: b64_encode_def sextet_list_def filter_id_conv)
  then show ?thesis
    using bs by (simp add: b64_decode_def b64_encode_def b64_digits_chars sextets_range sextets_back)
qed

lemma b64_encode_some: "bs \<noteq> [] \<Longrightarrow> b64_encode bs \<noteq> []"
  by (cases bs rule: b64_sextets.cases) (auto simp: b64_encode_def Let_def)

text \<open>The gateway reads from the emulator's key set the key that the emulator signs with.\<close>

lemma jwk_read_back:
  assumes "sg_kid s \<noteq> []" "0 < rk_n (em_public L (sg_key s))" "1 < rk_e (em_public L (sg_key s))" "rk_e (em_public L (sg_key s)) < 2 ^ 63"
  shows "jwk_public_key (public_jwk L s) = Inr (em_public L (sg_key s))"
  using assms by (auto simp: jwk_public_key_def public_jwk_def Let_def b64_encode_some int_bytes_some b64_round int_bytes_bytes
      big_endian_int_bytes)

section \<open>What the libraries promise\<close>

text \<open>Text that JSON carries unchanged: valid UTF-8, as Go's decoder reads it.\<close>

fun utf8_ok :: "int list \<Rightarrow> bool" where
  "utf8_ok [] = True"
| "utf8_ok (a # s) = (if a < 128 then utf8_ok s else case s of [] \<Rightarrow> False | b # s \<Rightarrow> 128 \<le> b \<and> b < 192 \<and>
     (if 194 \<le> a \<and> a < 224 then utf8_ok s else case s of [] \<Rightarrow> False | c # s \<Rightarrow> 128 \<le> c \<and> c < 192 \<and>
     (if 224 \<le> a \<and> a < 240 then (a = 224 \<longrightarrow> 160 \<le> b) \<and> (a = 237 \<longrightarrow> b < 160) \<and> utf8_ok s
      else case s of [] \<Rightarrow> False | d # s \<Rightarrow> 128 \<le> d \<and> d < 192 \<and>
        240 \<le> a \<and> a < 245 \<and> (a = 240 \<longrightarrow> 144 \<le> b) \<and> (a = 244 \<longrightarrow> b < 144) \<and> utf8_ok s)))"

definition text_ok :: "string \<Rightarrow> bool" where
  "text_ok s \<longleftrightarrow> utf8_ok (map of_char s)"

definition claims_text :: "'a launch_claims_scheme \<Rightarrow> bool" where
  "claims_text c \<longleftrightarrow> list_all text_ok ([lc_issuer c, lc_subject c, lc_azp c, lc_nonce c, lc_deployment c, lc_message_type c,
     lc_version c, lc_context_id c, lc_context_label c, lc_context_title c, lc_resource_id c, lc_resource_title c,
     lc_template_slug c, lc_email c, lc_name c] @ lc_audience c @ lc_roles c)"

text \<open>
  Signing and checking undo each other: a token of the emulator's library parses in the gateway's to the claims it was made
  of, its signature holds under the public key, and it is valid for its audience and issuer until it expires, which is kept
  in whole seconds.
\<close>

definition token_for :: "jwt_lib \<Rightarrow> rsa_key \<Rightarrow> string \<Rightarrow> issued_claims \<Rightarrow> string \<Rightarrow> bool" where
  "token_for J pub kid c token \<longleftrightarrow> token \<noteq> [] \<and> jw_parse J token = Some (''RS256'', kid, launch_claims.truncate c) \<and>
     jw_signed J token pub \<and>
     (\<forall>aud \<in> set (lc_audience c). \<forall>wall. wall + second \<le> ic_expires c \<longrightarrow> jw_valid J token aud (lc_issuer c) wall)"

definition signs :: "jwt_lib \<Rightarrow> 'k emu_lib \<Rightarrow> bool" where
  "signs J L \<longleftrightarrow> (\<forall>kid c k. text_ok kid \<longrightarrow> claims_text c \<longrightarrow> (\<exists>token. em_sign L kid c k = Inr token \<and> token_for J (em_public L k) kid c token))"

definition draws :: "'k emu_lib \<Rightarrow> bool" where
  "draws L \<longleftrightarrow> (\<forall>i n. \<exists>bs. em_random L i n = Inr bs \<and> length bs = n \<and> byte_list bs)"

definition usable_key :: "rsa_key \<Rightarrow> bool" where
  "usable_key k \<longleftrightarrow> 0 < rk_n k \<and> 1 < rk_e k \<and> rk_e k < 2 ^ 63"

section \<open>The launches\<close>

declare utf8_ok.simps [simp del]

lemma utf8_ok_append: "utf8_ok s \<Longrightarrow> utf8_ok t \<Longrightarrow> utf8_ok (s @ t)"
proof (induction s rule: utf8_ok.induct)
  case (2 a s)
  note head = utf8_ok.simps(2) [of a]
  show ?case
  proof (cases "a < 128")
    case True
    with 2 show ?thesis by (simp add: head)
  next
    case False
    note ih = 2(2-4) [OF False]
    from False 2(5) obtain b s1 where s: "s = b # s1" by (cases s) (auto simp: head)
    show ?thesis
    proof (cases "194 \<le> a \<and> a < 224")
      case True
      with False 2(5,6) s ih(1) [OF s True] show ?thesis by (simp add: head)
    next
      case two: False
      from False two 2(5) s obtain c s2 where s1: "s1 = c # s2" by (cases s1) (auto simp: head)
      show ?thesis
      proof (cases "224 \<le> a \<and> a < 240")
        case True
        with False 2(5,6) s s1 ih(2) [OF s two s1 True] show ?thesis by (simp add: head if_not_P [OF two])
      next
        case three: False
        from False two three 2(5) s s1 obtain d s3 where s2: "s2 = d # s3" by (cases s2) (auto simp: head)
        with False 2(5,6) s s1 ih(3) [OF s two s1 three s2] show ?thesis
          by (simp add: head if_not_P [OF two] if_not_P [OF three])
      qed
    qed
  qed
qed (simp add: utf8_ok.simps)

lemma text_ok_append: "text_ok s \<Longrightarrow> text_ok t \<Longrightarrow> text_ok (s @ t)"
  by (simp add: text_ok_def utf8_ok_append)

lemma utf8_ok_ascii: "\<forall>c \<in> set s. c < 128 \<Longrightarrow> utf8_ok s"
  by (induction s) (auto simp: utf8_ok.simps)

lemma hex_digit_ascii: "0 \<le> d \<Longrightarrow> d < 16 \<Longrightarrow> (of_char (hex_digit d) :: int) < 128"
  by (auto simp: hex_digit_def of_char_of)

lemma hex_text_ok: "byte_list bs \<Longrightarrow> text_ok (hex_text bs)"
  unfolding text_ok_def by (rule utf8_ok_ascii) (auto simp: hex_text_def byte_list_def intro!: hex_digit_ascii)

lemma hex_text_some: "bs \<noteq> [] \<Longrightarrow> hex_text bs \<noteq> []"
  by (cases bs) (simp_all add: hex_text_def)

lemma random_hex_run:
  assumes "draws L" "0 < n"
  shows "\<exists>h. random_hex L n w = (Inr h, w\<lparr>ew_draws := Suc (ew_draws w)\<rparr>) \<and> h \<noteq> [] \<and> text_ok h"
proof -
  from assms(1) obtain bs where "em_random L (ew_draws w) n = Inr bs" "length bs = n" "byte_list bs" by (auto simp: draws_def)
  with assms(2) show ?thesis
    by (auto simp: random_hex_def next_draw_def bind_def ret_def hex_text_ok hex_text_some)
qed

lemma users_text: "\<forall>u \<in> set emu_users. text_ok (eu_external_id u) \<and> text_ok (eu_name u) \<and> eu_external_id u \<noteq> []"
  by code_simp

lemma courses_text: "\<forall>c \<in> set emu_courses. text_ok (ec_external_id c) \<and> text_ok (ec_title c) \<and> ec_external_id c \<noteq> [] \<and>
    (\<forall>l \<in> set (ec_labs c). text_ok (el_slug l) \<and> text_ok (el_title l) \<and> el_slug l \<noteq> [])"
  by code_simp

lemma constants_text:
  "text_ok ''user-''" "text_ok ''@emulator.local''" "text_ok ''emu-deployment-1''" "text_ok ''LtiResourceLinkRequest''"
  "text_ok ''1.3.0''" "text_ok emu_client_id" "text_ok (role_uri r)" "text_ok ''https://moodle-emulator.local''" "text_ok ''emu-key-1''"
  by (simp_all only: role_uri_def split: if_splits) (code_simp | intro conjI impI, code_simp, code_simp)+

lemma find_user_in: "find_user i = Some u \<Longrightarrow> u \<in> set emu_users \<and> eu_external_id u = i"
  by (auto simp: find_user_def find_Some_iff)

lemma find_lab_in_in: "find_lab_in i slug cs = Some (c, l) \<Longrightarrow> c \<in> set cs \<and> ec_external_id c = i \<and> l \<in> set (ec_labs c) \<and> el_slug l = slug"
  by (induction i slug cs rule: find_lab_in.induct) (auto simp: find_Some_iff split: if_splits option.splits)

lemma launch_claims_text:
  assumes "u \<in> set emu_users" "c \<in> set emu_courses" "l \<in> set (ec_labs c)" "text_ok issuer" "text_ok nonce"
  shows "claims_text (launch_claims_for now issuer u c l nonce)"
  using assms users_text courses_text text_ok_append [OF constants_text(1), of "eu_external_id u"]
  by (auto simp: claims_text_def launch_claims_for_def constants_text text_ok_append)

lemma launch_claims_valid:
  assumes "u \<in> set emu_users" "c \<in> set emu_courses" "l \<in> set (ec_labs c)" "issuer \<noteq> []" "nonce \<noteq> []"
  shows "validate_resource_link (launch_claims.truncate (launch_claims_for now issuer u c l nonce)) = Inr ()"
  using assms courses_text by (auto simp: validate_resource_link_def launch_claims_for_def launch_claims.defs)

text \<open>A launch for anyone on the list is issued, with a token of its claims.\<close>

lemma issue_launch_run:
  assumes lib: "draws L" "signs J L" and kid: "text_ok (sg_kid s)" and issuer: "issuer \<noteq> []" "text_ok issuer"
    and known: "u \<in> set emu_users" "c \<in> set emu_courses" "l \<in> set (ec_labs c)"
  shows "\<exists>p w'. issue_launch L s now issuer u c l w = (Inr p, w') \<and> lp_nonce p \<noteq> [] \<and>
    token_for J (em_public L (sg_key s)) (sg_kid s) (launch_claims_for now issuer u c l (lp_nonce p)) (lp_token p) \<and>
    validate_resource_link (launch_claims.truncate (launch_claims_for now issuer u c l (lp_nonce p))) = Inr ()"
proof -
  obtain nonce where n: "random_hex L 32 w = (Inr nonce, w\<lparr>ew_draws := Suc (ew_draws w)\<rparr>)" "nonce \<noteq> []" "text_ok nonce"
    using random_hex_run [OF lib(1), of 32] by auto
  obtain state where st: "random_hex L 16 (w\<lparr>ew_draws := Suc (ew_draws w)\<rparr>) = (Inr state, w\<lparr>ew_draws := Suc (Suc (ew_draws w))\<rparr>)"
    using random_hex_run [OF lib(1), of 16 "w\<lparr>ew_draws := Suc (ew_draws w)\<rparr>"] by auto
  note valid = launch_claims_valid [OF known issuer(1) n(2), of now]
  have "claims_text (launch_claims_for now issuer u c l nonce)"
    using launch_claims_text [OF known issuer(2) n(3)] .
  then obtain token where "em_sign L (sg_kid s) (launch_claims_for now issuer u c l nonce) (sg_key s) = Inr token"
    "token_for J (em_public L (sg_key s)) (sg_kid s) (launch_claims_for now issuer u c l nonce) token"
    using lib(2) kid unfolding signs_def by blast
  with n st valid show ?thesis
    by (auto simp: issue_launch_def bind_def ret_def on_err_def from_sum_def Let_def)
qed

text \<open>A token that the platform's one key signed is accepted by a verifier that has seen nothing yet.\<close>

lemma fresh_verifier_accepts:
  assumes token: "token_for J key (jk_kid j) c token" "jk_kid j \<noteq> []" and keys: "vf_keys v = []"
    "vf_http v (vf_fetches v) = Response 200 (Some [j])" "jwk_public_key j = Inr key"
    and claims: "validate_resource_link (launch_claims.truncate c) = Inr ()" "lc_azp c = vf_client v"
    "vf_client v \<in> set (lc_audience c)" "lc_issuer c = vf_issuer v" "vf_issuer v \<noteq> []" "vf_client v \<noteq> []" "vf_jwks_url v \<noteq> []"
    and clock: "vf_clock v (vf_tick v) + second \<le> ic_expires c"
    and nonce: "vf_redis v = Some redis" "\<And>n k. redis n k = Inr True"
  shows "\<exists>ll v'. verify_launch J token state (lc_nonce c) v = (Inr ll, v') \<and> ll_iss ll = lc_issuer c \<and> ll_sub ll = lc_subject c \<and>
    ll_name ll = lc_name c \<and> ll_email ll = lc_email c \<and> ll_course ll = lc_context_id c \<and> ll_resource ll = lc_resource_id c \<and>
    ll_roles ll = lc_roles c"
proof -
  have pk: "public_key (jk_kid j) v = (Inr key, v\<lparr>vf_fetches := Suc (vf_fetches v), vf_keys := [(jk_kid j, key)]\<rparr>)"
    using keys by (simp add: public_key_def bind_def get_w_def upd_w_def ret_def fetch_jwks_def Let_def map_put_def)
  from token claims clock have "jw_valid J token (vf_client v) (vf_issuer v) (vf_clock v (vf_tick v))"
    by (auto simp: token_for_def)
  with token pk have "parse_token J token v =
      (Inr (launch_claims.truncate c), v\<lparr>vf_fetches := Suc (vf_fetches v), vf_keys := [(jk_kid j, key)], vf_tick := Suc (vf_tick v)\<rparr>)"
    by (simp add: token_for_def parse_token_def bind_def on_err_def verifier_now_def get_w_def ret_def)
  with token claims nonce show ?thesis
    by (simp add: verify_launch_def token_for_def bind_def get_w_def on_err_def from_sum_def ret_def claim_nonce_def Let_def
        upd_w_def launch_claims.defs)
qed

text \<open>The role that the gateway reads from a role of the emulator.\<close>

lemma role_read_back:
  "roles_from_launch [role_uri r] = Some (if r = ''Instructor'' then (RoleTeacher, CourseRoleTeacher) else (RoleStudent, CourseRoleLearner))"
proof (cases "r = ''Instructor''")
  case True
  have "roles_from_launch [role_uri ''Instructor''] = Some (RoleTeacher, CourseRoleTeacher)" by code_simp
  with True show ?thesis by simp
next
  case False
  have "role_uri r = role_uri ''Learner''" using False by (simp add: role_uri_def)
  moreover have "roles_from_launch [role_uri ''Learner''] = Some (RoleStudent, CourseRoleLearner)" by code_simp
  ultimately show ?thesis using False by simp
qed

text \<open>A second start reads back the key the first one wrote.\<close>

definition key_files :: "'k emu_lib \<Rightarrow> bool" where
  "key_files L \<longleftrightarrow> (\<forall>k raw block. em_marshal L k = Inr raw \<longrightarrow> em_pkcs1 L raw = None \<and> em_pkcs8 L raw = Inr (RsaKey k) \<and>
     em_pem_decode L (em_pem_encode L block raw) = Some raw) \<and>
     (\<forall>path text disk. fst (em_write L path text disk) = None \<longrightarrow> snd (em_write L path text disk) = disk(path := Contents text))"

lemma written_key_reads:
  assumes "key_files L" "write_private_key L path k w = (Inr (), w')"
  shows "\<exists>raw. ew_disk w' path = Contents raw \<and> read_private_key L raw = Inr k"
proof -
  from assms(2) obtain raw where raw: "em_marshal L k = Inr raw"
    by (cases "em_marshal L k") (auto simp: write_private_key_def bind_def on_err_def from_sum_def)
  obtain e disk where wr: "em_write L path (em_pem_encode L ''PRIVATE KEY'' raw) (ew_disk w) = (e, disk)" by fastforce
  from assms(2) raw wr have "e = None" "w' = w\<lparr>ew_disk := disk\<rparr>"
    by (auto simp: write_private_key_def bind_def on_err_def from_sum_def get_w_def upd_w_def ret_def throw_def split: option.splits)
  moreover have "disk = (ew_disk w)(path := Contents (em_pem_encode L ''PRIVATE KEY'' raw))"
    using assms(1) wr \<open>e = None\<close> unfolding key_files_def by (metis fst_conv snd_conv)
  ultimately show ?thesis using assms(1) raw by (simp add: key_files_def read_private_key_def)
qed

lemma restart_same_key:
  assumes "key_files L" "load_signer L path kid w = (Inr s, w')"
  shows "load_signer L path kid w' = (Inr s, w')"
proof -
  define p where "p = (if path = [] then ''/tmp/moodle-emulator-key.pem'' else path)"
  have kid: "kid \<noteq> []" using assms(2) by (auto simp: load_signer_def throw_def)
  note run = assms(2) [unfolded load_signer_def Let_def, folded p_def]
  have reads: ?thesis if "ew_disk w' p = Contents raw" "read_private_key L raw = Inr (sg_key s)" "sg_kid s = kid" for raw
    using that kid by (simp add: load_signer_def Let_def flip: p_def) (simp add: bind_def get_w_def from_sum_def ret_def)
  show ?thesis
  proof (cases "ew_disk w p")
    case (Contents raw)
    then show ?thesis using run kid reads [of raw]
      by (cases "read_private_key L raw") (auto simp: bind_def get_w_def from_sum_def ret_def)
  next
    case NotExist
    then obtain k where "write_private_key L p k (w\<lparr>ew_draws := Suc (ew_draws w)\<rparr>) = (Inr (), w')" "s = \<lparr>sg_kid = kid, sg_key = k\<rparr>"
      using run kid by (auto simp: bind_def get_w_def next_draw_def throw_def ret_def split: sum.splits prod.splits)
    with written_key_reads [OF assms(1)] reads show ?thesis by fastforce
  qed (use run kid in \<open>auto simp: bind_def get_w_def throw_def\<close>)
qed

section \<open>Properties\<close>

definition jwks_request :: emu_request where
  "jwks_request = \<lparr>er_method = ''GET'', er_path = ''/jwks.json'', er_form = Inr (\<lambda>_. []), er_query = (\<lambda>_. [])\<rparr>"

lemma env_or_default_unset [simp]: "env key = [] \<Longrightarrow> env_or_default env key d = d"
  by (simp add: env_or_default_def)

lemma env_or_default_some [simp]: "d \<noteq> [] \<Longrightarrow> env_or_default env key d \<noteq> []"
  by (simp add: env_or_default_def)

lemma load_signer_kid: "load_signer L path kid w = (Inr s, w') \<Longrightarrow> sg_kid s = kid"
  by (auto simp: load_signer_def Let_def bind_def get_w_def ret_def throw_def from_sum_def
      split: if_splits file_reply.splits sum.splits prod.splits)

lemma emu_start_signer:
  assumes "emu_start L env w = (Inr S, w')"
  shows "es_config S = emu_config_from_env env \<and> sg_kid (es_signer S) = env_or_default env ''EMULATOR_LTI_KID'' ''emu-key-1''"
proof -
  obtain r v where run: "load_signer L (em_key_path (emu_config_from_env env)) (em_kid (emu_config_from_env env)) w = (r, v)" by fastforce
  with assms obtain s where s: "r = Inr s" "es_config S = emu_config_from_env env" "es_signer S = s"
    by (cases r) (auto simp: emu_start_def Let_def bind_def ret_def)
  with load_signer_kid run have "sg_kid s = em_kid (emu_config_from_env env)" by blast
  with s show ?thesis by (simp add: emu_config_from_env_def Let_def)
qed


text \<open>
  Libraries that keep the promises: a token spells its key identifier and claims out, each text escaped and closed by a
  full stop, and every token is taken to be signed.
\<close>

fun pack_text :: "string \<Rightarrow> string" where
  "pack_text [] = ''.''"
| "pack_text (c # s) = CHR '':'' # c # pack_text s"

definition pack :: "string list \<Rightarrow> string" where
  "pack xs = concat (map pack_text xs)"

fun unpack :: "string \<Rightarrow> string \<Rightarrow> string list" where
  "unpack acc [] = []"
| "unpack acc (x # s) = (if x = CHR ''.'' then acc # unpack [] s else case s of [] \<Rightarrow> [] | c # s \<Rightarrow> unpack (acc @ [c]) s)"

lemma unpack_text: "unpack acc (pack_text t @ s) = (acc @ t) # unpack [] s"
  by (induction t arbitrary: acc) simp_all

lemma unpack_pack: "unpack [] (pack xs) = xs"
  by (induction xs) (simp_all add: pack_def unpack_text)

definition spell :: "string \<Rightarrow> issued_claims \<Rightarrow> string" where
  "spell kid c = pack [kid, lc_issuer c, lc_subject c, pack (lc_audience c), lc_azp c, lc_nonce c, lc_deployment c,
     lc_message_type c, lc_version c, pack (lc_roles c), lc_context_id c, lc_context_label c, lc_context_title c,
     lc_resource_id c, lc_resource_title c, lc_template_slug c, lc_email c, lc_name c]"

definition read_spelled :: "string \<Rightarrow> string \<times> string \<times> launch_claims" where
  "read_spelled t = (let xs = unpack [] t in (''RS256'', xs ! 0,
     \<lparr>lc_issuer = xs ! 1, lc_subject = xs ! 2, lc_audience = unpack [] (xs ! 3), lc_azp = xs ! 4, lc_nonce = xs ! 5,
      lc_deployment = xs ! 6, lc_message_type = xs ! 7, lc_version = xs ! 8, lc_roles = unpack [] (xs ! 9),
      lc_context_id = xs ! 10, lc_context_label = xs ! 11, lc_context_title = xs ! 12, lc_resource_id = xs ! 13,
      lc_resource_title = xs ! 14, lc_template_slug = xs ! 15, lc_email = xs ! 16, lc_name = xs ! 17\<rparr>))"

lemma read_spell: "read_spelled (spell kid c) = (''RS256'', kid, launch_claims.truncate c)"
  by (simp add: read_spelled_def spell_def unpack_pack Let_def launch_claims.defs)

lemma spell_some: "spell kid c \<noteq> []"
  by (cases kid) (simp_all add: spell_def pack_def)

definition spelling_jwt :: jwt_lib where
  "spelling_jwt = \<lparr>jw_parse = (\<lambda>t. Some (read_spelled t)), jw_signed = (\<lambda>_ _. True),
     jw_valid = (\<lambda>t aud iss _. case read_spelled t of (_, _, c) \<Rightarrow> aud \<in> set (lc_audience c) \<and> lc_issuer c = iss), sha256_hex = id\<rparr>"

definition spelling_lib :: "rsa_key emu_lib" where
  "spelling_lib = \<lparr>em_random = (\<lambda>i n. Inr (replicate n (int i mod 256))), em_clock = int, em_generate = (\<lambda>_. Inr \<lparr>rk_n = 3233, rk_e = 65537\<rparr>),
     em_pem_decode = (\<lambda>_. None), em_pem_encode = (\<lambda>_ s. s), em_pkcs1 = (\<lambda>_. None), em_pkcs8 = (\<lambda>_. Inr OtherKey),
     em_marshal = (\<lambda>_. Inr []), em_write = (\<lambda>path text disk. (None, disk(path := Contents text))), em_public = id,
     em_sign = (\<lambda>kid c _. Inr (spell kid c))\<rparr>"

lemma spelling_signs: "signs spelling_jwt spelling_lib"
  by (auto simp: signs_def token_for_def spelling_jwt_def spelling_lib_def spell_some read_spell launch_claims.defs)

lemma spelling_draws: "draws spelling_lib"
  by (auto simp: draws_def spelling_lib_def byte_list_def)

definition empty_disk :: emu_world where
  "empty_disk = \<lparr>ew_disk = (\<lambda>_. NotExist), ew_draws = 0, ew_ticks = 0\<rparr>"

definition teacher_form :: emu_request where
  "teacher_form = \<lparr>er_method = ''POST'', er_path = ''/launch'', er_form = Inr (\<lambda>_. ''teacher-001''),
     er_query = (\<lambda>k. if k = ''course'' then ''nginx-201'' else ''nginx-config-1'')\<rparr>"


end
