(* ===== verification/SystemRun.thy ===== *)
theory SystemRun
  imports Processes
begin

text \<open>
  The processes together: the steps of the whole system on its database, and the two contracts that carry its
  properties. \<open>table_contract\<close> is what the statements owe an invariant of the labs and projects; \<open>system_contract\<close> is what
  the use cases and the task handlers owe a relation between the tables before and after them. Under the first the
  second holds, and under the second every step of the system is in the relation. A handler runs alone here; what its
  transactions see of others is the business of the repositories.
\<close>

section \<open>Steps\<close>

text \<open>
  A request served by the gateway, a task delivered to the worker, a round of the outbox publisher. Everything else
  (the state of the verifier, of the broker, of the cloud, the faults, the clocks) is whatever it is at that moment.
\<close>

inductive system_step :: "gateway \<Rightarrow> 'c worker \<Rightarrow> 'b publisher \<Rightarrow> (string list \<Rightarrow> string \<Rightarrow> string option) \<Rightarrow> db \<Rightarrow> db \<Rightarrow> bool"
  for G W P mux where
  serve: "w_snap w = None \<Longrightarrow> gateway_serve G U r (w, b) = (out, w', b') \<Longrightarrow> system_step G W P mux (w_db w) (w_db w')"
| deliver: "w_snap w = None \<Longrightarrow> worker_deliver mux W t w = (res, w') \<Longrightarrow> system_step G W P mux (w_db w) (w_db w')"
| publish: "w_snap w = None \<Longrightarrow> publisher_tick P w = (res, w') \<Longrightarrow> system_step G W P mux (w_db w) (w_db w')"

inductive_cases system_stepE: "system_step G W P mux d d'"

section \<open>Programs between transactions\<close>

text \<open>No transaction is open and the tables satisfy \<open>I\<close>.\<close>

definition rests :: "(db \<Rightarrow> bool) \<Rightarrow> 'c world \<Rightarrow> bool" where
  "rests I w \<longleftrightarrow> w_snap w = None \<and> I (w_db w)"

named_theorems rests_intros \<open>programs that keep an invariant between transactions\<close>

lemma rests_silent: "silent m \<Longrightarrow> keeps (rests I) m"
  by (rule keepsI) (drule (1) silentD, simp add: rests_def same_stateD)

lemmas rests_reads [rests_intros] = silent_basic [THEN rests_silent] silent_reads [THEN rests_silent] silent_identity_reads [THEN rests_silent]
  silent_check_reads [THEN rests_silent] silent_can_lab [THEN rests_silent] silent_check_can_lab [THEN rests_silent]
  silent_encrypt_dek [THEN rests_silent]

lemma rests_tx [rests_intros]: "keeps (db_inv I) m \<Longrightarrow> keeps (rests I) (with_tx m)"
proof (rule keepsI)
  fix w r w'
  assume k: "keeps (db_inv I) m" and w: "rests I w" and run: "with_tx m w = (r, w')"
  from keepsD [OF keeps_with_tx [OF k] _ run] w with_tx_snap [OF run] show "rests I w'"
    by (simp add: rests_def db_inv_def)
qed

lemma rests_stmt: "stmt_keeps I f \<Longrightarrow> keeps (rests I) (conn_stmt f)"
  by (rule keepsI) (auto simp: rests_def stmt_keeps_def dest!: conn_stmt_state)

lemma rests_cloud [rests_intros]: "keeps (rests I) (on_cloud f)"
  by (rule keepsI) (auto simp: rests_def on_cloud_def split: prod.splits)

lemma rests_enqueue [rests_intros]: "keeps (rests I) (enqueue t)" "keeps (rests I) (enqueue_at t tm)"
  by (rule keepsI, drule enqueue_state enqueue_at_state, drule conjunct1, simp add: rests_def queue_onlyD)+

section \<open>What the statements owe an invariant\<close>

text \<open>
  \<open>frame_contract\<close>: the invariant is about labs and projects, and the two statements on projects keep it; so does every
  program that writes no lab. \<open>table_contract\<close>: the two statements on labs keep it as well, and so does everything.
\<close>

locale frame_contract =
  fixes I :: "db \<Rightarrow> bool"
  assumes other_tables: "\<And>d d'. I d \<Longrightarrow> t_labs d' = t_labs d \<Longrightarrow> t_projects d' = t_projects d \<Longrightarrow> I d'"
    and update_proj: "\<And>i st p n t. stmt_keeps I (update_project i st p n t)"
    and rent_proj: "\<And>dm i locked. stmt_keeps I (allocate_one_free_project dm i locked)"
begin

lemma frame_stmt:
  "(\<And>now d x d'. f now d = Inr (x, d') \<Longrightarrow> t_labs d' = t_labs d \<and> t_projects d' = t_projects d) \<Longrightarrow> stmt_keeps I f"
  by (rule stmt_keepsI) (blast intro: other_tables)

lemma log_stmts:
  "stmt_keeps I (insert_outbox topic payload t)"
  "stmt_keeps I (insert_audit_event i kind actor st sid payload req t)"
  by (rule frame_stmt, auto simp: insert_outbox_def insert_audit_event_def split: if_splits)+

lemma misc_stmts:
  "stmt_keeps I (upsert_deploy_step lab name status att le res st fin)"
  "stmt_keeps I (upsert_setting k s i v b t)" "stmt_keeps I (upsert_quota_cache q)"
  "stmt_keeps I (bump_outbox_attempts n)" "stmt_keeps I (mark_outbox_published ns)"
  "stmt_keeps I (insert_secret row)" "stmt_keeps I (delete_secret s')"
  by (rule frame_stmt, auto simp: upsert_deploy_step_def upsert_setting_def upsert_quota_cache_def bump_outbox_attempts_def
      mark_outbox_published_def insert_secret_def delete_secret_def Let_def split: if_splits)+

lemma check_stmts:
  "stmt_keeps I (create_check_run f)" "stmt_keeps I (update_check_run i st sm so sa fa)"
  "stmt_keeps I (delete_check_run_steps i)" "stmt_keeps I (insert_check_run_step r n tk ss ex ac m)"
  by (rule frame_stmt, auto simp: create_check_run_def update_check_run_def delete_check_run_steps_def insert_check_run_step_def Let_def
      split: if_splits option.splits)+

lemma user_stmts:
  "stmt_keeps I (insert_user_from_launch i nm em r)" "stmt_keeps I (update_user_from_launch i nm em r)"
  "stmt_keeps I (upsert_lti_identity i iss sub)" "stmt_keeps I (upsert_course c x nm kd t)"
  "stmt_keeps I (enroll_course_user u c cr t)" "stmt_keeps I (\<lambda>now d. Inr (f d, d))"
  by (rule frame_stmt, auto simp: insert_user_from_launch_def update_user_from_launch_def upsert_lti_identity_def upsert_course_def
      enroll_course_user_def Let_def split: if_splits option.splits)+

text \<open>Inside a transaction.\<close>

lemma tx_projects: "keeps (db_inv I) (pool_save L p)" "keeps (db_inv I) (allocate_one_free dm i)"
  by (rule keeps_pool_save keeps_allocate_one_free; rule log_stmts update_proj rent_proj)+

lemma tx_reads:
  "keeps (db_inv I) (tx_query f)" "keeps (db_inv I) (course_get_by_id i)" "keeps (db_inv I) (check_active u i)"
  unfolding tx_query_def course_get_by_id_def check_active_def
  by (intro keeps_intros keeps_tx_stmt user_stmts)+

lemma tx_audit: "keeps (db_inv I) (append_audit_tx ev)"
  unfolding append_audit_tx_def audit_append_in_tx_def audit_event_uuid_def by (intro keeps_intros keeps_tx_stmt log_stmts)

lemma tx_steps: "keeps (db_inv I) (insert_run_steps i n ss)"
  by (induction ss arbitrary: n) (auto simp: insert_run_step_def check_run_id_arg_def intro!: keeps_intros keeps_tx_stmt check_stmts)

lemma tx_runs: "keeps (db_inv I) (run_create r)" "keeps (db_inv I) (run_save r)"
  unfolding run_create_def run_save_def replace_check_run_steps_def check_run_id_arg_def
  by (intro keeps_intros keeps_tx_stmt check_stmts tx_steps)+

lemma tx_launch: "keeps (db_inv I) (persist_launch ll g c)"
  unfolding persist_launch_def user_upsert_from_launch_def course_upsert_def course_enroll_def Let_def
  by (intro keeps_intros keeps_tx_stmt user_stmts tx_reads)

text \<open>Between transactions.\<close>

lemma rest_audit: "keeps (rests I) (audit_append ev)" "keeps (rests I) (append_audit ev)"
  unfolding append_audit_def audit_append_def audit_event_uuid_def
  by (intro keeps_intros rests_stmt log_stmts rests_reads)+

lemma rest_saves: "keeps (rests I) (save_project L p)" "keeps (rests I) (check_save r)"
  unfolding save_project_def check_save_def by (intro rests_tx tx_projects tx_runs)+

lemma rest_secrets:
  "keeps (rests I) (secret_put L kek k f x)" "keeps (rests I) (secret_get L kek i k f)" "keeps (rests I) (secret_delete i)"
  unfolding secret_put_def store_put_def encrypt_with_key_def encrypt_dek_def case_prod_beta secret_get_def store_get_def
    append_access_audit_def secret_delete_def
  by (intro keeps_intros rests_stmt misc_stmts rest_audit rests_reads)+

lemma rest_key: "keeps (rests I) (get_lab_ssh_key d a i)"
  unfolding get_lab_ssh_key_def by (intro keeps_intros rest_secrets rests_intros)

lemma rest_checks:
  "keeps (rests I) (run_check L a i t)" "keeps (rests I) (get_check_run a r)" "keeps (rests I) (list_checks_by_lab a i)"
  unfolding run_check_def queue_check_def get_check_run_def list_checks_by_lab_def Let_def
  by (intro keeps_intros tx_runs rests_intros)+

lemma rest_check_task: "keeps (rests I) (check_handle_task D t)"
proof -
  have errored: "keeps (rests I) (finish_errored r sm st so)" for r sm st so
    unfolding finish_errored_def start_queued_def by (intro keeps_intros rest_saves rests_reads)
  have "keeps (rests I) (execute_run D r)" for r
    unfolding execute_run_def start_and_save_def start_queued_def on_runner_def finish_run_def case_prod_beta
    by (intro keeps_intros errored rest_saves rest_secrets rests_cloud rests_reads)
  thus ?thesis unfolding check_handle_task_def execute_check_def by (intro keeps_intros rests_reads)
qed

lemma rest_reads:
  "keeps (rests I) (list_labs a co sts)" "keeps (rests I) (get_lab a i)" "keeps (rests I) (list_projects aa dm st)"
  "keeps (rests I) (get_quota aa)" "keeps (rests I) (list_settings aa sc si)" "keeps (rests I) (query_audit aa q)"
proof -
  show "keeps (rests I) (list_labs a co sts)"
    unfolding list_labs_def Let_def by (cases "ac_role a") (auto intro!: keeps_intros rests_reads)
qed (unfold get_lab_def list_projects_def get_quota_def list_settings_def query_audit_def require_admin_def
    require_teacher_or_admin_def case_prod_beta, (intro keeps_intros rests_reads)+)

lemma rest_admin:
  "keeps (rests I) (quarantine_project L aa p why)" "keeps (rests I) (release_project L aa p)" "keeps (rests I) (put_setting inp)"
  unfolding quarantine_project_def release_project_def put_setting_def settings_put_def require_admin_def
    require_teacher_or_admin_def Let_def
  by (intro keeps_intros rests_tx tx_projects keeps_tx_stmt misc_stmts rests_reads)+

lemma rest_launch: "keeps (rests I) (handle_launch J inp)"
  unfolding handle_launch_def case_prod_beta by (intro keeps_intros tx_launch rests_intros)

lemma rest_steps_save: "keeps (rests I) (steps_save s)"
  unfolding steps_save_def by (intro keeps_intros rests_stmt misc_stmts)

lemma rest_boot: "keeps (rests I) (boot_vms D l vms st)"
  by (induction vms arbitrary: st) (auto intro!: keeps_intros rests_cloud)

lemma rest_wait: "keeps (rests I) (wait_servers D l is st)"
  by (induction "is" arbitrary: st) (auto intro!: keeps_intros rests_cloud)

lemma rest_step: "(name, step) \<in> set ordered_steps \<Longrightarrow> keeps (rests I) (step D l st)"
  by (auto simp: ordered_steps_def run_create_keypair_def run_provision_network_def run_boot_vm_def
      run_wait_ssh_def run_initial_check_def Let_def intro!: keeps_intros rests_cloud rest_secrets rest_boot rest_wait)

lemma rest_refresh: "keeps (rests I) (refresh_quota_handle_task C t)"
  unfolding refresh_quota_handle_task_def quota_cache_write_def by (intro keeps_intros rests_cloud rests_stmt misc_stmts)

lemma rest_tick: "keeps (rests I) (publisher_tick P)"
proof -
  have "keeps (rests I) (publish_rows P n rows ids)" for n rows ids
    by (induction rows arbitrary: n ids)
      (auto simp: outbox_bump_attempts_def intro!: keeps_intros rests_cloud rests_stmt misc_stmts)
  thus ?thesis unfolding publisher_tick_def outbox_mark_published_def
    by (intro keeps_intros rests_stmt misc_stmts rests_reads)
qed

end

locale table_contract = frame_contract +
  assumes insert_lab: "\<And>row. stmt_keeps I (create_lab_instance row)"
    and update_lab: "\<And>l. stmt_keeps I (lab_update l)"
begin

lemma tx_labs: "keeps (db_inv I) (lab_save L l)" "keeps (db_inv I) (lab_create L l)"
  by (rule keeps_lab_save keeps_lab_create; rule log_stmts insert_lab update_lab)+

lemma tx_create: "keeps (db_inv I) (create_lab_tx d inp now)"
  unfolding create_lab_tx_def Let_def by (intro keeps_intros tx_labs tx_projects tx_reads tx_audit)

lemma rest_save_lab: "keeps (rests I) (save_lab L l)"
  unfolding save_lab_def by (intro rests_tx tx_labs)

lemma rest_create: "keeps (rests I) (create_lab d inp)"
  unfolding create_lab_def Let_def case_prod_beta
  by (intro keeps_intros rests_intros tx_create rest_audit)

lemma rest_edits:
  "keeps (rests I) (stop_lab d a i)" "keeps (rests I) (freeze_lab d a i why secs)" "keeps (rests I) (unfreeze_lab d a i)"
  "keeps (rests I) (extend_lab d a i by)"
  unfolding stop_lab_def freeze_lab_def unfreeze_lab_def extend_lab_def Let_def
  by (intro keeps_intros rest_saves rest_save_lab rests_intros)+

lemma rest_run_steps:
  "(\<And>name step st. (name, step) \<in> set steps \<Longrightarrow> keeps (rests I) (step D l st)) \<Longrightarrow> keeps (rests I) (run_steps D l steps st)"
proof (induction steps arbitrary: st)
  case Nil
  show ?case unfolding run_steps.simps deploy_succeed_def Let_def
    by (intro keeps_intros rest_saves rest_save_lab rests_intros)
next
  case (Cons x rest)
  obtain name step where x: "x = (name, step)" by fastforce
  have step: "keeps (rests I) (step D l st)" for st using Cons.prems x by auto
  have others: "keeps (rests I) (run_steps D l rest st)" for st using Cons x by auto
  have failed: "keeps (rests I) (deploy_fail D l n e)" for n e
    unfolding deploy_fail_def by (intro keeps_intros rest_saves rest_save_lab rests_intros)
  show ?case unfolding x run_steps.simps Let_def
    by (intro keeps_intros step others failed rest_steps_save rests_reads)
qed

lemma rest_deploy_task: "keeps (rests I) (deploy_handle_task D t)"
  unfolding deploy_handle_task_def deploy_run_def
  by (intro keeps_intros rest_run_steps rest_step rests_reads)

lemma rest_cleanup_task: "keeps (rests I) (cleanup_handle_task D t)"
proof -
  have finish: "keeps (rests I) (finish_lab D l why now)" for l why now
    unfolding finish_lab_def by (intro keeps_intros rest_saves rest_save_lab)
  have down: "keeps (rests I) (teardown D l)" for l
    unfolding teardown_def delete_servers_def Let_def by (intro keeps_intros rests_cloud)
  have enter: "keeps (rests I) (enter_cleaning D l now)" "keeps (rests I) (claim_project D l now)" for l now
    unfolding enter_cleaning_def claim_project_def by (intro keeps_intros rest_saves rest_save_lab rests_reads)+
  have leave: "keeps (rests I) (teardown_failed D l p e now)" "keeps (rests I) (teardown_done D l p now)" for l p e now
    unfolding teardown_failed_def teardown_done_def Let_def by (intro keeps_intros finish rest_saves rest_save_lab rest_secrets)+
  show ?thesis
    unfolding cleanup_handle_task_def cleanup_run_def by (intro keeps_intros down enter leave rests_reads)
qed

end

section \<open>What the handlers owe a relation\<close>

text \<open>
  A use case or a responder that is run between transactions on tables that satisfy \<open>I\<close> ends that way, and its tables
  are related to those it found.
\<close>

definition relates :: "(db \<Rightarrow> bool) \<Rightarrow> (db \<Rightarrow> db \<Rightarrow> bool) \<Rightarrow> ('c world \<Rightarrow> 'x \<times> 'c world) \<Rightarrow> bool" where
  "relates I Q f \<longleftrightarrow> (\<forall>w. rests I w \<longrightarrow> rests I (snd (f w)) \<and> Q (w_db w) (w_db (snd (f w))))"

lemma relatesD: "relates I Q f \<Longrightarrow> rests I w \<Longrightarrow> f w = (x, w') \<Longrightarrow> rests I w' \<and> Q (w_db w) (w_db w')"
  by (metis relates_def snd_conv)

lemma relatesI: "(\<And>w x w'. rests I w \<Longrightarrow> f w = (x, w') \<Longrightarrow> rests I w' \<and> Q (w_db w) (w_db w')) \<Longrightarrow> relates I Q f"
  by (metis relates_def surjective_pairing)

lemma relates_app: "relates I Q m \<Longrightarrow> relates I Q (app m)"
  by (rule relatesI) (auto simp: app_def split: prod.splits sum.splits dest: relatesD)

lemma relates_map: "relates I Q m \<Longrightarrow> relates I Q (bind m (\<lambda>x. ret (f x)))"
  by (rule relatesI) (auto simp: io_simps split: prod.splits sum.splits dest: relatesD)

lemma relates_answer: "relates I Q m \<Longrightarrow> relates I Q (answer m f)"
  unfolding answer_def by (intro relates_map relates_app)

lemma relates_strict: "relates I Q m \<Longrightarrow> relates I Q (strict i m)"
  by (rule relatesI) (auto simp: strict_def split: prod.splits sum.splits dest: relatesD)

lemma relates_keeps: "keeps (rests I) m \<Longrightarrow> relates I (\<lambda>_ _. True) m"
  by (rule relatesI) (auto dest: keepsD)

locale system_contract =
  fixes I :: "db \<Rightarrow> bool" and Q :: "db \<Rightarrow> db \<Rightarrow> bool" and W :: "'c worker" and P :: "'b publisher"
  assumes refl: "\<And>d. Q d d"
    and creates: "\<And>d inp. relates I Q (create_lab d inp :: (verifier, lab) prog)"
    and stops: "\<And>d a i. relates I Q (stop_lab d a i :: (verifier, lab) prog)"
    and freezes: "\<And>d a i why secs. relates I Q (freeze_lab d a i why secs :: (verifier, lab) prog)"
    and unfreezes: "\<And>d a i. relates I Q (unfreeze_lab d a i :: (verifier, lab) prog)"
    and extends: "\<And>d a i by. relates I Q (extend_lab d a i by :: (verifier, lab) prog)"
    and reveals: "\<And>d a i. relates I Q (get_lab_ssh_key d a i :: (verifier, bytes) prog)"
    and checks: "\<And>L a i t. relates I Q (run_check L a i t :: (verifier, check_run) prog)"
    and quarantines: "\<And>L aa p why. relates I Q (quarantine_project L aa p why :: (verifier, unit) prog)"
    and releases: "\<And>L aa p. relates I Q (release_project L aa p :: (verifier, unit) prog)"
    and puts: "\<And>inp. relates I Q (put_setting inp :: (verifier, setting) prog)"
    and launches: "\<And>J inp. relates I Q (handle_launch J inp)"
    and deploys: "\<And>t. relates I Q (deploy_handle_task (wk_deploy W) t)"
    and cleans: "\<And>t. relates I Q (cleanup_handle_task (wk_cleanup W) t)"
    and refreshes: "\<And>t. relates I Q (refresh_quota_handle_task (wk_cloud W) t)"
    and executes: "\<And>t. relates I Q (check_handle_task (wk_check W) t)"
    and ticks: "relates I Q (publisher_tick P)"
begin

lemma relates_same: "(\<And>w x w'. f w = (x, w') \<Longrightarrow> w_db w' = w_db w \<and> w_snap w' = w_snap w) \<Longrightarrow> relates I Q f"
  by (rule relatesI) (use refl in \<open>simp add: rests_def\<close>)

lemma relates_silent: "silent m \<Longrightarrow> relates I Q m"
  by (rule relates_same) (drule (1) silentD, simp add: same_stateD)

lemma relates_throw: "relates I Q (throw e)" "relates I Q (ret x)"
  by (auto intro: relates_same simp: io_simps)

lemma relates_binding: "(\<And>x. relates I Q (f x)) \<Longrightarrow> relates I Q (binding n b f)"
  by (rule relatesI) (auto simp: binding_def refl split: sum.splits dest: relatesD)

lemma relates_strict_body: "(\<And>b. relates I Q (f b)) \<Longrightarrow> relates I Q (strict_body r dec f)"
  by (rule relatesI) (auto simp: strict_body_def refl split: option.splits dest: relatesD [OF relates_strict])

lemma relates_guards:
  "(\<And>s. relates I Q (g s)) \<Longrightarrow> relates I Q (with_service s g)" "(\<And>p. relates I Q (h p)) \<Longrightarrow> relates I Q (with_principal p h)"
  by (cases s; simp add: relates_throw) (cases p; simp add: relates_throw)

lemma relates_detail: "relates I Q (lab_detail S p i)"
  unfolding lab_detail_def get_lab_def by (intro relates_guards relates_app relates_silent silent_intros)

lemma reads_related:
  "relates I Q (list_labs a co sts :: (verifier, lab list) prog)" "relates I Q (list_checks_by_lab a i :: (verifier, check_run list) prog)"
  "relates I Q (get_check_run a r :: (verifier, check_run) prog)" "relates I Q (list_projects aa dm st :: (verifier, project list) prog)"
  "relates I Q (get_quota aa :: (verifier, quota_snapshot) prog)" "relates I Q (list_settings aa sc si :: (verifier, setting list) prog)"
  "relates I Q (query_audit aa q :: (verifier, audit_event list) prog)"
proof -
  show "relates I Q (list_labs a co sts :: (verifier, lab list) prog)"
    unfolding list_labs_def Let_def by (cases "ac_role a") (auto intro!: relates_silent silent_intros)
qed (unfold list_checks_by_lab_def get_check_run_def list_projects_def get_quota_def list_settings_def query_audit_def
    require_admin_def require_teacher_or_admin_def case_prod_beta, (intro relates_silent silent_intros)+)

lemma handlers_related:
  "relates I Q (get_admin_audit S p kind act since limit)" "relates I Q (get_admin_projects S p ki_domain pstate)"
  "relates I Q (post_admin_projects_id_quarantine S p i reason)" "relates I Q (post_admin_projects_id_release S p i)"
  "relates I Q (get_admin_quota S p)" "relates I Q (get_admin_settings S p scope scope_id)" "relates I Q (put_admin_settings S p upd)"
  "relates I Q post_auth_login" "relates I Q (post_auth_logout S)" "relates I Q (get_auth_me S p)" "relates I Q (get_checks_id S p i)"
  "relates I Q get_healthz" "relates I Q (get_labs S p course states)" "relates I Q (post_labs S p request_id labs)"
  "relates I Q (delete_labs_id S p i)" "relates I Q (get_labs_id S p i)" "relates I Q (get_labs_id_checks S p i)"
  "relates I Q (post_labs_id_checks S p i template)" "relates I Q (post_labs_id_extend S p i secs)"
  "relates I Q (post_labs_id_freeze S p i freeze_args)" "relates I Q (get_labs_id_ssh_key S p i)" "relates I Q (post_labs_id_unfreeze S p i)"
  "relates I Q get_readyz" "relates I Q get_stream_labs" for S :: "verifier api_server"
  by (auto simp: get_admin_audit_def get_admin_projects_def post_admin_projects_id_quarantine_def
      post_admin_projects_id_release_def get_admin_quota_def get_admin_settings_def put_admin_settings_def post_auth_login_def
      post_auth_logout_def get_auth_me_def get_checks_id_def get_healthz_def get_labs_def post_labs_def delete_labs_id_def
      get_labs_id_checks_def post_labs_id_checks_def post_labs_id_extend_def post_labs_id_freeze_def get_labs_id_ssh_key_def
      post_labs_id_unfreeze_def get_readyz_def get_stream_labs_def lab_answer_def split: option.splits
      intro!: relates_guards relates_answer relates_throw reads_related creates stops freezes unfreezes extends reveals checks
        quarantines releases puts)
    (simp add: get_labs_id_def relates_map relates_detail)

lemma routes_related: "relates I Q (route_request S B p r)" for S :: "verifier api_server"
proof -
  have "relates I Q (f B i S p r)" if "(key, f) \<in> set api_routes" for key i and f :: "verifier route_op"
    using that unfolding api_routes_def
    by (auto simp: sw_defs sh_defs intro!: relates_binding relates_strict relates_strict_body handlers_related relates_throw split: prod.splits)
  thus ?thesis unfolding route_request_def
    by (auto dest!: map_of_SomeD intro: relates_same split: option.splits)
qed

lemma auth_same:
  assumes "require_auth S r w = (res, w')" shows "w_db w' = w_db w \<and> w_snap w' = w_snap w"
proof -
  have "w_db w1 = w_db w \<and> w_snap w1 = w_snap w" if "parse_principal e L J r s w = (x, w1)" for e L J s x w1
    using that by (auto simp: parse_principal_def Let_def io_simps clock_now_def split: option.splits if_splits sum.splits)
  thus ?thesis using assms
    by (auto simp: require_auth_def io_simps app_def split: if_splits prod.splits sum.splits option.splits)
qed

lemma api_related: "relates I Q (api_serve S B r)" for S :: "verifier api_server"
proof (rule relatesI)
  fix w x w'
  assume w: "rests I w" and run: "api_serve S B r w = (x, w')"
  obtain res w1 where auth: "require_auth (sv_session S) (rq_http r) w = (res, w1)" by fastforce
  have w1: "rests I w1" "w_db w1 = w_db w" using auth_same [OF auth] w by (simp_all add: rests_def)
  show "rests I w' \<and> Q (w_db w) (w_db w')"
  proof (cases res)
    case (Inl e)
    thus ?thesis using run auth w1 refl by (auto simp: api_serve_def)
  next
    case (Inr p)
    thus ?thesis using run auth w1 relatesD [OF routes_related w1(1), of S B p r x w'] by (simp add: api_serve_def)
  qed
qed

lemma lti_related: "relates I Q (lti_handle_launch D r form)"
proof (rule relatesI)
  fix w x w'
  assume w: "rests I w" and run: "lti_handle_launch D r form w = (x, w')"
  have issue: "w_db w' = w_db w1 \<and> w_snap w' = w_snap w1" if "issue_session L J p ttl s dev w1 = (y, w')" for L J p ttl s dev w1 y and w' :: "verifier world"
    using that by (auto simp: issue_session_def Let_def io_simps clock_now_def split: if_splits sum.splits)
  show "rests I w' \<and> Q (w_db w) (w_db w')"
  proof (cases "lt_moodle D = None \<or> form = None")
    case True
    thus ?thesis using run w refl by (auto simp: lti_handle_launch_def Let_def split: option.splits)
  next
    case False
    then obtain J f where jf: "lt_moodle D = Some J" "form = Some f" by auto
    obtain y w1 where launch: "handle_launch J \<lparr>li_token = form_value f ''id_token'', li_state = form_value f ''state'',
        li_nonce = form_value f ''nonce''\<rparr> w = (y, w1)" by fastforce
    have "w_db w' = w_db w1 \<and> w_snap w' = w_snap w1"
      using run jf launch by (auto simp: lti_handle_launch_def Let_def split: sum.splits prod.splits dest!: issue)
    thus ?thesis using relatesD [OF launches w launch] by (simp add: rests_def)
  qed
qed

lemma sse_same: "sse_labs e L J s fl r b w = (x, w') \<Longrightarrow> w_db w' = w_db w \<and> w_snap w' = w_snap w"
  by (auto simp: sse_labs_def parse_principal_def Let_def io_simps clock_now_def split: option.splits prod.splits if_splits sum.splits)

lemma serve_related:
  assumes "rests I w" "gateway_serve G U r (w, b) = (out, w', b')"
  shows "rests I w' \<and> Q (w_db w) (w_db w')"
proof -
  let ?path = "hq_path (rq_http r)"
  have same: "rests I w \<and> Q (w_db w) (w_db w)" using assms(1) refl by simp
  show ?thesis
  proof (cases "part_of ?path")
    case PartApi
    then obtain resp where "api_serve (gw_api G) (su_bind U) r w = (resp, w')"
      using assms(2) by (auto simp: gateway_serve_def split: prod.splits)
    thus ?thesis by (rule relatesD [OF api_related assms(1)])
  next
    case PartLti
    show ?thesis
    proof (cases "?path = ''/lti/launch'' \<and> hq_method (rq_http r) = ''POST''")
      case True
      then obtain resp where "lti_handle_launch (gw_lti G) (rq_http r) (su_form U) w = (resp, w')"
        using PartLti assms(2) by (auto simp: gateway_serve_def split: prod.splits)
      thus ?thesis by (rule relatesD [OF lti_related assms(1)])
    qed (use PartLti assms(2) same in \<open>auto simp: gateway_serve_def split: if_splits\<close>)
  next
    case PartSse
    show ?thesis
    proof (cases "?path = ''/sse/labs'' \<and> hq_method (rq_http r) = ''GET''")
      case True
      then obtain resp where "sse_labs (gw_env_secret G) (gw_lib G) (gw_jwt G) (gw_secret G) (su_flusher U) (rq_http r) (Some b) w = (resp, w')"
        using PartSse assms(2) by (auto simp: gateway_serve_def split: prod.splits)
      from sse_same [OF this] same show ?thesis by (simp add: rests_def)
    qed (use PartSse assms(2) same in \<open>auto simp: gateway_serve_def split: if_splits\<close>)
  qed (use assms(2) same in \<open>auto simp: gateway_serve_def\<close>)
qed

lemma deliver_related: "relates I Q (worker_deliver mux W t)"
proof -
  have "relates I Q (h t')" if "(k, h) \<in> set (worker_handlers W)" for k h t'
    using that by (auto simp: worker_handlers_def intro: deploys cleans refreshes executes)
  thus ?thesis unfolding worker_deliver_def
    by (auto simp: bind_eq_Some_conv relates_throw dest!: map_of_SomeD split: option.split)
qed

lemma step_related: "system_step G W P mux d d' \<Longrightarrow> I d \<Longrightarrow> I d' \<and> Q d d'"
proof (erule system_stepE)
  fix w U r b out w' b'
  assume "I d" "d = w_db w" "d' = w_db w'" "w_snap w = None" "gateway_serve G U r (w, b) = (out, w', b')"
  with serve_related [of w G U r b out w' b'] show "I d' \<and> Q d d'" by (simp add: rests_def)
next
  fix w t res w'
  assume "I d" "d = w_db w" "d' = w_db w'" "w_snap w = None" "worker_deliver mux W t w = (res, w')"
  with relatesD [OF deliver_related, of w mux t res w'] show "I d' \<and> Q d d'" by (simp add: rests_def)
next
  fix w res w'
  assume "I d" "d = w_db w" "d' = w_db w'" "w_snap w = None" "publisher_tick P w = (res, w')"
  with relatesD [OF ticks, of w res w'] show "I d' \<and> Q d d'" by (simp add: rests_def)
qed

end

sublocale table_contract \<subseteq> run: system_contract I "\<lambda>_ _. True" W P for W P
  by unfold_locales (simp, (intro relates_keeps rest_create rest_edits rest_key rest_checks rest_admin rest_launch rest_deploy_task
    rest_cleanup_task rest_refresh rest_check_task rest_tick)+)

end
