(* ===== verification/SystemSafety.thy ===== *)
theory SystemSafety
  imports SystemRun ProcessSafety
begin

text \<open>
  What any run of the whole system keeps, however the requests, the deliveries of tasks and the rounds of the publisher
  follow each other, repeat or fail: the constraints of the tables, the projects of the pool, and the way of every lab.
\<close>

section \<open>The contracts, met\<close>

definition tables_ok :: "db \<Rightarrow> bool" where
  "tables_ok d \<longleftrightarrow> labs_ok d \<and> projects_ok d \<and> 0 \<notin> pr_id ` set (t_projects d)"

text \<open>What never changes of a project: its identity and its place in the cloud.\<close>

definition pool_entry :: "project_row \<Rightarrow> uuid \<times> string \<times> string \<times> string \<times> time" where
  "pool_entry r = (pr_id r, pr_ki_project r, pr_ki_domain r, pr_name r, pr_created_at r)"

definition pool_is :: "(uuid \<times> string \<times> string \<times> string \<times> time) list \<Rightarrow> db \<Rightarrow> bool" where
  "pool_is ps d \<longleftrightarrow> distinct (map pr_id (t_projects d)) \<and> map pool_entry (t_projects d) = ps"

lemma entries_put:
  assumes "distinct (map pr_id rows)" "x \<in> set rows" "pool_entry r = pool_entry x"
  shows "map pool_entry (put_row pr_id r rows) = map pool_entry rows"
proof (rule map_put_row_other)
  fix y
  assume "y \<in> set rows" "pr_id y = pr_id r"
  moreover have "pr_id r = pr_id x" using assms(3) by (simp add: pool_entry_def)
  ultimately have "y = x" using assms(1,2) by (metis (no_types) distinct_map inj_onD)
  with assms(3) show "pool_entry y = pool_entry r" by simp
qed

lemma ids_of_entries: "map pr_id rows = map fst (map pool_entry rows)"
  by (simp add: pool_entry_def comp_def)

lemma pool_is_put:
  assumes "pool_is ps d" "x \<in> set (t_projects d)" "pool_entry r = pool_entry x" "t_projects d' = put_row pr_id r (t_projects d)"
  shows "pool_is ps d'"
proof -
  have "map pool_entry (t_projects d') = map pool_entry (t_projects d)"
    using entries_put [OF _ assms(2,3)] assms(1,4) by (simp add: pool_is_def)
  thus ?thesis using assms(1) ids_of_entries unfolding pool_is_def by metis
qed

interpretation pool: table_contract "pool_is ps" for ps
proof unfold_locales
  fix i st p n t
  show "stmt_keeps (pool_is ps) (update_project i st p n t)"
  proof (rule stmt_keepsI)
    fix now d x d'
    assume ok: "pool_is ps d" and run: "update_project i st p n t now d = Inr (x, d')"
    show "pool_is ps d'"
    proof (cases x)
      case None
      with run ok show ?thesis by (auto dest: update_project_miss)
    next
      case (Some r')
      with update_project_hit run obtain r u where r: "get_project_row i d = Some r"
        "r' = r\<lparr>pr_state := st, pr_lab := p, pr_failures := n, pr_changed_at := u\<rparr>"
        "d' = d\<lparr>t_projects := put_row pr_id r' (t_projects d)\<rparr>" by blast
      thus ?thesis using pool_is_put [OF ok, of r r' d'] find_row_SomeD
        by (fastforce simp: pool_entry_def get_project_row_def)
    qed
  qed
next
  fix dm i locked
  show "stmt_keeps (pool_is ps) (allocate_one_free_project dm i locked)"
  proof (rule stmt_keepsI)
    fix now d x d'
    assume ok: "pool_is ps d" and run: "allocate_one_free_project dm i locked now d = Inr (x, d')"
    show "pool_is ps d'"
    proof (cases x)
      case None
      with run ok show ?thesis by (auto simp: allocate_one_free_project_def Let_def split: option.splits)
    next
      case (Some r')
      with run obtain r where "r \<in> set (t_projects d)" "r' = rented i now r" "d' = d\<lparr>t_projects := put_row pr_id r' (t_projects d)\<rparr>"
        by (auto simp: allocate_one_free_project_def Let_def rented_def split: option.splits dest!: min_row_SomeD)
      thus ?thesis using pool_is_put [OF ok, of r r' d'] by (simp add: pool_entry_def rented_def)
    qed
  qed
qed (auto simp: pool_is_def stmt_keeps_def create_lab_instance_def lab_update_def update_lab_instance_def Let_def
    split: if_splits option.splits)

lemma tables_split: "tables_ok d \<longleftrightarrow> labs_ok d \<and> projects_ok d \<and> (\<exists>ps. pool_is ps d \<and> 0 \<notin> fst ` set ps)"
  by (auto simp: tables_ok_def pool_is_def projects_ok_def pool_entry_def image_image)

lemma stmt_keeps_tables:
  assumes "stmt_keeps labs_ok f" "stmt_keeps projects_ok f" "\<And>ps. stmt_keeps (pool_is ps) f"
  shows "stmt_keeps tables_ok f"
  using assms unfolding stmt_keeps_def tables_split by blast

interpretation tables: table_contract tables_ok
proof unfold_locales
  show "tables_ok d'" if "tables_ok d" "t_labs d' = t_labs d" "t_projects d' = t_projects d" for d d'
    using that by (simp add: tables_ok_def labs_ok_def projects_ok_def)
qed (rule stmt_keeps_tables, (rule labs_ok_create labs_ok_update labs_ok_other projects_ok_labs projects_ok_update
    projects_ok_allocate pool.insert_lab pool.update_lab pool.update_proj pool.rent_proj)+)+

interpretation fixed_labs: frame_contract "\<lambda>d. t_labs d = ls" for ls
  by unfold_locales (auto simp: stmt_keeps_def update_project_def allocate_one_free_project_def Let_def split: if_splits option.splits)

section \<open>The way of a lab\<close>

text \<open>Every lab is still there, for the same student, course and template, in a state that the machine of labs leads to.\<close>

definition labs_move :: "db \<Rightarrow> db \<Rightarrow> bool" where
  "labs_move d d' \<longleftrightarrow> (\<forall>i r. get_lab_row i d = Some r \<longrightarrow> (\<exists>r'. get_lab_row i d' = Some r' \<and> lr_student r' = lr_student r \<and>
     lr_course r' = lr_course r \<and> lr_template r' = lr_template r \<and> lr_created_at r' = lr_created_at r \<and>
     can_transition\<^sup>*\<^sup>* (lr_state r) (lr_state r')))"

lemma move_same: "t_labs d' = t_labs d \<Longrightarrow> labs_move d d'"
  by (simp add: labs_move_def get_lab_row_def)

lemma move_trans: "labs_move a b \<Longrightarrow> labs_move b c \<Longrightarrow> labs_move a c"
proof -
  assume ab: "labs_move a b" and bc: "labs_move b c"
  show ?thesis
    unfolding labs_move_def
  proof (intro allI impI)
    fix i r
    assume "get_lab_row i a = Some r"
    with ab obtain s where s: "get_lab_row i b = Some s" "lr_student s = lr_student r" "lr_course s = lr_course r"
      "lr_template s = lr_template r" "lr_created_at s = lr_created_at r" "can_transition\<^sup>*\<^sup>* (lr_state r) (lr_state s)"
      unfolding labs_move_def by blast
    from bc s(1) obtain u where u: "get_lab_row i c = Some u" "lr_student u = lr_student s" "lr_course u = lr_course s"
      "lr_template u = lr_template s" "lr_created_at u = lr_created_at s" "can_transition\<^sup>*\<^sup>* (lr_state s) (lr_state u)"
      unfolding labs_move_def by blast
    with s rtranclp_trans [OF s(6) u(6)]
    show "\<exists>r'. get_lab_row i c = Some r' \<and> lr_student r' = lr_student r \<and> lr_course r' = lr_course r \<and>
        lr_template r' = lr_template r \<and> lr_created_at r' = lr_created_at r \<and> can_transition\<^sup>*\<^sup>* (lr_state r) (lr_state r')" by simp
  qed
qed

lemma move_append: "t_labs d' = t_labs d @ [x] \<Longrightarrow> labs_move d d'"
  by (auto simp: labs_move_def get_lab_row_def find_row_append split: option.split)

lemma move_put:
  assumes "get_lab_row i d = Some r" "t_labs d' = put_row lr_id (lab_merge l r) (t_labs d)" "can_transition\<^sup>*\<^sup>* (lr_state r) (lb_state l)"
  shows "labs_move d d'"
  unfolding labs_move_def
proof (intro allI impI)
  fix j s
  assume s: "get_lab_row j d = Some s"
  have id: "lr_id r = i" by (rule get_lab_row_id [OF assms(1)])
  show "\<exists>r'. get_lab_row j d' = Some r' \<and> lr_student r' = lr_student s \<and> lr_course r' = lr_course s \<and>
      lr_template r' = lr_template s \<and> lr_created_at r' = lr_created_at s \<and> can_transition\<^sup>*\<^sup>* (lr_state s) (lr_state r')"
  proof (cases "j = i")
    case True
    have "get_lab_row i d' = Some (lab_merge l r)"
      using find_row_put_same [of lr_id "lab_merge l r" "t_labs d"] assms(1,2) id by (simp add: get_lab_row_def)
    thus ?thesis using True s assms(1,3) by (simp add: lab_merge_def update_lab_params_def)
  next
    case False
    hence "get_lab_row j d' = Some s"
      using s assms(2) id find_row_put_other [of j lr_id "lab_merge l r" "t_labs d"] by (simp add: get_lab_row_def)
    thus ?thesis by blast
  qed
qed

lemma moves_relate:
  "keeps (rests tables_ok) m \<Longrightarrow> (\<And>w x w'. rests tables_ok w \<Longrightarrow> m w = (x, w') \<Longrightarrow> labs_move (w_db w) (w_db w')) \<Longrightarrow>
     relates tables_ok labs_move m"
  by (rule relatesI) (blast dest: keepsD)

lemma frame_relate:
  assumes "keeps (rests tables_ok) m" "\<And>ls. keeps (rests (\<lambda>d. t_labs d = ls)) m"
  shows "relates tables_ok labs_move m"
proof (rule moves_relate [OF assms(1)])
  fix w x w'
  assume "rests tables_ok w" "m w = (x, w')"
  with keepsD [OF assms(2) [of "t_labs (w_db w)"], of w x w'] have "t_labs (w_db w') = t_labs (w_db w)" by (simp add: rests_def)
  thus "labs_move (w_db w) (w_db w')" by (rule move_same)
qed

text \<open>An operation of the aggregate, saved.\<close>

lemma step_moves: "lab_step l l' \<Longrightarrow> can_transition\<^sup>*\<^sup>* (lb_state l) (lb_state l')"
  using lab_step_state [of l l'] by auto

lemma edit_moves:
  assumes "lab_edited a act f i d res d'" "\<And>now l l'. f now l = Inr l' \<Longrightarrow> lab_step l l'"
  shows "labs_move d d'"
proof (cases res)
  case (Inl e)
  with assms(1) show ?thesis by (auto simp: lab_edited_def intro: move_same)
next
  case (Inr l)
  with assms(1) obtain r l0 now l1 where r: "get_lab_row i d = Some r" "lab_from_row r = Inr l0" "f now l0 = Inr l1"
    "t_labs d' = put_row lr_id (lab_merge l1 r) (t_labs d)" by (auto simp: lab_edited_def)
  show ?thesis by (rule move_put [OF r(1,4)]) (use step_moves [OF assms(2) [OF r(3)]] lab_from_row_fields [OF r(2)] in simp)
qed

lemma stop_steps: "stop_operation now l = Inr l' \<Longrightarrow> lab_step l l'"
  by (rule step_transition [of Cleaning]) (auto simp: stop_operation_def direct_targets_def split: if_splits)

lemma edits_relate:
  "relates tables_ok labs_move (stop_lab d a i)" "relates tables_ok labs_move (freeze_lab d a i why secs)"
  "relates tables_ok labs_move (unfreeze_lab d a i)" "relates tables_ok labs_move (extend_lab d a i by)"
  by (rule moves_relate, rule tables.rest_edits, simp add: rests_def,
      rule edit_moves [OF stop_lab_edits] edit_moves [OF freeze_lab_edits] edit_moves [OF unfreeze_lab_edits] edit_moves [OF extend_lab_edits],
      simp, assumption, erule stop_steps step_freeze step_unfreeze step_extend)+

lemma create_relates: "relates tables_ok labs_move (create_lab d inp)"
proof (rule moves_relate [OF tables.rest_create])
  fix w :: "'a world" and x w'
  assume w: "rests tables_ok w" and run: "create_lab d inp w = (x, w')"
  let ?ps = "t_projects (w_db w)" and ?ls = "t_labs (w_db w)"
  have spec: "spec (same_tables ?ps ?ls) (create_lab d inp)
      (\<lambda>l v. created_ok inp ?ps ?ls l (w_db v)) (\<lambda>e v. create_refused inp ?ps ?ls e (w_db (v :: 'a world)))"
    by (rule create_lab_spec) (use w in \<open>auto simp: rests_def tables_ok_def projects_ok_def\<close>)
  have st: "same_tables ?ps ?ls w" using w by (simp add: same_tables_def rests_def)
  show "labs_move (w_db w) (w_db w')"
  proof (cases x)
    case (Inl e)
    from specD_Inl [OF spec st run [unfolded Inl]] show ?thesis by (auto simp: create_refused_def intro: move_same move_append)
  next
    case (Inr l)
    from specD_Inr [OF spec st run [unfolded Inr]] show ?thesis by (auto simp: created_ok_def intro: move_append)
  qed
qed

lemma deploy_relates: "relates tables_ok labs_move (deploy_handle_task D t)"
proof (rule moves_relate [OF tables.rest_deploy_task])
  fix w x w'
  assume w: "rests tables_ok w" and run: "deploy_handle_task D t w = (x, w')"
  show "labs_move (w_db w) (w_db w')"
  proof (cases "lab_id_of_payload (dd_lib D) ''deploy'' (tk_payload t)")
    case (Inl e)
    thus ?thesis using run by (auto simp: deploy_handle_task_def io_simps intro: move_same)
  next
    case (Inr i)
    hence run: "deploy_run D i w = (x, w')" using run by (simp add: deploy_handle_task_def io_simps)
    have "deploy_outcome i (t_projects (w_db w)) (t_labs (w_db w)) w'"
      by (rule deploy_run_outcome [OF _ run]) (use w in \<open>simp add: rests_def\<close>)
    then consider "t_labs (w_db w') = t_labs (w_db w)"
      | r l' where "get_lab_row i (w_db w) = Some r" "lr_state r = Deploying" "t_labs (w_db w') = put_row lr_id (lab_merge l' r) (t_labs (w_db w))"
        "lb_state l' = Ready \<or> lb_state l' = Failed"
      unfolding deploy_outcome_def deploy_changed_def get_lab_row_def by blast
    thus ?thesis
    proof cases
      case (2 r l')
      have "can_transition (lr_state r) (lb_state l')" using 2(2,4) by (auto simp: can_transition_def)
      thus ?thesis by (intro move_put [OF 2(1,3)] r_into_rtranclp)
    qed (rule move_same)
  qed
qed

text \<open>The cleanup: its lab is in a known state until it is saved in a later one.\<close>

definition at_state :: "db \<Rightarrow> lab_id \<Rightarrow> lstate \<Rightarrow> db \<Rightarrow> bool" where
  "at_state d0 i s d \<longleftrightarrow> labs_move d0 d \<and> (\<exists>r. get_lab_row i d = Some r \<and> lr_state r = s)"

interpretation way: frame_contract "at_state d0 i s" for d0 i s
  by unfold_locales (auto simp: at_state_def labs_move_def get_lab_row_def stmt_keeps_def update_project_def
      allocate_one_free_project_def Let_def split: if_splits option.splits)

abbreviation moved :: "db \<Rightarrow> 'c world \<Rightarrow> bool" where
  "moved d0 \<equiv> rests (labs_move d0)"

lemma at_moved: "rests (at_state d0 i s) w \<Longrightarrow> moved d0 w"
  by (simp add: rests_def at_state_def)

lemma save_lab_snap: "save_lab L l w = (r, w') \<Longrightarrow> w_snap w = None \<Longrightarrow> w_snap w' = None"
  unfolding save_lab_def by (rule with_tx_snap)

lemma save_at:
  assumes "lb_id l = i" "can_transition\<^sup>*\<^sup>* s (lb_state l)"
  shows "spec (rests (at_state d0 i s)) (save_lab L l) (\<lambda>l' w. rests (at_state d0 i (lb_state l)) w \<and> l' = l\<lparr>lb_events := []\<rparr>) (\<lambda>_. moved d0)"
proof (rule specI)
  fix w l' w'
  assume w: "rests (at_state d0 i s) w" and run: "save_lab L l w = (Inr l', w')"
  from save_lab_InrD [OF run] assms(1) obtain r where r: "get_lab_row i (w_db w) = Some r"
    "t_labs (w_db w') = put_row lr_id (lab_merge l r) (t_labs (w_db w))" and l': "l' = l\<lparr>lb_events := []\<rparr>" by auto
  have s: "lr_state r = s" "labs_move d0 (w_db w)" "w_snap w' = None"
    using w r(1) save_lab_snap [OF run] by (auto simp: rests_def at_state_def)
  have "labs_move (w_db w) (w_db w')" by (rule move_put [OF r]) (use s(1) assms(2) in simp)
  moreover have "get_lab_row i (w_db w') = Some (lab_merge l r)"
    using find_row_put_same [of lr_id "lab_merge l r" "t_labs (w_db w)"] r get_lab_row_id [OF r(1)] by (simp add: get_lab_row_def)
  ultimately show "rests (at_state d0 i (lb_state l)) w' \<and> l' = l\<lparr>lb_events := []\<rparr>"
    using move_trans [OF s(2)] s(3) l' by (auto simp: rests_def at_state_def)
next
  fix w e w'
  assume w: "rests (at_state d0 i s) w" and run: "save_lab L l w = (Inl e, w')"
  with save_lab_InlD [OF run] save_lab_snap [OF run] show "moved d0 w'" by (auto simp: rests_def at_state_def)
qed

lemma spec_at: "keeps (rests (at_state d0 i s)) m \<Longrightarrow> spec (rests (at_state d0 i s)) m (\<lambda>_. rests (at_state d0 i s)) (\<lambda>_. moved d0)"
  by (rule specI) (auto dest: keepsD intro: at_moved)

lemma finish_at:
  assumes "lb_id l = i" "lb_state l = Cleaning"
  shows "spec (rests (at_state d0 i Cleaning)) (finish_lab D l why now) (\<lambda>_. moved d0) (\<lambda>_. moved d0)"
proof (cases "transition Done why now l")
  case (Inl e)
  thus ?thesis by (simp add: finish_lab_def from_sum_def bind_def spec_def at_moved)
next
  case (Inr l1)
  hence l1: "lb_id l1 = i" "lb_state l1 = Done" using assms by (auto simp: transition_Inr lb_record_def)
  have "can_transition Cleaning Done" by (simp add: can_transition_def)
  hence "can_transition\<^sup>*\<^sup>* Cleaning (lb_state l1)" unfolding l1(2) by (rule r_into_rtranclp)
  hence "spec (rests (at_state d0 i Cleaning)) (bind (save_lab (cd_lib D) l1) (\<lambda>_. ret ())) (\<lambda>_. moved d0) (\<lambda>_. moved d0)"
    by (intro spec_bind [OF save_at [OF l1(1)]] spec_ret) (auto intro: at_moved)
  thus ?thesis using Inr by (simp add: finish_lab_def from_sum_def bind_def spec_def)
qed

lemma enter_at:
  assumes "lb_id l = i"
  shows "spec (rests (at_state d0 i (lb_state l))) (enter_cleaning D l now)
    (\<lambda>l' w. rests (at_state d0 i Cleaning) w \<and> (lb_id l' = i \<and> lb_state l' = Cleaning)) (\<lambda>_. moved d0)"
proof (cases "lb_state l = Cleaning")
  case True
  thus ?thesis using assms by (simp add: enter_cleaning_def spec_ret)
next
  case False
  show ?thesis
  proof (cases "transition Cleaning ''cleanup'' now l")
    case (Inl e)
    thus ?thesis using False by (simp add: enter_cleaning_def from_sum_def bind_def spec_def at_moved)
  next
    case (Inr l1)
    hence l1: "lb_id l1 = i" "lb_state l1 = Cleaning" "can_transition\<^sup>*\<^sup>* (lb_state l) (lb_state l1)"
      using assms by (auto simp: transition_Inr lb_record_def)
    have "spec (rests (at_state d0 i (lb_state l))) (save_lab (cd_lib D) l1)
        (\<lambda>l' w. rests (at_state d0 i Cleaning) w \<and> (lb_id l' = i \<and> lb_state l' = Cleaning)) (\<lambda>_. moved d0)"
      by (rule spec_weaken [OF save_at [OF l1(1,3)]]) (use l1 in auto)
    thus ?thesis using Inr False by (simp add: enter_cleaning_def from_sum_def bind_def spec_def)
  qed
qed

lemma leave_at:
  assumes "lb_id l = i" "lb_state l = Cleaning"
  shows "spec (rests (at_state d0 i Cleaning)) (teardown_failed D l p e now) (\<lambda>_. moved d0) (\<lambda>_. moved d0)"
    "spec (rests (at_state d0 i Cleaning)) (teardown_done D l p now) (\<lambda>_. moved d0) (\<lambda>_. moved d0)"
proof -
  let ?J = "rests (at_state d0 i Cleaning)"
  have thrown: "spec ?J (throw x) (\<lambda>_. moved d0) (\<lambda>_. moved d0)" for x by (auto intro: spec_throw at_moved)
  show "spec ?J (teardown_failed D l p e now) (\<lambda>_. moved d0) (\<lambda>_. moved d0)"
    unfolding teardown_failed_def Let_def
    by (intro spec_case_option spec_if thrown spec_bind [OF spec_at [OF way.rest_saves(1)]] finish_at assms)
  have "keeps ?J (case p of None \<Rightarrow> ret () | Some proj \<Rightarrow> if pj_state proj = PCleaning then
      bind (from_sum (case mark_clean now proj of Inl e \<Rightarrow> Inl (Wrapped ''cleanup: mark project clean'' e) | Inr proj \<Rightarrow> Inr proj))
        (\<lambda>proj. bind (save_project (cd_lib D) proj) (\<lambda>_. ret ())) else ret ())"
    by (intro keeps_intros way.rest_saves)
  moreover have "keeps ?J (case lb_checker_key l of None \<Rightarrow> ret () | Some s \<Rightarrow> bind (attempt (secret_delete s)) (\<lambda>_. ret ()))"
    by (intro keeps_intros way.rest_secrets)
  ultimately show "spec ?J (teardown_done D l p now) (\<lambda>_. moved d0) (\<lambda>_. moved d0)"
    unfolding teardown_done_def by (intro spec_bind [OF spec_at] spec_bind [OF spec_at] finish_at assms)
qed

lemma cleanup_relates: "relates tables_ok labs_move (cleanup_handle_task D t)"
proof (rule moves_relate [OF tables.rest_cleanup_task])
  fix w x w'
  assume w: "rests tables_ok w" and run: "cleanup_handle_task D t w = (x, w')"
  show "labs_move (w_db w) (w_db w')"
  proof (cases "lab_id_of_payload (cd_lib D) ''cleanup'' (tk_payload t)")
    case (Inl e)
    thus ?thesis using run by (auto simp: cleanup_handle_task_def io_simps intro: move_same)
  next
    case (Inr i)
    hence run: "cleanup_run D i w = (x, w')" using run by (simp add: cleanup_handle_task_def io_simps)
    let ?rest = "\<lambda>l now. bind (enter_cleaning D l now) (\<lambda>l. bind (claim_project D l now) (\<lambda>project.
         bind (attempt (teardown D l)) (\<lambda>out.
         case out of Inl e \<Rightarrow> teardown_failed D l project e now | Inr _ \<Rightarrow> teardown_done D l project now)))"
    have idle: "w_snap w = None" using w by (simp add: rests_def)
    from cleanup_run_cases [OF run idle] consider "w_db w' = w_db w"
      | r l now w1 where "get_lab_row i (w_db w) = Some r" "lab_from_row r = Inr l" "same_state w w1" "?rest l now w1 = (x, w')"
      by blast
    thus ?thesis
    proof cases
      case 1
      thus ?thesis by (simp add: move_same)
    next
      case (2 r l now w1)
      have l: "lb_id l = i" "lb_state l = lr_state r"
        using lab_from_row_fields [OF 2(2)] get_lab_row_id [OF 2(1)] by simp_all
      have start: "rests (at_state (w_db w) i (lb_state l)) w1"
        using 2(1) l(2) idle same_stateD [OF 2(3)] by (simp add: rests_def at_state_def move_same)
      have "keeps (rests (at_state (w_db w) i Cleaning)) (claim_project D l' now)" for l'
        unfolding claim_project_def by (intro keeps_intros way.rest_saves rests_reads)
      moreover have "keeps (rests (at_state (w_db w) i Cleaning)) (teardown D l')" for l'
        unfolding teardown_def delete_servers_def Let_def by (intro keeps_intros rests_cloud)
      ultimately have "spec (rests (at_state (w_db w) i (lb_state l))) (?rest l now) (\<lambda>_. moved (w_db w)) (\<lambda>_. moved (w_db w))"
        by (intro spec_bind [OF enter_at [OF l(1)]] spec_fact spec_bind [OF spec_at] spec_bind [OF spec_at [OF keeps_attempt]]
            spec_case_sum leave_at) auto
      hence "moved (w_db w) w'" using start 2(4) by (cases x) (auto dest: specD_Inl specD_Inr)
      thus ?thesis by (simp add: rests_def)
    qed
  qed
qed

interpretation machine: system_contract tables_ok labs_move W P for W P
  by unfold_locales (rule move_same [OF refl] create_relates cleanup_relates deploy_relates edits_relate
    frame_relate [OF tables.rest_key fixed_labs.rest_key] frame_relate [OF tables.rest_checks(1) fixed_labs.rest_checks(1)]
    frame_relate [OF tables.rest_admin(1) fixed_labs.rest_admin(1)] frame_relate [OF tables.rest_admin(2) fixed_labs.rest_admin(2)]
    frame_relate [OF tables.rest_admin(3) fixed_labs.rest_admin(3)] frame_relate [OF tables.rest_launch fixed_labs.rest_launch]
    frame_relate [OF tables.rest_refresh fixed_labs.rest_refresh] frame_relate [OF tables.rest_check_task fixed_labs.rest_check_task]
    frame_relate [OF tables.rest_tick fixed_labs.rest_tick])+

section \<open>Properties\<close>

lemma run_related:
  assumes "(system_step G W P mux)\<^sup>*\<^sup>* d d'" "tables_ok d"
  shows "tables_ok d' \<and> labs_move d d'"
  using assms
proof (induction rule: rtranclp_induct)
  case base
  thus ?case by (simp add: move_same)
next
  case (step a b)
  thus ?case using machine.step_related [of G W P mux a b] move_trans by blast
qed

lemma run_pool:
  assumes "(system_step G W P mux)\<^sup>*\<^sup>* d d'" "pool_is ps d"
  shows "pool_is ps d'"
  using assms by (induction rule: rtranclp_induct) (auto dest: pool.run.step_related)

lemma final_states: "can_transition\<^sup>*\<^sup>* s t \<Longrightarrow> s = Done \<or> s = Rejected \<Longrightarrow> t = s"
  by (induction rule: rtranclp_induct) (use terminal_exact in \<open>auto simp: is_terminal_def\<close>)

text \<open>
  C2: any run of the system. Whatever requests the gateway serves, whatever tasks the worker is handed, in any order and
  any number of times, between rounds of the publisher, and whatever fails meanwhile: the constraints of the tables hold
  throughout, so a student has at most one active lab in a course; the projects of the pool stay the same ones in the
  same domains; and no lab is lost or given to someone else, it moves only along the machine of labs, and one that is
  done or rejected stays so.
\<close>
theorem system_run_safe:
  assumes "tables_ok d" "(system_step G W P mux)\<^sup>*\<^sup>* d d'"
  shows "tables_ok d' \<and>
    (\<forall>x \<in> set (t_labs d'). \<forall>y \<in> set (t_labs d'). lr_student x = lr_student y \<and> lr_course x = lr_course y \<and>
       lab_active (lr_state x) \<and> lab_active (lr_state y) \<longrightarrow> x = y) \<and>
    map pool_entry (t_projects d') = map pool_entry (t_projects d) \<and>
    (\<forall>i r. get_lab_row i d = Some r \<longrightarrow> (\<exists>r'. get_lab_row i d' = Some r' \<and> lr_student r' = lr_student r \<and>
       lr_course r' = lr_course r \<and> lr_template r' = lr_template r \<and> lr_created_at r' = lr_created_at r \<and>
       can_transition\<^sup>*\<^sup>* (lr_state r) (lr_state r') \<and> (lr_state r \<in> {Done, Rejected} \<longrightarrow> lr_state r' = lr_state r)))"
proof (intro conjI)
  from run_related [OF assms(2,1)] have ok: "tables_ok d'" and move: "labs_move d d'" by simp_all
  show "tables_ok d'" by (rule ok)
  have labs: "distinct (map lr_id (t_labs d'))" "\<forall>x \<in> set (t_labs d'). \<not> active_clash x (t_labs d')"
    using ok by (simp_all add: tables_ok_def labs_ok_def)
  show "\<forall>x \<in> set (t_labs d'). \<forall>y \<in> set (t_labs d'). lr_student x = lr_student y \<and> lr_course x = lr_course y \<and>
      lab_active (lr_state x) \<and> lab_active (lr_state y) \<longrightarrow> x = y"
  proof (intro ballI impI)
    fix x y
    assume x: "x \<in> set (t_labs d')" and y: "y \<in> set (t_labs d')"
      and same: "lr_student x = lr_student y \<and> lr_course x = lr_course y \<and> lab_active (lr_state x) \<and> lab_active (lr_state y)"
    hence "lr_id x = lr_id y" using labs(2) unfolding active_clash_def by fastforce
    with labs(1) x y show "x = y" by (simp add: distinct_map inj_on_def)
  qed
  have "pool_is (map pool_entry (t_projects d)) d" using assms(1) by (simp add: pool_is_def tables_ok_def projects_ok_def)
  from run_pool [OF assms(2) this] show "map pool_entry (t_projects d') = map pool_entry (t_projects d)" by (simp add: pool_is_def)
  show "\<forall>i r. get_lab_row i d = Some r \<longrightarrow> (\<exists>r'. get_lab_row i d' = Some r' \<and> lr_student r' = lr_student r \<and>
       lr_course r' = lr_course r \<and> lr_template r' = lr_template r \<and> lr_created_at r' = lr_created_at r \<and>
       can_transition\<^sup>*\<^sup>* (lr_state r) (lr_state r') \<and> (lr_state r \<in> {Done, Rejected} \<longrightarrow> lr_state r' = lr_state r))"
    using move final_states unfolding labs_move_def by blast
qed

text \<open>A worker on the in-memory cloud deploys the lab of the sample campus.\<close>

definition sample_worker :: "inmem worker" where
  "sample_worker = \<lparr>wk_deploy = sample_deploy, wk_cleanup = sample_cleanup, wk_cloud = inmem_ops, wk_check = gateway_check_deps text_lib\<rparr>"

definition sample_mux :: "string list \<Rightarrow> string \<Rightarrow> string option" where
  "sample_mux ps t = (if t \<in> set ps then Some t else None)"

definition sample_publisher :: "log_bus publisher" where
  "sample_publisher = new_publisher (log_publish (\<lambda>_. True)) (\<lambda>_. False)"

lemma tables_sample: "tables_ok deploying_campus"
  by (simp add: tables_ok_def labs_ok_def projects_ok_def deploying_campus_def sample_campus_def sample_labs_def sample_pool_def
      sample_row_def sample_lab_row_def lab_row_ok_def active_clash_def project_row_ok_def)
    (simp add: eval_nat_numeral)

theorem system_run_safe_witness:
  "\<exists>G d' r'. start_gateway sample_outside = Inr G \<and>
     (system_step G sample_worker sample_publisher sample_mux)\<^sup>*\<^sup>* deploying_campus d' \<and> tables_ok d' \<and>
     get_lab_row 7 d' = Some r' \<and> lr_student r' = 1 \<and> can_transition\<^sup>*\<^sup>* Deploying (lr_state r')"
proof -
  let ?w = "world_of (sample_cloud no_faults) deploying_campus"
  obtain G where G: "start_gateway sample_outside = Inr G" using sample_start by blast
  obtain res w' where "worker_deliver sample_mux sample_worker (deploy_task text_lib 7) ?w = (res, w')" by fastforce
  from system_step.deliver [OF _ this, of G sample_publisher]
  have run: "(system_step G sample_worker sample_publisher sample_mux)\<^sup>*\<^sup>* deploying_campus (w_db w')" by simp
  have "get_lab_row 7 deploying_campus = Some (sample_lab_row 7 1 Deploying (Some 3) 50)"
    by (simp add: get_lab_row_def deploying_campus_def sample_lab_row_def)
  with system_run_safe [OF tables_sample run] obtain r' where "get_lab_row 7 (w_db w') = Some r'" "lr_student r' = 1"
    "can_transition\<^sup>*\<^sup>* Deploying (lr_state r')" "tables_ok (w_db w')"
    by (fastforce simp: sample_lab_row_def)
  with G run show ?thesis by blast
qed

end
