(* ===== verification/Seed.thy ===== *)
theory Seed
  imports SystemSafety
begin

text \<open>
  \<open>cmd/seed\<close>: the command that fills the pool of projects from a CSV file. The syntax of CSV is a parameter: a file is the
  list of results of the reader's \<open>Read\<close>, up to the end of the file. Every row is a statement of its own, so a seed that
  fails keeps the rows before, and a second run goes on where the first stopped. An empty database is one that meets the
  constraints of the tables, and a seed keeps them; so they hold in every run of the system on a seeded database.
\<close>

section \<open>The command\<close>

record seed_row =
  sd_project :: string
  sd_domain :: string
  sd_name :: string

text \<open>\<open>strings.EqualFold\<close> with an ASCII text: the letters k and s also have a case outside ASCII, U+212A and U+017F.\<close>

fun fold_text :: "string \<Rightarrow> string" where
  "fold_text (a # b # c # s) =
     (if a = CHR 0xC5 \<and> b = CHR 0xBF then CHR ''s'' # fold_text (c # s)
      else if a = CHR 0xE2 \<and> b = CHR 0x84 \<and> c = CHR 0xAA then CHR ''k'' # fold_text s
      else ascii_lower [a] @ fold_text (b # c # s))"
| "fold_text [a, b] = (if a = CHR 0xC5 \<and> b = CHR 0xBF then ''s'' else ascii_lower [a, b])"
| "fold_text s = ascii_lower s"

definition seed_row_text :: "nat \<Rightarrow> string" where
  "seed_row_text i = ''row '' @ int_text (int i + 1)"

text \<open>The reader is set to three fields; a record of another number is an error.\<close>

fun read_csv :: "nat \<Rightarrow> (err + string list) list \<Rightarrow> err + seed_row list" where
  "read_csv i [] = Inr []"
| "read_csv i (Inl e # rs) = Inl (Wrapped (seed_row_text i) e)"
| "read_csv i (Inr [a, b, c] # rs) =
     (if i = 0 \<and> fold_text a = ''ki_project_id'' then read_csv (Suc i) rs
      else if a = [] \<or> b = [] \<or> c = [] then Inl (Plain (seed_row_text i @ '': empty field''))
      else map_sum id ((#) \<lparr>sd_project = a, sd_domain = b, sd_name = c\<rparr>) (read_csv (Suc i) rs))"
| "read_csv i (Inr _ # rs) = Inl (Wrapped (seed_row_text i) (Plain ''wrong number of fields''))"

text \<open>\<open>INSERT INTO projects \<dots> ON CONFLICT (ki_project_id) DO NOTHING\<close>, with the defaults of the table; the id is the database's.\<close>

definition seed_project :: "uuid \<Rightarrow> seed_row \<Rightarrow> time \<Rightarrow> project_row" where
  "seed_project i r now = \<lparr>pr_id = i, pr_ki_project = sd_project r, pr_ki_domain = sd_domain r, pr_name = sd_name r,
     pr_state = PFree, pr_lab = None, pr_failures = 0, pr_changed_at = now, pr_created_at = now\<rparr>"

definition seed_insert :: "uuid \<Rightarrow> seed_row \<Rightarrow> int stmt" where
  "seed_insert i r now d =
     (if sd_project r \<in> pr_ki_project ` set (t_projects d) then Inr (0, d)
      else if i \<in> pr_id ` set (t_projects d) then Inl (unique_violation ''projects_pkey'')
      else Inr (1, d\<lparr>t_projects := t_projects d @ [seed_project i r now]\<rparr>))"

fun seed_loop :: "seed_row list \<Rightarrow> int \<Rightarrow> int \<Rightarrow> ('c, int \<times> int) prog" where
  "seed_loop [] inserted skipped = ret (inserted, skipped)"
| "seed_loop (r # rs) inserted skipped =
     bind new_uuid (\<lambda>i.
     bind (on_err (Wrapped (''insert '' @ sd_project r)) (conn_stmt (seed_insert i r))) (\<lambda>n.
     if n = 1 then seed_loop rs (inserted + 1) skipped else seed_loop rs inserted (skipped + 1)))"

record seed_outside =
  so_files :: "string \<Rightarrow> err + (err + string list) list"
  so_connect :: "string \<Rightarrow> err option"
  so_ping :: "string \<Rightarrow> err option"

definition seed_run :: "seed_outside \<Rightarrow> string \<Rightarrow> string \<Rightarrow> ('c, int \<times> int) prog" where
  "seed_run X path dsn =
     (case so_files X path of
        Inl e \<Rightarrow> throw (Wrapped ''read csv'' e)
      | Inr reads \<Rightarrow> bind (on_err (Wrapped ''read csv'') (from_sum (read_csv 0 reads))) (\<lambda>rows.
          if rows = [] then throw (Plain ''csv has no data rows'')
          else case so_connect X dsn of Some e \<Rightarrow> throw (Wrapped ''connect'' e)
          | None \<Rightarrow> (case so_ping X dsn of Some e \<Rightarrow> throw (Wrapped ''ping'' e)
            | None \<Rightarrow> seed_loop rows 0 0)))"

text \<open>The exit status of the process; the flag for the database falls back to \<open>PG_DSN\<close>.\<close>

definition seed_main :: "seed_outside \<Rightarrow> environment \<Rightarrow> string option \<Rightarrow> string option \<Rightarrow> 'c world \<Rightarrow> int \<times> 'c world" where
  "seed_main X env csv dsn_flag w =
     (let path = (case csv of None \<Rightarrow> [] | Some p \<Rightarrow> p); dsn = (case dsn_flag of None \<Rightarrow> env ''PG_DSN'' | Some s \<Rightarrow> s) in
      if path = [] \<or> dsn = [] then (2, w)
      else case seed_run X path dsn w of (Inl _, w') \<Rightarrow> (1, w') | (Inr _, w') \<Rightarrow> (0, w'))"

section \<open>What a seed does\<close>

text \<open>The rows that are new to a pool, each project once, in the order of the file.\<close>

fun missing :: "string set \<Rightarrow> seed_row list \<Rightarrow> seed_row list" where
  "missing known [] = []"
| "missing known (r # rs) =
     (if sd_project r \<in> known then missing known rs else r # missing (insert (sd_project r) known) rs)"

definition seeded :: "project_row \<Rightarrow> seed_row" where
  "seeded p = \<lparr>sd_project = pr_ki_project p, sd_domain = pr_ki_domain p, sd_name = pr_name p\<rparr>"

definition known_projects :: "db \<Rightarrow> string set" where
  "known_projects d = pr_ki_project ` set (t_projects d)"

text \<open>One statement: the row is there afterwards, and new when it was not.\<close>

lemma seed_insert_known: "sd_project r \<in> known_projects d \<Longrightarrow> seed_insert i r now d = Inr (0, d)"
  by (simp add: seed_insert_def known_projects_def)

lemma seed_insert_new:
  assumes "sd_project r \<notin> known_projects d" "seed_insert i r now d = Inr (n, d')"
  shows "\<exists>p. n = 1 \<and> d' = d\<lparr>t_projects := t_projects d @ [p]\<rparr> \<and> seeded p = r \<and> pr_id p = i \<and> i \<notin> pr_id ` set (t_projects d) \<and>
    pr_state p = PFree \<and> pr_lab p = None \<and> known_projects d' = insert (sd_project r) (known_projects d)"
  using assms by (intro exI [of _ "seed_project i r now"])
    (auto simp: seed_insert_def known_projects_def seeded_def seed_project_def split: if_splits)

lemma seed_insert_tables:
  assumes "tables_ok d" "i \<noteq> 0" "seed_insert i r now d = Inr (n, d')"
  shows "tables_ok d'"
proof (cases "sd_project r \<in> known_projects d")
  case True
  with assms show ?thesis by (simp add: seed_insert_known)
next
  case False
  from seed_insert_new [OF False assms(3)] assms(1,2) False show ?thesis
    by (auto simp: tables_ok_def labs_ok_def projects_ok_def project_row_ok_def known_projects_def seeded_def)
qed

lemma conn_stmt_cases:
  assumes "conn_stmt f w = (x, w')"
  obtains (failed) e where "x = Inl e" "w_db w' = w_db w" "w_snap w' = w_snap w" "w_env w' = w_env w"
  | (ran) now y where "x = Inr y" "f now (w_db w) = Inr (y, w_db w')" "w_snap w' = w_snap w" "w_env w' = w_env w"
  using assms by (auto simp: conn_stmt_def Let_def split: option.splits sum.splits)

text \<open>A pool and its rows afterwards: the old ones, and free projects for a part of what was missing.\<close>

definition grown :: "db \<Rightarrow> seed_row list \<Rightarrow> db \<Rightarrow> bool" where
  "grown d rs d' \<longleftrightarrow> (\<exists>new. d' = d\<lparr>t_projects := t_projects d @ new\<rparr> \<and> map seeded new = rs \<and>
     (\<forall>p \<in> set new. pr_state p = PFree \<and> pr_lab p = None))"

lemma grown_none: "grown d [] d"
  by (simp add: grown_def)

lemma grown_step:
  assumes "d1 = d\<lparr>t_projects := t_projects d @ [p]\<rparr>" "pr_state p = PFree" "pr_lab p = None" "grown d1 rs d'"
  shows "grown d (seeded p # rs) d'"
proof -
  from assms(4) obtain new where "d' = d1\<lparr>t_projects := t_projects d1 @ new\<rparr>" "map seeded new = rs"
    "\<forall>p \<in> set new. pr_state p = PFree \<and> pr_lab p = None" by (auto simp: grown_def)
  with assms(1-3) show ?thesis unfolding grown_def by (intro exI [of _ "p # new"]) simp
qed

lemma seed_loop_run:
  assumes "seed_loop rs a b w = (x, w')"
  shows "\<exists>m. grown (w_db w) (take m (missing (known_projects (w_db w)) rs)) (w_db w') \<and>
    (\<forall>k l. x = Inr (k, l) \<longrightarrow> (let new = missing (known_projects (w_db w)) rs in
       grown (w_db w) new (w_db w') \<and> k = a + int (length new) \<and> k + l = a + b + int (length rs)))"
  using assms
proof (induction rs arbitrary: a b w)
  case Nil
  then show ?case by (auto simp: ret_def grown_none)
next
  case (Cons r rs)
  define i where "i = e_uuid (w_env w) (w_draw w)"
  define w1 where "w1 = w\<lparr>w_draw := Suc (w_draw w)\<rparr>"
  obtain y w2 where st: "conn_stmt (seed_insert i r) w1 = (y, w2)" by fastforce
  from st show ?case
  proof (cases rule: conn_stmt_cases)
    case (failed e)
    with Cons.prems st have "w' = w2" "\<exists>e. x = Inl e"
      by (auto simp: new_uuid_def bind_def on_err_def i_def w1_def)
    with failed show ?thesis by (auto simp: w1_def grown_none intro!: exI [of _ 0])
  next
    case (ran now n)
    have db: "w_db w1 = w_db w" by (simp add: w1_def)
    from Cons.prems st ran have rest: "(if n = 1 then seed_loop rs (a + 1) b else seed_loop rs a (b + 1)) w2 = (x, w')"
      by (simp add: new_uuid_def bind_def on_err_def i_def w1_def)
    show ?thesis
    proof (cases "sd_project r \<in> known_projects (w_db w)")
      case True
      with ran(2) db have "n = 0" "w_db w2 = w_db w" by (auto simp: seed_insert_known)
      with rest Cons.IH [of a "b + 1" w2] True show ?thesis by (fastforce simp: Let_def)
    next
      case False
      from seed_insert_new [OF False] ran(2) db obtain p where p: "n = 1" "w_db w2 = (w_db w)\<lparr>t_projects := t_projects (w_db w) @ [p]\<rparr>"
        "seeded p = r" "pr_state p = PFree" "pr_lab p = None" "known_projects (w_db w2) = insert (sd_project r) (known_projects (w_db w))"
        by metis
      from rest p(1) Cons.IH [of "a + 1" b w2] obtain m where m:
        "grown (w_db w2) (take m (missing (known_projects (w_db w2)) rs)) (w_db w')"
        "\<forall>k l. x = Inr (k, l) \<longrightarrow> (let new = missing (known_projects (w_db w2)) rs in
           grown (w_db w2) new (w_db w') \<and> k = (a + 1) + int (length new) \<and> k + l = (a + 1) + b + int (length rs))" by auto
      note grow = grown_step [OF p(2,4,5)]
      from grow [OF m(1)] m(2) grow False p(3,6) show ?thesis
        by (intro exI [of _ "Suc m"]) (auto simp: Let_def)
    qed
  qed
qed

lemma seed_main_cases:
  assumes "seed_main X env csv flag w = (code, w')"
  obtains (untouched) "code \<noteq> 0" "w' = w"
  | (ran) reads rows x where "so_files X (case csv of None \<Rightarrow> [] | Some p \<Rightarrow> p) = Inr reads" "read_csv 0 reads = Inr rows"
      "seed_loop rows 0 0 w = (x, w')" "code = (case x of Inl _ \<Rightarrow> 1 | Inr _ \<Rightarrow> 0)"
proof -
  let ?path = "case csv of None \<Rightarrow> [] | Some p \<Rightarrow> p" and ?dsn = "case flag of None \<Rightarrow> env ''PG_DSN'' | Some s \<Rightarrow> s"
  have "(code \<noteq> 0 \<and> w' = w) \<or> (\<exists>reads rows x. so_files X ?path = Inr reads \<and> read_csv 0 reads = Inr rows \<and>
      seed_loop rows 0 0 w = (x, w') \<and> code = (case x of Inl _ \<Rightarrow> 1 | Inr _ \<Rightarrow> 0))"
    using assms
    by (auto simp: seed_main_def seed_run_def Let_def throw_def bind_def on_err_def from_sum_def ret_def
        split: if_splits sum.splits option.splits prod.splits)
  with that show thesis by blast
qed

text \<open>
  Seeding is exact and can be repeated: a run that ends well leaves every project of the file in the pool, adds those that
  were missing as free ones and nothing else, and says so; after it, a run on the same file adds nothing.
\<close>

fun_cases read_csv_record: "read_csv i (Inr [a, b, c] # rs) = Inr rows"

lemma read_csv_step:
  assumes "read_csv i (x # rs) = Inr rows"
  obtains a b c rest where "x = Inr [a, b, c]" "read_csv (Suc i) rs = Inr rest"
    "rows = rest \<or> (a \<noteq> [] \<and> b \<noteq> [] \<and> c \<noteq> [] \<and> rows = \<lparr>sd_project = a, sd_domain = b, sd_name = c\<rparr> # rest)"
proof (cases "\<exists>a b c. x = Inr [a, b, c]")
  case True
  then obtain a b c where x: "x = Inr [a, b, c]" by blast
  from assms show thesis unfolding x
    by (rule read_csv_record) (cases "read_csv (Suc i) rs"; auto intro: that [OF x] split: if_splits)
next
  case False
  with assms show thesis by (cases "(i, x # rs)" rule: read_csv.cases) auto
qed

text \<open>What a file is read as: rows of the file, with no field empty.\<close>

lemma read_csv_rows:
  "read_csv i rs = Inr rows \<Longrightarrow> r \<in> set rows \<Longrightarrow> sd_project r \<noteq> [] \<and> sd_domain r \<noteq> [] \<and> sd_name r \<noteq> [] \<and>
     Inr [sd_project r, sd_domain r, sd_name r] \<in> set rs"
proof (induction rs arbitrary: i rows)
  case (Cons x rs)
  from Cons.prems(1) show ?case
  proof (rule read_csv_step)
    fix a b c rest
    assume "x = Inr [a, b, c]" "read_csv (Suc i) rs = Inr rest"
      "rows = rest \<or> (a \<noteq> [] \<and> b \<noteq> [] \<and> c \<noteq> [] \<and> rows = \<lparr>sd_project = a, sd_domain = b, sd_name = c\<rparr> # rest)"
    with Cons.IH [of "Suc i" rest] Cons.prems(2) show ?case by (cases "r \<in> set rest") auto
  qed
qed simp

lemma missing_all: "sd_project ` set (missing known rs) = sd_project ` set rs - known"
  by (induction known rs rule: missing.induct) auto

lemma missing_none: "sd_project ` set rs \<subseteq> known \<Longrightarrow> missing known rs = []"
  by (induction known rs rule: missing.induct) auto

lemma grown_known: "grown d rs d' \<Longrightarrow> known_projects d' = known_projects d \<union> sd_project ` set rs"
  by (auto simp: grown_def known_projects_def seeded_def image_image)

lemma seed_exact:
  assumes "seed_loop rs 0 0 w = (Inr (k, l), w')"
  shows "grown (w_db w) (missing (known_projects (w_db w)) rs) (w_db w') \<and> k + l = int (length rs) \<and>
    sd_project ` set rs \<subseteq> known_projects (w_db w')"
proof -
  from seed_loop_run [OF assms] have g: "grown (w_db w) (missing (known_projects (w_db w)) rs) (w_db w')" "k + l = int (length rs)"
    by (auto simp: Let_def)
  from grown_known [OF g(1)] show ?thesis using g missing_all [of "known_projects (w_db w)" rs] by auto
qed

lemma seed_again:
  assumes "seed_loop rs 0 0 w = (Inr r, w')" "w_db v = w_db w'" "seed_loop rs 0 0 v = (Inr (k, l), v')"
  shows "k = 0 \<and> w_db v' = w_db v"
proof -
  have "missing (known_projects (w_db v)) rs = []"
    using seed_exact [of rs w "fst r" "snd r" w'] assms(1,2) by (intro missing_none) simp
  with seed_loop_run [OF assms(3)] show ?thesis by (auto simp: Let_def grown_def)
qed

text \<open>Whatever happens on the way, the constraints hold: the database draws no zero identifier.\<close>

lemma seed_loop_tables:
  assumes "seed_loop rs a b w = (x, w')" "rests tables_ok w" "\<forall>n. e_uuid (w_env w) n \<noteq> 0"
  shows "rests tables_ok w'"
  using assms
proof (induction rs arbitrary: a b w)
  case Nil
  then show ?case by (simp add: ret_def)
next
  case (Cons r rs)
  define i where "i = e_uuid (w_env w) (w_draw w)"
  define w1 where "w1 = w\<lparr>w_draw := Suc (w_draw w)\<rparr>"
  obtain y w2 where st: "conn_stmt (seed_insert i r) w1 = (y, w2)" by fastforce
  from st show ?case
  proof (cases rule: conn_stmt_cases)
    case (failed e)
    with Cons.prems st have "w' = w2" by (auto simp: new_uuid_def bind_def on_err_def i_def w1_def)
    with failed Cons.prems(2) show ?thesis by (simp add: rests_def w1_def)
  next
    case (ran now n)
    with Cons.prems(2,3) have "rests tables_ok w2" "w_env w2 = w_env w"
      using seed_insert_tables [of "w_db w" i r now n "w_db w2"] by (simp_all add: rests_def w1_def i_def)
    moreover from Cons.prems(1) st ran have "(if n = 1 then seed_loop rs (a + 1) b else seed_loop rs a (b + 1)) w2 = (x, w')"
      by (simp add: new_uuid_def bind_def on_err_def i_def w1_def)
    ultimately show ?thesis using Cons.IH [of _ _ w2] Cons.prems(3) by (auto split: if_splits)
  qed
qed

lemma empty_tables: "tables_ok empty_db"
  by (simp add: tables_ok_def labs_ok_def projects_ok_def empty_db_def)

text \<open>
  From an empty database on: whatever a seed does and however it ends, every run of the system after it meets the
  constraints, with the projects of the seed as its pool.
\<close>

lemma seeded_system_safe:
  assumes "w_db w = empty_db" "w_snap w = None" "\<forall>n. e_uuid (w_env w) n \<noteq> 0" "seed_main X env csv flag w = (code, w')"
    "(system_step G W P mux)\<^sup>*\<^sup>* (w_db w') d"
  shows "tables_ok d \<and> map pool_entry (t_projects d) = map pool_entry (t_projects (w_db w'))"
proof -
  have "rests tables_ok w" using assms(1,2) empty_tables by (simp add: rests_def)
  from assms(4) this have ok: "tables_ok (w_db w')"
    by (cases rule: seed_main_cases) (auto simp: rests_def dest: seed_loop_tables [OF _ _ assms(3)])
  have "pool_is (map pool_entry (t_projects (w_db w'))) (w_db w')" using ok by (simp add: pool_is_def tables_ok_def projects_ok_def)
  with run_pool [OF assms(5)] run_related [OF assms(5) ok] show ?thesis by (simp add: pool_is_def)
qed

end
