(* ===== verification/Spec2Isabelle.thy ===== *)
theory Spec2Isabelle
  imports Quota Secrets IdentityStore CheckDomain CloudFootprint Scenarios AdminApp OutboxApp HttpSchema OpenStackLabs Emulator Seed
begin

text \<open>
  Cloud Lab Gateway gives students of an LMS temporary laboratories in a private cloud. A student arrives by an LTI
  launch, asks for a lab, gets a project from a pool of cloud projects, and a saga deploys servers into it; later another
  saga tears the lab down and returns the project. Two processes share a PostgreSQL database, a task queue and a bus of
  events: the gateway (\<open>cmd/gateway\<close>), which answers HTTP, and the worker (\<open>cmd/worker\<close>), which runs the tasks. This
  development models the Go program from its domain to the two processes and proves what it promises.

  \<^bold>\<open>How the program is modelled.\<close> A struct is a record and an enumeration a datatype, with the names of the source.
  A function with effects is a term of the error-and-state monad of \<open>Prelude\<close>: it takes the world and returns an error or
  a value, with the new world. The world (\<open>World\<close>) holds the tables of the database, the open transaction, the state
  of the cloud and the accepted tasks; its environment decides what is not the program's choice: which statements and
  which calls fail, what the clock reads, which identifiers and random bytes are drawn, which rows others hold locked.
  Nothing is assumed of the environment unless a theorem says so, so a theorem about a run covers every failure. Errors
  are values: each error of the source, wrapped as there, is a branch. \<open>int\<close> and \<open>int64\<close> are integers with the wrap
  of 64 bits written out where the code computes with them (\<open>wrap64\<close>, \<open>int64\<close>), floats are rationals
  rounded as binary64 (\<open>Quota\<close>); bytes are numbers below 256.

  \<^bold>\<open>Theories and code.\<close> In the order of the program, under \<open>internal/\<close> unless the path begins otherwise:
  \<^item> \<open>Prelude\<close>, \<open>Shared\<close>, \<open>Repo\<close>: the monad with its triples \<open>spec\<close> and the closure predicate \<open>keeps\<close>, tables
    of rows, \<open>domain/shared\<close>, and the contract of a repository (\<open>aggregate_repo\<close>).
  \<^item> \<open>LabDomain\<close>, \<open>PoolDomain\<close>, \<open>Identity\<close>, \<open>CheckDomain\<close>, \<open>Quota\<close>: the aggregates of \<open>domain/\<close>, their state machines as
    step relations with invariants, the policy table, and the capacity guard, against its specification.
  \<^item> \<open>World\<close>, \<open>Ports\<close>: the tables of \<open>migrations/\<close>, the unit of work (\<open>pgxrepo/uow.go\<close>), the types of \<open>ports/\<close>.
  \<^item> \<open>PoolStore\<close>, \<open>LabStore\<close>, \<open>MiscStore\<close>, \<open>CheckStore\<close>, \<open>IdentityStore\<close>: the repositories (\<open>adapters/storage/pgxrepo\<close>) down
    to the SQL of \<open>sqlcgen\<close>, with the keys, unique indexes, checks and foreign keys of the schema.
  \<^item> \<open>Queue\<close> (\<open>adapters/queue/asynq\<close>), \<open>Secrets\<close> (\<open>adapters/secrets/envkek\<close>), \<open>LtiVerifier\<close> (\<open>adapters/lms/lti13\<close>, \<open>lti\<close>),
    \<open>AnsibleRunner\<close> (\<open>adapters/checker/ansible\<close>), \<open>SseBroker\<close> (\<open>adapters/sse\<close>), and two providers of the cloud:
    \<open>CloudInmem\<close> (\<open>adapters/cloud/inmem\<close>) and \<open>OpenStack\<close> (\<open>adapters/cloud/openstack\<close>).
  \<^item> \<open>LabApp\<close>, \<open>VerifyApp\<close>, \<open>MoodleApp\<close>, \<open>AdminApp\<close>, \<open>OutboxApp\<close>, \<open>DeployApp\<close>, \<open>CleanupApp\<close>: the use cases of \<open>app/\<close>. The
    proofs about the two sagas have theories of their own: \<open>Progress\<close>, \<open>DeployProgress\<close>, \<open>DeploySafety\<close>,
    \<open>CleanupSafety\<close>, \<open>CloudFootprint\<close>, \<open>Scenarios\<close>.
  \<^item> \<open>HttpSession\<close>, \<open>HttpTypes\<close>, \<open>HttpApi\<close>, \<open>HttpServer\<close>, \<open>HttpEntry\<close>: \<open>adapters/httpapi\<close> from the signed cookie to the
    table of routes; \<open>HttpSafety\<close> and \<open>HttpSchema\<close> hold what it guarantees.
  \<^item> \<open>Config\<close> (\<open>pkg/config\<close>), \<open>Processes\<close> (\<open>cmd/gateway\<close>, \<open>cmd/worker\<close>), \<open>SystemRun\<close>: the processes and their steps on the
    database; \<open>ProcessSafety\<close> and \<open>SystemSafety\<close> hold the properties of the whole.
  \<^item> \<open>Emulator\<close> (\<open>cmd/moodle-emulator\<close>): the LMS of the demo, whose launches the gateway accepts. \<open>Seed\<close> (\<open>cmd/seed\<close>): the
    command that fills the pool, from which every run of the system starts with its constraints met.

  \<^bold>\<open>Interfaces.\<close> Where a part relies on another only through what it promises, the promise is a locale, the facts are
  proved inside it, and it is interpreted on the model of the code:
  \<^item> \<open>aggregate_repo\<close>: a save replaces one row unless it is newer; interpreted for labs and projects. It gives what
    histories of competing saves do.
  \<^item> \<open>cloud_provider\<close>: what the sagas need of a provider, that creating is idempotent by name and deleting by
    identifier. The sagas are proved over it; it is interpreted for the in-memory provider, and proved of the OpenStack
    adapter under \<open>service_ok\<close>, what the documentation of the services promises (\<open>OpenStackContract\<close>).
  \<^item> \<open>key_provider\<close>: unwrapping undoes wrapping; interpreted for the key-encryption key of the environment.
  \<^item> \<open>check_runner\<close>: a verdict is final, and a pass has neither an error nor a bad step; interpreted for the Ansible runner.
  \<^item> \<open>frame_contract\<close>, \<open>table_contract\<close>, \<open>system_contract\<close>: what statements, and then use cases and handlers, owe a relation
    on the tables; a \<open>sublocale\<close> lifts the first to the last, so that an invariant of the system is
    checked statement by statement and a relation use case by use case.

  \<^bold>\<open>What the lemmas show.\<close>
  \<^item> Labs: creating a lab never overruns the guard, the pool or the one-active-lab rule, whatever fails and however often a
    request is repeated; every operation refines the state machine; any run of the whole system keeps the constraints
    of the tables, the projects of the pool, and moves every lab along its machine, never out of a final state.
  \<^item> Sagas: a delivery of a task changes only the rows of its lab, repeats accumulate nothing at the provider, the deploy
    settles in a bounded number of deliveries in a healthy world, and a project goes back to the pool only when the
    resources recorded for its lab are gone.
  \<^item> Access: a request reaches the use cases only with a valid session, in production a gateway is moved only by sessions
    and by launches the verifier accepted, a nonce is accepted once, a lab is shown only to whom the policy names, its
    key only to its student, an event only to its audience.
  \<^item> Data: what is saved is read back, secrets come back as they went in, bodies follow the OpenAPI document, events
    of committed transactions are published at least once.

  \<^bold>\<open>Bounds.\<close> Loops over lists are structural. The polls of the cloud (\<open>api_patience\<close> attempts, the deadline of the source's
  loop) and the rounds of a history carry an explicit number, over which the theorems quantify. \<open>deploy_settles\<close> gives
  the number of deliveries that is enough, the sum of the attempts left to the steps, and is the proof that it is. The
  buffer of a stream holds 32 events as in the source; what does not fit is dropped, and the theorems say so.

  \<^bold>\<open>Parameters.\<close> Code that is not in the repository is an argument of the definitions that use it, with what the code relies
  on as hypotheses, each of which is shown to be satisfiable by a witness: \<open>lib\<close> (AES-GCM, the text of UUIDs and times),
  \<open>jwt_lib\<close> and \<open>session_jwt\<close> (signed tokens), \<open>bind_lib\<close> and the router (binding and matching of requests), \<open>json_lib\<close>,
  \<open>emu_lib\<close> (keys, random bytes and signing for the emulator), the reader of CSV,
  \<open>os_ops\<close> and \<open>os_api\<close> (the operating system for the runner, the client of OpenStack), the replies of the platform's key
  endpoint, Redis and the queue's broker.

  \<^bold>\<open>Not modelled.\<close> Signals, shutdown, logging and flushing; goroutines other than those of the broker of events: a use case
  runs alone between the statements at which the environment may fail it, and competing transactions appear as locked rows
  and as histories of saves. The server of the queue (when a task is delivered) is outside: theorems hold for every series
  of deliveries. The migration command, the frontend and the playbooks are not part of the model; the schema of
  the migrations is in the statements. Of \<open>generated.go\<close>, the embedded document and its decompression are left out.
\<close>

end
